(* ===== verification/Prelude.thy ===== *)
theory Prelude
  imports Main "HOL-Library.Word" "HOL-Library.Char_ord" "HOL-Library.List_Lexorder"
begin

text \<open>
  Shared vocabulary of the development: Rust's machine integers, the string and
  byte operations of the standard library and of the \<open>hex\<close> and \<open>uuid\<close> crates that the
  sources use, and the generic lemmas about them.

  \<^item> \<open>u64\<close> is \<open>64 word\<close>; \<open>i32\<close> and \<open>i64\<close> are \<open>int\<close>, with the range, the saturation and the
    two's-complement casts written out where an operation can leave the range.
  \<^item> A Rust \<open>String\<close> is a \<open>string\<close>, a list of bytes. Case mapping and trimming act on
    the ASCII bytes only; every other byte is left as it is.
  \<^item> A \<open>Vec<u8>\<close> is a list of \<open>8 word\<close>, a \<open>Uuid\<close> a \<open>128 word\<close>, a Postgres
    \<open>TIMESTAMPTZ\<close> a count of microseconds.
\<close>

named_theorems stmt_defs
named_theorems guard_simps

section \<open>Types\<close>

type_synonym u64 = "64 word"
type_synonym u32 = "32 word"
type_synonym u16 = "16 word"
type_synonym byte = "8 word"
type_synonym uuid = "128 word"
type_synonym i64 = int
type_synonym i32 = int
type_synonym timestamp = int

definition seconds :: "int \<Rightarrow> timestamp" where
  "seconds n = n * 1000000"

section \<open>Machine integers\<close>

definition i64_min :: int where
  "i64_min = - (2 ^ 63)"

definition i64_max :: int where
  "i64_max = 2 ^ 63 - 1"

definition i32_max :: int where
  "i32_max = 2 ^ 31 - 1"

definition in_i64 :: "int \<Rightarrow> bool" where
  "in_i64 x \<longleftrightarrow> i64_min \<le> x \<and> x \<le> i64_max"

definition in_i32 :: "int \<Rightarrow> bool" where
  "in_i32 x \<longleftrightarrow> - (2 ^ 31) \<le> x \<and> x \<le> i32_max"

lemmas int_range_defs = i64_min_def i64_max_def i32_max_def in_i64_def in_i32_def

definition i64_clamp :: "int \<Rightarrow> i64" where
  "i64_clamp x = (if x < i64_min then i64_min else if x > i64_max then i64_max else x)"

definition i64_saturating_sub :: "i64 \<Rightarrow> i64 \<Rightarrow> i64" where
  "i64_saturating_sub a b = i64_clamp (a - b)"

definition i64_saturating_add :: "i64 \<Rightarrow> i64 \<Rightarrow> i64" where
  "i64_saturating_add a b = i64_clamp (a + b)"

definition i64_checked_add :: "i64 \<Rightarrow> i64 \<Rightarrow> i64 option" where
  "i64_checked_add a b = (if in_i64 (a + b) then Some (a + b) else None)"

definition i64_as_u64 :: "i64 \<Rightarrow> u64" where
  "i64_as_u64 x = word_of_int x"

definition u64_as_i64 :: "u64 \<Rightarrow> i64" where
  "u64_as_i64 w = sint w"

definition i64_as_i32 :: "i64 \<Rightarrow> i32" where
  "i64_as_i32 x = (x + 2 ^ 31) mod 2 ^ 32 - 2 ^ 31"

definition i64_try_from_u64 :: "u64 \<Rightarrow> i64 option" where
  "i64_try_from_u64 w = (if uint w \<le> i64_max then Some (uint w) else None)"

definition u64_saturating_sub :: "u64 \<Rightarrow> u64 \<Rightarrow> u64" where
  "u64_saturating_sub a b = (if a < b then 0 else a - b)"

definition u64_saturating_add :: "u64 \<Rightarrow> u64 \<Rightarrow> u64" where
  "u64_saturating_add a b = (if uint a + uint b < 2 ^ 64 then a + b else - 1)"

definition u64_checked_add :: "u64 \<Rightarrow> u64 \<Rightarrow> u64 option" where
  "u64_checked_add a b = (if uint a + uint b < 2 ^ 64 then Some (a + b) else None)"

text \<open>
  \<open>Iterator::sum\<close> over \<open>u64\<close> adds with the plain operator; the release profile sets
  \<open>overflow-checks = true\<close>, so an overflow panics: \<open>None\<close> here.
\<close>

fun u64_sum_from :: "u64 \<Rightarrow> u64 list \<Rightarrow> u64 option" where
  "u64_sum_from acc [] = Some acc"
| "u64_sum_from acc (x # xs) =
     (case u64_checked_add acc x of None \<Rightarrow> None | Some s \<Rightarrow> u64_sum_from s xs)"

definition u64_sum :: "u64 list \<Rightarrow> u64 option" where
  "u64_sum xs = u64_sum_from 0 xs"

text \<open>\<open>confs.min(i32::MAX as u64) as i32\<close>\<close>

definition u64_min_i32 :: "u64 \<Rightarrow> i32" where
  "u64_min_i32 w = uint (min w (word_of_int i32_max))"

lemma uint_u64_add:
  fixes a b :: u64
  assumes "uint a + uint b < 2 ^ 64"
  shows "uint (a + b) = uint a + uint b"
  using assms uint_add_lem [of a b] by simp

lemma u64_checked_add_Some:
  "u64_checked_add a b = Some c \<longleftrightarrow> uint a + uint b < 2 ^ 64 \<and> c = a + b"
  by (auto simp: u64_checked_add_def)

lemma u64_checked_add_uint:
  "u64_checked_add a b = Some c \<Longrightarrow> uint c = uint a + uint b"
  by (simp add: u64_checked_add_Some uint_u64_add)

lemma u64_sum_from_iff:
  "u64_sum_from acc xs = Some s \<longleftrightarrow>
     uint acc + sum_list (map uint xs) < 2 ^ 64 \<and> uint s = uint acc + sum_list (map uint xs)"
proof (induction xs arbitrary: acc)
  case Nil
  have "uint acc < 2 ^ 64" using uint_lt2p [of acc] by simp
  then show ?case by (auto simp: word_uint_eq_iff)
next
  case (Cons x xs)
  have nn: "0 \<le> sum_list (map uint xs)"
    by (rule sum_list_nonneg) auto
  show ?case
  proof (cases "uint acc + uint x < 2 ^ 64")
    case True
    then show ?thesis
      using Cons.IH [of "acc + x"]
      by (simp add: u64_checked_add_def uint_u64_add algebra_simps)
  next
    case False
    with nn show ?thesis by (auto simp: u64_checked_add_def)
  qed
qed

lemma u64_sum_iff:
  "u64_sum xs = Some s \<longleftrightarrow>
     sum_list (map uint xs) < 2 ^ 64 \<and> uint s = sum_list (map uint xs)"
  by (simp add: u64_sum_def u64_sum_from_iff)

lemma u64_sum_None:
  "u64_sum xs = None \<longleftrightarrow> 2 ^ 64 \<le> sum_list (map uint xs)"
proof -
  have nn: "0 \<le> sum_list (map uint xs)"
    by (rule sum_list_nonneg) auto
  show ?thesis
  proof (cases "sum_list (map uint xs) < 2 ^ 64")
    case True
    with nn have "uint (word_of_int (sum_list (map uint xs)) :: u64) = sum_list (map uint xs)"
      by (simp add: uint_word_of_int_eq take_bit_int_eq_self)
    with True have "u64_sum xs = Some (word_of_int (sum_list (map uint xs)))"
      by (simp add: u64_sum_iff)
    with True show ?thesis by simp
  next
    case False
    then have "u64_sum xs \<noteq> Some s" for s by (simp add: u64_sum_iff)
    with False show ?thesis by (cases "u64_sum xs") auto
  qed
qed

lemma uint_u64_saturating_sub:
  "uint (u64_saturating_sub a b) = max 0 (uint a - uint b)"
  using uint_sub_lem [of b a] by (auto simp: u64_saturating_sub_def word_less_def)

lemma uint_u64_saturating_add:
  "uint (u64_saturating_add a b) = min (uint a + uint b) (2 ^ 64 - 1)"
  by (auto simp: u64_saturating_add_def uint_u64_add unsigned_minus_1_eq_mask mask_eq_exp_minus_1)

lemma uint_i64_as_u64: "uint (i64_as_u64 x) = x mod 2 ^ 64"
  by (simp add: i64_as_u64_def uint_word_of_int_eq take_bit_eq_mod)

lemma uint_i64_as_u64_nonneg: "0 \<le> x \<Longrightarrow> x \<le> i64_max \<Longrightarrow> uint (i64_as_u64 x) = x"
  by (simp add: uint_i64_as_u64 i64_max_def)

lemma uint_i64_as_u64_neg: "i64_min \<le> x \<Longrightarrow> x < 0 \<Longrightarrow> uint (i64_as_u64 x) = 2 ^ 64 + x"
proof -
  assume r: "i64_min \<le> x" "x < 0"
  have "x mod 2 ^ 64 = (x + 2 ^ 64) mod 2 ^ 64" by simp
  also have "\<dots> = x + 2 ^ 64"
    using r by (intro mod_pos_pos_trivial) (simp_all add: i64_min_def)
  finally show ?thesis by (simp add: uint_i64_as_u64)
qed

lemma i64_as_i32_id: "in_i32 x \<Longrightarrow> i64_as_i32 x = x"
  by (simp add: i64_as_i32_def int_range_defs)

lemma u64_min_i32_bounds: "0 \<le> u64_min_i32 w \<and> u64_min_i32 w \<le> i32_max"
proof -
  have "min w (word_of_int i32_max) \<le> (word_of_int i32_max :: u64)" by simp
  then have "u64_min_i32 w \<le> uint (word_of_int i32_max :: u64)"
    by (simp add: u64_min_i32_def word_le_def)
  then show ?thesis by (simp add: u64_min_i32_def i32_max_def)
qed

section \<open>Options and lists\<close>

definition option_filter :: "('a \<Rightarrow> bool) \<Rightarrow> 'a option \<Rightarrow> 'a option" where
  "option_filter p x = (case x of None \<Rightarrow> None | Some v \<Rightarrow> if p v then Some v else None)"

definition option_or :: "'a option \<Rightarrow> 'a option \<Rightarrow> 'a option" where
  "option_or x y = (case x of None \<Rightarrow> y | Some v \<Rightarrow> Some v)"

definition coalesce :: "'a option \<Rightarrow> 'a \<Rightarrow> 'a option" where
  "coalesce x y = (case x of None \<Rightarrow> Some y | Some v \<Rightarrow> Some v)"

lemma option_filter_Some [simp]:
  "option_filter p x = Some v \<longleftrightarrow> x = Some v \<and> p v"
  by (auto simp: option_filter_def split: option.splits)

lemma coalesce_simps [simp]: "coalesce None y = Some y" "coalesce (Some v) y = Some v"
  by (simp_all add: coalesce_def)

lemma option_or_simps [simp]: "option_or None y = y" "option_or (Some v) y = Some v"
  by (simp_all add: option_or_def)

lemma find_Some_in: "find p xs = Some x \<Longrightarrow> x \<in> set xs \<and> p x"
  by (induction xs) (auto split: if_splits)

text \<open>A list splits in one way at the first, and at the last, occurrence of a separator.\<close>

lemma split_first:
  "xs @ z # us = ys @ z # vs \<Longrightarrow> z \<notin> set xs \<Longrightarrow> z \<notin> set ys \<Longrightarrow> xs = ys \<and> us = vs"
proof (induction xs arbitrary: ys)
  case Nil
  then show ?case by (cases ys) auto
next
  case (Cons x xs)
  then show ?case by (cases ys) auto
qed

lemma split_last:
  assumes "xs @ z # us = ys @ z # vs" "z \<notin> set us" "z \<notin> set vs"
  shows "xs = ys \<and> us = vs"
proof -
  from assms(1) have "rev us @ z # rev xs = rev vs @ z # rev ys" by (metis append_assoc append_Cons append_Nil rev.simps(2) rev_append)
  from split_first [OF this] assms(2,3) show ?thesis by simp
qed

end
