(* ===== verification/Rust_Text.thy ===== *)
theory Rust_Text
  imports Prelude
begin

text \<open>
  The string operations of Rust's standard library that the sources call
  (\<open>to_lowercase\<close>, \<open>trim\<close>, \<open>strip_prefix\<close>, \<open>split_once\<close>, \<dots>), and the record \<open>crates\<close>
  of the third-party formatting functions they call: \<open>hex::encode\<close>, \<open>hex::decode\<close>, the
  \<open>Display\<close> of a \<open>Uuid\<close> and \<open>to_rfc3339\<close>. These are parameters; \<open>hex_laws\<close> states what
  the \<open>hex\<close> crate documents, and a concrete codec shows that the laws can hold.
\<close>

section \<open>Characters\<close>

definition is_ascii_digit :: "char \<Rightarrow> bool" where
  "is_ascii_digit c \<longleftrightarrow> 48 \<le> (of_char c :: nat) \<and> (of_char c :: nat) \<le> 57"

definition is_ascii_upper :: "char \<Rightarrow> bool" where
  "is_ascii_upper c \<longleftrightarrow> 65 \<le> (of_char c :: nat) \<and> (of_char c :: nat) \<le> 90"

definition is_ascii_lower :: "char \<Rightarrow> bool" where
  "is_ascii_lower c \<longleftrightarrow> 97 \<le> (of_char c :: nat) \<and> (of_char c :: nat) \<le> 122"

definition is_ascii_alphanumeric :: "char \<Rightarrow> bool" where
  "is_ascii_alphanumeric c \<longleftrightarrow> is_ascii_digit c \<or> is_ascii_upper c \<or> is_ascii_lower c"

definition is_whitespace :: "char \<Rightarrow> bool" where
  "is_whitespace c \<longleftrightarrow> (of_char c :: nat) \<in> {9, 10, 11, 12, 13, 32}"

definition char_lower :: "char \<Rightarrow> char" where
  "char_lower c = (if is_ascii_upper c then char_of ((of_char c :: nat) + 32) else c)"

definition char_upper :: "char \<Rightarrow> char" where
  "char_upper c = (if is_ascii_lower c then char_of ((of_char c :: nat) - 32) else c)"

lemma of_char_less_256: "(of_char c :: nat) < 256"
proof -
  have "(of_char c :: nat) = of_char (char_of (of_char c :: nat))" by simp
  also have "\<dots> = (of_char c :: nat) mod 256" by (simp only: of_char_of)
  finally show ?thesis by (metis mod_less_divisor zero_less_numeral)
qed

section \<open>Strings\<close>

definition to_lowercase :: "string \<Rightarrow> string" where
  "to_lowercase s = map char_lower s"

definition to_uppercase :: "string \<Rightarrow> string" where
  "to_uppercase s = map char_upper s"

definition eq_ignore_ascii_case :: "string \<Rightarrow> string \<Rightarrow> bool" where
  "eq_ignore_ascii_case a b \<longleftrightarrow> to_lowercase a = to_lowercase b"

definition trim_start_matches :: "char \<Rightarrow> string \<Rightarrow> string" where
  "trim_start_matches c s = dropWhile (\<lambda>x. x = c) s"

definition trim_end_matches :: "char \<Rightarrow> string \<Rightarrow> string" where
  "trim_end_matches c s = rev (dropWhile (\<lambda>x. x = c) (rev s))"

definition trim :: "string \<Rightarrow> string" where
  "trim s = rev (dropWhile is_whitespace (rev (dropWhile is_whitespace s)))"

fun strip_prefix :: "string \<Rightarrow> string \<Rightarrow> string option" where
  "strip_prefix [] s = Some s"
| "strip_prefix (p # ps) [] = None"
| "strip_prefix (p # ps) (c # cs) = (if p = c then strip_prefix ps cs else None)"

text \<open>\<open>split_once\<close> splits at the first occurrence of the pattern.\<close>

fun split_once :: "string \<Rightarrow> string \<Rightarrow> (string \<times> string) option" where
  "split_once pat [] = (if pat = [] then Some ([], []) else None)"
| "split_once pat (c # cs) =
     (case strip_prefix pat (c # cs) of
        Some rest \<Rightarrow> Some ([], rest)
      | None \<Rightarrow>
          (case split_once pat cs of
             None \<Rightarrow> None
           | Some (a, b) \<Rightarrow> Some (c # a, b)))"

text \<open>\<open>rsplit_once\<close> on a single character splits at its last occurrence.\<close>

definition rsplit_once_char :: "char \<Rightarrow> string \<Rightarrow> (string \<times> string) option" where
  "rsplit_once_char c s =
     (case split_once [c] (rev s) of
        None \<Rightarrow> None
      | Some (a, b) \<Rightarrow> Some (rev b, rev a))"

lemma strip_prefix_Some: "strip_prefix p s = Some r \<longleftrightarrow> s = p @ r"
  by (induction p s rule: strip_prefix.induct) auto

lemma split_once_Some: "split_once p s = Some (a, b) \<Longrightarrow> s = a @ p @ b"
  by (induction p s arbitrary: a rule: split_once.induct)
     (auto split: option.splits if_splits simp: strip_prefix_Some)

lemma rsplit_once_char_Some: "rsplit_once_char c s = Some (a, b) \<Longrightarrow> s = a @ c # b"
  by (auto simp: rsplit_once_char_def split: option.splits dest!: split_once_Some)
     (metis append_Cons append_Nil append_assoc rev.simps(2) rev_append rev_rev_ident)

lemma length_to_lowercase [simp]: "length (to_lowercase s) = length s"
  by (simp add: to_lowercase_def)

lemma char_lower_idem [simp]: "char_lower (char_lower c) = char_lower c"
proof (cases "is_ascii_upper c")
  case True
  then have "(of_char (char_of ((of_char c :: nat) + 32)) :: nat) = of_char c + 32"
    by (simp add: is_ascii_upper_def)
  with True show ?thesis by (auto simp: char_lower_def is_ascii_upper_def)
next
  case False
  then show ?thesis by (simp add: char_lower_def)
qed

lemma to_lowercase_idem [simp]: "to_lowercase (to_lowercase s) = to_lowercase s"
  by (simp add: to_lowercase_def)

lemma trim_nonempty_hd: "trim s \<noteq> [] \<Longrightarrow> \<not> is_whitespace (last (trim s))"
  by (simp add: trim_def last_rev hd_dropWhile)

text \<open>The em dash of a message, as UTF-8.\<close>

definition em_dash :: string where
  "em_dash = [CHR 0xE2, CHR 0x80, CHR 0x94]"

text \<open>A single quote, which a string literal cannot hold.\<close>

definition quote :: string where
  "quote = [CHR 0x27]"

section \<open>Hexadecimal\<close>

definition hex_digit :: "nat \<Rightarrow> char" where
  "hex_digit n = (if n < 10 then char_of (48 + n) else char_of (87 + n))"

definition hex_val :: "char \<Rightarrow> nat option" where
  "hex_val c =
     (let n = (of_char c :: nat) in
      if 48 \<le> n \<and> n \<le> 57 then Some (n - 48)
      else if 97 \<le> n \<and> n \<le> 102 then Some (n - 87)
      else if 65 \<le> n \<and> n \<le> 70 then Some (n - 55)
      else None)"

definition is_ascii_hexdigit :: "char \<Rightarrow> bool" where
  "is_ascii_hexdigit c \<longleftrightarrow> hex_val c \<noteq> None"

text \<open>A concrete codec with the documented behaviour.\<close>

fun hex_encode_ref :: "byte list \<Rightarrow> string" where
  "hex_encode_ref [] = []"
| "hex_encode_ref (b # bs) =
     hex_digit (unat b div 16) # hex_digit (unat b mod 16) # hex_encode_ref bs"

fun hex_decode_ref :: "string \<Rightarrow> byte list option" where
  "hex_decode_ref [] = Some []"
| "hex_decode_ref [c] = None"
| "hex_decode_ref (c # d # cs) =
     (case (hex_val c, hex_val d, hex_decode_ref cs) of
        (Some h, Some l, Some bs) \<Rightarrow> Some (of_nat (16 * h + l) # bs)
      | _ \<Rightarrow> None)"

lemma hex_val_less: "hex_val c = Some n \<Longrightarrow> n < 16"
  by (auto simp: hex_val_def Let_def split: if_splits)

lemma hex_val_hex_digit: "n < 16 \<Longrightarrow> hex_val (hex_digit n) = Some n"
  by (auto simp: hex_val_def hex_digit_def Let_def)

lemma hex_digit_hex_val: "hex_val c = Some n \<Longrightarrow> hex_digit n = char_lower c"
proof -
  assume v: "hex_val c = Some n"
  have lt: "(of_char c :: nat) < 256" by (rule of_char_less_256)
  have c: "char_of (of_char c :: nat) = c" by simp
  from v show ?thesis
    by (auto simp: hex_val_def hex_digit_def char_lower_def is_ascii_upper_def Let_def
        split: if_splits)
qed

lemma length_hex_encode [simp]: "length (hex_encode_ref bs) = 2 * length bs"
  by (induction bs) auto

lemma hex_decode_encode [simp]: "hex_decode_ref (hex_encode_ref bs) = Some bs"
proof (induction bs)
  case Nil
  show ?case by simp
next
  case (Cons b bs)
  have lt: "unat b < 256" using unsigned_less [of b, where ?'a = nat] by simp
  have "(of_nat (16 * (unat b div 16) + unat b mod 16) :: byte) = b"
    by (simp add: mult.commute)
  with Cons.IH lt show ?case
    by (simp add: hex_val_hex_digit)
qed

lemma hex_encode_decode: "hex_decode_ref s = Some bs \<Longrightarrow> hex_encode_ref bs = to_lowercase s"
proof (induction s arbitrary: bs rule: hex_decode_ref.induct)
  case 1
  then show ?case by (simp add: to_lowercase_def)
next
  case (2 c)
  then show ?case by simp
next
  case (3 c d cs)
  from "3.prems" obtain h l bs' where
    v: "hex_val c = Some h" "hex_val d = Some l" "hex_decode_ref cs = Some bs'"
    and bs: "bs = of_nat (16 * h + l) # bs'"
    by (auto split: option.splits)
  have hl: "h < 16" "l < 16" using v hex_val_less by auto
  then have u: "unat (of_nat (16 * h + l) :: byte) = 16 * h + l"
    by (subst unat_of_nat) simp
  have "hex_encode_ref bs' = to_lowercase cs" using "3.IH" v(3) by simp
  moreover have "hex_encode_ref bs = hex_digit h # hex_digit l # hex_encode_ref bs'"
    unfolding bs hex_encode_ref.simps(2) u using hl by simp
  ultimately show ?case using v by (simp add: to_lowercase_def hex_digit_hex_val)
qed

lemma hex_decode_length: "hex_decode_ref s = Some bs \<Longrightarrow> length s = 2 * length bs"
  using hex_encode_decode [of s bs] length_hex_encode [of bs] length_to_lowercase [of s] by simp

lemma hex_decode_Some_iff:
  "(\<exists>bs. hex_decode_ref s = Some bs) \<longleftrightarrow> even (length s) \<and> (\<forall>c \<in> set s. is_ascii_hexdigit c)"
  by (induction s rule: hex_decode_ref.induct) (auto simp: is_ascii_hexdigit_def split: option.splits)

section \<open>Decimal formatting\<close>

text \<open>\<open>Display\<close> of an integer.\<close>

fun nat_to_string :: "nat \<Rightarrow> string" where
  "nat_to_string n =
     (if n < 10 then [hex_digit n] else nat_to_string (n div 10) @ [hex_digit (n mod 10)])"

declare nat_to_string.simps [simp del]

definition int_to_string :: "int \<Rightarrow> string" where
  "int_to_string i = (if i < 0 then ''-'' @ nat_to_string (nat (- i)) else nat_to_string (nat i))"

lemma hex_digit_inj: "m < 16 \<Longrightarrow> n < 16 \<Longrightarrow> hex_digit m = hex_digit n \<Longrightarrow> m = n"
  by (metis hex_val_hex_digit option.inject)

lemma nat_to_string_inj: "nat_to_string m = nat_to_string n \<Longrightarrow> m = n"
proof (induction m arbitrary: n rule: nat_to_string.induct)
  case (1 m)
  have ne: "nat_to_string k \<noteq> []" for k by (subst nat_to_string.simps) simp
  from "1.prems" have e: "(if m < 10 then [hex_digit m] else nat_to_string (m div 10) @ [hex_digit (m mod 10)]) =
      (if n < 10 then [hex_digit n] else nat_to_string (n div 10) @ [hex_digit (n mod 10)])"
    by (metis nat_to_string.simps)
  then have d: "hex_digit (m mod 10) = hex_digit (n mod 10)" "m < 10 \<longleftrightarrow> n < 10"
    using ne ne [symmetric] by (auto split: if_splits)
  have "m mod 10 = n mod 10" by (rule hex_digit_inj [OF _ _ d(1)]) (simp_all add: less_trans [OF mod_less_divisor])
  moreover have "m div 10 = n div 10"
    using "1.IH" [of "n div 10"] e d(2) by (cases "m < 10") auto
  ultimately show ?case by (metis div_mult_mod_eq)
qed

lemma nat_to_string_digits: "c \<in> set (nat_to_string n) \<Longrightarrow> c \<in> hex_digit ` {..<10}"
proof (induction n rule: nat_to_string.induct)
  case (1 n)
  then show ?case by (subst (asm) (2) nat_to_string.simps) (auto split: if_splits)
qed

lemma digits_plain: "c \<in> hex_digit ` {..<10} \<Longrightarrow> c \<noteq> CHR ''-'' \<and> c \<noteq> CHR ''|''"
proof -
  assume "c \<in> hex_digit ` {..<10}"
  moreover have "list_all (\<lambda>n. hex_digit n \<noteq> CHR ''-'' \<and> hex_digit n \<noteq> CHR ''|'') [0..<10]" by code_simp
  ultimately show ?thesis by (auto simp: list_all_iff)
qed

lemma int_to_string_inj: "int_to_string i = int_to_string j \<Longrightarrow> i = j"
proof -
  have ne: "nat_to_string k \<noteq> CHR ''-'' # w" for k w
    using nat_to_string_digits [of "CHR ''-''" k] digits_plain [of "CHR ''-''"] by auto
  assume "int_to_string i = int_to_string j"
  then show ?thesis
    using ne by (auto simp: int_to_string_def dest: nat_to_string_inj split: if_splits) (metis ne)+
qed

lemma int_to_string_no_bar: "CHR ''|'' \<notin> set (int_to_string i)"
  using nat_to_string_digits digits_plain by (auto simp: int_to_string_def)

section \<open>The formatting crates\<close>

record crates =
  hex_encode :: "byte list \<Rightarrow> string"
  hex_decode :: "string \<Rightarrow> byte list option"
  uuid_to_string :: "uuid \<Rightarrow> string"
  rfc3339 :: "timestamp \<Rightarrow> string"

text \<open>Decoding inverts encoding, encoding a decoded string gives it in lower case, and a string
  decodes exactly when it has an even number of hexadecimal digits.\<close>

definition hex_laws :: "'a crates_scheme \<Rightarrow> bool" where
  "hex_laws c \<longleftrightarrow>
     (\<forall>bs. hex_decode c (hex_encode c bs) = Some bs) \<and>
     (\<forall>s bs. hex_decode c s = Some bs \<longrightarrow> hex_encode c bs = to_lowercase s) \<and>
     (\<forall>s. hex_decode c s \<noteq> None \<longleftrightarrow> even (length s) \<and> list_all is_ascii_hexdigit s)"

lemma hex_laws_ref:
  "hex_encode c = hex_encode_ref \<Longrightarrow> hex_decode c = hex_decode_ref \<Longrightarrow> hex_laws c"
  using hex_decode_Some_iff by (auto simp: hex_laws_def hex_encode_decode list_all_iff)

end
