(* ===== verification/App_Error.thy ===== *)
theory App_Error
  imports Rust_Text
begin

text \<open>
  \<open>src/src/error.rs\<close>: the application error, its machine-readable code, its rendering
  as an HTTP response (the leaky variants are replaced by a generic message) and the
  \<open>Result\<close> type of the handlers with Rust's \<open>?\<close> operator.
\<close>

datatype app_error =
    ConfigError string
  | DatabaseError string
  | AuthError string
  | NodeError string
  | ValidationError string
  | NotFound string
  | Forbidden string
  | Conflict string
  | PaymentPending string
  | RateLimited
  | Internal string

type_synonym 'a result = "app_error + 'a"

fun error_display :: "app_error \<Rightarrow> string" where
  "error_display (ConfigError msg) = ''Configuration error: '' @ msg"
| "error_display (DatabaseError msg) = ''Database error: '' @ msg"
| "error_display (AuthError msg) = ''Authentication error: '' @ msg"
| "error_display (NodeError msg) = ''Node error: '' @ msg"
| "error_display (ValidationError msg) = ''Validation error: '' @ msg"
| "error_display (NotFound msg) = ''Not found: '' @ msg"
| "error_display (Forbidden msg) = ''Forbidden: '' @ msg"
| "error_display (Conflict msg) = ''Conflict: '' @ msg"
| "error_display (PaymentPending msg) = ''Payment pending: '' @ msg"
| "error_display RateLimited = ''Rate limited''"
| "error_display (Internal msg) = ''Internal error: '' @ msg"

fun error_code :: "app_error \<Rightarrow> string" where
  "error_code (ConfigError _) = ''INTERNAL_ERROR''"
| "error_code (DatabaseError _) = ''INTERNAL_ERROR''"
| "error_code (AuthError _) = ''AUTH_ERROR''"
| "error_code (NodeError _) = ''NODE_UNAVAILABLE''"
| "error_code (ValidationError _) = ''VALIDATION_ERROR''"
| "error_code (NotFound _) = ''NOT_FOUND''"
| "error_code (Forbidden _) = ''FORBIDDEN''"
| "error_code (Conflict _) = ''CONFLICT''"
| "error_code (PaymentPending _) = ''PAYMENT_PENDING''"
| "error_code RateLimited = ''RATE_LIMITED''"
| "error_code (Internal _) = ''INTERNAL_ERROR''"

record error_response =
  resp_status :: nat
  resp_error :: string
  resp_code :: string

fun error_status_message :: "app_error \<Rightarrow> nat \<times> string" where
  "error_status_message (ConfigError inner) = (500, ''Internal server error'')"
| "error_status_message (DatabaseError inner) = (500, ''Internal server error'')"
| "error_status_message (NodeError inner) = (503, ''Upstream node unavailable'')"
| "error_status_message (Internal inner) = (500, ''Internal server error'')"
| "error_status_message (AuthError msg) = (401, msg)"
| "error_status_message (ValidationError msg) = (400, msg)"
| "error_status_message (NotFound msg) = (404, msg)"
| "error_status_message (Forbidden msg) = (403, msg)"
| "error_status_message (Conflict msg) = (409, msg)"
| "error_status_message (PaymentPending msg) = (400, msg)"
| "error_status_message RateLimited = (429, ''Rate limited'')"

definition error_into_response :: "app_error \<Rightarrow> error_response" where
  "error_into_response e =
     (let code = error_code e; (status, message) = error_status_message e in
      \<lparr>resp_status = status, resp_error = message, resp_code = code\<rparr>)"

text \<open>The variants that carry an internal string (an \<open>sqlx\<close> or \<open>reqwest\<close> error, a
  configuration value).\<close>

fun leaky :: "app_error \<Rightarrow> bool" where
  "leaky (ConfigError _) = True"
| "leaky (DatabaseError _) = True"
| "leaky (NodeError _) = True"
| "leaky (Internal _) = True"
| "leaky _ = False"

text \<open>Replacing the inner string of an error.\<close>

fun with_inner :: "string \<Rightarrow> app_error \<Rightarrow> app_error" where
  "with_inner m (ConfigError _) = ConfigError m"
| "with_inner m (DatabaseError _) = DatabaseError m"
| "with_inner m (AuthError _) = AuthError m"
| "with_inner m (NodeError _) = NodeError m"
| "with_inner m (ValidationError _) = ValidationError m"
| "with_inner m (NotFound _) = NotFound m"
| "with_inner m (Forbidden _) = Forbidden m"
| "with_inner m (Conflict _) = Conflict m"
| "with_inner m (PaymentPending _) = PaymentPending m"
| "with_inner m RateLimited = RateLimited"
| "with_inner m (Internal _) = Internal m"

text \<open>Rust's \<open>?\<close> on a pure result.\<close>

definition try_bind :: "'a result \<Rightarrow> ('a \<Rightarrow> 'b result) \<Rightarrow> 'b result" where
  "try_bind r f = (case r of Inl e \<Rightarrow> Inl e | Inr x \<Rightarrow> f x)"

lemma try_bind_Inr [simp]:
  "try_bind r f = Inr y \<longleftrightarrow> (\<exists>x. r = Inr x \<and> f x = Inr y)"
  by (cases r) (auto simp: try_bind_def)

lemma try_bind_simps [simp]:
  "try_bind (Inl e) f = Inl e"
  "try_bind (Inr x) f = f x"
  by (simp_all add: try_bind_def)

definition ok_or :: "'a option \<Rightarrow> app_error \<Rightarrow> 'a result" where
  "ok_or x e = (case x of None \<Rightarrow> Inl e | Some v \<Rightarrow> Inr v)"

lemma ok_or_simps [simp]: "ok_or None e = Inl e" "ok_or (Some v) e = Inr v"
  by (simp_all add: ok_or_def)

lemma ok_or_Inr [simp]: "ok_or x e = Inr v \<longleftrightarrow> x = Some v"
  by (cases x) simp_all

definition ensure :: "bool \<Rightarrow> app_error \<Rightarrow> unit result" where
  "ensure b e = (if b then Inr () else Inl e)"

lemma ensure_Inr [simp]: "ensure b e = Inr u \<longleftrightarrow> b"
  by (simp add: ensure_def)

lemma ensure_simps [simp]: "ensure True e = Inr ()" "ensure False e = Inl e"
  by (simp_all add: ensure_def)

text \<open>No internal text leaves the server: the response to an error that carries an internal string
  (database, configuration, upstream node, internal) is the same whatever that string is, and these
  are exactly the responses in the 5xx range; every other error keeps its 4xx status whatever its
  message.\<close>

theorem internal_errors_do_not_leak:
  "(leaky e \<longrightarrow> error_into_response (with_inner m e) = error_into_response e) \<and>
   (leaky e \<longleftrightarrow> 500 \<le> resp_status (error_into_response e)) \<and>
   400 \<le> resp_status (error_into_response e) \<and>
   resp_status (error_into_response (with_inner m e)) = resp_status (error_into_response e)"
  by (cases e) (simp_all add: error_into_response_def)

theorem internal_errors_do_not_leak_witness:
  "error_into_response (with_inner ''other'' (DatabaseError ''relation users does not exist'')) =
     error_into_response (DatabaseError ''relation users does not exist'')"
  using internal_errors_do_not_leak [of "DatabaseError ''relation users does not exist''" "''other''"] by simp

end
