(* ===== verification/Actions.thy ===== *)
theory Actions
  imports App_Error
begin

text \<open>
  Stateful operations. An action takes the state and gives a \<open>Result\<close> and the state after it; the \<open>?\<close>
  operator after an awaited call is \<open>stmt_bind\<close>: an error ends the caller and what was written so
  far stays. \<open>transaction\<close> is a block between \<open>begin\<close> and \<open>commit\<close>: an error rolls the state back.
  \<open>ignoring\<close> is \<open>let _ = ...\<close>, \<open>on_part\<close> runs an action on a component of a larger state.

  The interface \<open>effect_bound\<close> is a relation between the states before and after: any reflexive and
  transitive relation that bounds the effect of the parts bounds the effect of the whole. Each
  client of the database states the relation it promises and inherits the composition rules.
\<close>

named_theorems within_intros

type_synonym ('s, 'a) action = "'s \<Rightarrow> 'a result \<times> 's"

section \<open>Combinators\<close>

definition stmt_bind :: "('s, 'a) action \<Rightarrow> ('a \<Rightarrow> ('s, 'b) action) \<Rightarrow> ('s, 'b) action" where
  "stmt_bind m f s =
     (case m s of
        (Inl e, s') \<Rightarrow> (Inl e, s')
      | (Inr x, s') \<Rightarrow> f x s')"

definition stmt_return :: "'a result \<Rightarrow> ('s, 'a) action" where
  "stmt_return r s = (r, s)"

definition ignoring :: "('s, 'a) action \<Rightarrow> ('s, unit) action" where
  "ignoring m s = (Inr (), snd (m s))"

definition transaction :: "('s, 'a) action \<Rightarrow> ('s, 'a) action" where
  "transaction m s = (case m s of (Inl e, s') \<Rightarrow> (Inl e, s) | (Inr x, s') \<Rightarrow> (Inr x, s'))"

definition on_part :: "('s \<Rightarrow> 'p) \<Rightarrow> ('p \<Rightarrow> 's \<Rightarrow> 's) \<Rightarrow> ('p, 'a) action \<Rightarrow> ('s, 'a) action" where
  "on_part part put m s = (let (r, p) = m (part s) in (r, put p s))"

definition require_some :: "app_error \<Rightarrow> 'a option \<Rightarrow> ('s, 'a) action" where
  "require_some e x = stmt_return (ok_or x e)"

fun for_all_do :: "('a \<Rightarrow> ('s, 'b) action) \<Rightarrow> 'a list \<Rightarrow> ('s, unit) action" where
  "for_all_do f [] = stmt_return (Inr ())"
| "for_all_do f (x # xs) = stmt_bind (f x) (\<lambda>y. for_all_do f xs)"

lemma stmt_return_simps [simp]: "stmt_return r s = (r, s)"
  by (simp add: stmt_return_def)

lemma require_some_simps [simp]:
  "require_some e None s = (Inl e, s)" "require_some e (Some x) s = (Inr x, s)"
  by (simp_all add: require_some_def)

lemma stmt_bind_Inr:
  "stmt_bind m f s = (Inr y, s') \<longleftrightarrow> (\<exists>x s1. m s = (Inr x, s1) \<and> f x s1 = (Inr y, s'))"
  by (auto simp: stmt_bind_def split: prod.splits sum.splits)

lemma stmt_bind_Inl:
  "stmt_bind m f s = (Inl e, s') \<longleftrightarrow>
     m s = (Inl e, s') \<or> (\<exists>x s1. m s = (Inr x, s1) \<and> f x s1 = (Inl e, s'))"
  by (auto simp: stmt_bind_def split: prod.splits sum.splits)

lemma stmt_bind_at:
  "m s = (Inr x, s1) \<Longrightarrow> stmt_bind m f s = f x s1"
  "m s = (Inl e, s1) \<Longrightarrow> stmt_bind m f s = (Inl e, s1)"
  by (simp_all add: stmt_bind_def)

lemma stmt_bind_return [simp]:
  "stmt_bind (stmt_return (Inr x)) f = f x"
  "stmt_bind (stmt_return (Inl e)) f = stmt_return (Inl e)"
  by (auto simp: stmt_bind_def)

lemma stmt_bind_assoc: "stmt_bind (stmt_bind m f) g = stmt_bind m (\<lambda>x. stmt_bind (f x) g)"
  by (rule ext) (auto simp: stmt_bind_def split: prod.splits sum.splits)

lemma ignoring_simps [simp]: "fst (ignoring m s) = Inr ()" "snd (ignoring m s) = snd (m s)"
  by (simp_all add: ignoring_def)

lemma transaction_Inl: "fst (transaction m s) = Inl e \<Longrightarrow> snd (transaction m s) = s"
  by (auto simp: transaction_def split: prod.splits sum.splits)

lemma transaction_Inr: "transaction m s = (Inr x, s') \<longleftrightarrow> m s = (Inr x, s')"
  by (auto simp: transaction_def split: prod.splits sum.splits)

lemma fst_transaction [simp]: "fst (transaction m s) = fst (m s)"
  by (auto simp: transaction_def split: prod.splits sum.splits)

section \<open>Bounds on effects\<close>

definition within :: "('s \<Rightarrow> 's \<Rightarrow> bool) \<Rightarrow> ('s, 'a) action \<Rightarrow> bool" where
  "within R m \<longleftrightarrow> (\<forall>s. R s (snd (m s)))"

lemma withinI: "(\<And>s. R s (snd (m s))) \<Longrightarrow> within R m"
  by (simp add: within_def)

lemma withinD: "within R m \<Longrightarrow> R s (snd (m s))"
  by (simp add: within_def)

lemma withinE: "within R m \<Longrightarrow> m s = (r, s') \<Longrightarrow> R s s'"
  by (metis snd_conv withinD)

lemma within_mono: "within R m \<Longrightarrow> (\<And>s t. R s t \<Longrightarrow> Q s t) \<Longrightarrow> within Q m"
  by (simp add: within_def)

lemma within_option [within_intros]:
  "within R m \<Longrightarrow> (\<And>x. within R (f x)) \<Longrightarrow> within R (case z of None \<Rightarrow> m | Some x \<Rightarrow> f x)"
  by (cases z) simp_all

lemma within_if [within_intros]:
  "(b \<Longrightarrow> within R m) \<Longrightarrow> (\<not> b \<Longrightarrow> within R n) \<Longrightarrow> within R (if b then m else n)"
  by simp

lemma within_prod [within_intros]:
  "(\<And>x y. within R (f x y)) \<Longrightarrow> within R (case z of (x, y) \<Rightarrow> f x y)"
  by (cases z) simp

lemma within_prod_app [within_intros]:
  "(\<And>x y. within R (f x y w)) \<Longrightarrow> within R ((case z of (x, y) \<Rightarrow> f x y) w)"
  by (cases z) simp

lemma within_sum [within_intros]:
  "(\<And>e. within R (f e)) \<Longrightarrow> (\<And>x. within R (g x)) \<Longrightarrow> within R (case z of Inl e \<Rightarrow> f e | Inr x \<Rightarrow> g x)"
  by (cases z) simp_all

lemma within_ignoring [within_intros]: "within R m \<Longrightarrow> within R (ignoring m)"
  by (simp add: within_def)

lemma within_on_part:
  assumes "within Q m" "\<And>s p. Q (part s) p \<Longrightarrow> R s (put p s)"
  shows "within R (on_part part put m)"
  using assms by (auto simp: within_def on_part_def split: prod.split) (metis snd_conv)

locale effect_bound =
  fixes R :: "'s \<Rightarrow> 's \<Rightarrow> bool"
  assumes refl: "R s s"
    and trans: "R s t \<Longrightarrow> R t u \<Longrightarrow> R s u"
begin

lemma within_return: "within R (stmt_return r)"
  by (simp add: within_def refl)

lemma within_require: "within R (require_some e x)"
  by (simp add: require_some_def within_return)

lemma within_bind:
  assumes "within R m" "\<And>x. within R (f x)"
  shows "within R (stmt_bind m f)"
proof (rule withinI)
  fix s
  show "R s (snd (stmt_bind m f s))"
    using assms(1) [unfolded within_def, rule_format, of s] assms(2) [unfolded within_def, rule_format]
    by (auto simp: stmt_bind_def split: prod.split sum.split intro: trans)
qed

text \<open>The same for one run: the continuation may use what the first action returned.\<close>

lemma bind_at:
  assumes "R s (snd (m s))" "\<And>x s1. m s = (Inr x, s1) \<Longrightarrow> R s1 (snd (f x s1))"
  shows "R s (snd (stmt_bind m f s))"
  using assms by (auto simp: stmt_bind_def split: prod.split sum.split intro: trans)

lemma bind_tail:
  assumes "\<And>x. within R (f x)"
  shows "R (snd (m s)) (snd (stmt_bind m f s))"
  using assms by (auto simp: stmt_bind_def within_def refl split: prod.split sum.split)

lemma within_bind_result:
  assumes "within R m" "\<And>x s s1. m s = (Inr x, s1) \<Longrightarrow> within R (f x)"
  shows "within R (stmt_bind m f)"
proof (rule withinI, rule bind_at)
  fix s
  show "R s (snd (m s))" using assms(1) by (rule withinD)
  fix x s1
  assume "m s = (Inr x, s1)"
  then show "R s1 (snd (f x s1))" by (rule withinD [OF assms(2)])
qed

lemma within_transaction:
  assumes "within R m"
  shows "within R (transaction m)"
proof (rule withinI)
  fix s
  show "R s (snd (transaction m s))"
    using withinD [OF assms, of s] by (auto simp: transaction_def refl split: prod.split sum.split)
qed

lemma within_for_all_do: "(\<And>x. within R (f x)) \<Longrightarrow> within R (for_all_do f xs)"
  by (induction xs) (simp_all add: within_return within_bind)

lemmas within_rules = within_return within_require within_bind within_transaction within_for_all_do

end

text \<open>Nothing changes: the bound of a read.\<close>

interpretation unchanged: effect_bound "(=)"
  by unfold_locales simp_all

abbreviation reads :: "('s, 'a) action \<Rightarrow> bool" where
  "reads \<equiv> within (=)"

lemma reads_snd: "reads m \<Longrightarrow> snd (m s) = s"
  by (metis withinD)

lemma reads_at: "reads m \<Longrightarrow> m s = (r, s') \<Longrightarrow> s' = s"
  by (metis withinE)


context effect_bound
begin

lemma within_reads: "reads m \<Longrightarrow> within R m"
  by (metis refl within_def)

end

section \<open>Clean failures\<close>

text \<open>An action that fails without a trace.\<close>

definition clean :: "('s, 'a) action \<Rightarrow> 's \<Rightarrow> bool" where
  "clean m s \<longleftrightarrow> isl (fst (m s)) \<longrightarrow> snd (m s) = s"

lemma clean_bind_read:
  assumes "reads m" "\<And>x. fst (m s) = Inr x \<Longrightarrow> clean (f x) s"
  shows "clean (stmt_bind m f) s"
proof (cases "m s")
  case (Pair r s')
  with reads_at [OF assms(1) Pair] assms(2) show ?thesis
    by (cases r) (auto simp: clean_def stmt_bind_def)
qed

lemma clean_reads: "reads m \<Longrightarrow> clean m s"
  by (simp add: clean_def reads_snd)

end
