(* ===== verification/Sql_Table.thy ===== *)
theory Sql_Table
  imports Actions
begin

text \<open>
  The meaning of the single-table SQL statements of \<open>src/src/infra/db\<close>: a table is the
  list of its rows, an \<open>UPDATE ... WHERE ... RETURNING\<close> rewrites the rows its predicate
  selects and returns them, \<open>fetch_optional\<close> takes the first returned row, \<open>ORDER BY\<close>
  sorts the selected rows (rows with equal keys keep their table order).

  Two interfaces are stated as locales. \<open>guarded_update\<close> is an update of one row,
  addressed by its primary key, behind a guard on that row; it gives what every such
  statement does to the addressed row, to the other rows and to the primary key.
  \<open>one_shot_update\<close> adds that the update falsifies its own guard; it gives that the
  statement takes effect at most once, however often and from however many instances
  it is issued.
\<close>

section \<open>Statements\<close>

definition sql_update :: "('r \<Rightarrow> bool) \<Rightarrow> ('r \<Rightarrow> 'r) \<Rightarrow> 'r list \<Rightarrow> 'r list" where
  "sql_update p u rows = map (\<lambda>r. if p r then u r else r) rows"

definition sql_returning :: "('r \<Rightarrow> bool) \<Rightarrow> ('r \<Rightarrow> 'r) \<Rightarrow> 'r list \<Rightarrow> 'r list" where
  "sql_returning p u rows = map u (filter p rows)"

definition sql_delete :: "('r \<Rightarrow> bool) \<Rightarrow> 'r list \<Rightarrow> 'r list" where
  "sql_delete p rows = filter (\<lambda>r. \<not> p r) rows"

fun fetch_optional :: "'r list \<Rightarrow> 'r option" where
  "fetch_optional [] = None"
| "fetch_optional (r # rs) = Some r"

definition order_asc :: "('r \<Rightarrow> int) \<Rightarrow> 'r list \<Rightarrow> 'r list" where
  "order_asc k rows = sort_key k rows"

definition order_desc :: "('r \<Rightarrow> int) \<Rightarrow> 'r list \<Rightarrow> 'r list" where
  "order_desc k rows = sort_key (\<lambda>r. - k r) rows"

definition lookup_key :: "('r \<Rightarrow> 'k) \<Rightarrow> 'k \<Rightarrow> 'r list \<Rightarrow> 'r option" where
  "lookup_key key k rows = find (\<lambda>r. key r = k) rows"

lemma set_order [simp]:
  "set (order_asc f rows) = set rows" "set (order_desc g rows) = set rows"
  by (simp_all add: order_asc_def order_desc_def)

lemma sorted_order_asc: "sorted (map f (order_asc f rows))"
  by (simp add: order_asc_def)

lemma sorted_order_desc: "sorted (map (\<lambda>r. - f r) (order_desc f rows))"
  by (simp add: order_desc_def)

lemma set_sql_update: "set (sql_update p u rows) = (\<lambda>r. if p r then u r else r) ` set rows"
  by (simp add: sql_update_def)

lemma sql_update_id: "(\<And>r. r \<in> set rows \<Longrightarrow> \<not> p r) \<Longrightarrow> sql_update p u rows = rows"
  unfolding sql_update_def by (rule map_idI) simp

lemma length_sql_update [simp]: "length (sql_update p u rows) = length rows"
  by (simp add: sql_update_def)

lemma sql_returning_Nil: "sql_returning p u rows = [] \<longleftrightarrow> (\<forall>r \<in> set rows. \<not> p r)"
  by (auto simp: sql_returning_def filter_empty_conv)

lemma fetch_optional_None: "fetch_optional rs = None \<longleftrightarrow> rs = []"
  by (cases rs) simp_all

lemma fetch_returning_Some:
  assumes "fetch_optional (sql_returning p u rows) = Some r'"
  shows "\<exists>r \<in> set rows. p r \<and> r' = u r"
proof -
  from assms obtain rs where "sql_returning p u rows = r' # rs"
    by (cases "sql_returning p u rows") auto
  then have "r' \<in> set (sql_returning p u rows)" by simp
  then show ?thesis by (auto simp: sql_returning_def)
qed

lemma fetch_filter_Some: "fetch_optional (filter p rows) = Some r \<Longrightarrow> r \<in> set rows \<and> p r"
  by (cases "filter p rows") (auto simp: filter_eq_Cons_iff)

lemma fetch_optional_map: "fetch_optional (map f xs) = map_option f (fetch_optional xs)"
  by (cases xs) simp_all

lemma in_sql_update:
  assumes "x \<in> set (sql_update p u rows)"
  obtains y where "y \<in> set rows" "p y" "x = u y" | "x \<in> set rows" "\<not> p x"
  using assms by (auto simp: sql_update_def split: if_splits)

lemma unique_row:
  assumes "distinct (map key rows)" "s \<in> set rows" "g s"
  shows "fetch_optional (filter (\<lambda>x. key x = key s \<and> g x) rows) = Some s"
  using assms
proof (induction rows)
  case (Cons r rows)
  then show ?case by (cases "r = s") force+
qed simp

lemma lookup_key_Some: "lookup_key key k rows = Some r \<Longrightarrow> r \<in> set rows \<and> key r = k"
  by (auto simp: lookup_key_def dest: find_Some_in)

lemma lookup_key_None: "lookup_key key k rows = None \<longleftrightarrow> k \<notin> key ` set rows"
  by (auto simp: lookup_key_def find_None_iff)

lemma lookup_key_distinct:
  "distinct (map key rows) \<Longrightarrow> r \<in> set rows \<Longrightarrow> lookup_key key (key r) rows = Some r"
  by (induction rows) (force simp: lookup_key_def)+

lemma filter_key_guard:
  assumes "distinct (map key rows)"
  shows "filter (\<lambda>r. key r = k \<and> g r) rows =
    (case lookup_key key k rows of None \<Rightarrow> [] | Some r \<Rightarrow> if g r then [r] else [])"
  using assms
proof (induction rows)
  case Nil
  show ?case by (simp add: lookup_key_def)
next
  case (Cons r rows)
  show ?case
  proof (cases "key r = k")
    case True
    with Cons.prems have "filter (\<lambda>r. key r = k \<and> g r) rows = []"
      by (auto simp: filter_empty_conv) (metis imageI)
    with True show ?thesis by (simp add: lookup_key_def)
  next
    case False
    with Cons show ?thesis by (simp add: lookup_key_def)
  qed
qed

section \<open>Guarded updates of one row\<close>

locale guarded_update =
  fixes key :: "'r \<Rightarrow> 'k"
    and guard :: "'r \<Rightarrow> bool"
    and upd :: "'r \<Rightarrow> 'r"
  assumes key_upd: "key (upd r) = key r"
begin

abbreviation sel :: "'k \<Rightarrow> 'r \<Rightarrow> bool" where
  "sel k r \<equiv> key r = k \<and> guard r"

lemma keys_kept: "map key (sql_update (sel k) upd rows) = map key rows"
  by (simp add: sql_update_def key_upd)

lemma distinct_kept:
  "distinct (map key rows) \<Longrightarrow> distinct (map key (sql_update (sel k) upd rows))"
  by (simp add: keys_kept)

lemma lookup_after:
  "lookup_key key j (sql_update (sel k) upd rows) =
     (case lookup_key key j rows of
        None \<Rightarrow> None
      | Some r \<Rightarrow> Some (if j = k \<and> guard r then upd r else r))"
  by (induction rows) (auto simp: sql_update_def lookup_key_def key_upd)

lemma others_kept:
  "j \<noteq> k \<Longrightarrow> lookup_key key j (sql_update (sel k) upd rows) = lookup_key key j rows"
  by (simp add: lookup_after split: option.split)

lemma returned:
  assumes "distinct (map key rows)"
  shows "fetch_optional (sql_returning (sel k) upd rows) =
    (case lookup_key key k rows of
       None \<Rightarrow> None
     | Some r \<Rightarrow> if guard r then Some (upd r) else None)"
  using assms by (simp add: sql_returning_def filter_key_guard split: option.split)

lemma returned_is_stored:
  assumes "distinct (map key rows)"
    and "fetch_optional (sql_returning (sel k) upd rows) = Some r"
  shows "lookup_key key k (sql_update (sel k) upd rows) = Some r"
  using assms by (auto simp: returned lookup_after split: option.splits if_splits)

lemma refused_unchanged:
  assumes "fetch_optional (sql_returning (sel k) upd rows) = None"
  shows "sql_update (sel k) upd rows = rows"
  using assms by (intro sql_update_id) (simp add: fetch_optional_None sql_returning_Nil)

end

locale one_shot_update = guarded_update +
  assumes disables: "guard r \<Longrightarrow> \<not> guard (upd r)"
begin

lemma second_refused:
  "sql_returning (sel k) upd' (sql_update (sel k) upd rows) = []"
  by (auto simp: sql_returning_Nil set_sql_update disables split: if_splits)

lemma second_unchanged:
  "sql_update (sel k) upd' (sql_update (sel k) upd rows) = sql_update (sel k) upd rows"
  by (rule sql_update_id) (auto simp: set_sql_update disables split: if_splits)

end

end
