(* ===== verification/Tip_Status.thy ===== *)
theory Tip_Status
  imports Rust_Text
begin

text \<open>
  \<open>src/src/models/tip_status.rs\<close>: the status of a social tip, its database string, and
  the per-asset confirmation threshold of the funding transaction.
\<close>

datatype tip_status =
    Draft
  | PendingConfirmation
  | Pending
  | Claiming
  | Claimed
  | ClawedBack
  | Cancelled
  | FundingMismatch

fun as_str :: "tip_status \<Rightarrow> string" where
  "as_str Draft = ''draft''"
| "as_str PendingConfirmation = ''pending_confirmation''"
| "as_str Pending = ''pending''"
| "as_str Claiming = ''claiming''"
| "as_str Claimed = ''claimed''"
| "as_str ClawedBack = ''clawed_back''"
| "as_str Cancelled = ''cancelled''"
| "as_str FundingMismatch = ''funding_mismatch''"

definition from_db :: "string \<Rightarrow> tip_status option" where
  "from_db s =
     (if s = ''draft'' then Some Draft
      else if s = ''pending_confirmation'' then Some PendingConfirmation
      else if s = ''pending'' then Some Pending
      else if s = ''claiming'' then Some Claiming
      else if s = ''claimed'' then Some Claimed
      else if s = ''clawed_back'' then Some ClawedBack
      else if s = ''cancelled'' then Some Cancelled
      else if s = ''funding_mismatch'' then Some FundingMismatch
      else None)"

fun is_terminal :: "tip_status \<Rightarrow> bool" where
  "is_terminal Claimed = True"
| "is_terminal ClawedBack = True"
| "is_terminal Cancelled = True"
| "is_terminal _ = False"

definition confirmations_for_asset :: "string \<Rightarrow> i32" where
  "confirmations_for_asset asset =
     (if asset = ''xmr'' then 10
      else if asset = ''grin'' then 10
      else if asset = ''wow'' then 4
      else 0)"

lemma from_db_as_str [simp]: "from_db (as_str st) = Some st"
  by (cases st) (simp_all add: from_db_def)

lemma from_db_Some: "from_db s = Some st \<longleftrightarrow> s = as_str st"
proof
  assume "from_db s = Some st"
  then show "s = as_str st" by (auto simp: from_db_def split: if_splits)
next
  assume "s = as_str st"
  then show "from_db s = Some st" by simp
qed

lemma as_str_inject [simp]: "as_str a = as_str b \<longleftrightarrow> a = b"
  by (metis from_db_as_str option.inject)

text \<open>Reasoning about statuses goes through \<open>as_str_inject\<close>, not through the strings.\<close>

declare as_str.simps [simp del]

lemma length_as_str: "length (as_str st) \<le> 32"
  by (cases st) (simp_all add: as_str.simps)

end
