(* ===== verification/Json.thy ===== *)
theory Json
  imports Rust_Text
begin

text \<open>
  JSON values (\<open>serde_json::Value\<close>) as far as the sources build and store them. Rendering a value to text is
  the crate's: the parameter \<open>json_to_string\<close> of the record \<open>json_lib\<close>. What the sources rely on is that the
  rendering is unambiguous, \<open>json_laws\<close>; a self-delimiting rendering shows that the law can hold.
\<close>

datatype json =
    JNull
  | JBool bool
  | JNum int
  | JStr string
  | JArr "json list"
  | JObj "(string \<times> json) list"

record json_lib = crates +
  json_to_string :: "json \<Rightarrow> string"

definition json_laws :: "'a json_lib_scheme \<Rightarrow> bool" where
  "json_laws lib \<longleftrightarrow> inj (json_to_string lib)"

lemma json_lawsD: "json_laws lib \<Longrightarrow> json_to_string lib v = json_to_string lib w \<longleftrightarrow> v = w"
  by (auto simp: json_laws_def dest: injD)

text \<open>The value of an optional field: absent is \<open>null\<close>.\<close>

definition json_opt :: "('a \<Rightarrow> json) \<Rightarrow> 'a option \<Rightarrow> json" where
  "json_opt f x = (case x of None \<Rightarrow> JNull | Some v \<Rightarrow> f v)"

lemma json_opt_inj:
  assumes "\<And>v w. f v = f w \<Longrightarrow> v = w" "\<And>v. f v \<noteq> JNull"
  shows "json_opt f x = json_opt f y \<longleftrightarrow> x = y"
  using assms by (auto simp: json_opt_def split: option.splits) (metis assms(2))

lemmas json_opt_scalars [simp] =
  json_opt_inj [of JStr, simplified] json_opt_inj [of JNum, simplified]

section \<open>A rendering that satisfies the law\<close>

fun quoted :: "string \<Rightarrow> string" where
  "quoted [] = ''.''"
| "quoted (c # s) = CHR ''-'' # c # quoted s"

fun render :: "json \<Rightarrow> string" and render_list :: "json list \<Rightarrow> string"
  and render_fields :: "(string \<times> json) list \<Rightarrow> string" where
  "render JNull = ''n''"
| "render (JBool b) = (if b then ''t'' else ''f'')"
| "render (JNum i) = ''i'' @ quoted (int_to_string i)"
| "render (JStr s) = ''s'' @ quoted s"
| "render (JArr vs) = ''a'' @ render_list vs"
| "render (JObj fs) = ''o'' @ render_fields fs"
| "render_list [] = ''.''"
| "render_list (v # vs) = CHR '','' # render v @ render_list vs"
| "render_fields [] = ''.''"
| "render_fields ((k, v) # fs) = CHR '','' # quoted k @ render v @ render_fields fs"

lemma quoted_delimited: "quoted s @ r = quoted s' @ r' \<longleftrightarrow> s = s' \<and> r = r'"
proof (induction s arbitrary: s')
  case Nil
  show ?case by (cases s') auto
next
  case (Cons c s)
  then show ?case by (cases s') auto
qed

lemma render_delimited:
  "\<forall>w r r'. render v @ r = render w @ r' \<longleftrightarrow> v = w \<and> r = r'"
  "\<forall>ws r r'. render_list vs @ r = render_list ws @ r' \<longleftrightarrow> vs = ws \<and> r = r'"
  "\<forall>gs r r'. render_fields fs @ r = render_fields gs @ r' \<longleftrightarrow> fs = gs \<and> r = r'"
proof (induction v and vs and fs rule: render_render_list_render_fields.induct)
  case 1
  show ?case by (intro allI, case_tac w) auto
next
  case (2 b)
  show ?case by (intro allI, case_tac w) auto
next
  case (3 i)
  show ?case
    by (intro allI, case_tac w) (auto simp: quoted_delimited int_to_string_inj)
next
  case (4 s)
  show ?case by (intro allI, case_tac w) (auto simp: quoted_delimited)
next
  case (5 vs)
  then show ?case by (intro allI, case_tac w) auto
next
  case (6 fs)
  then show ?case by (intro allI, case_tac w) auto
next
  case 7
  show ?case by (intro allI, case_tac ws) auto
next
  case (8 v vs)
  then show ?case by (intro allI, case_tac ws) auto
next
  case 9
  show ?case by (intro allI, case_tac gs) auto
next
  case (10 k v fs)
  then show ?case by (intro allI, case_tac gs) (auto simp: quoted_delimited)
qed

lemma json_laws_render: "json_to_string lib = render \<Longrightarrow> json_laws lib"
  unfolding json_laws_def
proof (rule injI)
  fix v w
  assume "json_to_string lib = render" "json_to_string lib v = json_to_string lib w"
  with render_delimited(1) [of v, rule_format, of "[]" w "[]"] show "v = w" by simp
qed

end
