(* ===== verification/Database.thy ===== *)
theory Database
  imports Sql_Table Tip_Status Json
begin

text \<open>
  The rows and tables of the Postgres database behind \<open>src/src/infra/db\<close>, as far as the
  modelled components use them, and the statements on \<open>social_tips\<close> with what the schema
  adds to every write: the \<open>updated_at\<close> trigger, the \<open>CHECK\<close> constraints, the
  \<open>VARCHAR\<close> widths and the foreign keys. A write that violates one of them fails as a
  whole and changes nothing.

  A statement is a function from the database to a \<open>Result\<close> and the database after it.
  \<open>NOW()\<close> is \<open>db_now\<close>; while \<open>db_outage\<close> holds every statement fails. The text of an
  \<open>sqlx\<close> error comes from the driver and the server: it is the parameter \<open>sqlx_text\<close>.
\<close>

section \<open>Rows\<close>

record social_tip_row =
  row_id :: uuid
  sender_user_id :: uuid
  asset :: string
  amount :: i64
  is_public :: bool
  claim_key_hash :: "string option"
  encrypted_key :: "byte list option"
  tip_address :: "string option"
  funding_txid :: "string option"
  status :: string
  funding_confirmations :: i32
  funding_confirmed_at :: "timestamp option"
  last_confirmation_check :: "timestamp option"
  confirmations_required :: i32
  funding_amount_verified :: bool
  funding_amount_observed :: "i64 option"
  funding_amount_verified_at :: "timestamp option"
  claimed_at :: "timestamp option"
  claimed_by_user_id :: "uuid option"
  clawed_back_at :: "timestamp option"
  sweep_txid :: "string option"
  sweep_confirmed_at :: "timestamp option"
  sweep_block_height :: "i32 option"
  sweep_block_hash :: "string option"
  sweep_confirmed_dm_sent_at :: "timestamp option"
  reorg_notified_at :: "timestamp option"
  tip_view_key :: "string option"
  lws_registered_at :: "timestamp option"
  lws_deactivated_at :: "timestamp option"
  created_at :: timestamp
  updated_at :: timestamp
  grin_commitment :: "string option"
  recipient_user_id :: "uuid option"

record user_row =
  u_id :: uuid
  u_username :: "string option"
  u_pubkey_hash :: "string option"
  u_nostr_pubkey :: "string option"
  u_wallet_birthday :: "timestamp option"
  u_seed_fingerprint :: "string option"
  u_xmr_start_height :: "i64 option"
  u_wow_start_height :: "i64 option"
  u_created_at :: timestamp
  u_updated_at :: timestamp
  u_last_seen_at :: "timestamp option"
  u_premium_until :: "timestamp option"

record session_row =
  s_id :: uuid
  s_user_id :: uuid
  s_refresh_token_hash :: string
  s_platform :: string
  s_device_info :: "string option"
  s_created_at :: timestamp
  s_expires_at :: timestamp
  s_revoked_at :: "timestamp option"
  s_last_used_at :: timestamp

record challenge_row =
  c_nonce :: string
  c_purpose :: string
  c_subject :: "string option"
  c_created_at :: timestamp
  c_expires_at :: timestamp

datatype asset_type = Btc | Ltc | Xmr | Wow | Grin

record user_key_row =
  k_id :: uuid
  k_user_id :: uuid
  k_asset :: asset_type
  k_public_key :: string
  k_public_spend_key :: "string option"
  k_key_type :: string
  k_created_at :: timestamp
  k_updated_at :: timestamp

record invite_code_row =
  ic_code_hash :: string
  ic_created_at :: timestamp
  ic_label :: "string option"
  ic_expires_at :: "timestamp option"
  ic_used_at :: "timestamp option"
  ic_used_by :: "uuid option"

record payment_invoice_row =
  pi_invoice_id :: string
  pi_pubkey_hash :: string
  pi_provider :: string
  pi_amount :: string
  pi_currency :: string
  pi_created_at :: timestamp
  pi_consumed_at :: "timestamp option"

record premium_invoice_row =
  pm_invoice_id :: string
  pm_user_id :: uuid
  pm_provider :: string
  pm_plan_id :: string
  pm_period_days :: i32
  pm_amount :: string
  pm_currency :: string
  pm_created_at :: timestamp
  pm_consumed_at :: "timestamp option"

record login_event_row =
  le_id :: uuid
  le_user_id :: "uuid option"
  le_asset :: string
  le_platform :: string
  le_origin :: "string option"
  le_ip_hash :: "string option"
  le_created_at :: timestamp

record restore_attempt_row =
  ra_id :: uuid
  ra_fingerprint :: string
  ra_ip_hash :: "string option"
  ra_success :: bool
  ra_created_at :: timestamp

record erasure_request_row =
  er_id :: uuid
  er_user_id :: "uuid option"
  er_subject_hash :: string
  er_status :: string
  er_requested_at :: timestamp
  er_scheduled_for :: timestamp
  er_confirmed_at :: "timestamp option"
  er_completed_at :: "timestamp option"
  er_cancelled_at :: "timestamp option"

datatype slatepack_status = PendingRecipient | PendingSender | Finalized | SlateExpired | SlateCancelled

record slatepack_row =
  sp_id :: uuid
  sp_slate_id :: string
  sp_sender_user_id :: uuid
  sp_recipient_user_id :: "uuid option"
  sp_recipient_address :: "string option"
  sp_slatepack_content :: string
  sp_amount_nanogrin :: i64
  sp_status :: slatepack_status
  sp_response_slatepack :: "string option"
  sp_created_at :: timestamp
  sp_updated_at :: timestamp
  sp_expires_at :: timestamp
  sp_finalized_at :: "timestamp option"
  sp_tx_hash :: "string option"

datatype audit_action =
    UserCreated | UserLogin | WalletCreated | WalletRegistered | TxBroadcast | SessionCreated | SessionRevoked

record audit_log_row =
  al_id :: uuid
  al_user_id :: "uuid option"
  al_action :: audit_action
  al_resource_type :: "string option"
  al_resource_id :: "uuid option"
  al_details :: "json option"
  al_user_agent :: "string option"
  al_created_at :: timestamp

record admin_key_row =
  ak_id :: uuid
  ak_pubkey :: string
  ak_label :: "string option"
  ak_scope :: string
  ak_created_at :: timestamp
  ak_created_by_kind :: string
  ak_activated_at :: "timestamp option"
  ak_activation_deadline :: "timestamp option"
  ak_revoked_at :: "timestamp option"
  ak_last_used_at :: "timestamp option"
  ak_integrity_mac :: string

record admin_session_row =
  as_id :: uuid
  as_admin_key_id :: uuid
  as_pubkey :: string
  as_refresh_token_hash :: string
  as_access_jti :: string
  as_device_info :: "string option"
  as_ip_address :: "string option"
  as_created_at :: timestamp
  as_expires_at :: timestamp
  as_revoked_at :: "timestamp option"

record admin_audit_row =
  aa_id :: uuid
  aa_seq :: i64
  aa_action :: string
  aa_actor_kind :: string
  aa_actor_pubkey_prefix :: "string option"
  aa_target :: "string option"
  aa_details :: "json option"
  aa_ip_address :: "string option"
  aa_created_at :: timestamp
  aa_prev_hash :: string
  aa_row_hash :: string

record server_config_row =
  sc_setup_state :: string
  sc_bootstrap_completed_at :: "timestamp option"
  sc_locked_at :: "timestamp option"
  sc_updated_at :: timestamp
  sc_integrity_mac :: string

record operator_setting_row =
  os_section :: string
  os_doc :: json
  os_version :: i64
  os_updated_by :: "uuid option"
  os_updated_at :: timestamp
  os_integrity_mac :: string

text \<open>A unique violation carries the name of the violated constraint.\<close>

datatype sql_fault =
    ConnectionFault
  | UniqueViolation string
  | ConstraintViolation
  | RowNotFound

record database =
  db_now :: timestamp
  db_outage :: bool
  sqlx_text :: "sql_fault \<Rightarrow> string"
  users :: "user_row list"
  sessions :: "session_row list"
  challenges :: "challenge_row list"
  social_tips :: "social_tip_row list"
  user_keys :: "user_key_row list"
  invite_codes :: "invite_code_row list"
  payment_invoices :: "payment_invoice_row list"
  premium_invoices :: "premium_invoice_row list"
  login_events :: "login_event_row list"
  restore_attempts :: "restore_attempt_row list"
  erasure_requests :: "erasure_request_row list"
  grin_slatepacks :: "slatepack_row list"
  audit_logs :: "audit_log_row list"
  admin_keys :: "admin_key_row list"
  admin_sessions :: "admin_session_row list"
  admin_audit_logs :: "admin_audit_row list"
  server_config :: "server_config_row option"
  operator_settings :: "operator_setting_row list"

type_synonym 'a stmt = "(database, 'a) action"

text \<open>\<open>impl From<sqlx::Error> for AppError\<close>\<close>

definition sql_error :: "database \<Rightarrow> sql_fault \<Rightarrow> app_error" where
  "sql_error db f = DatabaseError (sqlx_text db f)"

definition query :: "(database \<Rightarrow> 'a) \<Rightarrow> 'a stmt" where
  "query f db = (if db_outage db then (Inl (sql_error db ConnectionFault), db) else (Inr (f db), db))"

lemma snd_query [simp]: "snd (query f db) = db"
  by (simp add: query_def)

lemma query_Inr [simp]: "fst (query f db) = Inr x \<longleftrightarrow> \<not> db_outage db \<and> x = f db"
  by (auto simp: query_def)

text \<open>A database with no rows.\<close>

definition empty_database :: "timestamp \<Rightarrow> (sql_fault \<Rightarrow> string) \<Rightarrow> database" where
  "empty_database now txt =
     \<lparr>db_now = now, db_outage = False, sqlx_text = txt, users = [], sessions = [], challenges = [],
      social_tips = [], user_keys = [], invite_codes = [], payment_invoices = [], premium_invoices = [],
      login_events = [], restore_attempts = [], erasure_requests = [], grin_slatepacks = [],
      audit_logs = [], admin_keys = [], admin_sessions = [], admin_audit_logs = [], server_config = None, operator_settings = []\<rparr>"

lemma empty_database_fields [simp]:
  "db_now (empty_database t x) = t" "\<not> db_outage (empty_database t x)" "sqlx_text (empty_database t x) = x"
  "users (empty_database t x) = []" "sessions (empty_database t x) = []" "challenges (empty_database t x) = []"
  "social_tips (empty_database t x) = []" "user_keys (empty_database t x) = []"
  "invite_codes (empty_database t x) = []" "payment_invoices (empty_database t x) = []"
  "premium_invoices (empty_database t x) = []" "login_events (empty_database t x) = []"
  "restore_attempts (empty_database t x) = []" "erasure_requests (empty_database t x) = []"
  "grin_slatepacks (empty_database t x) = []" "audit_logs (empty_database t x) = []"
  "admin_keys (empty_database t x) = []" "admin_sessions (empty_database t x) = []"
  "admin_audit_logs (empty_database t x) = []" "server_config (empty_database t x) = None"
  "operator_settings (empty_database t x) = []"
  by (simp_all add: empty_database_def)

section \<open>Writes to social\_tips\<close>

definition varchar_ok :: "nat \<Rightarrow> string option \<Rightarrow> bool" where
  "varchar_ok n s = (case s of None \<Rightarrow> True | Some x \<Rightarrow> length x \<le> n)"

definition user_ids :: "database \<Rightarrow> uuid list" where
  "user_ids db = map u_id (users db)"

definition tip_columns_ok :: "social_tip_row \<Rightarrow> bool" where
  "tip_columns_ok r \<longleftrightarrow>
     length (asset r) \<le> 8 \<and> varchar_ok 64 (claim_key_hash r) \<and>
     varchar_ok 255 (tip_address r) \<and> varchar_ok 128 (funding_txid r) \<and>
     length (status r) \<le> 32 \<and> varchar_ok 128 (sweep_txid r) \<and>
     varchar_ok 64 (tip_view_key r) \<and> varchar_ok 66 (grin_commitment r)"

definition tip_checks_ok :: "social_tip_row \<Rightarrow> bool" where
  "tip_checks_ok r \<longleftrightarrow>
     from_db (status r) \<noteq> None \<and>
     (is_public r \<longrightarrow> claim_key_hash r \<noteq> None) \<and>
     (\<not> is_public r \<longrightarrow> recipient_user_id r \<noteq> None) \<and>
     (\<not> is_public r \<longrightarrow> encrypted_key r \<noteq> None)"

definition user_ref_ok :: "database \<Rightarrow> uuid option \<Rightarrow> bool" where
  "user_ref_ok db u = (case u of None \<Rightarrow> True | Some x \<Rightarrow> x \<in> set (user_ids db))"

definition tip_refs_ok :: "database \<Rightarrow> social_tip_row \<Rightarrow> bool" where
  "tip_refs_ok db r \<longleftrightarrow>
     sender_user_id r \<in> set (user_ids db) \<and>
     user_ref_ok db (claimed_by_user_id r) \<and> user_ref_ok db (recipient_user_id r)"

definition tip_row_ok :: "database \<Rightarrow> social_tip_row \<Rightarrow> bool" where
  "tip_row_ok db r \<longleftrightarrow> tip_columns_ok r \<and> tip_checks_ok r \<and> tip_refs_ok db r"

text \<open>The \<open>BEFORE UPDATE\<close> trigger \<open>social_tips_touch_updated_at\<close>.\<close>

definition tip_write :: "timestamp \<Rightarrow> (social_tip_row \<Rightarrow> social_tip_row) \<Rightarrow> social_tip_row \<Rightarrow> social_tip_row" where
  "tip_write now u r = (u r)\<lparr>updated_at := now\<rparr>"

definition update_tips ::
    "(social_tip_row \<Rightarrow> bool) \<Rightarrow> (social_tip_row \<Rightarrow> social_tip_row) \<Rightarrow> social_tip_row list stmt" where
  "update_tips p u db =
     (if db_outage db then (Inl (sql_error db ConnectionFault), db)
      else
        let w = tip_write (db_now db) u;
            out = sql_returning p w (social_tips db)
        in if list_all (tip_row_ok db) out
           then (Inr out, db\<lparr>social_tips := sql_update p w (social_tips db)\<rparr>)
           else (Inl (sql_error db ConstraintViolation), db))"

text \<open>An \<open>UPDATE\<close> addressed by primary key, with \<open>fetch_optional\<close>.\<close>

definition update_tip ::
    "uuid \<Rightarrow> (social_tip_row \<Rightarrow> bool) \<Rightarrow> (social_tip_row \<Rightarrow> social_tip_row) \<Rightarrow> social_tip_row option stmt" where
  "update_tip k g u db =
     (case update_tips (\<lambda>r. row_id r = k \<and> g r) u db of
        (Inl e, db') \<Rightarrow> (Inl e, db')
      | (Inr out, db') \<Rightarrow> (Inr (fetch_optional out), db'))"

definition select_tips :: "(database \<Rightarrow> social_tip_row \<Rightarrow> bool) \<Rightarrow> social_tip_row list stmt" where
  "select_tips p = query (\<lambda>db. filter (p db) (social_tips db))"

section \<open>What a write can change\<close>

lemma update_tips_cases:
  obtains (failed) e where "update_tips p u db = (Inl e, db)"
  | (written) "\<not> db_outage db"
      "\<And>r. r \<in> set (social_tips db) \<Longrightarrow> p r \<Longrightarrow> tip_row_ok db (tip_write (db_now db) u r)"
      "update_tips p u db =
         (Inr (sql_returning p (tip_write (db_now db) u) (social_tips db)),
          db\<lparr>social_tips := sql_update p (tip_write (db_now db) u) (social_tips db)\<rparr>)"
proof (cases "update_tips p u db")
  case (Pair res db')
  show thesis
  proof (cases res)
    case (Inl e)
    with Pair have "update_tips p u db = (Inl e, db)"
      by (auto simp: update_tips_def Let_def split: if_splits)
    then show thesis by (rule failed)
  next
    case (Inr out)
    with Pair show thesis
      by (intro written)
         (auto simp: update_tips_def Let_def sql_returning_def list_all_iff split: if_splits)
  qed
qed

lemma update_tip_snd: "snd (update_tip k g u db) = snd (update_tips (\<lambda>r. row_id r = k \<and> g r) u db)"
  by (auto simp: update_tip_def split: prod.splits sum.splits)

lemma update_tips_frame [simp]:
  "db_now (snd (update_tips p u db)) = db_now db"
  "db_outage (snd (update_tips p u db)) = db_outage db"
  "users (snd (update_tips p u db)) = users db"
  "sessions (snd (update_tips p u db)) = sessions db"
  "challenges (snd (update_tips p u db)) = challenges db"
  by (cases rule: update_tips_cases [of p u db]; simp)+

lemma update_tip_frame [simp]:
  "db_now (snd (update_tip k g u db)) = db_now db"
  "db_outage (snd (update_tip k g u db)) = db_outage db"
  "users (snd (update_tip k g u db)) = users db"
  "sessions (snd (update_tip k g u db)) = sessions db"
  "challenges (snd (update_tip k g u db)) = challenges db"
  by (simp_all add: update_tip_snd)

text \<open>Row-wise reasoning: every row after the statement is a row before it, written or not.\<close>

lemma update_tips_row:
  assumes "r' \<in> set (social_tips (snd (update_tips p u db)))"
  shows "\<exists>r \<in> set (social_tips db). r' = r \<or>
    (p r \<and> r' = tip_write (db_now db) u r \<and> tip_row_ok db r')"
  using assms
  by (cases rule: update_tips_cases [of p u db]) (auto simp: set_sql_update split: if_splits)

lemma update_tip_row:
  assumes "r' \<in> set (social_tips (snd (update_tip k g u db)))"
  shows "\<exists>r \<in> set (social_tips db). r' = r \<or>
    (row_id r = k \<and> g r \<and> r' = tip_write (db_now db) u r \<and> tip_row_ok db r')"
  using update_tips_row [of r' "\<lambda>r. row_id r = k \<and> g r" u db] assms
  by (auto simp: update_tip_snd)

lemma update_tips_ids:
  assumes "\<And>r. row_id (u r) = row_id r"
  shows "map row_id (social_tips (snd (update_tips p u db))) = map row_id (social_tips db)"
  by (cases rule: update_tips_cases [of p u db])
     (simp_all add: sql_update_def tip_write_def assms)

lemma update_tip_ids:
  assumes "\<And>r. row_id (u r) = row_id r"
  shows "map row_id (social_tips (snd (update_tip k g u db))) = map row_id (social_tips db)"
  by (simp add: update_tip_snd update_tips_ids assms)

text \<open>A statement that returned a row: which row, and that the guard held.\<close>

lemma update_tip_Some:
  assumes "fst (update_tip k g u db) = Inr (Some r')"
  shows "\<exists>r \<in> set (social_tips db). row_id r = k \<and> g r \<and> r' = tip_write (db_now db) u r"
proof (cases rule: update_tips_cases [of "\<lambda>r. row_id r = k \<and> g r" u db])
  case (failed e)
  with assms show ?thesis by (simp add: update_tip_def)
next
  case written
  with assms have "fetch_optional (sql_returning (\<lambda>r. row_id r = k \<and> g r)
      (tip_write (db_now db) u) (social_tips db)) = Some r'"
    by (simp add: update_tip_def)
  from fetch_returning_Some [OF this] show ?thesis by auto
qed

text \<open>A statement that returned no row or an error changed nothing.\<close>

lemma update_tip_refused:
  assumes "\<And>r. fst (update_tip k g u db) \<noteq> Inr (Some r)"
  shows "snd (update_tip k g u db) = db"
proof (cases rule: update_tips_cases [of "\<lambda>r. row_id r = k \<and> g r" u db])
  case (failed e)
  then show ?thesis by (simp add: update_tip_snd)
next
  case written
  let ?p = "\<lambda>r. row_id r = k \<and> g r"
  let ?w = "tip_write (db_now db) u"
  from written(3) assms have "fetch_optional (sql_returning ?p ?w (social_tips db)) = None"
    by (cases "fetch_optional (sql_returning ?p ?w (social_tips db))") (auto simp: update_tip_def)
  then have "sql_update ?p ?w (social_tips db) = social_tips db"
    by (intro sql_update_id) (auto simp: fetch_optional_None sql_returning_Nil)
  with written(3) show ?thesis by (simp add: update_tip_snd)
qed

text \<open>With distinct primary keys, exactly when a statement returns the row.\<close>

lemma update_tip_result:
  assumes "distinct (map row_id (social_tips db))"
    and "lookup_key row_id k (social_tips db) = Some r"
  shows "update_tip k g u db =
    (if db_outage db then (Inl (sql_error db ConnectionFault), db)
     else if g r then
       if tip_row_ok db (tip_write (db_now db) u r)
       then (Inr (Some (tip_write (db_now db) u r)),
             db\<lparr>social_tips := sql_update (\<lambda>r. row_id r = k \<and> g r)
                  (tip_write (db_now db) u) (social_tips db)\<rparr>)
       else (Inl (sql_error db ConstraintViolation), db)
     else (Inr None, db))"
proof -
  have f: "filter (\<lambda>r. row_id r = k \<and> g r) (social_tips db) = (if g r then [r] else [])"
    using filter_key_guard [OF assms(1), of k g] assms(2) by simp
  have n: "\<not> g r \<Longrightarrow> sql_update (\<lambda>r. row_id r = k \<and> g r) (tip_write (db_now db) u)
      (social_tips db) = social_tips db"
    using f by (intro sql_update_id) (auto simp: filter_empty_conv)
  show ?thesis
    by (auto simp: update_tip_def update_tips_def Let_def sql_returning_def f n)
qed

section \<open>Statements on the other tables\<close>

text \<open>A statement before its \<open>sqlx::Error\<close> is mapped: it fails without connection, fails on a violated
  constraint, or gives its result and the database after it.\<close>

type_synonym 'a raw_stmt = "database \<Rightarrow> (sql_fault + 'a) \<times> database"

definition run_sql :: "(database \<Rightarrow> sql_fault + ('a \<times> database)) \<Rightarrow> 'a raw_stmt" where
  "run_sql f db =
     (if db_outage db then (Inl ConnectionFault, db)
      else case f db of Inl e \<Rightarrow> (Inl e, db) | Inr (x, db') \<Rightarrow> (Inr x, db'))"

definition map_err :: "(database \<Rightarrow> sql_fault \<Rightarrow> app_error) \<Rightarrow> 'a raw_stmt \<Rightarrow> 'a stmt" where
  "map_err g m db = (case m db of (Inl e, db') \<Rightarrow> (Inl (g db e), db') | (Inr x, db') \<Rightarrow> (Inr x, db'))"

definition sql :: "(database \<Rightarrow> sql_fault + ('a \<times> database)) \<Rightarrow> 'a stmt" where
  "sql f = map_err sql_error (run_sql f)"

text \<open>\<open>unique_violation_as\<close> of \<open>src/src/infra/db/mod.rs\<close>\<close>

definition unique_violation_as :: "string \<Rightarrow> database \<Rightarrow> sql_fault \<Rightarrow> app_error" where
  "unique_violation_as msg db f =
     (case f of UniqueViolation c \<Rightarrow> Conflict msg | _ \<Rightarrow> sql_error db f)"

definition fetch_one :: "'a option \<Rightarrow> database \<Rightarrow> sql_fault + ('a \<times> database)" where
  "fetch_one x db = (case x of None \<Rightarrow> Inl RowNotFound | Some v \<Rightarrow> Inr (v, db))"

lemma run_sql_Inr:
  "run_sql f db = (Inr x, db') \<longleftrightarrow> \<not> db_outage db \<and> f db = Inr (x, db')"
  by (auto simp: run_sql_def split: sum.splits)

lemma run_sql_Inl: "run_sql f db = (Inl e, db') \<Longrightarrow> db' = db"
  by (auto simp: run_sql_def split: if_splits sum.splits)

lemma map_err_Inr [simp]: "map_err g m db = (Inr x, db') \<longleftrightarrow> m db = (Inr x, db')"
  by (auto simp: map_err_def split: prod.splits sum.splits)

lemma snd_map_err [simp]: "snd (map_err g m db) = snd (m db)"
  by (auto simp: map_err_def split: prod.splits sum.splits)

lemma sql_Inr: "sql f db = (Inr x, db') \<longleftrightarrow> \<not> db_outage db \<and> f db = Inr (x, db')"
  by (simp add: sql_def run_sql_Inr)

lemma sql_Inl: "sql f db = (Inl e, db') \<Longrightarrow> db' = db"
  by (auto simp: sql_def map_err_def run_sql_def split: if_splits sum.splits)

lemma within_run_sql:
  assumes "\<And>db. R db db" "\<And>db x db'. f db = Inr (x, db') \<Longrightarrow> R db db'"
  shows "within R (map_err g (run_sql f))"
  using assms by (auto simp: within_def run_sql_def split: sum.splits)

lemma within_sql:
  assumes "\<And>db. R db db" "\<And>db x db'. f db = Inr (x, db') \<Longrightarrow> R db db'"
  shows "within R (sql f)"
  unfolding sql_def by (rule within_run_sql) (fact assms)+

lemma reads_query: "reads (query f)"
  by (simp add: within_def)

end
