(* ===== verification/Social_Tips.thy ===== *)
theory Social_Tips
  imports Database
begin

text \<open>
  \<open>src/src/infra/db/social_tips.rs\<close>: every query method on the \<open>social_tips\<close> table.
  A status transition is one guarded \<open>UPDATE\<close>; its guard (the \<open>WHERE\<close> clause) and its
  assignment (the \<open>SET\<close> clause) are two definitions, so that the interface locales of
  the table can be interpreted on them.
\<close>

section \<open>Insertion\<close>

record new_social_tip =
  n_sender_user_id :: uuid
  n_asset :: string
  n_amount :: i64
  n_claim_key_hash :: "string option"
  n_encrypted_key :: "byte list option"
  n_tip_address :: "string option"
  n_funding_txid :: "string option"
  n_tip_view_key :: "string option"
  n_confirmations_required :: i32
  n_grin_commitment :: "string option"
  n_recipient_user_id :: "uuid option"

text \<open>The row an \<open>INSERT\<close> builds: the bound values and the column defaults.\<close>

definition new_tip_row :: "timestamp \<Rightarrow> uuid \<Rightarrow> new_social_tip \<Rightarrow> tip_status \<Rightarrow> social_tip_row" where
  "new_tip_row now i new st =
     \<lparr>row_id = i, sender_user_id = n_sender_user_id new, asset = n_asset new,
      amount = n_amount new, is_public = (n_recipient_user_id new = None),
      claim_key_hash = n_claim_key_hash new, encrypted_key = n_encrypted_key new,
      tip_address = n_tip_address new, funding_txid = n_funding_txid new,
      status = as_str st, funding_confirmations = 0, funding_confirmed_at = None,
      last_confirmation_check = None,
      confirmations_required = n_confirmations_required new,
      funding_amount_verified = False, funding_amount_observed = None,
      funding_amount_verified_at = None, claimed_at = None, claimed_by_user_id = None,
      clawed_back_at = None, sweep_txid = None, sweep_confirmed_at = None,
      sweep_block_height = None, sweep_block_hash = None,
      sweep_confirmed_dm_sent_at = None, reorg_notified_at = None,
      tip_view_key = n_tip_view_key new, lws_registered_at = None,
      lws_deactivated_at = None, created_at = now, updated_at = now,
      grin_commitment = n_grin_commitment new, recipient_user_id = n_recipient_user_id new\<rparr>"

text \<open>The first argument is the value \<open>gen_random_uuid()\<close> draws.\<close>

definition insert_social_tip :: "uuid \<Rightarrow> new_social_tip \<Rightarrow> tip_status \<Rightarrow> social_tip_row stmt" where
  "insert_social_tip i new st db =
     (if db_outage db then (Inl (sql_error db ConnectionFault), db)
      else
        let r = new_tip_row (db_now db) i new st in
        if i \<in> set (map row_id (social_tips db)) then (Inl (sql_error db (UniqueViolation ''social_tips_pkey'')), db)
        else if \<not> tip_row_ok db r then (Inl (sql_error db ConstraintViolation), db)
        else (Inr r, db\<lparr>social_tips := social_tips db @ [r]\<rparr>))"

definition create_draft_social_tip :: "uuid \<Rightarrow> new_social_tip \<Rightarrow> social_tip_row stmt" where
  "create_draft_social_tip i new = insert_social_tip i new Draft"

definition create_social_tip :: "uuid \<Rightarrow> new_social_tip \<Rightarrow> social_tip_row stmt" where
  "create_social_tip i new = insert_social_tip i new PendingConfirmation"

section \<open>Reads\<close>

definition get_social_tip :: "uuid \<Rightarrow> social_tip_row option stmt" where
  "get_social_tip i = query (\<lambda>db. fetch_optional (filter (\<lambda>r. row_id r = i) (social_tips db)))"

definition get_sent_social_tips :: "uuid \<Rightarrow> social_tip_row list stmt" where
  "get_sent_social_tips u =
     query (\<lambda>db. order_desc created_at (filter (\<lambda>r. sender_user_id r = u) (social_tips db)))"

definition get_received_social_tips :: "uuid \<Rightarrow> social_tip_row list stmt" where
  "get_received_social_tips u =
     query (\<lambda>db. order_desc created_at
       (filter (\<lambda>r. recipient_user_id r = Some u) (social_tips db)))"

definition claimable_by_recipient :: "uuid \<Rightarrow> social_tip_row \<Rightarrow> bool" where
  "claimable_by_recipient u r \<longleftrightarrow>
     recipient_user_id r = Some u \<and>
     status r \<in> {as_str Pending, as_str Claiming} \<and>
     funding_confirmations r \<ge> confirmations_required r \<and>
     funding_amount_verified r \<and>
     sweep_confirmed_at r = None"

definition get_claimable_social_tips :: "uuid \<Rightarrow> social_tip_row list stmt" where
  "get_claimable_social_tips u =
     query (\<lambda>db. order_desc created_at (filter (claimable_by_recipient u) (social_tips db)))"

text \<open>The per-row rate limit of the workers' polls:
  \<open>last_confirmation_check IS NULL OR last_confirmation_check < NOW() - INTERVAL '30 seconds'\<close>.\<close>

definition check_due :: "timestamp \<Rightarrow> social_tip_row \<Rightarrow> bool" where
  "check_due now r =
     (case last_confirmation_check r of None \<Rightarrow> True | Some t \<Rightarrow> t < now - seconds 30)"

definition awaits_confirmations :: "timestamp \<Rightarrow> string \<Rightarrow> social_tip_row \<Rightarrow> bool" where
  "awaits_confirmations now a r \<longleftrightarrow>
     status r \<in> {as_str Pending, as_str PendingConfirmation} \<and>
     asset r = a \<and>
     confirmations_required r > 0 \<and>
     funding_confirmations r < confirmations_required r \<and>
     funding_txid r \<noteq> None \<and>
     check_due now r"

definition get_tips_pending_confirmation :: "string \<Rightarrow> social_tip_row list stmt" where
  "get_tips_pending_confirmation a =
     query (\<lambda>db. take 50 (order_asc created_at
       (filter (awaits_confirmations (db_now db) a) (social_tips db))))"

definition awaits_amount :: "timestamp \<Rightarrow> social_tip_row \<Rightarrow> bool" where
  "awaits_amount now r \<longleftrightarrow>
     status r = as_str PendingConfirmation \<and>
     \<not> funding_amount_verified r \<and>
     funding_confirmations r \<ge> confirmations_required r \<and>
     check_due now r"

definition get_tips_awaiting_amount_verification :: "social_tip_row list stmt" where
  "get_tips_awaiting_amount_verification =
     query (\<lambda>db. take 50 (order_asc created_at
       (filter (awaits_amount (db_now db)) (social_tips db))))"

text \<open>\<open>ORDER BY claimed_at ASC\<close>: a row whose \<open>claimed_at\<close> is \<open>NULL\<close> sorts last.\<close>

definition order_asc_nulls_last ::
    "(social_tip_row \<Rightarrow> timestamp option) \<Rightarrow> social_tip_row list \<Rightarrow> social_tip_row list" where
  "order_asc_nulls_last f rows =
     order_asc (\<lambda>r. case f r of None \<Rightarrow> 0 | Some t \<Rightarrow> t) (filter (\<lambda>r. f r \<noteq> None) rows) @
     filter (\<lambda>r. f r = None) rows"

definition awaits_sweep :: "timestamp \<Rightarrow> social_tip_row \<Rightarrow> bool" where
  "awaits_sweep now r \<longleftrightarrow>
     status r = as_str Claiming \<and> sweep_confirmed_at r = None \<and>
     funding_amount_verified r \<and> check_due now r"

definition get_tips_awaiting_sweep_confirmation :: "nat \<Rightarrow> social_tip_row list stmt" where
  "get_tips_awaiting_sweep_confirmation limit =
     query (\<lambda>db. take limit (order_asc_nulls_last claimed_at
       (filter (awaits_sweep (db_now db)) (social_tips db))))"

definition settled_for_reorg_check :: "timestamp \<Rightarrow> social_tip_row \<Rightarrow> bool" where
  "settled_for_reorg_check now r \<longleftrightarrow>
     status r = as_str Claimed \<and> sweep_confirmed_at r \<noteq> None \<and>
     sweep_block_height r \<noteq> None \<and> check_due now r"

definition get_settled_tips_for_reorg_check :: "nat \<Rightarrow> social_tip_row list stmt" where
  "get_settled_tips_for_reorg_check limit =
     query (\<lambda>db. take limit (order_asc_nulls_last sweep_confirmed_at
       (filter (settled_for_reorg_check (db_now db)) (social_tips db))))"

section \<open>Transitions: drafts and funding\<close>

definition cancellable_draft :: "uuid \<Rightarrow> social_tip_row \<Rightarrow> bool" where
  [guard_simps]: "cancellable_draft u r \<longleftrightarrow> sender_user_id r = u \<and> status r = as_str Draft"

definition set_cancelled :: "social_tip_row \<Rightarrow> social_tip_row" where
  [guard_simps]: "set_cancelled r = r\<lparr>status := as_str Cancelled\<rparr>"

definition cancel_draft_social_tip :: "uuid \<Rightarrow> uuid \<Rightarrow> uuid option stmt" where
  "cancel_draft_social_tip i u db =
     (case update_tip i (cancellable_draft u) set_cancelled db of
        (Inl e, db') \<Rightarrow> (Inl e, db')
      | (Inr r, db') \<Rightarrow> (Inr (map_option row_id r), db'))"

definition fundable :: "uuid \<Rightarrow> string \<Rightarrow> social_tip_row \<Rightarrow> bool" where
  [guard_simps]: "fundable u txid r \<longleftrightarrow>
     sender_user_id r = u \<and>
     ((status r = as_str Draft \<and> funding_txid r = None) \<or> funding_txid r = Some txid)"

definition set_funding :: "timestamp \<Rightarrow> string \<Rightarrow> social_tip_row \<Rightarrow> social_tip_row" where
  [guard_simps]: "set_funding now txid r =
     (let first = (status r = as_str Draft \<and> funding_txid r = None) in
      r\<lparr>funding_txid := coalesce (funding_txid r) txid,
        status := (if first then as_str PendingConfirmation else status r),
        updated_at := (if first then now else updated_at r)\<rparr>)"

definition attach_funding_to_tip :: "'a crates_scheme \<Rightarrow> uuid \<Rightarrow> uuid \<Rightarrow> string \<Rightarrow> social_tip_row stmt" where
  "attach_funding_to_tip lib i u txid =
     stmt_bind (\<lambda>db. update_tip i (fundable u txid) (set_funding (db_now db) txid) db)
       (\<lambda>res. case res of
          Some tip \<Rightarrow> stmt_return (Inr tip)
        | None \<Rightarrow>
            stmt_bind (query (\<lambda>db. fetch_optional
                (filter (\<lambda>r. row_id r = i \<and> sender_user_id r = u) (social_tips db))))
              (\<lambda>current. case current of
                 None \<Rightarrow> stmt_return (Inl (NotFound
                   (''Tip '' @ uuid_to_string lib i @ '' not found or not yours'')))
               | Some tip \<Rightarrow>
                   (case funding_txid tip of
                      Some existing \<Rightarrow>
                        if existing \<noteq> txid
                        then stmt_return (Inl (ValidationError
                          (''Tip '' @ uuid_to_string lib i @
                           '' already has a different funding_txid attached'')))
                        else stmt_return (Inr tip)
                    | None \<Rightarrow> stmt_return (Inl (ValidationError
                          (''Tip '' @ uuid_to_string lib i @ '' is in status '' @ status tip @ '' '' @ em_dash @
                           '' funding can only be attached to drafts''))))))"

definition set_confirmations :: "timestamp \<Rightarrow> i32 \<Rightarrow> social_tip_row \<Rightarrow> social_tip_row" where
  [guard_simps]: "set_confirmations now n r =
     r\<lparr>funding_confirmations := n,
       last_confirmation_check := Some now,
       funding_confirmed_at :=
         (if n \<ge> confirmations_required r \<and> funding_confirmed_at r = None
          then Some now else funding_confirmed_at r),
       updated_at := now\<rparr>"

definition update_tip_confirmations :: "uuid \<Rightarrow> i32 \<Rightarrow> social_tip_row option stmt" where
  "update_tip_confirmations i n db =
     update_tip i (\<lambda>r. True) (set_confirmations (db_now db) n) db"

definition set_last_check :: "timestamp \<Rightarrow> social_tip_row \<Rightarrow> social_tip_row" where
  [guard_simps]: "set_last_check now r = r\<lparr>last_confirmation_check := Some now\<rparr>"

definition touch_tip_last_check :: "uuid \<Rightarrow> unit stmt" where
  "touch_tip_last_check i db =
     (case update_tips (\<lambda>r. row_id r = i) (set_last_check (db_now db)) db of
        (Inl e, db') \<Rightarrow> (Inl e, db')
      | (Inr rows, db') \<Rightarrow> (Inr (), db'))"

definition amount_unverified :: "social_tip_row \<Rightarrow> bool" where
  [guard_simps]: "amount_unverified r \<longleftrightarrow>
     status r = as_str PendingConfirmation \<and> \<not> funding_amount_verified r"

definition set_amount_verified ::
    "tip_status \<Rightarrow> timestamp \<Rightarrow> i64 \<Rightarrow> social_tip_row \<Rightarrow> social_tip_row" where
  [guard_simps]: "set_amount_verified st now observed r =
     r\<lparr>status := as_str st,
       funding_amount_verified := True,
       funding_amount_observed := Some observed,
       funding_amount_verified_at := Some now,
       updated_at := now\<rparr>"

definition mark_tip_funding_verified :: "uuid \<Rightarrow> i64 \<Rightarrow> social_tip_row option stmt" where
  "mark_tip_funding_verified i observed db =
     update_tip i amount_unverified (set_amount_verified Pending (db_now db) observed) db"

definition mark_tip_funding_mismatch :: "uuid \<Rightarrow> i64 \<Rightarrow> social_tip_row option stmt" where
  "mark_tip_funding_mismatch i observed db =
     update_tip i amount_unverified (set_amount_verified FundingMismatch (db_now db) observed) db"

section \<open>Transitions: claim, sweep and clawback\<close>

definition claimable :: "uuid \<Rightarrow> social_tip_row \<Rightarrow> bool" where
  [guard_simps]: "claimable u r \<longleftrightarrow>
     status r \<in> {as_str Pending, as_str Claiming} \<and>
     funding_confirmations r \<ge> confirmations_required r \<and>
     funding_amount_verified r \<and>
     sweep_confirmed_at r = None \<and>
     (is_public r \<or> recipient_user_id r = Some u)"

definition set_claiming :: "timestamp \<Rightarrow> uuid \<Rightarrow> social_tip_row \<Rightarrow> social_tip_row" where
  [guard_simps]: "set_claiming now u r =
     r\<lparr>status := as_str Claiming, claimed_at := Some now, claimed_by_user_id := Some u,
       updated_at := now\<rparr>"

definition mark_tip_claiming :: "uuid \<Rightarrow> uuid \<Rightarrow> social_tip_row option stmt" where
  "mark_tip_claiming i u db = update_tip i (claimable u) (set_claiming (db_now db) u) db"

definition sweep_recordable :: "string \<Rightarrow> social_tip_row \<Rightarrow> bool" where
  [guard_simps]: "sweep_recordable txid r \<longleftrightarrow>
     status r = as_str Claiming \<and> sweep_confirmed_at r = None \<and> is_public r \<and>
     (sweep_txid r = None \<or> sweep_txid r = Some txid)"

definition record_sweep :: "timestamp \<Rightarrow> uuid \<Rightarrow> string \<Rightarrow> social_tip_row \<Rightarrow> social_tip_row" where
  [guard_simps]: "record_sweep now u txid r =
     r\<lparr>sweep_txid := coalesce (sweep_txid r) txid,
       claimed_by_user_id := coalesce (claimed_by_user_id r) u,
       claimed_at := coalesce (claimed_at r) now,
       updated_at := now\<rparr>"

definition confirm_tip_sweep :: "uuid \<Rightarrow> uuid \<Rightarrow> string \<Rightarrow> social_tip_row option stmt" where
  "confirm_tip_sweep i u txid =
     stmt_bind (\<lambda>db. update_tip i (sweep_recordable txid) (record_sweep (db_now db) u txid) db)
       (\<lambda>recorded. case recorded of
          Some tip \<Rightarrow> stmt_return (Inr (Some tip))
        | None \<Rightarrow> query (\<lambda>db. fetch_optional (filter
            (\<lambda>r. row_id r = i \<and> status r \<in> {as_str Claiming, as_str Claimed})
            (social_tips db))))"

definition clawable :: "uuid \<Rightarrow> social_tip_row \<Rightarrow> bool" where
  [guard_simps]: "clawable u r \<longleftrightarrow>
     sender_user_id r = u \<and>
     status r \<in> {as_str Pending, as_str PendingConfirmation, as_str Claiming,
       as_str FundingMismatch, as_str Cancelled} \<and>
     sweep_confirmed_at r = None"

definition set_clawed_back :: "timestamp \<Rightarrow> social_tip_row \<Rightarrow> social_tip_row" where
  [guard_simps]: "set_clawed_back now r =
     r\<lparr>status := as_str ClawedBack, clawed_back_at := Some now, updated_at := now\<rparr>"

definition clawback_social_tip :: "uuid \<Rightarrow> uuid \<Rightarrow> social_tip_row option stmt" where
  "clawback_social_tip i u db = update_tip i (clawable u) (set_clawed_back (db_now db)) db"

definition unsettled :: "social_tip_row \<Rightarrow> bool" where
  [guard_simps]: "unsettled r \<longleftrightarrow> status r = as_str Claiming \<and> sweep_confirmed_at r = None"

definition set_settled ::
    "timestamp \<Rightarrow> string \<Rightarrow> i32 \<Rightarrow> string option \<Rightarrow> (uuid option \<Rightarrow> uuid option) \<Rightarrow>
     social_tip_row \<Rightarrow> social_tip_row" where
  [guard_simps]: "set_settled now txid height hash attr r =
     r\<lparr>status := as_str Claimed,
       sweep_confirmed_at := Some now,
       sweep_txid := Some txid,
       sweep_block_height := Some height,
       sweep_block_hash := hash,
       claimed_by_user_id := attr (claimed_by_user_id r),
       updated_at := now\<rparr>"

definition confirm_sweep_onchain ::
    "uuid \<Rightarrow> string \<Rightarrow> i32 \<Rightarrow> string option \<Rightarrow> uuid option \<Rightarrow> social_tip_row option stmt" where
  "confirm_sweep_onchain i txid height hash claimed_by db =
     update_tip i unsettled
       (set_settled (db_now db) txid height hash (\<lambda>old. if claimed_by \<noteq> None then claimed_by else old)) db"

definition clear_claimed_by_on_settle ::
    "uuid \<Rightarrow> string \<Rightarrow> i32 \<Rightarrow> string option \<Rightarrow> social_tip_row option stmt" where
  "clear_claimed_by_on_settle i txid height hash db =
     update_tip i unsettled (set_settled (db_now db) txid height hash (\<lambda>old. None)) db"

definition settled :: "social_tip_row \<Rightarrow> bool" where
  [guard_simps]: "settled r \<longleftrightarrow> status r = as_str Claimed \<and> sweep_confirmed_at r \<noteq> None"

definition set_reverted :: "timestamp \<Rightarrow> social_tip_row \<Rightarrow> social_tip_row" where
  [guard_simps]: "set_reverted now r =
     r\<lparr>status := as_str Claiming, sweep_confirmed_at := None, sweep_block_height := None,
       sweep_block_hash := None, sweep_confirmed_dm_sent_at := None, updated_at := now\<rparr>"

definition revert_sweep_on_reorg :: "uuid \<Rightarrow> social_tip_row option stmt" where
  "revert_sweep_on_reorg i db = update_tip i settled (set_reverted (db_now db)) db"

definition set_dm_sent :: "timestamp \<Rightarrow> social_tip_row \<Rightarrow> social_tip_row" where
  [guard_simps]: "set_dm_sent now r = r\<lparr>sweep_confirmed_dm_sent_at := Some now, updated_at := now\<rparr>"

definition stamp_sweep_confirmed_dm_sent :: "uuid \<Rightarrow> unit stmt" where
  "stamp_sweep_confirmed_dm_sent i db =
     (case update_tip i (\<lambda>r. sweep_confirmed_dm_sent_at r = None) (set_dm_sent (db_now db)) db of
        (Inl e, db') \<Rightarrow> (Inl e, db')
      | (Inr r, db') \<Rightarrow> (Inr (), db'))"

definition set_reorg_notified :: "timestamp \<Rightarrow> social_tip_row \<Rightarrow> social_tip_row" where
  [guard_simps]: "set_reorg_notified now r = r\<lparr>reorg_notified_at := Some now, updated_at := now\<rparr>"

definition stamp_reorg_notified :: "uuid \<Rightarrow> unit stmt" where
  "stamp_reorg_notified i db =
     (case update_tip i (\<lambda>r. reorg_notified_at r = None) (set_reorg_notified (db_now db)) db of
        (Inl e, db') \<Rightarrow> (Inl e, db')
      | (Inr r, db') \<Rightarrow> (Inr (), db'))"

section \<open>Garbage collection\<close>

record gc_cancelled_tip =
  gc_id :: uuid
  gc_asset :: string
  gc_tip_address :: "string option"
  gc_funding_txid :: "string option"
  gc_created_at :: timestamp

definition to_gc_cancelled :: "social_tip_row \<Rightarrow> gc_cancelled_tip" where
  "to_gc_cancelled r =
     \<lparr>gc_id = row_id r, gc_asset = asset r, gc_tip_address = tip_address r,
      gc_funding_txid = funding_txid r, gc_created_at = created_at r\<rparr>"

definition older_than_7_days :: "timestamp \<Rightarrow> social_tip_row \<Rightarrow> bool" where
  "older_than_7_days now r \<longleftrightarrow> created_at r < now - seconds (7 * 24 * 3600)"

definition set_gc_cancelled :: "timestamp \<Rightarrow> social_tip_row \<Rightarrow> social_tip_row" where
  [guard_simps]: "set_gc_cancelled now r = r\<lparr>status := as_str Cancelled, updated_at := now\<rparr>"

definition cancel_old_drafts :: "gc_cancelled_tip list stmt" where
  "cancel_old_drafts db =
     (case update_tips (\<lambda>r. status r = as_str Draft \<and> older_than_7_days (db_now db) r)
         (set_gc_cancelled (db_now db)) db of
        (Inl e, db') \<Rightarrow> (Inl e, db')
      | (Inr rows, db') \<Rightarrow> (Inr (map to_gc_cancelled rows), db'))"

definition cancel_stuck_pending_confirmation :: "gc_cancelled_tip list stmt" where
  "cancel_stuck_pending_confirmation db =
     (case update_tips
         (\<lambda>r. status r = as_str PendingConfirmation \<and> older_than_7_days (db_now db) r)
         (set_gc_cancelled (db_now db)) db of
        (Inl e, db') \<Rightarrow> (Inl e, db')
      | (Inr rows, db') \<Rightarrow> (Inr (map to_gc_cancelled rows), db'))"

record stuck_claiming_tip =
  sc_id :: uuid
  sc_asset :: string
  sc_tip_address :: "string option"
  sc_claimed_by_user_id :: "uuid option"
  sc_claimed_at :: "timestamp option"

definition to_stuck_claiming :: "social_tip_row \<Rightarrow> stuck_claiming_tip" where
  "to_stuck_claiming r =
     \<lparr>sc_id = row_id r, sc_asset = asset r, sc_tip_address = tip_address r,
      sc_claimed_by_user_id = claimed_by_user_id r, sc_claimed_at = claimed_at r\<rparr>"

definition stuck_claiming :: "timestamp \<Rightarrow> social_tip_row \<Rightarrow> bool" where
  "stuck_claiming now r \<longleftrightarrow>
     status r = as_str Claiming \<and> sweep_confirmed_at r = None \<and>
     (case claimed_at r of None \<Rightarrow> False | Some t \<Rightarrow> t < now - seconds (15 * 60))"

definition log_stuck_claiming :: "stuck_claiming_tip list stmt" where
  "log_stuck_claiming =
     query (\<lambda>db. map to_stuck_claiming (filter (stuck_claiming (db_now db)) (social_tips db)))"

section \<open>Interpretations of the table interfaces\<close>

lemma tip_write_id [simp]: "row_id (tip_write now u r) = row_id (u r)"
  by (simp add: tip_write_def)

lemma tip_write_status [simp]: "status (tip_write now u r) = status (u r)"
  by (simp add: tip_write_def)

interpretation verified: one_shot_update row_id amount_unverified
    "tip_write now (set_amount_verified Pending now observed)" for now observed
  by unfold_locales (simp_all add: guard_simps)

interpretation mismatched: one_shot_update row_id amount_unverified
    "tip_write now (set_amount_verified FundingMismatch now observed)" for now observed
  by unfold_locales (simp_all add: guard_simps)

interpretation cancelled: one_shot_update row_id "cancellable_draft u"
    "tip_write now set_cancelled" for u now
  by unfold_locales (simp_all add: guard_simps)

interpretation clawed: one_shot_update row_id "clawable u"
    "tip_write now (set_clawed_back now)" for u now
  by unfold_locales (simp_all add: guard_simps)

interpretation settling: one_shot_update row_id unsettled
    "tip_write now (set_settled now txid height hash attr)" for now txid height hash attr
  by unfold_locales (simp_all add: guard_simps)

interpretation reverting: one_shot_update row_id settled
    "tip_write now (set_reverted now)" for now
  by unfold_locales (simp_all add: guard_simps)

interpretation claiming: guarded_update row_id "claimable u"
    "tip_write now (set_claiming now u)" for now u
  by unfold_locales (simp add: guard_simps)

interpretation recording: guarded_update row_id "sweep_recordable txid"
    "tip_write now (record_sweep now u txid)" for txid now u
  by unfold_locales (simp add: guard_simps)

interpretation funding: guarded_update row_id "fundable u txid"
    "tip_write now (set_funding now txid)" for u txid now
  by unfold_locales (simp add: guard_simps Let_def)

interpretation dm_stamp: one_shot_update row_id "\<lambda>r. sweep_confirmed_dm_sent_at r = None"
    "tip_write now (set_dm_sent now)" for now
  by unfold_locales (simp_all add: guard_simps tip_write_def)

interpretation reorg_stamp: one_shot_update row_id "\<lambda>r. reorg_notified_at r = None"
    "tip_write now (set_reorg_notified now)" for now
  by unfold_locales (simp_all add: guard_simps tip_write_def)

section \<open>Insert, then look up\<close>

lemma insert_social_tip_Inr:
  "insert_social_tip i new st db = (Inr r, db') \<longleftrightarrow>
     \<not> db_outage db \<and> i \<notin> set (map row_id (social_tips db)) \<and>
     tip_row_ok db (new_tip_row (db_now db) i new st) \<and> r = new_tip_row (db_now db) i new st \<and>
     db' = db\<lparr>social_tips := social_tips db @ [r]\<rparr>"
  by (auto simp: insert_social_tip_def Let_def)

lemma get_after_insert:
  assumes "insert_social_tip i new st db = (Inr r, db')"
  shows "fst (get_social_tip i db') = Inr (Some r)"
proof -
  from assms have "filter (\<lambda>x. row_id x = i) (social_tips db) = []"
    by (auto simp: insert_social_tip_Inr filter_empty_conv)
  with assms show ?thesis by (simp add: insert_social_tip_Inr get_social_tip_def new_tip_row_def)
qed

section \<open>The one write of each statement\<close>

lemma snd_stmt_bind_read:
  assumes "\<And>x db'. snd (f x db') = db'"
  shows "snd (stmt_bind m f db) = snd (m db)"
  by (auto simp: stmt_bind_def assms split: prod.splits sum.splits)

lemma write_of [stmt_defs]:
  "snd (cancel_draft_social_tip i u db) = snd (update_tip i (cancellable_draft u) set_cancelled db)"
  "snd (touch_tip_last_check i db) =
     snd (update_tips (\<lambda>r. row_id r = i) (set_last_check (db_now db)) db)"
  "snd (stamp_sweep_confirmed_dm_sent i db) =
     snd (update_tip i (\<lambda>r. sweep_confirmed_dm_sent_at r = None) (set_dm_sent (db_now db)) db)"
  "snd (stamp_reorg_notified i db) =
     snd (update_tip i (\<lambda>r. reorg_notified_at r = None) (set_reorg_notified (db_now db)) db)"
  "snd (cancel_old_drafts db) =
     snd (update_tips (\<lambda>r. status r = as_str Draft \<and> older_than_7_days (db_now db) r)
       (set_gc_cancelled (db_now db)) db)"
  "snd (cancel_stuck_pending_confirmation db) =
     snd (update_tips (\<lambda>r. status r = as_str PendingConfirmation \<and> older_than_7_days (db_now db) r)
       (set_gc_cancelled (db_now db)) db)"
  by (simp_all add: cancel_draft_social_tip_def touch_tip_last_check_def
      stamp_sweep_confirmed_dm_sent_def stamp_reorg_notified_def cancel_old_drafts_def
      cancel_stuck_pending_confirmation_def split: prod.splits sum.splits)

lemma write_of_attach [stmt_defs]:
  "snd (attach_funding_to_tip lib i u txid db) =
     snd (update_tip i (fundable u txid) (set_funding (db_now db) txid) db)"
  unfolding attach_funding_to_tip_def
  by (rule snd_stmt_bind_read)
     (auto simp: stmt_bind_def query_def split: option.splits)

lemma write_of_record [stmt_defs]:
  "snd (confirm_tip_sweep i u txid db) =
     snd (update_tip i (sweep_recordable txid) (record_sweep (db_now db) u txid) db)"
  unfolding confirm_tip_sweep_def
  by (rule snd_stmt_bind_read) (auto split: option.splits)

lemmas [stmt_defs] = update_tip_confirmations_def mark_tip_funding_verified_def
  mark_tip_funding_mismatch_def mark_tip_claiming_def clawback_social_tip_def
  confirm_sweep_onchain_def clear_claimed_by_on_settle_def revert_sweep_on_reorg_def

end
