(* ===== verification/Tip_Lifecycle.thy ===== *)
theory Tip_Lifecycle
  imports Social_Tips
begin

text \<open>
  The contract of a social tip, independent of the statements that implement it: which
  actor may move a tip from which status to which (\<open>allowed\<close>), the terms of a tip that
  nobody may change (\<open>terms\<close>), and the invariant of its row (\<open>tip_inv\<close>).

  The locale \<open>tip_transition\<close> is the interface between a statement and this contract.
  It is interpreted on the guard and the assignment of every \<open>UPDATE\<close> of
  \<open>src/src/infra/db/social_tips.rs\<close>; its lemma \<open>update_tips_moves\<close> lifts the three laws of
  one row to the whole table.
\<close>

section \<open>The abstract automaton\<close>

datatype actor = User uuid | Worker | Gc | Environment

inductive allowed :: "social_tip_row \<Rightarrow> actor \<Rightarrow> tip_status \<Rightarrow> tip_status \<Rightarrow> bool" where
  stay: "allowed r a s s"
| fund: "sender_user_id r = u \<Longrightarrow> allowed r (User u) Draft PendingConfirmation"
| cancel: "sender_user_id r = u \<Longrightarrow> allowed r (User u) Draft Cancelled"
| gc_draft: "allowed r Gc Draft Cancelled"
| gc_stuck: "allowed r Gc PendingConfirmation Cancelled"
| verify: "allowed r Worker PendingConfirmation Pending"
| mismatch: "allowed r Worker PendingConfirmation FundingMismatch"
| claim: "is_public r \<or> recipient_user_id r = Some u \<Longrightarrow> allowed r (User u) Pending Claiming"
| settle: "allowed r Worker Claiming Claimed"
| revert: "allowed r Worker Claimed Claiming"
| clawback:
    "sender_user_id r = u \<Longrightarrow> s \<in> {PendingConfirmation, Pending, Claiming, FundingMismatch, Cancelled} \<Longrightarrow>
     allowed r (User u) s ClawedBack"

inductive_cases allowed_to_ClawedBackE: "allowed r a s ClawedBack"
inductive_cases allowed_to_PendingE: "allowed r a s Pending"
inductive_cases allowed_to_ClaimedE: "allowed r a s Claimed"
inductive_cases allowed_to_ClaimingE: "allowed r a s Claiming"
inductive_cases allowed_from_ClawedBackE: "allowed r a ClawedBack s"
inductive_cases allowed_from_MismatchE: "allowed r a FundingMismatch s"
inductive_simps allowed_simps:
  "allowed r a Draft s" "allowed r a PendingConfirmation s" "allowed r a Pending s"
  "allowed r a Claiming s" "allowed r a Claimed s" "allowed r a Cancelled s"
  "allowed r a FundingMismatch s"

definition abs_status :: "social_tip_row \<Rightarrow> tip_status" where
  "abs_status r = (case from_db (status r) of None \<Rightarrow> Draft | Some s \<Rightarrow> s)"

lemma abs_status_as_str: "status r = as_str s \<Longrightarrow> abs_status r = s"
  by (simp add: abs_status_def)

section \<open>Terms\<close>

definition terms ::
    "social_tip_row \<Rightarrow> uuid \<times> uuid \<times> string \<times> i64 \<times> bool \<times> string option \<times> byte list option \<times>
       string option \<times> i32 \<times> string option \<times> string option \<times> uuid option \<times> timestamp" where
  "terms r = (row_id r, sender_user_id r, asset r, amount r, is_public r, claim_key_hash r,
     encrypted_key r, tip_address r, confirmations_required r, tip_view_key r,
     grin_commitment r, recipient_user_id r, created_at r)"

lemma terms_fields:
  assumes "terms r = terms r'"
  shows "row_id r = row_id r'" "sender_user_id r = sender_user_id r'" "asset r = asset r'"
    "amount r = amount r'" "is_public r = is_public r'" "tip_address r = tip_address r'"
    "recipient_user_id r = recipient_user_id r'" "grin_commitment r = grin_commitment r'"
    "tip_view_key r = tip_view_key r'" "claim_key_hash r = claim_key_hash r'"
    "encrypted_key r = encrypted_key r'" "created_at r = created_at r'"
  using assms by (simp_all add: terms_def)

section \<open>The invariant of a row\<close>

definition unverified :: "social_tip_row \<Rightarrow> bool" where
  "unverified r \<longleftrightarrow> \<not> funding_amount_verified r \<and> funding_amount_observed r = None"

definition covered :: "social_tip_row \<Rightarrow> bool" where
  "covered r \<longleftrightarrow> funding_txid r \<noteq> None \<and> funding_amount_verified r \<and>
     (case funding_amount_observed r of None \<Rightarrow> False | Some obs \<Rightarrow> amount r \<le> obs)"

definition underfunded :: "social_tip_row \<Rightarrow> bool" where
  "underfunded r \<longleftrightarrow> funding_txid r \<noteq> None \<and> funding_amount_verified r \<and>
     (case funding_amount_observed r of None \<Rightarrow> False | Some obs \<Rightarrow> 0 < obs \<and> obs < amount r)"

definition unclaimed :: "social_tip_row \<Rightarrow> bool" where
  "unclaimed r \<longleftrightarrow>
     claimed_at r = None \<and> claimed_by_user_id r = None \<and> sweep_txid r = None \<and>
     sweep_confirmed_at r = None \<and> clawed_back_at r = None"

fun state_inv :: "tip_status \<Rightarrow> social_tip_row \<Rightarrow> bool" where
  "state_inv Draft r \<longleftrightarrow> funding_txid r = None \<and> unverified r \<and> unclaimed r"
| "state_inv PendingConfirmation r \<longleftrightarrow> funding_txid r \<noteq> None \<and> unverified r \<and> unclaimed r"
| "state_inv Pending r \<longleftrightarrow> covered r \<and> unclaimed r"
| "state_inv Claiming r \<longleftrightarrow>
     covered r \<and> claimed_at r \<noteq> None \<and> sweep_confirmed_at r = None \<and> clawed_back_at r = None"
| "state_inv Claimed r \<longleftrightarrow>
     covered r \<and> claimed_at r \<noteq> None \<and> sweep_confirmed_at r \<noteq> None \<and> sweep_txid r \<noteq> None \<and>
     sweep_block_height r \<noteq> None \<and> clawed_back_at r = None"
| "state_inv ClawedBack r \<longleftrightarrow> clawed_back_at r \<noteq> None \<and> sweep_confirmed_at r = None"
| "state_inv Cancelled r \<longleftrightarrow> unverified r \<and> unclaimed r"
| "state_inv FundingMismatch r \<longleftrightarrow> underfunded r \<and> unclaimed r"

definition party_inv :: "social_tip_row \<Rightarrow> bool" where
  "party_inv r \<longleftrightarrow>
     0 < amount r \<and> amount r \<le> i64_max \<and>
     (is_public r \<longleftrightarrow> recipient_user_id r = None) \<and>
     (is_public r \<or> claimed_by_user_id r = None \<or> claimed_by_user_id r = recipient_user_id r) \<and>
     confirmations_required r = confirmations_for_asset (asset r)"

definition tip_inv :: "social_tip_row \<Rightarrow> bool" where
  "tip_inv r \<longleftrightarrow>
     (case from_db (status r) of None \<Rightarrow> False | Some s \<Rightarrow> state_inv s r) \<and> party_inv r"

lemmas phase_defs = unverified_def covered_def underfunded_def unclaimed_def

lemma state_inv_cong:
  assumes "funding_txid r' = funding_txid r"
    "funding_amount_verified r' = funding_amount_verified r"
    "funding_amount_observed r' = funding_amount_observed r" "amount r' = amount r"
    "claimed_at r' = claimed_at r" "claimed_by_user_id r' = claimed_by_user_id r"
    "sweep_txid r' = sweep_txid r" "sweep_confirmed_at r' = sweep_confirmed_at r"
    "sweep_block_height r' = sweep_block_height r" "clawed_back_at r' = clawed_back_at r"
  shows "state_inv s r' = state_inv s r"
  by (cases s) (simp_all add: phase_defs assms cong: option.case_cong)

lemma tip_inv_status: "tip_inv r \<Longrightarrow> status r = as_str (abs_status r)"
  by (auto simp: tip_inv_def abs_status_def from_db_Some split: option.splits)

lemma tip_inv_state: "tip_inv r \<Longrightarrow> status r = as_str s \<Longrightarrow> state_inv s r"
  by (simp add: tip_inv_def)

definition tips_ok :: "social_tip_row list \<Rightarrow> bool" where
  "tips_ok rows \<longleftrightarrow> distinct (map row_id rows) \<and> (\<forall>r \<in> set rows. tip_inv r)"

text \<open>What a step of \<open>a\<close> may do to the table: it keeps the invariant, and a row that was
  there before and is there after has its terms and moved as allowed.\<close>

definition moves :: "actor \<Rightarrow> social_tip_row list \<Rightarrow> social_tip_row list \<Rightarrow> bool" where
  "moves a rows rows' \<longleftrightarrow>
     tips_ok rows' \<and>
     (\<forall>r \<in> set rows. \<forall>r' \<in> set rows'. row_id r' = row_id r \<longrightarrow>
        terms r' = terms r \<and> allowed r a (abs_status r) (abs_status r'))"

lemma tips_ok_unique:
  "tips_ok rows \<Longrightarrow> r \<in> set rows \<Longrightarrow> r' \<in> set rows \<Longrightarrow> row_id r = row_id r' \<Longrightarrow> r = r'"
  by (auto simp: tips_ok_def distinct_map inj_on_def)

lemma moves_refl: "tips_ok rows \<Longrightarrow> moves a rows rows"
  by (auto simp: moves_def dest: tips_ok_unique intro: allowed.stay)

lemma movesD:
  assumes "moves a rows rows'" "r \<in> set rows" "r' \<in> set rows'" "row_id r' = row_id r"
  shows "terms r' = terms r" "allowed r a (abs_status r) (abs_status r')"
  using assms unfolding moves_def by blast+

lemma moves_append:
  assumes "tips_ok rows" "tip_inv r" "row_id r \<notin> row_id ` set rows"
  shows "moves a rows (rows @ [r])"
proof -
  have "tips_ok (rows @ [r])" using assms by (simp add: tips_ok_def ball_Un)
  moreover have "terms r' = terms q \<and> allowed q a (abs_status q) (abs_status r')"
    if "q \<in> set rows" "r' \<in> set (rows @ [r])" "row_id r' = row_id q" for q r'
  proof -
    have "r' \<noteq> r" using that assms(3) by (metis imageI)
    with that have "r' \<in> set rows" by simp
    with that assms(1) have "r' = q" by (intro tips_ok_unique)
    then show ?thesis by (simp add: allowed.stay)
  qed
  ultimately show ?thesis unfolding moves_def by blast
qed

text \<open>The row of one tip before and after one statement.\<close>

lemma row_after_update_tips:
  assumes "distinct (map row_id (social_tips db))" and "\<And>q. row_id (u q) = row_id q"
    and "r \<in> set (social_tips db)" "r' \<in> set (social_tips (snd (update_tips p u db)))"
    and "row_id r' = row_id r"
  shows "r' = r \<or> (p r \<and> r' = tip_write (db_now db) u r)"
proof -
  from update_tips_row [OF assms(4)] obtain q where q: "q \<in> set (social_tips db)"
    "r' = q \<or> (p q \<and> r' = tip_write (db_now db) u q)" by blast
  then have "row_id q = row_id r" using assms(2,5) by auto
  with q(1) assms(1,3) have "q = r" by (auto simp: distinct_map inj_on_def)
  with q(2) show ?thesis by blast
qed

lemma row_after_update_tip:
  assumes "distinct (map row_id (social_tips db))" and "\<And>q. row_id (u q) = row_id q"
    and "r \<in> set (social_tips db)" "r' \<in> set (social_tips (snd (update_tip k g u db)))"
    and "row_id r' = row_id r"
  shows "r' = r \<or> (row_id r = k \<and> g r \<and> r' = tip_write (db_now db) u r)"
  using row_after_update_tips [OF assms(1-3) _ assms(5), of "\<lambda>r. row_id r = k \<and> g r"] assms(4)
  by (simp add: update_tip_snd)

section \<open>The interface of a transition\<close>

locale tip_transition =
  fixes who :: actor
    and guard :: "social_tip_row \<Rightarrow> bool"
    and upd :: "social_tip_row \<Rightarrow> social_tip_row"
    and now :: timestamp
  assumes terms_kept: "tip_inv r \<Longrightarrow> guard r \<Longrightarrow> terms (upd r) = terms r"
    and inv_kept: "tip_inv r \<Longrightarrow> guard r \<Longrightarrow> tip_inv (tip_write now upd r)"
    and move_allowed: "tip_inv r \<Longrightarrow> guard r \<Longrightarrow> allowed r who (abs_status r) (abs_status (upd r))"
begin

lemma row_moves:
  assumes "tip_inv r" "guard r"
  shows "row_id (tip_write now upd r) = row_id r"
    and "terms (tip_write now upd r) = terms r"
    and "allowed r who (abs_status r) (abs_status (tip_write now upd r))"
proof -
  show "terms (tip_write now upd r) = terms r"
    using terms_kept [OF assms] by (simp add: terms_def tip_write_def)
  then show "row_id (tip_write now upd r) = row_id r" by (simp add: terms_def)
  show "allowed r who (abs_status r) (abs_status (tip_write now upd r))"
    using move_allowed [OF assms] by (simp add: abs_status_def)
qed

lemma sql_update_moves:
  assumes "tips_ok rows" and "\<And>r. r \<in> set rows \<Longrightarrow> p r \<Longrightarrow> guard r"
  shows "moves who rows (sql_update p (tip_write now upd) rows)"
proof -
  let ?w = "\<lambda>r. if p r then tip_write now upd r else r"
  have inv: "tip_inv r" if "r \<in> set rows" for r
    using assms(1) that by (simp add: tips_ok_def)
  have w: "row_id (?w r) = row_id r" "tip_inv (?w r)" "terms (?w r) = terms r"
      "allowed r who (abs_status r) (abs_status (?w r))" if "r \<in> set rows" for r
    using that inv [OF that] assms(2) [OF that] row_moves inv_kept
    by (auto intro: allowed.stay)
  have "map row_id (sql_update p (tip_write now upd) rows) = map row_id rows"
    unfolding sql_update_def map_map by (intro map_cong refl) (simp add: w(1) del: if_split)
  moreover have "\<forall>r' \<in> set (sql_update p (tip_write now upd) rows). tip_inv r'"
    unfolding set_sql_update using w(2) by blast
  ultimately have "tips_ok (sql_update p (tip_write now upd) rows)"
    using assms(1) by (simp add: tips_ok_def)
  moreover have "terms r' = terms r \<and> allowed r who (abs_status r) (abs_status r')"
    if "r \<in> set rows" "r' \<in> set (sql_update p (tip_write now upd) rows)" "row_id r' = row_id r" for r r'
  proof -
    from that(2) obtain q where q: "q \<in> set rows" "r' = ?w q" by (auto simp: set_sql_update)
    from q(2) that(3) w(1) [OF q(1)] have "row_id q = row_id r" by simp
    with q that assms(1) have "q = r" by (intro tips_ok_unique)
    with q(2) have "r' = ?w r" by simp
    with w(3,4) [OF that(1)] show ?thesis by (simp only: simp_thms)
  qed
  ultimately show ?thesis by (auto simp: moves_def)
qed

lemma update_tips_moves:
  assumes "tips_ok (social_tips db)" and "db_now db = now"
    and "\<And>r. r \<in> set (social_tips db) \<Longrightarrow> p r \<Longrightarrow> guard r"
  shows "moves who (social_tips db) (social_tips (snd (update_tips p upd db)))"
  using sql_update_moves [OF assms(1,3)] assms(1,2)
  by (cases rule: update_tips_cases [of p upd db]) (simp_all add: moves_refl)

lemma update_tip_moves:
  assumes "tips_ok (social_tips db)" and "db_now db = now"
    and "\<And>r. r \<in> set (social_tips db) \<Longrightarrow> row_id r = k \<Longrightarrow> g r \<Longrightarrow> guard r"
  shows "moves who (social_tips db) (social_tips (snd (update_tip k g upd db)))"
  unfolding update_tip_snd by (rule update_tips_moves) (use assms in auto)

end

section \<open>Bookkeeping updates\<close>

text \<open>The columns the invariant reads. An update that leaves them alone (poll timestamps,
  confirmation counts, notification stamps) is a transition for every actor.\<close>

definition core where
  "core r = (terms r, status r, funding_txid r, funding_amount_verified r,
     funding_amount_observed r, claimed_at r, claimed_by_user_id r, sweep_txid r,
     sweep_confirmed_at r, sweep_block_height r, clawed_back_at r)"

lemma core_fields:
  assumes "core r = core r'"
  shows "terms r = terms r'" "status r = status r'" "abs_status r = abs_status r'"
    "sweep_txid r = sweep_txid r'" "sweep_confirmed_at r = sweep_confirmed_at r'"
  using assms by (simp_all add: core_def abs_status_def)

lemma core_tip_write [simp]: "core (tip_write now upd r) = core (upd r)"
  by (simp add: core_def terms_def tip_write_def)

lemma tip_inv_core:
  assumes "core r' = core r"
  shows "tip_inv r' = tip_inv r"
proof -
  from assms have eq: "terms r' = terms r" "status r' = status r"
    by (simp_all add: core_def)
  from assms terms_fields(4) [OF eq(1)] have "state_inv s r' = state_inv s r" for s
    by (intro state_inv_cong) (simp_all add: core_def)
  moreover from assms have "party_inv r' = party_inv r"
    by (simp add: party_inv_def core_def terms_def)
  ultimately show ?thesis by (simp add: tip_inv_def eq cong: option.case_cong)
qed

locale bookkeeping =
  fixes upd :: "social_tip_row \<Rightarrow> social_tip_row"
  assumes core_kept: "core (upd r) = core r"

sublocale bookkeeping \<subseteq> tip_transition who "\<lambda>r. True" upd now for who now
proof
  fix r
  show "terms (upd r) = terms r" using core_kept [of r] by (simp add: core_def)
  show "tip_inv (tip_write now upd r)" if "tip_inv r"
    using that core_kept [of r] tip_inv_core [of "tip_write now upd r" r] by simp
  show "allowed r who (abs_status r) (abs_status (upd r))"
    using core_kept [of r] by (simp add: core_def abs_status_def allowed.stay)
qed

text \<open>What such an update leaves of the table.\<close>

definition rows_kept :: "database \<Rightarrow> database \<Rightarrow> bool" where
  "rows_kept db db' \<longleftrightarrow>
     map row_id (social_tips db') = map row_id (social_tips db) \<and>
     (\<forall>r \<in> set (social_tips db). \<forall>r' \<in> set (social_tips db'). row_id r' = row_id r \<longrightarrow> core r' = core r)"

lemma rows_keptD:
  "rows_kept db db' \<Longrightarrow> r \<in> set (social_tips db) \<Longrightarrow> r' \<in> set (social_tips db') \<Longrightarrow>
     row_id r' = row_id r \<Longrightarrow> core r' = core r"
  unfolding rows_kept_def by blast

lemma rows_kept_origin:
  assumes "rows_kept db db'" "r' \<in> set (social_tips db')"
  shows "\<exists>r \<in> set (social_tips db). row_id r = row_id r' \<and> core r' = core r"
proof -
  from assms have "row_id r' \<in> row_id ` set (social_tips db)"
    unfolding rows_kept_def by (metis imageI list.set_map)
  then obtain r where "r \<in> set (social_tips db)" "row_id r = row_id r'" by force
  with assms show ?thesis using rows_keptD by metis
qed

lemma rows_kept_refl:
  "distinct (map row_id (social_tips db)) \<Longrightarrow> rows_kept db db"
  unfolding rows_kept_def by (auto simp: distinct_map dest: inj_onD)

context bookkeeping
begin

lemma id_kept: "row_id (upd r) = row_id r"
  using core_kept [of r] by (simp add: core_def terms_def)

lemma update_tips_kept:
  assumes "distinct (map row_id (social_tips db))"
  shows "rows_kept db (snd (update_tips p upd db))"
  unfolding rows_kept_def
proof (intro conjI ballI impI)
  show "map row_id (social_tips (snd (update_tips p upd db))) = map row_id (social_tips db)"
    by (rule update_tips_ids) (rule id_kept)
  fix r r'
  assume "r \<in> set (social_tips db)" "r' \<in> set (social_tips (snd (update_tips p upd db)))"
    "row_id r' = row_id r"
  from row_after_update_tips [OF assms id_kept this] show "core r' = core r"
    using core_kept by auto
qed

lemma update_tip_kept:
  assumes "distinct (map row_id (social_tips db))"
  shows "rows_kept db (snd (update_tip k g upd db))"
  unfolding update_tip_snd by (rule update_tips_kept [OF assms])

end

section \<open>Every statement keeps the contract\<close>

text \<open>Two statements take a value from the chain; what makes it fit the row is in the guard
  of their interpretation and is discharged by the worker's own check of the receipt.\<close>

lemmas row_laws = guard_simps tip_inv_def party_inv_def phase_defs terms_def tip_write_def allowed_simps
  abs_status_def

interpretation tr_cancel: tip_transition "User u" "cancellable_draft u" set_cancelled now for u now
  by unfold_locales (simp_all add: row_laws)

text \<open>Attaching: the first time the draft starts its funding life, a retry with the recorded
  txid leaves every column the invariant reads.\<close>

lemma set_funding_retry: "funding_txid r = Some txid \<Longrightarrow> core (set_funding now txid r) = core r"
  by (simp add: core_def terms_def set_funding_def Let_def)

interpretation tr_fund: tip_transition "User u" "fundable u txid" "set_funding now txid" now
    for u txid now
proof
  fix r
  assume r: "tip_inv r" "fundable u txid r"
  show "terms (set_funding now txid r) = terms r"
    by (simp add: terms_def set_funding_def Let_def)
  show "tip_inv (tip_write now (set_funding now txid) r)"
  proof (cases "funding_txid r")
    case None
    with r show ?thesis by (auto simp: row_laws split: option.splits)
  next
    case (Some t)
    with r(2) have "funding_txid r = Some txid" by (auto simp: fundable_def)
    from set_funding_retry [OF this] r(1) show ?thesis
      using tip_inv_core [of "tip_write now (set_funding now txid) r" r] by simp
  qed
  show "allowed r (User u) (abs_status r) (abs_status (set_funding now txid r))"
    using r by (auto simp: guard_simps abs_status_def Let_def allowed_simps allowed.stay)
qed

interpretation tr_count: bookkeeping "set_confirmations now n" for now n
  by unfold_locales (simp add: guard_simps core_def terms_def)

interpretation tr_touch: bookkeeping "set_last_check now" for now
  by unfold_locales (simp add: guard_simps core_def terms_def)

interpretation tr_verify: tip_transition Worker "\<lambda>r. amount_unverified r \<and> amount r \<le> obs"
    "set_amount_verified Pending now obs" now for now obs
  by unfold_locales (simp_all add: row_laws)

interpretation tr_mismatch: tip_transition Worker
    "\<lambda>r. amount_unverified r \<and> 0 < obs \<and> obs < amount r"
    "set_amount_verified FundingMismatch now obs" now for now obs
  by unfold_locales (simp_all add: row_laws)

interpretation tr_claim: tip_transition "User u" "claimable u" "set_claiming now u" now for u now
  by unfold_locales (auto simp: row_laws split: option.splits)

interpretation tr_record: tip_transition "User u" "sweep_recordable txid" "record_sweep now u txid" now
    for u txid now
  by unfold_locales (auto simp: row_laws split: option.splits)

interpretation tr_clawback: tip_transition "User u" "clawable u" "set_clawed_back now" now for u now
  by unfold_locales (auto simp: row_laws split: option.splits)

interpretation tr_settle: tip_transition Worker
    "\<lambda>r. unsettled r \<and> (attr (claimed_by_user_id r) = None \<or>
       attr (claimed_by_user_id r) = claimed_by_user_id r)"
    "set_settled now txid height hash attr" now for now txid height hash attr
  by unfold_locales (auto simp: row_laws split: option.splits)

interpretation tr_revert: tip_transition Worker settled "set_reverted now" now for now
  by unfold_locales (auto simp: row_laws split: option.splits)

interpretation tr_dm: bookkeeping "set_dm_sent now" for now
  by unfold_locales (simp add: guard_simps core_def terms_def)

interpretation tr_reorg_dm: bookkeeping "set_reorg_notified now" for now
  by unfold_locales (simp add: guard_simps core_def terms_def)

interpretation tr_gc: tip_transition Gc
    "\<lambda>r. status r \<in> {as_str Draft, as_str PendingConfirmation}" "set_gc_cancelled now" now for now
  by unfold_locales (auto simp: row_laws split: option.splits)

end
