(* ===== verification/Float64.thy ===== *)
theory Float64
  imports Prelude Complex_Main
begin

text \<open>
  The part of IEEE-754 binary64 that \<open>checked_btc_to_sat\<close> uses: a value is not a number,
  infinite, or a finite rational; a product is rounded to the nearest representable
  value, ties to even; \<open>f64::round\<close> rounds to the nearest integer, ties away from zero;
  the cast to \<open>u64\<close> saturates. Negative zero is identified with zero, which no
  operation used here distinguishes.
\<close>

datatype f64 = NaN | Inf bool \<comment> \<open>\<open>True\<close>: negative\<close> | Fin rat

fun f64_is_finite :: "f64 \<Rightarrow> bool" where
  "f64_is_finite (Fin x) = True"
| "f64_is_finite _ = False"

definition pow2 :: "int \<Rightarrow> rat" where
  "pow2 e = (if 0 \<le> e then 2 ^ nat e else 1 / 2 ^ nat (- e))"

text \<open>The nearest integer, ties to even.\<close>

definition round_even :: "rat \<Rightarrow> int" where
  "round_even x =
     (let f = \<lfloor>x\<rfloor>; d = x - of_int f in
      if d < 1 / 2 then f
      else if d > 1 / 2 then f + 1
      else if even f then f else f + 1)"

text \<open>
  The exponent of the unit in the last place: the least \<open>e\<close>, not below \<open>-1074\<close>, with
  \<open>\<bar>x\<bar> < 2 ^ (e + 53)\<close>. The search walks up from \<open>-1074\<close>; \<open>2046\<close> steps reach the largest
  finite exponent, \<open>971\<close>, and one more step shows the overflow.
\<close>

fun ulp_exp_from :: "nat \<Rightarrow> int \<Rightarrow> rat \<Rightarrow> int" where
  "ulp_exp_from 0 e x = e"
| "ulp_exp_from (Suc n) e x =
     (if \<bar>x\<bar> < pow2 (e + 53) then e else ulp_exp_from n (e + 1) x)"

definition ulp_exp :: "rat \<Rightarrow> int" where
  "ulp_exp x = ulp_exp_from 2046 (- 1074) x"

definition f64_of_rat :: "rat \<Rightarrow> f64" where
  "f64_of_rat x =
     (let e = ulp_exp x; y = of_int (round_even (x / pow2 e)) * pow2 e in
      if \<bar>y\<bar> < pow2 1024 then Fin y else Inf (x < 0))"

text \<open>Multiplication by a positive finite constant.\<close>

fun f64_scale :: "rat \<Rightarrow> f64 \<Rightarrow> f64" where
  "f64_scale c NaN = NaN"
| "f64_scale c (Inf s) = Inf s"
| "f64_scale c (Fin x) = f64_of_rat (x * c)"

fun f64_round :: "f64 \<Rightarrow> f64" where
  "f64_round (Fin x) = Fin (of_int (if 0 \<le> x then \<lfloor>x + 1 / 2\<rfloor> else \<lceil>x - 1 / 2\<rceil>))"
| "f64_round x = x"

text \<open>Comparison with a finite constant; every comparison with \<open>NaN\<close> is false.\<close>

fun f64_less :: "f64 \<Rightarrow> rat \<Rightarrow> bool" where
  "f64_less NaN c = False"
| "f64_less (Inf s) c = s"
| "f64_less (Fin x) c = (x < c)"

fun f64_ge :: "f64 \<Rightarrow> rat \<Rightarrow> bool" where
  "f64_ge NaN c = False"
| "f64_ge (Inf s) c = (\<not> s)"
| "f64_ge (Fin x) c = (x \<ge> c)"

fun f64_as_u64 :: "f64 \<Rightarrow> u64" where
  "f64_as_u64 NaN = 0"
| "f64_as_u64 (Inf s) = (if s then 0 else - 1)"
| "f64_as_u64 (Fin x) =
     (if x < 0 then 0
      else if \<lfloor>x\<rfloor> < 2 ^ 64 then word_of_int \<lfloor>x\<rfloor> else - 1)"

section \<open>The rounding error\<close>

lemma pow2_pos [simp]: "0 < pow2 e"
  by (simp add: pow2_def)

lemma pow2_powi: "pow2 e = 2 powi e"
  by (simp add: pow2_def power_int_def power_one_over inverse_eq_divide)

lemma pow2_add: "pow2 (a + b) = pow2 a * pow2 b"
  unfolding pow2_powi by (rule power_int_add) simp

lemma pow2_nonzero [simp]: "pow2 e \<noteq> 0"
  using pow2_pos [of e] by linarith

lemma round_even_error: "\<bar>of_int (round_even x) - x\<bar> \<le> 1 / 2"
proof -
  have l: "of_int \<lfloor>x\<rfloor> \<le> x" and u: "x < of_int \<lfloor>x\<rfloor> + 1" by linarith+
  define f where "f = (of_int \<lfloor>x\<rfloor> :: rat)"
  from l u have "f \<le> x" "x < f + 1" by (simp_all add: f_def)
  then show ?thesis
    unfolding round_even_def Let_def f_def [symmetric]
    by (cases "x - f < 1 / 2"; cases "x - f > 1 / 2") (auto simp: f_def)
qed

lemma ulp_exp_from_spec:
  "\<bar>x\<bar> < pow2 (e + int n + 53) \<Longrightarrow>
     \<bar>x\<bar> < pow2 (ulp_exp_from n e x + 53) \<and>
     (ulp_exp_from n e x = e \<or> pow2 (ulp_exp_from n e x + 52) \<le> \<bar>x\<bar>)"
proof (induction n arbitrary: e)
  case 0
  then show ?case by simp
next
  case (Suc n)
  show ?case
  proof (cases "\<bar>x\<bar> < pow2 (e + 53)")
    case True
    then show ?thesis by simp
  next
    case False
    from Suc.prems have "\<bar>x\<bar> < pow2 (e + 1 + int n + 53)" by (simp add: algebra_simps)
    from Suc.IH [OF this] False show ?thesis by (auto simp: algebra_simps)
  qed
qed

text \<open>A product between \<open>2 ^ -1022\<close> and \<open>2 ^ 1023\<close> is rounded with a relative error of at most
  \<open>2 ^ -53\<close>.\<close>

lemma f64_of_rat_error:
  assumes lo: "pow2 (- 1022) \<le> x" and hi: "x < pow2 1023"
  shows "\<exists>y. f64_of_rat x = Fin y \<and> \<bar>y - x\<bar> \<le> x / 2 ^ 53"
proof -
  define e where "e = ulp_exp x"
  define y where "y = of_int (round_even (x / pow2 e)) * pow2 e"
  have pos: "0 < x" using lo pow2_pos [of "- 1022"] by linarith
  have "pow2 1023 < (pow2 1025 :: rat)" by (simp add: pow2_def)
  with hi pos have "\<bar>x\<bar> < pow2 (- 1074 + int 2046 + 53)" by simp
  from ulp_exp_from_spec [OF this] pos
  have e: "e = - 1074 \<or> pow2 (e + 52) \<le> x" by (auto simp: e_def ulp_exp_def)
  have ulp: "pow2 e \<le> x / 2 ^ 52"
  proof -
    have p52: "pow2 (e + 52) = pow2 e * 2 ^ 52" by (simp add: pow2_add) (simp add: pow2_def)
    have "pow2 (- 1074) * 2 ^ 52 = pow2 (- 1022)" by (simp add: pow2_def)
    with e lo p52 have "pow2 e * 2 ^ 52 \<le> x" by auto
    then show ?thesis by (simp add: field_simps)
  qed
  have "y - x = (of_int (round_even (x / pow2 e)) - x / pow2 e) * pow2 e"
    using pow2_pos [of e] by (simp add: y_def left_diff_distrib)
  then have "\<bar>y - x\<bar> = \<bar>of_int (round_even (x / pow2 e)) - x / pow2 e\<bar> * pow2 e"
    using abs_of_pos [OF pow2_pos [of e]] by (simp add: abs_mult)
  also have "\<dots> \<le> 1 / 2 * pow2 e"
    using round_even_error [of "x / pow2 e"] less_imp_le [OF pow2_pos [of e]]
    by (intro mult_right_mono) auto
  also have "\<dots> \<le> x / 2 ^ 53" using ulp by simp
  finally have err: "\<bar>y - x\<bar> \<le> x / 2 ^ 53" .
  have "x / 2 ^ 53 \<le> x" using pos by (simp add: field_simps)
  with err have "\<bar>y - x\<bar> \<le> x" by (rule order_trans)
  with pos have yb: "\<bar>y\<bar> \<le> 2 * x" unfolding abs_le_iff by linarith
  have "2 * x < 2 * pow2 1023" using hi by simp
  also have "\<dots> = pow2 1024" by (simp add: pow2_def)
  finally have "\<bar>y\<bar> < pow2 1024" using yb by simp
  then have "f64_of_rat x = Fin y"
    by (simp add: f64_of_rat_def Let_def e_def y_def)
  with err show ?thesis by blast
qed

end
