(* ===== verification/Electrum.thy ===== *)
theory Electrum
  imports App_Error Float64
begin

text \<open>
  \<open>src/src/infra/electrum.rs\<close>: the data an Electrum server returns, the checked amount
  conversion and sums over it, the JSON-RPC envelope, the server endpoint syntax, the
  address-to-script conversion, and the primary/fallback failover with its circuit
  breaker.

  The sockets, the JSON text and the TLS layer are not modelled: one exchange with one
  server is a function from the server to the envelope it answered. SHA-256 and the
  \<open>bech32\<close> and \<open>bs58\<close> decoders are parameters.
\<close>

section \<open>Verbose transactions\<close>

record script_pub_key_info =
  spk_address :: "string option"
  spk_addresses :: "string list option"

fun first_of :: "'a list \<Rightarrow> 'a option" where
  "first_of [] = None"
| "first_of (x # xs) = Some x"

definition get_address :: "script_pub_key_info \<Rightarrow> string option" where
  "get_address s =
     (case spk_address s of
        Some a \<Rightarrow> Some a
      | None \<Rightarrow> (case spk_addresses s of None \<Rightarrow> None | Some l \<Rightarrow> first_of l))"

record prevout =
  prev_value :: f64
  prev_script_pub_key :: script_pub_key_info

record verbose_vin =
  vin_txid :: "string option"
  vin_vout :: "u32 option"
  vin_prevout :: "prevout option"

record verbose_vout =
  vout_value :: f64
  vout_n :: u32
  vout_script_pub_key :: script_pub_key_info

record verbose_transaction =
  vtx_txid :: string
  vtx_vin :: "verbose_vin list"
  vtx_vout :: "verbose_vout list"

record electrum_history_entry =
  h_tx_hash :: string
  h_height :: i64
  h_fee :: "u64 option"

record electrum_balance =
  bal_confirmed :: u64
  bal_unconfirmed :: i64

record electrum_utxo =
  utxo_tx_hash :: string
  utxo_tx_pos :: u64
  utxo_value :: u64
  utxo_height :: u64

definition checked_btc_to_sat :: "f64 \<Rightarrow> u64 result" where
  "checked_btc_to_sat value =
     (if \<not> f64_is_finite value \<or> f64_less value 0
      then Inl (NodeError ''non-finite or negative amount from Electrum server'')
      else
        let sats = f64_round (f64_scale 100000000 value) in
        if f64_ge sats (2 ^ 53)
        then Inl (NodeError ''amount out of range from Electrum server'')
        else Inr (f64_as_u64 sats))"

text \<open>The loop \<open>total = total.checked_add(checked_btc_to_sat(v)?).ok_or(..)?\<close>.\<close>

fun checked_sat_sum :: "string \<Rightarrow> u64 \<Rightarrow> f64 list \<Rightarrow> u64 result" where
  "checked_sat_sum msg acc [] = Inr acc"
| "checked_sat_sum msg acc (v # vs) =
     try_bind (checked_btc_to_sat v) (\<lambda>sat.
     try_bind (ok_or (u64_checked_add acc sat) (NodeError msg)) (\<lambda>acc'.
       checked_sat_sum msg acc' vs))"

definition total_received_at :: "verbose_transaction \<Rightarrow> string \<Rightarrow> u64 result" where
  "total_received_at tx address =
     checked_sat_sum ''output amount sum overflow'' 0
       (map vout_value (filter (\<lambda>v. get_address (vout_script_pub_key v) = Some address)
          (vtx_vout tx)))"

definition total_sent_from :: "verbose_transaction \<Rightarrow> string \<Rightarrow> u64 option result" where
  "total_sent_from tx address =
     (if list_ex (\<lambda>vin. vin_prevout vin = None) (vtx_vin tx) then Inr None
      else
        try_bind (checked_sat_sum ''input amount sum overflow'' 0
            (map prev_value (filter (\<lambda>p. get_address (prev_script_pub_key p) = Some address)
               (List.map_filter vin_prevout (vtx_vin tx)))))
          (\<lambda>t. Inr (Some t)))"

fun sum_balances_from :: "u64 \<Rightarrow> i64 \<Rightarrow> electrum_balance list \<Rightarrow> electrum_balance result" where
  "sum_balances_from c u [] = Inr \<lparr>bal_confirmed = c, bal_unconfirmed = u\<rparr>"
| "sum_balances_from c u (b # bs) =
     try_bind (ok_or (u64_checked_add c (bal_confirmed b))
         (NodeError ''confirmed balance sum overflow'')) (\<lambda>c'.
     try_bind (ok_or (i64_checked_add u (bal_unconfirmed b))
         (NodeError ''unconfirmed balance sum overflow'')) (\<lambda>u'.
       sum_balances_from c' u' bs))"

definition sum_balances :: "electrum_balance list \<Rightarrow> electrum_balance result" where
  "sum_balances bs = sum_balances_from 0 0 bs"

definition f64_min :: "f64 \<Rightarrow> rat \<Rightarrow> f64" where
  "f64_min x c = (case x of NaN \<Rightarrow> Fin c | Inf s \<Rightarrow> (if s then Inf s else Fin c) | Fin v \<Rightarrow> Fin (min v c))"

definition f64_le_zero :: "f64 \<Rightarrow> bool" where
  "f64_le_zero x = (case x of NaN \<Rightarrow> False | Inf s \<Rightarrow> s | Fin v \<Rightarrow> v \<le> 0)"

text \<open>\<open>estimate_fee\<close>, after the call: the argument is the server's answer in BTC/kB.\<close>

definition fee_from_estimate :: "f64 \<Rightarrow> f64 option" where
  "fee_from_estimate btc_per_kb =
     (if \<not> f64_is_finite btc_per_kb \<or> f64_le_zero btc_per_kb then None
      else
        let sat_per_vb = f64_scale 100000 btc_per_kb in
        if \<not> f64_is_finite sat_per_vb \<or> f64_le_zero sat_per_vb then None
        else Some (f64_min sat_per_vb 10000))"

section \<open>Batches\<close>

datatype batch_error = App app_error | Deadline

text \<open>\<open>buffered(..).try_collect()\<close> yields in input order and stops at the first error.\<close>

fun try_collect :: "'a result list \<Rightarrow> 'a list result" where
  "try_collect [] = Inr []"
| "try_collect (q # qs) = try_bind q (\<lambda>x. try_bind (try_collect qs) (\<lambda>xs. Inr (x # xs)))"

definition run_batch :: "bool \<Rightarrow> 'a result list \<Rightarrow> batch_error + 'a list" where
  "run_batch timed_out queries =
     (if timed_out then Inl Deadline
      else case try_collect queries of Inl e \<Rightarrow> Inl (App e) | Inr xs \<Rightarrow> Inr xs)"

definition get_balance_sum ::
    "bool \<Rightarrow> (string \<Rightarrow> electrum_balance result) \<Rightarrow> string list \<Rightarrow> batch_error + electrum_balance" where
  "get_balance_sum timed_out get_balance addresses =
     (case run_batch timed_out (map get_balance addresses) of
        Inl e \<Rightarrow> Inl e
      | Inr acc \<Rightarrow> (case sum_balances acc of Inl e \<Rightarrow> Inl (App e) | Inr b \<Rightarrow> Inr b))"

text \<open>\<open>get_utxos_tagged\<close> and \<open>get_history_tagged\<close> differ only in the query they run.\<close>

definition get_tagged ::
    "bool \<Rightarrow> (string \<Rightarrow> 'e list result) \<Rightarrow> string list \<Rightarrow> batch_error + (string \<times> 'e) list" where
  "get_tagged timed_out get addresses =
     (case run_batch timed_out (map get addresses) of
        Inl e \<Rightarrow> Inl e
      | Inr results \<Rightarrow>
          Inr (concat (map (\<lambda>(address, entries). map (Pair address) entries)
                 (zip addresses results))))"

definition get_utxos_tagged ::
    "bool \<Rightarrow> (string \<Rightarrow> electrum_utxo list result) \<Rightarrow> string list \<Rightarrow>
     batch_error + (string \<times> electrum_utxo) list" where
  "get_utxos_tagged = get_tagged"

definition get_history_tagged ::
    "bool \<Rightarrow> (string \<Rightarrow> electrum_history_entry list result) \<Rightarrow> string list \<Rightarrow>
     batch_error + (string \<times> electrum_history_entry) list" where
  "get_history_tagged = get_tagged"

section \<open>The JSON-RPC envelope\<close>

definition is_control :: "char \<Rightarrow> bool" where
  "is_control c \<longleftrightarrow> (of_char c :: nat) < 32 \<or> (of_char c :: nat) = 127"

definition truncate_for_log :: "string \<Rightarrow> nat \<Rightarrow> string" where
  "truncate_for_log s n = take n (filter (\<lambda>c. \<not> is_control c) s)"

record 'a json_rpc_response =
  rpc_result :: "'a option"
  rpc_error :: "string option"
  rpc_id :: u64

definition into_result :: "'a json_rpc_response \<Rightarrow> u64 \<Rightarrow> 'a result" where
  "into_result response expected_id =
     (case rpc_error response of
        Some message \<Rightarrow>
          Inl (NodeError (''Electrum RPC error: '' @ truncate_for_log message 200))
      | None \<Rightarrow>
          if rpc_id response \<noteq> expected_id
          then Inl (NodeError ''Electrum response id mismatch'')
          else ok_or (rpc_result response) (NodeError ''empty Electrum response''))"

section \<open>Server endpoints\<close>

record server_url =
  srv_host :: string
  srv_port :: u16
  srv_use_ssl :: bool

fun digits_value :: "nat \<Rightarrow> string \<Rightarrow> nat option" where
  "digits_value acc [] = Some acc"
| "digits_value acc (c # cs) =
     (if is_ascii_digit c then digits_value (10 * acc + (of_char c - 48)) cs else None)"

text \<open>\<open>str::parse::<u16>\<close>: an optional plus sign, at least one digit, no overflow.\<close>

definition parse_u16 :: "string \<Rightarrow> u16 option" where
  "parse_u16 s =
     (let ds = (case s of [] \<Rightarrow> [] | c # cs \<Rightarrow> if c = CHR ''+'' then cs else s) in
      if ds = [] then None
      else case digits_value 0 ds of
        None \<Rightarrow> None
      | Some n \<Rightarrow> if n < 65536 then Some (of_nat n) else None)"

definition parse_server_url :: "string \<Rightarrow> server_url result" where
  "parse_server_url url =
     try_bind (ok_or (split_once ''://'' url)
         (ConfigError (''invalid Electrum server URL: '' @ url))) (\<lambda>(scheme, rest).
     try_bind (if scheme = ''ssl'' \<or> scheme = ''tls'' then Inr True
               else if scheme = ''tcp'' then Inr False
               else Inl (ConfigError (''unknown scheme '' @ quote @ scheme @ quote @ '' in Electrum URL''))) (\<lambda>ssl.
     try_bind (ok_or (rsplit_once_char (CHR '':'') rest)
         (ConfigError (''missing port in Electrum URL: '' @ url))) (\<lambda>(host, port_str).
     try_bind (ok_or (parse_u16 port_str)
         (ConfigError (''invalid port in Electrum URL: '' @ url))) (\<lambda>port.
       if host = [] then Inl (ConfigError (''empty host in Electrum URL: '' @ url))
       else Inr \<lparr>srv_host = host, srv_port = port, srv_use_ssl = ssl\<rparr>))))"

section \<open>Failover and circuit breaker\<close>

definition PRIMARY_FAIL_THRESHOLD :: int where
  "PRIMARY_FAIL_THRESHOLD = 2"

definition PRIMARY_COOLDOWN_ms :: u64 where
  "PRIMARY_COOLDOWN_ms = 30000"

record electrum_client =
  primary :: "server_url option"
  fallbacks :: "server_url list"
  next_id :: u64
  primary_fail_count :: u32
  primary_cooldown_until_ms :: u64

definition primary_in_cooldown :: "electrum_client \<Rightarrow> u64 \<Rightarrow> bool" where
  "primary_in_cooldown c now_ms \<longleftrightarrow> primary_cooldown_until_ms c > now_ms"

text \<open>\<open>None\<close> is the panic of \<open>fetch_add(1) + 1\<close> at \<open>u32::MAX\<close> (overflow checks are on).\<close>

definition record_primary_failure :: "electrum_client \<Rightarrow> u64 \<Rightarrow> electrum_client option" where
  "record_primary_failure c now_ms =
     (if uint (primary_fail_count c) + 1 \<ge> 2 ^ 32 then None
      else
        let c' = c\<lparr>primary_fail_count := primary_fail_count c + 1\<rparr> in
        if uint (primary_fail_count c) + 1 \<ge> PRIMARY_FAIL_THRESHOLD
        then Some (c'\<lparr>primary_cooldown_until_ms :=
               u64_saturating_add now_ms PRIMARY_COOLDOWN_ms\<rparr>)
        else Some c')"

definition record_primary_success :: "electrum_client \<Rightarrow> electrum_client" where
  "record_primary_success c = c\<lparr>primary_fail_count := 0, primary_cooldown_until_ms := 0\<rparr>"

text \<open>One attempt: the exchange (a parameter) and the envelope.\<close>

definition try_call ::
    "(server_url \<Rightarrow> 'a json_rpc_response result) \<Rightarrow> server_url \<Rightarrow> u64 \<Rightarrow> 'a result" where
  "try_call exchange server rid =
     try_bind (exchange server) (\<lambda>response. into_result response rid)"

fun try_fallbacks ::
    "(server_url \<Rightarrow> 'a json_rpc_response result) \<Rightarrow> u64 \<Rightarrow> app_error \<Rightarrow> server_url list \<Rightarrow> 'a result" where
  "try_fallbacks exchange rid last_err [] = Inl last_err"
| "try_fallbacks exchange rid last_err (s # ss) =
     (case try_call exchange s rid of
        Inr value \<Rightarrow> Inr value
      | Inl e \<Rightarrow> try_fallbacks exchange rid e ss)"

definition use_primary :: "electrum_client \<Rightarrow> u64 \<Rightarrow> server_url option" where
  "use_primary c now_ms =
     option_filter (\<lambda>_. \<not> primary_in_cooldown c now_ms \<or> fallbacks c = []) (primary c)"

text \<open>
  \<open>ElectrumClient::call\<close>. The argument \<open>shuffled\<close> is the order \<open>shuffle\<close> drew for the
  fallbacks; \<open>None\<close> is the panic of \<open>record_primary_failure\<close>.
\<close>

definition call ::
    "(server_url \<Rightarrow> 'a json_rpc_response result) \<Rightarrow> server_url list \<Rightarrow> u64 \<Rightarrow>
     electrum_client \<Rightarrow> ('a result \<times> electrum_client) option" where
  "call exchange shuffled now_ms c0 =
     (let rid = next_id c0; c = c0\<lparr>next_id := next_id c0 + 1\<rparr> in
      if primary c = None \<and> fallbacks c = []
      then Some (Inl (NodeError ''no Electrum server configured''), c)
      else
        case use_primary c now_ms of
          None \<Rightarrow>
            Some (try_fallbacks exchange rid (NodeError ''all Electrum servers failed'') shuffled, c)
        | Some p \<Rightarrow>
            (case try_call exchange p rid of
               Inr value \<Rightarrow> Some (Inr value, record_primary_success c)
             | Inl e \<Rightarrow>
                 map_option (\<lambda>c'. (try_fallbacks exchange rid e shuffled, c'))
                   (record_primary_failure c now_ms)))"

section \<open>Addresses\<close>

datatype utxo_network = BitcoinMainnet | BitcoinTestnet | LitecoinMainnet | LitecoinTestnet

definition network_bitcoin :: "string \<Rightarrow> utxo_network result" where
  "network_bitcoin network =
     (if network = ''mainnet'' then Inr BitcoinMainnet
      else if network = ''testnet'' then Inr BitcoinTestnet
      else Inl (ConfigError (''unknown bitcoin network: '' @ network)))"

definition network_litecoin :: "string \<Rightarrow> utxo_network result" where
  "network_litecoin network =
     (if network = ''mainnet'' then Inr LitecoinMainnet
      else if network = ''testnet'' then Inr LitecoinTestnet
      else Inl (ConfigError (''unknown litecoin network: '' @ network)))"

fun segwit_hrp :: "utxo_network \<Rightarrow> string" where
  "segwit_hrp BitcoinMainnet = ''bc''"
| "segwit_hrp BitcoinTestnet = ''tb''"
| "segwit_hrp LitecoinMainnet = ''ltc''"
| "segwit_hrp LitecoinTestnet = ''tltc''"

fun p2pkh_version :: "utxo_network \<Rightarrow> byte" where
  "p2pkh_version BitcoinMainnet = 0x00"
| "p2pkh_version BitcoinTestnet = 0x6f"
| "p2pkh_version LitecoinMainnet = 0x30"
| "p2pkh_version LitecoinTestnet = 0x6f"

fun p2sh_versions :: "utxo_network \<Rightarrow> byte list" where
  "p2sh_versions BitcoinMainnet = [0x05]"
| "p2sh_versions BitcoinTestnet = [0xc4]"
| "p2sh_versions LitecoinMainnet = [0x32, 0x05]"
| "p2sh_versions LitecoinTestnet = [0x3a, 0xc4]"

text \<open>\<open>decode\<close> is \<open>bech32::segwit::decode\<close>: human-readable part, witness version, program.\<close>

definition segwit_to_script ::
    "(string \<Rightarrow> (string \<times> byte \<times> byte list) option) \<Rightarrow> utxo_network \<Rightarrow> string \<Rightarrow> byte list result" where
  "segwit_to_script decode net address =
     (case decode address of
        None \<Rightarrow> Inl (ValidationError ''invalid segwit address'')
      | Some (hrp, version, program) \<Rightarrow>
          if to_lowercase hrp \<noteq> segwit_hrp net
          then Inl (ValidationError ''address is for a different network'')
          else Inr ((if version = 0 then 0x00 else 0x50 + version) #
                    of_nat (length program) # program))"

definition base58_to_script ::
    "(byte list \<Rightarrow> byte list) \<Rightarrow> (string \<Rightarrow> byte list option) \<Rightarrow> utxo_network \<Rightarrow> string \<Rightarrow> byte list result" where
  "base58_to_script sha256 decode net address =
     (case decode address of
        None \<Rightarrow> Inl (ValidationError ''invalid base58 address'')
      | Some decoded \<Rightarrow>
          if length decoded \<noteq> 25 then Inl (ValidationError ''invalid address length'')
          else
            let payload = take 21 decoded; checksum = drop 21 decoded;
                second = sha256 (sha256 payload)
            in if take 4 second \<noteq> checksum
               then Inl (ValidationError ''invalid address checksum'')
               else
                 let version = hd payload; hash160 = tl payload in
                 if version = p2pkh_version net
                 then Inr ([0x76, 0xa9, 0x14] @ hash160 @ [0x88, 0xac])
                 else if version \<in> set (p2sh_versions net)
                 then Inr ([0xa9, 0x14] @ hash160 @ [0x87])
                 else Inl (ValidationError ''address is for a different network''))"

definition looks_segwit :: "utxo_network \<Rightarrow> string \<Rightarrow> bool" where
  "looks_segwit net address =
     (case strip_prefix (segwit_hrp net) (to_lowercase address) of
        None \<Rightarrow> False
      | Some rest \<Rightarrow> strip_prefix ''1'' rest \<noteq> None)"

definition address_to_script ::
    "(byte list \<Rightarrow> byte list) \<Rightarrow> (string \<Rightarrow> byte list option) \<Rightarrow>
     (string \<Rightarrow> (string \<times> byte \<times> byte list) option) \<Rightarrow> utxo_network \<Rightarrow> string \<Rightarrow> byte list result" where
  "address_to_script sha256 b58 segwit net address =
     (if looks_segwit net address then segwit_to_script segwit net address
      else base58_to_script sha256 b58 net address)"

definition address_to_scripthash ::
    "'a crates_scheme \<Rightarrow> (byte list \<Rightarrow> byte list) \<Rightarrow> (string \<Rightarrow> byte list option) \<Rightarrow>
     (string \<Rightarrow> (string \<times> byte \<times> byte list) option) \<Rightarrow> utxo_network \<Rightarrow> string \<Rightarrow> string result" where
  "address_to_scripthash lib sha256 b58 segwit net address =
     try_bind (address_to_script sha256 b58 segwit net address)
       (\<lambda>script. Inr (hex_encode lib (rev (sha256 script))))"

section \<open>Amounts are exact\<close>

lemma sat_rounding:
  fixes n :: nat
  assumes n: "0 < n" "n \<le> 2100000000000000"
  shows "\<exists>y z. f64_of_rat (of_nat n / 100000000) = Fin y \<and> 0 < y \<and>
    f64_of_rat (y * 100000000) = Fin z \<and> \<bar>z - of_nat n\<bar> < 1 / 2"
proof -
  define m where "m = (of_nat n :: rat)"
  have "(of_nat n :: rat) \<le> of_nat 2100000000000000" using n(2) by (simp only: of_nat_le_iff)
  moreover have "(of_nat 1 :: rat) \<le> of_nat n" using n(1) by (simp only: of_nat_le_iff)
  ultimately have m: "1 \<le> m" "m \<le> 2100000000000000" by (simp_all add: m_def)
  have small: "pow2 (- 1022) \<le> 1 / 200000000" by (simp add: pow2_def)
  have big: "5000000000000000 < pow2 1023" by (simp add: pow2_def)
  obtain y where y: "f64_of_rat (m / 100000000) = Fin y" "\<bar>y - m / 100000000\<bar> \<le> m / 100000000 / 2 ^ 53"
    using f64_of_rat_error [of "m / 100000000"] m small big by force
  define x where "x = y * 100000000"
  have "x - m = (y - m / 100000000) * 100000000" by (simp add: x_def algebra_simps)
  then have "\<bar>x - m\<bar> = \<bar>y - m / 100000000\<bar> * 100000000" by (simp only: abs_mult)
  with y(2) have x: "\<bar>x - m\<bar> \<le> m / 2 ^ 53" by (simp add: field_simps)
  have mb: "m / 2 ^ 53 \<le> 234 / 1000" using m by simp
  from x mb have xm: "\<bar>x - m\<bar> \<le> 234 / 1000" by (rule order_trans)
  then have xb: "m - 234 / 1000 \<le> x" "x \<le> m + 234 / 1000" by linarith+
  obtain z where z: "f64_of_rat x = Fin z" "\<bar>z - x\<bar> \<le> x / 2 ^ 53"
    using f64_of_rat_error [of x] xb m small big by force
  have "x / 2 ^ 53 \<le> 235 / 1000" using xb m by simp
  with z(2) have "\<bar>z - x\<bar> \<le> 235 / 1000" by (rule order_trans)
  with xm have "\<bar>z - m\<bar> < 1 / 2" by linarith
  moreover have "0 < y" using xb m by (simp add: x_def)
  ultimately show ?thesis using y(1) z(1) by (auto simp: m_def x_def)
qed

lemma f64_of_rat_0: "f64_of_rat 0 = Fin 0"
proof -
  have "ulp_exp_from (Suc k) (- 1074) 0 = - 1074" for k by simp
  then have "ulp_exp 0 = - 1074" by (metis Suc_numeral ulp_exp_def numeral_eq_Suc)
  then show ?thesis by (simp add: f64_of_rat_def Let_def round_even_def)
qed

text \<open>Money in: an amount of whole satoshis up to the 21 million coin supply, delivered as the nearest
  double to its decimal value in coins, is converted back to exactly that number of satoshis, despite
  the rounding of the decimal and of the product.\<close>

theorem checked_btc_to_sat_exact:
  assumes "n \<le> 2100000000000000"
  shows "checked_btc_to_sat (f64_of_rat (of_nat n / 100000000)) = Inr (of_nat n)"
proof (cases "n = 0")
  case True
  moreover have "\<lfloor>1 / 2 :: rat\<rfloor> = 0" by (simp add: floor_eq_iff)
  ultimately show ?thesis by (simp add: checked_btc_to_sat_def f64_of_rat_0)
next
  case False
  then obtain y z where yz: "f64_of_rat (of_nat n / 100000000) = Fin y" "0 < y"
    "f64_of_rat (y * 100000000) = Fin z" "\<bar>z - of_nat n\<bar> < 1 / 2"
    using sat_rounding [of n] assms by auto
  have "(1 :: rat) \<le> of_nat n" using False by simp
  with yz(4) have "0 \<le> z" by linarith
  moreover have "\<lfloor>z + 1 / 2\<rfloor> = int n"
  proof (rule floor_unique)
    show "of_int (int n) \<le> z + 1 / 2" "z + 1 / 2 < of_int (int n) + 1"
      using yz(4) unfolding of_int_of_nat_eq by linarith+
  qed
  moreover have "int n < 2 ^ 53" "int n < 2 ^ 64" using assms by simp_all
  moreover have "(of_nat n :: rat) \<le> of_nat 2100000000000000" using assms by (simp only: of_nat_le_iff)
  ultimately show ?thesis using yz by (simp add: checked_btc_to_sat_def)
qed

theorem checked_btc_to_sat_exact_witness:
  "checked_btc_to_sat (f64_of_rat (of_nat 123456789 / 100000000)) = Inr (of_nat 123456789)"
  by (rule checked_btc_to_sat_exact) simp

section \<open>Sums are exact or refused\<close>

lemma checked_btc_to_sat_bound:
  assumes "checked_btc_to_sat v = Inr sat"
  shows "uint sat < 2 ^ 53"
proof -
  from assms have c: "\<not> f64_ge (f64_round (f64_scale 100000000 v)) (2 ^ 53)"
    and sat: "sat = f64_as_u64 (f64_round (f64_scale 100000000 v))"
    by (auto simp: checked_btc_to_sat_def Let_def split: if_splits)
  show ?thesis
  proof (cases "f64_round (f64_scale 100000000 v)")
    case (Fin x)
    with c have "\<lfloor>x\<rfloor> < 2 ^ 53" by (simp add: floor_less_iff)
    moreover have "0 \<le> x \<Longrightarrow> uint (word_of_int \<lfloor>x\<rfloor> :: u64) = \<lfloor>x\<rfloor>"
      using calculation by (simp add: uint_word_of_int_eq take_bit_int_eq_self)
    ultimately show ?thesis using Fin sat by simp
  qed (use c sat in \<open>simp_all split: if_splits\<close>)
qed

lemma checked_sat_sum_exact:
  "checked_sat_sum msg acc vs = Inr t \<Longrightarrow>
     \<exists>sats. map checked_btc_to_sat vs = map Inr sats \<and> uint t = uint acc + sum_list (map uint sats)"
proof (induction vs arbitrary: acc)
  case (Cons v vs)
  then obtain sat acc' where v: "checked_btc_to_sat v = Inr sat" "u64_checked_add acc sat = Some acc'"
    "checked_sat_sum msg acc' vs = Inr t" by auto
  from Cons.IH [OF v(3)] obtain sats where
    "map checked_btc_to_sat vs = map Inr sats" "uint t = uint acc' + sum_list (map uint sats)" by blast
  with v(1) u64_checked_add_uint [OF v(2)] show ?case
    by (intro exI [of _ "sat # sats"]) simp
qed simp

definition values_at :: "verbose_transaction \<Rightarrow> string \<Rightarrow> f64 list" where
  "values_at tx address =
     map vout_value (filter (\<lambda>v. get_address (vout_script_pub_key v) = Some address) (vtx_vout tx))"

text \<open>The received and sent totals of a transaction are never wrong, only refused: a total that is
  returned is the exact integer sum of the converted amounts at that address, each below 2 to the 53 satoshis,
  without wrap-around; and the sent total is returned only when every input's previous output is
  known, so it never undercounts.\<close>

theorem transaction_totals_exact:
  "(\<forall>t. total_received_at tx address = Inr t \<longrightarrow>
      (\<exists>sats. map checked_btc_to_sat (values_at tx address) = map Inr sats \<and>
         uint t = sum_list (map uint sats) \<and> (\<forall>sat \<in> set sats. uint sat < 2 ^ 53))) \<and>
   (\<forall>t. total_sent_from tx address = Inr (Some t) \<longrightarrow>
      (\<forall>vin \<in> set (vtx_vin tx). vin_prevout vin \<noteq> None) \<and>
      (\<exists>sats. map checked_btc_to_sat (map prev_value
           (filter (\<lambda>p. get_address (prev_script_pub_key p) = Some address)
             (List.map_filter vin_prevout (vtx_vin tx)))) = map Inr sats \<and>
         uint t = sum_list (map uint sats)))"
proof (intro conjI allI impI)
  fix t
  assume "total_received_at tx address = Inr t"
  then have "checked_sat_sum ''output amount sum overflow'' 0 (values_at tx address) = Inr t"
    by (simp add: total_received_at_def values_at_def)
  from checked_sat_sum_exact [OF this] obtain sats where
    s: "map checked_btc_to_sat (values_at tx address) = map Inr sats" "uint t = sum_list (map uint sats)"
    by auto
  have "uint sat < 2 ^ 53" if "sat \<in> set sats" for sat
  proof -
    from that have "Inr sat \<in> set (map checked_btc_to_sat (values_at tx address))" by (simp add: s(1))
    then show ?thesis using checked_btc_to_sat_bound by force
  qed
  with s show "\<exists>sats. map checked_btc_to_sat (values_at tx address) = map Inr sats \<and>
      uint t = sum_list (map uint sats) \<and> (\<forall>sat \<in> set sats. uint sat < 2 ^ 53)" by blast
next
  fix t
  assume "total_sent_from tx address = Inr (Some t)"
  then have c: "\<not> list_ex (\<lambda>vin. vin_prevout vin = None) (vtx_vin tx)"
    "checked_sat_sum ''input amount sum overflow'' 0 (map prev_value
       (filter (\<lambda>p. get_address (prev_script_pub_key p) = Some address)
          (List.map_filter vin_prevout (vtx_vin tx)))) = Inr t"
    by (auto simp: total_sent_from_def split: if_splits)
  then show "\<forall>vin \<in> set (vtx_vin tx). vin_prevout vin \<noteq> None" by (simp add: list_ex_iff)
  from checked_sat_sum_exact [OF c(2)]
  show "\<exists>sats. map checked_btc_to_sat (map prev_value
        (filter (\<lambda>p. get_address (prev_script_pub_key p) = Some address)
          (List.map_filter vin_prevout (vtx_vin tx)))) = map Inr sats \<and>
      uint t = sum_list (map uint sats)" by simp
qed

definition sample_vtx :: verbose_transaction where
  "sample_vtx = \<lparr>vtx_txid = ''t'',
     vtx_vin = [\<lparr>vin_txid = Some ''p'', vin_vout = Some 0, vin_prevout = None\<rparr>],
     vtx_vout = [\<lparr>vout_value = Fin 0, vout_n = 0,
       vout_script_pub_key = \<lparr>spk_address = Some ''me'', spk_addresses = None\<rparr>\<rparr>]\<rparr>"

theorem transaction_totals_exact_witness:
  "total_received_at sample_vtx ''me'' = Inr 0 \<and>
   (\<exists>sats. map checked_btc_to_sat (values_at sample_vtx ''me'') = map Inr sats \<and>
      uint (0 :: u64) = sum_list (map uint sats) \<and> (\<forall>sat \<in> set sats. uint sat < 2 ^ 53))"
proof -
  have "checked_btc_to_sat (Fin 0) = Inr 0"
    using floor_eq_iff [of "1 / 2 :: rat" 0] by (simp add: checked_btc_to_sat_def f64_of_rat_0)
  then have t: "total_received_at sample_vtx ''me'' = Inr 0"
    by (simp add: total_received_at_def sample_vtx_def get_address_def u64_checked_add_def)
  with transaction_totals_exact [of sample_vtx "''me''"] show ?thesis by blast
qed

lemma sum_balances_from_exact:
  "sum_balances_from c u bs = Inr b \<Longrightarrow>
     uint (bal_confirmed b) = uint c + sum_list (map (uint \<circ> bal_confirmed) bs) \<and>
     bal_unconfirmed b = u + sum_list (map bal_unconfirmed bs)"
  by (induction bs arbitrary: c u)
     (auto simp: i64_checked_add_def dest!: u64_checked_add_uint split: if_splits)

lemma sum_balances_from_error:
  "sum_balances_from c u bs = Inl e \<Longrightarrow>
     2 ^ 64 \<le> uint c + sum_list (map (uint \<circ> bal_confirmed) bs) \<or>
     (\<exists>k \<le> length bs. \<not> in_i64 (u + sum_list (map bal_unconfirmed (take k bs))))"
proof (induction bs arbitrary: c u)
  case (Cons x bs)
  have nn: "0 \<le> (\<Sum>b\<leftarrow>bs. uint (bal_confirmed b))" by (rule sum_list_nonneg) auto
  show ?case
  proof (cases "u64_checked_add c (bal_confirmed x)")
    case None
    with nn show ?thesis by (auto simp: u64_checked_add_def comp_def split: if_splits)
  next
    case (Some c')
    note cu = u64_checked_add_uint [OF Some]
    show ?thesis
    proof (cases "i64_checked_add u (bal_unconfirmed x)")
      case None
      then have "\<not> in_i64 (u + sum_list (map bal_unconfirmed (take 1 (x # bs))))"
        by (simp add: i64_checked_add_def split: if_splits)
      then show ?thesis by (metis One_nat_def Suc_le_mono le0 length_Cons)
    next
      case (Some u')
      then have u': "u' = u + bal_unconfirmed x" by (simp add: i64_checked_add_def split: if_splits)
      from Cons.prems \<open>u64_checked_add c (bal_confirmed x) = Some c'\<close> Some
      have "sum_balances_from c' u' bs = Inl e" by simp
      from Cons.IH [OF this] show ?thesis
      proof
        assume "\<exists>k \<le> length bs. \<not> in_i64 (u' + sum_list (map bal_unconfirmed (take k bs)))"
        then obtain k where "k \<le> length bs" "\<not> in_i64 (u' + sum_list (map bal_unconfirmed (take k bs)))"
          by blast
        then have "Suc k \<le> length (x # bs) \<and>
            \<not> in_i64 (u + sum_list (map bal_unconfirmed (take (Suc k) (x # bs))))"
          by (simp add: u' add.assoc)
        then show ?thesis by blast
      qed (simp add: cu add.assoc)
    qed
  qed
qed simp

text \<open>A balance over many addresses is exact or an error, never a wrapped number: a returned sum is
  the integer sum of the confirmed and of the unconfirmed balances, and an error means the confirmed
  sum does not fit in 64 bits or some partial sum of the unconfirmed ones leaves the signed range.\<close>

theorem sum_balances_exact_or_error:
  "case sum_balances bs of
     Inr b \<Rightarrow> uint (bal_confirmed b) = sum_list (map (uint \<circ> bal_confirmed) bs) \<and>
       bal_unconfirmed b = sum_list (map bal_unconfirmed bs)
   | Inl e \<Rightarrow> 2 ^ 64 \<le> sum_list (map (uint \<circ> bal_confirmed) bs) \<or>
       (\<exists>k \<le> length bs. \<not> in_i64 (sum_list (map bal_unconfirmed (take k bs))))"
  using sum_balances_from_exact [of 0 0 bs] sum_balances_from_error [of 0 0 bs]
  by (auto simp: sum_balances_def split: sum.split)

theorem sum_balances_exact_or_error_witness:
  "case sum_balances [\<lparr>bal_confirmed = 3, bal_unconfirmed = -1\<rparr>, \<lparr>bal_confirmed = 4, bal_unconfirmed = 2\<rparr>] of
     Inr b \<Rightarrow> uint (bal_confirmed b) = 7 \<and> bal_unconfirmed b = 1 | Inl e \<Rightarrow> False"
proof -
  let ?bs = "[\<lparr>bal_confirmed = 3, bal_unconfirmed = -1\<rparr>, \<lparr>bal_confirmed = 4, bal_unconfirmed = 2\<rparr>]"
  have "sum_balances ?bs = Inr \<lparr>bal_confirmed = 7, bal_unconfirmed = 1\<rparr>" by code_simp
  with sum_balances_exact_or_error [of ?bs] show ?thesis by simp
qed

section \<open>Failover\<close>

lemma try_call_Inr:
  "try_call exchange s rid = Inr v \<longleftrightarrow>
     (\<exists>resp. exchange s = Inr resp \<and> rpc_error resp = None \<and> rpc_id resp = rid \<and> rpc_result resp = Some v)"
  by (auto simp: try_call_def into_result_def split: option.splits if_splits)

lemma try_fallbacks_Inr:
  "try_fallbacks exchange rid e ss = Inr v \<Longrightarrow> \<exists>s \<in> set ss. try_call exchange s rid = Inr v"
  by (induction ss arbitrary: e) (auto split: sum.splits)

lemma try_fallbacks_finds:
  "s \<in> set ss \<Longrightarrow> try_call exchange s rid = Inr v \<Longrightarrow> \<exists>v. try_fallbacks exchange rid e ss = Inr v"
  by (induction ss arbitrary: e) (auto split: sum.splits)

text \<open>Failover: with the fallbacks tried in whatever order, an answer is always one that a configured
  server gave, without error and to this very request; if any fallback would answer then the call
  succeeds (as long as the failure counter does not overflow); and a primary in its cool-down is not
  asked when there is a fallback, its breaker left as it was.\<close>

theorem electrum_call_failover:
  assumes "set shuffled = set (fallbacks c)" "uint (primary_fail_count c) < 2 ^ 32 - 1"
  shows "(\<forall>v c'. call exchange shuffled now_ms c = Some (Inr v, c') \<longrightarrow>
      (\<exists>srv resp. (primary c = Some srv \<or> srv \<in> set (fallbacks c)) \<and> exchange srv = Inr resp \<and>
         rpc_error resp = None \<and> rpc_id resp = next_id c \<and> rpc_result resp = Some v)) \<and>
    (\<forall>srv v. srv \<in> set (fallbacks c) \<longrightarrow> try_call exchange srv (next_id c) = Inr v \<longrightarrow>
      (\<exists>v' c'. call exchange shuffled now_ms c = Some (Inr v', c'))) \<and>
    (primary_in_cooldown c now_ms \<longrightarrow> fallbacks c \<noteq> [] \<longrightarrow>
      call exchange shuffled now_ms c =
        Some (try_fallbacks exchange (next_id c) (NodeError ''all Electrum servers failed'') shuffled,
              c\<lparr>next_id := next_id c + 1\<rparr>))"
proof (intro conjI allI impI)
  fix v c'
  assume "call exchange shuffled now_ms c = Some (Inr v, c')"
  then have "(\<exists>p. primary c = Some p \<and> try_call exchange p (next_id c) = Inr v) \<or>
      (\<exists>e. try_fallbacks exchange (next_id c) e shuffled = Inr v)"
    by (auto simp: call_def Let_def use_primary_def split: if_splits option.splits sum.splits)
  then have "\<exists>srv. (primary c = Some srv \<or> srv \<in> set (fallbacks c)) \<and> try_call exchange srv (next_id c) = Inr v"
    using try_fallbacks_Inr [of exchange "next_id c" _ shuffled v] assms(1) by blast
  then show "\<exists>srv resp. (primary c = Some srv \<or> srv \<in> set (fallbacks c)) \<and> exchange srv = Inr resp \<and>
      rpc_error resp = None \<and> rpc_id resp = next_id c \<and> rpc_result resp = Some v"
    by (auto simp: try_call_Inr)
next
  fix srv v
  assume srv: "srv \<in> set (fallbacks c)" "try_call exchange srv (next_id c) = Inr v"
  then have f: "\<exists>v'. try_fallbacks exchange (next_id c) e shuffled = Inr v'" for e
    using try_fallbacks_finds [of srv shuffled exchange "next_id c" v e] assms(1) by blast
  have r: "\<exists>c'. record_primary_failure (c\<lparr>next_id := x\<rparr>) now_ms = Some c'" for x
    using assms(2) by (auto simp: record_primary_failure_def Let_def)
  have nonempty: "fallbacks c \<noteq> []" using srv(1) by auto
  show "\<exists>v' c'. call exchange shuffled now_ms c = Some (Inr v', c')"
    using f [of "NodeError ''all Electrum servers failed''"] f r nonempty
    by (auto simp: call_def Let_def split: option.splits sum.splits)
next
  assume "primary_in_cooldown c now_ms" "fallbacks c \<noteq> []"
  then show "call exchange shuffled now_ms c =
      Some (try_fallbacks exchange (next_id c) (NodeError ''all Electrum servers failed'') shuffled,
            c\<lparr>next_id := next_id c + 1\<rparr>)"
    by (auto simp: call_def Let_def use_primary_def option_filter_def primary_in_cooldown_def
        split: option.splits)
qed

definition sample_server :: "string \<Rightarrow> server_url" where
  "sample_server h = \<lparr>srv_host = h, srv_port = 50002, srv_use_ssl = True\<rparr>"

definition sample_client :: electrum_client where
  "sample_client = \<lparr>primary = Some (sample_server ''a''), fallbacks = [sample_server ''b''], next_id = 7,
     primary_fail_count = 0, primary_cooldown_until_ms = 0\<rparr>"

definition sample_exchange :: "server_url \<Rightarrow> nat json_rpc_response result" where
  "sample_exchange s = (if srv_host s = ''b'' then Inr \<lparr>rpc_result = Some 5, rpc_error = None, rpc_id = 7\<rparr>
     else Inl (NodeError ''down''))"

theorem electrum_call_failover_witness:
  "\<exists>v' c'. call sample_exchange [sample_server ''b''] 1 sample_client = Some (Inr v', c')"
proof -
  have s: "set [sample_server ''b''] = set (fallbacks sample_client)"
    "uint (primary_fail_count sample_client) < 2 ^ 32 - 1"
    "sample_server ''b'' \<in> set (fallbacks sample_client)"
    "try_call sample_exchange (sample_server ''b'') (next_id sample_client) = Inr 5"
    by code_simp+
  from electrum_call_failover [OF s(1,2), of sample_exchange 1] s(3,4) show ?thesis by blast
qed

text \<open>The circuit breaker: one failure of the primary does not open it, the second in a row opens it
  for thirty seconds from that failure (saturating at the end of time), and a success closes it.\<close>

theorem primary_breaker_opens_after_two:
  assumes "primary_fail_count c = 0" "primary_cooldown_until_ms c = 0"
    and "record_primary_failure c t1 = Some c1" "record_primary_failure c1 t2 = Some c2"
  shows "\<not> primary_in_cooldown c1 now_ms \<and>
    (primary_in_cooldown c2 now_ms \<longleftrightarrow> uint now_ms < min (uint t2 + 30000) (2 ^ 64 - 1)) \<and>
    \<not> primary_in_cooldown (record_primary_success c2) now_ms"
proof -
  from assms(1-3) have c1: "c1 = c\<lparr>primary_fail_count := 1\<rparr>"
    by (simp add: record_primary_failure_def PRIMARY_FAIL_THRESHOLD_def Let_def split: if_splits)
  with assms(4) have "primary_cooldown_until_ms c2 = u64_saturating_add t2 PRIMARY_COOLDOWN_ms"
    by (auto simp: record_primary_failure_def PRIMARY_FAIL_THRESHOLD_def Let_def split: if_splits)
  then have "uint (primary_cooldown_until_ms c2) = min (uint t2 + 30000) (2 ^ 64 - 1)"
    by (simp add: uint_u64_saturating_add PRIMARY_COOLDOWN_ms_def)
  with assms(2) c1 show ?thesis
    by (simp add: primary_in_cooldown_def record_primary_success_def word_less_def)
qed

theorem primary_breaker_opens_after_two_witness:
  "\<exists>c1 c2. record_primary_failure sample_client 10 = Some c1 \<and> record_primary_failure c1 20 = Some c2 \<and>
     \<not> primary_in_cooldown c1 25 \<and>
     (primary_in_cooldown c2 25 \<longleftrightarrow> uint (25 :: u64) < min (uint (20 :: u64) + 30000) (2 ^ 64 - 1)) \<and>
     \<not> primary_in_cooldown (record_primary_success c2) 25"
proof -
  define c1 where "c1 = sample_client\<lparr>primary_fail_count := 1\<rparr>"
  define c2 where "c2 = c1\<lparr>primary_fail_count := 2, primary_cooldown_until_ms := 30020\<rparr>"
  have r: "record_primary_failure sample_client 10 = Some c1" "record_primary_failure c1 20 = Some c2"
    "primary_fail_count sample_client = 0" "primary_cooldown_until_ms sample_client = 0"
    unfolding c1_def c2_def by code_simp+
  from primary_breaker_opens_after_two [OF r(3,4,1,2), of 25] r(1,2) show ?thesis by blast
qed

section \<open>Batches and addresses\<close>

lemma try_collect_Inr: "try_collect qs = Inr xs \<longleftrightarrow> qs = map Inr xs"
  by (induction qs arbitrary: xs) (auto simp: Cons_eq_map_conv)

lemma set_tagged_zip:
  "length xs = length ys \<Longrightarrow>
     set (concat (map (\<lambda>(a, es). map (Pair a) es) (zip xs ys))) =
       {(xs ! i, e) | i e. i < length xs \<and> e \<in> set (ys ! i)}"
  by (auto simp: set_zip)

text \<open>A batched history or UTXO query is all or nothing and keeps every entry with its own address:
  when it returns, every address answered, and the tagged entries are exactly the entries of each
  address paired with that address; if one address fails, or the deadline passes, nothing is returned.\<close>

theorem tagged_batch_is_complete:
  "(\<forall>tagged. get_tagged timed_out get addresses = Inr tagged \<longrightarrow>
      \<not> timed_out \<and> (\<forall>a \<in> set addresses. \<exists>es. get a = Inr es) \<and>
      set tagged = {(a, e). a \<in> set addresses \<and> (\<exists>es. get a = Inr es \<and> e \<in> set es)}) \<and>
   ((\<exists>a \<in> set addresses. \<exists>err. get a = Inl err) \<longrightarrow> (\<exists>err. get_tagged timed_out get addresses = Inl err))"
proof (intro conjI allI impI)
  fix tagged
  assume "get_tagged timed_out get addresses = Inr tagged"
  then obtain results where t: "\<not> timed_out" "map get addresses = map Inr results"
    "tagged = concat (map (\<lambda>(a, es). map (Pair a) es) (zip addresses results))"
    by (auto simp: get_tagged_def run_batch_def try_collect_Inr split: if_splits sum.splits)
  have len: "length addresses = length results" using t(2) by (metis length_map)
  have nth: "get (addresses ! i) = Inr (results ! i)" if "i < length addresses" for i
    using t(2) that len by (metis nth_map)
  show "\<not> timed_out" by (rule t(1))
  show "\<forall>a \<in> set addresses. \<exists>es. get a = Inr es" using nth by (auto simp: in_set_conv_nth)
  show "set tagged = {(a, e). a \<in> set addresses \<and> (\<exists>es. get a = Inr es \<and> e \<in> set es)}"
    unfolding t(3) set_tagged_zip [OF len] using nth by (auto simp: in_set_conv_nth) force
next
  assume "\<exists>a \<in> set addresses. \<exists>err. get a = Inl err"
  then have "map get addresses \<noteq> map Inr xs" for xs by (metis (no_types) Inl_Inr_False ex_map_conv in_set_conv_nth length_map nth_map)
  then show "\<exists>err. get_tagged timed_out get addresses = Inl err"
    by (auto simp: get_tagged_def run_batch_def try_collect_Inr split: sum.splits)
qed

definition sample_get :: "string \<Rightarrow> nat list result" where
  "sample_get a = (if a = ''x'' then Inr [1, 2] else if a = ''y'' then Inr [3] else Inl (NodeError ''down''))"

theorem tagged_batch_is_complete_witness:
  "get_tagged False sample_get [''x'', ''y''] = Inr [(''x'', 1), (''x'', 2), (''y'', 3)] \<and>
   set [(''x'', 1), (''x'', 2), (''y'', 3)] =
     {(a, e). a \<in> set [''x'', ''y''] \<and> (\<exists>es. sample_get a = Inr es \<and> e \<in> set es)}"
proof -
  have t: "get_tagged False sample_get [''x'', ''y''] = Inr [(''x'', 1), (''x'', 2), (''y'', 3)]" by code_simp
  from tagged_batch_is_complete [of False sample_get "[''x'', ''y'']"] t show ?thesis by blast
qed

text \<open>Address decoding gives only scripts of the instance's own network: a script obtained from an
  address is a pay-to-pubkey-hash or pay-to-script-hash script over the 20 bytes of a base58 address
  whose checksum matched and whose version byte belongs to this network, or the witness program of a
  segwit address with this network's prefix, behind its version opcode and length.\<close>

theorem address_to_script_own_network:
  assumes "address_to_script sha256 b58 segwit net address = Inr script"
  shows "(\<exists>version h checksum. b58 address = Some (version # h @ checksum) \<and> length h = 20 \<and>
      take 4 (sha256 (sha256 (version # h))) = checksum \<and>
      ((version = p2pkh_version net \<and> script = [0x76, 0xa9, 0x14] @ h @ [0x88, 0xac]) \<or>
       (version \<in> set (p2sh_versions net) \<and> script = [0xa9, 0x14] @ h @ [0x87]))) \<or>
    (\<exists>hrp version program. segwit address = Some (hrp, version, program) \<and>
      to_lowercase hrp = segwit_hrp net \<and>
      script = (if version = 0 then 0x00 else 0x50 + version) # of_nat (length program) # program)"
proof (cases "looks_segwit net address")
  case True
  with assms show ?thesis
    by (auto simp: address_to_script_def segwit_to_script_def split: option.splits prod.splits if_splits)
next
  case False
  with assms obtain decoded where d: "b58 address = Some decoded" "length decoded = 25"
    and c: "take 4 (sha256 (sha256 (take 21 decoded))) = drop 21 decoded"
    and s: "(hd (take 21 decoded) = p2pkh_version net \<and> script = [0x76, 0xa9, 0x14] @ tl (take 21 decoded) @ [0x88, 0xac]) \<or>
      (hd (take 21 decoded) \<in> set (p2sh_versions net) \<and> script = [0xa9, 0x14] @ tl (take 21 decoded) @ [0x87])"
    by (auto simp: address_to_script_def base58_to_script_def Let_def split: option.splits if_splits)
  from d(2) have "take 21 decoded \<noteq> []" by auto
  then obtain v h where vh: "take 21 decoded = v # h" by (cases "take 21 decoded") auto
  have "length h = 20" using arg_cong [OF vh, of length] d(2) by simp
  moreover have "decoded = v # h @ drop 21 decoded" using vh by (metis append_Cons append_take_drop_id)
  ultimately show ?thesis using d c s vh by auto
qed

definition sample_b58 :: "string \<Rightarrow> byte list option" where
  "sample_b58 a = Some (0 # replicate 20 9 @ [1, 2, 3, 4])"

theorem address_to_script_own_network_witness:
  "address_to_script (\<lambda>x. [1, 2, 3, 4, 5]) sample_b58 (\<lambda>a. None) BitcoinMainnet ''1abc'' =
     Inr ([0x76, 0xa9, 0x14] @ replicate 20 9 @ [0x88, 0xac]) \<and>
   (\<exists>version h checksum. sample_b58 ''1abc'' = Some (version # h @ checksum) \<and> length h = 20)"
proof -
  have t: "address_to_script (\<lambda>x. [1, 2, 3, 4, 5]) sample_b58 (\<lambda>a. None) BitcoinMainnet ''1abc'' =
      Inr ([0x76, 0xa9, 0x14] @ replicate 20 9 @ [0x88, 0xac])" by code_simp
  from address_to_script_own_network [OF t] t show ?thesis by blast
qed

end
