(* ===== verification/Chain_Clients.thy ===== *)
theory Chain_Clients
  imports Electrum
begin

text \<open>
  What the tip workers see of the chain back ends: \<open>src/src/infra/chains.rs\<close> (which
  clients are enabled), the light-wallet server client of \<open>src/src/infra/lws\<close> and the
  Grin node client of \<open>src/src/infra/grin\<close>.

  The answers of the remote services are the functions of these records: a light-wallet
  server, a daemon, an Electrum server and a Grin node are not under this repository's
  control, and nothing is assumed of them. What the clients compute from the answers is
  modelled.
\<close>

section \<open>Light-wallet server and daemon\<close>

record address_tx =
  tx_hash :: string
  tx_height :: u64
  tx_timestamp :: string
  tx_total_received :: u64
  tx_total_sent :: u64
  tx_mempool :: bool
  tx_unlock_time :: u64
  tx_payment_id :: "string option"

record address_txs_response =
  transactions :: "address_tx list"
  resp_total_received :: u64
  scanned_height :: u64
  blockchain_height :: u64

record daemon_tx_info =
  di_block_height :: "u64 option"
  di_in_pool :: "bool option"

record daemon_txs_response =
  dr_txs :: "daemon_tx_info list option"
  dr_status :: string

record daemon_info_response =
  dinfo_height :: "u64 option"
  dinfo_error :: bool

record lws_client =
  lws_network :: string
  daemon_configured :: bool
  post_get_address_txs :: "string \<Rightarrow> string \<Rightarrow> address_txs_response result"
  post_get_info :: "daemon_info_response result"
  post_get_transactions :: "string \<Rightarrow> daemon_txs_response result"

definition MAX_PARSED_VEC :: nat where
  "MAX_PARSED_VEC = 100000"

definition lws_node_err :: "lws_client \<Rightarrow> string \<Rightarrow> string \<Rightarrow> app_error" where
  "lws_node_err c label detail =
     NodeError (lws_network c @ '' LWS '' @ label @ '': '' @ detail)"

definition get_address_txs :: "lws_client \<Rightarrow> string \<Rightarrow> string \<Rightarrow> address_txs_response result" where
  "get_address_txs c address view_key =
     try_bind (post_get_address_txs c address view_key) (\<lambda>resp.
       if length (transactions resp) > MAX_PARSED_VEC
       then Inl (lws_node_err c ''get_address_txs'' ''response too large'')
       else Inr resp)"

definition get_blockchain_height :: "lws_client \<Rightarrow> u64 result" where
  "get_blockchain_height c =
     (if \<not> daemon_configured c
      then Inl (lws_node_err c ''daemon'' ''daemon URL not configured'')
      else try_bind (post_get_info c) (\<lambda>resp.
        if dinfo_error resp
        then Inl (lws_node_err c ''daemon get_info'' ''daemon returned an error'')
        else ok_or (dinfo_height resp)
               (lws_node_err c ''daemon get_info'' ''no result'')))"

definition confirmations_from :: "u64 option \<Rightarrow> bool option \<Rightarrow> u64 \<Rightarrow> u64 option" where
  "confirmations_from block_height in_pool current_height =
     (if in_pool = Some True then Some 0
      else case block_height of
        Some h \<Rightarrow>
          if h > current_height then Some 0
          else Some (u64_saturating_add (u64_saturating_sub current_height h) 1)
      | None \<Rightarrow> None)"

definition get_transaction_confirmations :: "lws_client \<Rightarrow> string \<Rightarrow> u64 option result" where
  "get_transaction_confirmations c txid =
     (if \<not> daemon_configured c
      then Inl (lws_node_err c ''daemon'' ''daemon URL not configured'')
      else
        try_bind (get_blockchain_height c) (\<lambda>current_height.
        try_bind (post_get_transactions c txid) (\<lambda>resp.
          if dr_status resp \<noteq> ''OK'' then Inr None
          else case dr_txs resp of
            Some (tx # _) \<Rightarrow>
              Inr (confirmations_from (di_block_height tx) (di_in_pool tx) current_height)
          | _ \<Rightarrow> Inr None)))"

section \<open>Grin node\<close>

record grin_output_info =
  go_commit :: string
  go_block_height :: "u64 option"
  go_mmr_index :: u64

definition grin_confirmations :: "grin_output_info \<Rightarrow> u64 \<Rightarrow> u64" where
  "grin_confirmations out tip_height =
     (case go_block_height out of
        Some h \<Rightarrow>
          if h > 0 \<and> h \<le> tip_height
          then u64_saturating_add (u64_saturating_sub tip_height h) 1 else 0
      | None \<Rightarrow> 0)"

record grin_client =
  grin_get_height :: "u64 result"
  node_get_outputs :: "string list \<Rightarrow> grin_output_info list result"
  node_get_kernel :: "string \<Rightarrow> u64 option option result"

definition grin_get_outputs :: "grin_client \<Rightarrow> string list \<Rightarrow> grin_output_info list result" where
  "grin_get_outputs g commits = (if commits = [] then Inr [] else node_get_outputs g commits)"

text \<open>The outer option is \<open>Ok\<close> against an inner \<open>NotFound\<close>, the inner one the node's nullable
  kernel.\<close>

definition grin_get_kernel :: "grin_client \<Rightarrow> string \<Rightarrow> u64 option result" where
  "grin_get_kernel g excess =
     try_bind (node_get_kernel g excess) (\<lambda>kernel.
       Inr (case kernel of None \<Rightarrow> None | Some k \<Rightarrow> k))"

section \<open>Electrum and the set of clients\<close>

record electrum_api =
  el_get_history :: "string \<Rightarrow> electrum_history_entry list result"
  el_get_tip_height :: "i64 result"
  el_get_transaction_verbose :: "string \<Rightarrow> verbose_transaction result"

record chain_clients =
  ch_btc :: "electrum_api option"
  ch_ltc :: "electrum_api option"
  ch_xmr :: "lws_client option"
  ch_wow :: "lws_client option"
  ch_grin :: "grin_client option"

lemma grin_confirmations_bound:
  "uint (grin_confirmations out h) \<le> uint h"
proof (cases "go_block_height out")
  case None
  then show ?thesis by (simp add: grin_confirmations_def)
next
  case (Some b)
  show ?thesis
  proof (cases "b > 0 \<and> b \<le> h")
    case True
    then have "0 < uint b" "uint b \<le> uint h" by (simp_all add: word_less_def word_le_def)
    with Some True show ?thesis
      by (simp add: grin_confirmations_def uint_u64_saturating_add uint_u64_saturating_sub)
  next
    case False
    with Some show ?thesis by (auto simp: grin_confirmations_def)
  qed
qed

end
