(* ===== verification/Tip_Funding.thy ===== *)
theory Tip_Funding
  imports Tip_Lifecycle Chain_Clients
begin

text \<open>
  \<open>src/src/tips/confirmation.rs\<close> and \<open>src/src/tips/mod.rs\<close>: the money-in worker. One
  cycle counts confirmations for XMR and WOW, then for GRIN, then verifies the received
  amount of every tip that reached its threshold.

  The worker holds the rows it selected while other requests keep writing, so every
  function takes the selected row and the database separately. A panic (the overflow of
  the unchecked sums in \<open>classify_funding_amount\<close>) unwinds out of the cycle: \<open>None\<close>.
\<close>

section \<open>Classification of the receipt\<close>

definition tip_grin_commitment :: "social_tip_row \<Rightarrow> string option" where
  "tip_grin_commitment tip =
     option_filter (\<lambda>s. s \<noteq> [])
       (map_option trim (option_or (grin_commitment tip) (tip_address tip)))"

datatype funding_verification =
    Verified u64
  | Short u64
  | Unfunded
  | Drained u64 u64
  | LwsError

definition confirmed_tx :: "address_tx \<Rightarrow> bool" where
  "confirmed_tx tx \<longleftrightarrow> \<not> tx_mempool tx \<and> tx_height tx > 0"

text \<open>The decision shared by the light-wallet and the Electrum path.\<close>

definition classify_net :: "u64 \<Rightarrow> u64 \<Rightarrow> u64 \<Rightarrow> funding_verification" where
  "classify_net net total_sent expected =
     (if net < expected \<and> total_sent > 0 then Drained net total_sent
      else if net = 0 then Unfunded
      else if net \<ge> expected then Verified net
      else Short net)"

definition expected_u64 :: "i64 \<Rightarrow> u64" where
  "expected_u64 expected = (if expected < 0 then 0 else i64_as_u64 expected)"

definition classify_funding_amount ::
    "address_txs_response \<Rightarrow> i64 \<Rightarrow> funding_verification option" where
  "classify_funding_amount txs expected =
     (let confirmed = filter confirmed_tx (transactions txs) in
      case (u64_sum (map tx_total_received confirmed), u64_sum (map tx_total_sent confirmed)) of
        (Some total_received, Some total_sent) \<Rightarrow>
          Some (classify_net (u64_saturating_sub total_received total_sent) total_sent
                  (expected_u64 expected))
      | _ \<Rightarrow> None)"

definition grin_amount_from_presence :: "bool \<Rightarrow> i64 \<Rightarrow> funding_verification" where
  "grin_amount_from_presence present declared =
     (if present then Verified (expected_u64 declared) else Unfunded)"

text \<open>The loop over the confirmed history entries: the running totals, or \<open>None\<close> when an
  upstream answer or an amount is refused.\<close>

fun electrum_totals ::
    "electrum_api \<Rightarrow> string \<Rightarrow> u64 \<Rightarrow> u64 \<Rightarrow> electrum_history_entry list \<Rightarrow> (u64 \<times> u64) option" where
  "electrum_totals el address recv sent [] = Some (recv, sent)"
| "electrum_totals el address recv sent (entry # es) =
     (case el_get_transaction_verbose el (h_tx_hash entry) of
        Inl e \<Rightarrow> None
      | Inr tx \<Rightarrow>
          (case total_received_at tx address of
             Inl e \<Rightarrow> None
           | Inr r \<Rightarrow>
               let recv' = u64_saturating_add recv r in
               if r = 0 then
                 (case total_sent_from tx address of
                    Inl e \<Rightarrow> None
                  | Inr None \<Rightarrow> electrum_totals el address recv' sent es
                  | Inr (Some s) \<Rightarrow> electrum_totals el address recv' (u64_saturating_add sent s) es)
               else electrum_totals el address recv' sent es))"

definition verify_lws :: "lws_client option \<Rightarrow> social_tip_row \<Rightarrow> funding_verification option" where
  "verify_lws client tip =
     (case client of
        None \<Rightarrow> Some LwsError
      | Some lws \<Rightarrow>
          (case (tip_address tip, tip_view_key tip) of
             (Some address, Some view_key) \<Rightarrow>
               (case get_address_txs lws address view_key of
                  Inr txs \<Rightarrow> classify_funding_amount txs (amount tip)
                | Inl e \<Rightarrow> Some LwsError)
           | _ \<Rightarrow> Some LwsError))"

definition verify_electrum :: "electrum_api option \<Rightarrow> social_tip_row \<Rightarrow> funding_verification" where
  "verify_electrum client tip =
     (case client of
        None \<Rightarrow> LwsError
      | Some el \<Rightarrow>
          (case tip_address tip of
             None \<Rightarrow> LwsError
           | Some address \<Rightarrow>
               (case el_get_history el address of
                  Inl e \<Rightarrow> LwsError
                | Inr history \<Rightarrow>
                    let confirmed = filter (\<lambda>e. h_height e > 0) history in
                    (case electrum_totals el address 0 0 confirmed of
                       None \<Rightarrow> LwsError
                     | Some (recv, sent) \<Rightarrow>
                         if confirmed = [] then Unfunded
                         else classify_net (u64_saturating_sub recv sent) sent
                                (expected_u64 (amount tip))))))"

definition verify_grin :: "grin_client option \<Rightarrow> social_tip_row \<Rightarrow> funding_verification" where
  "verify_grin client tip =
     (case client of
        None \<Rightarrow> LwsError
      | Some grin \<Rightarrow>
          (case tip_grin_commitment tip of
             None \<Rightarrow> LwsError
           | Some commit \<Rightarrow>
               (case grin_get_outputs grin [commit] of
                  Inr outputs \<Rightarrow>
                    grin_amount_from_presence
                      (list_ex (\<lambda>out. go_commit out = commit) outputs) (amount tip)
                | Inl e \<Rightarrow> LwsError)))"

definition verify_funding_amount ::
    "chain_clients \<Rightarrow> social_tip_row \<Rightarrow> funding_verification option" where
  "verify_funding_amount ch tip =
     (let a = to_lowercase (asset tip) in
      if a = ''xmr'' then verify_lws (ch_xmr ch) tip
      else if a = ''wow'' then verify_lws (ch_wow ch) tip
      else if a = ''btc'' then Some (verify_electrum (ch_btc ch) tip)
      else if a = ''ltc'' then Some (verify_electrum (ch_ltc ch) tip)
      else if a = ''grin'' then Some (verify_grin (ch_grin ch) tip)
      else Some LwsError)"

section \<open>The cycle\<close>

text \<open>A worker pass over selected rows: each row is processed on the database the previous
  one left, errors of one row are swallowed.\<close>

definition for_each :: "('r \<Rightarrow> database \<Rightarrow> database) \<Rightarrow> 'r list \<Rightarrow> database \<Rightarrow> database" where
  "for_each f rows db = fold f rows db"

definition count_confirmations :: "lws_client \<Rightarrow> social_tip_row \<Rightarrow> database \<Rightarrow> database" where
  "count_confirmations lws tip db =
     (case funding_txid tip of
        Some txid \<Rightarrow>
          if txid = [] then db
          else (case get_transaction_confirmations lws txid of
                  Inr (Some confs) \<Rightarrow> snd (update_tip_confirmations (row_id tip) (u64_min_i32 confs) db)
                | Inr None \<Rightarrow> snd (update_tip_confirmations (row_id tip) 0 db)
                | Inl e \<Rightarrow> db)
      | None \<Rightarrow> db)"

definition check_asset_confirmations :: "chain_clients \<Rightarrow> string \<Rightarrow> database \<Rightarrow> database" where
  "check_asset_confirmations ch a db =
     (case (if a = ''xmr'' then ch_xmr ch else if a = ''wow'' then ch_wow ch else None) of
        None \<Rightarrow> db
      | Some lws \<Rightarrow>
          (case get_tips_pending_confirmation a db of
             (Inl e, db') \<Rightarrow> db'
           | (Inr tips, db') \<Rightarrow> for_each (count_confirmations lws) tips db'))"

definition count_grin_confirmations ::
    "grin_client \<Rightarrow> u64 \<Rightarrow> social_tip_row \<Rightarrow> database \<Rightarrow> database" where
  "count_grin_confirmations grin tip_height tip db =
     (case tip_grin_commitment tip of
        None \<Rightarrow> db
      | Some commit \<Rightarrow>
          (case grin_get_outputs grin [commit] of
             Inr outputs \<Rightarrow>
               let confs = (case find (\<lambda>out. go_commit out = commit) outputs of
                              None \<Rightarrow> 0 | Some out \<Rightarrow> grin_confirmations out tip_height)
               in snd (update_tip_confirmations (row_id tip) (u64_min_i32 confs) db)
           | Inl e \<Rightarrow> db))"

definition check_grin_confirmations :: "chain_clients \<Rightarrow> database \<Rightarrow> database" where
  "check_grin_confirmations ch db =
     (case ch_grin ch of
        None \<Rightarrow> db
      | Some grin \<Rightarrow>
          (case get_tips_pending_confirmation ''grin'' db of
             (Inl e, db') \<Rightarrow> db'
           | (Inr tips, db') \<Rightarrow>
               if tips = [] then db'
               else (case grin_get_height grin of
                       Inl e \<Rightarrow> db'
                     | Inr tip_height \<Rightarrow> for_each (count_grin_confirmations grin tip_height) tips db')))"

definition observed_i64 :: "u64 \<Rightarrow> i64" where
  "observed_i64 observed =
     (case i64_try_from_u64 observed of None \<Rightarrow> i64_max | Some x \<Rightarrow> x)"

text \<open>What the amount verifier does with one row, given its classification.\<close>

fun apply_verification :: "funding_verification \<Rightarrow> uuid \<Rightarrow> database \<Rightarrow> database" where
  "apply_verification (Verified observed) i db =
     snd (mark_tip_funding_verified i (observed_i64 observed) db)"
| "apply_verification (Short observed) i db =
     snd (mark_tip_funding_mismatch i (observed_i64 observed) db)"
| "apply_verification Unfunded i db = snd (touch_tip_last_check i db)"
| "apply_verification (Drained net total_sent) i db = snd (touch_tip_last_check i db)"
| "apply_verification LwsError i db = snd (touch_tip_last_check i db)"

text \<open>The flag tells that the pass panicked; what it wrote before stays.\<close>

fun verify_tips :: "chain_clients \<Rightarrow> social_tip_row list \<Rightarrow> database \<Rightarrow> bool \<times> database" where
  "verify_tips ch [] db = (False, db)"
| "verify_tips ch (tip # tips) db =
     (case verify_funding_amount ch tip of
        None \<Rightarrow> (True, db)
      | Some v \<Rightarrow> verify_tips ch tips (apply_verification v (row_id tip) db))"

definition process_pending_verifications :: "chain_clients \<Rightarrow> database \<Rightarrow> bool \<times> database" where
  "process_pending_verifications ch db =
     (case get_tips_awaiting_amount_verification db of
        (Inl e, db') \<Rightarrow> (False, db')
      | (Inr tips, db') \<Rightarrow> verify_tips ch tips db')"

definition run_tip_confirmation_cycle :: "chain_clients \<Rightarrow> database \<Rightarrow> bool \<times> database" where
  "run_tip_confirmation_cycle ch db =
     process_pending_verifications ch
       (check_grin_confirmations ch
         (check_asset_confirmations ch ''wow''
           (check_asset_confirmations ch ''xmr'' db)))"

section \<open>What a classification promises\<close>

lemma uint_expected_u64: "x \<le> i64_max \<Longrightarrow> uint (expected_u64 x) = max 0 x"
  by (simp add: expected_u64_def uint_i64_as_u64_nonneg)

lemma observed_i64_uint: "observed_i64 w = min (uint w) i64_max"
  by (simp add: observed_i64_def i64_try_from_u64_def)

lemma classify_net_Verified:
  "classify_net net sent e = Verified obs \<longleftrightarrow> obs = net \<and> net \<noteq> 0 \<and> e \<le> net"
  by (auto simp: classify_net_def)

lemma classify_net_Short:
  "classify_net net sent e = Short obs \<longleftrightarrow> obs = net \<and> net \<noteq> 0 \<and> net < e \<and> sent = 0"
  by (auto simp: classify_net_def word_gt_0)

text \<open>The interface between the receipt check and the statement it triggers.\<close>

locale receipt_check =
  fixes verify :: "social_tip_row \<Rightarrow> funding_verification option"
  assumes verified_covers:
      "verify tip = Some (Verified obs) \<Longrightarrow> amount tip \<le> i64_max \<Longrightarrow> amount tip \<le> uint obs"
    and short_is_short:
      "verify tip = Some (Short obs) \<Longrightarrow> amount tip \<le> i64_max \<Longrightarrow>
         0 < uint obs \<and> uint obs < max 0 (amount tip)"
begin

lemma verified_observed:
  "verify tip = Some (Verified obs) \<Longrightarrow> amount tip \<le> i64_max \<Longrightarrow> amount tip \<le> observed_i64 obs"
  using verified_covers by (simp add: observed_i64_uint)

lemma short_observed:
  assumes "verify tip = Some (Short obs)" "amount tip \<le> i64_max"
  shows "0 < observed_i64 obs \<and> observed_i64 obs < amount tip"
  using short_is_short [OF assms] assms(2) by (auto simp: observed_i64_uint i64_max_def)

text \<open>A verdict reached on a row the worker holds is applied to the row of the same tip as
  it is now: the terms agree, so the move is one of the contract.\<close>

lemma apply_moves:
  assumes ok: "tips_ok (social_tips db)" and v: "verify tip = Some v" and inv: "tip_inv tip"
    and same: "\<And>r. r \<in> set (social_tips db) \<Longrightarrow> row_id r = row_id tip \<Longrightarrow> terms r = terms tip"
  shows "moves Worker (social_tips db) (social_tips (snd (touch_tip_last_check (row_id tip) db)))"
    and "moves Worker (social_tips db) (social_tips (apply_verification v (row_id tip) db))"
proof -
  show t: "moves Worker (social_tips db) (social_tips (snd (touch_tip_last_check (row_id tip) db)))"
    using tr_touch.update_tips_moves [OF ok, of "db_now db" "\<lambda>r. row_id r = row_id tip"]
    by (simp add: stmt_defs)
  have same_amount: "amount r = amount tip"
    if "r \<in> set (social_tips db)" "row_id r = row_id tip" for r
    using same [OF that] by (rule terms_fields)
  have a: "amount tip \<le> i64_max" using inv by (simp add: tip_inv_def party_inv_def)
  show "moves Worker (social_tips db) (social_tips (apply_verification v (row_id tip) db))"
  proof (cases v)
    case (Verified obs)
    with v a have "amount tip \<le> observed_i64 obs" by (simp add: verified_observed)
    with Verified show ?thesis
      by (auto simp: stmt_defs same_amount
          intro!: tr_verify.update_tip_moves [OF ok])
  next
    case (Short obs)
    with v a have "0 < observed_i64 obs \<and> observed_i64 obs < amount tip" by (simp add: short_observed)
    with Short show ?thesis
      by (auto simp: stmt_defs same_amount
          intro!: tr_mismatch.update_tip_moves [OF ok])
  qed (simp_all add: t)
qed

end

lemma verify_lws_classified:
  assumes "verify_lws client tip = Some v" "v \<noteq> LwsError"
  shows "\<exists>txs. classify_funding_amount txs (amount tip) = Some v"
  using assms by (auto simp: verify_lws_def split: option.splits sum.splits)

lemma classify_funding_amount_net:
  assumes "classify_funding_amount txs e = Some v"
  shows "\<exists>net sent. v = classify_net net sent (expected_u64 e)"
  using assms by (auto simp: classify_funding_amount_def Let_def split: option.splits)

lemma verify_electrum_net:
  assumes "verify_electrum client tip = v" "v \<noteq> LwsError" "v \<noteq> Unfunded"
  shows "\<exists>net sent. v = classify_net net sent (expected_u64 (amount tip))"
  using assms by (auto simp: verify_electrum_def Let_def split: option.splits sum.splits if_splits prod.splits)

text \<open>Every verdict that moves a tip comes from \<open>classify_net\<close>, or is the declared amount of a
  Grin voucher whose output is unspent.\<close>

lemma verify_funding_amount_sound:
  assumes "verify_funding_amount ch tip = Some v" "v \<noteq> LwsError" "v \<noteq> Unfunded"
  shows "(\<exists>net sent. v = classify_net net sent (expected_u64 (amount tip))) \<or>
    v = Verified (expected_u64 (amount tip))"
proof -
  have lws: "\<exists>net sent. v = classify_net net sent (expected_u64 (amount tip))"
    if "verify_lws client tip = Some v" for client
    using verify_lws_classified [OF that assms(2)] classify_funding_amount_net by blast
  have grin: "v = Verified (expected_u64 (amount tip))" if "verify_grin client tip = v" for client
    using that assms(2,3)
    by (auto simp: verify_grin_def grin_amount_from_presence_def split: option.splits sum.splits if_splits)
  show ?thesis
    using assms lws grin verify_electrum_net
    by (simp add: verify_funding_amount_def Let_def split: if_splits) blast+
qed

interpretation receipt: receipt_check "verify_funding_amount ch" for ch
proof
  fix tip :: social_tip_row and obs :: u64
  assume a: "amount tip \<le> i64_max"
  then have e: "uint (expected_u64 (amount tip)) = max 0 (amount tip)" by (rule uint_expected_u64)
  show "amount tip \<le> uint obs" if "verify_funding_amount ch tip = Some (Verified obs)"
    using verify_funding_amount_sound [OF that] e
    by (auto simp: classify_net_Verified word_le_def dest: sym [of "Verified _"])
  show "0 < uint obs \<and> uint obs < max 0 (amount tip)"
    if "verify_funding_amount ch tip = Some (Short obs)"
    using verify_funding_amount_sound [OF that] e
    by (auto simp: classify_net_Short word_less_def word_neq_0_conv dest: sym [of "Short _"])
qed

section \<open>The receipt over the integers\<close>

definition received_sum :: "address_txs_response \<Rightarrow> int" where
  "received_sum txs = sum_list (map (uint \<circ> tx_total_received) (filter confirmed_tx (transactions txs)))"

definition sent_sum :: "address_txs_response \<Rightarrow> int" where
  "sent_sum txs = sum_list (map (uint \<circ> tx_total_sent) (filter confirmed_tx (transactions txs)))"

text \<open>What each verdict says of the confirmed totals, as integers.\<close>

fun verdict_ok :: "int \<Rightarrow> int \<Rightarrow> int \<Rightarrow> funding_verification \<Rightarrow> bool" where
  "verdict_ok recv sent expected (Verified obs) \<longleftrightarrow>
     uint obs = recv - sent \<and> sent < recv \<and> expected \<le> recv - sent"
| "verdict_ok recv sent expected (Short obs) \<longleftrightarrow>
     uint obs = recv \<and> sent = 0 \<and> 0 < recv \<and> recv < expected"
| "verdict_ok recv sent expected Unfunded \<longleftrightarrow> recv \<le> sent \<and> (sent = 0 \<or> expected \<le> 0)"
| "verdict_ok recv sent expected (Drained net out) \<longleftrightarrow>
     uint net = max 0 (recv - sent) \<and> uint out = sent \<and> 0 < sent \<and> max 0 (recv - sent) < expected"
| "verdict_ok recv sent expected LwsError \<longleftrightarrow> False"

lemma classify_net_verdict:
  assumes "e \<le> i64_max"
  shows "verdict_ok (uint recv) (uint sent) e
    (classify_net (u64_saturating_sub recv sent) sent (expected_u64 e))"
proof -
  define net R S where defs: "net = u64_saturating_sub recv sent" "R = uint recv" "S = uint sent"
  have n: "uint net = max 0 (R - S)" unfolding defs by (rule uint_u64_saturating_sub)
  have x: "uint (expected_u64 e) = max 0 e" using assms by (rule uint_expected_u64)
  have z: "net = 0 \<longleftrightarrow> R \<le> S" using n by (auto simp: word_uint_eq_iff)
  have pos: "0 \<le> R" "0 \<le> S" unfolding defs by simp_all
  have "sent > 0 \<longleftrightarrow> S > 0" by (simp add: word_less_def defs)
  then have "verdict_ok R S e (classify_net net sent (expected_u64 e))"
    using n x z pos by (auto simp: classify_net_def word_less_def word_le_def simp flip: defs(3))
  then show ?thesis by (simp add: defs)
qed

text \<open>C36. The light-wallet receipt check computes exactly what it should over unbounded integers:
  it panics exactly when one of the two totals of the confirmed transactions does not fit in 64
  bits; otherwise its verdict is the one the totals determine (verified with the net amount iff
  that covers the declared amount, short iff a positive receipt with nothing spent falls below it,
  drained iff something was spent and the rest does not cover it, unfunded otherwise).\<close>

theorem classify_funding_amount_correct:
  assumes "e \<le> i64_max"
  shows "case classify_funding_amount txs e of
      None \<Rightarrow> 2 ^ 64 \<le> received_sum txs \<or> 2 ^ 64 \<le> sent_sum txs
    | Some v \<Rightarrow> received_sum txs < 2 ^ 64 \<and> sent_sum txs < 2 ^ 64 \<and>
        verdict_ok (received_sum txs) (sent_sum txs) e v"
proof (cases "classify_funding_amount txs e")
  case None
  then have "u64_sum (map tx_total_received (filter confirmed_tx (transactions txs))) = None \<or>
      u64_sum (map tx_total_sent (filter confirmed_tx (transactions txs))) = None"
    by (auto simp: classify_funding_amount_def Let_def split: option.splits)
  with None show ?thesis by (auto simp: u64_sum_None received_sum_def sent_sum_def)
next
  case (Some v)
  then obtain recv sent where
    "u64_sum (map tx_total_received (filter confirmed_tx (transactions txs))) = Some recv"
    "u64_sum (map tx_total_sent (filter confirmed_tx (transactions txs))) = Some sent"
    and v: "v = classify_net (u64_saturating_sub recv sent) sent (expected_u64 e)"
    by (auto simp: classify_funding_amount_def Let_def split: option.splits)
  then have "received_sum txs < 2 ^ 64" "sent_sum txs < 2 ^ 64"
      "uint recv = received_sum txs" "uint sent = sent_sum txs"
    by (simp_all add: u64_sum_iff received_sum_def sent_sum_def)
  with Some v classify_net_verdict [OF assms, of recv sent] show ?thesis by simp
qed

definition sample_tx :: "u64 \<Rightarrow> u64 \<Rightarrow> address_tx" where
  "sample_tx recv sent =
     \<lparr>tx_hash = ''t'', tx_height = 9, tx_timestamp = [], tx_total_received = recv,
      tx_total_sent = sent, tx_mempool = False, tx_unlock_time = 0, tx_payment_id = None\<rparr>"

definition sample_txs :: address_txs_response where
  "sample_txs = \<lparr>transactions = [sample_tx 7 0, sample_tx 3 2], resp_total_received = 10,
     scanned_height = 9, blockchain_height = 9\<rparr>"

theorem classify_funding_amount_correct_witness:
  "classify_funding_amount sample_txs 8 = Some (Verified 8) \<and> received_sum sample_txs = 10 \<and>
     sent_sum sample_txs = 2 \<and>
     (case classify_funding_amount sample_txs 8 of
        None \<Rightarrow> 2 ^ 64 \<le> received_sum sample_txs \<or> 2 ^ 64 \<le> sent_sum sample_txs
      | Some v \<Rightarrow> received_sum sample_txs < 2 ^ 64 \<and> sent_sum sample_txs < 2 ^ 64 \<and>
          verdict_ok (received_sum sample_txs) (sent_sum sample_txs) 8 v)"
proof (intro conjI)
  show "classify_funding_amount sample_txs 8 = Some (Verified 8)" "received_sum sample_txs = 10"
    "sent_sum sample_txs = 2" by code_simp+
  show "case classify_funding_amount sample_txs 8 of
        None \<Rightarrow> 2 ^ 64 \<le> received_sum sample_txs \<or> 2 ^ 64 \<le> sent_sum sample_txs
      | Some v \<Rightarrow> received_sum sample_txs < 2 ^ 64 \<and> sent_sum sample_txs < 2 ^ 64 \<and>
          verdict_ok (received_sum sample_txs) (sent_sum sample_txs) 8 v"
    by (rule classify_funding_amount_correct) (simp add: i64_max_def)
qed

text \<open>On every chain, a receipt the worker calls verified covers the amount the sender
  declared, in the number it stores; one it calls short is positive and below it.\<close>

theorem verified_receipt_covers_amount:
  assumes "amount tip \<le> i64_max"
  shows "(\<forall>obs. verify_funding_amount ch tip = Some (Verified obs) \<longrightarrow> amount tip \<le> observed_i64 obs) \<and>
    (\<forall>obs. verify_funding_amount ch tip = Some (Short obs) \<longrightarrow>
       0 < observed_i64 obs \<and> observed_i64 obs < amount tip)"
  using receipt.verified_observed [OF _ assms] receipt.short_observed [OF _ assms] by blast

definition sample_tip :: social_tip_row where
  "sample_tip = (new_tip_row 0 1 \<lparr>n_sender_user_id = 1, n_asset = ''grin'', n_amount = 5,
      n_claim_key_hash = None, n_encrypted_key = None, n_tip_address = Some ''c'',
      n_funding_txid = Some ''f'', n_tip_view_key = None, n_confirmations_required = 10,
      n_grin_commitment = None, n_recipient_user_id = None\<rparr> PendingConfirmation)"

definition sample_grin :: chain_clients where
  "sample_grin = \<lparr>ch_btc = None, ch_ltc = None, ch_xmr = None, ch_wow = None,
     ch_grin = Some \<lparr>grin_get_height = Inr 100,
       node_get_outputs = (\<lambda>cs. Inr [\<lparr>go_commit = ''c'', go_block_height = Some 90, go_mmr_index = 1\<rparr>]),
       node_get_kernel = (\<lambda>x. Inr None)\<rparr>\<rparr>"

theorem verified_receipt_covers_amount_witness:
  "verify_funding_amount sample_grin sample_tip = Some (Verified 5) \<and> amount sample_tip \<le> observed_i64 5"
proof -
  have v: "verify_funding_amount sample_grin sample_tip = Some (Verified 5)" "amount sample_tip \<le> i64_max"
    by code_simp+
  from verified_receipt_covers_amount [OF v(2), of sample_grin] v show ?thesis by blast
qed

end
