(* ===== verification/Tip_Sweep.thy ===== *)
theory Tip_Sweep
  imports Tip_Funding
begin

text \<open>
  \<open>src/src/tips/sweep_reconciler.rs\<close> and \<open>src/src/tips/gc.rs\<close>: the money-out worker,
  which settles a claiming tip once its sweep is deep enough and reverts a settled tip
  whose sweep left the chain, and the two garbage-collection passes.
\<close>

section \<open>Winner and depth\<close>

record confirmed_spend =
  cs_txid :: string
  cs_block_height :: i64
  cs_block_hash :: "string option"

definition sweep_confirm_threshold :: "string \<Rightarrow> u64" where
  "sweep_confirm_threshold a =
     (let l = to_lowercase a in
      if l = ''btc'' \<or> l = ''ltc'' then 1
      else if l = ''wow'' then 4
      else if l = ''xmr'' then 10
      else if l = ''grin'' then 10
      else 10)"

text \<open>The comparison of \<open>pick_winner\<close>: height first, then the transaction id.\<close>

definition spend_less :: "confirmed_spend \<Rightarrow> confirmed_spend \<Rightarrow> bool" where
  "spend_less a b \<longleftrightarrow>
     cs_block_height a < cs_block_height b \<or>
     (cs_block_height a = cs_block_height b \<and> cs_txid a < cs_txid b)"

text \<open>\<open>Iterator::min_by\<close> keeps the first of several minimal elements.\<close>

fun min_by_from :: "confirmed_spend \<Rightarrow> confirmed_spend list \<Rightarrow> confirmed_spend" where
  "min_by_from best [] = best"
| "min_by_from best (s # ss) = min_by_from (if spend_less s best then s else best) ss"

fun pick_winner :: "confirmed_spend list \<Rightarrow> confirmed_spend option" where
  "pick_winner [] = None"
| "pick_winner (s # ss) = Some (min_by_from s ss)"

definition is_verbose_tx_spend_of :: "verbose_transaction \<Rightarrow> string \<Rightarrow> bool result" where
  "is_verbose_tx_spend_of tx address =
     try_bind (total_received_at tx address) (\<lambda>r. Inr (r = 0))"

text \<open>\<open>tip_height.saturating_sub(h).saturating_add(1)\<close> in \<open>i64\<close>, then \<open>as u64\<close>.\<close>

definition sweep_confirmations :: "i64 \<Rightarrow> i64 \<Rightarrow> i64" where
  "sweep_confirmations tip_height block_height =
     i64_saturating_add (i64_saturating_sub tip_height block_height) 1"

definition deep_enough :: "string \<Rightarrow> i64 \<Rightarrow> i64 \<Rightarrow> bool" where
  "deep_enough a tip_height block_height \<longleftrightarrow>
     \<not> i64_as_u64 (sweep_confirmations tip_height block_height) < sweep_confirm_threshold a"

section \<open>Probes\<close>

definition probe_grin_spends ::
    "chain_clients \<Rightarrow> social_tip_row \<Rightarrow> (confirmed_spend list \<times> i64) result" where
  "probe_grin_spends ch tip =
     try_bind (ok_or (ch_grin ch) (NodeError ''grin client disabled'')) (\<lambda>grin.
     try_bind (ok_or (tip_grin_commitment tip)
         (ValidationError ''grin commitment missing for sweep probe'')) (\<lambda>commit.
     try_bind (grin_get_height grin) (\<lambda>h.
     let tip_height = u64_as_i64 h in
     try_bind (grin_get_outputs grin [commit]) (\<lambda>outputs.
       if list_ex (\<lambda>out. go_commit out = commit) outputs then Inr ([], tip_height)
       else case option_filter (\<lambda>s. s \<noteq> []) (sweep_txid tip) of
         None \<Rightarrow> Inr ([], tip_height)
       | Some excess \<Rightarrow>
           try_bind (grin_get_kernel grin excess) (\<lambda>kernel.
             case kernel of
               Some height \<Rightarrow>
                 Inr ([\<lparr>cs_txid = excess, cs_block_height = u64_as_i64 height,
                        cs_block_hash = None\<rparr>], tip_height)
             | None \<Rightarrow> Inr ([], tip_height))))))"

fun electrum_spends ::
    "electrum_api \<Rightarrow> string \<Rightarrow> electrum_history_entry list \<Rightarrow> confirmed_spend list result" where
  "electrum_spends el address [] = Inr []"
| "electrum_spends el address (entry # es) =
     try_bind (el_get_transaction_verbose el (h_tx_hash entry)) (\<lambda>tx.
     try_bind (is_verbose_tx_spend_of tx address) (\<lambda>is_spend.
     try_bind (electrum_spends el address es) (\<lambda>rest.
       Inr (if is_spend
            then \<lparr>cs_txid = h_tx_hash entry, cs_block_height = h_height entry,
                  cs_block_hash = None\<rparr> # rest
            else rest))))"

definition probe_electrum_spends ::
    "electrum_api option \<Rightarrow> string \<Rightarrow> social_tip_row \<Rightarrow> (confirmed_spend list \<times> i64) result" where
  "probe_electrum_spends client a tip =
     try_bind (ok_or client (NodeError (a @ '' Electrum client disabled''))) (\<lambda>el.
     try_bind (ok_or (tip_address tip)
         (ValidationError ''tip_address missing for Electrum probe'')) (\<lambda>address.
     try_bind (el_get_history el address) (\<lambda>history.
     try_bind (el_get_tip_height el) (\<lambda>tip_height.
     try_bind (electrum_spends el address (filter (\<lambda>e. h_height e > 0) history)) (\<lambda>spends.
       Inr (spends, tip_height))))))"

definition lws_spend :: "address_tx \<Rightarrow> bool" where
  "lws_spend t \<longleftrightarrow>
     \<not> tx_mempool t \<and> tx_height t > 0 \<and> tx_total_sent t > 0 \<and> tx_total_received t = 0"

definition probe_lws_spends ::
    "lws_client option \<Rightarrow> string \<Rightarrow> social_tip_row \<Rightarrow> (confirmed_spend list \<times> i64) result" where
  "probe_lws_spends client a tip =
     try_bind (ok_or client (NodeError (a @ '' LWS client disabled''))) (\<lambda>lws.
     try_bind (ok_or (tip_address tip)
         (ValidationError ''tip_address missing for LWS probe'')) (\<lambda>address.
     try_bind (ok_or (tip_view_key tip)
         (ValidationError ''tip_view_key missing for LWS probe'')) (\<lambda>view_key.
     try_bind (get_address_txs lws address view_key) (\<lambda>txs.
     try_bind (if blockchain_height txs > 0 then Inr (u64_as_i64 (blockchain_height txs))
               else try_bind (get_blockchain_height lws) (\<lambda>h. Inr (u64_as_i64 h))) (\<lambda>tip_height.
       Inr (map (\<lambda>t. \<lparr>cs_txid = tx_hash t, cs_block_height = u64_as_i64 (tx_height t),
                       cs_block_hash = None\<rparr>)
              (filter lws_spend (transactions txs)), tip_height))))))"

definition probe_confirmed_spends ::
    "chain_clients \<Rightarrow> social_tip_row \<Rightarrow> (confirmed_spend list \<times> i64) result" where
  "probe_confirmed_spends ch tip =
     (let a = to_lowercase (asset tip) in
      if a = ''btc'' then probe_electrum_spends (ch_btc ch) a tip
      else if a = ''ltc'' then probe_electrum_spends (ch_ltc ch) a tip
      else if a = ''xmr'' then probe_lws_spends (ch_xmr ch) a tip
      else if a = ''wow'' then probe_lws_spends (ch_wow ch) a tip
      else if a = ''grin'' then probe_grin_spends ch tip
      else Inl (ValidationError (''sweep probe: unsupported asset '' @ a)))"

section \<open>Settling\<close>

definition send_sweep_confirmed_dm_if_needed :: "social_tip_row \<Rightarrow> database \<Rightarrow> database" where
  "send_sweep_confirmed_dm_if_needed tip db =
     (if sweep_confirmed_dm_sent_at tip \<noteq> None then db
      else snd (stamp_sweep_confirmed_dm_sent (row_id tip) db))"

definition send_reorg_dm_if_needed :: "social_tip_row \<Rightarrow> database \<Rightarrow> database" where
  "send_reorg_dm_if_needed tip db =
     (if reorg_notified_at tip \<noteq> None then db
      else snd (stamp_reorg_notified (row_id tip) db))"

text \<open>The settle statement \<open>process_awaiting_tip\<close> issues for a winner.\<close>

definition settle_winner :: "social_tip_row \<Rightarrow> confirmed_spend \<Rightarrow> social_tip_row option stmt" where
  "settle_winner tip winner =
     (if sweep_txid tip = Some (cs_txid winner)
      then confirm_sweep_onchain (row_id tip) (cs_txid winner)
             (i64_as_i32 (cs_block_height winner)) (cs_block_hash winner) None
      else clear_claimed_by_on_settle (row_id tip) (cs_txid winner)
             (i64_as_i32 (cs_block_height winner)) (cs_block_hash winner))"

definition process_awaiting_tip :: "chain_clients \<Rightarrow> social_tip_row \<Rightarrow> database \<Rightarrow> database" where
  "process_awaiting_tip ch tip db =
     (case probe_confirmed_spends ch tip of
        Inl e \<Rightarrow> snd (touch_tip_last_check (row_id tip) db)
      | Inr (spends, tip_height) \<Rightarrow>
          (case pick_winner spends of
             None \<Rightarrow> snd (touch_tip_last_check (row_id tip) db)
           | Some winner \<Rightarrow>
               if \<not> deep_enough (to_lowercase (asset tip)) tip_height (cs_block_height winner)
               then snd (touch_tip_last_check (row_id tip) db)
               else
                 (case settle_winner tip winner db of
                    (Inr (Some row), db') \<Rightarrow> send_sweep_confirmed_dm_if_needed row db'
                  | (Inr None, db') \<Rightarrow> db'
                  | (Inl e, db') \<Rightarrow> db')))"

definition BATCH_SIZE :: nat where
  "BATCH_SIZE = 50"

definition confirm_cycle_inner :: "chain_clients \<Rightarrow> database \<Rightarrow> database" where
  "confirm_cycle_inner ch db =
     (case get_tips_awaiting_sweep_confirmation BATCH_SIZE db of
        (Inl e, db') \<Rightarrow> db'
      | (Inr tips, db') \<Rightarrow> for_each (process_awaiting_tip ch) tips db')"

text \<open>The advisory lock: \<open>locked\<close> says that another instance holds it.\<close>

definition run_confirm_cycle :: "bool \<Rightarrow> chain_clients \<Rightarrow> database \<Rightarrow> database" where
  "run_confirm_cycle locked ch db =
     (if db_outage db \<or> locked then db else confirm_cycle_inner ch db)"

section \<open>Reorganisations\<close>

definition process_settled_tip :: "chain_clients \<Rightarrow> social_tip_row \<Rightarrow> database \<Rightarrow> database" where
  "process_settled_tip ch tip db =
     (case sweep_txid tip of
        None \<Rightarrow> snd (touch_tip_last_check (row_id tip) db)
      | Some recorded_txid \<Rightarrow>
          (case probe_confirmed_spends ch tip of
             Inl e \<Rightarrow> snd (touch_tip_last_check (row_id tip) db)
           | Inr (spends, tip_height) \<Rightarrow>
               if list_ex (\<lambda>s. cs_txid s = recorded_txid) spends
               then snd (touch_tip_last_check (row_id tip) db)
               else
                 (case revert_sweep_on_reorg (row_id tip) db of
                    (Inr (Some reverted), db') \<Rightarrow> send_reorg_dm_if_needed reverted db'
                  | (Inr None, db') \<Rightarrow> db'
                  | (Inl e, db') \<Rightarrow> db')))"

definition reorg_cycle_inner :: "chain_clients \<Rightarrow> database \<Rightarrow> database" where
  "reorg_cycle_inner ch db =
     (case get_settled_tips_for_reorg_check BATCH_SIZE db of
        (Inl e, db') \<Rightarrow> db'
      | (Inr tips, db') \<Rightarrow> for_each (process_settled_tip ch) tips db')"

definition run_reorg_cycle :: "bool \<Rightarrow> chain_clients \<Rightarrow> database \<Rightarrow> database" where
  "run_reorg_cycle locked ch db =
     (if db_outage db \<or> locked then db else reorg_cycle_inner ch db)"

section \<open>Garbage collection\<close>

definition run_tip_draft_gc_cycle :: "database \<Rightarrow> database" where
  "run_tip_draft_gc_cycle db = snd (cancel_old_drafts db)"

definition run_tip_lifecycle_gc_cycle :: "database \<Rightarrow> database" where
  "run_tip_lifecycle_gc_cycle db =
     snd (log_stuck_claiming (snd (cancel_stuck_pending_confirmation db)))"

section \<open>The winner\<close>

lemma spend_less_trans: "spend_less a b \<Longrightarrow> spend_less b c \<Longrightarrow> spend_less a c"
  by (auto simp: spend_less_def)

lemma spend_less_irrefl: "\<not> spend_less a a"
  by (simp add: spend_less_def)

lemma spend_less_linear:
  "\<not> spend_less a b \<Longrightarrow> \<not> spend_less b a \<Longrightarrow>
     cs_block_height a = cs_block_height b \<and> cs_txid a = cs_txid b"
  by (auto simp: spend_less_def)

lemma min_by_from_least:
  "min_by_from best ss \<in> insert best (set ss) \<and>
     (\<forall>s \<in> insert best (set ss). \<not> spend_less s (min_by_from best ss))"
proof (induction ss arbitrary: best)
  case Nil
  then show ?case by (simp add: spend_less_irrefl)
next
  case (Cons s ss)
  let ?b = "if spend_less s best then s else best"
  let ?m = "min_by_from ?b ss"
  from Cons.IH [of ?b] have m: "?m \<in> insert ?b (set ss)"
    and least: "\<forall>x \<in> insert ?b (set ss). \<not> spend_less x ?m" by blast+
  have "\<not> spend_less best ?m \<and> \<not> spend_less s ?m"
  proof (cases "spend_less s best")
    case True
    with least have "\<not> spend_less s ?m" by simp
    moreover from this True have "\<not> spend_less best ?m" using spend_less_trans by blast
    ultimately show ?thesis by simp
  next
    case False
    with least have b: "\<not> spend_less best ?m" by simp
    have "\<not> spend_less s ?m"
    proof
      assume "spend_less s ?m"
      with b False show False by (auto simp: spend_less_def)
    qed
    with b show ?thesis by simp
  qed
  with m least show ?case by (auto split: if_splits)
qed

lemma pick_winner_None [simp]: "pick_winner ss = None \<longleftrightarrow> ss = []"
  by (cases ss) simp_all

lemma pick_winner_least:
  assumes "pick_winner ss = Some w"
  shows "w \<in> set ss" and "s \<in> set ss \<Longrightarrow> \<not> spend_less s w"
  using assms min_by_from_least by (cases ss; fastforce)+

text \<open>The winner's height and transaction id do not depend on the order in which the chain
  client lists the spends.\<close>

lemma pick_winner_order:
  assumes "set ss = set ss'" "pick_winner ss = Some w"
  shows "\<exists>w'. pick_winner ss' = Some w' \<and>
    cs_txid w' = cs_txid w \<and> cs_block_height w' = cs_block_height w"
proof -
  from assms have "ss \<noteq> []" by auto
  with assms(1) obtain w' where w': "pick_winner ss' = Some w'"
    by (cases "pick_winner ss'") auto
  have "\<not> spend_less w w'" "\<not> spend_less w' w"
    using pick_winner_least [OF assms(2)] pick_winner_least [OF w'] assms(1) by auto
  from spend_less_linear [OF this] w' show ?thesis by auto
qed

section \<open>Depth\<close>

lemma uint_threshold: "uint (sweep_confirm_threshold a) \<in> {1, 4, 10}"
  by (simp add: sweep_confirm_threshold_def Let_def)

lemma sweep_confirmations_exact:
  assumes "0 \<le> h" "h \<le> t + 1" "t < i64_max"
  shows "sweep_confirmations t h = t - h + 1"
  using assms by (simp add: sweep_confirmations_def i64_saturating_add_def i64_saturating_sub_def
      i64_clamp_def int_range_defs)

lemma deep_enough_exact:
  assumes "0 \<le> h" "h \<le> t + 1" "t < i64_max"
  shows "deep_enough a t h \<longleftrightarrow> uint (sweep_confirm_threshold a) \<le> t - h + 1"
proof -
  have "uint (i64_as_u64 (t - h + 1)) = t - h + 1"
    using assms by (intro uint_i64_as_u64_nonneg) (simp_all add: i64_max_def)
  then show ?thesis
    by (simp add: deep_enough_def sweep_confirmations_exact [OF assms] word_less_def not_less)
qed

text \<open>When the block is at least two above the reported tip the difference is negative, the
  cast to \<open>u64\<close> wraps, and every threshold passes.\<close>

lemma deep_enough_wraps:
  assumes "0 \<le> t" "t + 2 \<le> h" "h \<le> i64_max"
  shows "deep_enough a t h"
proof -
  have c: "sweep_confirmations t h = t - h + 1"
    using assms by (simp add: sweep_confirmations_def i64_saturating_add_def
        i64_saturating_sub_def i64_clamp_def int_range_defs)
  have "uint (i64_as_u64 (t - h + 1)) = 2 ^ 64 + (t - h + 1)"
    using assms by (intro uint_i64_as_u64_neg) (simp_all add: int_range_defs)
  with assms uint_threshold [of a] show ?thesis
    by (auto simp: deep_enough_def c word_less_def int_range_defs)
qed

section \<open>The statements of a pass are moves of the contract\<close>

lemma settle_winner_moves:
  assumes "tips_ok (social_tips db)"
  shows "moves Worker (social_tips db) (social_tips (snd (settle_winner tip winner db)))"
  unfolding settle_winner_def stmt_defs
  using assms by (auto simp: stmt_defs intro!: tr_settle.update_tip_moves)

lemma revert_moves:
  assumes "tips_ok (social_tips db)"
  shows "moves Worker (social_tips db) (social_tips (snd (revert_sweep_on_reorg i db)))"
  using assms by (auto simp: stmt_defs intro!: tr_revert.update_tip_moves)

lemma stamp_moves:
  assumes "tips_ok (social_tips db)"
  shows "moves Worker (social_tips db) (social_tips (snd (stamp_sweep_confirmed_dm_sent i db)))"
    and "moves Worker (social_tips db) (social_tips (snd (stamp_reorg_notified i db)))"
    and "moves Worker (social_tips db) (social_tips (snd (touch_tip_last_check i db)))"
    and "moves Worker (social_tips db) (social_tips (snd (update_tip_confirmations i n db)))"
  using assms
  by (auto simp: stmt_defs intro!: tr_dm.update_tip_moves tr_reorg_dm.update_tip_moves
      tr_touch.update_tips_moves tr_count.update_tip_moves)

lemma gc_moves:
  assumes "tips_ok (social_tips db)"
  shows "moves Gc (social_tips db) (social_tips (snd (cancel_old_drafts db)))"
    and "moves Gc (social_tips db) (social_tips (snd (cancel_stuck_pending_confirmation db)))"
  using assms by (auto simp: stmt_defs intro!: tr_gc.update_tips_moves)

section \<open>What one pass does to one tip\<close>

lemma touch_kept:
  "distinct (map row_id (social_tips db)) \<Longrightarrow> rows_kept db (snd (touch_tip_last_check i db))"
  by (simp add: stmt_defs tr_touch.update_tips_kept)

lemma dm_kept:
  assumes "distinct (map row_id (social_tips db))"
  shows "rows_kept db (send_sweep_confirmed_dm_if_needed row db)"
    and "rows_kept db (send_reorg_dm_if_needed row db)"
  using assms
  by (simp_all add: send_sweep_confirmed_dm_if_needed_def send_reorg_dm_if_needed_def stmt_defs
      tr_dm.update_tip_kept tr_reorg_dm.update_tip_kept rows_kept_refl)

text \<open>A guarded write of one row followed by bookkeeping.\<close>

lemma write_then_kept:
  assumes d: "distinct (map row_id (social_tips db))" and uid: "\<And>q. row_id (u q) = row_id q"
    and kept: "rows_kept (snd (update_tip k g u db)) db'"
    and r: "r \<in> set (social_tips db)" "r' \<in> set (social_tips db')" "row_id r' = row_id r"
  shows "core r' = core r \<or> (row_id r = k \<and> g r \<and> core r' = core (u r))"
proof -
  from rows_kept_origin [OF kept r(2)] obtain q where
    q: "q \<in> set (social_tips (snd (update_tip k g u db)))" "row_id q = row_id r'" "core r' = core q"
    by blast
  from row_after_update_tip [OF d uid r(1) q(1)] q(2) r(3)
  have "q = r \<or> (row_id r = k \<and> g r \<and> q = tip_write (db_now db) u r)" by simp
  with q(3) show ?thesis by auto
qed

lemma distinct_after_update_tip:
  "distinct (map row_id (social_tips db)) \<Longrightarrow> (\<And>q. row_id (u q) = row_id q) \<Longrightarrow>
     distinct (map row_id (social_tips (snd (update_tip k g u db))))"
  by (simp add: update_tip_ids)

text \<open>The outcome of settling: the statement, then possibly the stamp.\<close>

lemma settle_winner_write:
  obtains u where "snd (settle_winner tip w db) = snd (update_tip (row_id tip) unsettled u db)"
    "\<And>q. row_id (u q) = row_id q"
    "\<And>q. status (u q) = as_str Claimed" "\<And>q. sweep_txid (u q) = Some (cs_txid w)"
  by (cases "sweep_txid tip = Some (cs_txid w)") (auto simp: settle_winner_def stmt_defs guard_simps)

lemma settle_then_dm_row:
  assumes d: "distinct (map row_id (social_tips db))"
    and r: "r \<in> set (social_tips db)" "row_id r' = row_id r"
      "r' \<in> set (social_tips (case settle_winner tip w db of
         (Inr (Some row), db') \<Rightarrow> send_sweep_confirmed_dm_if_needed row db'
       | (Inr None, db') \<Rightarrow> db' | (Inl e, db') \<Rightarrow> db'))" (is "_ \<in> set (social_tips ?end)")
  shows "core r' = core r \<or> (row_id r = row_id tip \<and> unsettled r \<and>
    status r' = as_str Claimed \<and> sweep_txid r' = Some (cs_txid w))"
proof -
  obtain u where u: "snd (settle_winner tip w db) = snd (update_tip (row_id tip) unsettled u db)"
    "\<And>q. row_id (u q) = row_id q"
    "\<And>q. status (u q) = as_str Claimed" "\<And>q. sweep_txid (u q) = Some (cs_txid w)"
    using settle_winner_write [of tip w db] by blast
  let ?db = "snd (settle_winner tip w db)"
  have d': "distinct (map row_id (social_tips ?db))"
    unfolding u(1) using d u(2) by (rule distinct_after_update_tip)
  have "?end = ?db \<or> (\<exists>row. ?end = send_sweep_confirmed_dm_if_needed row ?db)"
    by (auto split: prod.splits sum.splits option.splits)
  then have "rows_kept ?db ?end"
    by (elim disjE exE) (simp_all only: rows_kept_refl [OF d'] dm_kept [OF d'])
  then have "rows_kept (snd (update_tip (row_id tip) unsettled u db)) ?end" by (simp add: u(1))
  from write_then_kept [OF d u(2) this r(1,3,2)] show ?thesis
  proof
    assume "row_id r = row_id tip \<and> unsettled r \<and> core r' = core (u r)"
    with core_fields [of r' "u r"] u(3,4) show ?thesis by simp
  qed simp
qed

lemma revert_then_dm_row:
  assumes d: "distinct (map row_id (social_tips db))"
    and r: "r \<in> set (social_tips db)" "row_id r' = row_id r"
      "r' \<in> set (social_tips (case revert_sweep_on_reorg k db of
         (Inr (Some row), db') \<Rightarrow> send_reorg_dm_if_needed row db'
       | (Inr None, db') \<Rightarrow> db' | (Inl e, db') \<Rightarrow> db'))" (is "_ \<in> set (social_tips ?end)")
  shows "core r' = core r \<or> (row_id r = k \<and> settled r \<and> status r' = as_str Claiming \<and>
    sweep_confirmed_at r' = None \<and> sweep_txid r' = sweep_txid r)"
proof -
  let ?db = "snd (revert_sweep_on_reorg k db)"
  have uid: "row_id (set_reverted (db_now db) q) = row_id q" for q by (simp add: set_reverted_def)
  have d': "distinct (map row_id (social_tips ?db))"
    unfolding revert_sweep_on_reorg_def using d uid by (rule distinct_after_update_tip)
  have "?end = ?db \<or> (\<exists>row. ?end = send_reorg_dm_if_needed row ?db)"
    by (auto split: prod.splits sum.splits option.splits)
  then have "rows_kept ?db ?end"
    by (elim disjE exE) (simp_all only: rows_kept_refl [OF d'] dm_kept [OF d'])
  then have "rows_kept (snd (update_tip k settled (set_reverted (db_now db)) db)) ?end"
    by (simp add: revert_sweep_on_reorg_def)
  from write_then_kept [OF d uid this r(1,3,2)] show ?thesis
  proof
    assume "row_id r = k \<and> settled r \<and> core r' = core (set_reverted (db_now db) r)"
    with core_fields [of r' "set_reverted (db_now db) r"] show ?thesis by (simp add: set_reverted_def)
  qed simp
qed

lemma process_awaiting_tip_cases:
  obtains (touched) "process_awaiting_tip ch tip db = snd (touch_tip_last_check (row_id tip) db)"
  | (deep) spends h w where "probe_confirmed_spends ch tip = Inr (spends, h)"
      "pick_winner spends = Some w" "deep_enough (to_lowercase (asset tip)) h (cs_block_height w)"
      "process_awaiting_tip ch tip db = (case settle_winner tip w db of
         (Inr (Some row), db') \<Rightarrow> send_sweep_confirmed_dm_if_needed row db'
       | (Inr None, db') \<Rightarrow> db' | (Inl e, db') \<Rightarrow> db')"
proof (cases "probe_confirmed_spends ch tip")
  case (Inl e)
  then show thesis by (intro touched) (simp add: process_awaiting_tip_def)
next
  case (Inr p)
  obtain spends h where p: "p = (spends, h)" by (cases p)
  show thesis
  proof (cases "pick_winner spends")
    case None
    with Inr p show thesis by (intro touched) (simp add: process_awaiting_tip_def)
  next
    case (Some w)
    show thesis
    proof (cases "deep_enough (to_lowercase (asset tip)) h (cs_block_height w)")
      case True
      with Inr p Some show thesis by (intro deep) (simp_all add: process_awaiting_tip_def)
    next
      case False
      with Inr p Some show thesis by (intro touched) (simp add: process_awaiting_tip_def)
    qed
  qed
qed

lemma process_settled_tip_cases:
  obtains (touched) "process_settled_tip ch tip db = snd (touch_tip_last_check (row_id tip) db)"
  | (missing) txid spends h where "sweep_txid tip = Some txid"
      "probe_confirmed_spends ch tip = Inr (spends, h)" "txid \<notin> cs_txid ` set spends"
      "process_settled_tip ch tip db = (case revert_sweep_on_reorg (row_id tip) db of
         (Inr (Some row), db') \<Rightarrow> send_reorg_dm_if_needed row db'
       | (Inr None, db') \<Rightarrow> db' | (Inl e, db') \<Rightarrow> db')"
proof (cases "sweep_txid tip")
  case None
  then show thesis by (intro touched) (simp add: process_settled_tip_def)
next
  case (Some txid)
  show thesis
  proof (cases "probe_confirmed_spends ch tip")
    case (Inl e)
    with Some show thesis by (intro touched) (simp add: process_settled_tip_def)
  next
    case (Inr p)
    obtain spends h where p: "p = (spends, h)" by (cases p)
    show thesis
    proof (cases "txid \<in> cs_txid ` set spends")
      case True
      with Some Inr p show thesis
        by (intro touched) (auto simp: process_settled_tip_def list_ex_iff)
    next
      case False
      then have "\<not> list_ex (\<lambda>s. cs_txid s = txid) spends" by (force simp: list_ex_iff)
      with False Some Inr p show thesis by (intro missing) (simp_all add: process_settled_tip_def)
    qed
  qed
qed

section \<open>Properties of the winner and of the depth\<close>

text \<open>The reconciler's winner is the earliest confirmed spend: no spend in the list is in a
  lower block, nor in the same block with a smaller transaction id; and whatever order the chain
  client lists the same spends in, the same transaction at the same height wins.\<close>

theorem winner_is_earliest_in_any_order:
  assumes "pick_winner ss = Some w" "set ss' = set ss"
  shows "w \<in> set ss \<and>
    (\<forall>s \<in> set ss. cs_block_height w < cs_block_height s \<or>
       (cs_block_height w = cs_block_height s \<and> cs_txid w \<le> cs_txid s)) \<and>
    (\<exists>w'. pick_winner ss' = Some w' \<and> cs_txid w' = cs_txid w \<and> cs_block_height w' = cs_block_height w)"
  using pick_winner_least [OF assms(1)] pick_winner_order [OF _ assms(1), of ss'] assms(2)
  by (force simp: spend_less_def)

definition sample_spend :: "string \<Rightarrow> i64 \<Rightarrow> confirmed_spend" where
  "sample_spend t h = \<lparr>cs_txid = t, cs_block_height = h, cs_block_hash = None\<rparr>"

theorem winner_is_earliest_in_any_order_witness:
  "\<exists>w'. pick_winner [sample_spend ''a'' 9, sample_spend ''c'' 7, sample_spend ''b'' 7] = Some w' \<and>
     cs_txid w' = ''b'' \<and> cs_block_height w' = 7"
proof -
  have p: "pick_winner [sample_spend ''b'' 7, sample_spend ''a'' 9, sample_spend ''c'' 7] =
      Some (sample_spend ''b'' 7)" by code_simp
  have same: "set [sample_spend ''a'' 9, sample_spend ''c'' 7, sample_spend ''b'' 7] =
      set [sample_spend ''b'' 7, sample_spend ''a'' 9, sample_spend ''c'' 7]" by auto
  have f: "cs_txid (sample_spend t h) = t" "cs_block_height (sample_spend t h) = h" for t h
    by (simp_all add: sample_spend_def)
  from winner_is_earliest_in_any_order [OF p same, THEN conjunct2, THEN conjunct2]
  show ?thesis unfolding f .
qed

text \<open>The depth test uses an unsigned cast of a signed difference: as long as the spend's block
  is at most one above the reported tip it is the intended comparison of confirmations with the
  threshold, but for a block two or more above the reported tip (the tip height and the history come
  from separate calls) the difference is negative, the cast wraps, and the sweep counts as deep
  enough on every chain.\<close>

theorem depth_test_exact_then_wraps:
  assumes "0 \<le> h" "0 \<le> t" "t < i64_max" "h \<le> i64_max"
  shows "deep_enough a t h \<longleftrightarrow> uint (sweep_confirm_threshold a) \<le> t - h + 1 \<or> t + 2 \<le> h"
proof (cases "h \<le> t + 1")
  case True
  with deep_enough_exact [OF assms(1) True assms(3), of a] show ?thesis by simp
next
  case False
  with deep_enough_wraps [OF assms(2) _ assms(4), of a] show ?thesis by simp
qed

theorem depth_test_exact_then_wraps_witness:
  "\<not> deep_enough ''xmr'' 100 101 \<and> deep_enough ''xmr'' 100 102 \<and> deep_enough ''xmr'' 109 100"
  using depth_test_exact_then_wraps [of 101 100 "''xmr''"]
    depth_test_exact_then_wraps [of 102 100 "''xmr''"] depth_test_exact_then_wraps [of 100 109 "''xmr''"]
  by (simp add: i64_max_def sweep_confirm_threshold_def Let_def to_lowercase_def char_lower_def
      is_ascii_upper_def)

end
