(* ===== verification/Auth_Session.thy ===== *)
theory Auth_Session
  imports Database
begin

text \<open>
  Sessions and single-use nonces: \<open>src/src/infra/db/sessions.rs\<close>,
  \<open>src/src/infra/db/challenges.rs\<close>, the token side of \<open>src/src/core/session.rs\<close> and the
  bearer-token extractor of \<open>src/src/api/middleware.rs\<close>.

  The \<open>jsonwebtoken\<close> and \<open>uuid\<close> crates are the record \<open>token_lib\<close>, which extends \<open>crates\<close>: decoding under a
  validation policy, encoding, and the parser of a \<open>Uuid\<close>. The policy itself
  (\<open>strict_validation\<close>) is the repository's and is modelled.
\<close>

section \<open>The sessions table\<close>

record new_session =
  ns_id :: uuid
  ns_user_id :: uuid
  ns_refresh_token_hash :: string
  ns_platform :: string
  ns_device_info :: "string option"
  ns_expires_at :: timestamp

definition create_session :: "new_session \<Rightarrow> session_row stmt" where
  "create_session input db =
     (if db_outage db then (Inl (sql_error db ConnectionFault), db)
      else if ns_id input \<in> set (map s_id (sessions db)) then (Inl (sql_error db (UniqueViolation ''sessions_pkey'')), db)
      else if ns_user_id input \<notin> set (user_ids db) then (Inl (sql_error db ConstraintViolation), db)
      else
        let row = \<lparr>s_id = ns_id input, s_user_id = ns_user_id input,
              s_refresh_token_hash = ns_refresh_token_hash input,
              s_platform = ns_platform input, s_device_info = ns_device_info input,
              s_created_at = db_now db, s_expires_at = ns_expires_at input,
              s_revoked_at = None, s_last_used_at = db_now db\<rparr>
        in (Inr row, db\<lparr>sessions := sessions db @ [row]\<rparr>))"

definition session_active :: "timestamp \<Rightarrow> session_row \<Rightarrow> bool" where
  "session_active now r \<longleftrightarrow> s_revoked_at r = None \<and> s_expires_at r > now"

definition get_session_by_token_hash :: "string \<Rightarrow> session_row option stmt" where
  "get_session_by_token_hash h =
     query (\<lambda>db. fetch_optional (filter
       (\<lambda>r. s_refresh_token_hash r = h \<and> session_active (db_now db) r) (sessions db)))"

definition is_session_live :: "uuid \<Rightarrow> bool stmt" where
  "is_session_live i =
     query (\<lambda>db. fetch_optional (filter
       (\<lambda>r. s_id r = i \<and> session_active (db_now db) r) (sessions db)) \<noteq> None)"

text \<open>An \<open>UPDATE\<close> of sessions; the result is \<open>rows_affected()\<close>.\<close>

definition update_sessions :: "(session_row \<Rightarrow> bool) \<Rightarrow> (session_row \<Rightarrow> session_row) \<Rightarrow> nat stmt" where
  "update_sessions p u db =
     (if db_outage db then (Inl (sql_error db ConnectionFault), db)
      else (Inr (length (filter p (sessions db))), db\<lparr>sessions := sql_update p u (sessions db)\<rparr>))"

definition touch_session :: "uuid \<Rightarrow> unit stmt" where
  "touch_session i db =
     (case update_sessions (\<lambda>r. s_id r = i) (\<lambda>r. r\<lparr>s_last_used_at := db_now db\<rparr>) db of
        (Inl e, db') \<Rightarrow> (Inl e, db') | (Inr n, db') \<Rightarrow> (Inr (), db'))"

definition set_revoked :: "timestamp \<Rightarrow> session_row \<Rightarrow> session_row" where
  "set_revoked now r = r\<lparr>s_revoked_at := Some now\<rparr>"

definition revoke_session :: "uuid \<Rightarrow> bool stmt" where
  "revoke_session i db =
     (case update_sessions (\<lambda>r. s_id r = i \<and> s_revoked_at r = None) (set_revoked (db_now db)) db of
        (Inl e, db') \<Rightarrow> (Inl e, db') | (Inr n, db') \<Rightarrow> (Inr (n > 0), db'))"

definition revoke_all_user_sessions :: "uuid \<Rightarrow> nat stmt" where
  "revoke_all_user_sessions u db =
     update_sessions (\<lambda>r. s_user_id r = u \<and> s_revoked_at r = None) (set_revoked (db_now db)) db"

definition cleanup_expired_sessions :: "nat stmt" where
  "cleanup_expired_sessions db =
     (if db_outage db then (Inl (sql_error db ConnectionFault), db)
      else
        let expired = (\<lambda>r. s_expires_at r < db_now db) in
        (Inr (length (filter expired (sessions db))),
         db\<lparr>sessions := sql_delete expired (sessions db)\<rparr>))"

interpretation revoking: one_shot_update s_id "\<lambda>r. s_revoked_at r = None" "set_revoked now" for now
  by unfold_locales (simp_all add: set_revoked_def)

section \<open>Challenges\<close>

text \<open>The second argument is what the random generator filled the nonce with.\<close>

definition issue_challenge ::
    "'a crates_scheme \<Rightarrow> byte list \<Rightarrow> string \<Rightarrow> string option \<Rightarrow> i64 \<Rightarrow> string stmt" where
  "issue_challenge lib random purpose subject ttl_secs db =
     (let nonce = hex_encode lib random in
      if db_outage db then (Inl (sql_error db ConnectionFault), db)
      else if nonce \<in> set (map c_nonce (challenges db)) then (Inl (sql_error db (UniqueViolation ''challenges_pkey'')), db)
      else (Inr nonce,
            db\<lparr>challenges := challenges db @
              [\<lparr>c_nonce = nonce, c_purpose = purpose, c_subject = subject,
                c_created_at = db_now db, c_expires_at = db_now db + seconds ttl_secs\<rparr>]\<rparr>))"

definition consumable :: "timestamp \<Rightarrow> string \<Rightarrow> string \<Rightarrow> challenge_row \<Rightarrow> bool" where
  "consumable now nonce purpose r \<longleftrightarrow>
     c_nonce r = nonce \<and> c_purpose r = purpose \<and> c_expires_at r > now"

text \<open>The result is the consumed challenge's subject.\<close>

definition consume_challenge :: "string \<Rightarrow> string \<Rightarrow> string option option stmt" where
  "consume_challenge nonce purpose db =
     (if db_outage db then (Inl (sql_error db ConnectionFault), db)
      else
        let p = consumable (db_now db) nonce purpose in
        (Inr (map_option c_subject (fetch_optional (filter p (challenges db)))),
         db\<lparr>challenges := sql_delete p (challenges db)\<rparr>))"

definition delete_expired_challenges :: "nat stmt" where
  "delete_expired_challenges db =
     (if db_outage db then (Inl (sql_error db ConnectionFault), db)
      else
        let p = (\<lambda>r. c_expires_at r \<le> db_now db) in
        (Inr (length (filter p (challenges db))), db\<lparr>challenges := sql_delete p (challenges db)\<rparr>))"

section \<open>Tokens\<close>

datatype platform = Extension | Web | Nostr

fun platform_as_str :: "platform \<Rightarrow> string" where
  "platform_as_str Extension = ''extension''"
| "platform_as_str Web = ''web''"
| "platform_as_str Nostr = ''nostr''"

definition platform_from_str :: "string \<Rightarrow> platform result" where
  "platform_from_str s =
     (let l = to_lowercase s in
      if l = ''extension'' then Inr Extension
      else if l = ''web'' then Inr Web
      else if l = ''nostr'' then Inr Nostr
      else Inl (ValidationError (''Invalid platform: '' @ s)))"

definition ACCESS_AUD :: string where
  "ACCESS_AUD = ''smirk:access''"

definition REFRESH_AUD :: string where
  "REFRESH_AUD = ''smirk:refresh''"

record access_token_claims =
  ac_sub :: string
  ac_aud :: string
  ac_iat :: i64
  ac_exp :: i64
  ac_platform :: string
  ac_sid :: "string option"

record refresh_token_claims =
  rc_sub :: string
  rc_aud :: string
  rc_sid :: string
  rc_iat :: i64
  rc_exp :: i64

record token_info =
  ti_user_id :: uuid
  ti_platform :: string
  ti_session_id :: "uuid option"

record token_pair =
  tp_access_token :: string
  tp_refresh_token :: string
  tp_expires_in :: i64

datatype jwt_algorithm = HS256 | OtherAlg

record validation =
  v_algorithm :: jwt_algorithm
  v_leeway :: u64
  v_validate_exp :: bool
  v_required :: "string list"
  v_audience :: "string list"

definition strict_validation :: "string \<Rightarrow> validation" where
  "strict_validation audience =
     \<lparr>v_algorithm = HS256, v_leeway = 0, v_validate_exp = True,
      v_required = [''exp'', ''sub'', ''aud''], v_audience = [audience]\<rparr>"

record token_lib = crates +
  encode_access :: "access_token_claims \<Rightarrow> string option"
  encode_refresh :: "refresh_token_claims \<Rightarrow> string option"
  decode_access :: "validation \<Rightarrow> string \<Rightarrow> access_token_claims option"
  decode_refresh :: "validation \<Rightarrow> string \<Rightarrow> refresh_token_claims option"
  parse_uuid :: "string \<Rightarrow> uuid option"

text \<open>\<open>create_token_pair\<close>; \<open>now\<close> is the Unix time in seconds. The error text comes from the
  library.\<close>

definition create_token_pair ::
    "token_lib \<Rightarrow> string \<Rightarrow> i64 \<Rightarrow> i64 \<Rightarrow> i64 \<Rightarrow> uuid \<Rightarrow> platform \<Rightarrow> uuid \<Rightarrow> token_pair result" where
  "create_token_pair lib err access_hours refresh_days now user_id plat session_id =
     try_bind (ok_or (encode_access lib
         \<lparr>ac_sub = uuid_to_string lib user_id, ac_aud = ACCESS_AUD, ac_iat = now,
          ac_exp = now + access_hours * 3600, ac_platform = platform_as_str plat,
          ac_sid = Some (uuid_to_string lib session_id)\<rparr>)
         (Internal (''Failed to create access token: '' @ err))) (\<lambda>access.
     try_bind (ok_or (encode_refresh lib
         \<lparr>rc_sub = uuid_to_string lib user_id, rc_aud = REFRESH_AUD,
          rc_sid = uuid_to_string lib session_id, rc_iat = now,
          rc_exp = now + refresh_days * 86400\<rparr>)
         (Internal (''Failed to create refresh token: '' @ err))) (\<lambda>refresh.
       Inr \<lparr>tp_access_token = access, tp_refresh_token = refresh,
            tp_expires_in = access_hours * 3600\<rparr>))"

definition bad_token :: app_error where
  "bad_token = AuthError ''Invalid or expired token''"

definition verify_access_token :: "token_lib \<Rightarrow> string \<Rightarrow> token_info result" where
  "verify_access_token lib token =
     try_bind (ok_or (decode_access lib (strict_validation ACCESS_AUD) token) bad_token) (\<lambda>claims.
     try_bind (ok_or (parse_uuid lib (ac_sub claims)) bad_token) (\<lambda>user_id.
       Inr \<lparr>ti_user_id = user_id, ti_platform = ac_platform claims,
            ti_session_id = Option.bind (ac_sid claims) (parse_uuid lib)\<rparr>))"

definition verify_refresh_token :: "token_lib \<Rightarrow> string \<Rightarrow> (uuid \<times> uuid) result" where
  "verify_refresh_token lib token =
     try_bind (ok_or (decode_refresh lib (strict_validation REFRESH_AUD) token) bad_token) (\<lambda>claims.
     try_bind (ok_or (parse_uuid lib (rc_sub claims)) bad_token) (\<lambda>user_id.
     try_bind (ok_or (parse_uuid lib (rc_sid claims)) bad_token) (\<lambda>session_id.
       Inr (user_id, session_id))))"

section \<open>The bearer-token extractor\<close>

text \<open>The argument is the \<open>Authorization\<close> header, when there is one that is visible ASCII.\<close>

definition bearer_token :: "string option \<Rightarrow> string result" where
  "bearer_token header =
     try_bind (ok_or header (AuthError ''Missing authorization header'')) (\<lambda>auth.
       ok_or (option_filter (\<lambda>t. t \<noteq> []) (map_option trim (strip_prefix ''Bearer '' auth)))
         (AuthError ''Invalid authorization format''))"

definition extract_user_id_from_token :: "token_lib \<Rightarrow> string option \<Rightarrow> uuid stmt" where
  "extract_user_id_from_token lib header db =
     (case try_bind (bearer_token header) (verify_access_token lib) of
        Inl e \<Rightarrow> (Inl e, db)
      | Inr info \<Rightarrow>
          (case ti_session_id info of
             None \<Rightarrow> (Inr (ti_user_id info), db)
           | Some sid \<Rightarrow>
               stmt_bind (is_session_live sid) (\<lambda>live.
                 if live then stmt_return (Inr (ti_user_id info))
                 else stmt_return (Inl bad_token)) db))"

lemma snd_is_session_live [simp]: "snd (is_session_live i db) = db"
  by (simp add: is_session_live_def)

lemma snd_extract_user_id [simp]: "snd (extract_user_id_from_token lib header db) = db"
  by (auto simp: extract_user_id_from_token_def stmt_bind_def is_session_live_def query_def
      split: sum.splits option.splits prod.splits)

lemma is_session_live_iff:
  "fst (is_session_live i db) = Inr True \<longleftrightarrow>
     \<not> db_outage db \<and> (\<exists>r \<in> set (sessions db). s_id r = i \<and> session_active (db_now db) r)"
proof -
  have "fetch_optional (filter p rs) = None \<longleftrightarrow> (\<forall>r \<in> set rs. \<not> p r)" for p :: "session_row \<Rightarrow> bool" and rs
    by (simp add: fetch_optional_None filter_empty_conv)
  then show ?thesis by (auto simp: is_session_live_def)
qed

text \<open>An extracted user always rests on a decoded token and, when the token names a session,
  on a live one.\<close>

lemma extract_user_id_Inr:
  assumes "fst (extract_user_id_from_token lib header db) = Inr u"
  shows "\<exists>token info. bearer_token header = Inr token \<and> verify_access_token lib token = Inr info \<and>
    ti_user_id info = u \<and>
    (\<forall>sid. ti_session_id info = Some sid \<longrightarrow>
       (\<exists>r \<in> set (sessions db). s_id r = sid \<and> session_active (db_now db) r))"
proof -
  from assms obtain token info where
    t: "bearer_token header = Inr token" "verify_access_token lib token = Inr info"
    by (auto simp: extract_user_id_from_token_def split: sum.splits)
  have live: "fst (is_session_live sid db) = Inr True" if "ti_session_id info = Some sid" for sid
    using assms t that
    by (auto simp: extract_user_id_from_token_def stmt_bind_def split: sum.splits prod.splits if_splits)
  from assms t have "ti_user_id info = u"
    by (auto simp: extract_user_id_from_token_def stmt_bind_def
        split: sum.splits prod.splits if_splits option.splits)
  with t live show ?thesis by (auto simp: is_session_live_iff)
qed

section \<open>Revocation\<close>

lemma no_live_session:
  assumes "\<And>r. r \<in> set (sessions db) \<Longrightarrow> s_id r = sid \<Longrightarrow> s_revoked_at r \<noteq> None"
  shows "is_session_live sid db = (if db_outage db then Inl (sql_error db ConnectionFault) else Inr False, db)"
proof -
  have "filter (\<lambda>r. s_id r = sid \<and> session_active (db_now db) r) (sessions db) = []"
    using assms by (auto simp: filter_empty_conv session_active_def)
  then show ?thesis by (simp add: is_session_live_def query_def)
qed

lemma extract_without_live_session:
  assumes "bearer_token header = Inr token" "verify_access_token lib token = Inr info"
    and "ti_session_id info = Some sid"
    and "\<And>r. r \<in> set (sessions db) \<Longrightarrow> s_id r = sid \<Longrightarrow> s_revoked_at r \<noteq> None"
  shows "\<exists>e. extract_user_id_from_token lib header db = (Inl e, db) \<and> (\<not> db_outage db \<longrightarrow> e = bad_token)"
proof -
  have "is_session_live sid db = (if db_outage db then Inl (sql_error db ConnectionFault) else Inr False, db)"
    using assms(4) by (rule no_live_session)
  with assms(1-3) show ?thesis by (simp add: extract_user_id_from_token_def stmt_bind_def)
qed

lemma revoke_session_rows:
  assumes "\<not> db_outage db" "r \<in> set (sessions (snd (revoke_session sid db)))" "s_id r = sid"
  shows "s_revoked_at r \<noteq> None"
proof -
  have "sessions (snd (revoke_session sid db)) =
      sql_update (\<lambda>r. s_id r = sid \<and> s_revoked_at r = None) (set_revoked (db_now db)) (sessions db)"
    using assms(1) by (simp add: revoke_session_def update_sessions_def)
  with assms(2,3) revoking.second_refused [of sid id "db_now db" "sessions db"] show ?thesis
    by (auto simp: sql_returning_Nil)
qed

text \<open>Revoking a session kills its access tokens at once: after the revocation, at whatever later time
  and with whatever other tables, a request with a token that names the session is refused as an
  invalid token (or fails because the database is down), although the token itself still verifies.\<close>

theorem revoked_session_rejects_token:
  assumes "\<not> db_outage db" "bearer_token header = Inr token" "verify_access_token lib token = Inr info"
    and "ti_session_id info = Some sid" "sessions db' = sessions (snd (revoke_session sid db))"
  shows "\<exists>e. extract_user_id_from_token lib header db' = (Inl e, db') \<and> (\<not> db_outage db' \<longrightarrow> e = bad_token)"
proof (rule extract_without_live_session [OF assms(2-4)])
  fix r
  assume "r \<in> set (sessions db')" "s_id r = sid"
  with assms(5) show "s_revoked_at r \<noteq> None" using revoke_session_rows [OF assms(1)] by simp
qed

definition sample_session :: session_row where
  "sample_session = \<lparr>s_id = 4, s_user_id = 1, s_refresh_token_hash = ''h'', s_platform = ''web'',
     s_device_info = None, s_created_at = 0, s_expires_at = 100, s_revoked_at = None, s_last_used_at = 0\<rparr>"

definition sample_auth_db :: database where
  "sample_auth_db = (empty_database 10 (\<lambda>f. ''sql''))\<lparr>sessions := [sample_session]\<rparr>"

text \<open>A token library for one user and one session. A uuid is printed as that many marks.\<close>

definition sample_access_claims :: access_token_claims where
  "sample_access_claims = \<lparr>ac_sub = ''x'', ac_aud = ACCESS_AUD, ac_iat = 0, ac_exp = 3600,
     ac_platform = ''web'', ac_sid = Some ''xxxx''\<rparr>"

definition sample_refresh_claims :: refresh_token_claims where
  "sample_refresh_claims = \<lparr>rc_sub = ''x'', rc_aud = REFRESH_AUD, rc_sid = ''xxxx'', rc_iat = 0,
     rc_exp = 86400\<rparr>"

definition sample_lib :: token_lib where
  "sample_lib =
     \<lparr>hex_encode = hex_encode_ref, hex_decode = hex_decode_ref,
      uuid_to_string = (\<lambda>u. replicate (unat u) (CHR ''x'')), rfc3339 = (\<lambda>t. []),
      encode_access = (\<lambda>c. if c = sample_access_claims then Some ''acc'' else None),
      encode_refresh = (\<lambda>c. if c = sample_refresh_claims then Some ''ref'' else None),
      decode_access = (\<lambda>v t. if t = ''acc'' \<and> ACCESS_AUD \<in> set (v_audience v)
        then Some sample_access_claims else None),
      decode_refresh = (\<lambda>v t. if t = ''ref'' \<and> REFRESH_AUD \<in> set (v_audience v)
        then Some sample_refresh_claims else None),
      parse_uuid = (\<lambda>s. Some (of_nat (length s)))\<rparr>"

theorem revoked_session_rejects_token_witness:
  "fst (extract_user_id_from_token sample_lib (Some ''Bearer acc'') sample_auth_db) = Inr 1 \<and>
   (\<exists>e. extract_user_id_from_token sample_lib (Some ''Bearer acc'') (snd (revoke_session 4 sample_auth_db)) =
      (Inl e, snd (revoke_session 4 sample_auth_db)))"
proof -
  have h: "bearer_token (Some ''Bearer acc'') = Inr ''acc''" "\<not> db_outage sample_auth_db"
    "verify_access_token sample_lib ''acc'' =
       Inr \<lparr>ti_user_id = 1, ti_platform = ''web'', ti_session_id = Some 4\<rparr>"
    "fst (extract_user_id_from_token sample_lib (Some ''Bearer acc'') sample_auth_db) = Inr 1"
    by code_simp+
  from revoked_session_rejects_token [OF h(2,1,3), of 4 "snd (revoke_session 4 sample_auth_db)"] h(4)
  show ?thesis by auto
qed

section \<open>Challenges are single-use\<close>

text \<open>A challenge works once and only as issued: consumed before its expiry under its own purpose it
  gives back its subject; consumed a second time, for another purpose, or after its expiry it gives
  nothing.\<close>

theorem challenge_is_single_use:
  assumes "issue_challenge lib random purpose subject ttl db = (Inr nonce, db1)" "db_now db \<le> t"
  shows "let db2 = db1\<lparr>db_now := t\<rparr> in
    fst (consume_challenge nonce purpose db2) =
      Inr (if t < db_now db + seconds ttl then Some subject else None) \<and>
    (other \<noteq> purpose \<longrightarrow> fst (consume_challenge nonce other db2) = Inr None) \<and>
    (t \<le> t' \<longrightarrow> fst (consume_challenge nonce purpose
        ((snd (consume_challenge nonce purpose db2))\<lparr>db_now := t'\<rparr>)) = Inr None)"
proof -
  from assms(1) have db: "\<not> db_outage db" "nonce \<notin> c_nonce ` set (challenges db)"
    "db1 = db\<lparr>challenges := challenges db @ [\<lparr>c_nonce = nonce, c_purpose = purpose, c_subject = subject,
       c_created_at = db_now db, c_expires_at = db_now db + seconds ttl\<rparr>]\<rparr>"
    by (auto simp: issue_challenge_def Let_def split: if_splits)
  have old: "filter (consumable n nonce p) (challenges db) = []" for n p
    using db(2) by (force simp: filter_empty_conv consumable_def)
  have gone: "filter (consumable t' nonce purpose)
      (filter (\<lambda>r. \<not> consumable t nonce purpose r) rows) = []" if "t \<le> t'" for rows
    using that by (auto simp: filter_empty_conv consumable_def)
  show ?thesis
    using db(1) old gone
    by (auto simp: Let_def db(3) consume_challenge_def sql_delete_def consumable_def)
qed

theorem challenge_is_single_use_witness:
  "fst (consume_challenge ''0a'' ''login'' ((snd (issue_challenge sample_lib [10] ''login'' (Some ''bob'') 60
     sample_auth_db))\<lparr>db_now := 20\<rparr>)) = Inr (Some (Some ''bob''))"
proof -
  have i: "issue_challenge sample_lib [10] ''login'' (Some ''bob'') 60 sample_auth_db =
      (Inr ''0a'', snd (issue_challenge sample_lib [10] ''login'' (Some ''bob'') 60 sample_auth_db))"
  proof -
    have "fst (issue_challenge sample_lib [10] ''login'' (Some ''bob'') 60 sample_auth_db) = Inr ''0a''"
      by code_simp
    then show ?thesis by (metis prod.collapse)
  qed
  from challenge_is_single_use [OF i, of 20] show ?thesis
    by (simp add: Let_def sample_auth_db_def seconds_def)
qed

section \<open>Token pairs\<close>

text \<open>What \<open>jsonwebtoken\<close> and \<open>uuid\<close> document: a token decodes to the claims it was made from as long as it
  has not expired and its audience is one the policy accepts, a token whose audience the policy does
  not accept does not decode, and a printed uuid parses back.\<close>

definition jwt_laws :: "token_lib \<Rightarrow> i64 \<Rightarrow> bool" where
  "jwt_laws lib now \<longleftrightarrow>
     (\<forall>c t v. encode_access lib c = Some t \<longrightarrow> v_audience v = [ac_aud c] \<longrightarrow> now < ac_exp c \<longrightarrow>
        decode_access lib v t = Some c) \<and>
     (\<forall>c t v. encode_refresh lib c = Some t \<longrightarrow> v_audience v = [rc_aud c] \<longrightarrow> now < rc_exp c \<longrightarrow>
        decode_refresh lib v t = Some c) \<and>
     (\<forall>c t v. encode_refresh lib c = Some t \<longrightarrow> rc_aud c \<notin> set (v_audience v) \<longrightarrow>
        decode_access lib v t = None) \<and>
     (\<forall>c t v. encode_access lib c = Some t \<longrightarrow> ac_aud c \<notin> set (v_audience v) \<longrightarrow>
        decode_refresh lib v t = None) \<and>
     (\<forall>u. parse_uuid lib (uuid_to_string lib u) = Some u)"

text \<open>The two tokens of a pair are good for what they are made for and nothing else: the access token
  verifies to the user, platform and session, the refresh token to the user and session, and neither
  is accepted in place of the other.\<close>

theorem token_pair_round_trip:
  assumes "jwt_laws lib now" "0 < access_hours" "0 < refresh_days"
    and "create_token_pair lib err access_hours refresh_days now user_id plat session_id = Inr pair"
  shows "verify_access_token lib (tp_access_token pair) =
      Inr \<lparr>ti_user_id = user_id, ti_platform = platform_as_str plat, ti_session_id = Some session_id\<rparr> \<and>
    verify_refresh_token lib (tp_refresh_token pair) = Inr (user_id, session_id) \<and>
    verify_access_token lib (tp_refresh_token pair) = Inl bad_token \<and>
    verify_refresh_token lib (tp_access_token pair) = Inl bad_token"
proof -
  from assms(4) obtain a r where
    a: "encode_access lib \<lparr>ac_sub = uuid_to_string lib user_id, ac_aud = ACCESS_AUD, ac_iat = now,
        ac_exp = now + access_hours * 3600, ac_platform = platform_as_str plat,
        ac_sid = Some (uuid_to_string lib session_id)\<rparr> = Some a" (is "encode_access lib ?ca = _")
    and r: "encode_refresh lib \<lparr>rc_sub = uuid_to_string lib user_id, rc_aud = REFRESH_AUD,
        rc_sid = uuid_to_string lib session_id, rc_iat = now,
        rc_exp = now + refresh_days * 86400\<rparr> = Some r" (is "encode_refresh lib ?cr = _")
    and p: "tp_access_token pair = a" "tp_refresh_token pair = r"
    by (auto simp: create_token_pair_def)
  have aud: "ACCESS_AUD \<noteq> REFRESH_AUD" by (simp add: ACCESS_AUD_def REFRESH_AUD_def)
  have uu: "parse_uuid lib (uuid_to_string lib u) = Some u" for u using assms(1) by (simp add: jwt_laws_def)
  have d: "decode_access lib (strict_validation ACCESS_AUD) a = Some ?ca"
    "decode_refresh lib (strict_validation REFRESH_AUD) r = Some ?cr"
    "decode_access lib (strict_validation ACCESS_AUD) r = None"
    "decode_refresh lib (strict_validation REFRESH_AUD) a = None"
    using assms(1-3) a r aud unfolding jwt_laws_def by (force simp: strict_validation_def)+
  show ?thesis
    by (simp add: p verify_access_token_def verify_refresh_token_def d uu)
qed

lemma sample_lib_laws: "jwt_laws sample_lib 0"
  by (auto simp: jwt_laws_def sample_lib_def sample_access_claims_def sample_refresh_claims_def
      split: if_splits)

theorem token_pair_round_trip_witness:
  "create_token_pair sample_lib ''e'' 1 1 0 1 Web 4 =
     Inr \<lparr>tp_access_token = ''acc'', tp_refresh_token = ''ref'', tp_expires_in = 3600\<rparr> \<and>
   verify_access_token sample_lib ''ref'' = Inl bad_token"
proof -
  have p: "create_token_pair sample_lib ''e'' 1 1 0 1 Web 4 =
      Inr \<lparr>tp_access_token = ''acc'', tp_refresh_token = ''ref'', tp_expires_in = 3600\<rparr>" by code_simp
  from token_pair_round_trip [OF sample_lib_laws _ _ p] p show ?thesis by simp
qed

end
