(* ===== verification/Accounts_Db.thy ===== *)
theory Accounts_Db
  imports Database
begin

text \<open>
  The tables behind an account: \<open>src/src/infra/db/users.rs\<close>, \<open>user_keys.rs\<close>, \<open>invite_codes.rs\<close>,
  \<open>payment_invoices.rs\<close>, \<open>restore_attempts.rs\<close>, \<open>login_events.rs\<close> and the peppering of
  \<open>src/src/infra/db/mod.rs\<close> and \<open>src/src/core/crypto/pepper.rs\<close>.

  Identity columns are stored as an HMAC under a server key; the HMAC is a parameter. The primary key
  a statement draws is an argument. Unique constraints are checked in the order of their creation in
  the schema, and a violation carries the constraint's name. The order of a join's result is not
  fixed by SQL; here it is the order of the keys table.
\<close>

section \<open>Peppering\<close>

record mac_lib = json_lib +
  hmac_sha256 :: "string \<Rightarrow> string \<Rightarrow> byte list"

record db_handle =
  dh_lib :: mac_lib
  identity_pepper :: string
  ip_salt :: string

definition peppered_hex :: "'a mac_lib_scheme \<Rightarrow> string \<Rightarrow> string \<Rightarrow> string \<Rightarrow> string" where
  "peppered_hex lib key domain val =
     hex_encode lib (hmac_sha256 lib key (domain @ [CHR 0x1F] @ val))"

definition pepper :: "db_handle \<Rightarrow> string \<Rightarrow> string \<Rightarrow> string" where
  "pepper h domain val = peppered_hex (dh_lib h) (identity_pepper h) domain val"

definition hash_ip :: "db_handle \<Rightarrow> string \<Rightarrow> string" where
  "hash_ip h ip = peppered_hex (dh_lib h) (ip_salt h) ''ip'' ip"

section \<open>Users\<close>

record new_user =
  nu_username :: "string option"
  nu_pubkey_hash :: "string option"
  nu_nostr_pubkey :: "string option"
  nu_wallet_birthday :: "timestamp option"
  nu_seed_fingerprint :: "string option"
  nu_xmr_start_height :: "i64 option"
  nu_wow_start_height :: "i64 option"

definition clashes :: "(user_row \<Rightarrow> string option) \<Rightarrow> user_row \<Rightarrow> user_row list \<Rightarrow> bool" where
  "clashes col r rows \<longleftrightarrow> col r \<noteq> None \<and> col r \<in> set (map col rows)"

text \<open>The first unique constraint the row violates against the other rows.\<close>

definition users_violation :: "user_row \<Rightarrow> user_row list \<Rightarrow> string option" where
  "users_violation r rows =
     (if u_id r \<in> set (map u_id rows) then Some ''users_pkey''
      else if clashes u_username r rows then Some ''users_username_key''
      else if clashes u_pubkey_hash r rows then Some ''users_pubkey_hash_key''
      else if clashes u_nostr_pubkey r rows then Some ''users_nostr_pubkey_key''
      else if clashes u_seed_fingerprint r rows then Some ''users_seed_fingerprint_key''
      else None)"

definition new_user_row :: "db_handle \<Rightarrow> timestamp \<Rightarrow> uuid \<Rightarrow> new_user \<Rightarrow> user_row" where
  "new_user_row h now i input =
     \<lparr>u_id = i, u_username = nu_username input,
      u_pubkey_hash = map_option (pepper h ''pubkey_hash'') (nu_pubkey_hash input),
      u_nostr_pubkey = nu_nostr_pubkey input, u_wallet_birthday = nu_wallet_birthday input,
      u_seed_fingerprint = map_option (pepper h ''seed_fingerprint'') (nu_seed_fingerprint input),
      u_xmr_start_height = nu_xmr_start_height input, u_wow_start_height = nu_wow_start_height input,
      u_created_at = now, u_updated_at = now, u_last_seen_at = None, u_premium_until = None\<rparr>"

definition insert_user :: "db_handle \<Rightarrow> uuid \<Rightarrow> new_user \<Rightarrow> user_row raw_stmt" where
  "insert_user h i input =
     run_sql (\<lambda>db.
       let r = new_user_row h (db_now db) i input in
       case users_violation r (users db) of
         Some c \<Rightarrow> Inl (UniqueViolation c)
       | None \<Rightarrow> Inr (r, db\<lparr>users := users db @ [r]\<rparr>))"

definition create_user :: "db_handle \<Rightarrow> uuid \<Rightarrow> new_user \<Rightarrow> user_row stmt" where
  "create_user h i input = map_err sql_error (insert_user h i input)"

definition str_contains :: "string \<Rightarrow> string \<Rightarrow> bool" where
  "str_contains needle s \<longleftrightarrow> list_ex (\<lambda>n. take (length needle) (drop n s) = needle) [0..<Suc (length s)]"

definition registration_conflict :: "database \<Rightarrow> sql_fault \<Rightarrow> app_error" where
  "registration_conflict db f =
     (case f of
        UniqueViolation c \<Rightarrow>
          if str_contains ''username'' c then Conflict ''That username is already taken. Choose another.''
          else Conflict ''This wallet is already being registered. Please retry.''
      | _ \<Rightarrow> sql_error db f)"

definition select_user :: "(user_row \<Rightarrow> bool) \<Rightarrow> user_row option stmt" where
  "select_user p = query (\<lambda>db. fetch_optional (filter p (users db)))"

definition get_user_by_id :: "uuid \<Rightarrow> user_row option stmt" where
  "get_user_by_id i = select_user (\<lambda>r. u_id r = i)"

definition get_user_by_pubkey_hash :: "db_handle \<Rightarrow> string \<Rightarrow> user_row option stmt" where
  "get_user_by_pubkey_hash h v = select_user (\<lambda>r. u_pubkey_hash r = Some (pepper h ''pubkey_hash'' v))"

definition get_user_by_seed_fingerprint :: "db_handle \<Rightarrow> string \<Rightarrow> user_row option stmt" where
  "get_user_by_seed_fingerprint h v =
     select_user (\<lambda>r. u_seed_fingerprint r = Some (pepper h ''seed_fingerprint'' v))"

definition get_user_by_username :: "string \<Rightarrow> user_row option stmt" where
  "get_user_by_username username = select_user (\<lambda>r. u_username r = Some username)"

definition find_user_by_nostr_pubkey :: "string \<Rightarrow> user_row option stmt" where
  "find_user_by_nostr_pubkey pk = select_user (\<lambda>r. u_nostr_pubkey r = Some pk)"

definition owners :: "(user_key_row \<Rightarrow> bool) \<Rightarrow> database \<Rightarrow> user_row list" where
  "owners p db =
     concat (map (\<lambda>k. filter (\<lambda>u. u_id u = k_user_id k) (users db)) (filter p (user_keys db)))"

definition find_user_by_grin_address :: "string \<Rightarrow> user_row option stmt" where
  "find_user_by_grin_address addr =
     query (\<lambda>db. fetch_optional (owners (\<lambda>k. k_asset k = Grin \<and> k_public_key k = addr) db))"

definition get_user_by_asset_pubkey :: "asset_type \<Rightarrow> string \<Rightarrow> user_row option stmt" where
  "get_user_by_asset_pubkey a pk =
     query (\<lambda>db. fetch_optional (owners
       (\<lambda>k. k_asset k = a \<and> k_public_key k = pk \<and> k_key_type k = ''primary'') db))"

definition is_registered_npub :: "string \<Rightarrow> bool stmt" where
  "is_registered_npub pk = query (\<lambda>db. list_ex (\<lambda>r. u_nostr_pubkey r = Some pk) (users db))"

definition any_registered_npub :: "string list \<Rightarrow> bool stmt" where
  "any_registered_npub pks =
     (if pks = [] then stmt_return (Inr False)
      else query (\<lambda>db. list_ex (\<lambda>r. u_nostr_pubkey r \<in> Some ` set pks) (users db)))"

definition premium_active :: "timestamp \<Rightarrow> user_row \<Rightarrow> bool" where
  "premium_active now r \<longleftrightarrow> (case u_premium_until r of None \<Rightarrow> False | Some t \<Rightarrow> t > now)"

definition is_premium_npub :: "string \<Rightarrow> bool stmt" where
  "is_premium_npub pk =
     query (\<lambda>db. list_ex (\<lambda>r. u_nostr_pubkey r = Some pk \<and> premium_active (db_now db) r) (users db))"

text \<open>\<open>UPDATE users ... WHERE id = $1\<close>: the updated row, or none.\<close>

definition update_user :: "uuid \<Rightarrow> (timestamp \<Rightarrow> user_row \<Rightarrow> user_row) \<Rightarrow> user_row option raw_stmt" where
  "update_user i u =
     run_sql (\<lambda>db.
       case lookup_key u_id i (users db) of
         None \<Rightarrow> Inr (None, db)
       | Some r \<Rightarrow>
           (case users_violation (u (db_now db) r) (filter (\<lambda>x. u_id x \<noteq> i) (users db)) of
              Some c \<Rightarrow> Inl (UniqueViolation c)
            | None \<Rightarrow> Inr (Some (u (db_now db) r),
                db\<lparr>users := sql_update (\<lambda>x. u_id x = i) (u (db_now db)) (users db)\<rparr>)))"

definition one_row :: "'a option raw_stmt \<Rightarrow> 'a raw_stmt" where
  "one_row m db =
     (case m db of
        (Inl e, db') \<Rightarrow> (Inl e, db')
      | (Inr None, db') \<Rightarrow> (Inl RowNotFound, db')
      | (Inr (Some x), db') \<Rightarrow> (Inr x, db'))"

definition extended_until :: "timestamp \<Rightarrow> i32 \<Rightarrow> timestamp option \<Rightarrow> timestamp" where
  "extended_until now days until =
     max (case until of None \<Rightarrow> now | Some t \<Rightarrow> t) now + seconds (days * 86400)"

definition set_premium :: "i32 \<Rightarrow> timestamp \<Rightarrow> user_row \<Rightarrow> user_row" where
  "set_premium days now r =
     r\<lparr>u_premium_until := Some (extended_until now days (u_premium_until r)), u_updated_at := now\<rparr>"

definition extend_premium :: "uuid \<Rightarrow> i32 \<Rightarrow> timestamp stmt" where
  "extend_premium i days =
     stmt_bind (map_err sql_error (one_row (update_user i (set_premium days))))
       (\<lambda>r. stmt_return (Inr (the (u_premium_until r))))"

definition get_premium_until :: "uuid \<Rightarrow> timestamp option stmt" where
  "get_premium_until i =
     query (\<lambda>db. Option.bind (fetch_optional (filter (\<lambda>r. u_id r = i) (users db))) u_premium_until)"

definition update_pubkey_hash :: "db_handle \<Rightarrow> uuid \<Rightarrow> string \<Rightarrow> unit stmt" where
  "update_pubkey_hash h i v =
     stmt_bind (map_err sql_error (update_user i (\<lambda>now r.
         r\<lparr>u_pubkey_hash := Some (pepper h ''pubkey_hash'' v), u_updated_at := now\<rparr>)))
       (\<lambda>x. stmt_return (Inr ()))"

definition set_nostr_pubkey :: "uuid \<Rightarrow> string \<Rightarrow> unit stmt" where
  "set_nostr_pubkey i pk =
     stmt_bind (map_err (unique_violation_as ''That Nostr identity is already linked to another account'')
       (update_user i (\<lambda>now r. r\<lparr>u_nostr_pubkey := Some pk, u_updated_at := now\<rparr>)))
       (\<lambda>x. stmt_return (Inr ()))"

record optionals =
  op_wallet_birthday :: "timestamp option"
  op_seed_fingerprint :: "string option"
  op_xmr_start_height :: "i64 option"
  op_wow_start_height :: "i64 option"

definition needs_backfill :: "user_row \<Rightarrow> optionals \<Rightarrow> bool" where
  "needs_backfill r opt \<longleftrightarrow>
     u_wallet_birthday r = None \<and> op_wallet_birthday opt \<noteq> None \<or>
     u_seed_fingerprint r = None \<and> op_seed_fingerprint opt \<noteq> None \<or>
     u_xmr_start_height r = None \<and> op_xmr_start_height opt \<noteq> None \<or>
     u_wow_start_height r = None \<and> op_wow_start_height opt \<noteq> None"

definition set_optionals :: "db_handle \<Rightarrow> optionals \<Rightarrow> timestamp \<Rightarrow> user_row \<Rightarrow> user_row" where
  "set_optionals h opt now r =
     r\<lparr>u_wallet_birthday := option_or (u_wallet_birthday r) (op_wallet_birthday opt),
       u_seed_fingerprint := option_or (u_seed_fingerprint r)
         (map_option (pepper h ''seed_fingerprint'') (op_seed_fingerprint opt)),
       u_xmr_start_height := option_or (u_xmr_start_height r) (op_xmr_start_height opt),
       u_wow_start_height := option_or (u_wow_start_height r) (op_wow_start_height opt),
       u_updated_at := now\<rparr>"

definition backfill_optionals :: "db_handle \<Rightarrow> user_row \<Rightarrow> optionals \<Rightarrow> user_row stmt" where
  "backfill_optionals h existing opt =
     (if \<not> needs_backfill existing opt then stmt_return (Inr existing)
      else map_err sql_error (one_row (update_user (u_id existing) (set_optionals h opt))))"

definition get_or_create_user_by_pubkey_hash ::
    "db_handle \<Rightarrow> uuid \<Rightarrow> string \<Rightarrow> string option \<Rightarrow> optionals \<Rightarrow> user_row stmt" where
  "get_or_create_user_by_pubkey_hash h i pubkey_hash username opt =
     stmt_bind (get_user_by_pubkey_hash h pubkey_hash) (\<lambda>found.
       case found of
         Some existing \<Rightarrow> backfill_optionals h existing opt
       | None \<Rightarrow> create_user h i
           \<lparr>nu_username = username, nu_pubkey_hash = Some pubkey_hash, nu_nostr_pubkey = None,
            nu_wallet_birthday = op_wallet_birthday opt, nu_seed_fingerprint = op_seed_fingerprint opt,
            nu_xmr_start_height = op_xmr_start_height opt, nu_wow_start_height = op_wow_start_height opt\<rparr>)"

definition get_or_create_user_by_nostr_pubkey ::
    "db_handle \<Rightarrow> uuid \<Rightarrow> string \<Rightarrow> string option \<Rightarrow> optionals \<Rightarrow> user_row stmt" where
  "get_or_create_user_by_nostr_pubkey h i pk username opt =
     stmt_bind (find_user_by_nostr_pubkey pk) (\<lambda>found.
       case found of
         Some existing \<Rightarrow> backfill_optionals h existing opt
       | None \<Rightarrow>
           stmt_bind (case op_seed_fingerprint opt of
               None \<Rightarrow> stmt_return (Inr None)
             | Some fp \<Rightarrow> get_user_by_seed_fingerprint h fp) (\<lambda>same_seed.
             case same_seed of
               Some existing \<Rightarrow>
                 (case u_nostr_pubkey existing of
                    Some other \<Rightarrow>
                      if other = pk then backfill_optionals h existing (opt\<lparr>op_seed_fingerprint := None\<rparr>)
                      else stmt_return (Inl (Conflict
                        ''This wallet is already registered under a different Nostr identity. Sign in instead.''))
                  | None \<Rightarrow> stmt_return (Inl (Conflict (''This wallet already has an account. Sign in with your '' @
                        ''existing credentials and link your Nostr identity from settings.''))))
             | None \<Rightarrow> create_user h i
                 \<lparr>nu_username = username, nu_pubkey_hash = None, nu_nostr_pubkey = Some pk,
                  nu_wallet_birthday = op_wallet_birthday opt, nu_seed_fingerprint = op_seed_fingerprint opt,
                  nu_xmr_start_height = op_xmr_start_height opt, nu_wow_start_height = op_wow_start_height opt\<rparr>))"

definition update_username :: "uuid \<Rightarrow> string option \<Rightarrow> user_row stmt" where
  "update_username i username =
     map_err (unique_violation_as ''That username is not available'')
       (one_row (update_user i (\<lambda>now r. r\<lparr>u_username := username, u_updated_at := now\<rparr>)))"

definition update_user_last_seen :: "uuid \<Rightarrow> unit stmt" where
  "update_user_last_seen i =
     stmt_bind (map_err sql_error (update_user i (\<lambda>now r. r\<lparr>u_last_seen_at := Some now\<rparr>)))
       (\<lambda>x. stmt_return (Inr ()))"

definition get_user_count :: "nat stmt" where
  "get_user_count =
     query (\<lambda>db. length (filter (\<lambda>r. u_pubkey_hash r \<noteq> None \<or> u_nostr_pubkey r \<noteq> None) (users db)))"

definition get_handle_count :: "nat stmt" where
  "get_handle_count = query (\<lambda>db. length (filter (\<lambda>r. u_username r \<noteq> None) (users db)))"

section \<open>Keys, invites and registration invoices\<close>

fun asset_as_str :: "asset_type \<Rightarrow> string" where
  "asset_as_str Btc = ''btc''"
| "asset_as_str Ltc = ''ltc''"
| "asset_as_str Xmr = ''xmr''"
| "asset_as_str Wow = ''wow''"
| "asset_as_str Grin = ''grin''"

text \<open>The order of the enum type \<open>asset_type\<close>.\<close>

fun asset_rank :: "asset_type \<Rightarrow> int" where
  "asset_rank Btc = 0"
| "asset_rank Ltc = 1"
| "asset_rank Xmr = 2"
| "asset_rank Wow = 3"
| "asset_rank Grin = 4"

record new_user_key =
  nk_user_id :: uuid
  nk_asset :: asset_type
  nk_public_key :: string
  nk_public_spend_key :: "string option"
  nk_key_type :: string

definition same_key :: "new_user_key \<Rightarrow> user_key_row \<Rightarrow> bool" where
  "same_key n k \<longleftrightarrow>
     k_user_id k = nk_user_id n \<and> k_asset k = nk_asset n \<and> k_key_type k = nk_key_type n"

definition replace_key :: "timestamp \<Rightarrow> new_user_key \<Rightarrow> user_key_row \<Rightarrow> user_key_row" where
  "replace_key now n k =
     k\<lparr>k_public_key := nk_public_key n, k_public_spend_key := nk_public_spend_key n, k_updated_at := now\<rparr>"

definition new_key_row :: "timestamp \<Rightarrow> uuid \<Rightarrow> new_user_key \<Rightarrow> user_key_row" where
  "new_key_row now i n =
     \<lparr>k_id = i, k_user_id = nk_user_id n, k_asset = nk_asset n, k_public_key = nk_public_key n,
      k_public_spend_key = nk_public_spend_key n, k_key_type = nk_key_type n,
      k_created_at = now, k_updated_at = now\<rparr>"

definition upsert_user_key :: "uuid \<Rightarrow> new_user_key \<Rightarrow> user_key_row stmt" where
  "upsert_user_key i n =
     sql (\<lambda>db.
       case fetch_optional (sql_returning (same_key n) (replace_key (db_now db) n) (user_keys db)) of
         Some k \<Rightarrow> Inr (k, db\<lparr>user_keys := sql_update (same_key n) (replace_key (db_now db) n) (user_keys db)\<rparr>)
       | None \<Rightarrow>
           if nk_user_id n \<notin> set (user_ids db) then Inl ConstraintViolation
           else if i \<in> set (map k_id (user_keys db)) then Inl (UniqueViolation ''user_keys_pkey'')
           else let k = new_key_row (db_now db) i n in Inr (k, db\<lparr>user_keys := user_keys db @ [k]\<rparr>))"

definition get_user_keys :: "uuid \<Rightarrow> user_key_row list stmt" where
  "get_user_keys u =
     query (\<lambda>db. order_asc (\<lambda>k. asset_rank (k_asset k)) (filter (\<lambda>k. k_user_id k = u) (user_keys db)))"

definition primary_key :: "uuid \<Rightarrow> asset_type \<Rightarrow> user_key_row \<Rightarrow> bool" where
  "primary_key u a k \<longleftrightarrow> k_user_id k = u \<and> k_asset k = a \<and> k_key_type k = ''primary''"

definition get_user_key :: "uuid \<Rightarrow> asset_type \<Rightarrow> user_key_row option stmt" where
  "get_user_key u a = query (\<lambda>db. fetch_optional (filter (primary_key u a) (user_keys db)))"

definition delete_user_key :: "uuid \<Rightarrow> asset_type \<Rightarrow> bool stmt" where
  "delete_user_key u a =
     sql (\<lambda>db. Inr (list_ex (primary_key u a) (user_keys db),
       db\<lparr>user_keys := sql_delete (primary_key u a) (user_keys db)\<rparr>))"

definition insert_invite_code :: "string \<Rightarrow> string option \<Rightarrow> unit stmt" where
  "insert_invite_code code_hash label =
     sql (\<lambda>db.
       if code_hash \<in> set (map ic_code_hash (invite_codes db)) then Inl (UniqueViolation ''invite_codes_pkey'')
       else Inr ((), db\<lparr>invite_codes := invite_codes db @
         [\<lparr>ic_code_hash = code_hash, ic_created_at = db_now db, ic_label = label, ic_expires_at = None,
           ic_used_at = None, ic_used_by = None\<rparr>]\<rparr>))"

definition spendable :: "timestamp \<Rightarrow> invite_code_row \<Rightarrow> bool" where
  "spendable now c \<longleftrightarrow>
     ic_used_at c = None \<and> (case ic_expires_at c of None \<Rightarrow> True | Some t \<Rightarrow> t > now)"

definition claim_invite_code :: "string \<Rightarrow> bool stmt" where
  "claim_invite_code code_hash =
     sql (\<lambda>db.
       let p = (\<lambda>c. ic_code_hash c = code_hash \<and> spendable (db_now db) c);
           u = (\<lambda>c. c\<lparr>ic_used_at := Some (db_now db)\<rparr>)
       in Inr (fetch_optional (sql_returning p u (invite_codes db)) \<noteq> None,
            db\<lparr>invite_codes := sql_update p u (invite_codes db)\<rparr>))"

definition unused_invite_code_count :: "nat stmt" where
  "unused_invite_code_count = query (\<lambda>db. length (filter (spendable (db_now db)) (invite_codes db)))"

definition list_invite_codes :: "nat \<Rightarrow> nat \<Rightarrow> invite_code_row list stmt" where
  "list_invite_codes limit offset =
     query (\<lambda>db. take limit (drop offset (order_desc ic_created_at (invite_codes db))))"

definition insert_payment_invoice :: "string \<Rightarrow> string \<Rightarrow> string \<Rightarrow> string \<Rightarrow> string \<Rightarrow> unit stmt" where
  "insert_payment_invoice invoice_id pubkey_hash provider price currency =
     sql (\<lambda>db.
       if invoice_id \<in> set (map pi_invoice_id (payment_invoices db))
       then Inl (UniqueViolation ''payment_invoices_pkey'')
       else Inr ((), db\<lparr>payment_invoices := payment_invoices db @
         [\<lparr>pi_invoice_id = invoice_id, pi_pubkey_hash = pubkey_hash, pi_provider = provider,
           pi_amount = price, pi_currency = currency, pi_created_at = db_now db, pi_consumed_at = None\<rparr>]\<rparr>))"

definition get_payment_invoice :: "string \<Rightarrow> payment_invoice_row option stmt" where
  "get_payment_invoice invoice_id =
     query (\<lambda>db. fetch_optional (filter (\<lambda>p. pi_invoice_id p = invoice_id) (payment_invoices db)))"

definition unspent :: "string \<Rightarrow> payment_invoice_row \<Rightarrow> bool" where
  "unspent pubkey_hash p \<longleftrightarrow> pi_pubkey_hash p = pubkey_hash \<and> pi_consumed_at p = None"

definition consume_payment_invoice :: "string \<Rightarrow> string \<Rightarrow> bool stmt" where
  "consume_payment_invoice invoice_id pubkey_hash =
     sql (\<lambda>db.
       let p = (\<lambda>x. pi_invoice_id x = invoice_id \<and> unspent pubkey_hash x);
           u = (\<lambda>x. x\<lparr>pi_consumed_at := Some (db_now db)\<rparr>)
       in Inr (fetch_optional (sql_returning p u (payment_invoices db)) \<noteq> None,
            db\<lparr>payment_invoices := sql_update p u (payment_invoices db)\<rparr>))"

text \<open>A code and an invoice are spent at most once, however many registrations present them.\<close>

interpretation invite_claim: one_shot_update ic_code_hash "spendable now" "\<lambda>c. c\<lparr>ic_used_at := Some t\<rparr>" for now t
  by unfold_locales (simp_all add: spendable_def)

interpretation invoice_consume: one_shot_update pi_invoice_id "unspent pkh" "\<lambda>x. x\<lparr>pi_consumed_at := Some t\<rparr>" for pkh t
  by unfold_locales (simp_all add: unspent_def)

section \<open>Creating a gated user\<close>

definition claim_invite_step :: "string option \<Rightarrow> unit stmt" where
  "claim_invite_step invite =
     (case invite of
        None \<Rightarrow> stmt_return (Inr ())
      | Some hash \<Rightarrow> stmt_bind (claim_invite_code hash) (\<lambda>claimed.
          if claimed then stmt_return (Inr ())
          else stmt_return (Inl (ValidationError ''Invalid or already-used invite code.''))))"

definition consume_invoice_step :: "(string \<times> string) option \<Rightarrow> unit stmt" where
  "consume_invoice_step payment =
     (case payment of
        None \<Rightarrow> stmt_return (Inr ())
      | Some (invoice_id, pubkey_hash) \<Rightarrow>
          stmt_bind (consume_payment_invoice invoice_id pubkey_hash) (\<lambda>consumed.
            if consumed then stmt_return (Inr ())
            else stmt_return (Inl (ValidationError ''This payment invoice has already been used.''))))"

text \<open>The primary keys drawn for the inserted keys are the second component of each entry.\<close>

definition create_user_consuming_gates ::
    "db_handle \<Rightarrow> uuid \<Rightarrow> string option \<Rightarrow> (string \<times> string) option \<Rightarrow> new_user \<Rightarrow>
     ((asset_type \<times> string \<times> string option) \<times> uuid) list \<Rightarrow> user_row stmt" where
  "create_user_consuming_gates h i invite payment input keys =
     transaction
       (stmt_bind (claim_invite_step invite) (\<lambda>x.
        stmt_bind (consume_invoice_step payment) (\<lambda>x.
        stmt_bind (map_err registration_conflict (insert_user h i input)) (\<lambda>user.
        stmt_bind (for_all_do (\<lambda>((a, pk, spend), kid). upsert_user_key kid
            \<lparr>nk_user_id = u_id user, nk_asset = a, nk_public_key = pk, nk_public_spend_key = spend,
             nk_key_type = ''primary''\<rparr>) keys) (\<lambda>x.
          stmt_return (Inr user))))))"

section \<open>Restore attempts\<close>

definition record_restore_attempt :: "db_handle \<Rightarrow> uuid \<Rightarrow> string \<Rightarrow> string option \<Rightarrow> bool \<Rightarrow> unit stmt" where
  "record_restore_attempt h i fingerprint ip success =
     sql (\<lambda>db.
       if i \<in> set (map ra_id (restore_attempts db)) then Inl (UniqueViolation ''restore_attempts_pkey'')
       else Inr ((), db\<lparr>restore_attempts := restore_attempts db @
         [\<lparr>ra_id = i, ra_fingerprint = pepper h ''restore_fingerprint'' fingerprint,
           ra_ip_hash = map_option (hash_ip h) ip, ra_success = success, ra_created_at = db_now db\<rparr>]\<rparr>))"

definition recent_failure :: "timestamp \<Rightarrow> string \<Rightarrow> restore_attempt_row \<Rightarrow> bool" where
  "recent_failure now fp a \<longleftrightarrow>
     ra_fingerprint a = fp \<and> \<not> ra_success a \<and> ra_created_at a > now - seconds 3600"

definition count_failed_restore_attempts :: "db_handle \<Rightarrow> string \<Rightarrow> nat stmt" where
  "count_failed_restore_attempts h fingerprint =
     query (\<lambda>db. length (filter
       (recent_failure (db_now db) (pepper h ''restore_fingerprint'' fingerprint)) (restore_attempts db)))"

definition recent_from :: "timestamp \<Rightarrow> string \<Rightarrow> restore_attempt_row \<Rightarrow> bool" where
  "recent_from now ip_hash a \<longleftrightarrow> ra_ip_hash a = Some ip_hash \<and> ra_created_at a > now - seconds 3600"

definition count_ip_restore_attempts :: "db_handle \<Rightarrow> string \<Rightarrow> nat stmt" where
  "count_ip_restore_attempts h ip =
     query (\<lambda>db. length (filter (recent_from (db_now db) (hash_ip h ip)) (restore_attempts db)))"

definition cleanup_old_restore_attempts :: "nat stmt" where
  "cleanup_old_restore_attempts =
     sql (\<lambda>db.
       let p = (\<lambda>a. ra_created_at a < db_now db - seconds (7 * 86400))
       in Inr (length (filter p (restore_attempts db)),
            db\<lparr>restore_attempts := sql_delete p (restore_attempts db)\<rparr>))"

section \<open>Login events and retention\<close>

definition record_login_event ::
    "uuid \<Rightarrow> uuid option \<Rightarrow> string \<Rightarrow> string \<Rightarrow> string option \<Rightarrow> unit stmt" where
  "record_login_event i user_id a platform origin =
     sql (\<lambda>db.
       if i \<in> set (map le_id (login_events db)) then Inl (UniqueViolation ''login_events_pkey'')
       else if \<not> user_ref_ok db user_id then Inl ConstraintViolation
       else Inr ((), db\<lparr>login_events := login_events db @
         [\<lparr>le_id = i, le_user_id = user_id, le_asset = a, le_platform = platform, le_origin = origin,
           le_ip_hash = None, le_created_at = db_now db\<rparr>]\<rparr>))"

definition MAX_RETENTION_DAYS :: u64 where
  "MAX_RETENTION_DAYS = 1000000"

definition interval_days :: "u64 \<Rightarrow> i32" where
  "interval_days days = uint (min days MAX_RETENTION_DAYS)"

text \<open>\<open>DELETE ... WHERE id IN (SELECT id ... ORDER BY created_at LIMIT batch)\<close>\<close>

definition delete_oldest :: "('r \<Rightarrow> uuid) \<Rightarrow> ('r \<Rightarrow> timestamp) \<Rightarrow> timestamp \<Rightarrow> nat \<Rightarrow> 'r list \<Rightarrow> nat \<times> 'r list" where
  "delete_oldest key at before batch rows =
     (let victims = take batch (order_asc at (filter (\<lambda>r. at r < before) rows));
          hit = (\<lambda>r. key r \<in> set (map key victims))
      in (length (filter hit rows), sql_delete hit rows))"

definition cleanup_old_login_events :: "u64 \<Rightarrow> i64 \<Rightarrow> nat stmt" where
  "cleanup_old_login_events days batch =
     (if days = 0 \<or> batch \<le> 0 then stmt_return (Inr 0)
      else sql (\<lambda>db.
        let (n, left) = delete_oldest le_id le_created_at (db_now db - seconds (interval_days days * 86400))
              (nat batch) (login_events db)
        in Inr (n, db\<lparr>login_events := left\<rparr>)))"

definition cleanup_old_audit_logs :: "u64 \<Rightarrow> i64 \<Rightarrow> nat stmt" where
  "cleanup_old_audit_logs days batch =
     (if days = 0 \<or> batch \<le> 0 then stmt_return (Inr 0)
      else sql (\<lambda>db.
        let (n, left) = delete_oldest al_id al_created_at (db_now db - seconds (interval_days days * 86400))
              (nat batch) (audit_logs db)
        in Inr (n, db\<lparr>audit_logs := left\<rparr>)))"

definition delete_login_events_for_user :: "uuid \<Rightarrow> nat stmt" where
  "delete_login_events_for_user u =
     sql (\<lambda>db. Inr (length (filter (\<lambda>l. le_user_id l = Some u) (login_events db)),
       db\<lparr>login_events := sql_delete (\<lambda>l. le_user_id l = Some u) (login_events db)\<rparr>))"

text \<open>The flag is the process-wide latch \<open>IP_HASH_SCRUB_DONE\<close>: the statement takes it and returns it.\<close>

definition scrub_legacy_login_ip_hashes :: "i64 \<Rightarrow> bool \<Rightarrow> (nat \<times> bool) stmt" where
  "scrub_legacy_login_ip_hashes batch finished =
     (if batch \<le> 0 \<or> finished then stmt_return (Inr (0, finished))
      else sql (\<lambda>db.
        let victims = take (nat batch) (filter (\<lambda>l. le_ip_hash l \<noteq> None) (login_events db));
            hit = (\<lambda>l. le_id l \<in> set (map le_id victims));
            scrubbed = length (filter hit (login_events db))
        in Inr ((scrubbed, scrubbed < nat batch),
             db\<lparr>login_events := sql_update hit (le_ip_hash_update (\<lambda>x. None)) (login_events db)\<rparr>)))"

definition run_retention_sweep :: "u64 \<Rightarrow> u64 \<Rightarrow> i64 \<Rightarrow> bool \<Rightarrow> (nat \<times> bool) stmt" where
  "run_retention_sweep login_events_days audit_days batch finished =
     stmt_bind (cleanup_old_login_events login_events_days batch) (\<lambda>logins.
     stmt_bind (cleanup_old_audit_logs audit_days batch) (\<lambda>audits.
     stmt_bind (scrub_legacy_login_ip_hashes batch finished) (\<lambda>(scrubbed, finished').
       stmt_return (Inr (logins + audits, finished')))))"

end
