(* ===== verification/Tips_Api.thy ===== *)
theory Tips_Api
  imports Social_Tips Auth_Session Accounts_Db
begin

text \<open>
  \<open>src/src/api/tips.rs\<close>: the request handlers of the social tips, with the helpers they
  use from \<open>src/src/api/wallet/mod.rs\<close> and \<open>src/src/infra/db/users.rs\<close>. A handler is a
  statement: from the database it gives the response or the error and the database after
  it. The instance configuration is \<open>app_config\<close>; third-party functions are in \<open>token_lib\<close>.
\<close>

section \<open>Requests, responses and configuration\<close>

record tip_chain_flags =
  cf_btc :: bool
  cf_ltc :: bool
  cf_xmr :: bool
  cf_wow :: bool
  cf_grin :: bool

record app_config =
  features_tips :: bool
  features_targeted_tips :: bool
  features_chains :: tip_chain_flags
  tip_share_base :: "string option"

record create_social_tip_request =
  q_platform :: "string option"
  q_username :: "string option"
  q_asset :: string
  q_amount :: i64
  q_encrypted_key :: "string option"
  q_is_public :: bool
  q_claim_key_hash :: "string option"
  q_tip_address :: "string option"
  q_funding_txid :: "string option"
  q_tip_view_key :: "string option"
  q_grin_commitment :: "string option"
  q_sender_anonymous :: bool

record create_social_tip_response =
  p_tip_id :: string
  p_status :: string
  p_share_url :: "string option"

record sent_tip =
  st_id :: string
  st_sender_user_id :: string
  st_recipient_platform :: "string option"
  st_recipient_username :: "string option"
  st_asset :: string
  st_amount :: i64
  st_is_public :: bool
  st_status :: string
  st_created_at :: string
  st_claimed_at :: "string option"
  st_clawed_back_at :: "string option"
  st_funding_confirmations :: i32
  st_confirmations_required :: i32
  st_is_claimable :: bool

record public_tip_info =
  pt_id :: string
  pt_asset :: string
  pt_amount :: i64
  pt_status :: string
  pt_created_at :: string
  pt_is_public :: bool
  pt_encrypted_key :: "string option"
  pt_tip_address :: "string option"
  pt_funding_confirmations :: i32
  pt_confirmations_required :: i32
  pt_is_claimable :: bool

record claim_tip_response =
  ct_success :: bool
  ct_encrypted_key :: "string option"
  ct_tip_address :: "string option"

record confirm_sweep_response =
  sw_sweep_txid :: "string option"
  sw_status :: string

definition MAX_ENCRYPTED_KEY_HEX :: nat where
  "MAX_ENCRYPTED_KEY_HEX = 4096"

section \<open>Helpers\<close>

definition ensure_tips_enabled :: "app_config \<Rightarrow> unit result" where
  "ensure_tips_enabled cfg =
     (if features_tips cfg then Inr ()
      else Inl (ValidationError ''Tips are not available on this instance.''))"

text \<open>The handle a targeted request names: trimmed, without leading \<open>@\<close>, in lower case.\<close>

definition requested_handle :: "create_social_tip_request \<Rightarrow> string option" where
  "requested_handle req =
     option_filter (\<lambda>u. u \<noteq> [])
       (map_option (\<lambda>u. to_lowercase (trim_start_matches (CHR ''@'') (trim u))) (q_username req))"

definition resolve_tip_recipient :: "app_config \<Rightarrow> create_social_tip_request \<Rightarrow> uuid stmt" where
  "resolve_tip_recipient cfg req =
     (if \<not> features_targeted_tips cfg
      then stmt_return (Inl (ValidationError
        ''Targeted tips are not enabled on this instance; set is_public = true.''))
      else
        let platform = to_lowercase (case q_platform req of None \<Rightarrow> ''smirk'' | Some p \<Rightarrow> p) in
        if platform \<noteq> ''smirk''
        then stmt_return (Inl (ValidationError
          (''This instance resolves Smirk handles only, not '' @ quote @ platform @ quote @ ''.'')))
        else case requested_handle req of
          None \<Rightarrow> stmt_return (Inl (ValidationError ''username is required for a targeted tip.''))
        | Some username \<Rightarrow>
            stmt_bind (get_user_by_username username) (\<lambda>user.
              case user of
                None \<Rightarrow> stmt_return (Inl (ValidationError
                  (''No Smirk user owns the handle '' @ quote @ username @ quote @ ''.'')))
              | Some u \<Rightarrow> stmt_return (Inr (u_id u))))"

definition supported_tip_asset :: "app_config \<Rightarrow> string \<Rightarrow> bool" where
  "supported_tip_asset cfg a =
     (let c = features_chains cfg in
      if a = ''btc'' then cf_btc c
      else if a = ''ltc'' then cf_ltc c
      else if a = ''xmr'' then cf_xmr c
      else if a = ''wow'' then cf_wow c
      else if a = ''grin'' then cf_grin c
      else False)"

definition validate_cn_address :: "string \<Rightarrow> unit result" where
  "validate_cn_address address =
     (if address = [] \<or> length address > 256
      then Inl (ValidationError ''address has invalid length'') else Inr ())"

definition validate_tip_address :: "string \<Rightarrow> string \<Rightarrow> unit result" where
  "validate_tip_address a address =
     (if address = [] \<or> length address > 255
      then Inl (ValidationError ''tip_address is invalid.'')
      else if a = ''xmr'' \<or> a = ''wow'' then validate_cn_address address
      else if a = ''btc'' \<or> a = ''ltc'' then
        (if length address \<ge> 14 \<and> list_all is_ascii_alphanumeric address then Inr ()
         else Inl (ValidationError ''tip_address is invalid.''))
      else if a = ''grin'' then
        (if length address = 66 \<and> list_all is_ascii_hexdigit address then Inr ()
         else Inl (ValidationError ''tip_address is invalid.''))
      else Inl (ValidationError ''unsupported tip asset.''))"

definition is_claimable :: "social_tip_row \<Rightarrow> bool" where
  "is_claimable row \<longleftrightarrow>
     (from_db (status row) = Some Pending \<or> from_db (status row) = Some Claiming) \<and>
     funding_confirmations row \<ge> confirmations_required row \<and>
     funding_amount_verified row"

definition to_sent_tip :: "'a crates_scheme \<Rightarrow> app_config \<Rightarrow> social_tip_row \<Rightarrow> sent_tip" where
  "to_sent_tip lib cfg row =
     \<lparr>st_id = uuid_to_string lib (row_id row),
      st_sender_user_id = uuid_to_string lib (sender_user_id row),
      st_recipient_platform = None, st_recipient_username = None,
      st_asset = asset row, st_amount = amount row, st_is_public = is_public row,
      st_status = status row, st_created_at = rfc3339 lib (created_at row),
      st_claimed_at = map_option (rfc3339 lib) (claimed_at row),
      st_clawed_back_at = map_option (rfc3339 lib) (clawed_back_at row),
      st_funding_confirmations = funding_confirmations row,
      st_confirmations_required = confirmations_required row,
      st_is_claimable = is_claimable row\<rparr>"

definition to_public_info :: "'a crates_scheme \<Rightarrow> app_config \<Rightarrow> social_tip_row \<Rightarrow> public_tip_info" where
  "to_public_info lib cfg row =
     \<lparr>pt_id = uuid_to_string lib (row_id row), pt_asset = asset row, pt_amount = amount row,
      pt_status = status row, pt_created_at = rfc3339 lib (created_at row),
      pt_is_public = is_public row,
      pt_encrypted_key = map_option (hex_encode lib) (encrypted_key row),
      pt_tip_address = tip_address row,
      pt_funding_confirmations = funding_confirmations row,
      pt_confirmations_required = confirmations_required row,
      pt_is_claimable = is_claimable row\<rparr>"

definition share_url :: "'a crates_scheme \<Rightarrow> app_config \<Rightarrow> uuid \<Rightarrow> string option" where
  "share_url lib cfg i =
     map_option (\<lambda>base. trim_end_matches (CHR ''/'') base @ ''/'' @ uuid_to_string lib i)
       (tip_share_base cfg)"

section \<open>Creation\<close>

text \<open>The parts of the validation in \<open>create_social_tip\<close>, each ending with its early
  returns.\<close>

definition non_empty :: "string option \<Rightarrow> string option" where
  "non_empty = option_filter (\<lambda>s. s \<noteq> [])"

definition checked_claim_key_hash ::
    "'a crates_scheme \<Rightarrow> uuid option \<Rightarrow> create_social_tip_request \<Rightarrow> string option result" where
  "checked_claim_key_hash lib recipient req =
     (case recipient of
        Some r \<Rightarrow> Inr None
      | None \<Rightarrow>
          try_bind (ok_or (non_empty (q_claim_key_hash req))
              (ValidationError ''claim_key_hash is required for a public tip.'')) (\<lambda>h.
            if length h \<noteq> 64 \<or> hex_decode lib h = None
            then Inl (ValidationError ''claim_key_hash must be a 64-character hex SHA256.'')
            else Inr (Some h)))"

definition checked_encrypted_key :: "'a crates_scheme \<Rightarrow> create_social_tip_request \<Rightarrow> byte list option result" where
  "checked_encrypted_key lib req =
     (case q_encrypted_key req of
        None \<Rightarrow> Inr None
      | Some h \<Rightarrow>
          if h = [] then Inr None
          else if length h > MAX_ENCRYPTED_KEY_HEX
          then Inl (ValidationError ''encrypted_key is too large.'')
          else case hex_decode lib h of
            None \<Rightarrow> Inl (ValidationError ''encrypted_key must be hex.'')
          | Some bytes \<Rightarrow> Inr (Some bytes))"

definition checked_grin_commitment ::
    "string \<Rightarrow> string option \<Rightarrow> create_social_tip_request \<Rightarrow> string option result" where
  "checked_grin_commitment a tip_addr req =
     (if a = ''grin'' then
        let commit = option_or (non_empty (q_grin_commitment req)) tip_addr in
        case commit of
          None \<Rightarrow> Inr None
        | Some c \<Rightarrow> try_bind (validate_tip_address ''grin'' c) (\<lambda>u. Inr (Some c))
      else Inr None)"

definition new_tip_of_request ::
    "'a crates_scheme \<Rightarrow> app_config \<Rightarrow> uuid \<Rightarrow> uuid option \<Rightarrow> create_social_tip_request \<Rightarrow> new_social_tip result" where
  "new_tip_of_request lib cfg user_id recipient req =
     (if q_amount req \<le> 0 then Inl (ValidationError ''amount must be positive.'')
      else
        let a = to_lowercase (q_asset req) in
        if \<not> supported_tip_asset cfg a
        then Inl (ValidationError (''asset '' @ quote @ a @ quote @
               '' is not enabled for tips on this instance.''))
        else
          try_bind (checked_claim_key_hash lib recipient req) (\<lambda>key_hash.
          try_bind (checked_encrypted_key lib req) (\<lambda>enc_key.
          let tip_addr = non_empty (q_tip_address req);
              fund_txid = non_empty (q_funding_txid req)
          in if fund_txid = None \<and> tip_addr = None
             then Inl (ValidationError ''tip_address is required to create a tip draft.'')
             else
               try_bind (case tip_addr of
                   None \<Rightarrow> Inr () | Some addr \<Rightarrow> validate_tip_address a addr) (\<lambda>u.
               try_bind (checked_grin_commitment a tip_addr req) (\<lambda>commit.
                 Inr \<lparr>n_sender_user_id = user_id, n_asset = a, n_amount = q_amount req,
                      n_claim_key_hash = key_hash, n_encrypted_key = enc_key,
                      n_tip_address = tip_addr, n_funding_txid = fund_txid,
                      n_tip_view_key = non_empty (q_tip_view_key req),
                      n_confirmations_required = confirmations_for_asset a,
                      n_grin_commitment = commit,
                      n_recipient_user_id = recipient\<rparr>)))))"

text \<open>What every authenticated handler starts with.\<close>

definition authed ::
    "token_lib \<Rightarrow> app_config \<Rightarrow> string option \<Rightarrow> (uuid \<Rightarrow> 'a stmt) \<Rightarrow> 'a stmt" where
  "authed lib cfg header f =
     stmt_bind (extract_user_id_from_token lib header) (\<lambda>user_id.
     stmt_bind (stmt_return (ensure_tips_enabled cfg)) (\<lambda>u. f user_id))"

definition tip_response :: "'a crates_scheme \<Rightarrow> app_config \<Rightarrow> social_tip_row \<Rightarrow> create_social_tip_response" where
  "tip_response lib cfg tip =
     \<lparr>p_tip_id = uuid_to_string lib (row_id tip), p_status = status tip,
      p_share_url = share_url lib cfg (row_id tip)\<rparr>"

text \<open>\<open>i\<close> is the primary key the database draws for the row.\<close>

definition api_create_social_tip ::
    "token_lib \<Rightarrow> app_config \<Rightarrow> uuid \<Rightarrow> string option \<Rightarrow> create_social_tip_request \<Rightarrow>
     create_social_tip_response stmt" where
  "api_create_social_tip lib cfg i header req =
     authed lib cfg header (\<lambda>user_id.
     stmt_bind
       (if q_is_public req then stmt_return (Inr None)
        else stmt_bind (resolve_tip_recipient cfg req) (\<lambda>r. stmt_return (Inr (Some r)))) (\<lambda>recipient.
     stmt_bind (stmt_return (new_tip_of_request lib cfg user_id recipient req)) (\<lambda>new.
     stmt_bind
       (if n_funding_txid new = None then create_draft_social_tip i new
        else create_social_tip i new) (\<lambda>tip.
       stmt_return (Inr (tip_response lib cfg tip))))))"

section \<open>Reads\<close>

definition api_get_sent_social_tips ::
    "token_lib \<Rightarrow> app_config \<Rightarrow> string option \<Rightarrow> sent_tip list stmt" where
  "api_get_sent_social_tips lib cfg header =
     authed lib cfg header (\<lambda>user_id.
     stmt_bind (get_sent_social_tips user_id) (\<lambda>rows.
       stmt_return (Inr (map (to_sent_tip lib cfg) rows))))"

definition api_get_received_social_tips ::
    "token_lib \<Rightarrow> app_config \<Rightarrow> string option \<Rightarrow> sent_tip list stmt" where
  "api_get_received_social_tips lib cfg header =
     authed lib cfg header (\<lambda>user_id.
       if \<not> features_targeted_tips cfg then stmt_return (Inr [])
       else stmt_bind (get_received_social_tips user_id) (\<lambda>rows.
         stmt_return (Inr (map (to_sent_tip lib cfg) rows))))"

definition api_get_claimable_social_tips ::
    "token_lib \<Rightarrow> app_config \<Rightarrow> string option \<Rightarrow> sent_tip list stmt" where
  "api_get_claimable_social_tips lib cfg header =
     authed lib cfg header (\<lambda>user_id.
       if \<not> features_targeted_tips cfg then stmt_return (Inr [])
       else stmt_bind (get_claimable_social_tips user_id) (\<lambda>rows.
         stmt_return (Inr (map (to_sent_tip lib cfg) rows))))"

definition api_get_public_social_tip :: "'a crates_scheme \<Rightarrow> app_config \<Rightarrow> uuid \<Rightarrow> public_tip_info stmt" where
  "api_get_public_social_tip lib cfg i =
     stmt_bind (stmt_return (ensure_tips_enabled cfg)) (\<lambda>u.
     stmt_bind (get_social_tip i) (\<lambda>row.
     stmt_bind (stmt_return (ok_or (option_filter is_public row) (NotFound ''tip not found''))) (\<lambda>r.
       stmt_return (Inr (to_public_info lib cfg r)))))"

section \<open>Transitions\<close>

definition api_cancel_social_tip ::
    "token_lib \<Rightarrow> app_config \<Rightarrow> string option \<Rightarrow> uuid \<Rightarrow> bool stmt" where
  "api_cancel_social_tip lib cfg header i =
     authed lib cfg header (\<lambda>user_id.
     stmt_bind (cancel_draft_social_tip i user_id) (\<lambda>r.
       case r of
         Some x \<Rightarrow> stmt_return (Inr True)
       | None \<Rightarrow> stmt_return (Inl (NotFound ''no cancellable draft tip''))))"

text \<open>The shape check of a transaction id in a request body: \<open>trim\<close>, then the two early
  returns.\<close>

definition checked_txid :: "string \<Rightarrow> string \<Rightarrow> string result" where
  "checked_txid field raw =
     (let txid = trim raw in
      if txid = [] then Inl (ValidationError (field @ '' is required.''))
      else if length txid > 128 then Inl (ValidationError (field @ '' is too long.''))
      else Inr txid)"

definition api_attach_funding ::
    "token_lib \<Rightarrow> app_config \<Rightarrow> string option \<Rightarrow> uuid \<Rightarrow> string \<Rightarrow> create_social_tip_response stmt" where
  "api_attach_funding lib cfg header i raw_txid =
     authed lib cfg header (\<lambda>user_id.
     stmt_bind (stmt_return (checked_txid ''funding_txid'' raw_txid)) (\<lambda>txid.
     stmt_bind (attach_funding_to_tip lib i user_id txid) (\<lambda>tip.
       stmt_return (Inr (tip_response lib cfg tip)))))"

definition api_claim_social_tip ::
    "token_lib \<Rightarrow> app_config \<Rightarrow> string option \<Rightarrow> uuid \<Rightarrow> claim_tip_response stmt" where
  "api_claim_social_tip lib cfg header i =
     authed lib cfg header (\<lambda>user_id.
     stmt_bind (mark_tip_claiming i user_id) (\<lambda>row.
     stmt_bind (stmt_return (ok_or row (ValidationError ''tip not claimable''))) (\<lambda>r.
       stmt_return (Inr \<lparr>ct_success = True,
         ct_encrypted_key = map_option (hex_encode lib) (encrypted_key r),
         ct_tip_address = tip_address r\<rparr>))))"

definition api_confirm_sweep ::
    "token_lib \<Rightarrow> app_config \<Rightarrow> string option \<Rightarrow> uuid \<Rightarrow> string \<Rightarrow> confirm_sweep_response stmt" where
  "api_confirm_sweep lib cfg header i raw_txid =
     authed lib cfg header (\<lambda>user_id.
     stmt_bind (stmt_return (checked_txid ''sweep_txid'' raw_txid)) (\<lambda>txid.
     stmt_bind (confirm_tip_sweep i user_id txid) (\<lambda>row.
     stmt_bind (stmt_return (ok_or row (ValidationError ''tip not claiming''))) (\<lambda>r.
       stmt_return (Inr \<lparr>sw_sweep_txid = sweep_txid r, sw_status = status r\<rparr>)))))"

definition api_clawback_social_tip ::
    "token_lib \<Rightarrow> app_config \<Rightarrow> string option \<Rightarrow> uuid \<Rightarrow> bool stmt" where
  "api_clawback_social_tip lib cfg header i =
     authed lib cfg header (\<lambda>user_id.
     stmt_bind (clawback_social_tip i user_id) (\<lambda>row.
     stmt_bind (stmt_return (ok_or row (ValidationError ''tip not clawable''))) (\<lambda>r.
       stmt_return (Inr True))))"

end
