(* ===== verification/Account_Deletion.thy ===== *)
theory Account_Deletion
  imports Database
begin

text \<open>
  Deleting a user row, the statement of \<open>src/src/infra/db/erasure.rs\<close> that every other table feels.
\<close>

text \<open>\<open>DELETE FROM users\<close> with the referential actions of the schema: the rows a user owns (sessions,
  keys, premium invoices, sent tips and slatepacks) are deleted with the user, other references
  become \<open>NULL\<close>, and the row checks on tips are applied to what that leaves.\<close>

definition forget_user :: "timestamp \<Rightarrow> uuid \<Rightarrow> social_tip_row \<Rightarrow> social_tip_row" where
  "forget_user now u r =
     (if claimed_by_user_id r = Some u \<or> recipient_user_id r = Some u
      then r\<lparr>claimed_by_user_id := (if claimed_by_user_id r = Some u then None else claimed_by_user_id r),
             recipient_user_id := (if recipient_user_id r = Some u then None else recipient_user_id r),
             updated_at := now\<rparr>
      else r)"

definition delete_user :: "uuid \<Rightarrow> unit stmt" where
  "delete_user u db =
     (if db_outage db then (Inl (sql_error db ConnectionFault), db)
      else
        let left = map (forget_user (db_now db) u) (sql_delete (\<lambda>r. sender_user_id r = u) (social_tips db))
        in if list_all tip_checks_ok left
           then (Inr (), db\<lparr>users := sql_delete (\<lambda>x. u_id x = u) (users db),
                   sessions := sql_delete (\<lambda>s. s_user_id s = u) (sessions db),
                   social_tips := left,
                   user_keys := sql_delete (\<lambda>k. k_user_id k = u) (user_keys db),
                   invite_codes := sql_update (\<lambda>c. ic_used_by c = Some u) (ic_used_by_update (\<lambda>x. None)) (invite_codes db),
                   premium_invoices := sql_delete (\<lambda>p. pm_user_id p = u) (premium_invoices db),
                   login_events := sql_update (\<lambda>l. le_user_id l = Some u) (le_user_id_update (\<lambda>x. None)) (login_events db),
                   erasure_requests := sql_update (\<lambda>e. er_user_id e = Some u) (er_user_id_update (\<lambda>x. None)) (erasure_requests db),
                   grin_slatepacks := sql_update (\<lambda>s. sp_recipient_user_id s = Some u) (sp_recipient_user_id_update (\<lambda>x. None))
                     (sql_delete (\<lambda>s. sp_sender_user_id s = u) (grin_slatepacks db)),
                   audit_logs := sql_update (\<lambda>a. al_user_id a = Some u) (al_user_id_update (\<lambda>x. None)) (audit_logs db)\<rparr>)
           else (Inl (sql_error db ConstraintViolation), db))"

end
