(* ===== verification/Tips_System.thy ===== *)
theory Tips_System
  imports Tip_Sweep Tips_Api Account_Deletion
begin

text \<open>
  The tips subsystem as a whole: request handlers, the funding worker, the sweep
  reconciler, the garbage collector, account deletion and everything else that shares
  the database, interleaved statement by statement.

  A state is the database, the rows the workers hold and the keys \<open>gen_random_uuid()\<close> has
  drawn: a worker selects rows, then acts on each of them while other statements run, so what
  it holds may be out of date; a key is never drawn twice. One rule of
  \<open>tip_step\<close> is one statement, issued by the code that issues it and with the values that
  code computes. \<open>reachable\<close> are the states any interleaving from an empty table reaches.
  The handlers and the worker passes are shown to be sequences of these steps.
\<close>

section \<open>States and steps\<close>

record tip_system =
  sys_db :: database
  held :: "social_tip_row list"
  drawn :: "uuid list"

definition worker_selects :: "social_tip_row list stmt \<Rightarrow> bool" where
  "worker_selects q \<longleftrightarrow>
     (\<exists>a. q = get_tips_pending_confirmation a) \<or>
     q = get_tips_awaiting_amount_verification \<or>
     (\<exists>n. q = get_tips_awaiting_sweep_confirmation n) \<or>
     (\<exists>n. q = get_settled_tips_for_reorg_check n)"

abbreviation with_db :: "tip_system \<Rightarrow> database \<Rightarrow> tip_system" where
  "with_db s db \<equiv> s\<lparr>sys_db := db\<rparr>"

inductive tip_step :: "tip_system \<Rightarrow> actor \<Rightarrow> tip_system \<Rightarrow> bool" where
  create:
    "new_tip_of_request (lib :: token_lib) cfg u recipient req = Inr new \<Longrightarrow> in_i64 (q_amount req) \<Longrightarrow>
     i \<notin> set (drawn s) \<Longrightarrow>
     st = (if n_funding_txid new = None then Draft else PendingConfirmation) \<Longrightarrow>
     tip_step s (User u)
       (s\<lparr>sys_db := snd (insert_social_tip i new st (sys_db s)), drawn := i # drawn s\<rparr>)"
| cancel: "tip_step s (User u) (with_db s (snd (cancel_draft_social_tip i u (sys_db s))))"
| attach: "tip_step s (User u) (with_db s (snd (attach_funding_to_tip (lib :: token_lib) i u txid (sys_db s))))"
| claim: "tip_step s (User u) (with_db s (snd (mark_tip_claiming i u (sys_db s))))"
| note_sweep: "tip_step s (User u) (with_db s (snd (confirm_tip_sweep i u txid (sys_db s))))"
| clawback: "tip_step s (User u) (with_db s (snd (clawback_social_tip i u (sys_db s))))"
| select:
    "worker_selects q \<Longrightarrow> fst (q (sys_db s)) = Inr rows \<Longrightarrow>
     tip_step s Worker (s\<lparr>held := rows @ held s\<rparr>)"
| count:
    "tip \<in> set (held s) \<Longrightarrow>
     tip_step s Worker (with_db s (count_confirmations lws tip (sys_db s)))"
| count_grin:
    "tip \<in> set (held s) \<Longrightarrow>
     tip_step s Worker (with_db s (count_grin_confirmations grin h tip (sys_db s)))"
| verify:
    "tip \<in> set (held s) \<Longrightarrow> verify_funding_amount ch tip = Some v \<Longrightarrow>
     tip_step s Worker (with_db s (apply_verification v (row_id tip) (sys_db s)))"
| touch:
    "tip \<in> set (held s) \<Longrightarrow>
     tip_step s Worker (with_db s (snd (touch_tip_last_check (row_id tip) (sys_db s))))"
| settle:
    "tip \<in> set (held s) \<Longrightarrow> probe_confirmed_spends ch tip = Inr (spends, h) \<Longrightarrow>
     pick_winner spends = Some winner \<Longrightarrow>
     deep_enough (to_lowercase (asset tip)) h (cs_block_height winner) \<Longrightarrow>
     tip_step s Worker (with_db s (snd (settle_winner tip winner (sys_db s))))"
| revert:
    "tip \<in> set (held s) \<Longrightarrow> sweep_txid tip = Some txid \<Longrightarrow>
     probe_confirmed_spends ch tip = Inr (spends, h) \<Longrightarrow>
     \<not> list_ex (\<lambda>x. cs_txid x = txid) spends \<Longrightarrow>
     tip_step s Worker (with_db s (snd (revert_sweep_on_reorg (row_id tip) (sys_db s))))"
| stamp_dm: "tip_step s Worker (with_db s (snd (stamp_sweep_confirmed_dm_sent i (sys_db s))))"
| stamp_reorg: "tip_step s Worker (with_db s (snd (stamp_reorg_notified i (sys_db s))))"
| gc_drafts: "tip_step s Gc (with_db s (snd (cancel_old_drafts (sys_db s))))"
| gc_stuck: "tip_step s Gc (with_db s (snd (cancel_stuck_pending_confirmation (sys_db s))))"
| erase: "tip_step s Environment (with_db s (snd (delete_user u (sys_db s))))"
| other:
    "social_tips db = social_tips (sys_db s) \<Longrightarrow> db_now (sys_db s) \<le> db_now db \<Longrightarrow>
     tip_step s Environment (with_db s db)"

inductive tip_steps :: "tip_system \<Rightarrow> tip_system \<Rightarrow> bool" where
  none: "tip_steps s s"
| more: "tip_steps s s' \<Longrightarrow> tip_step s' a s'' \<Longrightarrow> tip_steps s s''"

definition initial :: "tip_system \<Rightarrow> bool" where
  "initial s \<longleftrightarrow> social_tips (sys_db s) = [] \<and> held s = [] \<and> drawn s = []"

inductive reachable :: "tip_system \<Rightarrow> bool" where
  start: "initial s \<Longrightarrow> reachable s"
| step: "reachable s \<Longrightarrow> tip_step s a s' \<Longrightarrow> reachable s'"

lemma tip_steps_step: "tip_step s a s' \<Longrightarrow> tip_steps s s'"
  by (meson tip_steps.intros)

lemma tip_steps_trans: "tip_steps s' s'' \<Longrightarrow> tip_steps s s' \<Longrightarrow> tip_steps s s''"
  by (induction rule: tip_steps.induct) (auto intro: tip_steps.intros)

lemma reachable_steps: "tip_steps s s' \<Longrightarrow> reachable s \<Longrightarrow> reachable s'"
  by (induction rule: tip_steps.induct) (auto intro: reachable.intros)

section \<open>The invariant of the system\<close>

definition held_ok :: "social_tip_row list \<Rightarrow> social_tip_row list \<Rightarrow> bool" where
  "held_ok hs rows \<longleftrightarrow>
     (\<forall>h \<in> set hs. tip_inv h \<and> (\<forall>r \<in> set rows. row_id r = row_id h \<longrightarrow> terms r = terms h))"

definition sys_ok :: "tip_system \<Rightarrow> bool" where
  "sys_ok s \<longleftrightarrow>
     tips_ok (social_tips (sys_db s)) \<and> held_ok (held s) (social_tips (sys_db s)) \<and>
     row_id ` set (social_tips (sys_db s)) \<subseteq> set (drawn s) \<and> row_id ` set (held s) \<subseteq> set (drawn s)"

text \<open>Rows that a step adds have a key drawn by that step.\<close>

definition keys_fresh :: "tip_system \<Rightarrow> tip_system \<Rightarrow> bool" where
  "keys_fresh s s' \<longleftrightarrow>
     set (drawn s) \<subseteq> set (drawn s') \<and>
     (\<forall>r' \<in> set (social_tips (sys_db s')).
        row_id r' \<in> row_id ` set (social_tips (sys_db s)) \<or>
        row_id r' \<in> set (drawn s') - set (drawn s))"

lemma sys_ok_moves:
  assumes "sys_ok s" "moves a (social_tips (sys_db s)) (social_tips (sys_db s'))" "keys_fresh s s'"
    and "held s' = held s"
  shows "sys_ok s'"
proof -
  have "terms r' = terms h"
    if "h \<in> set (held s)" "r' \<in> set (social_tips (sys_db s'))" "row_id r' = row_id h" for h r'
  proof -
    from assms(1) that(1) have "row_id h \<in> set (drawn s)" by (auto simp: sys_ok_def)
    with assms(3) that obtain r where r: "r \<in> set (social_tips (sys_db s))" "row_id r = row_id r'"
      by (force simp: keys_fresh_def)
    with assms(1) that have "terms r = terms h" by (auto simp: sys_ok_def held_ok_def)
    moreover from assms(2) r that have "terms r' = terms r" by (auto simp: moves_def)
    ultimately show ?thesis by simp
  qed
  moreover have "row_id ` set (social_tips (sys_db s')) \<subseteq> set (drawn s')"
    using assms(1,3) by (auto simp: sys_ok_def keys_fresh_def)
  ultimately show ?thesis using assms by (auto simp: sys_ok_def held_ok_def moves_def keys_fresh_def)
qed

lemma keys_fresh_ids:
  "map row_id (social_tips db) = map row_id (social_tips (sys_db s)) \<Longrightarrow> keys_fresh s (with_db s db)"
proof -
  assume "map row_id (social_tips db) = map row_id (social_tips (sys_db s))"
  then have "row_id ` set (social_tips db) = row_id ` set (social_tips (sys_db s))"
    by (metis set_map)
  then show ?thesis by (auto simp: keys_fresh_def)
qed

lemma new_tip_of_request_Inr:
  assumes "new_tip_of_request lib cfg u recipient req = Inr new"
  shows "0 < n_amount new" "n_amount new = q_amount req" "n_sender_user_id new = u"
    "n_recipient_user_id new = recipient" "supported_tip_asset cfg (n_asset new)"
    "n_asset new = to_lowercase (q_asset req)"
    "n_confirmations_required new = confirmations_for_asset (n_asset new)"
    "n_funding_txid new = non_empty (q_funding_txid req)"
    "n_tip_address new = non_empty (q_tip_address req)"
    "n_funding_txid new = None \<Longrightarrow> n_tip_address new \<noteq> None"
  using assms by (auto simp: new_tip_of_request_def Let_def split: if_splits)

lemma new_tip_row_inv:
  assumes "new_tip_of_request lib cfg u recipient req = Inr new" "in_i64 (q_amount req)"
    and "st = (if n_funding_txid new = None then Draft else PendingConfirmation)"
  shows "tip_inv (new_tip_row now i new st)"
  using new_tip_of_request_Inr [OF assms(1)] assms(2,3)
  by (auto simp: new_tip_row_def tip_inv_def party_inv_def phase_defs in_i64_def)

lemma row_id_new_tip_row [simp]: "row_id (new_tip_row now i new st) = i"
  by (simp add: new_tip_row_def)

lemma insert_moves:
  assumes ok: "tips_ok (social_tips db)"
    and inv: "tip_inv (new_tip_row (db_now db) i new st)"
  shows "moves a (social_tips db) (social_tips (snd (insert_social_tip i new st db)))"
  using moves_append [OF ok inv] by (simp add: insert_social_tip_def Let_def moves_refl [OF ok])

lemma forget_user_inv:
  assumes "tip_inv r" "tip_checks_ok (forget_user now u r)"
  shows "tip_inv (forget_user now u r) \<and> terms (forget_user now u r) = terms r \<and>
    abs_status (forget_user now u r) = abs_status r"
proof -
  from assms have rec: "recipient_user_id r \<noteq> Some u"
    by (auto simp: tip_inv_def party_inv_def tip_checks_ok_def forget_user_def)
  then have t: "terms (forget_user now u r) = terms r" and s: "status (forget_user now u r) = status r"
    by (simp_all add: forget_user_def terms_def)
  have st: "state_inv x r \<Longrightarrow> state_inv x (forget_user now u r)" for x
    by (cases x) (auto simp: forget_user_def phase_defs split: option.splits)
  have p: "party_inv r \<Longrightarrow> party_inv (forget_user now u r)"
    using rec by (auto simp: forget_user_def party_inv_def)
  from assms(1) t s st p show ?thesis
    by (auto simp: tip_inv_def abs_status_def split: option.splits)
qed

lemma delete_user_moves:
  assumes ok: "tips_ok (social_tips db)"
  shows "moves a (social_tips db) (social_tips (snd (delete_user u db)))"
    and "row_id ` set (social_tips (snd (delete_user u db))) \<subseteq> row_id ` set (social_tips db)"
proof -
  let ?f = "forget_user (db_now db) u"
  let ?kept = "sql_delete (\<lambda>r. sender_user_id r = u) (social_tips db)"
  have sub: "set ?kept \<subseteq> set (social_tips db)" by (auto simp: sql_delete_def)
  have ids: "row_id (?f r) = row_id r" for r by (simp add: forget_user_def)
  have "moves a (social_tips db) (map ?f ?kept)" if "list_all tip_checks_ok (map ?f ?kept)"
  proof -
    from that sub ok have f: "tip_inv (?f r)" "terms (?f r) = terms r" "abs_status (?f r) = abs_status r"
      if "r \<in> set ?kept" for r
      using forget_user_inv [of r "db_now db" u] that by (auto simp: tips_ok_def list_all_iff)
    have "row_id \<circ> ?f = row_id" using ids by auto
    moreover have "distinct (map row_id ?kept)"
      using ok by (simp add: sql_delete_def tips_ok_def distinct_map_filter)
    ultimately have "tips_ok (map ?f ?kept)" using f(1) by (auto simp: tips_ok_def)
    moreover have "terms r' = terms r \<and> allowed r a (abs_status r) (abs_status r')"
      if "r \<in> set (social_tips db)" "r' \<in> set (map ?f ?kept)" "row_id r' = row_id r" for r r'
    proof -
      from that(2) obtain q where q: "q \<in> set ?kept" "r' = ?f q" by auto
      with ids that sub ok have "q = r" by (intro tips_ok_unique [OF ok]) auto
      with q f show ?thesis by (auto intro: allowed.stay)
    qed
    ultimately show ?thesis by (auto simp: moves_def)
  qed
  then show "moves a (social_tips db) (social_tips (snd (delete_user u db)))"
    by (auto simp: delete_user_def Let_def moves_refl [OF ok])
  show "row_id ` set (social_tips (snd (delete_user u db))) \<subseteq> row_id ` set (social_tips db)"
    using sub ids by (auto simp: delete_user_def Let_def image_image)
qed

section \<open>Every step is a move of its actor\<close>

lemma ids_kept:
  "map row_id (social_tips (snd (cancel_draft_social_tip i u db))) = map row_id (social_tips db)"
  "map row_id (social_tips (snd (attach_funding_to_tip lib i u txid db))) = map row_id (social_tips db)"
  "map row_id (social_tips (snd (mark_tip_claiming i u db))) = map row_id (social_tips db)"
  "map row_id (social_tips (snd (confirm_tip_sweep i u txid db))) = map row_id (social_tips db)"
  "map row_id (social_tips (snd (clawback_social_tip i u db))) = map row_id (social_tips db)"
  "map row_id (social_tips (snd (update_tip_confirmations i n db))) = map row_id (social_tips db)"
  "map row_id (social_tips (snd (touch_tip_last_check i db))) = map row_id (social_tips db)"
  "map row_id (social_tips (snd (mark_tip_funding_verified i obs db))) = map row_id (social_tips db)"
  "map row_id (social_tips (snd (mark_tip_funding_mismatch i obs db))) = map row_id (social_tips db)"
  "map row_id (social_tips (snd (settle_winner tip winner db))) = map row_id (social_tips db)"
  "map row_id (social_tips (snd (revert_sweep_on_reorg i db))) = map row_id (social_tips db)"
  "map row_id (social_tips (snd (stamp_sweep_confirmed_dm_sent i db))) = map row_id (social_tips db)"
  "map row_id (social_tips (snd (stamp_reorg_notified i db))) = map row_id (social_tips db)"
  "map row_id (social_tips (snd (cancel_old_drafts db))) = map row_id (social_tips db)"
  "map row_id (social_tips (snd (cancel_stuck_pending_confirmation db))) = map row_id (social_tips db)"
  by (simp_all add: stmt_defs settle_winner_def update_tip_ids update_tips_ids guard_simps Let_def)

lemma apply_verification_ids:
  "map row_id (social_tips (apply_verification v i db)) = map row_id (social_tips db)"
  by (cases v) (simp_all add: ids_kept)

lemma count_confirmations_cases:
  "count_confirmations lws tip db = db \<or>
     (\<exists>n. count_confirmations lws tip db = snd (update_tip_confirmations (row_id tip) n db))"
  by (auto simp: count_confirmations_def split: option.splits sum.splits)

lemma count_grin_confirmations_cases:
  "count_grin_confirmations grin h tip db = db \<or>
     (\<exists>n. count_grin_confirmations grin h tip db = snd (update_tip_confirmations (row_id tip) n db))"
  by (auto simp: count_grin_confirmations_def Let_def split: option.splits sum.splits)

lemma user_moves:
  assumes "tips_ok (social_tips db)"
  shows "moves (User u) (social_tips db) (social_tips (snd (cancel_draft_social_tip i u db)))"
    and "moves (User u) (social_tips db) (social_tips (snd (attach_funding_to_tip lib i u txid db)))"
    and "moves (User u) (social_tips db) (social_tips (snd (mark_tip_claiming i u db)))"
    and "moves (User u) (social_tips db) (social_tips (snd (confirm_tip_sweep i u txid db)))"
    and "moves (User u) (social_tips db) (social_tips (snd (clawback_social_tip i u db)))"
  using assms
  by (auto simp: stmt_defs intro!: tr_cancel.update_tip_moves tr_fund.update_tip_moves
      tr_claim.update_tip_moves tr_record.update_tip_moves tr_clawback.update_tip_moves)

lemma tip_step_moves:
  assumes "tip_step s a s'" "sys_ok s"
  shows "moves a (social_tips (sys_db s)) (social_tips (sys_db s'))"
  using assms
proof (cases rule: tip_step.cases)
  case (verify tip ch v)
  with assms(2) show ?thesis
    using receipt.apply_moves(2) [of "sys_db s" ch tip v] by (auto simp: sys_ok_def held_ok_def)
next
  case (count tip lws)
  with assms(2) show ?thesis
    using count_confirmations_cases [of lws tip "sys_db s"]
    by (auto simp: sys_ok_def stamp_moves(4) moves_refl)
next
  case (count_grin tip grin h)
  with assms(2) show ?thesis
    using count_grin_confirmations_cases [of grin h tip "sys_db s"]
    by (auto simp: sys_ok_def stamp_moves(4) moves_refl)
next
  case (create lib cfg u recipient req new i st)
  with assms(2) show ?thesis
    using insert_moves [OF _ new_tip_row_inv [OF create(3,4,6)]] by (simp add: sys_ok_def)
qed (simp_all add: sys_ok_def user_moves settle_winner_moves revert_moves stamp_moves gc_moves
      delete_user_moves moves_refl)

lemma tip_step_fresh:
  assumes "tip_step s a s'" "sys_ok s"
  shows "keys_fresh s s'"
  using assms
proof (cases rule: tip_step.cases)
  case (count tip lws)
  then show ?thesis
    using count_confirmations_cases [of lws tip "sys_db s"] by (auto intro!: keys_fresh_ids simp: ids_kept)
next
  case (count_grin tip grin h)
  then show ?thesis
    using count_grin_confirmations_cases [of grin h tip "sys_db s"]
    by (auto intro!: keys_fresh_ids simp: ids_kept)
next
  case (create lib cfg u recipient req new i st)
  then show ?thesis by (auto simp: keys_fresh_def insert_social_tip_def Let_def)
next
  case (erase u)
  then show ?thesis
    using delete_user_moves(2) [of "sys_db s" u] assms(2) by (auto simp: keys_fresh_def sys_ok_def)
next
  case (select q rows)
  then show ?thesis by (simp add: keys_fresh_def)
qed (simp_all add: keys_fresh_ids ids_kept apply_verification_ids)

lemma worker_selects_rows:
  assumes "worker_selects q" "fst (q db) = Inr rows"
  shows "set rows \<subseteq> set (social_tips db)"
proof -
  have l: "set (order_asc_nulls_last f xs) = set xs" for f xs
    by (auto simp: order_asc_nulls_last_def)
  from assms show ?thesis
    by (auto simp: worker_selects_def get_tips_pending_confirmation_def
        get_tips_awaiting_amount_verification_def get_tips_awaiting_sweep_confirmation_def
        get_settled_tips_for_reorg_check_def l dest!: in_set_takeD)
qed

lemma tip_step_ok:
  assumes "tip_step s a s'" "sys_ok s"
  shows "sys_ok s'"
proof (cases "held s' = held s")
  case True
  then show ?thesis
    using sys_ok_moves [OF assms(2) tip_step_moves [OF assms] tip_step_fresh [OF assms]] by simp
next
  case False
  with assms(1) obtain q rows where q: "worker_selects q" "fst (q (sys_db s)) = Inr rows"
      "s' = s\<lparr>held := rows @ held s\<rparr>"
    by (cases rule: tip_step.cases) auto
  then have "tip_inv h \<and> (\<forall>r \<in> set (social_tips (sys_db s)). row_id r = row_id h \<longrightarrow> terms r = terms h)"
    if "h \<in> set rows" for h
    using that worker_selects_rows [OF q(1,2)] assms(2) tips_ok_unique [of "social_tips (sys_db s)"]
    by (auto simp: sys_ok_def tips_ok_def)
  moreover have "row_id ` set rows \<subseteq> set (drawn s)"
    using worker_selects_rows [OF q(1,2)] assms(2) by (auto simp: sys_ok_def)
  ultimately show ?thesis using q(3) assms(2) by (auto simp: sys_ok_def held_ok_def)
qed

lemma reachable_ok: "reachable s \<Longrightarrow> sys_ok s"
proof (induction rule: reachable.induct)
  case (start s)
  then show ?case by (simp add: initial_def sys_ok_def tips_ok_def held_ok_def)
next
  case (step s a s')
  show ?case by (rule tip_step_ok [OF step.hyps(2) step.IH])
qed

section \<open>Many steps\<close>

text \<open>The row of one tip before and after a run: the same terms, and a path of the abstract
  automaton.\<close>

inductive lifecycle_path :: "social_tip_row \<Rightarrow> tip_status \<Rightarrow> tip_status \<Rightarrow> bool" for r where
  here: "lifecycle_path r s s"
| onward: "lifecycle_path r s s' \<Longrightarrow> allowed r a s' s'' \<Longrightarrow> lifecycle_path r s s''"

lemma allowed_terms: "allowed r a s s' \<Longrightarrow> terms r = terms r' \<Longrightarrow> allowed r' a s s'"
  by (induction rule: allowed.induct) (auto simp: terms_def intro: allowed.intros)

lemma lifecycle_path_closed:
  assumes "lifecycle_path r s s'" "s \<in> S"
    and "\<And>a x y. x \<in> S \<Longrightarrow> allowed r a x y \<Longrightarrow> y \<in> S"
  shows "s' \<in> S"
  using assms by (induction rule: lifecycle_path.induct) auto

lemma tip_steps_path:
  assumes "tip_steps s s'" "sys_ok s" "r \<in> set (social_tips (sys_db s))"
  shows "sys_ok s' \<and> row_id r \<in> set (drawn s') \<and>
    (\<forall>r' \<in> set (social_tips (sys_db s')). row_id r' = row_id r \<longrightarrow>
       terms r' = terms r \<and> lifecycle_path r (abs_status r) (abs_status r'))"
  using assms
proof (induction rule: tip_steps.induct)
  case (none s)
  have "r' = r" if "r' \<in> set (social_tips (sys_db s))" "row_id r' = row_id r" for r'
    using none that by (auto simp: sys_ok_def intro: tips_ok_unique)
  with none show ?case by (auto simp: sys_ok_def intro: lifecycle_path.here)
next
  case (more s s' a s'')
  then have ok: "sys_ok s'" and d: "row_id r \<in> set (drawn s')"
    and IH: "\<And>q. q \<in> set (social_tips (sys_db s')) \<Longrightarrow> row_id q = row_id r \<Longrightarrow>
      terms q = terms r \<and> lifecycle_path r (abs_status r) (abs_status q)" by blast+
  note m = tip_step_moves [OF more.hyps(2) ok] and f = tip_step_fresh [OF more.hyps(2) ok]
  have "terms r'' = terms r \<and> lifecycle_path r (abs_status r) (abs_status r'')"
    if r'': "r'' \<in> set (social_tips (sys_db s''))" "row_id r'' = row_id r" for r''
  proof -
    from f r'' d obtain q where q: "q \<in> set (social_tips (sys_db s'))" "row_id r'' = row_id q"
      by (auto simp: keys_fresh_def)
    with m r'' have "terms r'' = terms q" "allowed q a (abs_status q) (abs_status r'')"
      by (auto simp: moves_def)
    with IH [of q] q r'' show ?thesis
      by (metis allowed_terms lifecycle_path.onward)
  qed
  moreover from f d have "row_id r \<in> set (drawn s'')" by (auto simp: keys_fresh_def)
  ultimately show ?case using tip_step_ok [OF more.hyps(2) ok] by blast
qed

lemma reachable_tip:
  assumes "reachable s" "r \<in> set (social_tips (sys_db s))"
  shows "tip_inv r" "status r = as_str (abs_status r)" "state_inv (abs_status r) r" "party_inv r"
proof -
  show inv: "tip_inv r" using assms reachable_ok by (auto simp: sys_ok_def tips_ok_def)
  show "status r = as_str (abs_status r)" by (rule tip_inv_status [OF inv])
  then show "state_inv (abs_status r) r" by (rule tip_inv_state [OF inv])
  show "party_inv r" using inv by (simp add: tip_inv_def)
qed

lemma reachable_move:
  assumes "reachable s" "tip_step s a s'" "r \<in> set (social_tips (sys_db s))"
    "r' \<in> set (social_tips (sys_db s'))" "row_id r' = row_id r"
  shows "terms r' = terms r" "allowed r a (abs_status r) (abs_status r')"
  using movesD [OF tip_step_moves [OF assms(2) reachable_ok [OF assms(1)]] assms(3-5)] by blast+

lemma reachable_path:
  assumes "reachable s" "tip_steps s s'" "r \<in> set (social_tips (sys_db s))"
    "r' \<in> set (social_tips (sys_db s'))" "row_id r' = row_id r"
  shows "lifecycle_path r (abs_status r) (abs_status r')"
  using tip_steps_path [OF assms(2) reachable_ok [OF assms(1)] assms(3)] assms(4,5) by blast

lemma reachable_unique:
  assumes "reachable s"
  shows "distinct (map row_id (social_tips (sys_db s)))"
    and "r \<in> set (social_tips (sys_db s)) \<Longrightarrow>
      lookup_key row_id (row_id r) (social_tips (sys_db s)) = Some r"
  using reachable_ok [OF assms] by (simp_all add: sys_ok_def tips_ok_def lookup_key_distinct)

section \<open>The handlers are sequences of steps\<close>

lemma authed_cases:
  obtains (refused) e where "authed lib cfg header f db = (Inl e, db)"
  | (user) u where "fst (extract_user_id_from_token lib header db) = Inr u" "features_tips cfg"
      "authed lib cfg header f db = f u db"
proof (cases "extract_user_id_from_token lib header db")
  case (Pair r db')
  then have [simp]: "db' = db" using snd_extract_user_id [of lib header db] by simp
  show thesis
  proof (cases r)
    case (Inl e)
    with Pair show thesis by (intro refused [of e]) (simp add: authed_def stmt_bind_def)
  next
    case (Inr u)
    show thesis
    proof (cases "features_tips cfg")
      case True
      with Pair Inr show thesis
        by (intro user [of u]) (simp_all add: authed_def stmt_bind_def ensure_tips_enabled_def)
    next
      case False
      with Pair Inr show thesis
        by (intro refused) (simp add: authed_def stmt_bind_def ensure_tips_enabled_def)
    qed
  qed
qed

lemma tip_steps_same [simp]: "tip_steps s s"
  by (rule tip_steps.none)

lemma snd_stmt_bind:
  "snd (stmt_bind m f db) = (case m db of (Inl e, db') \<Rightarrow> db' | (Inr x, db') \<Rightarrow> snd (f x db'))"
  by (auto simp: stmt_bind_def split: prod.splits sum.splits)

lemma snd_resolve_tip_recipient [simp]: "snd (resolve_tip_recipient cfg req db) = db"
  by (auto simp: resolve_tip_recipient_def get_user_by_username_def select_user_def snd_stmt_bind query_def Let_def
      split: option.splits)

text \<open>A handler that ends in one statement of the caller, with only responses computed
  after it.\<close>

lemma handler_steps:
  assumes "\<And>u. tip_steps s (with_db s (snd (f u (sys_db s))))"
  shows "tip_steps s (with_db s (snd (authed lib cfg header f (sys_db s))))"
  by (cases rule: authed_cases [of lib cfg header f "sys_db s"]) (simp_all add: assms)

lemma snd_bind_return:
  "snd (stmt_bind (stmt_return r) f db) = (case r of Inl e \<Rightarrow> db | Inr x \<Rightarrow> snd (f x db))"
  by (cases r) (simp_all add: snd_stmt_bind)

lemma api_cancel_steps:
  "tip_steps s (with_db s (snd (api_cancel_social_tip lib cfg header i (sys_db s))))"
  unfolding api_cancel_social_tip_def
  by (rule handler_steps, subst snd_stmt_bind_read)
     (auto split: option.splits intro: tip_steps_step tip_step.cancel)

lemma api_claim_steps:
  "tip_steps s (with_db s (snd (api_claim_social_tip lib cfg header i (sys_db s))))"
  unfolding api_claim_social_tip_def
  by (rule handler_steps, subst snd_stmt_bind_read)
     (auto simp: snd_bind_return split: sum.splits intro: tip_steps_step tip_step.claim)

lemma api_clawback_steps:
  "tip_steps s (with_db s (snd (api_clawback_social_tip lib cfg header i (sys_db s))))"
  unfolding api_clawback_social_tip_def
  by (rule handler_steps, subst snd_stmt_bind_read)
     (auto simp: snd_bind_return split: sum.splits intro: tip_steps_step tip_step.clawback)

lemma api_attach_steps:
  "tip_steps s (with_db s (snd (api_attach_funding lib cfg header i txid (sys_db s))))"
  unfolding api_attach_funding_def
  by (rule handler_steps)
     (auto simp: snd_bind_return snd_stmt_bind_read split: sum.splits
       intro: tip_steps_step tip_step.attach)

lemma api_confirm_sweep_steps:
  "tip_steps s (with_db s (snd (api_confirm_sweep lib cfg header i txid (sys_db s))))"
  unfolding api_confirm_sweep_def
  by (rule handler_steps)
     (auto simp: snd_bind_return snd_stmt_bind_read split: sum.splits
       intro: tip_steps_step tip_step.note_sweep)

end
