(* ===== verification/Tips_Runs.thy ===== *)
theory Tips_Runs
  imports Tips_System
begin

text \<open>
  Creation and the worker passes as sequences of the steps of \<open>Tips_System\<close>: what the
  invariant and the contract say of every reachable state holds after every run of them.
\<close>

section \<open>Creation\<close>

lemma api_create_steps:
  assumes "in_i64 (q_amount req)" "i \<notin> set (drawn s)"
  shows "\<exists>ds. tip_steps s
    (s\<lparr>sys_db := snd (api_create_social_tip lib cfg i header req (sys_db s)), drawn := ds\<rparr>)"
proof -
  let ?reach = "\<lambda>db. \<exists>ds. tip_steps s (s\<lparr>sys_db := db, drawn := ds\<rparr>)"
  have same: "?reach (sys_db s)"
  proof
    show "tip_steps s (s\<lparr>sys_db := sys_db s, drawn := drawn s\<rparr>)" by simp
  qed
  let ?insert = "\<lambda>new :: new_social_tip. if n_funding_txid new = None then create_draft_social_tip i new
    else create_social_tip i new"
  let ?tail = "\<lambda>u recipient. stmt_bind (stmt_return (new_tip_of_request lib cfg u recipient req)) (\<lambda>new.
    stmt_bind (?insert new) (\<lambda>tip. stmt_return (Inr (tip_response lib cfg tip))))"
  let ?recipient = "if q_is_public req then stmt_return (Inr None)
    else stmt_bind (resolve_tip_recipient cfg req) (\<lambda>r. stmt_return (Inr (Some r)))"
  have tail: "?reach (snd (?tail u recipient (sys_db s)))" for u recipient
  proof (cases "new_tip_of_request lib cfg u recipient req")
    case (Inl e)
    with same show ?thesis by (simp add: snd_bind_return)
  next
    case (Inr new)
    let ?db = "snd (insert_social_tip i new
      (if n_funding_txid new = None then Draft else PendingConfirmation) (sys_db s))"
    from Inr have eq: "snd (?tail u recipient (sys_db s)) = ?db"
      by (simp add: snd_bind_return snd_stmt_bind_read create_draft_social_tip_def create_social_tip_def)
    have "tip_steps s (s\<lparr>sys_db := ?db, drawn := i # drawn s\<rparr>)"
      by (rule tip_steps_step, rule tip_step.create [OF Inr assms refl])
    with eq show ?thesis by metis
  qed
  have read: "snd (?recipient (sys_db s)) = sys_db s"
    by (simp add: snd_stmt_bind_read)
  have handler: "?reach (snd (stmt_bind ?recipient (?tail u) (sys_db s)))" for u
  proof (cases "?recipient (sys_db s)")
    case (Pair res db')
    with read have "db' = sys_db s" by simp
    with Pair tail same show ?thesis by (cases res) (simp_all add: snd_stmt_bind)
  qed
  show ?thesis
    unfolding api_create_social_tip_def
    by (cases rule: authed_cases [of lib cfg header
          "\<lambda>u. stmt_bind ?recipient (?tail u)" "sys_db s"]) (use same handler in simp_all)
qed

section \<open>Passes over selected rows\<close>

lemma for_each_steps:
  assumes "\<And>tip s. tip \<in> set rows \<Longrightarrow> tip \<in> set (held s) \<Longrightarrow> tip_steps s (with_db s (f tip (sys_db s)))"
    and "set rows \<subseteq> set (held s)"
  shows "tip_steps s (with_db s (for_each f rows (sys_db s)))"
  using assms
proof (induction rows arbitrary: s)
  case Nil
  then show ?case by (simp add: for_each_def)
next
  case (Cons tip rows)
  let ?s = "with_db s (f tip (sys_db s))"
  have "tip_steps s ?s" using Cons.prems by simp
  moreover have "tip_steps ?s (with_db ?s (for_each f rows (sys_db ?s)))"
    using Cons.prems by (intro Cons.IH) simp_all
  ultimately show ?case using tip_steps_trans by (fastforce simp: for_each_def)
qed

text \<open>\<open>selects_then q f\<close>: a pass that selects with \<open>q\<close> and then works on the rows.\<close>

lemma selected_steps:
  assumes "worker_selects q" "snd (q (sys_db s)) = sys_db s"
    and "\<And>rows s. set rows \<subseteq> set (held s) \<Longrightarrow> tip_steps s (with_db s (f rows (sys_db s)))"
    and "db' = (case q (sys_db s) of (Inl e, d) \<Rightarrow> d | (Inr rows, d) \<Rightarrow> f rows d)"
  shows "\<exists>hs. tip_steps s (s\<lparr>sys_db := db', held := hs\<rparr>)"
proof (cases "q (sys_db s)")
  case (Pair res d)
  with assms(2) have d: "d = sys_db s" by simp
  show ?thesis
  proof (cases res)
    case (Inl e)
    with Pair d assms(4) have "s\<lparr>sys_db := db', held := held s\<rparr> = s" by simp
    then show ?thesis using tip_steps.none by metis
  next
    case (Inr rows)
    let ?s = "s\<lparr>held := rows @ held s\<rparr>"
    from assms(1) Pair Inr have "tip_steps s ?s" by (auto intro!: tip_steps_step tip_step.select)
    moreover have "tip_steps ?s (with_db ?s (f rows (sys_db ?s)))" by (rule assms(3)) simp
    moreover have "with_db ?s (f rows (sys_db ?s)) = s\<lparr>sys_db := db', held := rows @ held s\<rparr>"
      using Pair Inr d assms(4) by simp
    ultimately show ?thesis using tip_steps_trans by metis
  qed
qed

lemma selects [simp]:
  "worker_selects (get_tips_pending_confirmation a)"
  "worker_selects get_tips_awaiting_amount_verification"
  "worker_selects (get_tips_awaiting_sweep_confirmation n)"
  "worker_selects (get_settled_tips_for_reorg_check n)"
  by (auto simp: worker_selects_def)

lemma selects_read [simp]:
  "snd (get_tips_pending_confirmation a db) = db"
  "snd (get_tips_awaiting_amount_verification db) = db"
  "snd (get_tips_awaiting_sweep_confirmation n db) = db"
  "snd (get_settled_tips_for_reorg_check n db) = db"
  by (simp_all add: get_tips_pending_confirmation_def get_tips_awaiting_amount_verification_def
      get_tips_awaiting_sweep_confirmation_def get_settled_tips_for_reorg_check_def)

section \<open>The money-in worker\<close>

lemma check_asset_confirmations_steps:
  "\<exists>hs. tip_steps s (s\<lparr>sys_db := check_asset_confirmations ch a (sys_db s), held := hs\<rparr>)"
proof (cases "if a = ''xmr'' then ch_xmr ch else if a = ''wow'' then ch_wow ch else None")
  case None
  then have "s\<lparr>sys_db := check_asset_confirmations ch a (sys_db s), held := held s\<rparr> = s"
    by (simp add: check_asset_confirmations_def)
  then show ?thesis using tip_steps.none by metis
next
  case (Some lws)
  show ?thesis
    by (rule selected_steps [where q = "get_tips_pending_confirmation a"
          and f = "for_each (count_confirmations lws)"])
       (use Some in \<open>auto simp: check_asset_confirmations_def
          intro: for_each_steps tip_steps_step tip_step.count split: prod.splits sum.splits\<close>)
qed

lemma check_grin_confirmations_steps:
  "\<exists>hs. tip_steps s (s\<lparr>sys_db := check_grin_confirmations ch (sys_db s), held := hs\<rparr>)"
proof (cases "ch_grin ch")
  case None
  then have "s\<lparr>sys_db := check_grin_confirmations ch (sys_db s), held := held s\<rparr> = s"
    by (simp add: check_grin_confirmations_def)
  then show ?thesis using tip_steps.none by metis
next
  case (Some grin)
  let ?f = "\<lambda>tips db. if tips = [] then db else (case grin_get_height grin of
    Inl e \<Rightarrow> db | Inr h \<Rightarrow> for_each (count_grin_confirmations grin h) tips db)"
  have "tip_steps s (with_db s (?f rows (sys_db s)))" if "set rows \<subseteq> set (held s)" for rows s
    using that by (auto intro: for_each_steps tip_steps_step tip_step.count_grin split: sum.splits)
  then show ?thesis
    by (rule selected_steps [where q = "get_tips_pending_confirmation ''grin''" and f = ?f, rotated 2])
       (use Some in \<open>auto simp: check_grin_confirmations_def split: prod.splits sum.splits\<close>)
qed

lemma verify_tips_steps:
  "set rows \<subseteq> set (held s) \<Longrightarrow> tip_steps s (with_db s (snd (verify_tips ch rows (sys_db s))))"
proof (induction rows arbitrary: s)
  case (Cons tip rows)
  show ?case
  proof (cases "verify_funding_amount ch tip")
    case (Some v)
    let ?s = "with_db s (apply_verification v (row_id tip) (sys_db s))"
    have "tip_step s Worker ?s" using Cons.prems Some by (intro tip_step.verify) simp_all
    moreover have "tip_steps ?s (with_db ?s (snd (verify_tips ch rows (sys_db ?s))))"
      using Cons.prems by (intro Cons.IH) simp
    ultimately show ?thesis
      using Some tip_steps_trans tip_steps_step by fastforce
  qed simp
qed simp

lemma process_pending_verifications_steps:
  "\<exists>hs. tip_steps s (s\<lparr>sys_db := snd (process_pending_verifications ch (sys_db s)), held := hs\<rparr>)"
  by (rule selected_steps [where q = get_tips_awaiting_amount_verification
        and f = "\<lambda>rows db. snd (verify_tips ch rows db)"])
     (auto simp: process_pending_verifications_def intro: verify_tips_steps split: prod.splits sum.splits)

text \<open>Sequencing passes.\<close>

lemma pass_then:
  assumes "\<exists>hs. tip_steps s (s\<lparr>sys_db := d, held := hs\<rparr>)"
    and "\<And>s'. sys_db s' = d \<Longrightarrow> \<exists>hs. tip_steps s' (s'\<lparr>sys_db := d', held := hs\<rparr>)"
  shows "\<exists>hs. tip_steps s (s\<lparr>sys_db := d', held := hs\<rparr>)"
proof -
  from assms(1) obtain hs where 1: "tip_steps s (s\<lparr>sys_db := d, held := hs\<rparr>)" ..
  from assms(2) [of "s\<lparr>sys_db := d, held := hs\<rparr>"] obtain hs' where
    "tip_steps (s\<lparr>sys_db := d, held := hs\<rparr>) (s\<lparr>sys_db := d', held := hs'\<rparr>)" by auto
  with 1 show ?thesis using tip_steps_trans by blast
qed

lemma run_tip_confirmation_cycle_steps:
  "\<exists>hs. tip_steps s (s\<lparr>sys_db := snd (run_tip_confirmation_cycle ch (sys_db s)), held := hs\<rparr>)"
  unfolding run_tip_confirmation_cycle_def
proof -
  let ?d1 = "check_asset_confirmations ch ''xmr'' (sys_db s)"
  let ?d2 = "check_asset_confirmations ch ''wow'' ?d1"
  let ?d3 = "check_grin_confirmations ch ?d2"
  have "\<exists>hs. tip_steps s (s\<lparr>sys_db := ?d1, held := hs\<rparr>)" by (rule check_asset_confirmations_steps)
  then have "\<exists>hs. tip_steps s (s\<lparr>sys_db := ?d2, held := hs\<rparr>)"
    by (rule pass_then) (metis check_asset_confirmations_steps)
  then have "\<exists>hs. tip_steps s (s\<lparr>sys_db := ?d3, held := hs\<rparr>)"
    by (rule pass_then) (metis check_grin_confirmations_steps)
  then show "\<exists>hs. tip_steps s (s\<lparr>sys_db := snd (process_pending_verifications ch ?d3), held := hs\<rparr>)"
    by (rule pass_then) (metis process_pending_verifications_steps)
qed

section \<open>The money-out worker and garbage collection\<close>

lemma process_awaiting_tip_steps:
  assumes "tip \<in> set (held s)"
  shows "tip_steps s (with_db s (process_awaiting_tip ch tip (sys_db s)))"
proof -
  have touch: "tip_steps s (with_db s (snd (touch_tip_last_check (row_id tip) (sys_db s))))"
    by (rule tip_steps_step, rule tip_step.touch [OF assms])
  have dm: "tip_steps s' (with_db s' (send_sweep_confirmed_dm_if_needed row (sys_db s')))" for s' row
    by (auto simp: send_sweep_confirmed_dm_if_needed_def intro: tip_steps_step tip_step.stamp_dm)
  have settle: "tip_steps s (with_db s (case settle_winner tip w (sys_db s) of
        (Inr (Some row), db') \<Rightarrow> send_sweep_confirmed_dm_if_needed row db'
      | (Inr None, db') \<Rightarrow> db' | (Inl e, db') \<Rightarrow> db'))"
    if "probe_confirmed_spends ch tip = Inr (spends, h)" "pick_winner spends = Some w"
      "deep_enough (to_lowercase (asset tip)) h (cs_block_height w)" for spends h w
  proof -
    let ?s = "with_db s (snd (settle_winner tip w (sys_db s)))"
    have 1: "tip_steps s ?s" by (rule tip_steps_step, rule tip_step.settle [OF assms that])
    have "tip_steps s (with_db s (send_sweep_confirmed_dm_if_needed row (sys_db ?s)))" for row
      using tip_steps_trans [OF dm [of ?s row] 1] by simp
    with 1 show ?thesis by (auto split: prod.splits sum.splits option.splits)
  qed
  show ?thesis
    using touch settle by (auto simp: process_awaiting_tip_def split: sum.splits option.splits)
qed

lemma process_settled_tip_steps:
  assumes "tip \<in> set (held s)"
  shows "tip_steps s (with_db s (process_settled_tip ch tip (sys_db s)))"
proof -
  have touch: "tip_steps s (with_db s (snd (touch_tip_last_check (row_id tip) (sys_db s))))"
    by (rule tip_steps_step, rule tip_step.touch [OF assms])
  have dm: "tip_steps s' (with_db s' (send_reorg_dm_if_needed row (sys_db s')))" for s' row
    by (auto simp: send_reorg_dm_if_needed_def intro: tip_steps_step tip_step.stamp_reorg)
  have revert: "tip_steps s (with_db s (case revert_sweep_on_reorg (row_id tip) (sys_db s) of
        (Inr (Some row), db') \<Rightarrow> send_reorg_dm_if_needed row db'
      | (Inr None, db') \<Rightarrow> db' | (Inl e, db') \<Rightarrow> db'))"
    if "sweep_txid tip = Some t" "probe_confirmed_spends ch tip = Inr (spends, h)"
      "\<not> list_ex (\<lambda>x. cs_txid x = t) spends" for t spends h
  proof -
    let ?s = "with_db s (snd (revert_sweep_on_reorg (row_id tip) (sys_db s)))"
    have 1: "tip_steps s ?s" by (rule tip_steps_step, rule tip_step.revert [OF assms that])
    have "tip_steps s (with_db s (send_reorg_dm_if_needed row (sys_db ?s)))" for row
      using tip_steps_trans [OF dm [of ?s row] 1] by simp
    with 1 show ?thesis by (auto split: prod.splits sum.splits option.splits)
  qed
  show ?thesis
    using touch revert by (auto simp: process_settled_tip_def split: sum.splits option.splits)
qed

lemma run_confirm_cycle_steps:
  "\<exists>hs. tip_steps s (s\<lparr>sys_db := run_confirm_cycle locked ch (sys_db s), held := hs\<rparr>)"
proof -
  have inner: "\<exists>hs. tip_steps s (s\<lparr>sys_db := confirm_cycle_inner ch (sys_db s), held := hs\<rparr>)"
    by (rule selected_steps [where q = "get_tips_awaiting_sweep_confirmation BATCH_SIZE"
          and f = "for_each (process_awaiting_tip ch)"])
       (auto simp: confirm_cycle_inner_def intro: for_each_steps process_awaiting_tip_steps
          split: prod.splits sum.splits)
  moreover have "s\<lparr>sys_db := sys_db s, held := held s\<rparr> = s" by simp
  ultimately show ?thesis
    using tip_steps.none [of s] by (metis run_confirm_cycle_def)
qed

lemma run_reorg_cycle_steps:
  "\<exists>hs. tip_steps s (s\<lparr>sys_db := run_reorg_cycle locked ch (sys_db s), held := hs\<rparr>)"
proof -
  have inner: "\<exists>hs. tip_steps s (s\<lparr>sys_db := reorg_cycle_inner ch (sys_db s), held := hs\<rparr>)"
    by (rule selected_steps [where q = "get_settled_tips_for_reorg_check BATCH_SIZE"
          and f = "for_each (process_settled_tip ch)"])
       (auto simp: reorg_cycle_inner_def intro: for_each_steps process_settled_tip_steps
          split: prod.splits sum.splits)
  moreover have "s\<lparr>sys_db := sys_db s, held := held s\<rparr> = s" by simp
  ultimately show ?thesis
    using tip_steps.none [of s] by (metis run_reorg_cycle_def)
qed

lemma gc_cycles_steps:
  "tip_steps s (with_db s (run_tip_draft_gc_cycle (sys_db s)))"
  "tip_steps s (with_db s (run_tip_lifecycle_gc_cycle (sys_db s)))"
  by (auto simp: run_tip_draft_gc_cycle_def run_tip_lifecycle_gc_cycle_def log_stuck_claiming_def
      intro: tip_steps_step tip_step.gc_drafts tip_step.gc_stuck)

end
