(* ===== verification/Tip_Requests.thy ===== *)
theory Tip_Requests
  imports Tips_Runs
begin

text \<open>
  The outcome of each request on a concrete row: with distinct primary keys, a live database and
  a row the schema accepts, the statements behind the handlers are total functions of the row.
\<close>

section \<open>Writes that the schema accepts\<close>

lemma tip_row_ok_write:
  assumes "tip_row_ok db r"
    and "terms r' = terms r" "from_db (status r') \<noteq> None"
    and "varchar_ok 128 (funding_txid r')" "varchar_ok 128 (sweep_txid r')"
    and "user_ref_ok db (claimed_by_user_id r')"
  shows "tip_row_ok db r'"
proof -
  from assms(3) obtain st where "status r' = as_str st" by (auto simp: from_db_Some)
  then have "length (status r') \<le> 32" by (simp add: length_as_str)
  with assms terms_fields [OF assms(2)] show ?thesis
    by (simp add: tip_row_ok_def tip_columns_ok_def tip_checks_ok_def tip_refs_ok_def)
qed

lemma terms_tip_write [simp]: "terms (tip_write now u r) = terms (u r)"
  by (simp add: terms_def tip_write_def)

lemma terms_sets [simp]:
  "terms (set_claiming now u r) = terms r" "terms (set_clawed_back now r) = terms r"
  "terms (set_funding now txid r) = terms r" "terms (record_sweep now u txid r) = terms r"
  by (simp_all add: guard_simps terms_def Let_def)

lemma claim_write_ok:
  "tip_row_ok db r \<Longrightarrow> u \<in> set (user_ids db) \<Longrightarrow> tip_row_ok db (tip_write now (set_claiming now u) r)"
  by (rule tip_row_ok_write [of db r])
     (simp_all add: tip_write_def set_claiming_def tip_row_ok_def tip_columns_ok_def user_ref_ok_def
        terms_def)

lemma clawback_write_ok:
  "tip_row_ok db r \<Longrightarrow> tip_row_ok db (tip_write now (set_clawed_back now) r)"
  by (rule tip_row_ok_write [of db r])
     (simp_all add: tip_write_def set_clawed_back_def tip_row_ok_def tip_columns_ok_def tip_refs_ok_def
        terms_def)

lemma funding_write_ok:
  "tip_row_ok db r \<Longrightarrow> length txid \<le> 128 \<Longrightarrow> tip_row_ok db (tip_write now (set_funding now txid) r)"
  by (rule tip_row_ok_write [of db r])
     (auto simp: tip_write_def set_funding_def tip_row_ok_def tip_columns_ok_def tip_refs_ok_def
        tip_checks_ok_def varchar_ok_def terms_def Let_def coalesce_def split: option.splits)

lemma record_write_ok:
  "tip_row_ok db r \<Longrightarrow> length txid \<le> 128 \<Longrightarrow> u \<in> set (user_ids db) \<Longrightarrow>
     tip_row_ok db (tip_write now (record_sweep now u txid) r)"
  by (rule tip_row_ok_write [of db r])
     (auto simp: tip_write_def record_sweep_def tip_row_ok_def tip_columns_ok_def tip_refs_ok_def
        tip_checks_ok_def varchar_ok_def user_ref_ok_def terms_def coalesce_def split: option.splits)

section \<open>Outcomes\<close>

text \<open>The situation of the outcome lemmas: a live database with distinct keys and an accepted row.\<close>

definition row_at :: "database \<Rightarrow> uuid \<Rightarrow> social_tip_row \<Rightarrow> bool" where
  "row_at db i r \<longleftrightarrow>
     \<not> db_outage db \<and> distinct (map row_id (social_tips db)) \<and>
     lookup_key row_id i (social_tips db) = Some r \<and> tip_row_ok db r"

lemma row_at_id: "row_at db i r \<Longrightarrow> r \<in> set (social_tips db) \<and> row_id r = i"
  by (auto simp: row_at_def dest: lookup_key_Some)

lemma row_at_filter:
  assumes "row_at db i r"
  shows "fetch_optional (filter (\<lambda>x. row_id x = i \<and> p x) (social_tips db)) = (if p r then Some r else None)"
  using assms filter_key_guard [of row_id "social_tips db" i p] by (simp add: row_at_def)

lemma reachable_row_at:
  assumes "reachable s" "r \<in> set (social_tips (sys_db s))" "\<not> db_outage (sys_db s)" "tip_row_ok (sys_db s) r"
  shows "row_at (sys_db s) (row_id r) r"
  using assms reachable_unique by (simp add: row_at_def)

lemma mark_tip_claiming_outcome:
  assumes "row_at db i r" "u \<in> set (user_ids db)"
  shows "fst (mark_tip_claiming i u db) =
    Inr (if claimable u r then Some (tip_write (db_now db) (set_claiming (db_now db) u) r) else None)"
  using assms claim_write_ok [of db r u] update_tip_result [of db i r]
  by (simp add: row_at_def stmt_defs)

lemma clawback_outcome:
  assumes "row_at db i r"
  shows "fst (clawback_social_tip i u db) =
    Inr (if clawable u r then Some (tip_write (db_now db) (set_clawed_back (db_now db)) r) else None)"
  using assms clawback_write_ok [of db r] update_tip_result [of db i r]
  by (simp add: row_at_def stmt_defs)

lemma attach_outcome:
  assumes at: "row_at db i r" and len: "length txid \<le> 128"
  shows "fst (attach_funding_to_tip lib i u txid db) =
    (if sender_user_id r \<noteq> u
     then Inl (NotFound (''Tip '' @ uuid_to_string lib i @ '' not found or not yours''))
     else if fundable u txid r then Inr (tip_write (db_now db) (set_funding (db_now db) txid) r)
     else case funding_txid r of
       Some t \<Rightarrow> Inl (ValidationError
         (''Tip '' @ uuid_to_string lib i @ '' already has a different funding_txid attached''))
     | None \<Rightarrow> Inl (ValidationError
         (''Tip '' @ uuid_to_string lib i @ '' is in status '' @ status r @ '' '' @ em_dash @
          '' funding can only be attached to drafts'')))"
proof -
  from at have live: "\<not> db_outage db" by (simp add: row_at_def)
  have upd: "update_tip i (fundable u txid) (set_funding (db_now db) txid) db =
    (if fundable u txid r
     then (Inr (Some (tip_write (db_now db) (set_funding (db_now db) txid) r)),
           db\<lparr>social_tips := sql_update (\<lambda>r. row_id r = i \<and> fundable u txid r)
              (tip_write (db_now db) (set_funding (db_now db) txid)) (social_tips db)\<rparr>)
     else (Inr None, db))"
    using at funding_write_ok [of db r txid] len update_tip_result [of db i r] by (simp add: row_at_def)
  have sel: "fetch_optional (filter (\<lambda>x. row_id x = i \<and> sender_user_id x = u) (social_tips db)) =
      (if sender_user_id r = u then Some r else None)"
    by (rule row_at_filter [OF at])
  show ?thesis
    using live
    by (auto simp: attach_funding_to_tip_def stmt_bind_def upd query_def sel fundable_def
        split: option.splits)
qed

lemma confirm_tip_sweep_outcome:
  assumes at: "row_at db i r" and u: "u \<in> set (user_ids db)" "length txid \<le> 128"
  shows "confirm_tip_sweep i u txid db =
    (if sweep_recordable txid r
     then (Inr (Some (tip_write (db_now db) (record_sweep (db_now db) u txid) r)),
           db\<lparr>social_tips := sql_update (\<lambda>r. row_id r = i \<and> sweep_recordable txid r)
              (tip_write (db_now db) (record_sweep (db_now db) u txid)) (social_tips db)\<rparr>)
     else (Inr (if status r \<in> {as_str Claiming, as_str Claimed} then Some r else None), db))"
proof -
  from at have live: "\<not> db_outage db" by (simp add: row_at_def)
  have upd: "update_tip i (sweep_recordable txid) (record_sweep (db_now db) u txid) db =
    (if sweep_recordable txid r
     then (Inr (Some (tip_write (db_now db) (record_sweep (db_now db) u txid) r)),
           db\<lparr>social_tips := sql_update (\<lambda>r. row_id r = i \<and> sweep_recordable txid r)
              (tip_write (db_now db) (record_sweep (db_now db) u txid)) (social_tips db)\<rparr>)
     else (Inr None, db))"
    using at u record_write_ok [of db r txid u] update_tip_result [of db i r] by (simp add: row_at_def)
  have sel: "fetch_optional (filter (\<lambda>x. row_id x = i \<and> status x \<in> {as_str Claiming, as_str Claimed})
      (social_tips db)) = (if status r \<in> {as_str Claiming, as_str Claimed} then Some r else None)"
    by (rule row_at_filter [OF at])
  show ?thesis
    using live sel by (auto simp: confirm_tip_sweep_def stmt_bind_def upd query_def)
qed

lemma authed_user:
  "fst (extract_user_id_from_token lib header db) = Inr u \<Longrightarrow> features_tips cfg \<Longrightarrow>
     authed lib cfg header f db = f u db"
  using snd_extract_user_id [of lib header db]
  by (cases "extract_user_id_from_token lib header db")
     (simp add: authed_def stmt_bind_def ensure_tips_enabled_def)

lemma authed_Inr:
  assumes "authed lib cfg header f db = (Inr x, db')"
  shows "\<exists>u. fst (extract_user_id_from_token lib header db) = Inr u \<and> features_tips cfg \<and>
    f u db = (Inr x, db')"
  using assms by (cases rule: authed_cases [of lib cfg header f db]) auto

section \<open>Outages\<close>

lemma outage_update_tip:
  "db_outage db \<Longrightarrow> update_tip k g u db = (Inl (sql_error db ConnectionFault), db)"
  "db_outage db \<Longrightarrow> update_tips p u db = (Inl (sql_error db ConnectionFault), db)"
  "db_outage db \<Longrightarrow> query f db = (Inl (sql_error db ConnectionFault), db)"
  by (simp_all add: update_tip_def update_tips_def query_def)

lemma outage_statements:
  assumes "db_outage db"
  shows "cancel_draft_social_tip i u db = (Inl (sql_error db ConnectionFault), db)"
    "attach_funding_to_tip lib i u txid db = (Inl (sql_error db ConnectionFault), db)"
    "mark_tip_claiming i u db = (Inl (sql_error db ConnectionFault), db)"
    "confirm_tip_sweep i u txid db = (Inl (sql_error db ConnectionFault), db)"
    "clawback_social_tip i u db = (Inl (sql_error db ConnectionFault), db)"
  using assms
  by (simp_all add: outage_update_tip cancel_draft_social_tip_def attach_funding_to_tip_def
      mark_tip_claiming_def confirm_tip_sweep_def clawback_social_tip_def stmt_bind_def)

lemma snd_stmt_bind_same:
  assumes "snd (m db) = db" "\<And>x. snd (f x db) = db"
  shows "snd (stmt_bind m f db) = db"
  using assms by (cases "m db") (auto simp: snd_stmt_bind split: sum.splits)

lemma outage_create:
  assumes "db_outage db"
  shows "snd (stmt_bind
       (if q_is_public req then stmt_return (Inr None)
        else stmt_bind (resolve_tip_recipient cfg req) (\<lambda>r. stmt_return (Inr (Some r)))) (\<lambda>recipient.
     stmt_bind (stmt_return (new_tip_of_request lib cfg u recipient req)) (\<lambda>new.
     stmt_bind
       (if n_funding_txid new = None then create_draft_social_tip i new
        else create_social_tip i new) (\<lambda>tip.
       stmt_return (Inr (tip_response lib cfg tip))))) db) = db"
proof -
  have "snd (insert_social_tip i new st db) = db" for new st
    using assms by (simp add: insert_social_tip_def)
  then have "snd ((if n_funding_txid new = None then create_draft_social_tip i new
      else create_social_tip i new) db) = db" for new
    by (simp add: create_draft_social_tip_def create_social_tip_def)
  then show ?thesis
    by (intro snd_stmt_bind_same) (auto intro: snd_stmt_bind_same)
qed

lemma authed_outage:
  "(\<And>u. snd (f u db) = db) \<Longrightarrow> snd (authed lib cfg header f db) = db"
  by (cases rule: authed_cases [of lib cfg header f db]) simp_all

lemma authed_refused:
  "(\<And>u. \<exists>e. f u db = (Inl e, db)) \<Longrightarrow> \<exists>e. authed lib cfg header f db = (Inl e, db)"
  by (cases rule: authed_cases [of lib cfg header f db]) simp_all

lemma outage_passes:
  assumes "db_outage db"
  shows "run_tip_confirmation_cycle ch db = (False, db)" "run_confirm_cycle locked ch db = db"
    "run_reorg_cycle locked ch db = db" "run_tip_draft_gc_cycle db = db" "run_tip_lifecycle_gc_cycle db = db"
proof -
  have q: "get_tips_pending_confirmation a db = (Inl (sql_error db ConnectionFault), db)"
    "get_tips_awaiting_amount_verification db = (Inl (sql_error db ConnectionFault), db)" for a
    using assms by (simp_all add: get_tips_pending_confirmation_def
        get_tips_awaiting_amount_verification_def outage_update_tip)
  show "run_tip_confirmation_cycle ch db = (False, db)"
    by (simp add: run_tip_confirmation_cycle_def check_asset_confirmations_def check_grin_confirmations_def
        process_pending_verifications_def q split: option.splits)
  show "run_confirm_cycle locked ch db = db" "run_reorg_cycle locked ch db = db"
    using assms by (simp_all add: run_confirm_cycle_def run_reorg_cycle_def)
  show "run_tip_draft_gc_cycle db = db" "run_tip_lifecycle_gc_cycle db = db"
    using assms by (simp_all add: run_tip_draft_gc_cycle_def run_tip_lifecycle_gc_cycle_def stmt_defs
        log_stuck_claiming_def outage_update_tip)
qed

end
