(* ===== verification/Tip_Scenario.thy ===== *)
theory Tip_Scenario
  imports Tip_Requests
begin

text \<open>
  One concrete run of the tips subsystem, on which the general theorems are instantiated:
  Alice funds a public tip of 5 piconero, the workers count its confirmations and verify
  the amount, Bob claims it, records his sweep, and the reconciler settles it. The workers
  act on the row as the first of them selected it.
\<close>

section \<open>The world\<close>

definition alice :: uuid where "alice = 1"
definition bob :: uuid where "bob = 2"

definition ex_parse_uuid :: "string \<Rightarrow> uuid option" where
  "ex_parse_uuid s = (if s = ''alice'' then Some alice else if s = ''bob'' then Some bob else None)"

definition ex_lib :: token_lib where
  "ex_lib =
     \<lparr>hex_encode = hex_encode_ref, hex_decode = hex_decode_ref,
      uuid_to_string = (\<lambda>u. if u = alice then ''alice'' else if u = bob then ''bob'' else ''tip''),
      rfc3339 = (\<lambda>t. ''2026''),
      encode_access = (\<lambda>c. Some (ac_sub c)),
      encode_refresh = (\<lambda>c. Some (rc_sub c)),
      decode_access = (\<lambda>v t. if v_audience v = [ACCESS_AUD]
         then Some \<lparr>ac_sub = t, ac_aud = ACCESS_AUD, ac_iat = 0, ac_exp = 0,
                    ac_platform = ''web'', ac_sid = None\<rparr> else None),
      decode_refresh = (\<lambda>v t. None),
      parse_uuid = ex_parse_uuid\<rparr>"

definition ex_cfg :: app_config where
  "ex_cfg =
     \<lparr>features_tips = True, features_targeted_tips = True,
      features_chains = \<lparr>cf_btc = True, cf_ltc = True, cf_xmr = True, cf_wow = True, cf_grin = True\<rparr>,
      tip_share_base = Some ''https://t/''\<rparr>"

definition ex_user :: "uuid \<Rightarrow> string \<Rightarrow> user_row" where
  "ex_user i name =
     \<lparr>u_id = i, u_username = Some name, u_pubkey_hash = None, u_nostr_pubkey = None,
      u_wallet_birthday = None, u_seed_fingerprint = None, u_xmr_start_height = None,
      u_wow_start_height = None, u_created_at = 0, u_updated_at = 0, u_last_seen_at = None,
      u_premium_until = None\<rparr>"

definition ex_db0 :: database where
  "ex_db0 =
     (empty_database 1000000000000 (\<lambda>f. ''sql''))
       \<lparr>users := [ex_user alice ''alice'', ex_user bob ''bob'']\<rparr>"

definition ex_req :: create_social_tip_request where
  "ex_req =
     \<lparr>q_platform = None, q_username = None, q_asset = ''XMR'', q_amount = 5,
      q_encrypted_key = Some ''00ff'', q_is_public = True,
      q_claim_key_hash = Some (replicate 64 (CHR ''a'')),
      q_tip_address = Some ''4addr'', q_funding_txid = Some ''fund1'',
      q_tip_view_key = Some ''view'', q_grin_commitment = None, q_sender_anonymous = False\<rparr>"

definition ex_new :: new_social_tip where
  "ex_new =
     \<lparr>n_sender_user_id = alice, n_asset = ''xmr'', n_amount = 5,
      n_claim_key_hash = Some (replicate 64 (CHR ''a'')), n_encrypted_key = Some [0, 255],
      n_tip_address = Some ''4addr'', n_funding_txid = Some ''fund1'',
      n_tip_view_key = Some ''view'', n_confirmations_required = 10,
      n_grin_commitment = None, n_recipient_user_id = None\<rparr>"

text \<open>The light-wallet server: the funding receipt in block 100, later the sweep in block 150.\<close>

definition ex_receipt :: address_tx where
  "ex_receipt =
     \<lparr>tx_hash = ''fund1'', tx_height = 100, tx_timestamp = [], tx_total_received = 5,
      tx_total_sent = 0, tx_mempool = False, tx_unlock_time = 0, tx_payment_id = None\<rparr>"

definition ex_sweep :: address_tx where
  "ex_sweep =
     \<lparr>tx_hash = ''sweep1'', tx_height = 150, tx_timestamp = [], tx_total_received = 0,
      tx_total_sent = 5, tx_mempool = False, tx_unlock_time = 0, tx_payment_id = None\<rparr>"

definition ex_lws :: "address_tx list \<Rightarrow> u64 \<Rightarrow> lws_client" where
  "ex_lws txs height =
     \<lparr>lws_network = ''mainnet'', daemon_configured = True,
      post_get_address_txs = (\<lambda>a k. Inr \<lparr>transactions = txs, resp_total_received = 5,
         scanned_height = height, blockchain_height = height\<rparr>),
      post_get_info = Inr \<lparr>dinfo_height = Some height, dinfo_error = False\<rparr>,
      post_get_transactions = (\<lambda>t. Inr \<lparr>dr_txs = Some [\<lparr>di_block_height = Some 100, di_in_pool = None\<rparr>],
         dr_status = ''OK''\<rparr>)\<rparr>"

definition ex_chain :: "address_tx list \<Rightarrow> u64 \<Rightarrow> chain_clients" where
  "ex_chain txs height =
     \<lparr>ch_btc = None, ch_ltc = None, ch_xmr = Some (ex_lws txs height), ch_wow = None, ch_grin = None\<rparr>"

section \<open>The run\<close>

definition ex_tip :: uuid where "ex_tip = 7"

definition ex_row1 :: social_tip_row where
  "ex_row1 = new_tip_row 1000000000000 ex_tip ex_new PendingConfirmation"

definition ex_row2 :: social_tip_row where
  "ex_row2 = tip_write 1000000000000 (set_confirmations 1000000000000 11) ex_row1"

definition ex_row3 :: social_tip_row where
  "ex_row3 = tip_write 1000000000000 (set_amount_verified Pending 1000000000000 5) ex_row2"

definition ex_row4 :: social_tip_row where
  "ex_row4 = tip_write 1000000000000 (set_claiming 1000000000000 bob) ex_row3"

definition ex_row5 :: social_tip_row where
  "ex_row5 = tip_write 1000000000000 (record_sweep 1000000000000 bob ''sweep1'') ex_row4"

definition ex_row6 :: social_tip_row where
  "ex_row6 = tip_write 1000000000000
     (set_settled 1000000000000 ''sweep1'' 150 None (\<lambda>old. None)) ex_row5"

text \<open>Two other endings: Alice takes the pending tip back; a receipt of 3 falls short.\<close>

definition ex_clawed :: social_tip_row where
  "ex_clawed = tip_write 1000000000000 (set_clawed_back 1000000000000) ex_row3"

definition ex_short :: social_tip_row where
  "ex_short = tip_write 1000000000000 (set_amount_verified FundingMismatch 1000000000000 3) ex_row2"

definition ex_sys :: "social_tip_row list \<Rightarrow> social_tip_row list \<Rightarrow> uuid list \<Rightarrow> tip_system" where
  "ex_sys rows hs ds = \<lparr>sys_db = ex_db0\<lparr>social_tips := rows\<rparr>, held = hs, drawn = ds\<rparr>"

lemma ex_new_of_request: "new_tip_of_request ex_lib ex_cfg alice None ex_req = Inr ex_new"
  by code_simp

lemma ex_rows_ok:
  "tip_row_ok ex_db0 ex_row1" "tip_row_ok ex_db0 ex_row2" "tip_row_ok ex_db0 ex_row3"
  "tip_row_ok ex_db0 ex_row4" "tip_row_ok ex_db0 ex_row5" "tip_row_ok ex_db0 ex_row6"
  "tip_row_ok ex_db0 ex_clawed" "tip_row_ok ex_db0 ex_short"
  by code_simp+

lemma tip_row_ok_tips [simp]: "tip_row_ok (db\<lparr>social_tips := rows\<rparr>) = tip_row_ok db"
  by (rule ext) (simp add: tip_row_ok_def tip_refs_ok_def user_ref_ok_def user_ids_def split: option.splits)

lemma ex_db0_fields [simp]:
  "db_now ex_db0 = 1000000000000" "db_outage ex_db0 = False" "social_tips ex_db0 = []"
  by (simp_all add: ex_db0_def)

text \<open>A statement on the one row of the scenario.\<close>

lemma ex_update:
  assumes "row_id r = k" "g r" "tip_row_ok ex_db0 (tip_write 1000000000000 u r)"
  shows "update_tip k g u (ex_db0\<lparr>social_tips := [r]\<rparr>) =
    (Inr (Some (tip_write 1000000000000 u r)),
     ex_db0\<lparr>social_tips := [tip_write 1000000000000 u r]\<rparr>)"
  using assms by (simp add: update_tip_def update_tips_def Let_def sql_returning_def sql_update_def)

lemma ex_reach1: "reachable (ex_sys [ex_row1] [] [ex_tip])"
proof -
  have "reachable (ex_sys [] [] [])"
    by (rule reachable.start) (simp add: initial_def ex_sys_def)
  moreover have "tip_step (ex_sys [] [] []) (User alice) (ex_sys [ex_row1] [] [ex_tip])"
  proof -
    have eq: "ex_sys [ex_row1] [] [ex_tip] = (ex_sys [] [] [])\<lparr>sys_db := snd (insert_social_tip ex_tip ex_new
        PendingConfirmation (sys_db (ex_sys [] [] []))), drawn := ex_tip # drawn (ex_sys [] [] [])\<rparr>"
      using ex_rows_ok(1)
      by (simp add: ex_sys_def insert_social_tip_def Let_def flip: ex_row1_def)
    show ?thesis
      unfolding eq
      by (rule tip_step.create [OF ex_new_of_request])
         (simp_all add: ex_sys_def ex_req_def ex_new_def in_i64_def i64_min_def i64_max_def)
  qed
  ultimately show ?thesis by (rule reachable.step)
qed

abbreviation ex_at :: "social_tip_row \<Rightarrow> tip_system" where
  "ex_at r \<equiv> ex_sys [r] [ex_row1] [ex_tip]"

lemma ex_sys_fields [simp]:
  "sys_db (ex_sys rows hs ds) = ex_db0\<lparr>social_tips := rows\<rparr>" "held (ex_sys rows hs ds) = hs"
  "drawn (ex_sys rows hs ds) = ds"
  by (simp_all add: ex_sys_def)

lemma ex_with_db: "with_db (ex_sys rows hs ds) (ex_db0\<lparr>social_tips := rows'\<rparr>) = ex_sys rows' hs ds"
  by (simp add: ex_sys_def)

lemma ex_ids [simp]:
  "row_id ex_row1 = ex_tip" "row_id ex_row2 = ex_tip" "row_id ex_row3 = ex_tip"
  "row_id ex_row4 = ex_tip" "row_id ex_row5 = ex_tip" "row_id ex_row6 = ex_tip"
  "row_id ex_clawed = ex_tip" "row_id ex_short = ex_tip"
  by code_simp+

lemma ex_hold: "reachable (ex_at ex_row1)"
proof -
  have "fst (get_tips_pending_confirmation ''xmr'' (sys_db (ex_sys [ex_row1] [] [ex_tip]))) = Inr [ex_row1]"
    by code_simp
  from reachable.step [OF ex_reach1 tip_step.select [OF selects(1) this]]
  show ?thesis by (simp add: ex_sys_def)
qed

definition ex_txs :: "address_tx list \<Rightarrow> u64 \<Rightarrow> address_txs_response" where
  "ex_txs txs height = \<lparr>transactions = txs, resp_total_received = 5, scanned_height = height,
     blockchain_height = height\<rparr>"

lemma ex_get_address_txs:
  "length txs \<le> 2 \<Longrightarrow> get_address_txs (ex_lws txs height) a k = Inr (ex_txs txs height)"
  by (simp add: get_address_txs_def ex_lws_def MAX_PARSED_VEC_def ex_txs_def)

lemma ex_row1_fields:
  "to_lowercase (asset ex_row1) = ''xmr''" "tip_address ex_row1 = Some ''4addr''"
  "tip_view_key ex_row1 = Some ''view''" "amount ex_row1 = 5"
  by code_simp+

lemma ex_receipt_verified:
  "verify_funding_amount (ex_chain [ex_receipt] 110) ex_row1 = Some (Verified 5)"
proof -
  have "classify_funding_amount (ex_txs [ex_receipt] 110) 5 = Some (Verified 5)" by code_simp
  then show ?thesis
    by (simp add: verify_funding_amount_def verify_lws_def ex_row1_fields ex_chain_def ex_get_address_txs)
qed

lemma ex_step2: "tip_step (ex_at ex_row1) Worker (ex_at ex_row2)"
proof -
  have c: "get_transaction_confirmations (ex_lws [ex_receipt] 110) ''fund1'' = Inr (Some 11)"
    "funding_txid ex_row1 = Some ''fund1''" "u64_min_i32 11 = 11"
    by code_simp+
  have "count_confirmations (ex_lws [ex_receipt] 110) ex_row1 (sys_db (ex_at ex_row1)) =
      ex_db0\<lparr>social_tips := [ex_row2]\<rparr>"
    using ex_rows_ok(2)
    by (simp add: count_confirmations_def c update_tip_confirmations_def ex_update ex_row2_def)
  then show ?thesis
    using tip_step.count [of ex_row1 "ex_at ex_row1" "ex_lws [ex_receipt] 110"] by (simp add: ex_with_db)
qed

lemma ex_step3: "tip_step (ex_at ex_row2) Worker (ex_at ex_row3)"
proof -
  have g: "amount_unverified ex_row2" "observed_i64 5 = 5" by code_simp+
  have "apply_verification (Verified 5) ex_tip (sys_db (ex_at ex_row2)) = ex_db0\<lparr>social_tips := [ex_row3]\<rparr>"
    using ex_rows_ok(3) by (simp add: stmt_defs g ex_update ex_row3_def)
  then show ?thesis
    using tip_step.verify [OF _ ex_receipt_verified, of "ex_at ex_row2"] by (simp add: ex_with_db)
qed

lemma ex_step4: "tip_step (ex_at ex_row3) (User bob) (ex_at ex_row4)"
proof -
  have g: "claimable bob ex_row3" by code_simp
  have "snd (mark_tip_claiming ex_tip bob (sys_db (ex_at ex_row3))) = ex_db0\<lparr>social_tips := [ex_row4]\<rparr>"
    using ex_rows_ok(4) by (simp add: stmt_defs g ex_update ex_row4_def)
  then show ?thesis
    using tip_step.claim [of "ex_at ex_row3" bob ex_tip] by (simp add: ex_with_db)
qed

lemma ex_step5: "tip_step (ex_at ex_row4) (User bob) (ex_at ex_row5)"
proof -
  have g: "sweep_recordable ''sweep1'' ex_row4" by code_simp
  have "snd (confirm_tip_sweep ex_tip bob ''sweep1'' (sys_db (ex_at ex_row4))) =
      ex_db0\<lparr>social_tips := [ex_row5]\<rparr>"
    using ex_rows_ok(5) by (simp add: stmt_defs g ex_update ex_row5_def)
  then show ?thesis
    using tip_step.note_sweep [of "ex_at ex_row4" bob ex_tip "''sweep1''"] by (simp add: ex_with_db)
qed

definition ex_winner :: confirmed_spend where
  "ex_winner = \<lparr>cs_txid = ''sweep1'', cs_block_height = 150, cs_block_hash = None\<rparr>"

lemma ex_probe:
  "probe_confirmed_spends (ex_chain [ex_receipt, ex_sweep] 160) ex_row1 = Inr ([ex_winner], 160)"
  "deep_enough (to_lowercase (asset ex_row1)) 160 (cs_block_height ex_winner)"
proof -
  have "map (\<lambda>t. \<lparr>cs_txid = tx_hash t, cs_block_height = u64_as_i64 (tx_height t), cs_block_hash = None\<rparr>)
      (filter lws_spend (transactions (ex_txs [ex_receipt, ex_sweep] 160))) = [ex_winner]"
    "blockchain_height (ex_txs [ex_receipt, ex_sweep] 160) = 160" "u64_as_i64 160 = 160"
    by code_simp+
  then show "probe_confirmed_spends (ex_chain [ex_receipt, ex_sweep] 160) ex_row1 = Inr ([ex_winner], 160)"
    by (simp add: probe_confirmed_spends_def probe_lws_spends_def ex_row1_fields ex_chain_def
        ex_get_address_txs)
  show "deep_enough (to_lowercase (asset ex_row1)) 160 (cs_block_height ex_winner)" by code_simp
qed

lemma ex_step6: "tip_step (ex_at ex_row5) Worker (ex_at ex_row6)"
proof -
  have g: "unsettled ex_row5" "sweep_txid ex_row1 = None" "cs_txid ex_winner = ''sweep1''"
    "i64_as_i32 (cs_block_height ex_winner) = 150" "cs_block_hash ex_winner = None"
    by code_simp+
  have "snd (settle_winner ex_row1 ex_winner (sys_db (ex_at ex_row5))) = ex_db0\<lparr>social_tips := [ex_row6]\<rparr>"
    using ex_rows_ok(6) by (simp add: settle_winner_def stmt_defs g ex_update ex_row6_def)
  then show ?thesis
    using tip_step.settle [OF _ ex_probe(1) _ ex_probe(2), of "ex_at ex_row5"] by (simp add: ex_with_db)
qed

lemma ex_step_clawed: "tip_step (ex_at ex_row3) (User alice) (ex_at ex_clawed)"
proof -
  have g: "clawable alice ex_row3" by code_simp
  have "snd (clawback_social_tip ex_tip alice (sys_db (ex_at ex_row3))) =
      ex_db0\<lparr>social_tips := [ex_clawed]\<rparr>"
    using ex_rows_ok(7) by (simp add: stmt_defs g ex_update ex_clawed_def)
  then show ?thesis
    using tip_step.clawback [of "ex_at ex_row3" alice ex_tip] by (simp add: ex_with_db)
qed

definition ex_receipt3 :: address_tx where
  "ex_receipt3 = ex_receipt\<lparr>tx_total_received := 3\<rparr>"

lemma ex_receipt_short:
  "verify_funding_amount (ex_chain [ex_receipt3] 110) ex_row1 = Some (Short 3)"
proof -
  have "classify_funding_amount (ex_txs [ex_receipt3] 110) 5 = Some (Short 3)" by code_simp
  then show ?thesis
    by (simp add: verify_funding_amount_def verify_lws_def ex_row1_fields ex_chain_def ex_get_address_txs)
qed

lemma ex_step_short: "tip_step (ex_at ex_row2) Worker (ex_at ex_short)"
proof -
  have g: "amount_unverified ex_row2" "observed_i64 3 = 3" by code_simp+
  have "apply_verification (Short 3) ex_tip (sys_db (ex_at ex_row2)) = ex_db0\<lparr>social_tips := [ex_short]\<rparr>"
    using ex_rows_ok(8) by (simp add: stmt_defs g ex_update ex_short_def)
  then show ?thesis
    using tip_step.verify [OF _ ex_receipt_short, of "ex_at ex_row2"] by (simp add: ex_with_db)
qed

lemma ex_status:
  "abs_status ex_row1 = PendingConfirmation" "abs_status ex_row2 = PendingConfirmation"
  "abs_status ex_row3 = Pending" "abs_status ex_row4 = Claiming" "abs_status ex_row5 = Claiming"
  "abs_status ex_row6 = Claimed" "abs_status ex_clawed = ClawedBack" "abs_status ex_short = FundingMismatch"
  by code_simp+

lemma ex_reachable:
  "reachable (ex_at ex_row1)" "reachable (ex_at ex_row2)" "reachable (ex_at ex_row3)"
  "reachable (ex_at ex_row4)" "reachable (ex_at ex_row5)" "reachable (ex_at ex_row6)"
  "reachable (ex_at ex_clawed)" "reachable (ex_at ex_short)"
  by (meson ex_hold reachable.step ex_step2 ex_step3 ex_step4 ex_step5 ex_step6 ex_step_clawed
      ex_step_short)+

section \<open>Worker passes on the scenario\<close>

text \<open>The reconciler on the claiming tip: it settles and stamps the notification. Later the sweep
  has left the chain: the reorg check reverts and stamps.\<close>

definition ex_row6' :: social_tip_row where
  "ex_row6' = tip_write 1000000000000 (set_dm_sent 1000000000000) ex_row6"

lemma ex_rows_ok': "tip_row_ok ex_db0 ex_row6'"
  by code_simp

lemma ex_row6'_id: "row_id ex_row6' = ex_tip"
  by code_simp

lemma ex_process_awaiting:
  "process_awaiting_tip (ex_chain [ex_receipt, ex_sweep] 160) ex_row1 (sys_db (ex_at ex_row5)) =
     ex_db0\<lparr>social_tips := [ex_row6']\<rparr>"
proof -
  have g: "unsettled ex_row5" "sweep_txid ex_row1 = None" "cs_txid ex_winner = ''sweep1''"
    "i64_as_i32 (cs_block_height ex_winner) = 150" "cs_block_hash ex_winner = None"
    "sweep_confirmed_dm_sent_at ex_row6 = None"
    by code_simp+
  have "settle_winner ex_row1 ex_winner (sys_db (ex_at ex_row5)) =
      (Inr (Some ex_row6), ex_db0\<lparr>social_tips := [ex_row6]\<rparr>)"
    using ex_rows_ok(6) by (simp add: settle_winner_def stmt_defs g ex_update ex_row6_def)
  moreover have "snd (stamp_sweep_confirmed_dm_sent ex_tip (ex_db0\<lparr>social_tips := [ex_row6]\<rparr>)) =
      ex_db0\<lparr>social_tips := [ex_row6']\<rparr>"
    using ex_rows_ok' by (simp add: stmt_defs g ex_update ex_row6'_def)
  ultimately show ?thesis
    using ex_probe(2)
    by (simp add: process_awaiting_tip_def ex_probe(1) send_sweep_confirmed_dm_if_needed_def g)
qed

lemma ex_status_strings:
  "status ex_row3 = as_str Pending" "status ex_row4 = as_str Claiming" "status ex_row5 = as_str Claiming"
  "status ex_row6 = as_str Claimed" "status ex_row6' = as_str Claimed"
  "status ex_clawed = as_str ClawedBack" "status ex_short = as_str FundingMismatch"
  by code_simp+

definition ex_down :: chain_clients where
  "ex_down = \<lparr>ch_btc = None, ch_ltc = None, ch_xmr = None, ch_wow = None, ch_grin = None\<rparr>"

lemma ex_down_probe:
  "probe_confirmed_spends ex_down ex_row5 = Inl (NodeError ''xmr LWS client disabled'')"
proof -
  have "to_lowercase (asset ex_row5) = ''xmr''" by code_simp
  then show ?thesis by (simp add: probe_confirmed_spends_def probe_lws_spends_def ex_down_def)
qed

definition ex_row7 :: social_tip_row where
  "ex_row7 = tip_write 1000000000000 (set_reverted 1000000000000) ex_row6"

definition ex_row7' :: social_tip_row where
  "ex_row7' = tip_write 1000000000000 (set_reorg_notified 1000000000000) ex_row7"

lemma ex_row7_facts:
  "tip_row_ok ex_db0 ex_row7" "tip_row_ok ex_db0 ex_row7'" "row_id ex_row7 = ex_tip"
  "row_id ex_row7' = ex_tip" "status ex_row7' = as_str Claiming" "settled ex_row6"
  "reorg_notified_at ex_row7 = None" "sweep_txid ex_row6 = Some ''sweep1''"
  by code_simp+

lemma ex_probe_gone: "probe_confirmed_spends (ex_chain [ex_receipt] 160) ex_row6 = Inr ([], 160)"
proof -
  have "filter lws_spend (transactions (ex_txs [ex_receipt] 160)) = []"
    "blockchain_height (ex_txs [ex_receipt] 160) = 160" "u64_as_i64 160 = 160"
    "to_lowercase (asset ex_row6) = ''xmr''" "tip_address ex_row6 = Some ''4addr''"
    "tip_view_key ex_row6 = Some ''view''"
    by code_simp+
  then show ?thesis
    by (simp add: probe_confirmed_spends_def probe_lws_spends_def ex_chain_def ex_get_address_txs)
qed

lemma ex_process_settled:
  "process_settled_tip (ex_chain [ex_receipt] 160) ex_row6 (sys_db (ex_at ex_row6)) =
     ex_db0\<lparr>social_tips := [ex_row7']\<rparr>"
proof -
  have "revert_sweep_on_reorg ex_tip (sys_db (ex_at ex_row6)) =
      (Inr (Some ex_row7), ex_db0\<lparr>social_tips := [ex_row7]\<rparr>)"
    using ex_row7_facts(1) by (simp add: stmt_defs ex_row7_facts ex_update ex_row7_def)
  moreover have "snd (stamp_reorg_notified ex_tip (ex_db0\<lparr>social_tips := [ex_row7]\<rparr>)) =
      ex_db0\<lparr>social_tips := [ex_row7']\<rparr>"
    using ex_row7_facts by (simp add: stmt_defs ex_update ex_row7'_def)
  ultimately show ?thesis
    by (simp add: process_settled_tip_def ex_probe_gone send_reorg_dm_if_needed_def ex_row7_facts)
qed

definition ex_created :: create_social_tip_response where
  "ex_created = \<lparr>p_tip_id = ''tip'', p_status = ''pending_confirmation'',
     p_share_url = Some ''https://t/tip''\<rparr>"

text \<open>Eight days later the tip is still unconfirmed.\<close>

definition ex_late :: tip_system where
  "ex_late = with_db (ex_at ex_row1)
     (ex_db0\<lparr>db_now := 1000000000000 + seconds (8 * 24 * 3600), social_tips := [ex_row1]\<rparr>)"

definition ex_gone :: social_tip_row where
  "ex_gone = ex_row1\<lparr>status := as_str Cancelled, updated_at := 1000000000000 + seconds (8 * 24 * 3600)\<rparr>"

lemma ex_late_reachable: "reachable ex_late"
  unfolding ex_late_def
  by (rule reachable.step [OF ex_reachable(1)], rule tip_step.other) (simp_all add: seconds_def)

section \<open>A targeted tip\<close>

text \<open>The same run for a tip addressed to Bob, up to its claim.\<close>

definition ex_treq :: create_social_tip_request where
  "ex_treq = ex_req\<lparr>q_is_public := False, q_username := Some '' @Bob'', q_claim_key_hash := None\<rparr>"

definition ex_tnew :: new_social_tip where
  "ex_tnew = ex_new\<lparr>n_claim_key_hash := None, n_recipient_user_id := Some bob\<rparr>"

definition ex_trow1 :: social_tip_row where
  "ex_trow1 = new_tip_row 1000000000000 ex_tip ex_tnew PendingConfirmation"

definition ex_trow2 :: social_tip_row where
  "ex_trow2 = tip_write 1000000000000 (set_confirmations 1000000000000 11) ex_trow1"

definition ex_trow3 :: social_tip_row where
  "ex_trow3 = tip_write 1000000000000 (set_amount_verified Pending 1000000000000 5) ex_trow2"

definition ex_trow4 :: social_tip_row where
  "ex_trow4 = tip_write 1000000000000 (set_claiming 1000000000000 bob) ex_trow3"

abbreviation ex_tat :: "social_tip_row \<Rightarrow> tip_system" where
  "ex_tat r \<equiv> ex_sys [r] [ex_trow1] [ex_tip]"

lemma ex_trow_facts:
  "tip_row_ok ex_db0 ex_trow1" "tip_row_ok ex_db0 ex_trow2" "tip_row_ok ex_db0 ex_trow3"
  "tip_row_ok ex_db0 ex_trow4"
  "row_id ex_trow1 = ex_tip" "row_id ex_trow2 = ex_tip" "row_id ex_trow3 = ex_tip" "row_id ex_trow4 = ex_tip"
  "to_lowercase (asset ex_trow1) = ''xmr''" "tip_address ex_trow1 = Some ''4addr''"
  "tip_view_key ex_trow1 = Some ''view''" "amount ex_trow1 = 5"
  "funding_txid ex_trow1 = Some ''fund1''" "amount_unverified ex_trow2" "claimable bob ex_trow3"
  "\<not> is_public ex_trow4" "recipient_user_id ex_trow4 = Some bob" "sender_user_id ex_trow4 = alice"
  "status ex_trow4 = as_str Claiming"
  by code_simp+

lemma ex_tnew_of_request: "new_tip_of_request ex_lib ex_cfg alice (Some bob) ex_treq = Inr ex_tnew"
  by code_simp

lemma ex_tcreate: "reachable (ex_sys [ex_trow1] [] [ex_tip])"
proof -
  have "reachable (ex_sys [] [] [])"
    by (rule reachable.start) (simp add: initial_def)
  moreover have "tip_step (ex_sys [] [] []) (User alice) (ex_sys [ex_trow1] [] [ex_tip])"
  proof -
    have eq: "ex_sys [ex_trow1] [] [ex_tip] = (ex_sys [] [] [])\<lparr>sys_db := snd (insert_social_tip ex_tip ex_tnew
        PendingConfirmation (sys_db (ex_sys [] [] []))), drawn := ex_tip # drawn (ex_sys [] [] [])\<rparr>"
      using ex_trow_facts(1)
      by (simp add: ex_sys_def insert_social_tip_def Let_def flip: ex_trow1_def)
    show ?thesis
      unfolding eq
      by (rule tip_step.create [OF ex_tnew_of_request])
         (simp_all add: ex_treq_def ex_req_def ex_tnew_def ex_new_def in_i64_def i64_min_def i64_max_def)
  qed
  ultimately show ?thesis by (rule reachable.step)
qed

lemma ex_treachable:
  "reachable (ex_tat ex_trow1)" "reachable (ex_tat ex_trow2)" "reachable (ex_tat ex_trow3)"
  "reachable (ex_tat ex_trow4)"
proof -
  have "fst (get_tips_pending_confirmation ''xmr'' (sys_db (ex_sys [ex_trow1] [] [ex_tip]))) = Inr [ex_trow1]"
    by code_simp
  from reachable.step [OF ex_tcreate tip_step.select [OF selects(1) this]]
  show 1: "reachable (ex_tat ex_trow1)" by (simp add: ex_sys_def)
  have "get_transaction_confirmations (ex_lws [ex_receipt] 110) ''fund1'' = Inr (Some 11)" "u64_min_i32 11 = 11"
    by code_simp+
  then have "count_confirmations (ex_lws [ex_receipt] 110) ex_trow1 (sys_db (ex_tat ex_trow1)) =
      ex_db0\<lparr>social_tips := [ex_trow2]\<rparr>"
    using ex_trow_facts(2)
    by (simp add: count_confirmations_def update_tip_confirmations_def ex_update ex_trow_facts ex_trow2_def)
  then have "tip_step (ex_tat ex_trow1) Worker (ex_tat ex_trow2)"
    using tip_step.count [of ex_trow1 "ex_tat ex_trow1" "ex_lws [ex_receipt] 110"] by (simp add: ex_with_db)
  with 1 show 2: "reachable (ex_tat ex_trow2)" by (rule reachable.step)
  have "classify_funding_amount (ex_txs [ex_receipt] 110) 5 = Some (Verified 5)" by code_simp
  then have v: "verify_funding_amount (ex_chain [ex_receipt] 110) ex_trow1 = Some (Verified 5)"
    by (simp add: verify_funding_amount_def verify_lws_def ex_trow_facts ex_chain_def ex_get_address_txs)
  have "observed_i64 5 = 5" by code_simp
  then have "apply_verification (Verified 5) ex_tip (sys_db (ex_tat ex_trow2)) = ex_db0\<lparr>social_tips := [ex_trow3]\<rparr>"
    using ex_trow_facts(3) by (simp add: stmt_defs ex_update ex_trow_facts ex_trow3_def)
  then have "tip_step (ex_tat ex_trow2) Worker (ex_tat ex_trow3)"
    using tip_step.verify [OF _ v, of "ex_tat ex_trow2"] by (simp add: ex_with_db ex_trow_facts)
  with 2 show 3: "reachable (ex_tat ex_trow3)" by (rule reachable.step)
  have "snd (mark_tip_claiming ex_tip bob (sys_db (ex_tat ex_trow3))) = ex_db0\<lparr>social_tips := [ex_trow4]\<rparr>"
    using ex_trow_facts(4) by (simp add: stmt_defs ex_update ex_trow_facts ex_trow4_def)
  then have "tip_step (ex_tat ex_trow3) (User bob) (ex_tat ex_trow4)"
    using tip_step.claim [of "ex_tat ex_trow3" bob ex_tip] by (simp add: ex_with_db)
  with 3 show "reachable (ex_tat ex_trow4)" by (rule reachable.step)
qed

end
