(* ===== verification/Nip98.thy ===== *)
theory Nip98
  imports Rust_Text
begin

text \<open>
  \<open>src/src/core/crypto/nip98.rs\<close>: verification of a signed HTTP-auth event, at login grade and
  at state-change grade. Base64, JSON, SHA-256 and BIP-340 verification belong to third-party crates
  and are the fields of \<open>nostr_lib\<close>; nothing is assumed of them. Constant-time comparison is
  equality.
\<close>

record nip98_event =
  ev_id :: string
  ev_pubkey :: string
  ev_created_at :: i64
  ev_kind :: u32
  ev_tags :: "string list list"
  ev_content :: string
  ev_sig :: string

datatype nip98_error =
    Malformed
  | WrongKind
  | UrlMismatch
  | MethodMismatch
  | Expired
  | BadId
  | BadSignature
  | MissingTag
  | DuplicateTag
  | BindingMismatch

record nostr_lib = crates +
  b64_decode :: "string \<Rightarrow> byte list option"
  json_event :: "byte list \<Rightarrow> nip98_event option"
  json_serial :: "string \<Rightarrow> i64 \<Rightarrow> u32 \<Rightarrow> string list list \<Rightarrow> string \<Rightarrow> string option"
  sha256 :: "string \<Rightarrow> byte list"
  sha256_bytes :: "byte list \<Rightarrow> byte list"
  key_ok :: "byte list \<Rightarrow> bool"
  signature_ok :: "byte list \<Rightarrow> bool"
  verify_raw :: "byte list \<Rightarrow> byte list \<Rightarrow> byte list \<Rightarrow> bool"

type_synonym 'a nip98_result = "nip98_error + 'a"

definition NIP98_KIND :: u32 where
  "NIP98_KIND = 27235"

definition ct_eq :: "string \<Rightarrow> string \<Rightarrow> bool" where
  "ct_eq a b \<longleftrightarrow> a = b"

text \<open>The loop of \<open>exactly_one\<close>, with the value found so far.\<close>

fun exactly_one_from :: "string option \<Rightarrow> string \<Rightarrow> string list list \<Rightarrow> string nip98_result" where
  "exactly_one_from found name [] = (case found of None \<Rightarrow> Inl MissingTag | Some v \<Rightarrow> Inr v)"
| "exactly_one_from found name (t # ts) =
     (if length t \<ge> 2 \<and> t ! 0 = name
      then (if found \<noteq> None then Inl DuplicateTag else exactly_one_from (Some (t ! 1)) name ts)
      else exactly_one_from found name ts)"

definition exactly_one :: "nip98_event \<Rightarrow> string \<Rightarrow> string nip98_result" where
  "exactly_one ev name = exactly_one_from None name (ev_tags ev)"

definition fresh :: "i64 \<Rightarrow> i64 \<Rightarrow> i64 \<Rightarrow> bool" where
  "fresh now max_age created \<longleftrightarrow>
     \<not> (created > i64_saturating_add now max_age \<or> created < i64_saturating_sub now max_age)"

definition check_signature :: "nostr_lib \<Rightarrow> nip98_event \<Rightarrow> nip98_event nip98_result" where
  "check_signature lib ev =
     (case (hex_decode lib (ev_pubkey ev), hex_decode lib (ev_id ev), hex_decode lib (ev_sig ev)) of
        (Some pubkey, Some id_bytes, Some sig_bytes) \<Rightarrow>
          if length pubkey \<noteq> 32 \<or> length id_bytes \<noteq> 32 \<or> length sig_bytes \<noteq> 64 then Inl BadSignature
          else if \<not> key_ok lib pubkey \<or> \<not> signature_ok lib sig_bytes then Inl BadSignature
          else if verify_raw lib pubkey id_bytes sig_bytes then Inr ev
          else Inl BadSignature
      | _ \<Rightarrow> Inl BadSignature)"

definition parse_authenticated ::
    "nostr_lib \<Rightarrow> string \<Rightarrow> i64 \<Rightarrow> i64 \<Rightarrow> nip98_event nip98_result" where
  "parse_authenticated lib header now max_age =
     (case strip_prefix ''Nostr '' header of
        None \<Rightarrow> Inl Malformed
      | Some b64 \<Rightarrow>
          (case b64_decode lib (trim b64) of
             None \<Rightarrow> Inl Malformed
           | Some raw \<Rightarrow>
               (case json_event lib raw of
                  None \<Rightarrow> Inl Malformed
                | Some ev \<Rightarrow>
                    if ev_kind ev \<noteq> NIP98_KIND then Inl WrongKind
                    else if \<not> fresh now max_age (ev_created_at ev) then Inl Expired
                    else
                      (case json_serial lib (ev_pubkey ev) (ev_created_at ev) (ev_kind ev)
                              (ev_tags ev) (ev_content ev) of
                         None \<Rightarrow> Inl BadId
                       | Some serial \<Rightarrow>
                           if hex_encode lib (sha256 lib serial) \<noteq> ev_id ev then Inl BadId
                           else check_signature lib ev))))"

definition expect :: "nip98_error \<Rightarrow> (string \<Rightarrow> bool) \<Rightarrow> string nip98_result \<Rightarrow> unit nip98_result" where
  "expect err p r = (case r of Inl e \<Rightarrow> Inl e | Inr v \<Rightarrow> if p v then Inr () else Inl err)"

definition and_then :: "unit nip98_result \<Rightarrow> 'a nip98_result \<Rightarrow> 'a nip98_result" where
  "and_then a b = (case a of Inl e \<Rightarrow> Inl e | Inr u \<Rightarrow> b)"

definition verify_nip98 ::
    "nostr_lib \<Rightarrow> string \<Rightarrow> string \<Rightarrow> string \<Rightarrow> i64 \<Rightarrow> i64 \<Rightarrow> string nip98_result" where
  "verify_nip98 lib header expected_url expected_method now max_age =
     (case parse_authenticated lib header now max_age of
        Inl e \<Rightarrow> Inl e
      | Inr ev \<Rightarrow>
          and_then (expect UrlMismatch (\<lambda>v. v = expected_url) (exactly_one ev ''u''))
          (and_then (expect MethodMismatch (\<lambda>v. eq_ignore_ascii_case v expected_method)
             (exactly_one ev ''method''))
          (Inr (to_lowercase (ev_pubkey ev)))))"

definition request_descriptor :: "nostr_lib \<Rightarrow> string \<Rightarrow> string \<Rightarrow> string \<Rightarrow> byte list \<Rightarrow> string" where
  "request_descriptor lib meth path canonical_query body =
     to_uppercase meth @ [CHR 0x0A] @ path @ [CHR 0x0A] @ canonical_query @ [CHR 0x0A] @
     hex_encode lib (sha256_bytes lib body)"

definition descriptor_sha256 :: "nostr_lib \<Rightarrow> string \<Rightarrow> string" where
  "descriptor_sha256 lib descriptor = hex_encode lib (sha256 lib descriptor)"

record signed_action =
  sa_url :: string
  sa_method :: string
  sa_purpose :: string
  sa_nonce :: string
  sa_payload_sha256 :: string
  sa_target :: "(string \<times> string) option"
  sa_instance_id :: "string option"

text \<open>The record holds the expected values, the \<open>expected_\<close> parameters of the function.\<close>

definition verify_signed_action ::
    "nostr_lib \<Rightarrow> string \<Rightarrow> signed_action \<Rightarrow> i64 \<Rightarrow> i64 \<Rightarrow> string nip98_result" where
  "verify_signed_action lib header a now max_age =
     (case parse_authenticated lib header now max_age of
        Inl e \<Rightarrow> Inl e
      | Inr ev \<Rightarrow>
          and_then (expect BindingMismatch (\<lambda>v. ct_eq v (sa_url a)) (exactly_one ev ''u''))
          (and_then (expect BindingMismatch (\<lambda>v. eq_ignore_ascii_case v (sa_method a)) (exactly_one ev ''method''))
          (and_then (expect BindingMismatch (\<lambda>v. ct_eq v (sa_purpose a)) (exactly_one ev ''purpose''))
          (and_then (expect BindingMismatch (\<lambda>v. ct_eq v (sa_nonce a)) (exactly_one ev ''challenge''))
          (and_then (expect BindingMismatch (\<lambda>v. ct_eq v (sa_payload_sha256 a)) (exactly_one ev ''payload''))
          (and_then (case sa_target a of None \<Rightarrow> Inr ()
             | Some (name, val) \<Rightarrow> expect BindingMismatch (\<lambda>v. ct_eq v val) (exactly_one ev name))
          (and_then (case sa_instance_id a of None \<Rightarrow> Inr ()
             | Some i \<Rightarrow> expect BindingMismatch (\<lambda>v. ct_eq v i) (exactly_one ev ''instance_id''))
          (Inr (to_lowercase (ev_pubkey ev))))))))))"

section \<open>Tags\<close>

definition tag_values :: "nip98_event \<Rightarrow> string \<Rightarrow> string list" where
  "tag_values ev name = map (\<lambda>t. t ! 1) (filter (\<lambda>t. length t \<ge> 2 \<and> t ! 0 = name) (ev_tags ev))"

lemma exactly_one_from_spec:
  "exactly_one_from found name ts =
     (case (case found of None \<Rightarrow> [] | Some v \<Rightarrow> [v]) @
           map (\<lambda>t. t ! 1) (filter (\<lambda>t. length t \<ge> 2 \<and> t ! 0 = name) ts) of
        [] \<Rightarrow> Inl MissingTag | [v] \<Rightarrow> Inr v | v # w # vs \<Rightarrow> Inl DuplicateTag)"
  by (induction ts arbitrary: found) (auto split: option.splits list.splits)

lemma exactly_one_spec:
  "exactly_one ev name =
     (case tag_values ev name of [] \<Rightarrow> Inl MissingTag | [v] \<Rightarrow> Inr v | v # w # vs \<Rightarrow> Inl DuplicateTag)"
  by (simp add: exactly_one_def exactly_one_from_spec tag_values_def)

lemma exactly_one_Inr: "exactly_one ev name = Inr v \<longleftrightarrow> tag_values ev name = [v]"
  by (auto simp: exactly_one_spec split: list.splits)

lemma expect_Inr [simp]: "expect err p r = Inr u \<longleftrightarrow> (\<exists>v. r = Inr v \<and> p v)"
  by (auto simp: expect_def split: sum.splits)

lemma and_then_Inr [simp]: "and_then a b = Inr x \<longleftrightarrow> a = Inr () \<and> b = Inr x"
  by (auto simp: and_then_def split: sum.splits)

text \<open>What an event that came out of \<open>parse_authenticated\<close> is.\<close>

definition authenticated :: "nostr_lib \<Rightarrow> string \<Rightarrow> i64 \<Rightarrow> i64 \<Rightarrow> nip98_event \<Rightarrow> bool" where
  "authenticated lib header now max_age ev \<longleftrightarrow>
     (\<exists>b64 raw serial pubkey id_bytes sig_bytes.
        header = ''Nostr '' @ b64 \<and> b64_decode lib (trim b64) = Some raw \<and> json_event lib raw = Some ev \<and>
        ev_kind ev = NIP98_KIND \<and> fresh now max_age (ev_created_at ev) \<and>
        json_serial lib (ev_pubkey ev) (ev_created_at ev) (ev_kind ev) (ev_tags ev) (ev_content ev) = Some serial \<and>
        ev_id ev = hex_encode lib (sha256 lib serial) \<and>
        hex_decode lib (ev_pubkey ev) = Some pubkey \<and> hex_decode lib (ev_id ev) = Some id_bytes \<and>
        hex_decode lib (ev_sig ev) = Some sig_bytes \<and>
        length pubkey = 32 \<and> length id_bytes = 32 \<and> length sig_bytes = 64 \<and>
        verify_raw lib pubkey id_bytes sig_bytes)"

lemma parse_authenticated_Inr:
  "parse_authenticated lib header now max_age = Inr ev \<Longrightarrow> authenticated lib header now max_age ev"
  by (auto simp: parse_authenticated_def check_signature_def authenticated_def strip_prefix_Some
      split: option.splits if_splits)

lemma fresh_window:
  assumes "in_i64 (now + max_age)" "in_i64 (now - max_age)"
  shows "fresh now max_age t \<longleftrightarrow> now - max_age \<le> t \<and> t \<le> now + max_age"
  using assms by (auto simp: fresh_def i64_saturating_add_def i64_saturating_sub_def i64_clamp_def in_i64_def)

section \<open>Properties\<close>

text \<open>C32. A state-changing request is accepted only for an event that commits to all of it: the event is
  of the HTTP-auth kind, fresh, its id is the hash of its own content, its signature verifies under
  its key, and it carries exactly one tag each for URL, method, purpose, server nonce, payload hash
  and, where expected, target and instance, with the expected values; the key returned is its key in
  lower case.\<close>

theorem signed_action_binds_everything:
  assumes "verify_signed_action lib header a now max_age = Inr key"
  shows "\<exists>ev m. authenticated lib header now max_age ev \<and> key = to_lowercase (ev_pubkey ev) \<and>
    tag_values ev ''u'' = [sa_url a] \<and> tag_values ev ''method'' = [m] \<and>
    eq_ignore_ascii_case m (sa_method a) \<and> tag_values ev ''purpose'' = [sa_purpose a] \<and>
    tag_values ev ''challenge'' = [sa_nonce a] \<and> tag_values ev ''payload'' = [sa_payload_sha256 a] \<and>
    (\<forall>name val. sa_target a = Some (name, val) \<longrightarrow> tag_values ev name = [val]) \<and>
    (\<forall>i. sa_instance_id a = Some i \<longrightarrow> tag_values ev ''instance_id'' = [i])"
proof (cases "parse_authenticated lib header now max_age")
  case (Inl e)
  with assms show ?thesis by (simp add: verify_signed_action_def)
next
  case (Inr ev)
  with assms parse_authenticated_Inr [OF Inr] show ?thesis
    by (auto simp: verify_signed_action_def exactly_one_Inr ct_eq_def split: option.splits prod.splits)
qed

definition sample_event :: nip98_event where
  "sample_event = \<lparr>ev_id = hex_encode_ref (replicate 32 7), ev_pubkey = hex_encode_ref (replicate 32 0xAB),
     ev_created_at = 100, ev_kind = NIP98_KIND,
     ev_tags = [[''u'', ''https://x/erase''], [''method'', ''POST''], [''purpose'', ''erase''],
       [''challenge'', ''n1''], [''payload'', ''p1'']],
     ev_content = [], ev_sig = hex_encode_ref (replicate 64 1)\<rparr>"

definition sample_nostr :: nostr_lib where
  "sample_nostr = \<lparr>hex_encode = hex_encode_ref, hex_decode = hex_decode_ref, uuid_to_string = (\<lambda>u. []),
     rfc3339 = (\<lambda>t. []), b64_decode = (\<lambda>s. if s = ''tok'' then Some [1] else None),
     json_event = (\<lambda>raw. Some sample_event), json_serial = (\<lambda>p c k t x. Some ''s''),
     sha256 = (\<lambda>s. replicate 32 7), sha256_bytes = (\<lambda>s. replicate 32 7),
     key_ok = (\<lambda>k. True), signature_ok = (\<lambda>s. True), verify_raw = (\<lambda>k m s. True)\<rparr>"

definition sample_action :: signed_action where
  "sample_action = \<lparr>sa_url = ''https://x/erase'', sa_method = ''post'', sa_purpose = ''erase'',
     sa_nonce = ''n1'', sa_payload_sha256 = ''p1'', sa_target = None, sa_instance_id = None\<rparr>"

lemma sample_action_verified:
  "verify_signed_action sample_nostr ''Nostr tok'' sample_action 110 60 =
     Inr (to_lowercase (ev_pubkey sample_event))"
  by code_simp

theorem signed_action_binds_everything_witness:
  "\<exists>ev m. authenticated sample_nostr ''Nostr tok'' 110 60 ev \<and>
    to_lowercase (ev_pubkey sample_event) = to_lowercase (ev_pubkey ev) \<and>
    tag_values ev ''u'' = [sa_url sample_action] \<and> tag_values ev ''method'' = [m] \<and>
    eq_ignore_ascii_case m (sa_method sample_action) \<and> tag_values ev ''purpose'' = [sa_purpose sample_action] \<and>
    tag_values ev ''challenge'' = [sa_nonce sample_action] \<and>
    tag_values ev ''payload'' = [sa_payload_sha256 sample_action] \<and>
    (\<forall>name val. sa_target sample_action = Some (name, val) \<longrightarrow> tag_values ev name = [val]) \<and>
    (\<forall>i. sa_instance_id sample_action = Some i \<longrightarrow> tag_values ev ''instance_id'' = [i])"
  by (rule signed_action_binds_everything [OF sample_action_verified])

text \<open>A captured authorization header cannot be moved to another action: if the same header is
  accepted for two actions, at whatever times, they have the same URL, purpose, nonce and payload
  hash, the same method up to letter case, and the same key is returned.\<close>

theorem signed_action_not_transferable:
  assumes "verify_signed_action lib header a now max_age = Inr key"
    and "verify_signed_action lib header b now' max_age' = Inr key'"
  shows "sa_url a = sa_url b \<and> sa_purpose a = sa_purpose b \<and> sa_nonce a = sa_nonce b \<and>
    sa_payload_sha256 a = sa_payload_sha256 b \<and> eq_ignore_ascii_case (sa_method a) (sa_method b) \<and> key = key'"
proof -
  obtain ev ev' where p: "parse_authenticated lib header now max_age = Inr ev"
    "parse_authenticated lib header now' max_age' = Inr ev'"
    using assms by (auto simp: verify_signed_action_def split: sum.splits)
  then have "ev = ev'"
    by (auto simp: parse_authenticated_def check_signature_def split: option.splits if_splits)
  with assms p show ?thesis
    by (auto simp: verify_signed_action_def exactly_one_Inr ct_eq_def eq_ignore_ascii_case_def)
qed

theorem signed_action_not_transferable_witness:
  "sa_url sample_action = sa_url (sample_action\<lparr>sa_method := ''POST''\<rparr>) \<and>
   sa_purpose sample_action = sa_purpose (sample_action\<lparr>sa_method := ''POST''\<rparr>) \<and>
   sa_nonce sample_action = sa_nonce (sample_action\<lparr>sa_method := ''POST''\<rparr>) \<and>
   sa_payload_sha256 sample_action = sa_payload_sha256 (sample_action\<lparr>sa_method := ''POST''\<rparr>) \<and>
   eq_ignore_ascii_case (sa_method sample_action) (sa_method (sample_action\<lparr>sa_method := ''POST''\<rparr>)) \<and>
   to_lowercase (ev_pubkey sample_event) = to_lowercase (ev_pubkey sample_event)"
proof (rule signed_action_not_transferable [OF sample_action_verified])
  show "verify_signed_action sample_nostr ''Nostr tok'' (sample_action\<lparr>sa_method := ''POST''\<rparr>) 90 60 =
      Inr (to_lowercase (ev_pubkey sample_event))" by code_simp
qed

end
