(* ===== verification/Wallet_Proofs.thy ===== *)
theory Wallet_Proofs
  imports App_Error
begin

unbundle bit_operations_syntax

text \<open>
  Proofs a wallet presents: \<open>src/src/core/crypto/signatures.rs\<close> (Bitcoin message and Ed25519
  signatures), \<open>src/src/core/pow.rs\<close> (the registration puzzle and its spent-solution store) and
  \<open>src/src/core/restore_pow.rs\<close> (the restore hashcash).

  The hash and curve crates, base64 and the \<open>altcha\<close> verifier are the record \<open>proof_lib\<close>. Lengths,
  encodings, prefixes, the byte layout of what is hashed, the order of the checks and the store are
  the repository's and are modelled. A clock value is in microseconds.
\<close>

section \<open>Byte encodings\<close>

definition str_bytes :: "string \<Rightarrow> byte list" where
  "str_bytes s = map (\<lambda>c. of_nat (of_char c)) s"

fun le_bytes :: "nat \<Rightarrow> nat \<Rightarrow> byte list" where
  "le_bytes 0 n = []"
| "le_bytes (Suc k) n = of_nat (n mod 256) # le_bytes k (n div 256)"

definition encode_varint :: "nat \<Rightarrow> byte list" where
  "encode_varint n =
     (if n < 253 then [of_nat n]
      else if n \<le> 0xFFFF then 0xFD # le_bytes 2 n
      else if n \<le> 0xFFFFFFFF then 0xFE # le_bytes 4 n
      else 0xFF # le_bytes 8 n)"

section \<open>Signatures\<close>

record proof_lib = crates +
  sha256_of :: "byte list \<Rightarrow> byte list"
  base64_decode :: "string \<Rightarrow> byte list option"
  secp_key :: "byte list \<Rightarrow> bool"
  ecdsa_sig :: "byte list \<Rightarrow> bool"
  verify_prehash :: "byte list \<Rightarrow> byte list \<Rightarrow> byte list \<Rightarrow> bool"
  ed_key :: "byte list \<Rightarrow> bool"
  ed_verify :: "byte list \<Rightarrow> byte list \<Rightarrow> byte list \<Rightarrow> bool"

definition bitcoin_prefix :: "byte list" where
  "bitcoin_prefix = 0x18 # str_bytes ''Bitcoin Signed Message:'' @ [0x0A]"

definition bitcoin_message :: "string \<Rightarrow> byte list" where
  "bitcoin_message message = bitcoin_prefix @ encode_varint (length message) @ str_bytes message"

definition bitcoin_message_hash :: "'a proof_lib_scheme \<Rightarrow> string \<Rightarrow> byte list" where
  "bitcoin_message_hash lib message = sha256_of lib (sha256_of lib (bitcoin_message message))"

definition verify_bitcoin_signature :: "'a proof_lib_scheme \<Rightarrow> string \<Rightarrow> string \<Rightarrow> string \<Rightarrow> unit result" where
  "verify_bitcoin_signature lib message signature_str pubkey_hex =
     try_bind (ok_or (hex_decode lib pubkey_hex) (ValidationError ''Invalid public key hex'')) (\<lambda>pubkey.
     try_bind (ensure (secp_key lib pubkey) (ValidationError ''Invalid secp256k1 public key'')) (\<lambda>x.
     try_bind (ok_or (base64_decode lib signature_str)
         (ValidationError ''Invalid signature encoding (expected base64)'')) (\<lambda>decoded.
     try_bind (ensure (length decoded = 65) (ValidationError ''BIP-137 signature must be 65 bytes'')) (\<lambda>x.
     try_bind (ensure (ecdsa_sig lib (tl decoded)) (ValidationError ''Invalid ECDSA signature'')) (\<lambda>x.
       ensure (verify_prehash lib pubkey (bitcoin_message_hash lib message) (tl decoded))
         (AuthError ''signature verification failed''))))))"

definition verify_ed25519_signature :: "'a proof_lib_scheme \<Rightarrow> string \<Rightarrow> string \<Rightarrow> string \<Rightarrow> unit result" where
  "verify_ed25519_signature lib message signature_hex pubkey_hex =
     try_bind (ok_or (hex_decode lib pubkey_hex) (ValidationError ''Invalid public key hex'')) (\<lambda>pubkey.
     try_bind (ensure (length pubkey = 32) (ValidationError ''Ed25519 public key must be 32 bytes'')) (\<lambda>x.
     try_bind (ensure (ed_key lib pubkey) (ValidationError ''Invalid Ed25519 public key'')) (\<lambda>x.
     try_bind (ok_or (hex_decode lib signature_hex) (ValidationError ''Invalid signature hex'')) (\<lambda>sg.
     try_bind (ensure (length sg = 64) (ValidationError ''Ed25519 signature must be 64 bytes'')) (\<lambda>x.
       ensure (ed_verify lib pubkey (str_bytes message) sg) (AuthError ''signature verification failed''))))))"

section \<open>The registration puzzle\<close>

record pow_config =
  pow_enabled :: bool
  pow_hmac_key :: string
  pow_required :: bool
  pow_required_for_pubkeys :: "string list"

record pow_payload =
  pl_signature :: "string option"
  pl_body :: string

record verify_solution_result =
  vr_verified :: bool
  vr_expired :: bool
  vr_invalid_signature :: "bool option"
  vr_invalid_solution :: "bool option"

text \<open>The \<open>altcha\<close> crate: verification under a key, or an error with its text.\<close>

type_synonym altcha = "string \<Rightarrow> pow_payload \<Rightarrow> string + verify_solution_result"

text \<open>The spent solutions: signature and time of the spend.\<close>

type_synonym spent = "(string \<times> timestamp) list"

definition CHALLENGE_TTL_SECONDS :: int where
  "CHALLENGE_TTL_SECONDS = 600"

definition required_for :: "pow_config \<Rightarrow> string \<Rightarrow> bool" where
  "required_for cfg pubkey_hash \<longleftrightarrow>
     pow_required cfg \<or> list_ex (\<lambda>p. p = pubkey_hash) (pow_required_for_pubkeys cfg)"

definition spend_solution :: "timestamp \<Rightarrow> string \<Rightarrow> spent \<Rightarrow> bool \<times> spent" where
  "spend_solution now signature spent =
     (let kept = filter (\<lambda>(s, seen). now - seen < seconds CHALLENGE_TTL_SECONDS) spent
      in (signature \<notin> set (map fst kept),
          (signature, now) # filter (\<lambda>(s, seen). s \<noteq> signature) kept))"

definition rejection_reason :: "verify_solution_result \<Rightarrow> string" where
  "rejection_reason r =
     (if vr_expired r then ''challenge expired (re-fetch the challenge)''
      else if vr_invalid_signature r = Some True then ''invalid signature''
      else if vr_invalid_solution r = Some True then ''wrong solution''
      else ''rejected'')"

definition verify_payload ::
    "altcha \<Rightarrow> timestamp \<Rightarrow> pow_config \<Rightarrow> pow_payload \<Rightarrow> spent \<Rightarrow> unit result \<times> spent" where
  "verify_payload altcha now cfg payload spent =
     (case altcha (pow_hmac_key cfg) payload of
        Inl e \<Rightarrow> (Inl (ValidationError (''PoW verify failed: '' @ e)), spent)
      | Inr r \<Rightarrow>
          if \<not> vr_verified r
          then (Inl (ValidationError (''PoW solution rejected ('' @ rejection_reason r @ '')'')), spent)
          else case pl_signature payload of
            None \<Rightarrow> (Inl (ValidationError ''PoW solution rejected (missing signature)''), spent)
          | Some signature \<Rightarrow>
              let (fresh_solve, spent') = spend_solution now signature spent in
              (if fresh_solve then Inr ()
               else Inl (ValidationError ''PoW solution rejected (already used; re-fetch the challenge)''),
               spent'))"

section \<open>The restore puzzle\<close>

definition restore_domain :: "byte list" where
  "restore_domain = str_bytes ''smirk-restore-pow-v1''"

definition challenge_input :: "string \<Rightarrow> string \<Rightarrow> u64 \<Rightarrow> byte list" where
  "challenge_input a address start_height =
     restore_domain @ [0x1F] @ str_bytes a @ [0x1F] @ str_bytes address @ [0x1F] @
     le_bytes 8 (unat start_height)"

fun byte_leading_zeros_from :: "nat \<Rightarrow> byte \<Rightarrow> nat" where
  "byte_leading_zeros_from 0 b = 0"
| "byte_leading_zeros_from (Suc k) b = (if bit b k then 0 else Suc (byte_leading_zeros_from k b))"

definition byte_leading_zeros :: "byte \<Rightarrow> nat" where
  "byte_leading_zeros b = byte_leading_zeros_from 8 b"

fun leading_zero_bits :: "byte list \<Rightarrow> nat" where
  "leading_zero_bits [] = 0"
| "leading_zero_bits (b # bs) = (if b = 0 then 8 + leading_zero_bits bs else byte_leading_zeros b)"

definition restore_pow_verify :: "'a proof_lib_scheme \<Rightarrow> string \<Rightarrow> string \<Rightarrow> u64 \<Rightarrow> u64 \<Rightarrow> nat \<Rightarrow> bool" where
  "restore_pow_verify lib a address start_height nonce required_bits \<longleftrightarrow>
     required_bits = 0 \<or>
     required_bits \<le> leading_zero_bits
       (sha256_of lib (challenge_input a address start_height @ le_bytes 8 (unat nonce)))"

section \<open>What a spend promises\<close>

definition was_spent :: "timestamp \<Rightarrow> string \<Rightarrow> spent \<Rightarrow> bool" where
  "was_spent now signature spent \<longleftrightarrow>
     (\<exists>seen. (signature, seen) \<in> set spent \<and> now - seen < seconds CHALLENGE_TTL_SECONDS)"

lemma spend_solution_fst: "fst (spend_solution now s spent) \<longleftrightarrow> \<not> was_spent now s spent"
  by (force simp: spend_solution_def was_spent_def Let_def)

lemma spend_solution_marks:
  "0 \<le> now' - now \<Longrightarrow> now' - now < seconds CHALLENGE_TTL_SECONDS \<Longrightarrow>
     was_spent now' s (snd (spend_solution now s spent))"
  by (auto simp: spend_solution_def was_spent_def Let_def)

lemma spend_solution_keeps:
  assumes "was_spent t s spent" "now \<le> t" "s' \<noteq> s"
  shows "was_spent t s (snd (spend_solution now s' spent))"
  using assms by (auto simp: spend_solution_def was_spent_def Let_def)

lemma verify_payload_Inr:
  "verify_payload altcha now cfg p spent = (Inr u, spent') \<longleftrightarrow>
     (\<exists>r s. altcha (pow_hmac_key cfg) p = Inr r \<and> vr_verified r \<and> pl_signature p = Some s \<and>
        \<not> was_spent now s spent \<and> spent' = snd (spend_solution now s spent))"
  by (auto simp: verify_payload_def spend_solution_fst split: sum.splits option.splits prod.splits if_splits)
     (metis fst_conv spend_solution_fst snd_conv)+

section \<open>Encodings are unambiguous\<close>

lemma length_le_bytes [simp]: "length (le_bytes k n) = k"
  by (induction k arbitrary: n) auto

lemma le_bytes_inj: "le_bytes k m = le_bytes k n \<Longrightarrow> m < 256 ^ k \<Longrightarrow> n < 256 ^ k \<Longrightarrow> m = n"
proof (induction k arbitrary: m n)
  case 0
  then show ?case by simp
next
  case (Suc k)
  from Suc.prems(1) have "(of_nat (m mod 256) :: byte) = of_nat (n mod 256)"
    and r: "le_bytes k (m div 256) = le_bytes k (n div 256)" by simp_all
  then have "unat (of_nat (m mod 256) :: byte) = unat (of_nat (n mod 256) :: byte)" by simp
  then have "m mod 256 = n mod 256" by (simp add: unat_of_nat)
  moreover have "m div 256 = n div 256"
    using Suc.IH [OF r] Suc.prems(2,3) by (simp add: div_less_iff_less_mult mult.commute)
  ultimately show ?case by (metis div_mult_mod_eq)
qed

lemma str_bytes_inj: "str_bytes s = str_bytes t \<Longrightarrow> s = t"
proof -
  have "inj (\<lambda>c :: char. (of_nat (of_char c) :: byte))"
  proof (rule injI)
    fix c d :: char
    assume "(of_nat (of_char c) :: byte) = of_nat (of_char d)"
    then have "unat (of_nat (of_char c) :: byte) = unat (of_nat (of_char d) :: byte)" by simp
    moreover have "(of_char c :: nat) < 256" "(of_char d :: nat) < 256" by simp_all
    ultimately have "(of_char c :: nat) = of_char d" by (simp add: unat_of_nat)
    then show "c = d" by simp
  qed
  then show "str_bytes s = str_bytes t \<Longrightarrow> s = t" by (simp add: str_bytes_def inj_map_eq_map)
qed

section \<open>A solution is accepted once\<close>

text \<open>Verifications in a row, each at its own time; the verifier may depend on the time.\<close>

fun pow_run :: "(timestamp \<Rightarrow> altcha) \<Rightarrow> pow_config \<Rightarrow> (timestamp \<times> pow_payload) list \<Rightarrow> spent \<Rightarrow> unit result list" where
  "pow_run alt cfg [] spent = []"
| "pow_run alt cfg ((t, p) # reqs) spent =
     (let (r, spent') = verify_payload (alt t) t cfg p spent in r # pow_run alt cfg reqs spent')"

lemma length_pow_run [simp]: "length (pow_run alt cfg reqs spent) = length reqs"
  by (induction alt cfg reqs spent rule: pow_run.induct) (auto split: prod.split)

lemma verify_payload_store:
  "snd (verify_payload alt now cfg p spent) = spent \<or>
   (\<exists>s. snd (verify_payload alt now cfg p spent) = snd (spend_solution now s spent))"
  by (auto simp: verify_payload_def split: sum.split option.split prod.split)
     (metis snd_conv)

lemma verify_payload_times:
  assumes "list_all (\<lambda>x. snd x \<le> now) spent" "now \<le> t"
  shows "list_all (\<lambda>x. snd x \<le> t) (snd (verify_payload alt t cfg p spent))"
  using verify_payload_store [of alt t cfg p spent] assms
  by (auto simp: list_all_iff spend_solution_def Let_def) force+

text \<open>An entry stays, or is renewed, until its lifetime is over.\<close>

lemma verify_payload_holds:
  assumes "(sg, seen) \<in> set spent" "list_all (\<lambda>x. snd x \<le> now) spent" "now \<le> t"
    and "t - seen < seconds CHALLENGE_TTL_SECONDS"
  shows "\<exists>seen'. (sg, seen') \<in> set (snd (verify_payload alt t cfg p spent)) \<and> seen \<le> seen'"
proof -
  from assms(1-3) have "seen \<le> t" by (auto simp: list_all_iff)
  have "\<exists>seen'. (sg, seen') \<in> set (snd (spend_solution t s spent)) \<and> seen \<le> seen'" for s
    using assms(1,4) \<open>seen \<le> t\<close>
    by (cases "s = sg") (auto simp: spend_solution_def Let_def intro!: exI [of _ seen])
  with verify_payload_store [of alt t cfg p spent] assms(1) show ?thesis by (metis order.refl)
qed

lemma pow_run_refuses:
  assumes "sorted (map fst reqs)" "list_all (\<lambda>q. now \<le> fst q) reqs" "list_all (\<lambda>x. snd x \<le> now) spent"
    and "(sg, seen) \<in> set spent" "t0 \<le> seen"
    and "k < length reqs" "pl_signature (snd (reqs ! k)) = Some sg"
    and "fst (reqs ! k) - t0 < seconds CHALLENGE_TTL_SECONDS"
  shows "isl (pow_run alt cfg reqs spent ! k)"
  using assms
proof (induction reqs arbitrary: now spent seen k)
  case Nil
  then show ?case by simp
next
  case (Cons q reqs)
  obtain t p where q: "q = (t, p)" by (cases q)
  let ?v = "verify_payload (alt t) t cfg p spent"
  have run: "pow_run alt cfg (q # reqs) spent = fst ?v # pow_run alt cfg reqs (snd ?v)"
    by (simp add: q split: prod.split)
  from Cons.prems(1) q have later: "t \<le> fst (reqs ! j)" if "j < length reqs" for j
    using that by (auto simp: nth_mem)
  show ?case
  proof (cases k)
    case 0
    then have "was_spent t sg spent"
      using Cons.prems(4,5,8) q by (auto simp: was_spent_def intro!: exI [of _ seen])
    moreover have "pl_signature p = Some sg" using 0 Cons.prems(7) q by simp
    ultimately have "fst ?v \<noteq> Inr ()"
      using verify_payload_Inr [of "alt t" t cfg p spent "()" "snd ?v"] by (metis option.inject prod.collapse)
    then show ?thesis by (cases "fst ?v") (simp_all add: run 0)
  next
    case (Suc j)
    have "t - seen < seconds CHALLENGE_TTL_SECONDS"
      using later [of j] Cons.prems(5,6,8) Suc by auto
    then obtain seen' where s: "(sg, seen') \<in> set (snd ?v)" "seen \<le> seen'"
      using verify_payload_holds [OF Cons.prems(4,3), of t "alt t" cfg p] Cons.prems(2) q by auto
    have "isl (pow_run alt cfg reqs (snd ?v) ! j)"
    proof (rule Cons.IH [where now = t and seen = seen'])
      show "list_all (\<lambda>x. snd x \<le> t) (snd ?v)"
        using verify_payload_times [OF Cons.prems(3), of t] Cons.prems(2) q by simp
    qed (use Cons.prems q Suc s later in \<open>auto simp: list_all_iff\<close>)
    then show ?thesis by (simp add: run Suc)
  qed
qed

text \<open>A puzzle solution is accepted once in its lifetime: when verifications run one after another
  from an empty store, two that accept the same signature are at least the challenge lifetime of ten
  minutes apart, whatever was verified in between.\<close>

theorem puzzle_solution_accepted_once:
  assumes "sorted (map fst reqs)" "i < j" "j < length reqs"
    and "pl_signature (snd (reqs ! i)) = pl_signature (snd (reqs ! j))"
    and "pow_run alt cfg reqs [] ! i = Inr ()" "pow_run alt cfg reqs [] ! j = Inr ()"
  shows "fst (reqs ! j) - fst (reqs ! i) \<ge> seconds 600"
proof -
  have "fst (reqs ! j) - fst (reqs ! i) \<ge> seconds CHALLENGE_TTL_SECONDS"
    if "list_all (\<lambda>x. snd x \<le> now) spent" "list_all (\<lambda>q. now \<le> fst q) reqs" "sorted (map fst reqs)" "i < j"
      "j < length reqs" "pl_signature (snd (reqs ! i)) = pl_signature (snd (reqs ! j))"
      "pow_run alt cfg reqs spent ! i = Inr ()" "pow_run alt cfg reqs spent ! j = Inr ()"
    for now spent reqs i j
    using that
  proof (induction reqs arbitrary: now spent i j)
    case Nil
    then show ?case by simp
  next
    case (Cons q reqs)
    obtain t p where q: "q = (t, p)" by (cases q)
    let ?v = "verify_payload (alt t) t cfg p spent"
    have run: "pow_run alt cfg (q # reqs) spent = fst ?v # pow_run alt cfg reqs (snd ?v)"
      by (simp add: q split: prod.split)
    have times: "list_all (\<lambda>x. snd x \<le> t) (snd ?v)" "list_all (\<lambda>q. t \<le> fst q) reqs" "sorted (map fst reqs)"
      using verify_payload_times [OF Cons.prems(1), of t] Cons.prems(2,3) q by (auto simp: list_all_iff)
    obtain j' where j: "j = Suc j'" using Cons.prems(4) by (cases j) auto
    show ?case
    proof (cases i)
      case 0
      from Cons.prems(7) run 0 have "?v = (Inr (), snd ?v)" by (metis nth_Cons_0 prod.collapse)
      then obtain sg where sg: "pl_signature p = Some sg" "snd ?v = snd (spend_solution t sg spent)"
        unfolding verify_payload_Inr by blast
      have "(sg, t) \<in> set (snd ?v)" by (simp add: sg(2) spend_solution_def Let_def)
      from pow_run_refuses [OF times(3,2,1) this order.refl, of j' alt cfg] Cons.prems(5,6,8) 0 j q run sg(1)
      show ?thesis by fastforce
    next
      case (Suc i')
      have "fst (reqs ! j') - fst (reqs ! i') \<ge> seconds CHALLENGE_TTL_SECONDS"
        by (rule Cons.IH [OF times]) (use Cons.prems(4-8) Suc j run in simp_all)
      then show ?thesis by (simp add: Suc j)
    qed
  qed
  from this [of "Min (insert 0 (fst ` set reqs))" "[]" reqs i j] assms show ?thesis
    by (simp add: CHALLENGE_TTL_SECONDS_def list_all_iff)
qed

text \<open>Two requests with the same solution eleven minutes apart: the stateless verifier still accepts, the
  first spend has left the store.\<close>

definition ex_puzzle :: pow_payload where
  "ex_puzzle = \<lparr>pl_signature = Some ''s'', pl_body = []\<rparr>"

definition ex_pow_config :: pow_config where
  "ex_pow_config = \<lparr>pow_enabled = True, pow_hmac_key = ''k'', pow_required = True, pow_required_for_pubkeys = []\<rparr>"

definition ex_verifier :: "timestamp \<Rightarrow> altcha" where
  "ex_verifier t k p = Inr \<lparr>vr_verified = True, vr_expired = False, vr_invalid_signature = None, vr_invalid_solution = None\<rparr>"

lemma ex_pow_run:
  "pow_run ex_verifier ex_pow_config [(0, ex_puzzle), (seconds 60, ex_puzzle), (seconds 660, ex_puzzle)] [] =
     [Inr (), Inl (ValidationError ''PoW solution rejected (already used; re-fetch the challenge)''), Inr ()]"
  by code_simp

theorem puzzle_solution_accepted_once_witness:
  "pow_run ex_verifier ex_pow_config [(0, ex_puzzle), (seconds 60, ex_puzzle), (seconds 660, ex_puzzle)] [] ! 2 = Inr () \<and>
   seconds 660 - 0 \<ge> seconds 600"
proof -
  let ?reqs = "[(0, ex_puzzle), (seconds 60, ex_puzzle), (seconds 660, ex_puzzle)]"
  have "sorted (map fst ?reqs)" by (simp add: seconds_def)
  from puzzle_solution_accepted_once [OF this, of 0 2 ex_verifier ex_pow_config] show ?thesis
    by (simp only: ex_pow_run) simp
qed

section \<open>Counting zero bits\<close>

text \<open>The specification: the leading zeros of the digest written out bit by bit, the most significant
  bit of each byte first.\<close>

definition byte_bits :: "byte \<Rightarrow> bool list" where
  "byte_bits b = map (bit b) (rev [0..<8])"

lemma byte_leading_zeros_spec:
  "byte_leading_zeros_from n b = length (takeWhile Not (map (bit b) (rev [0..<n])))"
  by (induction n) simp_all

lemma byte_zero_iff: "b = 0 \<longleftrightarrow> takeWhile Not (byte_bits b) = byte_bits b"
proof -
  have "(\<forall>x \<in> set (byte_bits b). \<not> x) \<longleftrightarrow> (\<forall>n < 8. \<not> bit b n)" by (auto simp: byte_bits_def)
  also have "\<dots> \<longleftrightarrow> b = 0" using bit_imp_le_length [of b] by (auto simp: bit_eq_iff)
  finally show ?thesis by (simp add: takeWhile_eq_all_conv)
qed

lemma leading_zero_bits_spec: "leading_zero_bits bs = length (takeWhile Not (concat (map byte_bits bs)))"
proof (induction bs)
  case Nil
  then show ?case by simp
next
  case (Cons b bs)
  show ?case
  proof (cases "b = 0")
    case True
    then have "takeWhile Not (byte_bits b @ concat (map byte_bits bs)) = byte_bits b @ takeWhile Not (concat (map byte_bits bs))"
      by (intro takeWhile_append2) (auto simp: byte_bits_def)
    moreover have "length (byte_bits b) = 8" by (simp add: byte_bits_def)
    ultimately show ?thesis using True Cons.IH by simp
  next
    case False
    then obtain x where "x \<in> set (byte_bits b)" "\<not> Not x" using byte_zero_iff by (auto simp: takeWhile_eq_all_conv)
    then have "takeWhile Not (byte_bits b @ concat (map byte_bits bs)) = takeWhile Not (byte_bits b)"
      by (rule takeWhile_append1)
    moreover have "byte_leading_zeros b = length (takeWhile Not (byte_bits b))"
      by (simp add: byte_leading_zeros_def byte_leading_zeros_spec byte_bits_def)
    ultimately show ?thesis using False by simp
  qed
qed

lemma takeWhile_Not_length: "k \<le> length (takeWhile Not bs) \<longleftrightarrow> k \<le> length bs \<and> list_all Not (take k bs)"
proof (induction bs arbitrary: k)
  case Nil
  then show ?case by simp
next
  case (Cons b bs)
  then show ?case by (cases k) auto
qed

text \<open>The restore puzzle checks what it says: a nonce is accepted exactly when the digest of the
  challenge and the nonce begins with the required number of zero bits, counted most significant bit
  first; and two restore requests whose asset and address are free of the separator are hashed from
  the same bytes only if asset, address, start height and nonce are the same.\<close>

theorem restore_puzzle_spec:
  "(restore_pow_verify lib a address start_height nonce k \<longleftrightarrow>
     (let bits = concat (map byte_bits (sha256_of lib (challenge_input a address start_height @ le_bytes 8 (unat nonce))))
      in k \<le> length bits \<and> list_all Not (take k bits))) \<and>
   (challenge_input a address start_height @ le_bytes 8 (unat nonce) =
      challenge_input b address' start_height' @ le_bytes 8 (unat nonce') \<longrightarrow>
    CHR 0x1F \<notin> set (a @ b @ address @ address') \<longrightarrow>
    a = b \<and> address = address' \<and> start_height = start_height' \<and> nonce = nonce')"
proof
  show "restore_pow_verify lib a address start_height nonce k \<longleftrightarrow>
     (let bits = concat (map byte_bits (sha256_of lib (challenge_input a address start_height @ le_bytes 8 (unat nonce))))
      in k \<le> length bits \<and> list_all Not (take k bits))"
    by (auto simp: restore_pow_verify_def leading_zero_bits_spec takeWhile_Not_length Let_def)
  have sep: "(0x1F :: byte) \<notin> set (str_bytes s)" if "CHR 0x1F \<notin> set s" for s
  proof
    assume "(0x1F :: byte) \<in> set (str_bytes s)"
    then obtain c where "c \<in> set s" "of_nat (of_char c) = (0x1F :: byte)" by (auto simp: str_bytes_def)
    then have "str_bytes [c] = str_bytes [CHR 0x1F]" by (simp add: str_bytes_def)
    with str_bytes_inj [of "[c]" "[CHR 0x1F]"] \<open>c \<in> set s\<close> that show False by auto
  qed
  have fin: "x = y \<and> m = n" if "le_bytes 8 (unat x) @ le_bytes 8 (unat m) = le_bytes 8 (unat y) @ le_bytes 8 (unat n)"
    for x y m n :: u64
  proof -
    have b: "unat w < 256 ^ 8" for w :: u64 using unsigned_less [of w] by simp
    from that have "le_bytes 8 (unat x) = le_bytes 8 (unat y)" "le_bytes 8 (unat m) = le_bytes 8 (unat n)" by simp_all
    then have "unat x = unat y" "unat m = unat n" using le_bytes_inj b by blast+
    then show ?thesis by (simp add: word_unat_eq_iff)
  qed
  show "challenge_input a address start_height @ le_bytes 8 (unat nonce) =
      challenge_input b address' start_height' @ le_bytes 8 (unat nonce') \<longrightarrow>
    CHR 0x1F \<notin> set (a @ b @ address @ address') \<longrightarrow>
    a = b \<and> address = address' \<and> start_height = start_height' \<and> nonce = nonce'"
  proof (intro impI)
    assume e: "challenge_input a address start_height @ le_bytes 8 (unat nonce) =
        challenge_input b address' start_height' @ le_bytes 8 (unat nonce')"
      and n: "CHR 0x1F \<notin> set (a @ b @ address @ address')"
    from e have "str_bytes a @ 0x1F # (str_bytes address @ 0x1F # (le_bytes 8 (unat start_height) @ le_bytes 8 (unat nonce))) =
        str_bytes b @ 0x1F # (str_bytes address' @ 0x1F # (le_bytes 8 (unat start_height') @ le_bytes 8 (unat nonce')))"
      by (simp add: challenge_input_def)
    then have one: "str_bytes a = str_bytes b \<and>
      str_bytes address @ 0x1F # (le_bytes 8 (unat start_height) @ le_bytes 8 (unat nonce)) =
        str_bytes address' @ 0x1F # (le_bytes 8 (unat start_height') @ le_bytes 8 (unat nonce'))"
      by (rule split_first) (use n sep in auto)
    have two: "str_bytes address = str_bytes address' \<and>
      le_bytes 8 (unat start_height) @ le_bytes 8 (unat nonce) = le_bytes 8 (unat start_height') @ le_bytes 8 (unat nonce')"
      by (rule split_first [OF conjunct2 [OF one]]) (use n sep in auto)
    show "a = b \<and> address = address' \<and> start_height = start_height' \<and> nonce = nonce'"
      using fin [OF conjunct2 [OF two]] str_bytes_inj one two by blast
  qed
qed

theorem restore_puzzle_spec_witness:
  "challenge_input ''xmr'' ''addr'' 7 @ le_bytes 8 (unat (5 :: u64)) \<noteq>
     challenge_input ''wow'' ''addr'' 7 @ le_bytes 8 (unat (5 :: u64))"
proof
  assume e: "challenge_input ''xmr'' ''addr'' 7 @ le_bytes 8 (unat (5 :: u64)) =
     challenge_input ''wow'' ''addr'' 7 @ le_bytes 8 (unat (5 :: u64))"
  from restore_puzzle_spec [of _ "''xmr''" "''addr''" 7 5 _ "''wow''" "''addr''" 7 5] e show False by simp
qed

end
