(* ===== verification/Auth_Api.thy ===== *)
theory Auth_Api
  imports Accounts_Db Auth_Session Nip98 Wallet_Proofs
begin

text \<open>
  \<open>src/src/api/auth.rs\<close>: registration and login by wallet key, by Nostr identity and by refresh
  token, with the gates a new wallet passes, and \<open>client_ip\<close> of \<open>src/src/api/middleware.rs\<close>.

  The state of a handler is the database and the process-wide store of spent puzzle solutions. The
  third-party crates, the payment processor and the clock are the record \<open>auth_env\<close>; the random
  identifiers a request draws are the record \<open>draws\<close>, with one key identifier per submitted key. A
  request reads the clock once. Logging is left out. A panic is \<open>None\<close>.
\<close>

section \<open>Environment\<close>

datatype gate_mode = GateAll | GateAny

record payment_config =
  require_payment :: bool
  pay_amount :: string
  pay_currency :: string
  pay_confirmations :: u32
  pay_expires_minutes :: u32

record auth_config =
  cfg_pow :: pow_config
  public_api_url :: "string option"
  require_invite :: bool
  cfg_payment :: payment_config
  cfg_gate_mode :: gate_mode
  refresh_token_pepper :: string
  access_token_hours :: i64
  refresh_token_days :: i64

datatype invoice_status = InvPending | InvDetected | Settled | InvExpired | InvInvalid

record invoice =
  inv_id :: string
  inv_pay_to :: string
  inv_status :: invoice_status
  inv_bind :: "string option"

record invoice_request =
  ir_amount :: string
  ir_currency :: string
  ir_confirmations :: u32
  ir_bind :: string
  ir_expires_minutes :: u32

record payment_provider =
  provider_kind :: string
  create_invoice :: "invoice_request \<Rightarrow> invoice result"
  get_invoice :: "string \<Rightarrow> invoice result"

record auth_env =
  env_tokens :: token_lib
  env_nostr :: nostr_lib
  env_proofs :: proof_lib
  env_altcha :: altcha
  env_db :: db_handle
  env_jwt_error :: string
  env_clock :: timestamp
  env_date :: "i64 \<Rightarrow> timestamp option"
  env_provider :: "payment_provider option"

record draws =
  dr_user :: uuid
  dr_key :: "nat \<Rightarrow> uuid"
  dr_session :: uuid
  dr_event :: uuid
  dr_nonce :: "byte list"

record auth_state =
  auth_db :: database
  pow_spent :: spent

type_synonym 'a handler = "(auth_state, 'a) action"

definition on_db :: "'a stmt \<Rightarrow> 'a handler" where
  "on_db m = on_part auth_db (\<lambda>d s. s\<lparr>auth_db := d\<rparr>) m"

definition on_spent :: "(spent, 'a) action \<Rightarrow> 'a handler" where
  "on_spent m = on_part pow_spent (\<lambda>p s. s\<lparr>pow_spent := p\<rparr>) m"

text \<open>\<open>Utc::now().timestamp()\<close>\<close>

definition unix_now :: "auth_env \<Rightarrow> i64" where
  "unix_now env = env_clock env div 1000000"

section \<open>Helpers\<close>

definition NIP98_LOGIN_MAX_AGE_SECS :: i64 where
  "NIP98_LOGIN_MAX_AGE_SECS = 120"

definition NIP98_ACTION_MAX_AGE_SECS :: i64 where
  "NIP98_ACTION_MAX_AGE_SECS = 120"

definition NIP98_REJECTED_MSG :: string where
  "NIP98_REJECTED_MSG =
     ''Nostr proof rejected. Check that your device date and time are correct, then try again.''"

definition NOSTR_LINK_NONCE_TTL_SECS :: i64 where
  "NOSTR_LINK_NONCE_TTL_SECS = 300"

definition SIGNED_TS_MAX_DRIFT_SECS :: i64 where
  "SIGNED_TS_MAX_DRIFT_SECS = 300"

definition RESTORE_FAIL_THRESHOLD :: i64 where
  "RESTORE_FAIL_THRESHOLD = 3"

definition RESTORE_IP_THRESHOLD :: i64 where
  "RESTORE_IP_THRESHOLD = 30"

record user_info =
  ui_id :: string
  ui_username :: "string option"
  ui_nostr_pubkey :: "string option"

record auth_response =
  rs_access_token :: string
  rs_refresh_token :: string
  rs_expires_in :: i64
  rs_user :: user_info
  rs_is_new :: bool

record asset_public_key =
  apk_asset :: string
  apk_public_key :: string
  apk_public_spend_key :: "string option"

definition parse_asset :: "string \<Rightarrow> asset_type result" where
  "parse_asset a =
     (let l = to_lowercase a in
      if l = ''btc'' then Inr Btc
      else if l = ''ltc'' then Inr Ltc
      else if l = ''xmr'' then Inr Xmr
      else if l = ''wow'' then Inr Wow
      else if l = ''grin'' then Inr Grin
      else Inl (ValidationError (''Invalid asset: '' @ l)))"

fun parse_keys :: "asset_public_key list \<Rightarrow> (asset_type \<times> string \<times> string option) list result" where
  "parse_keys [] = Inr []"
| "parse_keys (k # ks) =
     try_bind (parse_asset (apk_asset k)) (\<lambda>a.
     try_bind (parse_keys ks) (\<lambda>rest.
       Inr ((a, apk_public_key k, apk_public_spend_key k) # rest)))"

definition username_char :: "char \<Rightarrow> bool" where
  "username_char c \<longleftrightarrow> is_ascii_lower c \<or> is_ascii_digit c \<or> c = CHR ''_''"

definition validate_username :: "string \<Rightarrow> unit result" where
  "validate_username username =
     (if length username < 3 \<or> length username > 32
      then Inl (ValidationError ''Username must be 3-32 characters'')
      else if \<not> list_all username_char username
      then Inl (ValidationError ''Username must contain only lowercase letters, numbers, and underscores'')
      else if hd username = CHR ''_'' \<or> last username = CHR ''_''
      then Inl (ValidationError ''Username cannot start or end with underscore'')
      else Inr ())"

definition pow_applies :: "auth_config \<Rightarrow> string \<Rightarrow> bool" where
  "pow_applies cfg pubkey_hash_lc \<longleftrightarrow> pow_enabled (cfg_pow cfg) \<and> required_for (cfg_pow cfg) pubkey_hash_lc"

definition nip98_url :: "auth_config \<Rightarrow> string \<Rightarrow> string result" where
  "nip98_url cfg path =
     try_bind (ok_or (public_api_url cfg) (AuthError ''Nostr authentication is not enabled''))
       (\<lambda>base. Inr (trim_end_matches (CHR ''/'') base @ path))"

definition rotation_message :: "auth_config \<Rightarrow> string \<Rightarrow> i64 \<Rightarrow> string option" where
  "rotation_message cfg new_pubkey_hash signed_timestamp =
     (case public_api_url cfg of
        None \<Rightarrow> None
      | Some base \<Rightarrow> Some (''smirk-rotate-v1|'' @ trim_end_matches (CHR ''/'') base @ ''|'' @
          new_pubkey_hash @ ''|'' @ int_to_string signed_timestamp))"

definition to_user_info :: "auth_env \<Rightarrow> user_row \<Rightarrow> user_info" where
  "to_user_info env r =
     \<lparr>ui_id = uuid_to_string (env_tokens env) (u_id r), ui_username = u_username r,
      ui_nostr_pubkey = u_nostr_pubkey r\<rparr>"

definition hash_refresh_token :: "'a mac_lib_scheme \<Rightarrow> string \<Rightarrow> string \<Rightarrow> string" where
  "hash_refresh_token lib token key = hex_encode lib (hmac_sha256 lib key token)"

definition refresh_hash :: "auth_env \<Rightarrow> auth_config \<Rightarrow> string \<Rightarrow> string" where
  "refresh_hash env cfg token = hash_refresh_token (dh_lib (env_db env)) token (refresh_token_pepper cfg)"

definition issue_session ::
    "auth_env \<Rightarrow> auth_config \<Rightarrow> draws \<Rightarrow> uuid \<Rightarrow> platform \<Rightarrow> string \<Rightarrow> token_pair handler" where
  "issue_session env cfg d user_id plat device_info =
     stmt_bind (stmt_return (create_token_pair (env_tokens env) (env_jwt_error env) (access_token_hours cfg)
         (refresh_token_days cfg) (unix_now env) user_id plat (dr_session d))) (\<lambda>pair.
     stmt_bind (on_db (create_session
         \<lparr>ns_id = dr_session d, ns_user_id = user_id,
          ns_refresh_token_hash = refresh_hash env cfg (tp_refresh_token pair),
          ns_platform = platform_as_str plat, ns_device_info = Some device_info,
          ns_expires_at = env_clock env + seconds (refresh_token_days cfg * 86400)\<rparr>)) (\<lambda>row.
       stmt_return (Inr pair)))"

definition with_draws :: "draws \<Rightarrow> 'a list \<Rightarrow> ('a \<times> uuid) list" where
  "with_draws d keys = zip keys (map (dr_key d) [0..<length keys])"

definition upsert_all_keys :: "draws \<Rightarrow> uuid \<Rightarrow> asset_public_key list \<Rightarrow> unit handler" where
  "upsert_all_keys d user_id keys =
     for_all_do (\<lambda>(k, kid).
       stmt_bind (stmt_return (parse_asset (apk_asset k))) (\<lambda>a.
         on_db (upsert_user_key kid
           \<lparr>nk_user_id = user_id, nk_asset = a, nk_public_key = apk_public_key k,
            nk_public_spend_key = apk_public_spend_key k, nk_key_type = ''primary''\<rparr>)))
       (with_draws d keys)"

definition hash_public_key :: "auth_env \<Rightarrow> string \<Rightarrow> string" where
  "hash_public_key env public_key = hex_encode (env_proofs env) (sha256_of (env_proofs env) (str_bytes public_key))"

definition hash_invite_code :: "auth_env \<Rightarrow> string \<Rightarrow> string" where
  "hash_invite_code env code = hex_encode (env_proofs env) (sha256_of (env_proofs env) (str_bytes code))"

text \<open>What every login ends with: the session, the login event, the response.\<close>

definition auth_response_of :: "auth_env \<Rightarrow> token_pair \<Rightarrow> user_row \<Rightarrow> bool \<Rightarrow> auth_response" where
  "auth_response_of env pair r new =
     \<lparr>rs_access_token = tp_access_token pair, rs_refresh_token = tp_refresh_token pair,
      rs_expires_in = tp_expires_in pair, rs_user = to_user_info env r, rs_is_new = new\<rparr>"

definition sign_in ::
    "auth_env \<Rightarrow> auth_config \<Rightarrow> draws \<Rightarrow> user_row \<Rightarrow> platform \<Rightarrow> string \<Rightarrow> string \<Rightarrow> bool \<Rightarrow> auth_response handler" where
  "sign_in env cfg d r plat device_info event_asset new =
     stmt_bind (issue_session env cfg d (u_id r) plat device_info) (\<lambda>pair.
     stmt_bind (ignoring (on_db (record_login_event (dr_event d) (Some (u_id r)) event_asset
         (platform_as_str plat) None))) (\<lambda>x.
       stmt_return (Inr (auth_response_of env pair r new))))"

section \<open>Gates\<close>

definition enforce_pow ::
    "auth_env \<Rightarrow> auth_config \<Rightarrow> string \<Rightarrow> bool \<Rightarrow> pow_payload option \<Rightarrow> unit handler" where
  "enforce_pow env cfg pubkey_hash_lc returning solution =
     (if returning then stmt_return (Inr ())
      else if pow_applies cfg pubkey_hash_lc then
        (case solution of
           None \<Rightarrow> stmt_return (Inl (ValidationError (''Proof-of-work solution is required to create a new wallet. '' @
             ''Please upgrade to a newer Smirk client.'')))
         | Some p \<Rightarrow> on_spent (verify_payload (env_altcha env) (env_clock env) (cfg_pow cfg) p))
      else
        (case solution of
           None \<Rightarrow> stmt_return (Inr ())
         | Some p \<Rightarrow>
             if pow_enabled (cfg_pow cfg)
             then on_spent (verify_payload (env_altcha env) (env_clock env) (cfg_pow cfg) p)
             else stmt_return (Inr ())))"

datatype gate_plan = PlanOpen | PlanAll | PlanInvite | PlanPayment | RejectBothPresented | RequireOne

definition plan_gates :: "gate_mode \<Rightarrow> bool \<Rightarrow> bool \<Rightarrow> bool \<Rightarrow> bool \<Rightarrow> gate_plan" where
  "plan_gates mode req_invite req_payment has_invite has_payment =
     (if \<not> req_invite \<and> \<not> req_payment then PlanOpen
      else case mode of
        GateAll \<Rightarrow> PlanAll
      | GateAny \<Rightarrow>
          if req_invite \<and> \<not> req_payment then PlanInvite
          else if req_payment \<and> \<not> req_invite then PlanPayment
          else (case (has_invite, has_payment) of
                  (True, True) \<Rightarrow> RejectBothPresented
                | (True, False) \<Rightarrow> PlanInvite
                | (False, True) \<Rightarrow> PlanPayment
                | (False, False) \<Rightarrow> RequireOne))"

definition presented :: "string option \<Rightarrow> string option" where
  "presented x = option_filter (\<lambda>s. s \<noteq> []) (map_option trim x)"

definition require_invite_hash :: "auth_env \<Rightarrow> string option \<Rightarrow> string result" where
  "require_invite_hash env invite_code =
     try_bind (ok_or (presented invite_code)
         (ValidationError ''An invite code is required to register on this instance.''))
       (\<lambda>code. Inr (hash_invite_code env code))"

definition bad_invoice :: app_error where
  "bad_invoice = ValidationError ''Unknown or invalid payment invoice.''"

definition verify_payment_settled ::
    "auth_env \<Rightarrow> auth_config \<Rightarrow> bool \<Rightarrow> string \<Rightarrow> string option \<Rightarrow> string option stmt" where
  "verify_payment_settled env cfg returning pubkey_hash payment_invoice_id =
     (if returning \<or> \<not> require_payment (cfg_payment cfg) then stmt_return (Inr None)
      else
        stmt_bind (require_some (Internal ''payment provider not configured'') (env_provider env)) (\<lambda>provider.
        stmt_bind (require_some (ValidationError (''Registration on this instance requires payment. Request an '' @
            ''invoice from /auth/payment-invoice, pay it, then retry.'')) (presented payment_invoice_id)) (\<lambda>i.
        stmt_bind (get_payment_invoice i) (\<lambda>found.
        stmt_bind (require_some bad_invoice (option_filter (\<lambda>r. pi_pubkey_hash r = pubkey_hash) found)) (\<lambda>row.
        stmt_bind (stmt_return (ensure (pi_consumed_at row = None)
            (ValidationError ''This payment invoice has already been used.''))) (\<lambda>x.
        stmt_bind (stmt_return (get_invoice provider i)) (\<lambda>inv.
        stmt_bind (stmt_return (ensure (inv_status inv = Settled)
            (PaymentPending ''Payment not yet confirmed. Complete the payment and retry.''))) (\<lambda>x.
        stmt_bind (stmt_return (ensure (case inv_bind inv of None \<Rightarrow> True | Some b \<Rightarrow> b = pubkey_hash)
            bad_invoice)) (\<lambda>x.
          stmt_return (Inr (Some i)))))))))))"

record gated_registration =
  gr_invite_code_hash :: "string option"
  gr_payment :: "(string \<times> string) option"

definition plan_gate_consume ::
    "auth_env \<Rightarrow> auth_config \<Rightarrow> string \<Rightarrow> string option \<Rightarrow> string option \<Rightarrow> gated_registration stmt" where
  "plan_gate_consume env cfg pubkey_hash invite_code payment_invoice_id =
     (let settled = verify_payment_settled env cfg False pubkey_hash payment_invoice_id;
          bound = map_option (\<lambda>i. (i, pubkey_hash))
      in case plan_gates (cfg_gate_mode cfg) (require_invite cfg) (require_payment (cfg_payment cfg))
                (presented invite_code \<noteq> None) (presented payment_invoice_id \<noteq> None) of
        PlanOpen \<Rightarrow> stmt_return (Inr \<lparr>gr_invite_code_hash = None, gr_payment = None\<rparr>)
      | PlanAll \<Rightarrow>
          stmt_bind (if require_invite cfg then stmt_return (map_sum id Some (require_invite_hash env invite_code))
                     else stmt_return (Inr None)) (\<lambda>hash.
          stmt_bind settled (\<lambda>i. stmt_return (Inr \<lparr>gr_invite_code_hash = hash, gr_payment = bound i\<rparr>)))
      | PlanInvite \<Rightarrow>
          stmt_bind (stmt_return (require_invite_hash env invite_code)) (\<lambda>hash.
            stmt_return (Inr \<lparr>gr_invite_code_hash = Some hash, gr_payment = None\<rparr>))
      | PlanPayment \<Rightarrow>
          stmt_bind settled (\<lambda>i. stmt_return (Inr \<lparr>gr_invite_code_hash = None, gr_payment = bound i\<rparr>))
      | RejectBothPresented \<Rightarrow>
          stmt_return (Inl (ValidationError ''Present exactly one registration method, not both.''))
      | RequireOne \<Rightarrow>
          stmt_return (Inl (ValidationError (''Registration on this instance requires an invite code or a '' @
            ''settled payment. Choose one and retry.''))))"

definition ensure_username_available :: "bool \<Rightarrow> string option \<Rightarrow> unit stmt" where
  "ensure_username_available returning username =
     (if returning then stmt_return (Inr ())
      else case presented username of
        None \<Rightarrow> stmt_return (Inr ())
      | Some name \<Rightarrow>
          stmt_bind (get_user_by_username name) (\<lambda>found.
            stmt_return (ensure (found = None) (Conflict ''That username is already taken. Choose another.''))))"

section \<open>Registration by wallet key\<close>

record extension_register_request =
  xr_keys :: "asset_public_key list"
  xr_username :: "string option"
  xr_wallet_birthday :: "i64 option"
  xr_seed_fingerprint :: "string option"
  xr_xmr_start_height :: "i64 option"
  xr_wow_start_height :: "i64 option"
  xr_signed_timestamp :: i64
  xr_signature :: string
  xr_rotation_signature :: "string option"
  xr_altcha_solution :: "pow_payload option"
  xr_invite_code :: "string option"
  xr_payment_invoice_id :: "string option"

definition find_btc :: "asset_public_key list \<Rightarrow> asset_public_key option" where
  "find_btc keys = find (\<lambda>k. eq_ignore_ascii_case (apk_asset k) ''btc'') keys"

definition valid_optional_username :: "string option \<Rightarrow> unit result" where
  "valid_optional_username username = (case username of None \<Rightarrow> Inr () | Some u \<Rightarrow> validate_username u)"

text \<open>\<open>(now - req.signed_timestamp).abs()\<close> with overflow checks.\<close>

definition signed_age :: "i64 \<Rightarrow> i64 \<Rightarrow> i64 option" where
  "signed_age now ts = (if in_i64 (now - ts) \<and> now - ts \<noteq> i64_min then Some \<bar>now - ts\<bar> else None)"

definition login_message :: "i64 \<Rightarrow> string" where
  "login_message ts = ''smirk-auth-'' @ int_to_string ts"

text \<open>Re-pointing an existing row to the submitted key, on adoption and on rotation.\<close>

definition move_row ::
    "auth_env \<Rightarrow> auth_config \<Rightarrow> draws \<Rightarrow> extension_register_request \<Rightarrow> string \<Rightarrow> user_row \<Rightarrow> auth_response handler" where
  "move_row env cfg d req pubkey_hash target =
     stmt_bind (enforce_pow env cfg (to_lowercase pubkey_hash) False (xr_altcha_solution req)) (\<lambda>x.
     stmt_bind (on_db (update_pubkey_hash (env_db env) (u_id target) pubkey_hash)) (\<lambda>x.
     stmt_bind (upsert_all_keys d (u_id target) (xr_keys req)) (\<lambda>x.
       sign_in env cfg d target Extension ''Browser Extension'' ''btc'' False)))"

definition adoptable :: "user_row \<Rightarrow> user_key_row option \<Rightarrow> asset_public_key \<Rightarrow> bool" where
  "adoptable target stored_btc btc_key \<longleftrightarrow>
     u_pubkey_hash target = None \<and>
     (case stored_btc of None \<Rightarrow> False | Some k \<Rightarrow> k_public_key k = apk_public_key btc_key)"

definition rotation_proven ::
    "auth_env \<Rightarrow> auth_config \<Rightarrow> extension_register_request \<Rightarrow> string \<Rightarrow> user_key_row option \<Rightarrow> bool" where
  "rotation_proven env cfg req pubkey_hash stored_btc \<longleftrightarrow>
     (case (xr_rotation_signature req, stored_btc,
            rotation_message cfg pubkey_hash (xr_signed_timestamp req)) of
        (Some sg, Some k, Some msg) \<Rightarrow> verify_bitcoin_signature (env_proofs env) msg sg (k_public_key k) = Inr ()
      | _ \<Rightarrow> False)"

definition try_move ::
    "auth_env \<Rightarrow> auth_config \<Rightarrow> draws \<Rightarrow> extension_register_request \<Rightarrow> asset_public_key \<Rightarrow> auth_response option handler" where
  "try_move env cfg d req btc_key =
     (let pubkey_hash = hash_public_key env (apk_public_key btc_key) in
      case xr_seed_fingerprint req of
        None \<Rightarrow> stmt_return (Inr None)
      | Some fp \<Rightarrow>
          stmt_bind (on_db (get_user_by_seed_fingerprint (env_db env) fp)) (\<lambda>found.
            case found of
              None \<Rightarrow> stmt_return (Inr None)
            | Some target \<Rightarrow>
                stmt_bind (on_db (get_user_key (u_id target) Btc)) (\<lambda>stored_btc.
                  if adoptable target stored_btc btc_key \<or> rotation_proven env cfg req pubkey_hash stored_btc
                  then stmt_bind (move_row env cfg d req pubkey_hash target) (\<lambda>r. stmt_return (Inr (Some r)))
                  else stmt_return (Inr None))))"

definition fingerprint_for_row ::
    "auth_env \<Rightarrow> string option \<Rightarrow> user_row option \<Rightarrow> string option stmt" where
  "fingerprint_for_row env seed_fingerprint existing =
     (case seed_fingerprint of
        None \<Rightarrow> stmt_return (Inr None)
      | Some fp \<Rightarrow>
          stmt_bind (get_user_by_seed_fingerprint (env_db env) fp) (\<lambda>found.
            stmt_return (Inr
              (case (found, existing) of
                 (Some owner, Some me) \<Rightarrow> if u_id owner \<noteq> u_id me then None else Some fp
               | (Some owner, None) \<Rightarrow> None
               | (None, _) \<Rightarrow> Some fp))))"

definition request_optionals ::
    "auth_env \<Rightarrow> i64 option \<Rightarrow> string option \<Rightarrow> i64 option \<Rightarrow> i64 option \<Rightarrow> optionals" where
  "request_optionals env birthday fp xmr wow =
     \<lparr>op_wallet_birthday = Option.bind birthday (env_date env), op_seed_fingerprint = fp,
      op_xmr_start_height = xmr, op_wow_start_height = wow\<rparr>"

definition new_user_of :: "string option \<Rightarrow> string option \<Rightarrow> string option \<Rightarrow> optionals \<Rightarrow> new_user" where
  "new_user_of username pubkey_hash nostr_pubkey opt =
     \<lparr>nu_username = username, nu_pubkey_hash = pubkey_hash, nu_nostr_pubkey = nostr_pubkey,
      nu_wallet_birthday = op_wallet_birthday opt, nu_seed_fingerprint = op_seed_fingerprint opt,
      nu_xmr_start_height = op_xmr_start_height opt, nu_wow_start_height = op_wow_start_height opt\<rparr>"

text \<open>A new account: the gate tokens, the user and the keys in one transaction.\<close>

definition register_new ::
    "auth_env \<Rightarrow> auth_config \<Rightarrow> draws \<Rightarrow> string \<Rightarrow> string option \<Rightarrow> string option \<Rightarrow> new_user \<Rightarrow>
     asset_public_key list \<Rightarrow> user_row handler" where
  "register_new env cfg d pay_hash invite_code payment_invoice_id input keys =
     stmt_bind (on_db (ensure_username_available False (nu_username input))) (\<lambda>x.
     stmt_bind (on_db (plan_gate_consume env cfg pay_hash invite_code payment_invoice_id)) (\<lambda>gates.
     stmt_bind (stmt_return (parse_keys keys)) (\<lambda>parsed.
       on_db (create_user_consuming_gates (env_db env) (dr_user d) (gr_invite_code_hash gates)
         (gr_payment gates) input (with_draws d parsed)))))"

definition extension_plain ::
    "auth_env \<Rightarrow> auth_config \<Rightarrow> draws \<Rightarrow> extension_register_request \<Rightarrow> asset_public_key \<Rightarrow>
     user_row option \<Rightarrow> auth_response handler" where
  "extension_plain env cfg d req btc_key existing =
     (let pubkey_hash = hash_public_key env (apk_public_key btc_key) in
      stmt_bind (enforce_pow env cfg (to_lowercase pubkey_hash) (existing \<noteq> None) (xr_altcha_solution req)) (\<lambda>x.
      stmt_bind (on_db (fingerprint_for_row env (xr_seed_fingerprint req) existing)) (\<lambda>fp.
      let opt = request_optionals env (xr_wallet_birthday req) fp (xr_xmr_start_height req) (xr_wow_start_height req) in
      if existing \<noteq> None then
        stmt_bind (on_db (get_or_create_user_by_pubkey_hash (env_db env) (dr_user d) pubkey_hash
            (xr_username req) opt)) (\<lambda>user.
        stmt_bind (upsert_all_keys d (u_id user) (xr_keys req)) (\<lambda>x.
          sign_in env cfg d user Extension ''Browser Extension'' ''btc'' False))
      else
        stmt_bind (register_new env cfg d pubkey_hash (xr_invite_code req) (xr_payment_invoice_id req)
            (new_user_of (xr_username req) (Some pubkey_hash) None opt) (xr_keys req)) (\<lambda>user.
          sign_in env cfg d user Extension ''Browser Extension'' ''btc'' True))))"

definition extension_authenticated ::
    "auth_env \<Rightarrow> auth_config \<Rightarrow> draws \<Rightarrow> extension_register_request \<Rightarrow> asset_public_key \<Rightarrow> auth_response handler" where
  "extension_authenticated env cfg d req btc_key =
     stmt_bind (on_db (get_user_by_pubkey_hash (env_db env) (hash_public_key env (apk_public_key btc_key)))) (\<lambda>existing.
     stmt_bind (if existing = None then try_move env cfg d req btc_key else stmt_return (Inr None)) (\<lambda>moved.
       case moved of
         Some r \<Rightarrow> stmt_return (Inr r)
       | None \<Rightarrow> extension_plain env cfg d req btc_key existing))"

definition extension_register ::
    "auth_env \<Rightarrow> auth_config \<Rightarrow> draws \<Rightarrow> extension_register_request \<Rightarrow> auth_response handler option" where
  "extension_register env cfg d req =
     (case try_bind (ok_or (find_btc (xr_keys req)) (ValidationError ''BTC public key is required'')) (\<lambda>k.
           try_bind (valid_optional_username (xr_username req)) (\<lambda>x. Inr k)) of
        Inl e \<Rightarrow> Some (stmt_return (Inl e))
      | Inr btc_key \<Rightarrow>
          (case signed_age (unix_now env) (xr_signed_timestamp req) of
             None \<Rightarrow> None
           | Some age \<Rightarrow>
               if age > SIGNED_TS_MAX_DRIFT_SECS
               then Some (stmt_return (Inl (ValidationError ''Signed timestamp expired or too far in the future'')))
               else Some (stmt_bind (stmt_return (verify_bitcoin_signature (env_proofs env)
                   (login_message (xr_signed_timestamp req)) (xr_signature req) (apk_public_key btc_key)))
                 (\<lambda>x. extension_authenticated env cfg d req btc_key))))"

section \<open>Registration invoices and restore checks\<close>

record payment_invoice_response =
  pv_invoice_id :: string
  pv_pay_to :: string
  pv_amount :: string
  pv_currency :: string

definition is_ascii_graphic :: "char \<Rightarrow> bool" where
  "is_ascii_graphic c \<longleftrightarrow> (33 :: nat) \<le> of_char c \<and> (of_char c :: nat) \<le> 126"

definition payment_invoice :: "auth_env \<Rightarrow> auth_config \<Rightarrow> string \<Rightarrow> payment_invoice_response handler" where
  "payment_invoice env cfg btc_public_key =
     (let pay = cfg_payment cfg; key = trim btc_public_key; pubkey_hash = hash_public_key env key in
      stmt_bind (stmt_return (ensure (require_payment pay)
          (ValidationError ''This instance does not require registration payment.''))) (\<lambda>x.
      stmt_bind (require_some (Internal ''payment provider not configured'') (env_provider env)) (\<lambda>provider.
      stmt_bind (stmt_return (ensure (\<not> (key = [] \<or> length key > 200 \<or> \<not> list_all is_ascii_graphic key))
          (ValidationError ''Invalid BTC public key.''))) (\<lambda>x.
      stmt_bind (on_db (get_user_by_pubkey_hash (env_db env) pubkey_hash)) (\<lambda>found.
      stmt_bind (stmt_return (ensure (found = None)
          (ValidationError ''This wallet is already registered; no payment is required.''))) (\<lambda>x.
      stmt_bind (stmt_return (create_invoice provider
          \<lparr>ir_amount = pay_amount pay, ir_currency = pay_currency pay, ir_confirmations = pay_confirmations pay,
           ir_bind = pubkey_hash, ir_expires_minutes = pay_expires_minutes pay\<rparr>)) (\<lambda>inv.
      stmt_bind (on_db (insert_payment_invoice (inv_id inv) pubkey_hash (provider_kind provider)
          (pay_amount pay) (pay_currency pay))) (\<lambda>x.
        stmt_return (Inr \<lparr>pv_invoice_id = inv_id inv, pv_pay_to = inv_pay_to inv, pv_amount = pay_amount pay,
          pv_currency = pay_currency pay\<rparr>)))))))))"

record check_restore_response =
  cr_exists :: bool
  cr_keys_valid :: "bool option"
  cr_xmr_start_height :: "i64 option"
  cr_wow_start_height :: "i64 option"

definition valid_fingerprint :: "string \<Rightarrow> bool" where
  "valid_fingerprint fp \<longleftrightarrow> list_all is_ascii_hexdigit fp \<and> (length fp = 16 \<or> length fp = 64)"

definition key_on_file :: "user_key_row list \<Rightarrow> asset_public_key \<Rightarrow> bool" where
  "key_on_file stored k =
     (case parse_asset (apk_asset k) of
        Inl e \<Rightarrow> False
      | Inr a \<Rightarrow>
          (case find (\<lambda>x. k_asset x = a) stored of
             None \<Rightarrow> False
           | Some x \<Rightarrow> k_public_key x = apk_public_key k))"

fun all_match_from :: "bool \<Rightarrow> user_key_row list \<Rightarrow> asset_public_key list \<Rightarrow> bool" where
  "all_match_from acc stored [] = acc"
| "all_match_from acc stored (k # ks) =
     all_match_from (if key_on_file stored k then acc else False) stored ks"

definition check_restore ::
    "auth_env \<Rightarrow> draws \<Rightarrow> string \<Rightarrow> string \<Rightarrow> asset_public_key list \<Rightarrow> check_restore_response handler" where
  "check_restore env d ip fingerprint keys =
     stmt_bind (stmt_return (ensure (valid_fingerprint fingerprint)
         (ValidationError ''Invalid fingerprint format (expected 16 or 64 hex characters)''))) (\<lambda>x.
     stmt_bind (on_db (count_ip_restore_attempts (env_db env) ip)) (\<lambda>ip_attempts.
     stmt_bind (stmt_return (ensure (\<not> int ip_attempts \<ge> RESTORE_IP_THRESHOLD) RateLimited)) (\<lambda>x.
     stmt_bind (on_db (count_failed_restore_attempts (env_db env) fingerprint)) (\<lambda>failed.
     stmt_bind (stmt_return (ensure (\<not> int failed \<ge> RESTORE_FAIL_THRESHOLD) RateLimited)) (\<lambda>x.
     stmt_bind (on_db (get_user_by_seed_fingerprint (env_db env) fingerprint)) (\<lambda>user.
     stmt_bind (case user of None \<Rightarrow> stmt_return (Inr []) | Some u \<Rightarrow> on_db (get_user_keys (u_id u))) (\<lambda>stored.
     let all_match = all_match_from (keys \<noteq> []) stored keys in
     case user of
       None \<Rightarrow>
         stmt_bind (ignoring (on_db (record_restore_attempt (env_db env) (dr_event d) fingerprint (Some ip) False))) (\<lambda>x.
           stmt_return (Inr \<lparr>cr_exists = False, cr_keys_valid = None, cr_xmr_start_height = None,
             cr_wow_start_height = None\<rparr>))
     | Some u \<Rightarrow>
         stmt_bind (ignoring (on_db (record_restore_attempt (env_db env) (dr_event d) fingerprint (Some ip) all_match))) (\<lambda>x.
           stmt_return (Inr \<lparr>cr_exists = True, cr_keys_valid = Some all_match,
             cr_xmr_start_height = u_xmr_start_height u, cr_wow_start_height = u_wow_start_height u\<rparr>)))))))))"

section \<open>Refresh, logout and the signed-in user\<close>

definition refresh_token :: "auth_env \<Rightarrow> auth_config \<Rightarrow> draws \<Rightarrow> string \<Rightarrow> auth_response handler" where
  "refresh_token env cfg d token =
     stmt_bind (stmt_return (verify_refresh_token (env_tokens env) token)) (\<lambda>(user_id, sid).
     stmt_bind (on_db (get_session_by_token_hash (refresh_hash env cfg token))) (\<lambda>found.
     stmt_bind (require_some bad_token found) (\<lambda>session.
     stmt_bind (stmt_return (ensure (s_user_id session = user_id) bad_token)) (\<lambda>x.
     stmt_bind (on_db (get_user_by_id user_id)) (\<lambda>found_user.
     stmt_bind (require_some bad_token found_user) (\<lambda>user.
     stmt_bind (stmt_return (platform_from_str (s_platform session))) (\<lambda>plat.
     stmt_bind (on_db (revoke_session (s_id session))) (\<lambda>revoked.
     stmt_bind (stmt_return (ensure revoked bad_token)) (\<lambda>x.
     stmt_bind (issue_session env cfg d (u_id user) plat
         (case s_device_info session of None \<Rightarrow> ''unknown'' | Some i \<Rightarrow> i)) (\<lambda>pair.
     stmt_bind (on_db (update_user_last_seen (u_id user))) (\<lambda>x.
       stmt_return (Inr (auth_response_of env pair user False)))))))))))))"

definition logout :: "auth_env \<Rightarrow> auth_config \<Rightarrow> string \<Rightarrow> bool handler" where
  "logout env cfg token =
     stmt_bind (on_db (get_session_by_token_hash (refresh_hash env cfg token))) (\<lambda>found.
     stmt_bind (case found of
         None \<Rightarrow> stmt_return (Inr ())
       | Some session \<Rightarrow> ignoring (on_db (revoke_session (s_id session)))) (\<lambda>x.
       stmt_return (Inr True)))"

definition get_me :: "auth_env \<Rightarrow> string option \<Rightarrow> user_info handler" where
  "get_me env header =
     stmt_bind (on_db (extract_user_id_from_token (env_tokens env) header)) (\<lambda>user_id.
     stmt_bind (on_db (get_user_by_id user_id)) (\<lambda>found.
     stmt_bind (require_some bad_token found) (\<lambda>user.
       stmt_return (Inr (to_user_info env user)))))"

section \<open>Nostr identities\<close>

definition nip98_checked :: "string nip98_result \<Rightarrow> string result" where
  "nip98_checked r = (case r of Inl e \<Rightarrow> Inl (AuthError NIP98_REJECTED_MSG) | Inr k \<Rightarrow> Inr k)"

definition nostr_login :: "auth_env \<Rightarrow> auth_config \<Rightarrow> draws \<Rightarrow> string option \<Rightarrow> auth_response handler" where
  "nostr_login env cfg d header =
     stmt_bind (require_some (AuthError ''Missing authorization header'') header) (\<lambda>auth.
     stmt_bind (stmt_return (nip98_url cfg ''/auth/nostr'')) (\<lambda>url.
     stmt_bind (stmt_return (nip98_checked (verify_nip98 (env_nostr env) auth url ''POST'' (unix_now env)
         NIP98_LOGIN_MAX_AGE_SECS))) (\<lambda>pubkey.
     stmt_bind (on_db (find_user_by_nostr_pubkey pubkey)) (\<lambda>found.
     stmt_bind (require_some (AuthError (''No account is linked to this Nostr identity. Link it from a '' @
         ''signed-in session first.'')) found) (\<lambda>user.
       sign_in env cfg d user Nostr ''Nostr'' ''btc'' False)))))"

definition nostr_link_challenge :: "auth_env \<Rightarrow> draws \<Rightarrow> string option \<Rightarrow> string handler" where
  "nostr_link_challenge env d header =
     stmt_bind (on_db (extract_user_id_from_token (env_tokens env) header)) (\<lambda>user_id.
       on_db (issue_challenge (env_tokens env) (dr_nonce d) ''nostr_link''
         (Some (uuid_to_string (env_tokens env) user_id)) NOSTR_LINK_NONCE_TTL_SECS))"

definition bad_nonce :: app_error where
  "bad_nonce = AuthError ''Invalid or expired nonce''"

text \<open>The proof both state-changing Nostr endpoints ask for; the descriptor hashes an empty body.\<close>

definition action_proof ::
    "auth_env \<Rightarrow> auth_config \<Rightarrow> string \<Rightarrow> string \<Rightarrow> string \<Rightarrow> string \<Rightarrow> string result" where
  "action_proof env cfg path purpose nonce token =
     try_bind (nip98_url cfg path) (\<lambda>url.
       nip98_checked (verify_signed_action (env_nostr env) token
         \<lparr>sa_url = url, sa_method = ''POST'', sa_purpose = purpose, sa_nonce = nonce,
          sa_payload_sha256 = descriptor_sha256 (env_nostr env)
            (request_descriptor (env_nostr env) ''POST'' (''/api/v1'' @ path) [] []),
          sa_target = None, sa_instance_id = None\<rparr>
         (unix_now env) NIP98_ACTION_MAX_AGE_SECS))"

definition nostr_link ::
    "auth_env \<Rightarrow> auth_config \<Rightarrow> draws \<Rightarrow> string option \<Rightarrow> string \<Rightarrow> string \<Rightarrow> string handler" where
  "nostr_link env cfg d header nostr_token nonce =
     stmt_bind (on_db (extract_user_id_from_token (env_tokens env) header)) (\<lambda>user_id.
     stmt_bind (on_db (consume_challenge nonce ''nostr_link'')) (\<lambda>consumed.
     stmt_bind (require_some bad_nonce consumed) (\<lambda>subject.
     stmt_bind (stmt_return (ensure (subject = Some (uuid_to_string (env_tokens env) user_id)) bad_nonce)) (\<lambda>x.
     stmt_bind (stmt_return (action_proof env cfg ''/auth/nostr/link'' ''nostr_link'' nonce nostr_token)) (\<lambda>pubkey.
     stmt_bind (on_db (set_nostr_pubkey user_id pubkey)) (\<lambda>x.
     stmt_bind (ignoring (on_db (record_login_event (dr_event d) (Some user_id) ''btc''
         (platform_as_str Nostr) None))) (\<lambda>x.
       stmt_return (Inr pubkey))))))))"

definition nostr_register_challenge :: "auth_env \<Rightarrow> draws \<Rightarrow> string handler" where
  "nostr_register_challenge env d =
     on_db (issue_challenge (env_tokens env) (dr_nonce d) ''nostr_register'' None NOSTR_LINK_NONCE_TTL_SECS)"

record nostr_register_request =
  nr_nostr_token :: string
  nr_nonce :: string
  nr_keys :: "asset_public_key list"
  nr_username :: "string option"
  nr_wallet_birthday :: "i64 option"
  nr_seed_fingerprint :: "string option"
  nr_xmr_start_height :: "i64 option"
  nr_wow_start_height :: "i64 option"
  nr_altcha_solution :: "pow_payload option"
  nr_invite_code :: "string option"
  nr_payment_invoice_id :: "string option"

definition nostr_resolve ::
    "auth_env \<Rightarrow> auth_config \<Rightarrow> draws \<Rightarrow> nostr_register_request \<Rightarrow> string \<Rightarrow> bool \<Rightarrow> user_row handler" where
  "nostr_resolve env cfg d req pubkey returning =
     (let opt = request_optionals env (nr_wallet_birthday req) (nr_seed_fingerprint req)
            (nr_xmr_start_height req) (nr_wow_start_height req) in
      if returning then
        stmt_bind (on_db (get_or_create_user_by_nostr_pubkey (env_db env) (dr_user d) pubkey
            (nr_username req) opt)) (\<lambda>user.
        stmt_bind (upsert_all_keys d (u_id user) (nr_keys req)) (\<lambda>x.
          stmt_return (Inr user)))
      else
        stmt_bind (case nr_seed_fingerprint req of
            None \<Rightarrow> stmt_return (Inr None)
          | Some fp \<Rightarrow> on_db (get_user_by_seed_fingerprint (env_db env) fp)) (\<lambda>same_seed.
        stmt_bind (stmt_return (ensure (same_seed = None) (Conflict (''This wallet already has an account. Sign in '' @
            ''with your existing credentials and link your Nostr identity from settings.'')))) (\<lambda>x.
          register_new env cfg d
            (case find_btc (nr_keys req) of None \<Rightarrow> pubkey | Some k \<Rightarrow> hash_public_key env (apk_public_key k))
            (nr_invite_code req) (nr_payment_invoice_id req)
            (new_user_of (nr_username req) None (Some pubkey) opt) (nr_keys req))))"

definition nostr_register :: "auth_env \<Rightarrow> auth_config \<Rightarrow> draws \<Rightarrow> nostr_register_request \<Rightarrow> auth_response handler" where
  "nostr_register env cfg d req =
     stmt_bind (stmt_return (valid_optional_username (nr_username req))) (\<lambda>x.
     stmt_bind (on_db (consume_challenge (nr_nonce req) ''nostr_register'')) (\<lambda>consumed.
     stmt_bind (require_some bad_nonce consumed) (\<lambda>subject.
     stmt_bind (stmt_return (action_proof env cfg ''/auth/nostr/register'' ''nostr_register'' (nr_nonce req)
         (nr_nostr_token req))) (\<lambda>pubkey.
     stmt_bind (on_db (find_user_by_nostr_pubkey pubkey)) (\<lambda>found.
     stmt_bind (enforce_pow env cfg pubkey (found \<noteq> None) (nr_altcha_solution req)) (\<lambda>x.
     stmt_bind (nostr_resolve env cfg d req pubkey (found \<noteq> None)) (\<lambda>user.
       sign_in env cfg d user Nostr ''Nostr'' ''nostr'' (found = None))))))))"

section \<open>The client address\<close>

text \<open>The textual syntax of an address and membership in a network are parameters.\<close>

definition client_ip ::
    "(string \<Rightarrow> 'ip option) \<Rightarrow> ('net \<Rightarrow> 'ip \<Rightarrow> bool) \<Rightarrow> 'net list \<Rightarrow> string option \<Rightarrow> 'ip \<Rightarrow> 'ip" where
  "client_ip parse net_contains trusted_proxies xff peer_ip =
     (if \<not> list_ex (\<lambda>net. net_contains net peer_ip) trusted_proxies then peer_ip
      else case Option.bind (map_option (\<lambda>h. trim (takeWhile (\<lambda>c. c \<noteq> CHR '','') h)) xff) parse of
        None \<Rightarrow> peer_ip
      | Some i \<Rightarrow> i)"

end
