(* ===== verification/Account_Rules.thy ===== *)
theory Account_Rules
  imports Accounts_Db Auth_Session
begin

text \<open>
  What the statements behind an account can change. Two bounds are stated for all of them.

  \<open>accounts_ok\<close> is what the schema promises: primary keys and identity columns are unique, there is one
  key per user, asset and key type, and every key and session belongs to a user. \<open>keeps_accounts\<close>
  says that a statement preserves it.

  \<open>untouched i\<close> says that the account with identifier \<open>i\<close>, once it exists, is left as it is: its row,
  its keys and its sessions.
\<close>

section \<open>The invariant\<close>

definition col_unique :: "(user_row \<Rightarrow> string option) \<Rightarrow> user_row list \<Rightarrow> bool" where
  "col_unique col rows \<longleftrightarrow>
     (\<forall>r \<in> set rows. \<forall>r' \<in> set rows. col r \<noteq> None \<longrightarrow> col r = col r' \<longrightarrow> u_id r = u_id r')"

definition identity_columns :: "(user_row \<Rightarrow> string option) list" where
  "identity_columns = [u_username, u_pubkey_hash, u_nostr_pubkey, u_seed_fingerprint]"

definition users_ok :: "user_row list \<Rightarrow> bool" where
  "users_ok rows \<longleftrightarrow> distinct (map u_id rows) \<and> list_all (\<lambda>col. col_unique col rows) identity_columns"

definition key_slot :: "user_key_row \<Rightarrow> uuid \<times> asset_type \<times> string" where
  "key_slot k = (k_user_id k, k_asset k, k_key_type k)"

definition accounts_ok :: "database \<Rightarrow> bool" where
  "accounts_ok db \<longleftrightarrow>
     users_ok (users db) \<and> distinct (map key_slot (user_keys db)) \<and> distinct (map k_id (user_keys db)) \<and>
     distinct (map s_id (sessions db)) \<and>
     k_user_id ` set (user_keys db) \<subseteq> set (user_ids db) \<and> s_user_id ` set (sessions db) \<subseteq> set (user_ids db)"

definition keeps_accounts :: "database \<Rightarrow> database \<Rightarrow> bool" where
  "keeps_accounts db db' \<longleftrightarrow> (accounts_ok db \<longrightarrow> accounts_ok db')"

interpretation accounts: effect_bound keeps_accounts
  by unfold_locales (simp_all add: keeps_accounts_def)

definition account :: "uuid \<Rightarrow> database \<Rightarrow> user_row list \<times> user_key_row list \<times> session_row list" where
  "account i db =
     (filter (\<lambda>r. u_id r = i) (users db), filter (\<lambda>k. k_user_id k = i) (user_keys db),
      filter (\<lambda>s. s_user_id s = i) (sessions db))"

definition untouched :: "uuid \<Rightarrow> database \<Rightarrow> database \<Rightarrow> bool" where
  "untouched i db db' \<longleftrightarrow> (i \<in> set (user_ids db) \<longrightarrow> account i db' = account i db)"

lemma account_exists: "i \<in> set (user_ids db) \<longleftrightarrow> fst (account i db) \<noteq> []"
  by (auto simp: account_def user_ids_def filter_empty_conv)

interpretation untouched: effect_bound "untouched i" for i
proof
  fix s t u
  show "untouched i s s" by (simp add: untouched_def)
  assume "untouched i s t" "untouched i t u"
  then show "untouched i s u" by (auto simp: untouched_def account_exists)
qed

text \<open>A statement on other tables.\<close>

definition same_accounts :: "database \<Rightarrow> database \<Rightarrow> bool" where
  "same_accounts db db' \<longleftrightarrow>
     users db' = users db \<and> user_keys db' = user_keys db \<and> sessions db' = sessions db"

interpretation elsewhere: effect_bound same_accounts
  by unfold_locales (simp_all add: same_accounts_def)

lemma same_accounts_bounds:
  "same_accounts db db' \<Longrightarrow> keeps_accounts db db'" "same_accounts db db' \<Longrightarrow> untouched i db db'"
  by (simp_all add: same_accounts_def keeps_accounts_def accounts_ok_def untouched_def account_def user_ids_def)

lemma within_same_accounts:
  assumes "within same_accounts m"
  shows "within keeps_accounts m" "within (untouched i) m"
  using assms by (rule within_mono, simp add: same_accounts_bounds)+

section \<open>Users\<close>

lemma key_slot_new [simp]: "key_slot (new_key_row now j n) = (nk_user_id n, nk_asset n, nk_key_type n)"
  by (simp add: key_slot_def new_key_row_def)

lemma new_key_row_id: "k_id (new_key_row now j n) = j" "k_user_id (new_key_row now j n) = nk_user_id n"
  by (simp_all add: new_key_row_def)

lemma sql_update_map: "(\<And>r. f (u r) = f r) \<Longrightarrow> map f (sql_update p u rows) = map f rows"
  by (simp add: sql_update_def)

lemma sql_update_image: "(\<And>r. f (u r) = f r) \<Longrightarrow> f ` set (sql_update p u rows) = f ` set rows"
  by (metis sql_update_map set_map)

lemma sql_update_filter:
  "(\<And>r. q (u r) = q r) \<Longrightarrow> (\<And>r. p r \<Longrightarrow> \<not> q r) \<Longrightarrow> filter q (sql_update p u rows) = filter q rows"
  by (induction rows) (auto simp: sql_update_def)

lemma no_clash:
  "\<not> clashes col r rows \<longleftrightarrow> (\<forall>r' \<in> set rows. col r \<noteq> None \<longrightarrow> col r \<noteq> col r')"
  by (auto simp: clashes_def)

lemma no_violation:
  "users_violation r rows = None \<longleftrightarrow>
     u_id r \<notin> u_id ` set rows \<and> list_all (\<lambda>col. \<not> clashes col r rows) identity_columns"
  by (auto simp: users_violation_def identity_columns_def)

lemma col_unique_replace:
  assumes "col_unique col rows" "\<not> clashes col x [r \<leftarrow> rows. u_id r \<noteq> i]" "u_id x = i"
    and "\<forall>r \<in> set rows'. r = x \<or> r \<in> set rows \<and> u_id r \<noteq> i"
  shows "col_unique col rows'"
  using assms(1,2,3) assms(4) unfolding col_unique_def no_clash by (smt (verit) mem_Collect_eq set_filter)

lemma users_ok_append:
  assumes "users_ok rows" "users_violation r rows = None"
  shows "users_ok (rows @ [r])"
proof -
  have id: "u_id r \<notin> u_id ` set rows" using assms(2) by (simp add: no_violation)
  then have others: "[x \<leftarrow> rows. u_id x \<noteq> u_id r] = rows" by (metis (mono_tags, lifting) filter_True image_eqI)
  have "col_unique col (rows @ [r])" if "col_unique col rows" "\<not> clashes col r rows" for col
  proof (rule col_unique_replace [OF that(1)])
    show "\<not> clashes col r [x \<leftarrow> rows. u_id x \<noteq> u_id r]" by (simp only: others that(2) not_False_eq_True)
    show "\<forall>x \<in> set (rows @ [r]). x = r \<or> x \<in> set rows \<and> u_id x \<noteq> u_id r" using id by (auto simp: image_iff)
  qed simp
  with assms id show ?thesis by (auto simp: users_ok_def no_violation list_all_iff)
qed

lemma lookup_update_rows:
  assumes "distinct (map u_id rows)" "lookup_key u_id i rows = Some r" "u_id (f r) = i"
    and "x \<in> set (sql_update (\<lambda>x. u_id x = i) f rows)"
  shows "x = f r \<or> x \<in> set rows \<and> u_id x \<noteq> i"
proof -
  from assms(4) obtain y where y: "y \<in> set rows" "x = (if u_id y = i then f y else y)"
    by (auto simp: set_sql_update)
  with assms(1,2) lookup_key_distinct [OF assms(1) y(1)] show ?thesis by (auto split: if_splits)
qed

lemma users_ok_update:
  assumes "users_ok rows" "lookup_key u_id i rows = Some r" "\<And>r. u_id (f r) = u_id r"
    and "users_violation (f r) [x \<leftarrow> rows. u_id x \<noteq> i] = None"
  shows "users_ok (sql_update (\<lambda>x. u_id x = i) f rows)"
proof -
  let ?new = "sql_update (\<lambda>x. u_id x = i) f rows"
  have ids: "map u_id ?new = map u_id rows" using assms(3) by (simp add: sql_update_def)
  have fi: "u_id (f r) = i" using assms(2,3) by (auto dest: lookup_key_Some)
  have "\<forall>x \<in> set ?new. x = f r \<or> x \<in> set rows \<and> u_id x \<noteq> i"
    using lookup_update_rows [where f = f, OF _ assms(2) fi] assms(1) by (simp add: users_ok_def)
  then have "col_unique col ?new" if "col_unique col rows" "\<not> clashes col (f r) [x \<leftarrow> rows. u_id x \<noteq> i]" for col
    using col_unique_replace [OF that fi] by blast
  with assms(1,4) ids show ?thesis by (auto simp: users_ok_def no_violation list_all_iff)
qed

lemma user_ids_update:
  "(\<And>r. u_id (f r) = u_id r) \<Longrightarrow>
     user_ids (db\<lparr>users := sql_update p f (users db)\<rparr>) = user_ids db"
  by (simp add: user_ids_def sql_update_def)

lemma within_insert_user:
  "within keeps_accounts (map_err g (insert_user h j input))"
  "within (untouched i) (map_err g (insert_user h j input))"
  unfolding insert_user_def
  by (rule within_run_sql;
      auto simp: keeps_accounts_def untouched_def accounts_ok_def account_def Let_def user_ids_def
        intro: users_ok_append split: option.splits;
      auto simp: no_violation)+

lemma insert_user_Inr:
  assumes "insert_user h j input db = (Inr r, db')"
  shows "r = new_user_row h (db_now db) j input" "u_id r = j" "j \<notin> set (user_ids db)"
    "users_violation r (users db) = None" "db' = db\<lparr>users := users db @ [r]\<rparr>"
  using assms
  by (auto simp: insert_user_def run_sql_Inr Let_def user_ids_def no_violation new_user_row_def split: option.splits)

lemma within_update_user:
  assumes "\<And>now r. u_id (u now r) = u_id r"
  shows "within keeps_accounts (map_err g (update_user j u))"
    "j \<noteq> i \<Longrightarrow> within (untouched i) (map_err g (update_user j u))"
proof -
  show "within keeps_accounts (map_err g (update_user j u))"
    unfolding update_user_def
    by (rule within_run_sql)
       (auto simp: keeps_accounts_def accounts_ok_def user_ids_update assms users_ok_update split: option.splits)
  assume ne: "j \<noteq> i"
  then have "filter (\<lambda>r. u_id r = i) (sql_update (\<lambda>x. u_id x = j) (u t) rows) = filter (\<lambda>r. u_id r = i) rows" for t rows
    using assms by (intro sql_update_filter) auto
  then show "within (untouched i) (map_err g (update_user j u))"
    unfolding update_user_def
    by (intro within_run_sql) (auto simp: untouched_def account_def split: option.splits)
qed

lemma one_row_snd [simp]: "snd (one_row m db) = snd (m db)"
  by (auto simp: one_row_def split: prod.splits sum.splits option.splits)

lemma within_one_row: "within R (map_err sql_error m) \<Longrightarrow> within R (map_err g (one_row m))"
  by (simp add: within_def)

lemma update_user_Inr:
  "update_user j u db = (Inr (Some r), db') \<Longrightarrow> \<exists>old. lookup_key u_id j (users db) = Some old \<and> r = u (db_now db) old"
  by (auto simp: update_user_def run_sql_Inr split: option.splits)

section \<open>Keys and sessions\<close>

lemma same_key_slot: "same_key n k \<longleftrightarrow> key_slot k = (nk_user_id n, nk_asset n, nk_key_type n)"
  by (auto simp: same_key_def key_slot_def)

lemma replace_key_fields [simp]:
  "key_slot (replace_key now n k) = key_slot k" "k_id (replace_key now n k) = k_id k"
  "k_user_id (replace_key now n k) = k_user_id k"
  by (simp_all add: replace_key_def key_slot_def)

lemma upsert_user_key_cases:
  assumes "upsert_user_key i n db = (r, db')"
  obtains (same) "db' = db"
  | (replaced) "db' = db\<lparr>user_keys := sql_update (same_key n) (replace_key (db_now db) n) (user_keys db)\<rparr>"
  | (added) "list_all (\<lambda>k. \<not> same_key n k) (user_keys db)" "nk_user_id n \<in> set (user_ids db)"
      "i \<notin> k_id ` set (user_keys db)" "db' = db\<lparr>user_keys := user_keys db @ [new_key_row (db_now db) i n]\<rparr>"
proof (cases r)
  case (Inl e)
  with assms show thesis using same by (auto simp: upsert_user_key_def dest: sql_Inl)
next
  case (Inr x)
  show thesis
  proof (cases "fetch_optional (sql_returning (same_key n) (replace_key (db_now db) n) (user_keys db))")
    case None
    then have "list_all (\<lambda>k. \<not> same_key n k) (user_keys db)"
      by (simp add: fetch_optional_None sql_returning_Nil list_all_iff)
    with None Inr assms show thesis
      by (intro added) (auto simp: upsert_user_key_def sql_Inr Let_def split: if_splits)
  next
    case (Some k)
    with Inr assms show thesis by (intro replaced) (simp add: upsert_user_key_def sql_Inr)
  qed
qed

lemma within_upsert_user_key:
  "within keeps_accounts (upsert_user_key j n)"
  "nk_user_id n \<noteq> i \<Longrightarrow> within (untouched i) (upsert_user_key j n)"
proof -
  show "within keeps_accounts (upsert_user_key j n)"
  proof (rule withinI)
    fix db
    obtain r db' where r: "upsert_user_key j n db = (r, db')" by fastforce
    show "keeps_accounts db (snd (upsert_user_key j n db))"
      using r
      by (cases rule: upsert_user_key_cases)
         (auto simp: r keeps_accounts_def accounts_ok_def user_ids_def sql_update_map sql_update_image
           list_all_iff same_key_slot image_iff new_key_row_id)
  qed
  assume ne: "nk_user_id n \<noteq> i"
  show "within (untouched i) (upsert_user_key j n)"
  proof (rule withinI)
    fix db
    obtain r db' where r: "upsert_user_key j n db = (r, db')" by fastforce
    show "untouched i db (snd (upsert_user_key j n db))"
      using r ne
      by (cases rule: upsert_user_key_cases)
         (auto simp: r untouched_def account_def new_key_row_def same_key_def intro!: sql_update_filter)
  qed
qed

lemma within_create_session:
  "within keeps_accounts (create_session ns)"
  "ns_user_id ns \<noteq> i \<Longrightarrow> within (untouched i) (create_session ns)"
  by (auto simp: within_def create_session_def keeps_accounts_def accounts_ok_def untouched_def account_def
      Let_def user_ids_def)

lemma set_revoked_fields [simp]:
  "s_id (set_revoked now r) = s_id r" "s_user_id (set_revoked now r) = s_user_id r"
  by (simp_all add: set_revoked_def)

lemma within_revoke_session: "within keeps_accounts (revoke_session j)"
  by (auto simp: within_def revoke_session_def update_sessions_def keeps_accounts_def accounts_ok_def user_ids_def
      sql_update_map sql_update_image)

lemma revoke_session_untouched:
  assumes "\<And>r. r \<in> set (sessions db) \<Longrightarrow> s_id r = j \<Longrightarrow> s_user_id r \<noteq> i"
  shows "untouched i db (snd (revoke_session j db))"
proof -
  have "filter (\<lambda>s. s_user_id s = i) (sql_update (\<lambda>r. s_id r = j \<and> s_revoked_at r = None) (set_revoked t) rows) =
      filter (\<lambda>s. s_user_id s = i) rows" if "\<And>r. r \<in> set rows \<Longrightarrow> s_id r = j \<Longrightarrow> s_user_id r \<noteq> i" for t rows
    using that by (induction rows) (auto simp: sql_update_def)
  with assms show ?thesis
    by (auto simp: revoke_session_def update_sessions_def untouched_def account_def)
qed

section \<open>Statements on other tables\<close>

lemma same_accounts_sql:
  "(\<And>db x db'. f db = Inr (x, db') \<Longrightarrow> same_accounts db db') \<Longrightarrow> within same_accounts (sql f)"
  by (rule within_sql) (simp_all add: same_accounts_def)

lemma elsewhere_statements:
  "within same_accounts (claim_invite_code ch)"
  "within same_accounts (consume_payment_invoice code pk)"
  "within same_accounts (insert_payment_invoice code pk pr am cu)"
  "within same_accounts (record_login_event j u a pl orig)"
  "within same_accounts (record_restore_attempt h j fp ip ok)"
  by (auto simp: claim_invite_code_def consume_payment_invoice_def insert_payment_invoice_def Let_def
      record_login_event_def record_restore_attempt_def same_accounts_def intro!: same_accounts_sql split: if_splits)

lemma elsewhere_challenges:
  "within same_accounts (issue_challenge lib rnd p s t)"
  "within same_accounts (consume_challenge n p)"
  by (auto simp: within_def issue_challenge_def consume_challenge_def Let_def same_accounts_def)

lemma elsewhere_gates:
  "within same_accounts (claim_invite_step c)" "within same_accounts (consume_invoice_step p)"
  unfolding claim_invite_step_def consume_invoice_step_def
  by (intro within_intros elsewhere.within_rules elsewhere_statements)+

section \<open>Creating an account\<close>

lemma reads_select_user: "reads (select_user p)"
  by (simp add: select_user_def reads_query)

lemma reads_lookups:
  "reads (get_user_by_id i)" "reads (get_user_by_pubkey_hash h v)" "reads (get_user_by_seed_fingerprint h v)"
  "reads (get_user_by_username n)" "reads (find_user_by_nostr_pubkey k)" "reads (get_user_key i a)"
  "reads (get_user_keys i)" "reads (get_payment_invoice code)" "reads (count_ip_restore_attempts h ip)"
  "reads (count_failed_restore_attempts h fp)" "reads (get_session_by_token_hash th)"
  by (simp_all add: get_user_by_id_def get_user_by_pubkey_hash_def get_user_by_seed_fingerprint_def
      get_user_by_username_def find_user_by_nostr_pubkey_def reads_select_user get_user_key_def get_user_keys_def
      get_payment_invoice_def count_ip_restore_attempts_def count_failed_restore_attempts_def
      get_session_by_token_hash_def reads_query)

lemma select_user_Inr:
  "select_user p db = (Inr x, db') \<longleftrightarrow> \<not> db_outage db \<and> db' = db \<and> x = fetch_optional (filter p (users db))"
  by (auto simp: select_user_def query_def)

lemma within_create_user:
  "within keeps_accounts (create_user h j input)" "within (untouched i) (create_user h j input)"
  by (simp_all add: create_user_def within_insert_user)

lemma within_backfill:
  "within keeps_accounts (backfill_optionals h existing opt)"
  "u_id existing \<noteq> i \<Longrightarrow> within (untouched i) (backfill_optionals h existing opt)"
  unfolding backfill_optionals_def
  by (intro within_intros accounts.within_rules untouched.within_rules within_one_row within_update_user;
      simp add: set_optionals_def)+

lemma backfill_user:
  assumes "backfill_optionals h existing opt db = (Inr r, db')"
  shows "u_id r = u_id existing"
  using assms
  by (auto simp: backfill_optionals_def one_row_def set_optionals_def
      dest!: update_user_Inr dest: lookup_key_Some split: if_splits prod.splits sum.splits option.splits)

lemma within_create_gated:
  "within keeps_accounts (create_user_consuming_gates h j code pay input keys)"
  unfolding create_user_consuming_gates_def
  by (intro within_intros accounts.within_rules within_insert_user within_upsert_user_key
      within_same_accounts(1) [OF elsewhere_gates(1)] within_same_accounts(1) [OF elsewhere_gates(2)])

lemma create_gated_user:
  assumes "create_user_consuming_gates h j code pay input keys db = (Inr r, db')"
  shows "u_id r = j" "j \<notin> set (user_ids db)"
proof -
  from assms obtain d1 d2 d3 where
    g: "claim_invite_step code db = (Inr (), d1)" "consume_invoice_step pay d1 = (Inr (), d2)"
    and i: "insert_user h j input d2 = (Inr r, d3)"
    by (auto simp: create_user_consuming_gates_def transaction_Inr stmt_bind_Inr)
  have "users d1 = users db" "users d2 = users d1"
    using withinE [OF elsewhere_gates(1) g(1)] withinE [OF elsewhere_gates(2) g(2)]
    by (simp_all add: same_accounts_def)
  with insert_user_Inr [OF i] show "u_id r = j" "j \<notin> set (user_ids db)" by (simp_all add: user_ids_def)
qed

lemma create_gated_untouched: "within (untouched i) (create_user_consuming_gates h j code pay input keys)"
proof (cases "i = j")
  case True
  show ?thesis
  proof (rule withinI)
    fix db
    show "untouched i db (snd (create_user_consuming_gates h j code pay input keys db))"
    proof (cases "create_user_consuming_gates h j code pay input keys db")
      case (Pair r db')
      show ?thesis
      proof (cases r)
        case (Inl e)
        then have "snd (create_user_consuming_gates h j code pay input keys db) = db"
          using Pair unfolding create_user_consuming_gates_def by (intro transaction_Inl) auto
        then show ?thesis by (simp add: untouched_def)
      next
        case (Inr u)
        with Pair create_gated_user(2) True show ?thesis by (auto simp: untouched_def)
      qed
    qed
  qed
next
  case False
  have made: "within (untouched i) (stmt_bind (map_err registration_conflict (insert_user h j input)) (\<lambda>user.
      stmt_bind (for_all_do (\<lambda>((a, pk, spend), kid). upsert_user_key kid
          \<lparr>nk_user_id = u_id user, nk_asset = a, nk_public_key = pk, nk_public_spend_key = spend,
           nk_key_type = ''primary''\<rparr>) keys) (\<lambda>x. stmt_return (Inr user))))"
    using False
    by (intro untouched.within_bind_result [OF within_insert_user(2)] untouched.within_rules within_intros
        within_upsert_user_key) (auto dest: insert_user_Inr(2))
  show ?thesis
    unfolding create_user_consuming_gates_def
    by (rule untouched.within_transaction)
       (rule untouched.within_bind [OF within_same_accounts(2) [OF elsewhere_gates(1)]],
        rule untouched.within_bind [OF within_same_accounts(2) [OF elsewhere_gates(2)]], rule made)
qed

end
