(* ===== verification/Auth_Safety.thy ===== *)
theory Auth_Safety
  imports Auth_Api Account_Rules
begin

text \<open>
  What the handlers of \<open>Auth_Api\<close> promise. A request is a value of \<open>auth_request\<close>; \<open>serve\<close> is the state
  after it. \<open>entitled\<close> says what a request has to prove before an existing account may change.
\<close>

section \<open>Requests\<close>

datatype auth_request =
    ExtensionRegister extension_register_request
  | PaymentInvoice string
  | CheckRestore string string "asset_public_key list"
  | Refresh string
  | Logout string
  | Me "string option"
  | NostrLogin "string option"
  | NostrLinkChallenge "string option"
  | NostrLink "string option" string string
  | NostrRegisterChallenge
  | NostrRegister nostr_register_request

fun serve :: "auth_env \<Rightarrow> auth_config \<Rightarrow> draws \<Rightarrow> auth_request \<Rightarrow> auth_state \<Rightarrow> auth_state" where
  "serve env cfg d (ExtensionRegister req) s =
     (case extension_register env cfg d req of None \<Rightarrow> s | Some m \<Rightarrow> snd (m s))"
| "serve env cfg d (PaymentInvoice key) s = snd (payment_invoice env cfg key s)"
| "serve env cfg d (CheckRestore ip fp keys) s = snd (check_restore env d ip fp keys s)"
| "serve env cfg d (Refresh token) s = snd (refresh_token env cfg d token s)"
| "serve env cfg d (Logout token) s = snd (logout env cfg token s)"
| "serve env cfg d (Me header) s = snd (get_me env header s)"
| "serve env cfg d (NostrLogin header) s = snd (nostr_login env cfg d header s)"
| "serve env cfg d (NostrLinkChallenge header) s = snd (nostr_link_challenge env d header s)"
| "serve env cfg d (NostrLink header token nonce) s = snd (nostr_link env cfg d header token nonce s)"
| "serve env cfg d NostrRegisterChallenge s = snd (nostr_register_challenge env d s)"
| "serve env cfg d (NostrRegister req) s = snd (nostr_register env cfg d req s)"

section \<open>Bounds on the state of a handler\<close>

definition on_state :: "(database \<Rightarrow> database \<Rightarrow> bool) \<Rightarrow> auth_state \<Rightarrow> auth_state \<Rightarrow> bool" where
  "on_state R s t \<longleftrightarrow> R (auth_db s) (auth_db t)"

lemma effect_bound_on_state: "effect_bound R \<Longrightarrow> effect_bound (on_state R)"
  unfolding effect_bound_def on_state_def by blast

interpretation st_accounts: effect_bound "on_state keeps_accounts"
  by (rule effect_bound_on_state) (rule accounts.effect_bound_axioms)

interpretation st_untouched: effect_bound "on_state (untouched i)" for i
  by (rule effect_bound_on_state) (rule untouched.effect_bound_axioms)

lemma auth_db_on_db: "auth_db (snd (on_db m s)) = snd (m (auth_db s))"
  by (simp add: on_db_def on_part_def split: prod.split)

lemma within_on_db: "within R m \<Longrightarrow> within (on_state R) (on_db m)"
  by (simp add: within_def on_state_def auth_db_on_db)

lemma on_db_Inr:
  "on_db m s = (Inr x, s') \<longleftrightarrow> m (auth_db s) = (Inr x, auth_db s') \<and> s' = s\<lparr>auth_db := auth_db s'\<rparr>"
  by (auto simp: on_db_def on_part_def split: prod.splits)

lemma on_db_reads:
  assumes "reads m"
  shows "on_db m s = (r, s') \<longleftrightarrow> s' = s \<and> fst (m (auth_db s)) = r"
  using reads_snd [OF assms, of "auth_db s"] by (auto simp: on_db_def on_part_def split: prod.splits)

lemma auth_db_on_spent [simp]: "auth_db (snd (on_spent m s)) = auth_db s"
  by (simp add: on_spent_def on_part_def split: prod.split)

lemma enforce_pow_db [simp]: "auth_db (snd (enforce_pow env cfg pk returning sol s)) = auth_db s"
  by (auto simp: enforce_pow_def split: option.split)

lemma enforce_pow_same: "enforce_pow env cfg pk returning sol s = (r, s') \<Longrightarrow> auth_db s' = auth_db s"
  by (metis enforce_pow_db snd_conv)

lemma within_enforce_pow:
  "within (on_state keeps_accounts) (enforce_pow env cfg pk returning sol)"
  "within (on_state (untouched i)) (enforce_pow env cfg pk returning sol)"
  by (simp_all add: within_def on_state_def accounts.refl untouched.refl)

lemmas reads_on_db =
  reads_lookups [THEN accounts.within_reads, THEN within_on_db]
  reads_lookups [THEN untouched.within_reads, THEN within_on_db]

lemmas elsewhere_on_db =
  elsewhere_statements [THEN within_same_accounts(1), THEN within_on_db]
  elsewhere_statements [THEN within_same_accounts(2), THEN within_on_db]
  elsewhere_challenges [THEN within_same_accounts(1), THEN within_on_db]
  elsewhere_challenges [THEN within_same_accounts(2), THEN within_on_db]

lemma reads_extract: "reads (extract_user_id_from_token lib header)"
  by (simp add: within_def)

lemma reads_payment_settled: "reads (verify_payment_settled env cfg ret pk pid)"
  unfolding verify_payment_settled_def by (intro within_intros unchanged.within_rules reads_lookups)

lemma reads_gate_plan: "reads (plan_gate_consume env cfg pk code pid)"
  unfolding plan_gate_consume_def Let_def
  by (cases "plan_gates (cfg_gate_mode cfg) (require_invite cfg) (require_payment (cfg_payment cfg))
        (presented code \<noteq> None) (presented pid \<noteq> None)"; simp only: gate_plan.case)
     (intro within_intros unchanged.within_rules reads_payment_settled)+

lemma reads_plans:
  "reads (verify_payment_settled env cfg ret pk pid)" "reads (plan_gate_consume env cfg pk code pid)"
  "reads (ensure_username_available ret name)" "reads (fingerprint_for_row env fp existing)"
  unfolding ensure_username_available_def fingerprint_for_row_def
  by (intro within_intros unchanged.within_rules reads_lookups reads_payment_settled reads_gate_plan)+

lemmas plans_on_db =
  reads_plans [THEN accounts.within_reads, THEN within_on_db]
  reads_plans [THEN untouched.within_reads, THEN within_on_db]
  reads_extract [THEN accounts.within_reads, THEN within_on_db]
  reads_extract [THEN untouched.within_reads, THEN within_on_db]

lemmas at_reads = reads_query [THEN on_db_reads] reads_lookups [THEN on_db_reads] reads_plans [THEN on_db_reads] reads_extract [THEN on_db_reads]

section \<open>Parts of the handlers\<close>

lemma within_issue_session:
  "within (on_state keeps_accounts) (issue_session env cfg d j plat dev)"
  "j \<noteq> i \<Longrightarrow> within (on_state (untouched i)) (issue_session env cfg d j plat dev)"
  unfolding issue_session_def
  by (intro st_accounts.within_rules st_untouched.within_rules within_on_db within_create_session; simp)+

lemma within_sign_in:
  "within (on_state keeps_accounts) (sign_in env cfg d r plat dev ev new)"
  "u_id r \<noteq> i \<Longrightarrow> within (on_state (untouched i)) (sign_in env cfg d r plat dev ev new)"
  unfolding sign_in_def
  by (intro st_accounts.within_rules st_untouched.within_rules within_issue_session within_intros
      elsewhere_on_db; assumption?)+

lemma within_upsert_all_keys:
  "within (on_state keeps_accounts) (upsert_all_keys d j keys)"
  "j \<noteq> i \<Longrightarrow> within (on_state (untouched i)) (upsert_all_keys d j keys)"
  unfolding upsert_all_keys_def
  by (intro st_accounts.within_rules st_untouched.within_rules within_intros within_on_db
      within_upsert_user_key; simp)+

lemma within_update_pubkey_hash:
  "within keeps_accounts (update_pubkey_hash h j v)"
  "j \<noteq> i \<Longrightarrow> within (untouched i) (update_pubkey_hash h j v)"
  unfolding update_pubkey_hash_def
  by (intro accounts.within_rules untouched.within_rules within_update_user; simp)+

lemma within_set_nostr_pubkey:
  "within keeps_accounts (set_nostr_pubkey j k)"
  "j \<noteq> i \<Longrightarrow> within (untouched i) (set_nostr_pubkey j k)"
  unfolding set_nostr_pubkey_def
  by (intro accounts.within_rules untouched.within_rules within_update_user; simp)+

lemma within_last_seen:
  "within keeps_accounts (update_user_last_seen j)"
  "j \<noteq> i \<Longrightarrow> within (untouched i) (update_user_last_seen j)"
  unfolding update_user_last_seen_def
  by (intro accounts.within_rules untouched.within_rules within_update_user; simp)+

lemma within_move_row:
  "within (on_state keeps_accounts) (move_row env cfg d req pk target)"
  "u_id target \<noteq> i \<Longrightarrow> within (on_state (untouched i)) (move_row env cfg d req pk target)"
  unfolding move_row_def
  by (intro st_accounts.within_rules st_untouched.within_rules within_enforce_pow within_on_db
      within_update_pubkey_hash within_upsert_all_keys within_sign_in; assumption?)+

lemma within_register_new:
  "within (on_state keeps_accounts) (register_new env cfg d pk code pid input keys)"
  "within (on_state (untouched i)) (register_new env cfg d pk code pid input keys)"
  unfolding register_new_def
  by (intro st_accounts.within_rules st_untouched.within_rules plans_on_db within_on_db
      within_create_gated create_gated_untouched)+

lemma register_new_user:
  assumes "register_new env cfg d pk code pid input keys s = (Inr r, s')"
  shows "u_id r = dr_user d" "dr_user d \<notin> set (user_ids (auth_db s))"
proof -
  from assms obtain gates :: gated_registration and parsed where
    "on_db (create_user_consuming_gates (env_db env) (dr_user d) (gr_invite_code_hash gates)
       (gr_payment gates) input (with_draws d parsed)) s = (Inr r, s')"
    by (auto simp: register_new_def stmt_bind_Inr at_reads)
  then show "u_id r = dr_user d" "dr_user d \<notin> set (user_ids (auth_db s))"
    by (auto simp: on_db_Inr dest: create_gated_user)
qed

lemma register_and_sign_in_untouched:
  "within (on_state (untouched i))
     (stmt_bind (register_new env cfg d pk code pid input keys) (\<lambda>r. sign_in env cfg d r plat dev ev new))"
proof (cases "dr_user d = i")
  case False
  then show ?thesis
    by (intro st_untouched.within_bind_result [OF within_register_new(2)] within_sign_in)
       (auto dest: register_new_user)
next
  case True
  show ?thesis
  proof (rule withinI)
    fix s
    show "on_state (untouched i) s (snd (stmt_bind (register_new env cfg d pk code pid input keys)
        (\<lambda>r. sign_in env cfg d r plat dev ev new) s))"
    proof (cases "i \<in> set (user_ids (auth_db s))")
      case False
      then show ?thesis by (simp add: on_state_def untouched_def)
    next
      case exists: True
      show ?thesis
      proof (rule st_untouched.bind_at)
        show "on_state (untouched i) s (snd (register_new env cfg d pk code pid input keys s))"
          by (rule withinD [OF within_register_new(2)])
      qed (use exists True register_new_user(2) in blast)
    qed
  qed
qed

section \<open>The invariant\<close>

lemma within_get_or_create_pubkey:
  "within keeps_accounts (get_or_create_user_by_pubkey_hash h j pk name opt)"
  unfolding get_or_create_user_by_pubkey_hash_def
  by (intro accounts.within_rules within_intros reads_lookups [THEN accounts.within_reads] within_backfill
      within_create_user)

lemma within_get_or_create_nostr:
  "within keeps_accounts (get_or_create_user_by_nostr_pubkey h j pk name opt)"
  unfolding get_or_create_user_by_nostr_pubkey_def
  by (intro accounts.within_rules within_intros reads_lookups [THEN accounts.within_reads] within_backfill
      within_create_user)

lemmas keeps_parts =
  st_accounts.within_rules reads_on_db plans_on_db elsewhere_on_db within_enforce_pow within_move_row
  within_register_new within_sign_in within_issue_session within_upsert_all_keys
  within_get_or_create_pubkey [THEN within_on_db] within_get_or_create_nostr [THEN within_on_db]
  within_revoke_session [THEN within_on_db] within_last_seen(1) [THEN within_on_db]
  within_set_nostr_pubkey(1) [THEN within_on_db]

lemma extension_keeps:
  assumes "extension_register env cfg d req = Some m"
  shows "within (on_state keeps_accounts) m"
proof -
  have t: "within (on_state keeps_accounts) (try_move env cfg d req k)" for k
    unfolding try_move_def Let_def by (intro within_intros keeps_parts)
  have p: "within (on_state keeps_accounts) (extension_plain env cfg d req k existing)" for k existing
    unfolding extension_plain_def Let_def by (intro within_intros keeps_parts)
  have a: "within (on_state keeps_accounts) (extension_authenticated env cfg d req k)" for k
    unfolding extension_authenticated_def by (intro within_intros keeps_parts t p)
  have b: "within (on_state keeps_accounts)
      (stmt_bind (stmt_return r) (\<lambda>x :: unit. extension_authenticated env cfg d req k))" for r k
    by (intro keeps_parts a)
  from assms show ?thesis
    unfolding extension_register_def
    by (auto split: sum.splits option.splits if_splits simp: b st_accounts.within_rules)
qed

lemma handlers_keep:
  "within (on_state keeps_accounts) (payment_invoice env cfg key)"
  "within (on_state keeps_accounts) (check_restore env d ip fp keys)"
  "within (on_state keeps_accounts) (refresh_token env cfg d token)"
  "within (on_state keeps_accounts) (logout env cfg token)"
  "within (on_state keeps_accounts) (get_me env header)"
  "within (on_state keeps_accounts) (nostr_login env cfg d header)"
  "within (on_state keeps_accounts) (nostr_link_challenge env d header)"
  "within (on_state keeps_accounts) (nostr_link env cfg d header tok nonce)"
  "within (on_state keeps_accounts) (nostr_register_challenge env d)"
  unfolding payment_invoice_def check_restore_def refresh_token_def logout_def get_me_def nostr_login_def
    nostr_link_challenge_def nostr_link_def nostr_register_challenge_def Let_def
  by (intro within_intros keeps_parts)+

lemma nostr_register_keeps: "within (on_state keeps_accounts) (nostr_register env cfg d nreq)"
  unfolding nostr_register_def nostr_resolve_def Let_def by (intro within_intros keeps_parts)

lemma serve_keeps: "keeps_accounts (auth_db s) (auth_db (serve env cfg d req s))"
proof (cases req)
  case (ExtensionRegister x)
  then show ?thesis
    using extension_keeps [of env cfg d x] withinD [where R = "on_state keeps_accounts"]
    by (auto simp: on_state_def accounts.refl split: option.split)
qed (use handlers_keep [THEN withinD] nostr_register_keeps [THEN withinD] in \<open>auto simp: on_state_def\<close>)

section \<open>Who may change an account\<close>

text \<open>The proof of control of the submitted key every extension request carries.\<close>

definition proves_key :: "auth_env \<Rightarrow> extension_register_request \<Rightarrow> asset_public_key \<Rightarrow> bool" where
  "proves_key env req k \<longleftrightarrow>
     find_btc (xr_keys req) = Some k \<and> \<bar>unix_now env - xr_signed_timestamp req\<bar> \<le> SIGNED_TS_MAX_DRIFT_SECS \<and>
     verify_bitcoin_signature (env_proofs env) (login_message (xr_signed_timestamp req)) (xr_signature req)
       (apk_public_key k) = Inr ()"

definition btc_on_file :: "database \<Rightarrow> uuid \<Rightarrow> user_key_row option" where
  "btc_on_file db i = fetch_optional (filter (primary_key i Btc) (user_keys db))"

text \<open>The row belongs to the proven key; or the row has the submitted fingerprint and either no key hash
  yet and the proven key on file, or the key on file signed the rotation.\<close>

definition extension_entitled ::
    "auth_env \<Rightarrow> auth_config \<Rightarrow> extension_register_request \<Rightarrow> database \<Rightarrow> user_row \<Rightarrow> bool" where
  "extension_entitled env cfg req db r \<longleftrightarrow>
     (\<exists>k. proves_key env req k \<and>
       (let h = hash_public_key env (apk_public_key k); stored = btc_on_file db (u_id r) in
        u_pubkey_hash r = Some (pepper (env_db env) ''pubkey_hash'' h) \<or>
        (\<exists>fp. xr_seed_fingerprint req = Some fp \<and>
           u_seed_fingerprint r = Some (pepper (env_db env) ''seed_fingerprint'' fp) \<and>
           (adoptable r stored k \<or> rotation_proven env cfg req h stored))))"

definition live_session :: "auth_env \<Rightarrow> auth_config \<Rightarrow> string \<Rightarrow> database \<Rightarrow> uuid \<Rightarrow> bool" where
  "live_session env cfg token db i \<longleftrightarrow>
     (\<exists>x \<in> set (sessions db). s_refresh_token_hash x = refresh_hash env cfg token \<and>
        session_active (db_now db) x \<and> s_user_id x = i)"

fun entitled :: "auth_env \<Rightarrow> auth_config \<Rightarrow> auth_request \<Rightarrow> database \<Rightarrow> user_row \<Rightarrow> bool" where
  "entitled env cfg (ExtensionRegister req) db r = extension_entitled env cfg req db r"
| "entitled env cfg (Refresh token) db r =
     ((\<exists>sid. verify_refresh_token (env_tokens env) token = Inr (u_id r, sid)) \<and> live_session env cfg token db (u_id r))"
| "entitled env cfg (Logout token) db r = live_session env cfg token db (u_id r)"
| "entitled env cfg (NostrLogin header) db r =
     (\<exists>auth url key. header = Some auth \<and> nip98_url cfg ''/auth/nostr'' = Inr url \<and>
        verify_nip98 (env_nostr env) auth url ''POST'' (unix_now env) NIP98_LOGIN_MAX_AGE_SECS = Inr key \<and>
        u_nostr_pubkey r = Some key)"
| "entitled env cfg (NostrLink header token nonce) db r =
     (fst (extract_user_id_from_token (env_tokens env) header db) = Inr (u_id r) \<and>
      (\<exists>c \<in> set (challenges db). consumable (db_now db) nonce ''nostr_link'' c \<and>
         c_subject c = Some (uuid_to_string (env_tokens env) (u_id r))) \<and>
      (\<exists>key. action_proof env cfg ''/auth/nostr/link'' ''nostr_link'' nonce token = Inr key))"
| "entitled env cfg (NostrRegister req) db r =
     ((\<exists>c \<in> set (challenges db). consumable (db_now db) (nr_nonce req) ''nostr_register'' c) \<and>
      (\<exists>key. action_proof env cfg ''/auth/nostr/register'' ''nostr_register'' (nr_nonce req) (nr_nostr_token req) =
         Inr key \<and> u_nostr_pubkey r = Some key))"
| "entitled env cfg _ db r = False"

lemma same_row: "distinct (map u_id rows) \<Longrightarrow> r \<in> set rows \<Longrightarrow> r' \<in> set rows \<Longrightarrow> u_id r = u_id r' \<Longrightarrow> r = r'"
  by (simp add: distinct_map inj_on_def)

lemma on_state_same: "auth_db t = auth_db s \<Longrightarrow> on_state (untouched i) s t"
  by (simp add: on_state_def untouched_def)

lemma same_db_trans: "auth_db t = auth_db s \<Longrightarrow> on_state R t u \<Longrightarrow> on_state R s u"
  by (simp add: on_state_def)

lemma read_then:
  assumes "reads m" "\<And>x. fst (m (auth_db s)) = Inr x \<Longrightarrow> on_state (untouched i) s (snd (f x s))"
  shows "on_state (untouched i) s (snd (stmt_bind (on_db m) f s))"
  by (rule st_untouched.bind_at)
     (use assms in \<open>auto simp: on_db_reads [OF assms(1)] on_state_def auth_db_on_db reads_snd untouched.refl\<close>)

lemma pow_then:
  assumes "\<And>s1. auth_db s1 = auth_db s \<Longrightarrow> on_state (untouched i) s1 (snd (f () s1))"
  shows "on_state (untouched i) s (snd (stmt_bind (enforce_pow env cfg pk ret sol) f s))"
  by (rule st_untouched.bind_at) (use assms in \<open>auto simp: on_state_same dest: enforce_pow_same\<close>)

lemma check_then:
  assumes "\<And>x. r = Inr x \<Longrightarrow> on_state (untouched i) s (snd (f x s))"
  shows "on_state (untouched i) s (snd (stmt_bind (stmt_return r) f s))"
  by (rule st_untouched.bind_at) (use assms in \<open>auto simp: on_state_same\<close>)

lemma require_then:
  assumes "\<And>x. o1 = Some x \<Longrightarrow> on_state (untouched i) s (snd (f x s))"
  shows "on_state (untouched i) s (snd (stmt_bind (require_some e o1) f s))"
  unfolding require_some_def by (rule check_then) (use assms in auto)

text \<open>The lookups find the row they name.\<close>

lemma lookup_Inr:
  "fst (get_user_by_pubkey_hash h v db) = Inr (Some r) \<Longrightarrow>
     r \<in> set (users db) \<and> u_pubkey_hash r = Some (pepper h ''pubkey_hash'' v)"
  "fst (get_user_by_seed_fingerprint h v db) = Inr (Some r) \<Longrightarrow>
     r \<in> set (users db) \<and> u_seed_fingerprint r = Some (pepper h ''seed_fingerprint'' v)"
  "fst (find_user_by_nostr_pubkey k db) = Inr (Some r) \<Longrightarrow> r \<in> set (users db) \<and> u_nostr_pubkey r = Some k"
  "fst (get_user_by_id j db) = Inr (Some r) \<Longrightarrow> r \<in> set (users db) \<and> u_id r = j"
  by (auto simp: get_user_by_pubkey_hash_def get_user_by_seed_fingerprint_def find_user_by_nostr_pubkey_def
      get_user_by_id_def select_user_def dest!: fetch_filter_Some [OF sym])

lemma get_user_key_Inr: "fst (get_user_key j Btc db) = Inr x \<Longrightarrow> x = btc_on_file db j"
  by (simp add: get_user_key_def btc_on_file_def)

lemma get_or_create_pubkey_known:
  assumes "get_or_create_user_by_pubkey_hash h j pk name opt db = (Inr u, db')"
    and "fst (get_user_by_pubkey_hash h pk db) = Inr (Some e)"
  shows "u_id u = u_id e"
  using assms
  by (auto simp: get_or_create_user_by_pubkey_hash_def stmt_bind_Inr get_user_by_pubkey_hash_def select_user_Inr
      dest: backfill_user split: option.splits) (auto simp: select_user_def query_def dest: backfill_user)

lemma get_or_create_pubkey_untouched:
  assumes "fst (get_user_by_pubkey_hash h pk db) = Inr (Some e)" "u_id e \<noteq> i"
  shows "untouched i db (snd (get_or_create_user_by_pubkey_hash h j pk name opt db))"
proof -
  from assms(1) have "get_user_by_pubkey_hash h pk db = (Inr (Some e), db)"
    by (metis prod.collapse reads_lookups(2) reads_snd)
  then show ?thesis
    using withinD [OF within_backfill(2) [OF assms(2)]]
    by (simp add: get_or_create_user_by_pubkey_hash_def stmt_bind_at)
qed

lemma try_move_untouched:
  assumes "\<not> extension_entitled env cfg req (auth_db s) r" "r \<in> set (users (auth_db s))" "u_id r = i"
    and "distinct (map u_id (users (auth_db s)))" "proves_key env req k"
  shows "on_state (untouched i) s (snd (try_move env cfg d req k s))"
proof (cases "xr_seed_fingerprint req")
  case None
  then show ?thesis by (simp add: try_move_def on_state_same)
next
  case (Some fp)
  let ?h = "hash_public_key env (apk_public_key k)"
  show ?thesis
    unfolding try_move_def Let_def Some option.case
  proof (rule read_then [OF reads_lookups(3)], split option.split, intro conjI allI impI)
    fix found target
    assume f: "fst (get_user_by_seed_fingerprint (env_db env) fp (auth_db s)) = Inr found" "found = Some target"
    from lookup_Inr(2) f have t: "target \<in> set (users (auth_db s))"
      "u_seed_fingerprint target = Some (pepper (env_db env) ''seed_fingerprint'' fp)" by auto
    have same: "target = r" if "u_id target = i"
      using that t(1) assms(2-4) by (metis distinct_map inj_onD)
    show "on_state (untouched i) s (snd (stmt_bind (on_db (get_user_key (u_id target) Btc)) (\<lambda>stored.
        if adoptable target stored k \<or> rotation_proven env cfg req ?h stored
        then stmt_bind (move_row env cfg d req ?h target) (\<lambda>r. stmt_return (Inr (Some r)))
        else stmt_return (Inr None)) s))"
    proof (rule read_then [OF reads_lookups(6)])
      fix stored
      assume "fst (get_user_key (u_id target) Btc (auth_db s)) = Inr stored"
      then have st: "stored = btc_on_file (auth_db s) (u_id target)" by (rule get_user_key_Inr)
      show "on_state (untouched i) s (snd ((if adoptable target stored k \<or> rotation_proven env cfg req ?h stored
        then stmt_bind (move_row env cfg d req ?h target) (\<lambda>r. stmt_return (Inr (Some r)))
        else stmt_return (Inr None)) s))"
      proof (cases "u_id target = i")
        case True
        with assms(1,5) same t(2) Some st have "\<not> (adoptable target stored k \<or> rotation_proven env cfg req ?h stored)"
          by (auto simp: extension_entitled_def Let_def)
        then show ?thesis by (simp add: on_state_same)
      next
        case False
        then have "within (on_state (untouched i))
            (stmt_bind (move_row env cfg d req ?h target) (\<lambda>r. stmt_return (Inr (Some r))))"
          by (intro st_untouched.within_rules within_move_row)
        then show ?thesis by (auto simp: on_state_same dest: withinD)
      qed
    qed
  qed (simp add: on_state_same)
qed

lemma extension_plain_untouched:
  assumes "\<not> extension_entitled env cfg req (auth_db s) r" "r \<in> set (users (auth_db s))" "u_id r = i"
    and "distinct (map u_id (users (auth_db s)))" "proves_key env req k"
    and "fst (get_user_by_pubkey_hash (env_db env) (hash_public_key env (apk_public_key k)) (auth_db s)) = Inr existing"
  shows "on_state (untouched i) s (snd (extension_plain env cfg d req k existing s))"
  unfolding extension_plain_def Let_def
proof (rule pow_then, rule read_then [OF reads_plans(4)])
  fix s1 :: auth_state and fp
  assume db: "auth_db s1 = auth_db s"
  let ?opt = "request_optionals env (xr_wallet_birthday req) fp (xr_xmr_start_height req) (xr_wow_start_height req)"
  let ?h = "hash_public_key env (apk_public_key k)"
  let ?known = "stmt_bind (on_db (get_or_create_user_by_pubkey_hash (env_db env) (dr_user d) ?h
            (xr_username req) ?opt)) (\<lambda>user.
        stmt_bind (upsert_all_keys d (u_id user) (xr_keys req)) (\<lambda>x.
          sign_in env cfg d user Extension ''Browser Extension'' ''btc'' False))"
  let ?new = "stmt_bind (register_new env cfg d ?h (xr_invite_code req) (xr_payment_invoice_id req)
            (new_user_of (xr_username req) (Some ?h) None ?opt) (xr_keys req)) (\<lambda>user.
          sign_in env cfg d user Extension ''Browser Extension'' ''btc'' True)"
  have "on_state (untouched i) s1 (snd (?known s1))" if e: "existing = Some e" for e
  proof -
    from assms(6) e have k: "fst (get_user_by_pubkey_hash (env_db env) ?h (auth_db s1)) = Inr (Some e)"
      by (simp add: db)
    from lookup_Inr(1) [OF k] have "e \<in> set (users (auth_db s))"
      "u_pubkey_hash e = Some (pepper (env_db env) ''pubkey_hash'' ?h)" by (simp_all add: db)
    with assms(1-5) have ne: "u_id e \<noteq> i"
      by (auto simp: extension_entitled_def Let_def) (metis distinct_map inj_onD)
    show ?thesis
    proof (rule st_untouched.bind_at)
      show "on_state (untouched i) s1 (snd (on_db (get_or_create_user_by_pubkey_hash (env_db env) (dr_user d) ?h
          (xr_username req) ?opt) s1))"
        unfolding on_state_def auth_db_on_db by (rule get_or_create_pubkey_untouched [OF k ne])
      fix user s2
      assume "on_db (get_or_create_user_by_pubkey_hash (env_db env) (dr_user d) ?h (xr_username req) ?opt) s1 =
          (Inr user, s2)"
      then have "u_id user = u_id e" using k by (auto simp: on_db_Inr dest: get_or_create_pubkey_known)
      with ne show "on_state (untouched i) s2 (snd (stmt_bind (upsert_all_keys d (u_id user) (xr_keys req)) (\<lambda>x.
          sign_in env cfg d user Extension ''Browser Extension'' ''btc'' False) s2))"
        by (intro withinD [where R = "on_state (untouched i)"] st_untouched.within_rules within_upsert_all_keys
            within_sign_in) simp_all
    qed
  qed
  moreover have "on_state (untouched i) s1 (snd (?new s1))"
    by (rule withinD [OF register_and_sign_in_untouched])
  ultimately show "on_state (untouched i) s1 (snd ((if existing \<noteq> None then ?known else ?new) s1))"
    by (cases existing) simp_all
qed

lemma extension_untouched:
  assumes "\<not> extension_entitled env cfg req (auth_db s) r" "r \<in> set (users (auth_db s))" "u_id r = i"
    and "distinct (map u_id (users (auth_db s)))" "extension_register env cfg d req = Some m"
  shows "on_state (untouched i) s (snd (m s))"
proof -
  have "on_state (untouched i) s (snd (extension_authenticated env cfg d req k s))" if k: "proves_key env req k" for k
    unfolding extension_authenticated_def
  proof (rule read_then [OF reads_lookups(2)])
    fix existing
    assume e: "fst (get_user_by_pubkey_hash (env_db env) (hash_public_key env (apk_public_key k)) (auth_db s)) = Inr existing"
    have moved: "on_state (untouched i) s (snd (try_move env cfg d req k s))"
      by (rule try_move_untouched [OF assms(1-4) k])
    have plain: "on_state (untouched i) s (snd (extension_plain env cfg d req k existing s))"
      by (rule extension_plain_untouched [OF assms(1-4) k e])
    have stay: "s1 = s" if "try_move env cfg d req k s = (Inr None, s1)" for s1
      using that
      by (auto simp: try_move_def Let_def stmt_bind_Inr at_reads split: option.splits if_splits)
    show "on_state (untouched i) s (snd (stmt_bind (if existing = None then try_move env cfg d req k
          else stmt_return (Inr None)) (\<lambda>moved. case moved of
            None \<Rightarrow> extension_plain env cfg d req k existing | Some r \<Rightarrow> stmt_return (Inr r)) s))"
      by (rule st_untouched.bind_at)
         (use moved plain stay in \<open>auto simp: on_state_same split: option.split if_splits\<close>)
  qed
  with assms(5) show ?thesis
    by (auto simp: extension_register_def proves_key_def signed_age_def on_state_same st_untouched.refl
        intro!: check_then split: sum.splits option.splits if_splits)
qed

lemma session_of_token:
  assumes "fst (get_session_by_token_hash (refresh_hash env cfg token) db) = Inr (Some x)"
  shows "x \<in> set (sessions db)" "live_session env cfg token db (s_user_id x)"
  using assms by (auto simp: get_session_by_token_hash_def live_session_def dest!: fetch_filter_Some [OF sym])

lemma revoke_untouched:
  assumes "x \<in> set (sessions db)" "s_user_id x \<noteq> i" "distinct (map s_id (sessions db))"
  shows "untouched i db (snd (revoke_session (s_id x) db))"
  by (rule revoke_session_untouched) (use assms in \<open>metis distinct_map inj_onD\<close>)

lemma logout_untouched:
  assumes "\<not> live_session env cfg token (auth_db s) i" "distinct (map s_id (sessions (auth_db s)))"
  shows "on_state (untouched i) s (snd (logout env cfg token s))"
  unfolding logout_def
proof (rule read_then [OF reads_lookups(11)])
  fix found
  assume f: "fst (get_session_by_token_hash (refresh_hash env cfg token) (auth_db s)) = Inr found"
  have "on_state (untouched i) s (snd (ignoring (on_db (revoke_session (s_id x))) s))" if "found = Some x" for x
    using session_of_token [of env cfg token "auth_db s" x] f that assms
    by (auto simp: on_state_def auth_db_on_db intro: revoke_untouched)
  then show "on_state (untouched i) s (snd (stmt_bind (case found of None \<Rightarrow> stmt_return (Inr ())
      | Some x \<Rightarrow> ignoring (on_db (revoke_session (s_id x)))) (\<lambda>x. stmt_return (Inr True)) s))"
    by (intro st_untouched.bind_at) (auto simp: on_state_same split: option.splits)
qed

lemma refresh_untouched:
  assumes "\<not> (\<exists>sid. verify_refresh_token (env_tokens env) token = Inr (i, sid)) \<or>
      \<not> live_session env cfg token (auth_db s) i"
    and "distinct (map s_id (sessions (auth_db s)))"
  shows "on_state (untouched i) s (snd (refresh_token env cfg d token s))"
  unfolding refresh_token_def
proof (rule check_then, clarsimp, rule read_then [OF reads_lookups(11)], rule require_then, rule check_then,
    rule read_then [OF reads_lookups(1)], rule require_then, rule check_then)
  fix user_id sid found x u fu user plat
  assume v: "verify_refresh_token (env_tokens env) token = Inr (user_id, sid)"
    and f: "fst (get_session_by_token_hash (refresh_hash env cfg token) (auth_db s)) = Inr found" "found = Some x"
    and "ensure (s_user_id x = user_id) bad_token = Inr u"
    and g: "fst (get_user_by_id user_id (auth_db s)) = Inr fu" "fu = Some user"
  then have x: "x \<in> set (sessions (auth_db s))" "live_session env cfg token (auth_db s) user_id" "s_user_id x = user_id"
    using session_of_token [of env cfg token "auth_db s" x] by auto
  with assms(1) v have ne: "user_id \<noteq> i" by auto
  have uid: "u_id user = user_id" using lookup_Inr(4) g by auto
  show "on_state (untouched i) s (snd (stmt_bind (on_db (revoke_session (s_id x))) (\<lambda>revoked.
      stmt_bind (stmt_return (ensure revoked bad_token)) (\<lambda>y.
      stmt_bind (issue_session env cfg d (u_id user) plat (case s_device_info x of None \<Rightarrow> ''unknown'' | Some j \<Rightarrow> j)) (\<lambda>pair.
      stmt_bind (on_db (update_user_last_seen (u_id user))) (\<lambda>y.
        stmt_return (Inr (auth_response_of env pair user False)))))) s))"
  proof (rule st_untouched.bind_at)
    show "on_state (untouched i) s (snd (on_db (revoke_session (s_id x)) s))"
      unfolding on_state_def auth_db_on_db using x ne assms(2) by (intro revoke_untouched) auto
    fix revoked s1
    show "on_state (untouched i) s1 (snd (stmt_bind (stmt_return (ensure revoked bad_token)) (\<lambda>y.
      stmt_bind (issue_session env cfg d (u_id user) plat (case s_device_info x of None \<Rightarrow> ''unknown'' | Some j \<Rightarrow> j)) (\<lambda>pair.
      stmt_bind (on_db (update_user_last_seen (u_id user))) (\<lambda>y.
        stmt_return (Inr (auth_response_of env pair user False))))) s1))"
      by (rule withinD [where R = "on_state (untouched i)"])
         (use ne uid in \<open>intro st_untouched.within_rules within_issue_session within_on_db within_last_seen; simp\<close>)
  qed
qed

lemma nostr_login_untouched:
  assumes "\<not> entitled env cfg (NostrLogin header) (auth_db s) r" "r \<in> set (users (auth_db s))" "u_id r = i"
    and "distinct (map u_id (users (auth_db s)))"
  shows "on_state (untouched i) s (snd (nostr_login env cfg d header s))"
  unfolding nostr_login_def
proof (rule require_then, rule check_then, rule check_then, rule read_then [OF reads_lookups(5)], rule require_then)
  fix auth url key found user
  assume h: "header = Some auth" "nip98_url cfg ''/auth/nostr'' = Inr url"
      "nip98_checked (verify_nip98 (env_nostr env) auth url ''POST'' (unix_now env) NIP98_LOGIN_MAX_AGE_SECS) = Inr key"
    and f: "fst (find_user_by_nostr_pubkey key (auth_db s)) = Inr found" "found = Some user"
  from lookup_Inr(3) f have u: "user \<in> set (users (auth_db s))" "u_nostr_pubkey user = Some key" by auto
  have "verify_nip98 (env_nostr env) auth url ''POST'' (unix_now env) NIP98_LOGIN_MAX_AGE_SECS = Inr key"
    using h(3) by (auto simp: nip98_checked_def split: sum.splits)
  with assms(1) h have "u_nostr_pubkey r \<noteq> Some key" by auto
  then have "u_id user \<noteq> i" using same_row [OF assms(4,2) u(1)] assms(3) u(2) by metis
  then show "on_state (untouched i) s (snd (sign_in env cfg d user Nostr ''Nostr'' ''btc'' False s))"
    by (intro withinD [OF within_sign_in(2)])
qed

lemma consume_challenge_Inr:
  "consume_challenge nonce purpose db = (Inr (Some subject), db') \<Longrightarrow>
     \<exists>c \<in> set (challenges db). consumable (db_now db) nonce purpose c \<and> c_subject c = subject"
  by (auto simp: consume_challenge_def Let_def dest!: fetch_filter_Some split: if_splits)

lemma challenge_then:
  assumes "\<And>subject s1. \<exists>c \<in> set (challenges (auth_db s)). consumable (db_now (auth_db s)) nonce purpose c \<and> c_subject c = subject
      \<Longrightarrow> same_accounts (auth_db s) (auth_db s1) \<Longrightarrow> on_state (untouched i) s1 (snd (f subject s1))"
  shows "on_state (untouched i) s (snd (stmt_bind (on_db (consume_challenge nonce purpose)) (\<lambda>consumed.
      stmt_bind (require_some e consumed) f) s))"
proof (rule st_untouched.bind_at)
  show "on_state (untouched i) s (snd (on_db (consume_challenge nonce purpose) s))"
    by (rule withinD [OF within_on_db [OF within_same_accounts(2) [OF elsewhere_challenges(2)]]])
  fix consumed s1
  assume c: "on_db (consume_challenge nonce purpose) s = (Inr consumed, s1)"
  show "on_state (untouched i) s1 (snd (stmt_bind (require_some e consumed) f s1))"
  proof (rule require_then)
    fix subject
    assume "consumed = Some subject"
    with c have "consume_challenge nonce purpose (auth_db s) = (Inr (Some subject), auth_db s1)" by (simp add: on_db_Inr)
    from consume_challenge_Inr [OF this] withinE [OF elsewhere_challenges(2) this]
    show "on_state (untouched i) s1 (snd (f subject s1))" by (rule assms)
  qed
qed

lemma nostr_link_untouched:
  assumes "\<not> entitled env cfg (NostrLink header token nonce) (auth_db s) r" "u_id r = i"
  shows "on_state (untouched i) s (snd (nostr_link env cfg d header token nonce s))"
  unfolding nostr_link_def
proof (rule read_then [OF reads_extract], rule challenge_then, rule check_then, rule check_then)
  fix user_id subject s1 x key
  assume h: "fst (extract_user_id_from_token (env_tokens env) header (auth_db s)) = Inr user_id"
    "\<exists>c \<in> set (challenges (auth_db s)). consumable (db_now (auth_db s)) nonce ''nostr_link'' c \<and> c_subject c = subject"
    "ensure (subject = Some (uuid_to_string (env_tokens env) user_id)) bad_nonce = Inr x"
    "action_proof env cfg ''/auth/nostr/link'' ''nostr_link'' nonce token = Inr key"
  have ne: "user_id \<noteq> i"
  proof
    assume "user_id = i"
    with h assms show False by auto
  qed
  show "on_state (untouched i) s1 (snd (stmt_bind (on_db (set_nostr_pubkey user_id key)) (\<lambda>x.
      stmt_bind (ignoring (on_db (record_login_event (dr_event d) (Some user_id) ''btc'' (platform_as_str Nostr) None))) (\<lambda>x.
        stmt_return (Inr key))) s1))"
    by (rule withinD [where R = "on_state (untouched i)"])
       (use ne in \<open>intro st_untouched.within_rules within_on_db within_set_nostr_pubkey within_intros
          within_same_accounts(2) elsewhere_statements; simp\<close>)
qed

lemma get_or_create_nostr_known:
  assumes "fst (find_user_by_nostr_pubkey pk db) = Inr (Some e)"
  shows "get_or_create_user_by_nostr_pubkey h j pk name opt db = backfill_optionals h e opt db"
proof -
  from assms have "find_user_by_nostr_pubkey pk db = (Inr (Some e), db)"
    by (metis prod.collapse reads_lookups(5) reads_snd)
  then show ?thesis by (simp add: get_or_create_user_by_nostr_pubkey_def stmt_bind_at)
qed

lemma nostr_resolve_untouched:
  assumes "fst (find_user_by_nostr_pubkey pk (auth_db s)) = Inr found"
    and "\<And>e. found = Some e \<Longrightarrow> u_id e \<noteq> i"
  shows "on_state (untouched i) s (snd (stmt_bind (nostr_resolve env cfg d req pk (found \<noteq> None))
      (\<lambda>user. sign_in env cfg d user Nostr ''Nostr'' ''nostr'' new) s))"
proof (cases found)
  case None
  have "on_state (untouched i) s (snd (stmt_bind (nostr_resolve env cfg d req pk False)
      (\<lambda>user. sign_in env cfg d user Nostr ''Nostr'' ''nostr'' new) s))"
    unfolding nostr_resolve_def Let_def if_False stmt_bind_assoc
    by (rule withinD [where R = "on_state (untouched i)"])
       (intro st_untouched.within_return st_untouched.within_bind within_intros reads_on_db register_and_sign_in_untouched)
  with None show ?thesis by simp
next
  case (Some e)
  with assms have e: "fst (find_user_by_nostr_pubkey pk (auth_db s)) = Inr (Some e)" and ne: "u_id e \<noteq> i" by simp_all
  have "on_state (untouched i) s (snd (stmt_bind (nostr_resolve env cfg d req pk True)
      (\<lambda>user. sign_in env cfg d user Nostr ''Nostr'' ''nostr'' new) s))"
    unfolding nostr_resolve_def Let_def if_True stmt_bind_assoc stmt_bind_return
  proof (rule st_untouched.bind_at)
    show "on_state (untouched i) s (snd (on_db (get_or_create_user_by_nostr_pubkey (env_db env) (dr_user d) pk
        (nr_username req) (request_optionals env (nr_wallet_birthday req) (nr_seed_fingerprint req)
            (nr_xmr_start_height req) (nr_wow_start_height req))) s))"
      by (simp add: on_state_def auth_db_on_db get_or_create_nostr_known [OF e] withinD [OF within_backfill(2) [OF ne]])
    fix user s1
    assume "on_db (get_or_create_user_by_nostr_pubkey (env_db env) (dr_user d) pk
        (nr_username req) (request_optionals env (nr_wallet_birthday req) (nr_seed_fingerprint req)
            (nr_xmr_start_height req) (nr_wow_start_height req))) s = (Inr user, s1)"
    then have "u_id user = u_id e" by (auto simp: on_db_Inr get_or_create_nostr_known [OF e] dest: backfill_user)
    with ne show "on_state (untouched i) s1 (snd (stmt_bind (upsert_all_keys d (u_id user) (nr_keys req))
        (\<lambda>x. sign_in env cfg d user Nostr ''Nostr'' ''nostr'' new) s1))"
      by (intro withinD [where R = "on_state (untouched i)"] st_untouched.within_rules within_upsert_all_keys
          within_sign_in) simp_all
  qed
  with Some show ?thesis by simp
qed

lemma nostr_register_untouched:
  assumes "\<not> entitled env cfg (NostrRegister req) (auth_db s) r" "r \<in> set (users (auth_db s))" "u_id r = i"
    and "distinct (map u_id (users (auth_db s)))"
  shows "on_state (untouched i) s (snd (nostr_register env cfg d req s))"
  unfolding nostr_register_def
proof (rule check_then, rule challenge_then, rule check_then, rule read_then [OF reads_lookups(5)], rule pow_then)
  fix x subject s1 key found s2
  assume c: "\<exists>c \<in> set (challenges (auth_db s)). consumable (db_now (auth_db s)) (nr_nonce req) ''nostr_register'' c \<and>
      c_subject c = subject"
    and same: "same_accounts (auth_db s) (auth_db s1)"
    and p: "action_proof env cfg ''/auth/nostr/register'' ''nostr_register'' (nr_nonce req) (nr_nostr_token req) = Inr key"
    and f: "fst (find_user_by_nostr_pubkey key (auth_db s1)) = Inr found"
    and db: "auth_db (s2 :: auth_state) = auth_db s1"
  have f2: "fst (find_user_by_nostr_pubkey key (auth_db s2)) = Inr found" using f db by simp
  show "on_state (untouched i) s2 (snd (stmt_bind (nostr_resolve env cfg d req key (found \<noteq> None))
      (\<lambda>user. sign_in env cfg d user Nostr ''Nostr'' ''nostr'' (found = None)) s2))"
  proof (rule nostr_resolve_untouched [OF f2])
    fix e
    assume "found = Some e"
    with f lookup_Inr(3) have e: "e \<in> set (users (auth_db s1))" "u_nostr_pubkey e = Some key" by auto
    have "u_nostr_pubkey r \<noteq> Some key" using assms(1) c p by auto
    moreover have "e \<in> set (users (auth_db s))" using e(1) same by (simp add: same_accounts_def)
    ultimately show "u_id e \<noteq> i" using same_row [OF assms(4,2)] assms(3) e(2) by metis
  qed
qed

lemma serve_untouched:
  assumes "accounts_ok (auth_db s)" "r \<in> set (users (auth_db s))" "\<not> entitled env cfg req (auth_db s) r"
  shows "on_state (untouched (u_id r)) s (serve env cfg d req s)"
proof -
  have ids: "distinct (map u_id (users (auth_db s)))" "distinct (map s_id (sessions (auth_db s)))"
    using assms(1) by (simp_all add: accounts_ok_def users_ok_def)
  have others: "within (on_state (untouched i)) (payment_invoice env cfg key)"
    "within (on_state (untouched i)) (check_restore env d ip fp keys)"
    "within (on_state (untouched i)) (get_me env header)"
    "within (on_state (untouched i)) (nostr_link_challenge env d header)"
    "within (on_state (untouched i)) (nostr_register_challenge env d)" for i key ip fp keys header
    unfolding payment_invoice_def check_restore_def get_me_def nostr_link_challenge_def
      nostr_register_challenge_def Let_def
    by (intro within_intros st_untouched.within_rules reads_on_db plans_on_db elsewhere_on_db)+
  show ?thesis
  proof (cases req)
    case (ExtensionRegister x)
    with assms(3) extension_untouched [OF _ assms(2) refl ids(1), of env cfg x d] show ?thesis
      by (auto simp: st_untouched.refl split: option.split)
  next
    case (Refresh token)
    with assms(3) show ?thesis using refresh_untouched [OF _ ids(2), of env token "u_id r" cfg d] by auto
  next
    case (Logout token)
    with assms(3) show ?thesis using logout_untouched [OF _ ids(2), of env cfg token "u_id r"] by simp
  next
    case (NostrLogin header)
    with assms(3) show ?thesis using nostr_login_untouched [OF _ assms(2) refl ids(1), of env cfg header d] by simp
  next
    case (NostrLink header token nonce)
    with assms(3) show ?thesis using nostr_link_untouched [OF _ refl, of env cfg header token nonce s r d] by simp
  next
    case (NostrRegister x)
    with assms(3) show ?thesis using nostr_register_untouched [OF _ assms(2) refl ids(1), of env cfg x d] by simp
  qed (use others [THEN withinD] in simp_all)
qed

end
