(* ===== verification/Auth_Gates.thy ===== *)
theory Auth_Gates
  imports Auth_Safety
begin

text \<open>
  The gates of a new account: the puzzle, the invite code and the registration payment. A gate token is
  spent only together with the account it buys, and an account is created only with the tokens the
  configuration asks for.
\<close>

section \<open>Tokens are spent with an account\<close>

definition spent_tokens :: "database \<Rightarrow> invite_code_row list \<times> payment_invoice_row list" where
  "spent_tokens db =
     (filter (\<lambda>c. ic_used_at c \<noteq> None) (invite_codes db), filter (\<lambda>p. pi_consumed_at p \<noteq> None) (payment_invoices db))"

definition spent_with_account :: "database \<Rightarrow> database \<Rightarrow> bool" where
  "spent_with_account db db' \<longleftrightarrow>
     length (users db) \<le> length (users db') \<and>
     (spent_tokens db' = spent_tokens db \<or> length (users db) < length (users db'))"

interpretation buying: effect_bound spent_with_account
  by unfold_locales (auto simp: spent_with_account_def)

interpretation st_buying: effect_bound "on_state spent_with_account"
  by (rule effect_bound_on_state) (rule buying.effect_bound_axioms)

lemma buying_sql:
  "(\<And>db x db'. f db = Inr (x, db') \<Longrightarrow> spent_with_account db db') \<Longrightarrow> within spent_with_account (sql f)"
  by (rule within_sql) (simp_all add: buying.refl)

lemma buying_statements:
  "within spent_with_account (map_err g (insert_user h j input))"
  "within spent_with_account (map_err g (update_user j u))"
  "within spent_with_account (upsert_user_key j n)"
  "within spent_with_account (insert_payment_invoice pid pk pr am cu)"
  "within spent_with_account (record_login_event j u' a pl orig)"
  "within spent_with_account (record_restore_attempt h j fp ip ok)"
  "within spent_with_account (create_session ns)"
  "within spent_with_account (revoke_session j)"
  "within spent_with_account (issue_challenge lib rnd p sb t)"
  "within spent_with_account (consume_challenge n' p)"
  unfolding insert_user_def update_user_def upsert_user_key_def insert_payment_invoice_def record_login_event_def
    record_restore_attempt_def
  by (intro within_run_sql buying_sql,
      auto simp: spent_with_account_def spent_tokens_def Let_def split: option.splits if_splits)+
     (auto simp: within_def create_session_def revoke_session_def update_sessions_def issue_challenge_def
        consume_challenge_def spent_with_account_def spent_tokens_def Let_def)

lemma gate_steps_frame:
  "within (\<lambda>db db'. users db' = users db) (claim_invite_step c)"
  "within (\<lambda>db db'. users db' = users db) (consume_invoice_step p)"
  using elsewhere_gates by (auto simp: within_def same_accounts_def)

lemma upsert_keys_length: "within (\<lambda>db db'. users db' = users db) (upsert_user_key j n)"
  unfolding upsert_user_key_def by (rule within_sql) (auto simp: Let_def split: option.splits if_splits)

interpretation same_users: effect_bound "\<lambda>db db'. users db' = users db"
  by unfold_locales simp_all

lemma create_gated_buys: "within spent_with_account (create_user_consuming_gates h j code pay input keys)"
proof (rule withinI)
  fix db
  let ?m = "create_user_consuming_gates h j code pay input keys"
  obtain r db' where r: "?m db = (r, db')" by fastforce
  show "spent_with_account db (snd (?m db))"
  proof (cases r)
    case (Inl e)
    with r have "snd (?m db) = db" unfolding create_user_consuming_gates_def by (intro transaction_Inl) auto
    then show ?thesis by (simp add: buying.refl)
  next
    case (Inr u)
    with r obtain d1 d2 d3 where
      s: "claim_invite_step code db = (Inr (), d1)" "consume_invoice_step pay d1 = (Inr (), d2)"
        "insert_user h j input d2 = (Inr u, d3)"
      and k: "for_all_do (\<lambda>((a, pk, spend), kid). upsert_user_key kid
            \<lparr>nk_user_id = u_id u, nk_asset = a, nk_public_key = pk, nk_public_spend_key = spend,
             nk_key_type = ''primary''\<rparr>) keys d3 = (Inr (), db')"
      by (auto simp: create_user_consuming_gates_def transaction_Inr stmt_bind_Inr)
    have "within (\<lambda>db db'. users db' = users db) (for_all_do (\<lambda>((a, pk, spend), kid). upsert_user_key kid
            \<lparr>nk_user_id = u_id u, nk_asset = a, nk_public_key = pk, nk_public_spend_key = spend,
             nk_key_type = ''primary''\<rparr>) keys)"
      by (intro same_users.within_rules within_intros upsert_keys_length)
    from withinE [OF this k] withinE [OF gate_steps_frame(1) s(1)] withinE [OF gate_steps_frame(2) s(2)]
      insert_user_Inr(5) [OF s(3)]
    have "users db' = users db @ [u]" by simp
    then show ?thesis by (simp add: r spent_with_account_def)
  qed
qed

lemma buying_updates:
  "within spent_with_account (update_pubkey_hash h j v)" "within spent_with_account (set_nostr_pubkey j k)"
  "within spent_with_account (update_user_last_seen j)" "within spent_with_account (backfill_optionals h e opt)"
  "within spent_with_account (create_user h j input)"
  unfolding update_pubkey_hash_def set_nostr_pubkey_def update_user_last_seen_def backfill_optionals_def create_user_def
  by (intro within_intros buying.within_rules buying_statements within_one_row)+

lemma buying_get_or_create:
  "within spent_with_account (get_or_create_user_by_pubkey_hash h j pk name opt)"
  "within spent_with_account (get_or_create_user_by_nostr_pubkey h j pk name opt)"
  unfolding get_or_create_user_by_pubkey_hash_def get_or_create_user_by_nostr_pubkey_def
  by (intro within_intros buying.within_rules reads_lookups [THEN buying.within_reads] buying_updates)+

lemma buying_pow: "within (on_state spent_with_account) (enforce_pow env cfg pk ret sol)"
  by (simp add: within_def on_state_def buying.refl)

lemmas buying_parts =
  st_buying.within_rules buying_pow
  buying_statements [THEN within_on_db] buying_updates [THEN within_on_db] buying_get_or_create [THEN within_on_db]
  create_gated_buys [THEN within_on_db]
  reads_lookups [THEN buying.within_reads, THEN within_on_db]
  reads_plans [THEN buying.within_reads, THEN within_on_db]
  reads_extract [THEN buying.within_reads, THEN within_on_db]

lemma buying_pieces:
  "within (on_state spent_with_account) (sign_in env cfg d r plat dev ev new)"
  "within (on_state spent_with_account) (upsert_all_keys d j keys)"
  "within (on_state spent_with_account) (register_new env cfg d pk code pid input keys)"
  "within (on_state spent_with_account) (move_row env cfg d req pk target)"
  unfolding sign_in_def issue_session_def upsert_all_keys_def register_new_def move_row_def
  by (intro within_intros buying_parts)+

lemma extension_buys:
  assumes "extension_register env cfg d req = Some m"
  shows "within (on_state spent_with_account) m"
proof -
  have a: "within (on_state spent_with_account) (extension_authenticated env cfg d req k)" for k
    unfolding extension_authenticated_def try_move_def extension_plain_def Let_def
    by (intro within_intros buying_parts buying_pieces)
  have b: "within (on_state spent_with_account)
      (stmt_bind (stmt_return r) (\<lambda>x :: unit. extension_authenticated env cfg d req k))" for r k
    by (intro buying_parts a)
  from assms show ?thesis
    unfolding extension_register_def
    by (auto split: sum.splits option.splits if_splits simp: b st_buying.within_rules)
qed

lemma serve_buys: "spent_with_account (auth_db s) (auth_db (serve env cfg d req s))"
proof -
  have h: "within (on_state spent_with_account) (payment_invoice env cfg key)"
    "within (on_state spent_with_account) (check_restore env d ip fp keys)"
    "within (on_state spent_with_account) (refresh_token env cfg d token)"
    "within (on_state spent_with_account) (logout env cfg token)"
    "within (on_state spent_with_account) (get_me env header)"
    "within (on_state spent_with_account) (nostr_login env cfg d header)"
    "within (on_state spent_with_account) (nostr_link_challenge env d header)"
    "within (on_state spent_with_account) (nostr_link env cfg d header tok nonce)"
    "within (on_state spent_with_account) (nostr_register_challenge env d)"
    "within (on_state spent_with_account) (nostr_register env cfg d nreq)" for key ip fp keys token header tok nonce nreq
    unfolding payment_invoice_def check_restore_def refresh_token_def logout_def get_me_def nostr_login_def
      nostr_link_challenge_def nostr_link_def nostr_register_challenge_def nostr_register_def nostr_resolve_def
      issue_session_def Let_def
    by (intro within_intros buying_parts buying_pieces)+
  show ?thesis
  proof (cases req)
    case (ExtensionRegister x)
    then show ?thesis
      using extension_buys [of env cfg d x] withinD [where R = "on_state spent_with_account"]
      by (auto simp: on_state_def buying.refl split: option.split)
  qed (use h [THEN withinD] in \<open>auto simp: on_state_def\<close>)
qed

section \<open>An account has paid its gates\<close>

text \<open>The tokens a registration presents are the ones the configuration asks for: all enabled gates, or
  exactly one of them.\<close>

definition gates_met :: "auth_config \<Rightarrow> gated_registration \<Rightarrow> bool" where
  "gates_met cfg g \<longleftrightarrow>
     (let ri = require_invite cfg; rp = require_payment (cfg_payment cfg);
          i = gr_invite_code_hash g \<noteq> None; p = gr_payment g \<noteq> None
      in (i \<longrightarrow> ri) \<and> (p \<longrightarrow> rp) \<and>
         (case cfg_gate_mode cfg of GateAll \<Rightarrow> (ri \<longrightarrow> i) \<and> (rp \<longrightarrow> p) | GateAny \<Rightarrow> ri \<or> rp \<longrightarrow> i \<noteq> p))"

definition invite_taken :: "string \<Rightarrow> database \<Rightarrow> database \<Rightarrow> bool" where
  "invite_taken hash db db' \<longleftrightarrow>
     (\<exists>c \<in> set (invite_codes db). ic_code_hash c = hash \<and> spendable (db_now db) c) \<and>
     (\<forall>c \<in> set (invite_codes db'). ic_code_hash c = hash \<longrightarrow> \<not> spendable (db_now db) c)"

definition invoice_taken :: "string \<Rightarrow> string \<Rightarrow> database \<Rightarrow> database \<Rightarrow> bool" where
  "invoice_taken pid pk db db' \<longleftrightarrow>
     (\<exists>p \<in> set (payment_invoices db). pi_invoice_id p = pid \<and> unspent pk p) \<and>
     (\<forall>p \<in> set (payment_invoices db'). pi_invoice_id p = pid \<longrightarrow> \<not> unspent pk p)"

definition settled_at :: "auth_env \<Rightarrow> string \<Rightarrow> bool" where
  "settled_at env pid \<longleftrightarrow>
     (\<exists>provider inv. env_provider env = Some provider \<and> get_invoice provider pid = Inr inv \<and> inv_status inv = Settled)"

definition paid_gates ::
    "auth_env \<Rightarrow> auth_config \<Rightarrow> string \<Rightarrow> database \<Rightarrow> database \<Rightarrow> gated_registration \<Rightarrow> bool" where
  "paid_gates env cfg pk db db' g \<longleftrightarrow>
     gates_met cfg g \<and>
     (\<forall>hash. gr_invite_code_hash g = Some hash \<longrightarrow> invite_taken hash db db') \<and>
     (\<forall>pid pk'. gr_payment g = Some (pid, pk') \<longrightarrow> pk' = pk \<and> invoice_taken pid pk db db' \<and> settled_at env pid)"

lemma verify_payment_settled_Inr:
  assumes "verify_payment_settled env cfg False pk x db = (Inr r, db')"
  shows "r \<noteq> None \<longleftrightarrow> require_payment (cfg_payment cfg)" "r = Some pid \<Longrightarrow> settled_at env pid"
  using assms
  by (auto simp: verify_payment_settled_def stmt_bind_Inr require_some_def settled_at_def split: if_splits)

lemma map_sum_Some_Inr: "map_sum id Some r = Inr x \<longleftrightarrow> (\<exists>y. r = Inr y \<and> x = Some y)"
  by (cases r) auto

lemma plan_gate_consume_Inr:
  assumes "fst (plan_gate_consume env cfg pk code x db) = Inr g"
  shows "gates_met cfg g" "gr_payment g = Some (pid, pk') \<Longrightarrow> pk' = pk \<and> settled_at env pid"
proof -
  obtain db' where "plan_gate_consume env cfg pk code x db = (Inr g, db')"
    using assms by (metis prod.collapse)
  then have "gates_met cfg g \<and> (\<forall>pid pk'. gr_payment g = Some (pid, pk') \<longrightarrow> pk' = pk \<and> settled_at env pid)"
    by (auto simp: plan_gate_consume_def plan_gates_def Let_def stmt_bind_Inr gates_met_def map_sum_Some_Inr
        split: if_splits gate_mode.splits bool.splits dest: verify_payment_settled_Inr)
  then show "gates_met cfg g" "gr_payment g = Some (pid, pk') \<Longrightarrow> pk' = pk \<and> settled_at env pid" by auto
qed

lemma claim_invite_step_Inr:
  assumes "claim_invite_step (Some hash) db = (Inr (), db')"
  shows "invite_taken hash db db'"
proof -
  let ?p = "\<lambda>c. ic_code_hash c = hash \<and> spendable (db_now db) c"
  let ?u = "\<lambda>c. c\<lparr>ic_used_at := Some (db_now db)\<rparr>"
  from assms have r: "sql_returning ?p ?u (invite_codes db) \<noteq> []"
    and d: "invite_codes db' = sql_update ?p ?u (invite_codes db)"
    by (auto simp: claim_invite_step_def stmt_bind_Inr claim_invite_code_def sql_Inr Let_def fetch_optional_None
        split: if_splits)
  from invite_claim.second_refused [of hash "db_now db" ?u "db_now db" "invite_codes db"] r show ?thesis
    unfolding invite_taken_def d sql_returning_Nil by blast
qed

lemma consume_invoice_step_Inr:
  assumes "consume_invoice_step (Some (pid, pk)) db = (Inr (), db')"
  shows "invoice_taken pid pk db db'"
proof -
  let ?p = "\<lambda>x. pi_invoice_id x = pid \<and> unspent pk x"
  let ?u = "\<lambda>x. x\<lparr>pi_consumed_at := Some (db_now db)\<rparr>"
  from assms have r: "sql_returning ?p ?u (payment_invoices db) \<noteq> []"
    and d: "payment_invoices db' = sql_update ?p ?u (payment_invoices db)"
    by (auto simp: consume_invoice_step_def stmt_bind_Inr consume_payment_invoice_def sql_Inr Let_def fetch_optional_None
        split: if_splits)
  from invoice_consume.second_refused [of pid pk ?u "db_now db" "payment_invoices db"] r show ?thesis
    unfolding invoice_taken_def d sql_returning_Nil by blast
qed

definition same_tokens :: "database \<Rightarrow> database \<Rightarrow> bool" where
  "same_tokens db db' \<longleftrightarrow>
     invite_codes db' = invite_codes db \<and> payment_invoices db' = payment_invoices db \<and> db_now db' = db_now db"

interpretation tokens_kept: effect_bound same_tokens
  by unfold_locales (simp_all add: same_tokens_def)

interpretation st_tokens_kept: effect_bound "on_state same_tokens"
  by (rule effect_bound_on_state) (rule tokens_kept.effect_bound_axioms)

lemma tokens_kept_sql:
  "(\<And>db x db'. f db = Inr (x, db') \<Longrightarrow> same_tokens db db') \<Longrightarrow> within same_tokens (sql f)"
  by (rule within_sql) (simp_all add: tokens_kept.refl)

lemma tokens_kept_statements:
  "within same_tokens (upsert_user_key j n)" "within same_tokens (record_login_event j u' a pl orig)"
  "within same_tokens (create_session ns)"
  unfolding upsert_user_key_def record_login_event_def
  by (intro tokens_kept_sql, auto simp: same_tokens_def Let_def split: option.splits if_splits)+
     (auto simp: within_def create_session_def same_tokens_def Let_def)

lemma tokens_kept_sign_in: "within (on_state same_tokens) (sign_in env cfg d r plat dev ev new)"
  unfolding sign_in_def issue_session_def
  by (intro within_intros st_tokens_kept.within_rules tokens_kept_statements [THEN within_on_db])

lemma gate_step_frames:
  "within (\<lambda>db db'. payment_invoices db' = payment_invoices db \<and> db_now db' = db_now db) (claim_invite_step c)"
  "within (\<lambda>db db'. invite_codes db' = invite_codes db \<and> db_now db' = db_now db) (consume_invoice_step p)"
  by (auto simp: within_def claim_invite_step_def consume_invoice_step_def stmt_bind_def claim_invite_code_def
      consume_payment_invoice_def sql_def map_err_def run_sql_def Let_def
      split: option.splits prod.splits sum.splits if_splits)

lemma create_gated_takes:
  assumes "create_user_consuming_gates h j code pay input keys db = (Inr u, db')"
  shows "code = Some hash \<Longrightarrow> invite_taken hash db db'" "pay = Some (pid, pk) \<Longrightarrow> invoice_taken pid pk db db'"
    "db_now db' = db_now db"
proof -
  from assms obtain d1 d2 d3 where
    s: "claim_invite_step code db = (Inr (), d1)" "consume_invoice_step pay d1 = (Inr (), d2)"
      "insert_user h j input d2 = (Inr u, d3)"
    and k: "for_all_do (\<lambda>((a, pk, spend), kid). upsert_user_key kid
          \<lparr>nk_user_id = u_id u, nk_asset = a, nk_public_key = pk, nk_public_spend_key = spend,
           nk_key_type = ''primary''\<rparr>) keys d3 = (Inr (), db')"
    by (auto simp: create_user_consuming_gates_def transaction_Inr stmt_bind_Inr)
  have "within same_tokens (for_all_do (\<lambda>((a, pk, spend), kid). upsert_user_key kid
          \<lparr>nk_user_id = u_id u, nk_asset = a, nk_public_key = pk, nk_public_spend_key = spend,
           nk_key_type = ''primary''\<rparr>) keys)"
    by (intro tokens_kept.within_rules within_intros tokens_kept_statements)
  from withinE [OF this k] insert_user_Inr(5) [OF s(3)] have t: "same_tokens d2 db'" by (simp add: same_tokens_def)
  note f = withinE [OF gate_step_frames(1) s(1)] withinE [OF gate_step_frames(2) s(2)]
  show "db_now db' = db_now db" using t f by (simp add: same_tokens_def)
  show "invite_taken hash db db'" if "code = Some hash"
    using claim_invite_step_Inr [of hash db d1] s(1) that f t by (auto simp: invite_taken_def same_tokens_def)
  show "invoice_taken pid pk db db'" if "pay = Some (pid, pk)"
    using consume_invoice_step_Inr [of pid pk d1 d2] s(2) that f t by (auto simp: invoice_taken_def same_tokens_def)
qed

lemma register_and_sign_in_pays:
  assumes "stmt_bind (register_new env cfg d pk code x input keys) (\<lambda>r. sign_in env cfg d r plat dev ev new) s =
      (Inr resp, s')"
  shows "\<exists>g. paid_gates env cfg pk (auth_db s) (auth_db s') g"
proof -
  from assms obtain r s1 where
    r: "register_new env cfg d pk code x input keys s = (Inr r, s1)"
    and "sign_in env cfg d r plat dev ev new s1 = (Inr resp, s')" by (auto simp: stmt_bind_Inr)
  from withinE [OF tokens_kept_sign_in this(2)] have t: "same_tokens (auth_db s1) (auth_db s')"
    by (simp add: on_state_def)
  from r obtain g :: gated_registration and parsed where
    g: "fst (plan_gate_consume env cfg pk code x (auth_db s)) = Inr g"
    and c: "create_user_consuming_gates (env_db env) (dr_user d) (gr_invite_code_hash g) (gr_payment g) input
      (with_draws d parsed) (auth_db s) = (Inr r, auth_db s1)"
    by (auto simp: register_new_def stmt_bind_Inr at_reads) (auto simp: on_db_Inr)
  have "paid_gates env cfg pk (auth_db s) (auth_db s') g"
    using plan_gate_consume_Inr [OF g] create_gated_takes [OF c] t
    by (auto simp: paid_gates_def invite_taken_def invoice_taken_def same_tokens_def)
  then show ?thesis ..
qed

end
