(* ===== verification/Auth_Properties.thy ===== *)
theory Auth_Properties
  imports Auth_Gates
begin

text \<open>
  The properties of registration and login: who may change an account, that identities stay unique, that
  gate tokens buy accounts, that a refresh token works once and that the restore oracle is throttled.
  The section before each group prepares it; the last section is a small deployment the properties
  are tried on.
\<close>

section \<open>Reachable states\<close>

text \<open>A service with no accounts that serves requests, while time passes and other components write
  their own tables.\<close>

inductive auth_reachable :: "auth_state \<Rightarrow> bool" where
  start: "users (auth_db s) = [] \<Longrightarrow> user_keys (auth_db s) = [] \<Longrightarrow> sessions (auth_db s) = [] \<Longrightarrow> auth_reachable s"
| request: "auth_reachable s \<Longrightarrow> auth_reachable (serve env cfg d req s)"
| others: "auth_reachable s \<Longrightarrow> same_accounts (auth_db s) (auth_db s') \<Longrightarrow> auth_reachable s'"

lemma accounts_ok_reachable: "auth_reachable s \<Longrightarrow> accounts_ok (auth_db s)"
proof (induction rule: auth_reachable.induct)
  case (start s)
  then show ?case by (simp add: accounts_ok_def users_ok_def col_unique_def list_all_iff)
next
  case (request s env cfg d req)
  then show ?case using serve_keeps [of s env cfg d req] by (simp add: keeps_accounts_def)
next
  case (others s s')
  then show ?case using same_accounts_bounds(1) by (auto simp: keeps_accounts_def)
qed

lemma unique_lookup:
  assumes "distinct (map u_id rows)" "col_unique col rows" "r \<in> set rows" "col r = Some v"
  shows "fetch_optional (filter (\<lambda>x. col x = Some v) rows) = Some r"
proof -
  have "filter (\<lambda>x. col x = Some v) rows \<noteq> []" using assms(3,4) by (auto simp: filter_empty_conv)
  then obtain x xs where x: "filter (\<lambda>x. col x = Some v) rows = x # xs" by (cases "filter (\<lambda>x. col x = Some v) rows") auto
  then have "x \<in> set rows" "col x = Some v" by (auto dest: filter_eq_ConsD)
  moreover from this assms(2-4) have "u_id x = u_id r" unfolding col_unique_def by (metis option.distinct(1))
  ultimately have "x = r" using same_row [OF assms(1) _ assms(3)] by blast
  with x show ?thesis by simp
qed

section \<open>Refresh tokens\<close>

lemma refresh_Inr:
  assumes "refresh_token env cfg d token s = (Inr resp, s')"
  obtains x user s1 s2 pair plat dev sid where
    "verify_refresh_token (env_tokens env) token = Inr (s_user_id x, sid)"
    "fst (get_session_by_token_hash (refresh_hash env cfg token) (auth_db s)) = Inr (Some x)"
    "user \<in> set (users (auth_db s))" "u_id user = s_user_id x"
    "revoke_session (s_id x) (auth_db s) = (Inr True, auth_db s1)"
    "issue_session env cfg d (u_id user) plat dev s1 = (Inr pair, s2)"
    "update_user_last_seen (u_id user) (auth_db s2) = (Inr (), auth_db s')"
    "resp = auth_response_of env pair user False"
proof -
  from assms obtain sid x user plat s1 s2 pair where
    f: "verify_refresh_token (env_tokens env) token = Inr (s_user_id x, sid)"
      "fst (get_session_by_token_hash (refresh_hash env cfg token) (auth_db s)) = Inr (Some x)"
    and u: "fst (get_user_by_id (s_user_id x) (auth_db s)) = Inr (Some user)"
    and w: "on_db (revoke_session (s_id x)) s = (Inr True, s1)"
      "issue_session env cfg d (u_id user) plat (case s_device_info x of None \<Rightarrow> ''unknown'' | Some i \<Rightarrow> i) s1 = (Inr pair, s2)"
      "on_db (update_user_last_seen (u_id user)) s2 = (Inr (), s')" "resp = auth_response_of env pair user False"
    by (auto simp: refresh_token_def stmt_bind_Inr at_reads require_some_def ensure_def split: if_splits prod.splits)
  from f lookup_Inr(4) [OF u] w show thesis by (intro that) (auto simp: on_db_Inr)
qed

lemma update_user_last_seen_sessions:
  "update_user_last_seen i db = (r, db') \<Longrightarrow> sessions db' = sessions db \<and> db_outage db' = db_outage db"
  by (auto simp: update_user_last_seen_def stmt_bind_def map_err_def update_user_def run_sql_def
      split: prod.splits sum.splits option.splits if_splits)

lemma create_session_Inr:
  "create_session ns db = (Inr row, db') \<Longrightarrow>
     db' = db\<lparr>sessions := sessions db @ [row]\<rparr> \<and> s_refresh_token_hash row = ns_refresh_token_hash ns \<and>
     s_user_id row = ns_user_id ns"
  by (auto simp: create_session_def Let_def split: if_splits)

lemma issue_session_rows:
  assumes "issue_session env cfg d i plat dev s = (Inr pair, s')"
  shows "\<exists>row. sessions (auth_db s') = sessions (auth_db s) @ [row] \<and>
    s_refresh_token_hash row = refresh_hash env cfg (tp_refresh_token pair) \<and> s_user_id row = i"
  using assms by (force simp: issue_session_def stmt_bind_Inr on_db_Inr dest!: create_session_Inr)

definition one_session :: "string \<Rightarrow> database \<Rightarrow> bool" where
  "one_session hash db \<longleftrightarrow> length (filter (\<lambda>x. s_refresh_token_hash x = hash) (sessions db)) \<le> 1"

lemma one_sessionD:
  assumes "one_session hash db" "x \<in> set (sessions db)" "y \<in> set (sessions db)"
    and "s_refresh_token_hash x = hash" "s_refresh_token_hash y = hash"
  shows "x = y"
proof -
  let ?f = "filter (\<lambda>x. s_refresh_token_hash x = hash) (sessions db)"
  have "x \<in> set ?f" "y \<in> set ?f" "length ?f \<le> 1" using assms by (simp_all add: one_session_def)
  then show ?thesis by (cases ?f) auto
qed

lemma refreshed_sessions:
  assumes "refresh_token env cfg d token s = (Inr resp, s')"
    and "refresh_hash env cfg (rs_refresh_token resp) \<noteq> refresh_hash env cfg token"
    and "one_session (refresh_hash env cfg token) (auth_db s)"
    and "x \<in> set (sessions (auth_db s'))" "s_refresh_token_hash x = refresh_hash env cfg token"
  shows "s_revoked_at x \<noteq> None"
  using assms(1)
proof (cases rule: refresh_Inr)
  case (1 y user s1 s2 pair plat dev sid)
  from session_of_token(1) [OF 1(2)] have y: "y \<in> set (sessions (auth_db s))" .
  have yh: "s_refresh_token_hash y = refresh_hash env cfg token"
    using 1(2) by (auto simp: get_session_by_token_hash_def dest!: fetch_filter_Some [OF sym])
  have up: "\<not> db_outage (auth_db s)" using 1(5) by (auto simp: revoke_session_def update_sessions_def)
  have s1: "auth_db s1 = snd (revoke_session (s_id y) (auth_db s))" using 1(5) by simp
  obtain row where row: "sessions (auth_db s') = sessions (auth_db s1) @ [row]"
    "s_refresh_token_hash row = refresh_hash env cfg (tp_refresh_token pair)"
    using issue_session_rows [OF 1(6)] update_user_last_seen_sessions [OF 1(7)] by auto
  have "x \<in> set (sessions (auth_db s1))"
    using assms(2,4,5) row 1(8) by (auto simp: auth_response_of_def)
  moreover have "s_id x = s_id y"
  proof -
    from \<open>x \<in> set (sessions (auth_db s1))\<close> obtain x0 where "x0 \<in> set (sessions (auth_db s))"
      "s_id x0 = s_id x" "s_refresh_token_hash x0 = s_refresh_token_hash x"
      using up by (auto simp: s1 revoke_session_def update_sessions_def set_sql_update set_revoked_def split: if_splits)
    then show ?thesis using one_sessionD [OF assms(3) _ y] assms(5) yh by metis
  qed
  ultimately show ?thesis using revoke_session_rows [OF up] s1 by simp
qed

lemma refresh_refused:
  assumes "\<And>x. x \<in> set (sessions (auth_db s)) \<Longrightarrow> s_refresh_token_hash x = refresh_hash env cfg token \<Longrightarrow>
      s_revoked_at x \<noteq> None"
  shows "refresh_token env cfg d token s \<noteq> (Inr resp, s')"
proof
  assume "refresh_token env cfg d token s = (Inr resp, s')"
  then show False
  proof (cases rule: refresh_Inr)
    case (1 x user s1 s2 pair plat dev sid)
    then have "x \<in> set (sessions (auth_db s))" "s_refresh_token_hash x = refresh_hash env cfg token"
      "s_revoked_at x = None"
      by (auto simp: get_session_by_token_hash_def session_active_def dest!: fetch_filter_Some [OF sym])
    with assms show False by blast
  qed
qed

section \<open>The restore oracle\<close>

fun restore_run ::
    "auth_env \<Rightarrow> string \<Rightarrow> (timestamp \<times> draws \<times> string \<times> asset_public_key list) list \<Rightarrow> auth_state \<Rightarrow>
     check_restore_response result list" where
  "restore_run env ip [] s = []"
| "restore_run env ip ((t, d, fp, keys) # rest) s =
     (let (r, s') = check_restore env d ip fp keys (s\<lparr>auth_db := (auth_db s)\<lparr>db_now := t\<rparr>\<rparr>)
      in r # restore_run env ip rest s')"

definition attempts_from :: "auth_env \<Rightarrow> string \<Rightarrow> timestamp \<Rightarrow> auth_state \<Rightarrow> nat" where
  "attempts_from env ip t0 s =
     length (filter (\<lambda>a. ra_ip_hash a = Some (hash_ip (env_db env) ip) \<and> ra_created_at a \<ge> t0)
       (restore_attempts (auth_db s)))"

definition attempt_ids :: "auth_state \<Rightarrow> uuid set" where
  "attempt_ids s = ra_id ` set (restore_attempts (auth_db s))"

lemma check_restore_Inr:
  assumes "check_restore env d ip fp keys s = (Inr resp, s')"
  shows "length (filter (recent_from (db_now (auth_db s)) (hash_ip (env_db env) ip)) (restore_attempts (auth_db s))) < 30"
    "length (filter (recent_failure (db_now (auth_db s)) (pepper (env_db env) ''restore_fingerprint'' fp))
      (restore_attempts (auth_db s))) < 3"
    "\<exists>ok. auth_db s' = snd (record_restore_attempt (env_db env) (dr_event d) fp (Some ip) ok (auth_db s)) \<and>
      (ok \<longleftrightarrow> cr_keys_valid resp = Some True)"
    "\<not> db_outage (auth_db s)"
  using assms
  by (auto simp: check_restore_def stmt_bind_Inr at_reads Let_def ignoring_def auth_db_on_db
      count_ip_restore_attempts_def count_failed_restore_attempts_def RESTORE_IP_THRESHOLD_def RESTORE_FAIL_THRESHOLD_def
      split: option.splits)

lemma record_attempt_rows:
  assumes "\<not> db_outage db" "i \<notin> ra_id ` set (restore_attempts db)"
  shows "restore_attempts (snd (record_restore_attempt h i fp (Some ip) ok db)) =
    restore_attempts db @ [\<lparr>ra_id = i, ra_fingerprint = pepper h ''restore_fingerprint'' fp,
      ra_ip_hash = Some (hash_ip h ip), ra_success = ok, ra_created_at = db_now db\<rparr>]"
  using assms by (auto simp: record_restore_attempt_def sql_def map_err_def run_sql_def)

lemma check_restore_Inl:
  assumes "check_restore env d ip fp keys s = (Inl e, s')"
  shows "auth_db s' = auth_db s"
  using assms
  by (auto simp: check_restore_def stmt_bind_Inl at_reads Let_def ignoring_def require_some_def ensure_def
      split: option.splits if_splits)

lemma length_filter_mono: "(\<And>x. P x \<Longrightarrow> Q x) \<Longrightarrow> length (filter P xs) \<le> length (filter Q xs)"
  by (induction xs) (auto simp: le_SucI)

lemma attempts_from_le_recent:
  assumes "t < t0 + seconds 3600"
  shows "attempts_from env ip t0 s \<le>
    length (filter (recent_from t (hash_ip (env_db env) ip)) (restore_attempts (auth_db s)))"
  unfolding attempts_from_def
  by (rule length_filter_mono) (use assms in \<open>auto simp: recent_from_def\<close>)

definition answers :: "'a result list \<Rightarrow> nat" where
  "answers rs = length (filter (\<lambda>r. \<not> isl r) rs)"

lemma restore_run_bound:
  assumes "list_all (\<lambda>q. t0 \<le> fst q \<and> fst q < t0 + seconds 3600) reqs"
    and "distinct (map (\<lambda>q. dr_event (fst (snd q))) reqs)"
    and "list_all (\<lambda>q. dr_event (fst (snd q)) \<notin> attempt_ids s) reqs"
  shows "attempts_from env ip t0 s + answers (restore_run env ip reqs s) \<le> max 30 (attempts_from env ip t0 s)"
  using assms
proof (induction reqs arbitrary: s)
  case Nil
  then show ?case by (simp add: answers_def)
next
  case (Cons q reqs)
  obtain t d fp keys where q: "q = (t, d, fp, keys)" by (cases q)
  let ?s = "s\<lparr>auth_db := (auth_db s)\<lparr>db_now := t\<rparr>\<rparr>"
  obtain r s' where c: "check_restore env d ip fp keys ?s = (r, s')" by fastforce
  have run: "restore_run env ip (q # reqs) s = r # restore_run env ip reqs s'" by (simp add: q c)
  from Cons.prems have pre: "list_all (\<lambda>q. t0 \<le> fst q \<and> fst q < t0 + seconds 3600) reqs"
    "distinct (map (\<lambda>q. dr_event (fst (snd q))) reqs)" by simp_all
  show ?case
  proof (cases r)
    case (Inl e)
    with c have "auth_db s' = (auth_db s)\<lparr>db_now := t\<rparr>" by (auto dest: check_restore_Inl)
    then have "attempts_from env ip t0 s' = attempts_from env ip t0 s" "attempt_ids s' = attempt_ids s"
      by (simp_all add: attempts_from_def attempt_ids_def)
    moreover have "attempts_from env ip t0 s' + answers (restore_run env ip reqs s') \<le> max 30 (attempts_from env ip t0 s')"
      by (rule Cons.IH [OF pre]) (use Cons.prems(3) \<open>attempt_ids s' = attempt_ids s\<close> in simp)
    ultimately show ?thesis by (simp add: run Inl answers_def)
  next
    case (Inr resp)
    note c' = c [unfolded Inr]
    from Cons.prems(3) q have new: "dr_event d \<notin> ra_id ` set (restore_attempts (auth_db ?s))"
      by (simp add: attempt_ids_def)
    obtain ok where "auth_db s' = snd (record_restore_attempt (env_db env) (dr_event d) fp (Some ip) ok (auth_db ?s))"
      using check_restore_Inr(3) [OF c'] by blast
    with record_attempt_rows [OF check_restore_Inr(4) [OF c'] new]
    have rows: "restore_attempts (auth_db s') = restore_attempts (auth_db s) @ [\<lparr>ra_id = dr_event d,
        ra_fingerprint = pepper (env_db env) ''restore_fingerprint'' fp, ra_ip_hash = Some (hash_ip (env_db env) ip),
        ra_success = ok, ra_created_at = t\<rparr>]" by simp
    have "attempts_from env ip t0 s < 30"
      using check_restore_Inr(1) [OF c'] attempts_from_le_recent [of t t0 env ip s] Cons.prems(1) q by simp
    moreover have "attempts_from env ip t0 s' = Suc (attempts_from env ip t0 s)"
      using Cons.prems(1) q by (simp add: attempts_from_def rows)
    moreover have "attempts_from env ip t0 s' + answers (restore_run env ip reqs s') \<le> max 30 (attempts_from env ip t0 s')"
    proof (rule Cons.IH [OF pre])
      show "list_all (\<lambda>q. dr_event (fst (snd q)) \<notin> attempt_ids s') reqs"
        using Cons.prems(2,3) by (force simp: q attempt_ids_def rows list_all_iff)
    qed
    ultimately show ?thesis by (simp add: run Inr answers_def)
  qed
qed

section \<open>New accounts\<close>

lemma sign_in_new: "sign_in env cfg d r plat dev ev new s = (Inr resp, s') \<Longrightarrow> rs_is_new resp = new"
  by (auto simp: sign_in_def stmt_bind_Inr auth_response_of_def)

lemma extension_Inr:
  assumes "extension_register env cfg d req = Some m" "m s = (Inr resp, s')"
  obtains k where "proves_key env req k" "extension_authenticated env cfg d req k s = (Inr resp, s')"
proof -
  from assms have "\<exists>k. proves_key env req k \<and> extension_authenticated env cfg d req k s = (Inr resp, s')"
    by (auto simp: extension_register_def proves_key_def signed_age_def stmt_bind_Inr
        split: sum.splits option.splits if_splits)
  with that show thesis by blast
qed

lemma try_move_not_new: "try_move env cfg d req k s = (Inr (Some resp), s') \<Longrightarrow> \<not> rs_is_new resp"
  by (auto simp: try_move_def move_row_def Let_def stmt_bind_Inr at_reads dest!: sign_in_new
      split: option.splits if_splits)

lemma try_move_none: "try_move env cfg d req k s = (Inr None, s') \<Longrightarrow> s' = s"
  by (auto simp: try_move_def Let_def stmt_bind_Inr at_reads split: option.splits if_splits)

lemma extension_new:
  assumes "extension_authenticated env cfg d req k s = (Inr resp, s')" "rs_is_new resp"
  shows "\<exists>s1 fp. auth_db s1 = auth_db s \<and>
    (let h = hash_public_key env (apk_public_key k) in
     stmt_bind (register_new env cfg d h (xr_invite_code req) (xr_payment_invoice_id req)
       (new_user_of (xr_username req) (Some h) None (request_optionals env (xr_wallet_birthday req) fp
          (xr_xmr_start_height req) (xr_wow_start_height req))) (xr_keys req))
       (\<lambda>user. sign_in env cfg d user Extension ''Browser Extension'' ''btc'' True) s1 = (Inr resp, s'))"
proof -
  from assms(1) obtain existing moved s1 where
    m: "(if existing = None then try_move env cfg d req k else stmt_return (Inr None)) s = (Inr moved, s1)"
      "(case moved of Some r \<Rightarrow> stmt_return (Inr r) | None \<Rightarrow> extension_plain env cfg d req k existing) s1 = (Inr resp, s')"
    by (auto simp: extension_authenticated_def stmt_bind_Inr at_reads)
  with assms(2) have "moved = None" by (cases moved) (auto dest: try_move_not_new split: if_splits)
  with m have "extension_plain env cfg d req k existing s = (Inr resp, s')"
    by (auto dest: try_move_none split: if_splits)
  then obtain s2 fp where p: "auth_db s2 = auth_db s"
    "(let h = hash_public_key env (apk_public_key k);
          opt = request_optionals env (xr_wallet_birthday req) fp (xr_xmr_start_height req) (xr_wow_start_height req) in
      if existing \<noteq> None then
        stmt_bind (on_db (get_or_create_user_by_pubkey_hash (env_db env) (dr_user d) h (xr_username req) opt)) (\<lambda>user.
        stmt_bind (upsert_all_keys d (u_id user) (xr_keys req)) (\<lambda>x.
          sign_in env cfg d user Extension ''Browser Extension'' ''btc'' False)) s2
      else
        stmt_bind (register_new env cfg d h (xr_invite_code req) (xr_payment_invoice_id req)
            (new_user_of (xr_username req) (Some h) None opt) (xr_keys req)) (\<lambda>user.
          sign_in env cfg d user Extension ''Browser Extension'' ''btc'' True) s2) = (Inr resp, s')"
    unfolding extension_plain_def Let_def
    by (subst (asm) stmt_bind_Inr, elim exE conjE, subst (asm) stmt_bind_Inr)
       (auto simp only: at_reads if_distrib [of "\<lambda>f. f _"] dest: enforce_pow_same)
  show ?thesis
  proof (cases existing)
    case None
    with p show ?thesis by (auto simp: Let_def)
  next
    case (Some e)
    with p(2) assms(2) show ?thesis by (auto simp: Let_def stmt_bind_Inr dest: sign_in_new)
  qed
qed

section \<open>Properties\<close>

text \<open>An existing account changes only for whoever proves control of it: if serving a request changes
  the row, the keys or the sessions of an account, then the request carried the proof that endpoint
  asks for. For the wallet endpoint that is a fresh signature by the submitted key together with that
  key being the account's, or being on file for an account with the submitted fingerprint and no key
  hash yet, or a rotation signature by the key on file; a fingerprint alone never suffices.\<close>

theorem account_changes_only_by_proof:
  assumes "auth_reachable s" "r \<in> set (users (auth_db s))"
    and "account (u_id r) (auth_db (serve env cfg d req s)) \<noteq> account (u_id r) (auth_db s)"
  shows "entitled env cfg req (auth_db s) r"
proof (rule ccontr)
  assume "\<not> entitled env cfg req (auth_db s) r"
  from serve_untouched [OF accounts_ok_reachable [OF assms(1)] assms(2) this, of d] assms(2,3) show False
    by (auto simp: on_state_def untouched_def user_ids_def)
qed


text \<open>C12. A gate token is never burned without an account: whatever the request and however it ends, the
  spent invite codes and the consumed invoices change only if the number of accounts grows; no
  account disappears.\<close>

theorem gate_token_buys_account:
  "length (users (auth_db s)) \<le> length (users (auth_db (serve env cfg d req s))) \<and>
   (spent_tokens (auth_db (serve env cfg d req s)) = spent_tokens (auth_db s) \<or>
    length (users (auth_db s)) < length (users (auth_db (serve env cfg d req s))))"
  using serve_buys [of s env cfg d req] by (simp add: spent_with_account_def)

text \<open>No account without its gates: when a registration answers that the account is new, the tokens
  the configuration asks for (every enabled gate, or exactly one of them) were unspent before and are
  spent after, and the payment, if one was due, is settled and bound to this wallet.\<close>

theorem new_account_pays_its_gates:
  assumes "extension_register env cfg d req = Some m" "m s = (Inr resp, s')" "rs_is_new resp"
  shows "\<exists>k g. proves_key env req k \<and>
    paid_gates env cfg (hash_public_key env (apk_public_key k)) (auth_db s) (auth_db s') g"
proof -
  obtain k where k: "proves_key env req k" "extension_authenticated env cfg d req k s = (Inr resp, s')"
    using assms(1,2) by (rule extension_Inr)
  from extension_new [OF k(2) assms(3)] register_and_sign_in_pays k(1) show ?thesis
    unfolding Let_def by metis
qed

text \<open>C31. A refresh token works once and for its owner: a successful refresh answers for the user the token
  names, who owns a live session with that token, and afterwards, at whatever time and with whatever
  other tables, the same token is refused. (At most one session has the token's hash, and the new
  token has another one.)\<close>

theorem refresh_token_works_once:
  assumes "refresh_token env cfg d token s = (Inr resp, s')"
    and "refresh_hash env cfg (rs_refresh_token resp) \<noteq> refresh_hash env cfg token"
    and "one_session (refresh_hash env cfg token) (auth_db s)"
    and "sessions (auth_db t) = sessions (auth_db s')" "env_db env' = env_db env"
  shows "(\<exists>user \<in> set (users (auth_db s)). \<exists>sid. rs_user resp = to_user_info env user \<and>
      verify_refresh_token (env_tokens env) token = Inr (u_id user, sid) \<and>
      live_session env cfg token (auth_db s) (u_id user)) \<and>
    isl (fst (refresh_token env' cfg d' token t))"
proof
  show "\<exists>user \<in> set (users (auth_db s)). \<exists>sid. rs_user resp = to_user_info env user \<and>
      verify_refresh_token (env_tokens env) token = Inr (u_id user, sid) \<and>
      live_session env cfg token (auth_db s) (u_id user)"
    using assms(1)
  proof (cases rule: refresh_Inr)
    case (1 x user s1 s2 pair plat dev sid)
    with session_of_token(2) [OF 1(2)] show ?thesis by (auto simp: auth_response_of_def intro!: bexI [of _ user])
  qed
  have hash: "refresh_hash env' cfg token = refresh_hash env cfg token" using assms(5) by (simp add: refresh_hash_def)
  have "refresh_token env' cfg d' token t \<noteq> (Inr resp', t')" for resp' t'
  proof (rule refresh_refused)
    fix x
    assume "x \<in> set (sessions (auth_db t))" "s_refresh_token_hash x = refresh_hash env' cfg token"
    then have "x \<in> set (sessions (auth_db s'))" "s_refresh_token_hash x = refresh_hash env cfg token"
      by (simp_all only: assms(4) hash)
    then show "s_revoked_at x \<noteq> None" by (rule refreshed_sessions [OF assms(1-3)])
  qed
  then show "isl (fst (refresh_token env' cfg d' token t))"
    by (cases "fst (refresh_token env' cfg d' token t)") (auto, metis prod.collapse)
qed


text \<open>A rotation proof cannot be re-aimed: the messages two rotations sign are equal only if they name
  the same instance, the same new key and the same time, and no rotation message is a login message.
  (Key hashes are hexadecimal, without the separator.)\<close>

theorem rotation_proof_is_bound:
  assumes "rotation_message cfg h ts = Some msg" "rotation_message cfg' h' ts' = Some msg"
    and "CHR ''|'' \<notin> set h" "CHR ''|'' \<notin> set h'"
  shows "map_option (trim_end_matches (CHR ''/'')) (public_api_url cfg) =
      map_option (trim_end_matches (CHR ''/'')) (public_api_url cfg') \<and>
    h = h' \<and> ts = ts' \<and> msg \<noteq> login_message ts''"
proof -
  obtain b b' where b: "public_api_url cfg = Some b" "public_api_url cfg' = Some b'"
    "msg = ''smirk-rotate-v1|'' @ trim_end_matches (CHR ''/'') b @ ''|'' @ h @ ''|'' @ int_to_string ts"
    "msg = ''smirk-rotate-v1|'' @ trim_end_matches (CHR ''/'') b' @ ''|'' @ h' @ ''|'' @ int_to_string ts'"
    using assms(1,2) by (auto simp: rotation_message_def split: option.splits)
  let ?t = "trim_end_matches (CHR ''/'')"
  from b(3,4) have "(?t b @ ''|'' @ h) @ CHR ''|'' # int_to_string ts = (?t b' @ ''|'' @ h') @ CHR ''|'' # int_to_string ts'" by simp
  from split_last [OF this int_to_string_no_bar int_to_string_no_bar]
  have e: "?t b @ CHR ''|'' # h = ?t b' @ CHR ''|'' # h'" "int_to_string ts = int_to_string ts'" by auto
  with split_last [OF e(1) assms(3,4)] have "?t b = ?t b'" "h = h'" "ts = ts'" by (auto dest: int_to_string_inj)
  then show ?thesis by (simp add: b login_message_def)
qed

section \<open>A deployment\<close>

text \<open>Libraries that are easy to compute with: an encoding that shows the bytes, a hash and a keyed hash
  that keep their input, a curve on which every signature verifies.\<close>

definition show_bytes :: "byte list \<Rightarrow> string" where
  "show_bytes bs = map (\<lambda>b. char_of (unat b)) bs"

definition demo_tokens :: token_lib where
  "demo_tokens =
     \<lparr>hex_encode = show_bytes, hex_decode = (\<lambda>s. Some (str_bytes s)),
      uuid_to_string = (\<lambda>u. replicate (unat u) (CHR ''x'')), rfc3339 = (\<lambda>t. []),
      encode_access = (\<lambda>c. Some (''a'' @ ac_sub c)), encode_refresh = (\<lambda>c. Some (''r'' @ rc_sid c)),
      decode_access = (\<lambda>v t. None),
      decode_refresh = (\<lambda>v t. Some \<lparr>rc_sub = ''x'', rc_aud = REFRESH_AUD, rc_sid = tl t, rc_iat = 0, rc_exp = 86400\<rparr>),
      parse_uuid = (\<lambda>s. Some (of_nat (length s)))\<rparr>"

definition demo_proofs :: proof_lib where
  "demo_proofs =
     \<lparr>hex_encode = show_bytes, hex_decode = (\<lambda>s. Some (str_bytes s)), uuid_to_string = (\<lambda>u. []),
      rfc3339 = (\<lambda>t. []), sha256_of = (\<lambda>b. b), base64_decode = (\<lambda>s. Some (replicate 65 1)),
      secp_key = (\<lambda>k. True), ecdsa_sig = (\<lambda>s. True), verify_prehash = (\<lambda>k m s. True),
      ed_key = (\<lambda>k. False), ed_verify = (\<lambda>k m s. False)\<rparr>"

definition demo_handle :: db_handle where
  "demo_handle = \<lparr>dh_lib = \<lparr>hex_encode = show_bytes, hex_decode = (\<lambda>s. Some (str_bytes s)), uuid_to_string = (\<lambda>u. []),
     rfc3339 = (\<lambda>t. []), json_to_string = render, hmac_sha256 = (\<lambda>k m. str_bytes m)\<rparr>, identity_pepper = ''p'', ip_salt = ''q''\<rparr>"

definition demo_env :: auth_env where
  "demo_env = \<lparr>env_tokens = demo_tokens, env_nostr = sample_nostr, env_proofs = demo_proofs,
     env_altcha = (\<lambda>k p. Inl ''none''), env_db = demo_handle, env_jwt_error = ''e'', env_clock = 0,
     env_date = (\<lambda>t. Some (seconds t)), env_provider = None\<rparr>"

definition demo_cfg :: auth_config where
  "demo_cfg = \<lparr>cfg_pow = \<lparr>pow_enabled = False, pow_hmac_key = [], pow_required = False, pow_required_for_pubkeys = []\<rparr>,
     public_api_url = Some ''x'', require_invite = True,
     cfg_payment = \<lparr>require_payment = False, pay_amount = ''1'', pay_currency = ''XMR'', pay_confirmations = 1,
       pay_expires_minutes = 60\<rparr>,
     cfg_gate_mode = GateAll, refresh_token_pepper = ''r'', access_token_hours = 1, refresh_token_days = 30\<rparr>"

definition demo_draws :: "uuid \<Rightarrow> draws" where
  "demo_draws i = \<lparr>dr_user = i, dr_key = (\<lambda>n. i), dr_session = i, dr_event = i, dr_nonce = [1]\<rparr>"

definition demo_btc :: "string \<Rightarrow> asset_public_key" where
  "demo_btc pk = \<lparr>apk_asset = ''btc'', apk_public_key = pk, apk_public_spend_key = None\<rparr>"

definition demo_register :: "string \<Rightarrow> string option \<Rightarrow> extension_register_request" where
  "demo_register pk rotation =
     \<lparr>xr_keys = [demo_btc pk], xr_username = None, xr_wallet_birthday = None, xr_seed_fingerprint = Some ''f'',
      xr_xmr_start_height = None, xr_wow_start_height = None, xr_signed_timestamp = 0, xr_signature = ''s'',
      xr_rotation_signature = rotation, xr_altcha_solution = None, xr_invite_code = Some ''inv'',
      xr_payment_invoice_id = None\<rparr>"

definition demo_invite :: "timestamp option \<Rightarrow> invite_code_row" where
  "demo_invite used = \<lparr>ic_code_hash = ''inv'', ic_created_at = 0, ic_label = None, ic_expires_at = None,
     ic_used_at = used, ic_used_by = None\<rparr>"

definition demo_empty :: auth_state where
  "demo_empty = \<lparr>auth_db = (empty_database 0 (\<lambda>f. []))\<lparr>invite_codes := [demo_invite None]\<rparr>, pow_spent = []\<rparr>"

definition demo_alice :: user_row where
  "demo_alice = \<lparr>u_id = 1, u_username = None, u_pubkey_hash = Some (''pubkey_hash'' @ CHR 0x1F # ''k''),
     u_nostr_pubkey = None, u_wallet_birthday = None,
     u_seed_fingerprint = Some (''seed_fingerprint'' @ CHR 0x1F # ''f''), u_xmr_start_height = None,
     u_wow_start_height = None, u_created_at = 0, u_updated_at = 0, u_last_seen_at = None, u_premium_until = None\<rparr>"

definition demo_key :: user_key_row where
  "demo_key = \<lparr>k_id = 1, k_user_id = 1, k_asset = Btc, k_public_key = ''k'', k_public_spend_key = None,
     k_key_type = ''primary'', k_created_at = 0, k_updated_at = 0\<rparr>"

definition demo_session :: session_row where
  "demo_session = \<lparr>s_id = 1, s_user_id = 1, s_refresh_token_hash = ''rx'', s_platform = ''extension'',
     s_device_info = Some ''Browser Extension'', s_created_at = 0, s_expires_at = seconds 2592000,
     s_revoked_at = None, s_last_used_at = 0\<rparr>"

definition demo_event :: login_event_row where
  "demo_event = \<lparr>le_id = 1, le_user_id = Some 1, le_asset = ''btc'', le_platform = ''extension'', le_origin = None,
     le_ip_hash = None, le_created_at = 0\<rparr>"

definition demo_registered :: auth_state where
  "demo_registered = \<lparr>auth_db = (empty_database 0 (\<lambda>f. []))\<lparr>invite_codes := [demo_invite (Some 0)], users := [demo_alice],
     user_keys := [demo_key], sessions := [demo_session], login_events := [demo_event]\<rparr>, pow_spent = []\<rparr>"

lemma show_str_bytes [simp]: "show_bytes (str_bytes s) = s"
  by (simp add: show_bytes_def str_bytes_def comp_def unat_of_nat)

lemma demo_hashes:
  "hash_public_key demo_env pk = pk" "hash_invite_code demo_env c = c"
  "pepper (env_db demo_env) tag v = tag @ CHR 0x1F # v" "refresh_hash demo_env demo_cfg t = t"
  by (simp_all add: hash_public_key_def hash_invite_code_def pepper_def peppered_hex_def refresh_hash_def
      hash_refresh_token_def demo_env_def demo_proofs_def demo_handle_def)

lemma demo_btc_fields: "apk_public_key (demo_btc pk) = pk" "apk_public_spend_key (demo_btc pk) = None"
  "parse_asset (apk_asset (demo_btc pk)) = Inr Btc" "parse_keys [demo_btc pk] = Inr [(Btc, pk, None)]"
proof -
  have "parse_asset ''btc'' = Inr Btc" by code_simp
  then show "apk_public_key (demo_btc pk) = pk" "apk_public_spend_key (demo_btc pk) = None"
    "parse_asset (apk_asset (demo_btc pk)) = Inr Btc" "parse_keys [demo_btc pk] = Inr [(Btc, pk, None)]"
    by (simp_all add: demo_btc_def)
qed

lemma demo_proves: "proves_key demo_env (demo_register pk rot) (demo_btc pk)"
proof -
  have "find_btc [demo_btc pk] = Some (demo_btc pk)"
    by (simp add: find_btc_def demo_btc_def eq_ignore_ascii_case_def)
  then show ?thesis
    by (simp add: proves_key_def demo_register_def unix_now_def demo_env_def SIGNED_TS_MAX_DRIFT_SECS_def
        verify_bitcoin_signature_def demo_proofs_def demo_btc_def)
qed

lemma demo_signature: "verify_bitcoin_signature (env_proofs demo_env) m sg pk = Inr ()"
  by (simp add: verify_bitcoin_signature_def demo_env_def demo_proofs_def)

lemma demo_extension:
  "extension_register demo_env demo_cfg d (demo_register pk rot) =
     Some (extension_authenticated demo_env demo_cfg d (demo_register pk rot) (demo_btc pk))"
  using demo_proves [of pk rot]
  by (simp add: extension_register_def proves_key_def demo_signature valid_optional_username_def signed_age_def
      unix_now_def demo_env_def demo_register_def int_range_defs)

lemma demo_pow: "enforce_pow demo_env demo_cfg pk ret None = stmt_return (Inr ())"
  by (simp add: enforce_pow_def pow_applies_def demo_cfg_def)

lemma demo_token_pair:
  "create_token_pair (env_tokens demo_env) (env_jwt_error demo_env) (access_token_hours demo_cfg) 30
     (unix_now demo_env) u plat sid =
   Inr \<lparr>tp_access_token = ''a'' @ replicate (unat u) (CHR ''x''),
     tp_refresh_token = ''r'' @ replicate (unat sid) (CHR ''x''), tp_expires_in = 3600\<rparr>"
  by (simp add: create_token_pair_def demo_env_def demo_tokens_def demo_cfg_def)

lemma demo_clock: "env_clock demo_env = 0" "refresh_token_days demo_cfg = 30"
  "uuid_to_string (env_tokens demo_env) u = replicate (unat u) (CHR ''x'')"
  by (simp_all add: demo_env_def demo_cfg_def demo_tokens_def)

lemma demo_cfg_url: "public_api_url demo_cfg = Some ''x''"
  by (simp add: demo_cfg_def)

lemma demo_decode: "decode_refresh (env_tokens demo_env) v t =
    Some \<lparr>rc_sub = ''x'', rc_aud = REFRESH_AUD, rc_sid = tl t, rc_iat = 0, rc_exp = 86400\<rparr>"
  "parse_uuid (env_tokens demo_env) w = Some (of_nat (length w))"
  by (simp_all add: demo_env_def demo_tokens_def)

lemma demo_platform: "platform_from_str ''extension'' = Inr Extension"
  by code_simp

lemma demo_plan:
  "plan_gate_consume demo_env demo_cfg pk (Some ''inv'') None db =
     (Inr \<lparr>gr_invite_code_hash = Some ''inv'', gr_payment = None\<rparr>, db)"
proof -
  have "presented (Some ''inv'') = Some ''inv''" by code_simp
  then show ?thesis
    by (simp add: plan_gate_consume_def plan_gates_def demo_cfg_def require_invite_hash_def verify_payment_settled_def
        demo_hashes stmt_bind_def)
qed

lemma replicate_2 [simp]: "replicate 2 x = [x, x]"
  by (simp add: numeral_2_eq_2)

lemmas demo_ops = on_db_def on_part_def stmt_bind_def query_def select_user_def get_user_by_pubkey_hash_def
  get_user_by_seed_fingerprint_def sql_def map_err_def run_sql_def ignoring_def transaction_def

lemma demo_run:
  "extension_authenticated demo_env demo_cfg (demo_draws 1) (demo_register ''k'' None) (demo_btc ''k'') demo_empty =
     (Inr \<lparr>rs_access_token = ''ax'', rs_refresh_token = ''rx'', rs_expires_in = 3600,
        rs_user = \<lparr>ui_id = ''x'', ui_username = None, ui_nostr_pubkey = None\<rparr>, rs_is_new = True\<rparr>, demo_registered)"
  by (simp add: extension_authenticated_def try_move_def extension_plain_def demo_ops demo_hashes demo_btc_fields
      demo_register_def demo_empty_def Let_def demo_pow fingerprint_for_row_def register_new_def demo_plan
      ensure_username_available_def presented_def option_filter_def create_user_consuming_gates_def claim_invite_step_def
      claim_invite_code_def sql_returning_def sql_update_def demo_invite_def spendable_def consume_invoice_step_def
      insert_user_def users_violation_def clashes_def new_user_row_def new_user_of_def request_optionals_def
      with_draws_def demo_draws_def upsert_user_key_def same_key_def user_ids_def new_key_row_def sign_in_def
      issue_session_def demo_token_pair create_session_def record_login_event_def user_ref_ok_def auth_response_of_def
      to_user_info_def demo_registered_def demo_alice_def demo_key_def demo_session_def demo_event_def demo_clock seconds_def)

lemma demo_registered_reachable: "auth_reachable demo_registered"
proof -
  have "auth_reachable demo_empty" by (rule auth_reachable.start) (simp_all add: demo_empty_def)
  from auth_reachable.request [OF this, of demo_env demo_cfg "demo_draws 1" "ExtensionRegister (demo_register ''k'' None)"]
  show ?thesis by (simp add: demo_extension demo_run)
qed

lemma demo_registered_users: "users (auth_db demo_registered) = [demo_alice]"
  by (simp add: demo_registered_def)

lemma demo_rotate:
  "auth_db (serve demo_env demo_cfg (demo_draws 2) (ExtensionRegister (demo_register ''n'' (Some ''r''))) demo_registered) =
     (auth_db demo_registered)\<lparr>
       users := [demo_alice\<lparr>u_pubkey_hash := Some (''pubkey_hash'' @ CHR 0x1F # ''n'')\<rparr>],
       user_keys := [demo_key\<lparr>k_public_key := ''n''\<rparr>],
       sessions := [demo_session, demo_session\<lparr>s_id := 2, s_refresh_token_hash := ''rxx''\<rparr>],
       login_events := [demo_event, demo_event\<lparr>le_id := 2\<rparr>]\<rparr>"
  unfolding serve.simps demo_extension option.case
  by (simp add: extension_authenticated_def try_move_def demo_ops demo_hashes demo_btc_fields
      demo_register_def demo_registered_def demo_alice_def demo_key_def demo_session_def demo_event_def Let_def demo_pow
      get_user_key_def primary_key_def adoptable_def rotation_proven_def rotation_message_def demo_cfg_url demo_signature
      move_row_def update_pubkey_hash_def update_user_def lookup_key_def users_violation_def clashes_def sql_update_def
      upsert_all_keys_def with_draws_def demo_draws_def upsert_user_key_def same_key_def sql_returning_def replace_key_def
      sign_in_def issue_session_def demo_token_pair create_session_def user_ids_def record_login_event_def user_ref_ok_def
      demo_clock seconds_def)

theorem account_changes_only_by_proof_witness:
  "demo_alice \<in> set (users (auth_db demo_registered)) \<and>
   extension_entitled demo_env demo_cfg (demo_register ''n'' (Some ''r'')) (auth_db demo_registered) demo_alice"
proof -
  have "account (u_id demo_alice) (auth_db (serve demo_env demo_cfg (demo_draws 2)
      (ExtensionRegister (demo_register ''n'' (Some ''r''))) demo_registered)) \<noteq> account (u_id demo_alice) (auth_db demo_registered)"
    unfolding demo_rotate by (simp add: account_def demo_registered_def demo_key_def demo_alice_def)
  with account_changes_only_by_proof [OF demo_registered_reachable, of demo_alice demo_env demo_cfg "demo_draws 2"
      "ExtensionRegister (demo_register ''n'' (Some ''r''))"]
  show ?thesis by (simp add: demo_registered_users)
qed


theorem new_account_pays_its_gates_witness:
  "\<exists>k g. proves_key demo_env (demo_register ''k'' None) k \<and>
    paid_gates demo_env demo_cfg (hash_public_key demo_env (apk_public_key k)) (auth_db demo_empty) (auth_db demo_registered) g"
  by (rule new_account_pays_its_gates [OF demo_extension demo_run]) simp

lemma demo_refresh:
  "refresh_token demo_env demo_cfg (demo_draws 2) ''rx'' demo_registered =
     (Inr \<lparr>rs_access_token = ''ax'', rs_refresh_token = ''rxx'', rs_expires_in = 3600,
        rs_user = \<lparr>ui_id = ''x'', ui_username = None, ui_nostr_pubkey = None\<rparr>, rs_is_new = False\<rparr>,
      snd (refresh_token demo_env demo_cfg (demo_draws 2) ''rx'' demo_registered))"
  by (simp add: refresh_token_def demo_ops demo_hashes verify_refresh_token_def demo_decode get_session_by_token_hash_def
      session_active_def get_user_by_id_def demo_registered_def demo_session_def demo_alice_def demo_platform revoke_session_def
      update_sessions_def sql_update_def set_revoked_def issue_session_def demo_token_pair create_session_def user_ids_def
      demo_draws_def update_user_last_seen_def update_user_def lookup_key_def users_violation_def clashes_def
      auth_response_of_def to_user_info_def demo_clock seconds_def Let_def)

theorem refresh_token_works_once_witness:
  "isl (fst (refresh_token demo_env demo_cfg (demo_draws 3) ''rx'' (snd (refresh_token demo_env demo_cfg (demo_draws 2) ''rx'' demo_registered))))"
proof -
  have o: "one_session (refresh_hash demo_env demo_cfg ''rx'') (auth_db demo_registered)"
    by (simp add: one_session_def demo_hashes demo_registered_def)
  from refresh_token_works_once [OF demo_refresh _ o refl refl] show ?thesis by (simp add: demo_hashes)
qed


theorem rotation_proof_is_bound_witness:
  "rotation_message demo_cfg ''k'' 0 \<noteq> rotation_message demo_cfg ''n'' 0"
proof
  assume "rotation_message demo_cfg ''k'' 0 = rotation_message demo_cfg ''n'' 0"
  then obtain msg where m: "rotation_message demo_cfg ''k'' 0 = Some msg" "rotation_message demo_cfg ''n'' 0 = Some msg"
    by (simp add: rotation_message_def demo_cfg_url)
  from rotation_proof_is_bound [OF m] show False by simp
qed

end
