(* ===== verification/Relay_Policy.thy ===== *)
theory Relay_Policy
  imports Accounts_Db Wallet_Proofs
begin

text \<open>
  Admission to the Nostr relay: \<open>src/src/infra/relay/policy.rs\<close> (the decision), \<open>mod.rs\<close> (the
  configured relay and its write-allowlist) and \<open>nauthz.rs\<close> (the admission call, which resolves the
  author and the recipients against the users table). Bech32 is a parameter; the transport is left out.
\<close>

section \<open>The decision\<close>

definition GIFT_WRAP_KIND :: u64 where
  "GIFT_WRAP_KIND = 1059"

definition WALLET_KINDS :: "u64 list" where
  "WALLET_KINDS = [GIFT_WRAP_KIND, 10050]"

definition is_wallet_kind :: "u64 \<Rightarrow> bool" where
  "is_wallet_kind kind \<longleftrightarrow> list_ex (\<lambda>k. k = kind) WALLET_KINDS"

datatype write_policy = Open | AuthorAllowlist | InboxOutbox | PremiumPost

definition parse_write_policy :: "string \<Rightarrow> write_policy option" where
  "parse_write_policy s =
     (if s = ''open'' then Some Open
      else if s = ''author-allowlist'' then Some AuthorAllowlist
      else if s = ''inbox-outbox'' then Some InboxOutbox
      else if s = ''premium-post'' then Some PremiumPost
      else None)"

datatype admit = Permit | Deny string

record event_meta =
  em_author_pubkey :: string
  em_kind :: u64
  em_id_hex :: string

definition event_leading_zero_bits :: "'a crates_scheme \<Rightarrow> string \<Rightarrow> nat" where
  "event_leading_zero_bits lib id_hex =
     (case hex_decode lib id_hex of None \<Rightarrow> 0 | Some bytes \<Rightarrow> leading_zero_bits bytes)"

definition giftwrap_inbox :: "'a crates_scheme \<Rightarrow> event_meta \<Rightarrow> byte \<Rightarrow> bool \<Rightarrow> admit" where
  "giftwrap_inbox lib meta inbound_pow_bits recipient_registered =
     (if em_kind meta = GIFT_WRAP_KIND \<and> recipient_registered
      then if inbound_pow_bits > 0 \<and> event_leading_zero_bits lib (em_id_hex meta) < unat inbound_pow_bits
        then Deny ''insufficient proof-of-work for cross-ecosystem delivery''
        else Permit
      else Deny ''external authors may only deliver gift-wrapped DMs to registered users'')"

definition decide ::
    "'a crates_scheme \<Rightarrow> event_meta \<Rightarrow> write_policy \<Rightarrow> byte \<Rightarrow> bool \<Rightarrow> bool \<Rightarrow> bool \<Rightarrow> bool \<Rightarrow> admit" where
  "decide lib meta policy inbound_pow_bits author_registered recipient_registered author_premium author_allowlisted =
     (if author_allowlisted then Permit
      else case policy of
        Open \<Rightarrow> Permit
      | AuthorAllowlist \<Rightarrow>
          if author_registered then Permit else Deny ''author is not a registered npub''
      | InboxOutbox \<Rightarrow>
          if author_registered then Permit else giftwrap_inbox lib meta inbound_pow_bits recipient_registered
      | PremiumPost \<Rightarrow>
          if author_premium then Permit
          else if author_registered \<and> is_wallet_kind (em_kind meta) then Permit
          else if author_registered
          then Deny ''premium membership required to post general Nostr events to this relay''
          else giftwrap_inbox lib meta inbound_pow_bits recipient_registered)"

section \<open>The configured relay\<close>

record relay_config =
  rc_enabled :: bool
  rc_mode :: string
  rc_advertised_url :: string
  rc_write_policy :: string
  rc_inbound_pow_bits :: byte
  rc_max_event_bytes :: nat
  rc_write_allowlist :: "string list"

record relay_provider =
  rp_kind :: string
  rp_advertised_url :: string
  rp_policy :: write_policy
  rp_inbound_pow_bits :: byte
  rp_max_event_bytes :: nat
  rp_write_allowlist :: "string list"

definition allowlist_entry_to_hex ::
    "'a crates_scheme \<Rightarrow> (string \<Rightarrow> (string \<times> byte list) option) \<Rightarrow> string \<Rightarrow> string option" where
  "allowlist_entry_to_hex lib bech32 entry =
     (let s = trim entry in
      if s = [] then None
      else if take 5 s = ''npub1'' then
        (case bech32 s of
           None \<Rightarrow> None
         | Some (hrp, bytes) \<Rightarrow> if hrp \<noteq> ''npub'' \<or> length bytes \<noteq> 32 then None else Some (hex_encode lib bytes))
      else let lower = to_lowercase s in
        if length lower = 64 \<and> hex_decode lib lower \<noteq> None then Some lower else None)"

text \<open>The set of allowed keys is a list here; a malformed entry is skipped.\<close>

definition relay_from_config ::
    "'a crates_scheme \<Rightarrow> (string \<Rightarrow> (string \<times> byte list) option) \<Rightarrow> relay_config \<Rightarrow> relay_provider option result" where
  "relay_from_config lib bech32 r =
     (if \<not> rc_enabled r then Inr None
      else
        try_bind (ok_or (parse_write_policy (rc_write_policy r))
            (ConfigError (''invalid RELAY_WRITE_POLICY: '' @ rc_write_policy r))) (\<lambda>policy.
          if rc_mode r = ''bundled'' \<or> rc_mode r = ''external''
          then Inr (Some
            \<lparr>rp_kind = (if rc_mode r = ''bundled'' then ''nostr-rs-relay'' else ''external''),
             rp_advertised_url = rc_advertised_url r, rp_policy = policy,
             rp_inbound_pow_bits = rc_inbound_pow_bits r, rp_max_event_bytes = rc_max_event_bytes r,
             rp_write_allowlist = List.map_filter (allowlist_entry_to_hex lib bech32) (rc_write_allowlist r)\<rparr>)
          else Inl (ConfigError (''unsupported RELAY_MODE: '' @ rc_mode r))))"

definition is_write_allowlisted :: "relay_provider \<Rightarrow> string \<Rightarrow> bool" where
  "is_write_allowlisted relay author_hex \<longleftrightarrow> rp_write_allowlist relay \<noteq> [] \<and> author_hex \<in> set (rp_write_allowlist relay)"

section \<open>The admission call\<close>

record relay_event =
  re_id :: "byte list"
  re_pubkey :: "byte list"
  re_kind :: u64
  re_content :: string
  re_tags :: "string list list"

definition MAX_P_TAGS :: nat where
  "MAX_P_TAGS = 20"

fun collect_p_tags :: "string list \<Rightarrow> string list list \<Rightarrow> string list" where
  "collect_p_tags acc [] = acc"
| "collect_p_tags acc (t # ts) =
     (if length acc \<ge> MAX_P_TAGS then acc
      else if length t \<ge> 2 \<and> t ! 0 = ''p''
      then let p = to_lowercase (t ! 1) in
        collect_p_tags (if p \<in> set acc then acc else acc @ [p]) ts
      else collect_p_tags acc ts)"

definition unwrap_or_false :: "bool stmt \<Rightarrow> bool stmt" where
  "unwrap_or_false m db = (case m db of (Inl e, db') \<Rightarrow> (Inr False, db') | (Inr b, db') \<Rightarrow> (Inr b, db'))"

definition event_admit :: "'a crates_scheme \<Rightarrow> relay_provider \<Rightarrow> relay_event option \<Rightarrow> admit stmt" where
  "event_admit lib relay request =
     (case request of
        None \<Rightarrow> stmt_return (Inr (Deny ''missing event''))
      | Some ev \<Rightarrow>
          if length (re_content ev) > rp_max_event_bytes relay then stmt_return (Inr (Deny ''event exceeds max size''))
          else
            let author_hex = hex_encode lib (re_pubkey ev);
                allowlisted = is_write_allowlisted relay author_hex in
            stmt_bind (if allowlisted then stmt_return (Inr False)
                       else unwrap_or_false (is_registered_npub author_hex)) (\<lambda>registered.
            stmt_bind (if \<not> allowlisted \<and> rp_policy relay = PremiumPost
                       then unwrap_or_false (is_premium_npub author_hex)
                       else stmt_return (Inr False)) (\<lambda>premium.
            stmt_bind (if registered \<or> allowlisted then stmt_return (Inr False)
                       else unwrap_or_false (any_registered_npub (collect_p_tags [] (re_tags ev)))) (\<lambda>recipient.
              stmt_return (Inr (decide lib
                \<lparr>em_author_pubkey = author_hex, em_kind = re_kind ev, em_id_hex = hex_encode lib (re_id ev)\<rparr>
                (rp_policy relay) (rp_inbound_pow_bits relay) registered recipient premium allowlisted))))))"

section \<open>Lemmas\<close>

lemma collect_p_tags_bounded: "length acc \<le> MAX_P_TAGS \<Longrightarrow> length (collect_p_tags acc ts) \<le> MAX_P_TAGS"
  by (induction acc ts rule: collect_p_tags.induct) (auto simp: Let_def)

lemma collect_p_tags_sound:
  "p \<in> set (collect_p_tags acc ts) \<Longrightarrow>
     p \<in> set acc \<or> (\<exists>t \<in> set ts. length t \<ge> 2 \<and> t ! 0 = ''p'' \<and> p = to_lowercase (t ! 1))"
  by (induction acc ts rule: collect_p_tags.induct) (auto simp: Let_def split: if_splits)

definition registered :: "database \<Rightarrow> string \<Rightarrow> bool" where
  "registered db k \<longleftrightarrow> (\<exists>r \<in> set (users db). u_nostr_pubkey r = Some k)"

definition premium_member :: "database \<Rightarrow> string \<Rightarrow> bool" where
  "premium_member db k \<longleftrightarrow> (\<exists>r \<in> set (users db). u_nostr_pubkey r = Some k \<and> premium_active (db_now db) r)"

lemma npub_queries:
  "unwrap_or_false (is_registered_npub k) db = (Inr (\<not> db_outage db \<and> registered db k), db)"
  "unwrap_or_false (is_premium_npub k) db = (Inr (\<not> db_outage db \<and> premium_member db k), db)"
  "unwrap_or_false (any_registered_npub ks) db =
     (Inr (\<not> db_outage db \<and> (\<exists>k \<in> set ks. registered db k)), db)"
  by (auto simp: is_registered_npub_def is_premium_npub_def any_registered_npub_def unwrap_or_false_def query_def
      registered_def premium_member_def list_ex_iff)

text \<open>The whole call, without the database monad.\<close>

lemma event_admit_eq:
  "event_admit lib relay (Some ev) db =
     (let author = hex_encode lib (re_pubkey ev); up = \<not> db_outage db;
          allowed = is_write_allowlisted relay author;
          known = \<not> allowed \<and> up \<and> registered db author in
      (Inr (if length (re_content ev) > rp_max_event_bytes relay then Deny ''event exceeds max size''
            else decide lib
              \<lparr>em_author_pubkey = author, em_kind = re_kind ev, em_id_hex = hex_encode lib (re_id ev)\<rparr>
              (rp_policy relay) (rp_inbound_pow_bits relay) known
              (\<not> known \<and> \<not> allowed \<and> up \<and> (\<exists>k \<in> set (collect_p_tags [] (re_tags ev)). registered db k))
              (\<not> allowed \<and> rp_policy relay = PremiumPost \<and> up \<and> premium_member db author) allowed), db))"
  by (simp add: event_admit_def npub_queries stmt_bind_def Let_def)

section \<open>Properties\<close>

text \<open>C35. The relay admits nobody it should not: an event of an author who is neither allowlisted by the
  operator nor a registered user is admitted, unless the relay is open to all, only as a gift-wrapped
  message to a registered user named in one of its first twenty distinct recipient tags, with the
  proof of work the operator asks for; and while the database is unreachable nobody but allowlisted
  authors gets in.\<close>

theorem strangers_only_deliver_gift_wraps:
  assumes "event_admit lib relay (Some ev) db = (Inr Permit, db')" "rp_policy relay \<noteq> Open"
    and "\<not> is_write_allowlisted relay (hex_encode lib (re_pubkey ev))"
  shows "\<not> db_outage db \<and>
    (\<not> registered db (hex_encode lib (re_pubkey ev)) \<longrightarrow>
      re_kind ev = GIFT_WRAP_KIND \<and>
      (\<exists>t \<in> set (re_tags ev). length t \<ge> 2 \<and> t ! 0 = ''p'' \<and> registered db (to_lowercase (t ! 1))) \<and>
      (rp_inbound_pow_bits relay > 0 \<longrightarrow>
        unat (rp_inbound_pow_bits relay) \<le> event_leading_zero_bits lib (hex_encode lib (re_id ev))))"
proof -
  let ?k = "hex_encode lib (re_pubkey ev)"
  have prem: "premium_member db ?k \<Longrightarrow> registered db ?k" by (auto simp: premium_member_def registered_def)
  have rec: "\<exists>t \<in> set (re_tags ev). length t \<ge> 2 \<and> t ! 0 = ''p'' \<and> registered db (to_lowercase (t ! 1))"
    if "k \<in> set (collect_p_tags [] (re_tags ev))" "registered db k" for k
    using that collect_p_tags_sound [OF that(1)] by auto
  from assms show ?thesis
    using rec prem
    by (cases "rp_policy relay")
       (auto simp: event_admit_eq Let_def decide_def giftwrap_inbox_def split: if_splits)
qed

definition sample_relay :: relay_provider where
  "sample_relay = \<lparr>rp_kind = ''external'', rp_advertised_url = ''wss://r'', rp_policy = InboxOutbox,
     rp_inbound_pow_bits = 4, rp_max_event_bytes = 10, rp_write_allowlist = []\<rparr>"

definition sample_crates :: crates where
  "sample_crates = \<lparr>hex_encode = hex_encode_ref, hex_decode = hex_decode_ref, uuid_to_string = (\<lambda>u. []), rfc3339 = (\<lambda>t. [])\<rparr>"

definition sample_gift :: relay_event where
  "sample_gift = \<lparr>re_id = [0x0F, 0xFF], re_pubkey = [1], re_kind = 1059, re_content = ''x'',
     re_tags = [[''e'', ''y''], [''p'', ''0B'']]\<rparr>"

definition sample_member :: user_row where
  "sample_member = \<lparr>u_id = 1, u_username = None, u_pubkey_hash = None, u_nostr_pubkey = Some ''0b'',
     u_wallet_birthday = None, u_seed_fingerprint = None, u_xmr_start_height = None, u_wow_start_height = None,
     u_created_at = 0, u_updated_at = 0, u_last_seen_at = None, u_premium_until = None\<rparr>"

definition sample_relay_db :: database where
  "sample_relay_db = (empty_database 0 (\<lambda>f. []))\<lparr>users := [sample_member]\<rparr>"

theorem strangers_only_deliver_gift_wraps_witness:
  "event_admit sample_crates sample_relay (Some sample_gift) sample_relay_db = (Inr Permit, sample_relay_db) \<and>
   (4 :: nat) \<le> event_leading_zero_bits sample_crates (hex_encode sample_crates (re_id sample_gift))"
proof -
  have f: "fst (event_admit sample_crates sample_relay (Some sample_gift) sample_relay_db) = Inr Permit \<and>
      \<not> is_write_allowlisted sample_relay (hex_encode sample_crates (re_pubkey sample_gift)) \<and>
      hex_encode sample_crates (re_pubkey sample_gift) \<noteq> ''0b''" by code_simp
  then have e: "event_admit sample_crates sample_relay (Some sample_gift) sample_relay_db = (Inr Permit, sample_relay_db)"
    by (simp add: event_admit_eq Let_def)
  have "\<not> registered sample_relay_db (hex_encode sample_crates (re_pubkey sample_gift))"
    using f by (auto simp: registered_def sample_relay_db_def sample_member_def)
  with strangers_only_deliver_gift_wraps [OF e] f e show ?thesis by (simp add: sample_relay_def)
qed

end
