(* ===== verification/Premium.thy ===== *)
theory Premium
  imports Relay_Policy Auth_Safety
begin

text \<open>
  Premium subscriptions: \<open>src/src/infra/db/premium_invoices.rs\<close>, \<open>src/src/api/premium.rs\<close>, the
  choice of a payment rail in \<open>src/src/infra/payment/mod.rs\<close> and the vocabulary of the BTCPay
  adapter in \<open>src/src/infra/payment/btcpay.rs\<close>. The processor is the record \<open>payment_provider\<close>; a
  request is served on the database, with the application's clock as an argument.
\<close>

section \<open>Invoices\<close>

definition insert_premium_invoice ::
    "string \<Rightarrow> uuid \<Rightarrow> string \<Rightarrow> string \<Rightarrow> i32 \<Rightarrow> string \<Rightarrow> string \<Rightarrow> unit stmt" where
  "insert_premium_invoice invoice_id user_id provider plan days price currency =
     sql (\<lambda>db.
       if invoice_id \<in> set (map pm_invoice_id (premium_invoices db))
       then Inl (UniqueViolation ''premium_invoices_pkey'')
       else if user_id \<notin> set (user_ids db) then Inl ConstraintViolation
       else Inr ((), db\<lparr>premium_invoices := premium_invoices db @
         [\<lparr>pm_invoice_id = invoice_id, pm_user_id = user_id, pm_provider = provider, pm_plan_id = plan,
           pm_period_days = days, pm_amount = price, pm_currency = currency, pm_created_at = db_now db,
           pm_consumed_at = None\<rparr>]\<rparr>))"

definition get_premium_invoice :: "string \<Rightarrow> premium_invoice_row option stmt" where
  "get_premium_invoice invoice_id =
     query (\<lambda>db. fetch_optional (filter (\<lambda>p. pm_invoice_id p = invoice_id) (premium_invoices db)))"

definition count_unconsumed_premium_invoices :: "uuid \<Rightarrow> nat stmt" where
  "count_unconsumed_premium_invoices user_id =
     query (\<lambda>db. length (filter (\<lambda>p. pm_user_id p = user_id \<and> pm_consumed_at p = None) (premium_invoices db)))"

definition redeemable :: "uuid \<Rightarrow> premium_invoice_row \<Rightarrow> bool" where
  "redeemable user_id p \<longleftrightarrow> pm_user_id p = user_id \<and> pm_consumed_at p = None"

definition set_redeemed :: "timestamp \<Rightarrow> premium_invoice_row \<Rightarrow> premium_invoice_row" where
  "set_redeemed now p = p\<lparr>pm_consumed_at := Some now\<rparr>"

interpretation redeeming: one_shot_update pm_invoice_id "redeemable u" "set_redeemed now" for u now
  by unfold_locales (simp_all add: redeemable_def set_redeemed_def)

definition redeem_invoice :: "string \<Rightarrow> uuid \<Rightarrow> bool stmt" where
  "redeem_invoice invoice_id user_id =
     sql (\<lambda>db.
       let p = (\<lambda>x. pm_invoice_id x = invoice_id \<and> redeemable user_id x); u = set_redeemed (db_now db)
       in Inr (fetch_optional (sql_returning p u (premium_invoices db)) \<noteq> None,
            db\<lparr>premium_invoices := sql_update p u (premium_invoices db)\<rparr>))"

definition activate_premium :: "string \<Rightarrow> uuid \<Rightarrow> i32 \<Rightarrow> timestamp option stmt" where
  "activate_premium invoice_id user_id days =
     transaction
       (stmt_bind (redeem_invoice invoice_id user_id) (\<lambda>consumed.
          if \<not> consumed then stmt_return (Inr None)
          else stmt_bind (extend_premium user_id days) (\<lambda>until. stmt_return (Inr (Some until)))))"

section \<open>Rails\<close>

record payment_rail =
  pr_provider :: payment_provider
  pr_assets :: "string list"

definition rail_kind :: "payment_rail \<Rightarrow> string" where
  "rail_kind r = provider_kind (pr_provider r)"

definition select_rail :: "payment_rail list \<Rightarrow> string option \<Rightarrow> payment_rail option" where
  "select_rail rails kind =
     (case kind of
        None \<Rightarrow> fetch_optional rails
      | Some k \<Rightarrow> find (\<lambda>r. rail_kind r = k) rails)"

definition for_invoice :: "payment_rail list \<Rightarrow> string \<Rightarrow> payment_rail option" where
  "for_invoice rails kind = find (\<lambda>r. rail_kind r = kind) rails"

text \<open>The confirmations a BTCPay speed policy waits for, from BTCPay's documentation.\<close>

definition speed_policy :: "nat \<Rightarrow> string" where
  "speed_policy confirmations =
     (if confirmations = 0 then ''HighSpeed''
      else if confirmations = 1 then ''MediumSpeed''
      else if confirmations \<le> 5 then ''LowMediumSpeed''
      else ''LowSpeed'')"

definition map_status :: "string \<Rightarrow> invoice_status" where
  "map_status s =
     (if s = ''Settled'' \<or> s = ''Complete'' \<or> s = ''Confirmed'' then Settled
      else if s = ''Processing'' \<or> s = ''Paid'' then InvDetected
      else if s = ''Expired'' then InvExpired
      else if s = ''Invalid'' then InvInvalid
      else InvPending)"

text \<open>The invoice a processor answers with; the third field is the string under \<open>smirkBind\<close> of its
  metadata, when there is one.\<close>

record btcpay_invoice_resp =
  bp_id :: string
  bp_status :: string
  bp_bind :: "string option"
  bp_checkout_link :: "string option"
  bp_address :: "string option"

definition to_invoice :: "btcpay_invoice_resp \<Rightarrow> invoice" where
  "to_invoice resp =
     \<lparr>inv_id = bp_id resp,
      inv_pay_to = (case option_or (bp_checkout_link resp) (bp_address resp) of None \<Rightarrow> [] | Some s \<Rightarrow> s),
      inv_status = map_status (bp_status resp), inv_bind = bp_bind resp\<rparr>"

section \<open>Endpoints\<close>

record premium_plan =
  plan_id :: string
  plan_days :: i32
  plan_amount :: string

record premium_config =
  premium_enabled :: bool
  premium_currency :: string
  premium_plans :: "premium_plan list"

record premium_env =
  pe_tokens :: token_lib
  pe_config :: premium_config
  pe_payment :: payment_config
  pe_rails :: "payment_rail list"
  pe_relay :: "relay_provider option"
  pe_clock :: timestamp

record premium_invoice_resp =
  pn_invoice_id :: string
  pn_pay_to :: string
  pn_plan :: string
  pn_amount :: string
  pn_currency :: string
  pn_rail :: string

record status_resp =
  st_active :: bool
  st_premium_until :: "string option"
  st_write_allowlisted :: bool
  st_can_post_general :: bool

definition general_posting_rights :: "premium_env \<Rightarrow> string option \<Rightarrow> bool \<times> bool" where
  "general_posting_rights env nostr_pubkey =
     (case pe_relay env of
        None \<Rightarrow> (False, False)
      | Some relay \<Rightarrow>
          let allowlisted = (case nostr_pubkey of None \<Rightarrow> False | Some pk \<Rightarrow> is_write_allowlisted relay (to_lowercase pk)) in
          if allowlisted then (True, True)
          else (False,
            (case rp_policy relay of
               Open \<Rightarrow> True
             | PremiumPost \<Rightarrow> False
             | AuthorAllowlist \<Rightarrow> nostr_pubkey \<noteq> None
             | InboxOutbox \<Rightarrow> nostr_pubkey \<noteq> None)))"

definition ensure_enabled :: "premium_env \<Rightarrow> unit result" where
  "ensure_enabled env =
     ensure (premium_enabled (pe_config env)) (ValidationError ''Premium is not available on this instance.'')"

definition MAX_PENDING :: i64 where
  "MAX_PENDING = 8"

definition premium_invoice :: "premium_env \<Rightarrow> string option \<Rightarrow> string \<Rightarrow> string option \<Rightarrow> premium_invoice_resp stmt" where
  "premium_invoice env header plan_name rail_name =
     stmt_bind (extract_user_id_from_token (pe_tokens env) header) (\<lambda>user_id.
     stmt_bind (stmt_return (ensure_enabled env)) (\<lambda>x.
     stmt_bind (require_some (ValidationError ''Unknown premium plan.'')
         (find (\<lambda>p. plan_id p = plan_name) (premium_plans (pe_config env)))) (\<lambda>plan.
     stmt_bind (count_unconsumed_premium_invoices user_id) (\<lambda>pending.
     stmt_bind (stmt_return (ensure (\<not> int pending \<ge> MAX_PENDING) (ValidationError
         ''Too many pending premium invoices; pay or let them expire before minting another.''))) (\<lambda>x.
     stmt_bind (require_some (case rail_name of
           Some r \<Rightarrow> ValidationError ''That payment method is not available.''
         | None \<Rightarrow> Internal ''payment provider not configured'')
         (select_rail (pe_rails env) (map_option trim rail_name))) (\<lambda>rail.
     stmt_bind (stmt_return (create_invoice (pr_provider rail)
         \<lparr>ir_amount = plan_amount plan, ir_currency = premium_currency (pe_config env),
          ir_confirmations = pay_confirmations (pe_payment env), ir_bind = uuid_to_string (pe_tokens env) user_id,
          ir_expires_minutes = pay_expires_minutes (pe_payment env)\<rparr>)) (\<lambda>inv.
     stmt_bind (insert_premium_invoice (inv_id inv) user_id (rail_kind rail) (plan_id plan) (plan_days plan)
         (plan_amount plan) (premium_currency (pe_config env))) (\<lambda>x.
       stmt_return (Inr \<lparr>pn_invoice_id = inv_id inv, pn_pay_to = inv_pay_to inv, pn_plan = plan_id plan,
         pn_amount = plan_amount plan, pn_currency = premium_currency (pe_config env), pn_rail = rail_kind rail\<rparr>)))))))))"

definition bad_premium_invoice :: app_error where
  "bad_premium_invoice = ValidationError ''Unknown or invalid premium invoice.''"

definition used_premium_invoice :: app_error where
  "used_premium_invoice = ValidationError ''This premium invoice has already been used.''"

definition npub_of :: "uuid \<Rightarrow> string option stmt" where
  "npub_of user_id =
     stmt_bind (get_user_by_id user_id) (\<lambda>found. stmt_return (Inr (Option.bind found u_nostr_pubkey)))"

definition activate :: "premium_env \<Rightarrow> string option \<Rightarrow> string \<Rightarrow> status_resp stmt" where
  "activate env header invoice_id =
     stmt_bind (extract_user_id_from_token (pe_tokens env) header) (\<lambda>user_id.
     stmt_bind (stmt_return (ensure_enabled env)) (\<lambda>x.
     let i = trim invoice_id in
     stmt_bind (get_premium_invoice i) (\<lambda>found.
     stmt_bind (require_some bad_premium_invoice (option_filter (\<lambda>r. pm_user_id r = user_id) found)) (\<lambda>row.
     stmt_bind (stmt_return (ensure (pm_consumed_at row = None) used_premium_invoice)) (\<lambda>x.
     stmt_bind (require_some (ValidationError
         ''This invoice's payment method is currently unavailable. Try again later.'')
         (for_invoice (pe_rails env) (pm_provider row))) (\<lambda>rail.
     stmt_bind (stmt_return (get_invoice (pr_provider rail) i)) (\<lambda>inv.
     stmt_bind (stmt_return (ensure (inv_status inv = Settled)
         (ValidationError ''Payment not yet confirmed. Complete the payment and retry.''))) (\<lambda>x.
     stmt_bind (stmt_return (ensure
         (case inv_bind inv of None \<Rightarrow> True | Some b \<Rightarrow> b = uuid_to_string (pe_tokens env) user_id)
         bad_premium_invoice)) (\<lambda>x.
     stmt_bind (activate_premium i user_id (pm_period_days row)) (\<lambda>activated.
     stmt_bind (require_some used_premium_invoice activated) (\<lambda>until.
     stmt_bind (npub_of user_id) (\<lambda>npub.
       stmt_return (Inr \<lparr>st_active = True, st_premium_until = Some (rfc3339 (pe_tokens env) until),
         st_write_allowlisted = fst (general_posting_rights env npub), st_can_post_general = True\<rparr>)))))))))))))"

definition premium_status :: "premium_env \<Rightarrow> string option \<Rightarrow> status_resp stmt" where
  "premium_status env header =
     stmt_bind (extract_user_id_from_token (pe_tokens env) header) (\<lambda>user_id.
     stmt_bind (get_premium_until user_id) (\<lambda>until.
     stmt_bind (npub_of user_id) (\<lambda>npub.
       let active = (case until of None \<Rightarrow> False | Some u \<Rightarrow> u > pe_clock env);
           (write_allowlisted, can_general) = general_posting_rights env npub
       in stmt_return (Inr \<lparr>st_active = active, st_premium_until = map_option (rfc3339 (pe_tokens env)) until,
         st_write_allowlisted = write_allowlisted, st_can_post_general = active \<or> can_general\<rparr>))))"

section \<open>Lemmas\<close>

lemma reads_premium:
  "reads (get_premium_invoice i)" "reads (count_unconsumed_premium_invoices u)" "reads (get_premium_until u)"
  "reads (npub_of u)"
  unfolding get_premium_invoice_def count_unconsumed_premium_invoices_def get_premium_until_def npub_of_def
  by (intro reads_query unchanged.within_rules reads_lookups)+

lemma set_premium_fields [simp]: "u_id (set_premium d now r) = u_id r" "u_nostr_pubkey (set_premium d now r) = u_nostr_pubkey r"
  "u_premium_until (set_premium d now r) = Some (extended_until now d (u_premium_until r))"
  by (simp_all add: set_premium_def)

lemma lookup_update_id:
  assumes "\<And>r. u_id (f r) = u_id r"
  shows "lookup_key u_id j (sql_update (\<lambda>x. u_id x = i) f rows) =
    map_option (\<lambda>r. if j = i then f r else r) (lookup_key u_id j rows)"
  by (induction rows) (auto simp: sql_update_def lookup_key_def assms)

lemma extend_premium_Inr:
  assumes "extend_premium i d db = (Inr until, db')"
  shows "\<exists>r. lookup_key u_id i (users db) = Some r \<and> until = extended_until (db_now db) d (u_premium_until r) \<and>
    db' = db\<lparr>users := sql_update (\<lambda>x. u_id x = i) (set_premium d (db_now db)) (users db)\<rparr> \<and> \<not> db_outage db"
  using assms
  by (auto simp: extend_premium_def stmt_bind_Inr one_row_def update_user_def run_sql_def
      split: prod.splits sum.splits option.splits if_splits)

lemma redeem_invoice_Inr:
  "redeem_invoice i u db = (Inr b, db') \<Longrightarrow>
     db' = db\<lparr>premium_invoices := sql_update (\<lambda>x. pm_invoice_id x = i \<and> redeemable u x) (set_redeemed (db_now db)) (premium_invoices db)\<rparr> \<and>
     (b \<longleftrightarrow> (\<exists>x \<in> set (premium_invoices db). pm_invoice_id x = i \<and> redeemable u x))"
  by (auto simp: redeem_invoice_def sql_Inr Let_def fetch_optional_None sql_returning_Nil)

lemma activate_premium_Inr:
  assumes "activate_premium i u d db = (Inr (Some until), db')"
  obtains r where "lookup_key u_id u (users db) = Some r" "until = extended_until (db_now db) d (u_premium_until r)"
    "users db' = sql_update (\<lambda>x. u_id x = u) (set_premium d (db_now db)) (users db)"
    "premium_invoices db' = sql_update (\<lambda>x. pm_invoice_id x = i \<and> redeemable u x) (set_redeemed (db_now db)) (premium_invoices db)"
    "\<exists>x \<in> set (premium_invoices db). pm_invoice_id x = i \<and> redeemable u x"
proof -
  from assms obtain db1 where
    c: "redeem_invoice i u db = (Inr True, db1)" "extend_premium u d db1 = (Inr until, db')"
    by (auto simp: activate_premium_def transaction_Inr stmt_bind_Inr split: if_splits)
  from extend_premium_Inr [OF c(2)] obtain r where r: "lookup_key u_id u (users db1) = Some r"
    "until = extended_until (db_now db1) d (u_premium_until r)"
    "db' = db1\<lparr>users := sql_update (\<lambda>x. u_id x = u) (set_premium d (db_now db1)) (users db1)\<rparr>" by blast
  from redeem_invoice_Inr [OF c(1)] r show thesis by (intro that [of r]) auto
qed

lemma activate_premium_None:
  assumes "activate_premium i u d db = (Inr None, db')"
  shows "db' = db"
proof -
  from assms have c: "redeem_invoice i u db = (Inr False, db')"
    by (auto simp: activate_premium_def transaction_Inr stmt_bind_Inr split: if_splits)
  from redeem_invoice_Inr [OF c] have
    "sql_update (\<lambda>x. pm_invoice_id x = i \<and> redeemable u x) (set_redeemed (db_now db)) (premium_invoices db) = premium_invoices db"
    by (intro sql_update_id) auto
  with redeem_invoice_Inr [OF c] show ?thesis by simp
qed

lemma activate_premium_Inl: "activate_premium i u d db = (Inl e, db') \<Longrightarrow> db' = db"
  using transaction_Inl [of _ db e] unfolding activate_premium_def by (metis fst_conv snd_conv)

lemma stmt_reads_at: "reads m \<Longrightarrow> m db = (r, db') \<longleftrightarrow> fst (m db) = r \<and> db' = db"
  by (metis fst_conv prod.collapse reads_snd snd_conv)

lemmas premium_reads = reads_premium [THEN stmt_reads_at] reads_extract [THEN stmt_reads_at]

lemma activate_Inr:
  assumes "activate env header j db = (Inr resp, db')"
  obtains user_id row rail inv until where
    "fst (extract_user_id_from_token (pe_tokens env) header db) = Inr user_id"
    "fst (get_premium_invoice (trim j) db) = Inr (Some row)" "pm_user_id row = user_id" "pm_consumed_at row = None"
    "for_invoice (pe_rails env) (pm_provider row) = Some rail" "get_invoice (pr_provider rail) (trim j) = Inr inv"
    "inv_status inv = Settled" "activate_premium (trim j) user_id (pm_period_days row) db = (Inr (Some until), db')"
    "st_premium_until resp = Some (rfc3339 (pe_tokens env) until)"
  using assms
  by (auto simp: activate_def stmt_bind_Inr premium_reads require_some_def Let_def split: option.splits)

lemma npub_of_up: "\<not> db_outage db \<Longrightarrow> \<exists>n. npub_of u db = (Inr n, db)"
  by (simp add: npub_of_def get_user_by_id_def select_user_def query_def stmt_bind_def)

lemma activation_clean:
  "clean (stmt_bind (activate_premium i u d) (\<lambda>activated. stmt_bind (require_some e activated) (\<lambda>until.
     stmt_bind (npub_of u) (\<lambda>npub. stmt_return (Inr (g until npub)))))) db"
proof (cases "activate_premium i u d db")
  case (Pair r db')
  consider (failed) e where "r = Inl e" | (none) "r = Inr None" | (granted) until where "r = Inr (Some until)"
    by (cases r) auto
  then show ?thesis
  proof cases
    case failed
    with Pair activate_premium_Inl show ?thesis by (simp add: clean_def stmt_bind_def)
  next
    case none
    with Pair activate_premium_None show ?thesis by (simp add: clean_def stmt_bind_def)
  next
    case granted
    with Pair have "\<not> db_outage db'"
      by (auto simp: activate_premium_def transaction_Inr stmt_bind_Inr dest!: extend_premium_Inr split: if_splits)
    with npub_of_up [of db' u] Pair granted show ?thesis by (auto simp: clean_def stmt_bind_def)
  qed
qed

lemma activate_clean: "clean (activate env header j) db"
  unfolding activate_def Let_def
  by (intro clean_bind_read unchanged.within_rules reads_premium reads_extract activation_clean)

section \<open>Properties\<close>

text \<open>C34. Premium is bought once per invoice: a successful activation means that the invoice was minted for
  the caller and unspent, and that the processor that minted it, on the rail named in its row, reports
  it settled; the caller's premium then runs from its current end, or from now if it has lapsed, for
  the days of the plan, and nobody else's row changes. Whatever happens later, nobody activates
  that invoice again, and an activation that is refused changes nothing.\<close>

theorem premium_bought_once:
  assumes "activate env header j db = (Inr resp, db')" "distinct (map pm_invoice_id (premium_invoices db))"
    and "premium_invoices later = premium_invoices db'"
  shows "(\<exists>row rail inv old. row \<in> set (premium_invoices db) \<and> pm_invoice_id row = trim j \<and> pm_consumed_at row = None \<and>
      fst (extract_user_id_from_token (pe_tokens env) header db) = Inr (pm_user_id row) \<and>
      rail \<in> set (pe_rails env) \<and> rail_kind rail = pm_provider row \<and>
      get_invoice (pr_provider rail) (trim j) = Inr inv \<and> inv_status inv = Settled \<and>
      lookup_key u_id (pm_user_id row) (users db) = Some old \<and>
      lookup_key u_id (pm_user_id row) (users db') = Some (set_premium (pm_period_days row) (db_now db) old) \<and>
      (\<forall>i. i \<noteq> pm_user_id row \<longrightarrow> lookup_key u_id i (users db') = lookup_key u_id i (users db))) \<and>
    isl (fst (activate env' header' j later)) \<and> snd (activate env' header' j later) = later"
  using assms(1)
proof (cases rule: activate_Inr)
  case (1 user_id row rail inv until)
  obtain old where a: "lookup_key u_id user_id (users db) = Some old"
    "users db' = sql_update (\<lambda>x. u_id x = user_id) (set_premium (pm_period_days row) (db_now db)) (users db)"
    "premium_invoices db' = sql_update (\<lambda>x. pm_invoice_id x = trim j \<and> redeemable user_id x)
       (set_redeemed (db_now db)) (premium_invoices db)"
    using 1(8) by (rule activate_premium_Inr)
  have row: "row \<in> set (premium_invoices db)" "pm_invoice_id row = trim j"
    using 1(2) by (auto simp: get_premium_invoice_def dest!: fetch_filter_Some [OF sym])
  have rail: "rail \<in> set (pe_rails env)" "rail_kind rail = pm_provider row"
    using 1(5) by (auto simp: for_invoice_def dest: find_Some_in)
  have l: "lookup_key u_id i (users db') = map_option (\<lambda>r. if i = user_id
      then set_premium (pm_period_days row) (db_now db) r else r) (lookup_key u_id i (users db))" for i
    unfolding a(2) by (rule lookup_update_id) simp
  have l2: "\<forall>i. i \<noteq> user_id \<longrightarrow> lookup_key u_id i (users db') = lookup_key u_id i (users db)"
    by (simp add: l option.map_ident)
  have spent: "pm_consumed_at x \<noteq> None" if x: "x \<in> set (premium_invoices later)" "pm_invoice_id x = trim j" for x
  proof -
    from x(1) obtain y where y: "y \<in> set (premium_invoices db)"
      "x = (if pm_invoice_id y = trim j \<and> redeemable user_id y then set_redeemed (db_now db) y else y)"
      by (auto simp: assms(3) a(3) set_sql_update)
    then have "pm_invoice_id y = trim j" using x(2) by (auto simp: set_redeemed_def split: if_splits)
    with row y(1) assms(2) have "y = row" by (metis distinct_map inj_onD)
    with y(2) row 1(3,4) show ?thesis by (simp add: redeemable_def set_redeemed_def)
  qed
  have "isl (fst (activate env' header' j later))"
  proof (rule ccontr)
    assume "\<not> isl (fst (activate env' header' j later))"
    then obtain resp' db'' where "activate env' header' j later = (Inr resp', db'')"
      by (cases "activate env' header' j later"; cases "fst (activate env' header' j later)") auto
    then show False
    proof (cases rule: activate_Inr)
      case (1 user_id' row' rail' inv' until')
      then have "row' \<in> set (premium_invoices later)" "pm_invoice_id row' = trim j"
        by (auto simp: get_premium_invoice_def dest!: fetch_filter_Some [OF sym])
      with spent 1(4) show False by blast
    qed
  qed
  moreover from this have "snd (activate env' header' j later) = later"
    using activate_clean [of env' header' j later] by (simp add: clean_def)
  moreover have "lookup_key u_id user_id (users db') = Some (set_premium (pm_period_days row) (db_now db) old)"
    by (simp add: l a(1))
  ultimately show ?thesis
    using row rail 1 a(1) l2
    by (intro conjI exI [of _ row] exI [of _ rail] exI [of _ inv] exI [of _ old]) simp_all
qed

lemma premium_status_Inr:
  assumes "fst (extract_user_id_from_token (pe_tokens env) header db) = Inr (u_id r)" "\<not> db_outage db"
    and "r \<in> set (users db)" "distinct (map u_id (users db))"
  shows "premium_status env header db =
    (Inr (let active = (case u_premium_until r of None \<Rightarrow> False | Some u \<Rightarrow> u > pe_clock env);
             rights = general_posting_rights env (u_nostr_pubkey r)
         in \<lparr>st_active = active, st_premium_until = map_option (rfc3339 (pe_tokens env)) (u_premium_until r),
             st_write_allowlisted = fst rights, st_can_post_general = active \<or> snd rights\<rparr>), db)"
proof -
  have l: "fetch_optional (filter (\<lambda>x. u_id x = u_id r) (users db)) = Some r"
    using filter_key_guard [OF assms(4), of "u_id r" "\<lambda>r. True"] lookup_key_distinct [OF assms(4,3)] by simp
  have "extract_user_id_from_token (pe_tokens env) header db = (Inr (u_id r), db)"
    using assms(1) by (metis prod.collapse snd_extract_user_id)
  then show ?thesis
    using assms(2) l
    by (simp add: premium_status_def stmt_bind_def get_premium_until_def npub_of_def get_user_by_id_def select_user_def
        query_def Let_def split: prod.split)
qed

text \<open>A user is told what the relay will decide: for an account with a linked Nostr key, on an instance
  with a relay and with the clocks of service and database agreeing, the status answers that general
  posting is allowed exactly when the relay's admission call permits an event by that key of a kind
  that is not a wallet kind and within the size limit.\<close>

theorem posting_right_matches_admission:
  assumes "accounts_ok db" "\<not> db_outage db" "r \<in> set (users db)"
    and "fst (extract_user_id_from_token (pe_tokens env) header db) = Inr (u_id r)"
    and "u_nostr_pubkey r = Some (hex_encode lib (re_pubkey ev))"
    and "to_lowercase (hex_encode lib (re_pubkey ev)) = hex_encode lib (re_pubkey ev)"
    and "pe_relay env = Some relay" "pe_clock env = db_now db"
    and "length (re_content ev) \<le> rp_max_event_bytes relay" "\<not> is_wallet_kind (re_kind ev)"
  shows "\<exists>resp. premium_status env header db = (Inr resp, db) \<and>
    (st_can_post_general resp \<longleftrightarrow> event_admit lib relay (Some ev) db = (Inr Permit, db))"
proof -
  let ?k = "hex_encode lib (re_pubkey ev)"
  have ids: "distinct (map u_id (users db))" "col_unique u_nostr_pubkey (users db)"
    using assms(1) by (simp_all add: accounts_ok_def users_ok_def identity_columns_def)
  have reg: "registered db ?k" using assms(3,5) by (auto simp: registered_def)
  have prem: "premium_member db ?k \<longleftrightarrow> premium_active (db_now db) r"
  proof
    assume "premium_member db ?k"
    then obtain x where x: "x \<in> set (users db)" "u_nostr_pubkey x = Some ?k" "premium_active (db_now db) x"
      by (auto simp: premium_member_def)
    have "u_id x = u_id r"
      using ids(2) x(1,2) assms(3,5) unfolding col_unique_def by (metis option.distinct(1))
    then have "x = r" using same_row [OF ids(1) x(1) assms(3)] by simp
    with x(3) show "premium_active (db_now db) r" by simp
  qed (use assms(3,5) in \<open>auto simp: premium_member_def\<close>)
  have "event_admit lib relay (Some ev) db = (Inr Permit, db) \<longleftrightarrow>
      premium_active (db_now db) r \<or> snd (general_posting_rights env (Some ?k))"
    using assms(2,6,7,9,10) reg prem
    by (cases "rp_policy relay") (auto simp: event_admit_eq Let_def decide_def general_posting_rights_def)
  with premium_status_Inr [OF assms(4,2,3) ids(1)] assms(5,8) show ?thesis
    by (auto simp: Let_def premium_active_def split: option.splits)
qed

text \<open>Without a relay, or without a linked key, a paying user is still told that posting is allowed.\<close>

lemma premium_without_relay_may_post:
  assumes "fst (extract_user_id_from_token (pe_tokens env) header db) = Inr (u_id r)" "\<not> db_outage db"
    and "r \<in> set (users db)" "distinct (map u_id (users db))"
    and "u_premium_until r = Some t" "t > pe_clock env" "pe_relay env = None \<or> u_nostr_pubkey r = None"
  shows "\<exists>resp. premium_status env header db = (Inr resp, db) \<and> st_can_post_general resp"
  using premium_status_Inr [OF assms(1-4)] assms(5,6) by (auto simp: Let_def)

text \<open>How many confirmations each BTCPay speed policy waits for, as the comments of \<open>speed_policy\<close> say.\<close>

definition bucket_confirmations :: "string \<Rightarrow> nat" where
  "bucket_confirmations p =
     (if p = ''HighSpeed'' then 0 else if p = ''MediumSpeed'' then 1 else if p = ''LowMediumSpeed'' then 2 else 6)"

lemma speed_policy_rounds_down:
  "bucket_confirmations (speed_policy n) < n \<longleftrightarrow> n \<in> {3, 4, 5} \<or> 6 < n"
  by (auto simp: bucket_confirmations_def speed_policy_def)

text \<open>Paid time adds up: renewing before the end loses nothing, so two renewals at the same moment
  give what one renewal for both periods gives; a renewal never shortens premium, and after a lapse
  it runs from now.\<close>

theorem paid_time_adds_up:
  assumes "0 \<le> d1" "0 \<le> d2"
  shows "extended_until now d2 (Some (extended_until now d1 u)) = extended_until now (d1 + d2) u \<and>
    (\<forall>t. u = Some t \<longrightarrow> t + seconds (d1 * 86400) \<le> extended_until now d1 u) \<and>
    now + seconds (d1 * 86400) \<le> extended_until now d1 u \<and>
    ((\<forall>t. u = Some t \<longrightarrow> t \<le> now) \<longrightarrow> extended_until now d1 u = now + seconds (d1 * 86400))"
  using assms by (cases u) (auto simp: extended_until_def seconds_def max_def algebra_simps)

section \<open>A purchase\<close>

definition sample_rail :: payment_rail where
  "sample_rail = \<lparr>pr_provider = \<lparr>provider_kind = ''btcpay'',
     create_invoice = (\<lambda>r. Inr \<lparr>inv_id = ''i'', inv_pay_to = ''u'', inv_status = InvPending, inv_bind = None\<rparr>),
     get_invoice = (\<lambda>i. Inr \<lparr>inv_id = i, inv_pay_to = ''u'', inv_status = Settled, inv_bind = Some ''x''\<rparr>)\<rparr>,
     pr_assets = [''BTC'']\<rparr>"

definition sample_premium :: premium_env where
  "sample_premium = \<lparr>pe_tokens = sample_lib, pe_config = \<lparr>premium_enabled = True, premium_currency = ''XMR'',
     premium_plans = [\<lparr>plan_id = ''month'', plan_days = 30, plan_amount = ''1''\<rparr>]\<rparr>,
     pe_payment = \<lparr>require_payment = False, pay_amount = ''1'', pay_currency = ''XMR'', pay_confirmations = 1,
       pay_expires_minutes = 60\<rparr>,
     pe_rails = [sample_rail], pe_relay = Some sample_relay, pe_clock = 10\<rparr>"

definition sample_bill :: premium_invoice_row where
  "sample_bill = \<lparr>pm_invoice_id = ''i'', pm_user_id = 1, pm_provider = ''btcpay'', pm_plan_id = ''month'',
     pm_period_days = 30, pm_amount = ''1'', pm_currency = ''XMR'', pm_created_at = 0, pm_consumed_at = None\<rparr>"

definition sample_premium_db :: database where
  "sample_premium_db = sample_auth_db\<lparr>users := [sample_member], premium_invoices := [sample_bill]\<rparr>"

lemma sample_caller: "fst (extract_user_id_from_token sample_lib (Some ''Bearer acc'') sample_premium_db) = Inr 1"
  by code_simp

theorem premium_bought_once_witness:
  "isl (fst (activate sample_premium (Some ''Bearer acc'') ''i''
     (snd (activate sample_premium (Some ''Bearer acc'') ''i'' sample_premium_db))))"
proof -
  let ?a = "activate sample_premium (Some ''Bearer acc'') ''i''"
  have "\<not> isl (fst (?a sample_premium_db))" by code_simp
  then obtain resp where "?a sample_premium_db = (Inr resp, snd (?a sample_premium_db))"
    by (cases "fst (?a sample_premium_db)") (auto, metis prod.collapse)
  from premium_bought_once [OF this _ refl] show ?thesis by (auto simp: sample_premium_db_def)
qed

theorem posting_right_matches_admission_witness:
  "\<exists>resp. premium_status sample_premium (Some ''Bearer acc'') sample_premium_db = (Inr resp, sample_premium_db) \<and>
    (st_can_post_general resp \<longleftrightarrow> event_admit sample_crates sample_relay
       (Some (sample_gift\<lparr>re_kind := 1, re_pubkey := [11]\<rparr>)) sample_premium_db = (Inr Permit, sample_premium_db))"
proof (rule posting_right_matches_admission [where r = sample_member])
  show "accounts_ok sample_premium_db"
    by (simp add: accounts_ok_def users_ok_def identity_columns_def col_unique_def sample_premium_db_def sample_auth_db_def
        user_ids_def sample_member_def sample_session_def)
  show "fst (extract_user_id_from_token (pe_tokens sample_premium) (Some ''Bearer acc'') sample_premium_db) = Inr (u_id sample_member)"
    using sample_caller by (simp add: sample_premium_def sample_member_def)
  have h: "hex_encode sample_crates [11] = ''0b'' \<and> to_lowercase ''0b'' = ''0b'' \<and> \<not> is_wallet_kind 1" by code_simp
  then show "u_nostr_pubkey sample_member = Some (hex_encode sample_crates (re_pubkey (sample_gift\<lparr>re_kind := 1, re_pubkey := [11]\<rparr>)))"
    "to_lowercase (hex_encode sample_crates (re_pubkey (sample_gift\<lparr>re_kind := 1, re_pubkey := [11]\<rparr>))) =
      hex_encode sample_crates (re_pubkey (sample_gift\<lparr>re_kind := 1, re_pubkey := [11]\<rparr>))"
    "\<not> is_wallet_kind (re_kind (sample_gift\<lparr>re_kind := 1, re_pubkey := [11]\<rparr>))"
    by (simp_all add: sample_member_def)
qed (simp_all add: sample_premium_db_def sample_auth_db_def sample_premium_def sample_gift_def sample_relay_def)

theorem paid_time_adds_up_witness:
  "extended_until 0 30 (Some (extended_until 0 30 None)) = extended_until 0 60 None"
  using conjunct1 [OF paid_time_adds_up [of 30 30 0 None]] by simp

end
