(* ===== verification/Admin_Db.thy ===== *)
theory Admin_Db
  imports Accounts_Db Auth_Session
begin

text \<open>
  The privileged tables: \<open>src/src/infra/db/admin_audit.rs\<close>, \<open>admin_keys.rs\<close>, \<open>admin_sessions.rs\<close>,
  \<open>server_config.rs\<close>, \<open>operator_settings.rs\<close>, \<open>audit.rs\<close>, the audited mint of \<open>invite_codes.rs\<close>, and
  \<open>src/src/core/crypto/admin_mac.rs\<close>.

  \<open>Utc::now()\<close> and the identifier a statement draws are arguments. Time is in microseconds, which is what
  \<open>trunc_subsecs(6)\<close> keeps. The advisory locks order transactions; a transaction is one atomic step here.
  The sequence number of the log counts its rows and does not overflow.
\<close>

section \<open>The audit chain\<close>

record new_admin_audit =
  na_action :: string
  na_actor_kind :: string
  na_actor_pubkey_prefix :: "string option"
  na_target :: "string option"
  na_details :: "json option"
  na_ip_address :: "string option"

definition GENESIS :: string where
  "GENESIS = ''smirk-admin-audit-genesis''"

definition unit_separator :: char where
  "unit_separator = CHR 0x1F"

definition audit_fields :: "i64 \<Rightarrow> new_admin_audit \<Rightarrow> timestamp \<Rightarrow> json" where
  "audit_fields seq e at =
     JArr [JNum seq, JStr (na_action e), JStr (na_actor_kind e), json_opt JStr (na_actor_pubkey_prefix e),
           json_opt JStr (na_target e), json_opt id (na_details e), json_opt JStr (na_ip_address e), JNum at]"

definition chain_hash ::
    "'a mac_lib_scheme \<Rightarrow> string \<Rightarrow> string \<Rightarrow> i64 \<Rightarrow> new_admin_audit \<Rightarrow> timestamp \<Rightarrow> string" where
  "chain_hash lib secret prev_hash seq e at =
     peppered_hex lib secret ''admin_audit''
       (prev_hash @ [unit_separator] @ json_to_string lib (audit_fields seq e at))"

definition row_as_new :: "admin_audit_row \<Rightarrow> new_admin_audit" where
  "row_as_new r =
     \<lparr>na_action = aa_action r, na_actor_kind = aa_actor_kind r,
      na_actor_pubkey_prefix = aa_actor_pubkey_prefix r, na_target = aa_target r,
      na_details = aa_details r, na_ip_address = aa_ip_address r\<rparr>"

definition audit_row :: "'a mac_lib_scheme \<Rightarrow> string \<Rightarrow> timestamp \<Rightarrow> uuid \<Rightarrow> new_admin_audit \<Rightarrow> i64 \<times> string \<Rightarrow> admin_audit_row" where
  "audit_row lib secret now i e prior =
     (let seq = fst prior + 1; prev_hash = snd prior in
      \<lparr>aa_id = i, aa_seq = seq, aa_action = na_action e, aa_actor_kind = na_actor_kind e,
       aa_actor_pubkey_prefix = na_actor_pubkey_prefix e, aa_target = na_target e, aa_details = na_details e,
       aa_ip_address = na_ip_address e, aa_created_at = now, aa_prev_hash = prev_hash,
       aa_row_hash = chain_hash lib secret prev_hash seq e now\<rparr>)"

definition chain_end :: "admin_audit_row list \<Rightarrow> i64 \<times> string" where
  "chain_end rows =
     (case fetch_optional (order_desc aa_seq rows) of
        None \<Rightarrow> (0, GENESIS)
      | Some r \<Rightarrow> (aa_seq r, aa_row_hash r))"

definition append_admin_audit ::
    "'a mac_lib_scheme \<Rightarrow> timestamp \<Rightarrow> uuid \<Rightarrow> new_admin_audit \<Rightarrow> string \<Rightarrow> admin_audit_row stmt" where
  "append_admin_audit lib now i e secret =
     sql (\<lambda>db.
       let row = audit_row lib secret now i e (chain_end (admin_audit_logs db)) in
       if i \<in> set (map aa_id (admin_audit_logs db)) then Inl (UniqueViolation ''admin_audit_logs_pkey'')
       else Inr (row, db\<lparr>admin_audit_logs := admin_audit_logs db @ [row]\<rparr>))"

definition record_admin_audit ::
    "'a mac_lib_scheme \<Rightarrow> timestamp \<Rightarrow> uuid \<Rightarrow> new_admin_audit \<Rightarrow> string \<Rightarrow> admin_audit_row stmt" where
  "record_admin_audit lib now i e secret = transaction (append_admin_audit lib now i e secret)"

fun audit_walk :: "'a mac_lib_scheme \<Rightarrow> string \<Rightarrow> nat \<Rightarrow> string \<Rightarrow> admin_audit_row list \<Rightarrow> bool" where
  "audit_walk lib secret i prev [] = True"
| "audit_walk lib secret i prev (row # rows) =
     (if aa_seq row \<noteq> int i + 1 \<or> aa_prev_hash row \<noteq> prev then False
      else if chain_hash lib secret (aa_prev_hash row) (aa_seq row) (row_as_new row) (aa_created_at row) \<noteq> aa_row_hash row
      then False
      else audit_walk lib secret (Suc i) (aa_row_hash row) rows)"

definition verify_admin_audit_chain :: "'a mac_lib_scheme \<Rightarrow> string \<Rightarrow> bool stmt" where
  "verify_admin_audit_chain lib secret =
     query (\<lambda>db. audit_walk lib secret 0 GENESIS (order_asc aa_seq (admin_audit_logs db)))"

definition list_admin_audit :: "nat \<Rightarrow> admin_audit_row list stmt" where
  "list_admin_audit limit = query (\<lambda>db. take limit (order_desc aa_seq (admin_audit_logs db)))"

section \<open>Integrity of admin keys\<close>

record admin_key_mac_input =
  mi_id :: uuid
  mi_pubkey :: string
  mi_scope :: string
  mi_created_at :: timestamp
  mi_activated_at :: "timestamp option"
  mi_activation_deadline :: "timestamp option"
  mi_revoked_at :: "timestamp option"

definition mac_fields :: "'a crates_scheme \<Rightarrow> admin_key_mac_input \<Rightarrow> json" where
  "mac_fields lib i =
     JArr [JStr (uuid_to_string lib (mi_id i)), JStr (mi_pubkey i), JStr (mi_scope i), JNum (mi_created_at i),
           json_opt JNum (mi_activated_at i), json_opt JNum (mi_activation_deadline i), json_opt JNum (mi_revoked_at i)]"

definition compute_admin_key_mac :: "'a mac_lib_scheme \<Rightarrow> string \<Rightarrow> admin_key_mac_input \<Rightarrow> string" where
  "compute_admin_key_mac lib secret i = peppered_hex lib secret ''admin_key_mac'' (json_to_string lib (mac_fields lib i))"

definition verify_admin_key_mac :: "'a mac_lib_scheme \<Rightarrow> string \<Rightarrow> admin_key_mac_input \<Rightarrow> string \<Rightarrow> bool" where
  "verify_admin_key_mac lib secret i mac_hex \<longleftrightarrow> compute_admin_key_mac lib secret i = mac_hex"

definition mac_input :: "admin_key_row \<Rightarrow> admin_key_mac_input" where
  "mac_input k =
     \<lparr>mi_id = ak_id k, mi_pubkey = ak_pubkey k, mi_scope = ak_scope k, mi_created_at = ak_created_at k,
      mi_activated_at = ak_activated_at k, mi_activation_deadline = ak_activation_deadline k,
      mi_revoked_at = ak_revoked_at k\<rparr>"

text \<open>A write of covered fields recomputes the MAC over the written row.\<close>

definition sealed :: "'a mac_lib_scheme \<Rightarrow> string \<Rightarrow> admin_key_row \<Rightarrow> admin_key_row" where
  "sealed lib secret k = k\<lparr>ak_integrity_mac := compute_admin_key_mac lib secret (mac_input k)\<rparr>"

definition mac_valid :: "'a mac_lib_scheme \<Rightarrow> string \<Rightarrow> admin_key_row \<Rightarrow> bool" where
  "mac_valid lib secret k \<longleftrightarrow> verify_admin_key_mac lib secret (mac_input k) (ak_integrity_mac k)"

section \<open>Admin keys\<close>

record new_admin_key =
  nak_pubkey :: string
  nak_label :: "string option"
  nak_scope :: string
  nak_created_by_kind :: string
  nak_activation_deadline :: "timestamp option"

datatype add_key_outcome = Created admin_key_row | CapReached

datatype revoke_key_outcome = Revoked admin_key_row | KeyNotFound | WouldEmptyAllowlist

definition live_key :: "admin_key_row \<Rightarrow> bool" where
  "live_key k \<longleftrightarrow> ak_revoked_at k = None"

definition live_key_count :: "i64 stmt" where
  "live_key_count = query (\<lambda>db. int (length (filter live_key (admin_keys db))))"

definition count_live_admin_keys :: "i64 stmt" where
  "count_live_admin_keys = query (\<lambda>db. int (length (filter live_key (admin_keys db))))"

definition pending_key_row :: "'a mac_lib_scheme \<Rightarrow> string \<Rightarrow> timestamp \<Rightarrow> uuid \<Rightarrow> new_admin_key \<Rightarrow> admin_key_row" where
  "pending_key_row lib secret now i input =
     sealed lib secret
       \<lparr>ak_id = i, ak_pubkey = nak_pubkey input, ak_label = nak_label input, ak_scope = nak_scope input,
        ak_created_at = now, ak_created_by_kind = nak_created_by_kind input, ak_activated_at = None,
        ak_activation_deadline = nak_activation_deadline input, ak_revoked_at = None, ak_last_used_at = None,
        ak_integrity_mac = []\<rparr>"

text \<open>The primary key and the partial unique index \<open>admin_keys_active_pubkey\<close>.\<close>

definition add_key_row :: "admin_key_row \<Rightarrow> database \<Rightarrow> sql_fault + (admin_key_row \<times> database)" where
  "add_key_row k db =
     (if ak_id k \<in> set (map ak_id (admin_keys db)) then Inl (UniqueViolation ''admin_keys_pkey'')
      else if list_ex (\<lambda>x. live_key x \<and> ak_pubkey x = ak_pubkey k) (admin_keys db)
      then Inl (UniqueViolation ''admin_keys_active_pubkey'')
      else Inr (k, db\<lparr>admin_keys := admin_keys db @ [k]\<rparr>))"

definition insert_admin_key ::
    "'a mac_lib_scheme \<Rightarrow> timestamp \<Rightarrow> uuid \<Rightarrow> new_admin_key \<Rightarrow> string \<Rightarrow> admin_key_row stmt" where
  "insert_admin_key lib now i input secret =
     map_err (unique_violation_as ''an active admin key with this pubkey already exists'')
       (run_sql (add_key_row (pending_key_row lib secret now i input)))"

definition create_admin_key ::
    "'a mac_lib_scheme \<Rightarrow> timestamp \<Rightarrow> uuid \<Rightarrow> new_admin_key \<Rightarrow> string \<Rightarrow> admin_key_row stmt" where
  "create_admin_key = insert_admin_key"

definition create_admin_key_audited ::
    "'a mac_lib_scheme \<Rightarrow> timestamp \<Rightarrow> uuid \<times> uuid \<Rightarrow> new_admin_key \<Rightarrow> new_admin_audit \<Rightarrow> string \<Rightarrow> i64 \<Rightarrow>
     add_key_outcome stmt" where
  "create_admin_key_audited lib now ids input audit secret max_live =
     transaction (stmt_bind live_key_count (\<lambda>live.
       if live \<ge> max_live then stmt_return (Inr CapReached)
       else
         stmt_bind (insert_admin_key lib now (fst ids) input secret) (\<lambda>key.
         stmt_bind (append_admin_audit lib now (snd ids) audit secret) (\<lambda>x.
           stmt_return (Inr (Created key))))))"

definition get_active_admin_key :: "'a mac_lib_scheme \<Rightarrow> string \<Rightarrow> string \<Rightarrow> admin_key_row option stmt" where
  "get_active_admin_key lib pubkey secret =
     query (\<lambda>db. option_filter (mac_valid lib secret)
       (fetch_optional (filter (\<lambda>k. ak_pubkey k = pubkey \<and> live_key k) (admin_keys db))))"

definition list_admin_keys :: "admin_key_row list stmt" where
  "list_admin_keys = query (\<lambda>db. order_desc ak_created_at (admin_keys db))"

definition update_admin_keys :: "(admin_key_row \<Rightarrow> bool) \<Rightarrow> (admin_key_row \<Rightarrow> admin_key_row) \<Rightarrow> admin_key_row option stmt" where
  "update_admin_keys p u =
     sql (\<lambda>db. Inr (fetch_optional (sql_returning p u (admin_keys db)),
       db\<lparr>admin_keys := sql_update p u (admin_keys db)\<rparr>))"

definition touch_admin_key_last_used :: "uuid \<Rightarrow> unit stmt" where
  "touch_admin_key_last_used i =
     sql (\<lambda>db. Inr ((), db\<lparr>admin_keys :=
       sql_update (\<lambda>k. ak_id k = i) (\<lambda>k. k\<lparr>ak_last_used_at := Some (db_now db)\<rparr>) (admin_keys db)\<rparr>))"

definition set_activated :: "'a mac_lib_scheme \<Rightarrow> string \<Rightarrow> timestamp \<Rightarrow> admin_key_row \<Rightarrow> admin_key_row" where
  "set_activated lib secret now k = sealed lib secret (k\<lparr>ak_activated_at := Some now\<rparr>)"

definition set_key_revoked :: "'a mac_lib_scheme \<Rightarrow> string \<Rightarrow> timestamp \<Rightarrow> admin_key_row \<Rightarrow> admin_key_row" where
  "set_key_revoked lib secret now k = sealed lib secret (k\<lparr>ak_revoked_at := Some now\<rparr>)"

text \<open>The row is selected \<open>FOR UPDATE\<close> and rewritten by its primary key in one transaction.\<close>

definition activate_admin_key :: "'a mac_lib_scheme \<Rightarrow> timestamp \<Rightarrow> uuid \<Rightarrow> string \<Rightarrow> admin_key_row option stmt" where
  "activate_admin_key lib now i secret =
     transaction (update_admin_keys (\<lambda>k. ak_id k = i \<and> live_key k \<and> ak_activated_at k = None)
       (set_activated lib secret now))"

definition revoke_admin_key :: "'a mac_lib_scheme \<Rightarrow> timestamp \<Rightarrow> uuid \<Rightarrow> string \<Rightarrow> admin_key_row option stmt" where
  "revoke_admin_key lib now i secret =
     transaction (update_admin_keys (\<lambda>k. ak_id k = i \<and> live_key k) (set_key_revoked lib secret now))"

section \<open>Admin sessions\<close>

record new_admin_session =
  nas_id :: uuid
  nas_admin_key_id :: uuid
  nas_pubkey :: string
  nas_refresh_token_hash :: string
  nas_access_jti :: string
  nas_device_info :: "string option"
  nas_ip_address :: "string option"
  nas_expires_at :: timestamp

definition new_admin_session_row :: "timestamp \<Rightarrow> new_admin_session \<Rightarrow> admin_session_row" where
  "new_admin_session_row now n =
     \<lparr>as_id = nas_id n, as_admin_key_id = nas_admin_key_id n, as_pubkey = nas_pubkey n,
      as_refresh_token_hash = nas_refresh_token_hash n, as_access_jti = nas_access_jti n,
      as_device_info = nas_device_info n, as_ip_address = nas_ip_address n, as_created_at = now,
      as_expires_at = nas_expires_at n, as_revoked_at = None\<rparr>"

definition create_admin_session :: "new_admin_session \<Rightarrow> admin_session_row stmt" where
  "create_admin_session n =
     sql (\<lambda>db.
       let row = new_admin_session_row (db_now db) n in
       if nas_id n \<in> set (map as_id (admin_sessions db)) then Inl (UniqueViolation ''admin_sessions_pkey'')
       else if nas_admin_key_id n \<notin> set (map ak_id (admin_keys db)) then Inl ConstraintViolation
       else Inr (row, db\<lparr>admin_sessions := admin_sessions db @ [row]\<rparr>))"

definition create_admin_session_audited ::
    "'a mac_lib_scheme \<Rightarrow> timestamp \<Rightarrow> uuid \<Rightarrow> new_admin_session \<Rightarrow> new_admin_audit \<Rightarrow> string \<Rightarrow> admin_session_row stmt" where
  "create_admin_session_audited lib now i session audit secret =
     transaction (stmt_bind (create_admin_session session) (\<lambda>row.
       stmt_bind (append_admin_audit lib now i audit secret) (\<lambda>x. stmt_return (Inr row))))"

definition admin_session_active :: "timestamp \<Rightarrow> admin_session_row \<Rightarrow> bool" where
  "admin_session_active now s \<longleftrightarrow> as_revoked_at s = None \<and> as_expires_at s > now"

definition find_active_admin_session_by_jti :: "string \<Rightarrow> admin_session_row option stmt" where
  "find_active_admin_session_by_jti jti =
     query (\<lambda>db. fetch_optional (filter
       (\<lambda>s. as_access_jti s = jti \<and> admin_session_active (db_now db) s) (admin_sessions db)))"

definition find_active_admin_session_by_id :: "uuid \<Rightarrow> admin_session_row option stmt" where
  "find_active_admin_session_by_id i =
     query (\<lambda>db. fetch_optional (filter
       (\<lambda>s. as_id s = i \<and> admin_session_active (db_now db) s) (admin_sessions db)))"

definition rotate_admin_session_jti :: "uuid \<Rightarrow> string \<Rightarrow> admin_session_row option stmt" where
  "rotate_admin_session_jti i new_jti =
     sql (\<lambda>db.
       let p = (\<lambda>s. as_id s = i \<and> admin_session_active (db_now db) s);
           u = (\<lambda>s. s\<lparr>as_access_jti := new_jti\<rparr>)
       in Inr (fetch_optional (sql_returning p u (admin_sessions db)),
               db\<lparr>admin_sessions := sql_update p u (admin_sessions db)\<rparr>))"

definition close_admin_sessions :: "(admin_session_row \<Rightarrow> bool) \<Rightarrow> nat stmt" where
  "close_admin_sessions p =
     sql (\<lambda>db.
       let q = (\<lambda>s. p s \<and> as_revoked_at s = None) in
       Inr (length (filter q (admin_sessions db)),
            db\<lparr>admin_sessions := sql_update q (\<lambda>s. s\<lparr>as_revoked_at := Some (db_now db)\<rparr>) (admin_sessions db)\<rparr>))"

definition revoke_admin_session :: "uuid \<Rightarrow> bool stmt" where
  "revoke_admin_session i =
     stmt_bind (close_admin_sessions (\<lambda>s. as_id s = i)) (\<lambda>n. stmt_return (Inr (n > 0)))"

definition revoke_admin_sessions_for_key :: "uuid \<Rightarrow> nat stmt" where
  "revoke_admin_sessions_for_key admin_key_id = close_admin_sessions (\<lambda>s. as_admin_key_id s = admin_key_id)"

definition delete_dead_admin_sessions :: "nat stmt" where
  "delete_dead_admin_sessions =
     sql (\<lambda>db.
       let p = (\<lambda>s. as_expires_at s \<le> db_now db \<or> as_revoked_at s \<noteq> None) in
       Inr (length (filter p (admin_sessions db)), db\<lparr>admin_sessions := sql_delete p (admin_sessions db)\<rparr>))"

section \<open>Revocation and rotation of a key\<close>

definition revoke_with_sessions :: "'a mac_lib_scheme \<Rightarrow> timestamp \<Rightarrow> uuid \<Rightarrow> string \<Rightarrow> admin_key_row option stmt" where
  "revoke_with_sessions lib now i secret =
     stmt_bind (update_admin_keys (\<lambda>k. ak_id k = i \<and> live_key k) (set_key_revoked lib secret now)) (\<lambda>updated.
       case updated of
         None \<Rightarrow> stmt_return (Inr None)
       | Some k \<Rightarrow>
           stmt_bind (revoke_admin_sessions_for_key i) (\<lambda>n. stmt_return (Inr (Some k))))"

definition revoke_admin_key_full ::
    "'a mac_lib_scheme \<Rightarrow> timestamp \<Rightarrow> uuid \<Rightarrow> uuid \<Rightarrow> new_admin_audit \<Rightarrow> string \<Rightarrow> bool \<Rightarrow> revoke_key_outcome stmt" where
  "revoke_admin_key_full lib now audit_id i audit secret keep_min_live =
     transaction (stmt_bind (if keep_min_live
         then stmt_bind live_key_count (\<lambda>live. stmt_return (Inr (live \<le> 1)))
         else stmt_return (Inr False)) (\<lambda>last_one.
       if last_one then stmt_return (Inr WouldEmptyAllowlist)
       else
         stmt_bind (revoke_with_sessions lib now i secret) (\<lambda>updated.
           case updated of
             None \<Rightarrow> stmt_return (Inr KeyNotFound)
           | Some k \<Rightarrow>
               stmt_bind (append_admin_audit lib now audit_id audit secret) (\<lambda>x.
                 stmt_return (Inr (Revoked k))))))"

definition rotate_admin_key ::
    "'a mac_lib_scheme \<Rightarrow> timestamp \<Rightarrow> uuid \<times> uuid \<Rightarrow> uuid \<Rightarrow> new_admin_key \<Rightarrow> new_admin_audit \<Rightarrow> string \<Rightarrow>
     admin_key_row option stmt" where
  "rotate_admin_key lib now ids old_id new audit secret =
     transaction (stmt_bind (revoke_with_sessions lib now old_id secret) (\<lambda>updated.
       case updated of
         None \<Rightarrow> stmt_return (Inr None)
       | Some old \<Rightarrow>
           stmt_bind (insert_admin_key lib now (fst ids) new secret) (\<lambda>created.
           stmt_bind (append_admin_audit lib now (snd ids) audit secret) (\<lambda>x.
             stmt_return (Inr (Some created))))))"

section \<open>The bootstrap latch\<close>

datatype setup_state = Fresh | Uninitialized | Locked | Tampered

definition latch_mac :: "'a mac_lib_scheme \<Rightarrow> string \<Rightarrow> string \<Rightarrow> timestamp option \<Rightarrow> string" where
  "latch_mac lib secret state completed =
     peppered_hex lib secret ''server_config''
       (state @ [unit_separator] @ (case completed of None \<Rightarrow> ''null'' | Some m \<Rightarrow> int_to_string m))"

definition verify_latch :: "'a mac_lib_scheme \<Rightarrow> string \<Rightarrow> server_config_row \<Rightarrow> bool" where
  "verify_latch lib secret c \<longleftrightarrow>
     latch_mac lib secret (sc_setup_state c) (sc_bootstrap_completed_at c) = sc_integrity_mac c"

definition setup_state_of :: "'a mac_lib_scheme \<Rightarrow> string \<Rightarrow> server_config_row option \<Rightarrow> setup_state" where
  "setup_state_of lib secret row =
     (case row of
        None \<Rightarrow> Fresh
      | Some c \<Rightarrow>
          if \<not> verify_latch lib secret c then Tampered
          else if sc_setup_state c = ''locked'' then Locked
          else Uninitialized)"

definition read_setup_state :: "'a mac_lib_scheme \<Rightarrow> string \<Rightarrow> setup_state stmt" where
  "read_setup_state lib secret = query (\<lambda>db. setup_state_of lib secret (server_config db))"

definition has_any_users :: "bool stmt" where
  "has_any_users = query (\<lambda>db. users db \<noteq> [])"

definition has_any_admin_keys :: "bool stmt" where
  "has_any_admin_keys = query (\<lambda>db. admin_keys db \<noteq> [])"

definition latch_row ::
    "'a mac_lib_scheme \<Rightarrow> string \<Rightarrow> string \<Rightarrow> timestamp option \<Rightarrow> timestamp \<Rightarrow> server_config_row" where
  "latch_row lib secret state completed updated =
     \<lparr>sc_setup_state = state, sc_bootstrap_completed_at = completed, sc_locked_at = completed,
      sc_updated_at = updated, sc_integrity_mac = latch_mac lib secret state completed\<rparr>"

definition init_server_config :: "'a mac_lib_scheme \<Rightarrow> timestamp \<Rightarrow> string \<Rightarrow> bool \<Rightarrow> unit stmt" where
  "init_server_config lib now secret locked =
     sql (\<lambda>db.
       let row = (if locked then latch_row lib secret ''locked'' (Some now) (db_now db)
                  else latch_row lib secret ''uninitialized'' None (db_now db))
       in Inr ((), db\<lparr>server_config := (case server_config db of None \<Rightarrow> Some row | Some c \<Rightarrow> Some c)\<rparr>))"

text \<open>The upsert of the singleton row.\<close>

definition set_latch :: "'a mac_lib_scheme \<Rightarrow> string \<Rightarrow> string \<Rightarrow> timestamp option \<Rightarrow> unit stmt" where
  "set_latch lib secret state completed =
     sql (\<lambda>db. Inr ((), db\<lparr>server_config := Some (latch_row lib secret state completed (db_now db))\<rparr>))"

definition bootstrap_key_row :: "'a mac_lib_scheme \<Rightarrow> string \<Rightarrow> timestamp \<Rightarrow> uuid \<Rightarrow> string \<Rightarrow> admin_key_row" where
  "bootstrap_key_row lib secret now i pubkey =
     sealed lib secret
       \<lparr>ak_id = i, ak_pubkey = pubkey, ak_label = Some ''bootstrap'', ak_scope = ''admin'',
        ak_created_at = now, ak_created_by_kind = ''bootstrap'', ak_activated_at = Some now,
        ak_activation_deadline = None, ak_revoked_at = None, ak_last_used_at = None, ak_integrity_mac = []\<rparr>"

definition bootstrap_audit :: "string \<Rightarrow> new_admin_audit" where
  "bootstrap_audit pubkey =
     \<lparr>na_action = ''bootstrap'', na_actor_kind = ''bootstrap'', na_actor_pubkey_prefix = Some (take 16 pubkey),
      na_target = None, na_details = None, na_ip_address = None\<rparr>"

definition bootstrap_admin :: "'a mac_lib_scheme \<Rightarrow> timestamp \<Rightarrow> uuid \<times> uuid \<Rightarrow> string \<Rightarrow> string \<Rightarrow> unit stmt" where
  "bootstrap_admin lib now ids pubkey secret =
     transaction (stmt_bind (query (\<lambda>db. list_ex live_key (admin_keys db))) (\<lambda>has_admin.
     stmt_bind (stmt_return (ensure (\<not> has_admin) (Conflict (''an admin key already exists (active or pending); use add-key, or '' @
         ''create-admin-wallet to add another generated key'')))) (\<lambda>x.
     stmt_bind (map_err (unique_violation_as ''an active admin key with this pubkey already exists'')
         (run_sql (add_key_row (bootstrap_key_row lib secret now (fst ids) pubkey)))) (\<lambda>key.
     stmt_bind (set_latch lib secret ''locked'' (Some now)) (\<lambda>x.
     stmt_bind (append_admin_audit lib now (snd ids) (bootstrap_audit pubkey) secret) (\<lambda>x.
       stmt_return (Inr ())))))))"

definition create_admin_key_bootstrapping ::
    "'a mac_lib_scheme \<Rightarrow> timestamp \<Rightarrow> uuid \<times> uuid \<Rightarrow> new_admin_key \<Rightarrow> new_admin_audit \<Rightarrow> string \<Rightarrow> i64 \<Rightarrow>
     (add_key_outcome \<times> bool) stmt" where
  "create_admin_key_bootstrapping lib now ids input audit secret max_live =
     transaction (stmt_bind (query (\<lambda>db. setup_state_of lib secret (server_config db))) (\<lambda>state.
     stmt_bind (stmt_return (ensure (state \<noteq> Tampered) (Conflict (''server_config bootstrap latch MAC invalid '' @
         ''(tamper or restore-to-pre-bootstrap); run `reset-setup --i-understand` first if this is intentional'')))) (\<lambda>x.
     stmt_bind live_key_count (\<lambda>live.
       if live \<ge> max_live then stmt_return (Inr (CapReached, False))
       else
         stmt_bind (insert_admin_key lib now (fst ids) input secret) (\<lambda>key.
         stmt_bind (if state = Locked then stmt_return (Inr ()) else set_latch lib secret ''locked'' (Some now)) (\<lambda>x.
         stmt_bind (append_admin_audit lib now (snd ids) audit secret) (\<lambda>x.
           stmt_return (Inr (Created key, state \<noteq> Locked)))))))))"

definition reset_setup :: "'a mac_lib_scheme \<Rightarrow> string \<Rightarrow> unit stmt" where
  "reset_setup lib secret = transaction (set_latch lib secret ''uninitialized'' None)"

text \<open>What the process does with the latch when it starts, in \<open>src/src/main.rs\<close>: the result is whether it goes on.\<close>

definition boot_latch :: "'a mac_lib_scheme \<Rightarrow> timestamp \<Rightarrow> string \<Rightarrow> bool stmt" where
  "boot_latch lib now secret =
     stmt_bind (read_setup_state lib secret) (\<lambda>state.
       case state of
         Fresh \<Rightarrow>
           stmt_bind has_any_users (\<lambda>any_users.
           stmt_bind (if any_users then stmt_return (Inr True) else has_any_admin_keys) (\<lambda>adopt.
           stmt_bind (init_server_config lib now secret adopt) (\<lambda>x. stmt_return (Inr True))))
       | Uninitialized \<Rightarrow> stmt_return (Inr True)
       | Locked \<Rightarrow> stmt_return (Inr True)
       | Tampered \<Rightarrow> stmt_return (Inr False))"

section \<open>Invites\<close>

text \<open>The codes are what the generator drew, one per requested invite.\<close>

definition mint_invites_audited ::
    "'a mac_lib_scheme \<Rightarrow> (string \<Rightarrow> string) \<Rightarrow> timestamp \<Rightarrow> uuid \<Rightarrow> string list \<Rightarrow> string option \<Rightarrow> new_admin_audit \<Rightarrow>
     string \<Rightarrow> string list stmt" where
  "mint_invites_audited lib hash now i codes label audit secret =
     transaction (stmt_bind (for_all_do (\<lambda>code. insert_invite_code (hash code) label) codes) (\<lambda>x.
     stmt_bind (append_admin_audit lib now i audit secret) (\<lambda>x.
       stmt_return (Inr codes))))"

section \<open>User audit log\<close>

record new_audit_log =
  nl_user_id :: "uuid option"
  nl_action :: audit_action
  nl_resource_type :: "string option"
  nl_resource_id :: "uuid option"
  nl_details :: "json option"
  nl_user_agent :: "string option"

definition create_audit_log :: "uuid \<Rightarrow> new_audit_log \<Rightarrow> audit_log_row stmt" where
  "create_audit_log i n =
     sql (\<lambda>db.
       let row = \<lparr>al_id = i, al_user_id = nl_user_id n, al_action = nl_action n, al_resource_type = nl_resource_type n,
             al_resource_id = nl_resource_id n, al_details = nl_details n, al_user_agent = nl_user_agent n,
             al_created_at = db_now db\<rparr>
       in if i \<in> set (map al_id (audit_logs db)) then Inl (UniqueViolation ''audit_logs_pkey'')
          else if \<not> user_ref_ok db (nl_user_id n) then Inl ConstraintViolation
          else Inr (row, db\<lparr>audit_logs := audit_logs db @ [row]\<rparr>))"

definition log_action :: "uuid \<Rightarrow> new_audit_log \<Rightarrow> unit stmt" where
  "log_action i n = stmt_bind (create_audit_log i n) (\<lambda>row. stmt_return (Inr ()))"

definition get_user_audit_logs :: "uuid \<Rightarrow> audit_action option \<Rightarrow> nat \<Rightarrow> audit_log_row list stmt" where
  "get_user_audit_logs u action limit =
     query (\<lambda>db. take limit (order_desc al_created_at (filter
       (\<lambda>l. al_user_id l = Some u \<and> (case action of None \<Rightarrow> True | Some a \<Rightarrow> al_action l = a)) (audit_logs db))))"

end
