(* ===== verification/Admin_Audit.thy ===== *)
theory Admin_Audit
  imports Admin_Db
begin

text \<open>
  The audit chain: what an append does to it, that it verifies as long as the service alone writes it, and what
  a verifying table can be when somebody else wrote to the database.
\<close>

section \<open>Walking the chain\<close>

definition chain_ok :: "'a mac_lib_scheme \<Rightarrow> string \<Rightarrow> admin_audit_row list \<Rightarrow> bool" where
  "chain_ok lib secret rows \<longleftrightarrow> audit_walk lib secret 0 GENESIS rows"

definition end_hash :: "string \<Rightarrow> admin_audit_row list \<Rightarrow> string" where
  "end_hash prev rows = (if rows = [] then prev else aa_row_hash (last rows))"

text \<open>The text a row's hash authenticates.\<close>

definition audit_message :: "'a json_lib_scheme \<Rightarrow> admin_audit_row \<Rightarrow> string" where
  "audit_message lib r =
     aa_prev_hash r @ [unit_separator] @ json_to_string lib (audit_fields (aa_seq r) (row_as_new r) (aa_created_at r))"

lemma walk_Cons:
  "audit_walk lib secret i prev (r # rows) \<longleftrightarrow>
     aa_seq r = int i + 1 \<and> aa_prev_hash r = prev \<and>
     peppered_hex lib secret ''admin_audit'' (audit_message lib r) = aa_row_hash r \<and>
     audit_walk lib secret (Suc i) (aa_row_hash r) rows"
  by (auto simp: chain_hash_def audit_message_def)

lemmas walk_simps = audit_walk.simps(1) walk_Cons
declare audit_walk.simps [simp del]

lemma walk_append:
  "audit_walk lib secret i prev (xs @ ys) \<longleftrightarrow>
     audit_walk lib secret i prev xs \<and> audit_walk lib secret (i + length xs) (end_hash prev xs) ys"
  by (induction xs arbitrary: i prev) (auto simp: walk_simps end_hash_def)

lemma walk_take: "audit_walk lib secret i prev rows \<Longrightarrow> audit_walk lib secret i prev (take n rows)"
  using walk_append [of lib secret i prev "take n rows" "drop n rows"] by simp

lemma walk_seq: "audit_walk lib secret i prev rows \<Longrightarrow> n < length rows \<Longrightarrow> aa_seq (rows ! n) = int (i + n) + 1"
proof (induction rows arbitrary: i prev n)
  case (Cons r rows)
  then show ?case by (cases n) (auto simp: walk_simps)
qed simp

lemma walk_seqs:
  assumes "audit_walk lib secret i prev rows"
  shows "map aa_seq rows = map (\<lambda>n. int n + 1) [i..<i + length rows]"
  by (rule nth_equalityI) (auto simp: walk_seq [OF assms])

lemma chain_sorted:
  assumes "chain_ok lib secret rows"
  shows "sorted (map aa_seq rows)" "distinct (map aa_seq rows)" "order_asc aa_seq rows = rows"
proof -
  have s: "map aa_seq rows = map (\<lambda>n. int n + 1) [0..<length rows]"
    using walk_seqs [of lib secret 0 GENESIS rows] assms by (simp add: chain_ok_def)
  show sorted: "sorted (map aa_seq rows)" unfolding s by (auto simp: sorted_iff_nth_mono)
  show "distinct (map aa_seq rows)" unfolding s by (auto simp: distinct_map inj_on_def)
  show "order_asc aa_seq rows = rows" using sorted by (simp add: order_asc_def sort_key_id_if_sorted)
qed

lemma order_desc_first:
  assumes "fetch_optional (order_desc k rows) = Some r" "x \<in> set rows"
  shows "r \<in> set rows" "k x \<le> k r"
proof -
  from assms(1) obtain rs where rs: "order_desc k rows = r # rs" by (cases "order_desc k rows") auto
  then have "set (r # rs) = set rows" by (metis set_order(2))
  with sorted_order_desc [of k rows] assms(2) show "r \<in> set rows" "k x \<le> k r" by (auto simp: rs)
qed

lemma chain_end_ok:
  assumes "chain_ok lib secret rows"
  shows "chain_end rows = (int (length rows), end_hash GENESIS rows)"
proof (cases rows rule: rev_cases)
  case Nil
  then show ?thesis by (simp add: chain_end_def end_hash_def order_desc_def)
next
  case (snoc xs r)
  then obtain q where q: "fetch_optional (order_desc aa_seq rows) = Some q"
    by (metis fetch_optional_None not_None_eq set_empty set_order(2) snoc_eq_iff_butlast)
  have walk: "audit_walk lib secret 0 GENESIS rows" using assms by (simp add: chain_ok_def)
  have r: "aa_seq r = int (length rows)" using walk_seq [OF walk, of "length xs"] snoc by simp
  have "q \<in> set rows" "aa_seq r \<le> aa_seq q" using order_desc_first [OF q, of r] snoc by simp_all
  then obtain n where n: "n < length rows" "q = rows ! n" by (metis in_set_conv_nth)
  with walk_seq [OF walk n(1)] r \<open>aa_seq r \<le> aa_seq q\<close> have "n = length xs" using snoc by simp
  with n snoc have "q = r" by simp
  with q r snoc show ?thesis by (simp add: chain_end_def end_hash_def)
qed

lemma audit_row_fields:
  "aa_seq (audit_row lib secret now i e prior) = fst prior + 1"
  "aa_prev_hash (audit_row lib secret now i e prior) = snd prior"
  "row_as_new (audit_row lib secret now i e prior) = e"
  "aa_created_at (audit_row lib secret now i e prior) = now"
  "aa_row_hash (audit_row lib secret now i e prior) = chain_hash lib secret (snd prior) (fst prior + 1) e now"
  by (simp_all add: audit_row_def row_as_new_def Let_def)

lemma chain_append:
  assumes "chain_ok lib secret rows"
  shows "chain_ok lib secret (rows @ [audit_row lib secret now i e (chain_end rows)])"
proof -
  let ?r = "audit_row lib secret now i e (chain_end rows)"
  have "peppered_hex lib secret ''admin_audit'' (audit_message lib ?r) = aa_row_hash ?r"
    by (simp only: audit_message_def audit_row_fields chain_hash_def)
  with assms show ?thesis
    by (simp add: chain_ok_def walk_append walk_simps audit_row_fields chain_end_ok [OF assms])
qed

section \<open>The service extends the chain\<close>

definition extends_log :: "'a mac_lib_scheme \<Rightarrow> string \<Rightarrow> database \<Rightarrow> database \<Rightarrow> bool" where
  "extends_log lib secret db db' \<longleftrightarrow>
     (\<exists>ext. admin_audit_logs db' = admin_audit_logs db @ ext) \<and>
     (chain_ok lib secret (admin_audit_logs db) \<longrightarrow> chain_ok lib secret (admin_audit_logs db'))"

interpretation auditing: effect_bound "extends_log lib secret" for lib :: "'a mac_lib_scheme" and secret
  by unfold_locales (auto simp: extends_log_def)

lemma extends_log_same: "admin_audit_logs db' = admin_audit_logs db \<Longrightarrow> extends_log lib secret db db'"
  by (simp add: extends_log_def)

lemma within_append: "within (extends_log lib secret) (append_admin_audit lib now i e secret)"
  unfolding append_admin_audit_def
  by (rule within_sql) (auto simp: extends_log_def Let_def chain_append split: if_splits)

lemma append_Inr:
  "append_admin_audit lib now i e secret db = (Inr row, db') \<longleftrightarrow>
     \<not> db_outage db \<and> i \<notin> aa_id ` set (admin_audit_logs db) \<and>
     row = audit_row lib secret now i e (chain_end (admin_audit_logs db)) \<and>
     db' = db\<lparr>admin_audit_logs := admin_audit_logs db @ [row]\<rparr>"
  by (auto simp: append_admin_audit_def sql_Inr Let_def)

section \<open>A table that somebody else wrote\<close>

text \<open>What the hashes cover: everything but the primary key, an absent detail being the same as \<open>null\<close>.\<close>

definition audited :: "admin_audit_row \<Rightarrow> string \<times> json \<times> string" where
  "audited r = (aa_prev_hash r, audit_fields (aa_seq r) (row_as_new r) (aa_created_at r), aa_row_hash r)"

text \<open>A row with a valid hash over a text the service never hashed.\<close>

definition forged :: "'a mac_lib_scheme \<Rightarrow> string \<Rightarrow> admin_audit_row list \<Rightarrow> admin_audit_row \<Rightarrow> bool" where
  "forged lib secret log r \<longleftrightarrow>
     peppered_hex lib secret ''admin_audit'' (audit_message lib r) = aa_row_hash r \<and>
     audit_message lib r \<notin> audit_message lib ` set log"

lemma hex_no_separator:
  assumes "hex_laws lib"
  shows "unit_separator \<notin> set (hex_encode lib bs)"
proof -
  from assms have "hex_decode lib (hex_encode lib bs) = Some bs" by (simp add: hex_laws_def)
  with assms have "list_all is_ascii_hexdigit (hex_encode lib bs)" by (metis hex_laws_def option.discI)
  moreover have "\<not> is_ascii_hexdigit unit_separator" by code_simp
  ultimately show ?thesis by (auto simp: list_all_iff)
qed

lemma walk_plain:
  assumes "hex_laws lib" "audit_walk lib secret i prev rows" "unit_separator \<notin> set prev" "r \<in> set rows"
  shows "unit_separator \<notin> set (aa_prev_hash r)"
  using assms(2-4)
proof (induction rows arbitrary: i prev)
  case (Cons q rows)
  then have "unit_separator \<notin> set (aa_row_hash q)"
    using hex_no_separator [OF assms(1)] by (metis peppered_hex_def walk_simps(2))
  with Cons show ?case by (auto simp: walk_simps)
qed simp

lemma audit_message_inj:
  assumes "json_laws lib" "unit_separator \<notin> set (aa_prev_hash q)" "unit_separator \<notin> set (aa_prev_hash r)"
    and "audit_message lib q = audit_message lib r"
  shows "aa_prev_hash q = aa_prev_hash r"
    and "audit_fields (aa_seq q) (row_as_new q) (aa_created_at q) = audit_fields (aa_seq r) (row_as_new r) (aa_created_at r)"
proof -
  have "aa_prev_hash q = aa_prev_hash r \<and>
      json_to_string lib (audit_fields (aa_seq q) (row_as_new q) (aa_created_at q)) =
      json_to_string lib (audit_fields (aa_seq r) (row_as_new r) (aa_created_at r))"
    using assms(4) by (intro split_first [OF _ assms(2,3)]) (simp add: audit_message_def)
  with assms(1) show "aa_prev_hash q = aa_prev_hash r"
    "audit_fields (aa_seq q) (row_as_new q) (aa_created_at q) = audit_fields (aa_seq r) (row_as_new r) (aa_created_at r)"
    by (simp_all add: json_lawsD)
qed

lemma walk_within_log:
  assumes laws: "json_laws lib" "hex_laws lib"
    and log: "chain_ok lib secret log" and walk: "audit_walk lib secret 0 GENESIS rows"
    and honest: "\<And>r. r \<in> set rows \<Longrightarrow> \<not> forged lib secret log r"
    and n: "n < length rows"
  shows "n < length log \<and> audited (rows ! n) = audited (log ! n)"
proof -
  let ?r = "rows ! n"
  have r: "?r \<in> set rows" using n by simp
  have genesis: "unit_separator \<notin> set GENESIS" by code_simp
  have tag: "peppered_hex lib secret ''admin_audit'' (audit_message lib q) = aa_row_hash q"
    if "audit_walk lib secret i p qs" "q \<in> set qs" for i p qs q
    using that by (induction qs arbitrary: i p) (auto simp: walk_simps)
  from honest [OF r] tag [OF walk r] obtain l where l: "l \<in> set log" "audit_message lib l = audit_message lib ?r"
    by (auto simp: forged_def)
  from l(1) obtain m where m: "m < length log" "l = log ! m" by (metis in_set_conv_nth)
  have plain: "unit_separator \<notin> set (aa_prev_hash l)" "unit_separator \<notin> set (aa_prev_hash ?r)"
    using walk_plain [OF laws(2) log [unfolded chain_ok_def] genesis l(1)] walk_plain [OF laws(2) walk genesis r] by simp_all
  note same = audit_message_inj [OF laws(1) plain l(2)]
  from same(2) have "aa_seq l = aa_seq ?r" by (simp add: audit_fields_def)
  with walk_seq [OF log [unfolded chain_ok_def] m(1)] walk_seq [OF walk n] m(2) have "m = n" by simp
  moreover have "aa_row_hash l = aa_row_hash ?r"
    using tag [OF log [unfolded chain_ok_def] l(1)] tag [OF walk r] l(2) by simp
  ultimately show ?thesis using m same by (simp add: audited_def)
qed

section \<open>Properties\<close>

text \<open>C15. Tampering with the audit log is detected, up to cutting its end: if a table that somebody else wrote
  passes the check, then it agrees, row by row in the order of sequence numbers, with the beginning of the log
  the service wrote, in everything but primary keys, unless it holds a forgery: a row whose hash is the valid
  keyed hash of a text the service never hashed.\<close>

theorem audit_tampering_detected:
  assumes "json_laws lib" "hex_laws lib" "chain_ok lib secret log"
    and "fst (verify_admin_audit_chain lib secret db) = Inr True"
    and "\<not> list_ex (forged lib secret log) (admin_audit_logs db)"
  shows "\<exists>n \<le> length log. map audited (order_asc aa_seq (admin_audit_logs db)) = map audited (take n log)"
proof -
  let ?rows = "order_asc aa_seq (admin_audit_logs db)"
  have walk: "audit_walk lib secret 0 GENESIS ?rows" using assms(4) by (simp add: verify_admin_audit_chain_def)
  have row: "n < length log \<and> audited (?rows ! n) = audited (log ! n)" if "n < length ?rows" for n
    using assms(5) by (intro walk_within_log [OF assms(1-3) walk _ that]) (auto simp: list_ex_iff)
  have len: "length ?rows \<le> length log"
    using row [of "length log"] by (cases "length ?rows \<le> length log") auto
  moreover have "map audited ?rows = map audited (take (length ?rows) log)"
    using len row by (intro nth_equalityI) auto
  ultimately show ?thesis by blast
qed

text \<open>Cutting the end of the log is not detected: any beginning of a log that passes the check passes it too.\<close>

theorem audit_truncation_undetected:
  assumes "fst (verify_admin_audit_chain lib secret db) = Inr True"
  shows "verify_admin_audit_chain lib secret
      (db\<lparr>admin_audit_logs := take n (order_asc aa_seq (admin_audit_logs db))\<rparr>) =
    (Inr True, db\<lparr>admin_audit_logs := take n (order_asc aa_seq (admin_audit_logs db))\<rparr>)"
proof -
  let ?cut = "take n (order_asc aa_seq (admin_audit_logs db))"
  have "chain_ok lib secret ?cut"
    using assms walk_take by (auto simp: verify_admin_audit_chain_def chain_ok_def)
  moreover have "\<not> db_outage db" using assms by (simp add: verify_admin_audit_chain_def)
  ultimately show ?thesis
    using chain_sorted(3) [of lib secret ?cut] by (simp add: verify_admin_audit_chain_def query_def chain_ok_def)
qed

section \<open>A log of two rows\<close>

definition sample_mac :: mac_lib where
  "sample_mac =
     \<lparr>hex_encode = hex_encode_ref, hex_decode = hex_decode_ref, uuid_to_string = (\<lambda>i. nat_to_string (unat i)), rfc3339 = int_to_string,
      json_to_string = render, hmac_sha256 = (\<lambda>k m. map (\<lambda>c. of_nat (of_char c)) (k @ m))\<rparr>"

lemma sample_mac_laws: "json_laws sample_mac" "hex_laws sample_mac"
  by (intro json_laws_render, simp add: sample_mac_def) (intro hex_laws_ref, simp_all add: sample_mac_def)

definition sample_entry :: "string \<Rightarrow> new_admin_audit" where
  "sample_entry action =
     \<lparr>na_action = action, na_actor_kind = ''cli'', na_actor_pubkey_prefix = None, na_target = None, na_details = None,
      na_ip_address = None\<rparr>"

definition sample_log :: "admin_audit_row list" where
  "sample_log =
     (let r = audit_row sample_mac ''k'' 10 1 (sample_entry ''bootstrap'') (chain_end [])
      in [r, audit_row sample_mac ''k'' 20 2 (sample_entry ''admin_login'') (chain_end [r])])"

definition sample_audit_db :: database where
  "sample_audit_db = (empty_database 30 (\<lambda>f. []))\<lparr>admin_audit_logs := sample_log\<rparr>"

lemma sample_log_ok: "chain_ok sample_mac ''k'' sample_log"
proof -
  let ?r = "audit_row sample_mac ''k'' 10 1 (sample_entry ''bootstrap'') (chain_end [])"
  have "chain_ok sample_mac ''k'' []" by (simp add: chain_ok_def walk_simps)
  from chain_append [OF chain_append [OF this]] show ?thesis by (simp add: sample_log_def Let_def)
qed

lemma sample_log_verifies: "fst (verify_admin_audit_chain sample_mac ''k'' sample_audit_db) = Inr True"
  using sample_log_ok chain_sorted(3) [OF sample_log_ok]
  by (simp add: verify_admin_audit_chain_def sample_audit_db_def chain_ok_def)

theorem audit_tampering_detected_witness:
  "\<exists>n \<le> length sample_log. map audited (order_asc aa_seq (admin_audit_logs sample_audit_db)) =
     map audited (take n sample_log)"
proof (rule audit_tampering_detected [OF sample_mac_laws sample_log_ok sample_log_verifies])
  show "\<not> list_ex (forged sample_mac ''k'' sample_log) (admin_audit_logs sample_audit_db)"
    by (auto simp: list_ex_iff forged_def sample_audit_db_def)
qed

theorem audit_truncation_undetected_witness:
  "verify_admin_audit_chain sample_mac ''k''
      (sample_audit_db\<lparr>admin_audit_logs := take 1 (order_asc aa_seq (admin_audit_logs sample_audit_db))\<rparr>) =
    (Inr True, sample_audit_db\<lparr>admin_audit_logs := take 1 (order_asc aa_seq (admin_audit_logs sample_audit_db))\<rparr>)"
  by (rule audit_truncation_undetected [OF sample_log_verifies])

end
