(* ===== verification/Admin_Api.thy ===== *)
theory Admin_Api
  imports Admin_Db Auth_Api
begin

text \<open>
  The admin plane: \<open>src/src/api/admin.rs\<close> (login, session, keys and invites) and the tokens of
  \<open>src/src/core/admin_session.rs\<close>. The JWT library under the admin secret is the record \<open>admin_token_lib\<close>. A
  request reads the clock once; the identifiers it draws are the record \<open>admin_draws\<close>. The client address is
  rendered. The configuration editor is in \<open>Operator_Settings\<close>, the feature view in \<open>Capabilities\<close>.
\<close>

section \<open>Tokens\<close>

definition ADMIN_ACCESS_AUD :: string where
  "ADMIN_ACCESS_AUD = ''smirk-admin''"

definition ADMIN_REFRESH_AUD :: string where
  "ADMIN_REFRESH_AUD = ''smirk-admin-refresh''"

definition ADMIN_SCOPE :: string where
  "ADMIN_SCOPE = ''admin''"

definition ACCESS_TTL_MINUTES :: i64 where
  "ACCESS_TTL_MINUTES = 15"

definition REFRESH_TTL_HOURS :: i64 where
  "REFRESH_TTL_HOURS = 8"

record admin_access_claims =
  xa_sub :: string
  xa_aud :: string
  xa_scope :: string
  xa_jti :: string
  xa_iat :: i64
  xa_exp :: i64

record admin_refresh_claims =
  xf_sub :: string
  xf_aud :: string
  xf_sid :: string
  xf_iat :: i64
  xf_exp :: i64

record admin_token_lib = token_lib +
  encode_admin_access :: "admin_access_claims \<Rightarrow> string option"
  encode_admin_refresh :: "admin_refresh_claims \<Rightarrow> string option"
  decode_admin_access :: "validation \<Rightarrow> string \<Rightarrow> admin_access_claims option"
  decode_admin_refresh :: "validation \<Rightarrow> string \<Rightarrow> admin_refresh_claims option"

record admin_token_pair =
  ap_access_token :: string
  ap_refresh_token :: string
  ap_access_jti :: string
  ap_expires_in :: i64

definition mint_access_token ::
    "admin_token_lib \<Rightarrow> string \<Rightarrow> i64 \<Rightarrow> string \<Rightarrow> uuid \<Rightarrow> (string \<times> string \<times> i64) result" where
  "mint_access_token lib err now admin_pubkey jti_id =
     (let jti = uuid_to_string lib jti_id in
      try_bind (ok_or (encode_admin_access lib
          \<lparr>xa_sub = admin_pubkey, xa_aud = ADMIN_ACCESS_AUD, xa_scope = ADMIN_SCOPE, xa_jti = jti, xa_iat = now,
           xa_exp = now + ACCESS_TTL_MINUTES * 60\<rparr>) (Internal (''admin access token: '' @ err)))
        (\<lambda>token. Inr (token, jti, ACCESS_TTL_MINUTES * 60)))"

definition admin_create_token_pair ::
    "admin_token_lib \<Rightarrow> string \<Rightarrow> i64 \<Rightarrow> string \<Rightarrow> uuid \<Rightarrow> uuid \<Rightarrow> admin_token_pair result" where
  "admin_create_token_pair lib err now admin_pubkey session_id jti_id =
     try_bind (mint_access_token lib err now admin_pubkey jti_id) (\<lambda>(access, jti, expires_in).
     try_bind (ok_or (encode_admin_refresh lib
         \<lparr>xf_sub = admin_pubkey, xf_aud = ADMIN_REFRESH_AUD, xf_sid = uuid_to_string lib session_id, xf_iat = now,
          xf_exp = now + REFRESH_TTL_HOURS * 3600\<rparr>) (Internal (''admin refresh token: '' @ err))) (\<lambda>refresh.
       Inr \<lparr>ap_access_token = access, ap_refresh_token = refresh, ap_access_jti = jti, ap_expires_in = expires_in\<rparr>))"

definition bad_admin_token :: app_error where
  "bad_admin_token = AuthError ''Invalid or expired admin token''"

definition verify_access :: "admin_token_lib \<Rightarrow> string \<Rightarrow> (string \<times> string) result" where
  "verify_access lib token =
     try_bind (ok_or (decode_admin_access lib (strict_validation ADMIN_ACCESS_AUD) token) bad_admin_token) (\<lambda>claims.
       if xa_scope claims \<noteq> ADMIN_SCOPE then Inl bad_admin_token else Inr (xa_sub claims, xa_jti claims))"

definition verify_refresh :: "admin_token_lib \<Rightarrow> string \<Rightarrow> (string \<times> uuid) result" where
  "verify_refresh lib token =
     try_bind (ok_or (decode_admin_refresh lib (strict_validation ADMIN_REFRESH_AUD) token) bad_admin_token) (\<lambda>claims.
     try_bind (ok_or (parse_uuid lib (xf_sid claims)) bad_admin_token) (\<lambda>sid.
       Inr (xf_sub claims, sid)))"

section \<open>Environment\<close>

record admin_config =
  admin_public_url :: string
  key_integrity_secret :: string
  max_keys :: u32
  pending_key_ttl_days :: u32
  admin_onion :: "string option"

record admin_env =
  an_lib :: mac_lib
  an_tokens :: admin_token_lib
  an_nostr :: nostr_lib
  an_enabled :: bool
  an_cfg :: admin_config
  an_refresh_pepper :: string
  an_clock :: timestamp
  an_jwt_error :: string

record admin_draws =
  adr_key :: uuid
  adr_session :: uuid
  adr_jti :: uuid
  adr_audit :: uuid
  adr_nonce :: "byte list"
  adr_codes :: "nat \<Rightarrow> string"

abbreviation integrity_secret :: "admin_env \<Rightarrow> string" where
  "integrity_secret env \<equiv> key_integrity_secret (an_cfg env)"

definition admin_now :: "admin_env \<Rightarrow> i64" where
  "admin_now env = an_clock env div 1000000"

section \<open>Helpers\<close>

definition ADMIN_CHALLENGE_TTL_SECS :: i64 where
  "ADMIN_CHALLENGE_TTL_SECS = 120"

definition ADMIN_ACTION_MAX_AGE_SECS :: i64 where
  "ADMIN_ACTION_MAX_AGE_SECS = 30"

definition PUBKEY_PREFIX_LEN :: nat where
  "PUBKEY_PREFIX_LEN = 16"

definition admin_auth_fail :: app_error where
  "admin_auth_fail = AuthError ''Invalid admin credentials''"

definition admin_manager :: "admin_env \<Rightarrow> unit result" where
  "admin_manager env = ensure (an_enabled env) (NotFound ''admin surface is not enabled'')"

definition admin_verify_url :: "admin_env \<Rightarrow> string" where
  "admin_verify_url env = trim_end_matches (CHR ''/'') (admin_public_url (an_cfg env)) @ ''/admin/auth/verify''"

definition admin_instance_id :: "admin_env \<Rightarrow> string" where
  "admin_instance_id env = take 16 (hex_encode (an_nostr env) (sha256 (an_nostr env) (admin_public_url (an_cfg env))))"

definition pubkey_prefix :: "string \<Rightarrow> string" where
  "pubkey_prefix pubkey = take PUBKEY_PREFIX_LEN pubkey"

definition host_allowed :: "string \<Rightarrow> string option \<Rightarrow> bool" where
  "host_allowed host onion =
     (if host = [] then True
      else
        let h = to_lowercase host; bare = takeWhile (\<lambda>c. c \<noteq> CHR '':'') h in
        if h = ''[::1]'' \<or> strip_prefix ''[::1]:'' h \<noteq> None \<or> h = ''::1'' then True
        else if bare = ''localhost'' \<or> bare = ''127.0.0.1'' then True
        else case onion of
          None \<Rightarrow> False
        | Some o' \<Rightarrow> let o'' = to_lowercase o' in o'' \<noteq> [] \<and> (bare = o'' \<or> h = o''))"

text \<open>The middleware runs the request only behind the host check; \<open>None\<close> is the refusal with status 403.\<close>

definition admin_plane_guard :: "admin_env \<Rightarrow> string option \<Rightarrow> 'a stmt \<Rightarrow> 'a option stmt" where
  "admin_plane_guard env host next_handler =
     (if host_allowed (case host of None \<Rightarrow> [] | Some h \<Rightarrow> h) (admin_onion (an_cfg env))
      then stmt_bind next_handler (\<lambda>x. stmt_return (Inr (Some x)))
      else stmt_return (Inr None))"

definition lower_hex_digit :: "char \<Rightarrow> bool" where
  "lower_hex_digit c \<longleftrightarrow> is_ascii_digit c \<or> 97 \<le> (of_char c :: nat) \<and> (of_char c :: nat) \<le> 102"

definition validate_admin_pubkey :: "string \<Rightarrow> unit result" where
  "validate_admin_pubkey pubkey =
     ensure (length pubkey = 64 \<and> list_all lower_hex_digit pubkey) (ValidationError ''pubkey must be 64 lowercase hex chars'')"

definition key_status :: "admin_key_row \<Rightarrow> string" where
  "key_status k =
     (if ak_revoked_at k \<noteq> None then ''revoked''
      else if ak_activated_at k = None then ''pending''
      else ''active'')"

definition admin_audit_entry :: "string \<Rightarrow> string \<Rightarrow> string option \<Rightarrow> json option \<Rightarrow> string option \<Rightarrow> new_admin_audit" where
  "admin_audit_entry action actor target details ip =
     \<lparr>na_action = action, na_actor_kind = ''admin'', na_actor_pubkey_prefix = Some (pubkey_prefix actor),
      na_target = target, na_details = details, na_ip_address = ip\<rparr>"

section \<open>The guard\<close>

record admin_context =
  ctx_pubkey :: string
  ctx_admin_key_id :: uuid
  ctx_session_id :: uuid

definition opaque :: "'a result \<Rightarrow> 'a result" where
  "opaque r = (case r of Inl e \<Rightarrow> Inl admin_auth_fail | Inr x \<Rightarrow> Inr x)"

definition authorized_key :: "admin_env \<Rightarrow> string \<Rightarrow> admin_key_row stmt" where
  "authorized_key env pubkey =
     stmt_bind (get_active_admin_key (an_lib env) pubkey (integrity_secret env)) (\<lambda>found.
       require_some admin_auth_fail (option_filter (\<lambda>k. ak_activated_at k \<noteq> None) found))"

definition admin_guard :: "admin_env \<Rightarrow> string option \<Rightarrow> admin_context stmt" where
  "admin_guard env header =
     stmt_bind (stmt_return (opaque (admin_manager env))) (\<lambda>x.
     stmt_bind (stmt_return (opaque (bearer_token header))) (\<lambda>token.
     stmt_bind (stmt_return (opaque (verify_access (an_tokens env) token))) (\<lambda>(pubkey, jti).
     stmt_bind (find_active_admin_session_by_jti jti) (\<lambda>found.
     stmt_bind (require_some admin_auth_fail found) (\<lambda>session.
     stmt_bind (authorized_key env pubkey) (\<lambda>key.
       stmt_return (Inr \<lparr>ctx_pubkey = pubkey, ctx_admin_key_id = ak_id key, ctx_session_id = as_id session\<rparr>)))))))"

section \<open>Login, refresh, logout\<close>

record admin_challenge_response =
  ach_challenge :: string
  ach_url :: string
  ach_instance_id :: string
  ach_expires_in :: i64

record admin_token_response =
  atr_access_token :: string
  atr_refresh_token :: string
  atr_expires_in :: i64

definition admin_challenge :: "admin_env \<Rightarrow> admin_draws \<Rightarrow> admin_challenge_response stmt" where
  "admin_challenge env d =
     stmt_bind (stmt_return (admin_manager env)) (\<lambda>x.
     stmt_bind (issue_challenge (an_tokens env) (adr_nonce d) ''admin_login'' None ADMIN_CHALLENGE_TTL_SECS) (\<lambda>challenge.
       stmt_return (Inr \<lparr>ach_challenge = challenge, ach_url = admin_verify_url env,
         ach_instance_id = admin_instance_id env, ach_expires_in = ADMIN_CHALLENGE_TTL_SECS\<rparr>)))"

definition admin_login_action :: "admin_env \<Rightarrow> string \<Rightarrow> signed_action" where
  "admin_login_action env challenge =
     \<lparr>sa_url = admin_verify_url env, sa_method = ''POST'', sa_purpose = ''admin_login'', sa_nonce = challenge,
      sa_payload_sha256 = descriptor_sha256 (an_nostr env)
        (request_descriptor (an_nostr env) ''POST'' ''/admin/auth/verify'' [] []),
      sa_target = None, sa_instance_id = Some (admin_instance_id env)\<rparr>"

definition admin_proof :: "admin_env \<Rightarrow> string \<Rightarrow> string \<Rightarrow> string result" where
  "admin_proof env admin_token challenge =
     (case verify_signed_action (an_nostr env) admin_token (admin_login_action env challenge) (admin_now env)
             ADMIN_ACTION_MAX_AGE_SECS of
        Inl e \<Rightarrow> Inl admin_auth_fail
      | Inr pubkey \<Rightarrow> Inr pubkey)"

text \<open>A pending key becomes active with its first login, unless its deadline has passed.\<close>

definition admit_key :: "admin_env \<Rightarrow> admin_key_row \<Rightarrow> unit stmt" where
  "admit_key env key =
     (if ak_activated_at key \<noteq> None then stmt_return (Inr ())
      else if (case ak_activation_deadline key of None \<Rightarrow> False | Some deadline \<Rightarrow> an_clock env > deadline)
      then stmt_return (Inl admin_auth_fail)
      else stmt_bind (activate_admin_key (an_lib env) (an_clock env) (ak_id key) (integrity_secret env)) (\<lambda>x.
             stmt_return (Inr ())))"

definition open_admin_session :: "admin_env \<Rightarrow> admin_draws \<Rightarrow> string \<Rightarrow> string \<Rightarrow> uuid \<Rightarrow> admin_token_pair stmt" where
  "open_admin_session env d ip pubkey key_id =
     stmt_bind (stmt_return (admin_create_token_pair (an_tokens env) (an_jwt_error env) (admin_now env) pubkey
         (adr_session d) (adr_jti d))) (\<lambda>pair.
     stmt_bind (create_admin_session_audited (an_lib env) (an_clock env) (adr_audit d)
         \<lparr>nas_id = adr_session d, nas_admin_key_id = key_id, nas_pubkey = pubkey,
          nas_refresh_token_hash = hash_refresh_token (an_lib env) (ap_refresh_token pair) (an_refresh_pepper env),
          nas_access_jti = ap_access_jti pair, nas_device_info = None, nas_ip_address = Some ip,
          nas_expires_at = an_clock env + seconds (REFRESH_TTL_HOURS * 3600)\<rparr>
         (admin_audit_entry ''admin_login'' pubkey None None (Some ip)) (integrity_secret env)) (\<lambda>session.
       stmt_return (Inr pair)))"

definition admin_verify ::
    "admin_env \<Rightarrow> admin_draws \<Rightarrow> string \<Rightarrow> string \<Rightarrow> string \<Rightarrow> admin_token_response stmt" where
  "admin_verify env d ip admin_token challenge =
     stmt_bind (stmt_return (admin_manager env)) (\<lambda>x.
     stmt_bind (stmt_return (admin_proof env admin_token challenge)) (\<lambda>pubkey.
     stmt_bind (consume_challenge challenge ''admin_login'') (\<lambda>consumed.
     stmt_bind (require_some admin_auth_fail consumed) (\<lambda>subject.
     stmt_bind (get_active_admin_key (an_lib env) pubkey (integrity_secret env)) (\<lambda>found.
     stmt_bind (require_some admin_auth_fail found) (\<lambda>key.
     stmt_bind (admit_key env key) (\<lambda>x.
     stmt_bind (open_admin_session env d ip pubkey (ak_id key)) (\<lambda>pair.
     stmt_bind (touch_admin_key_last_used (ak_id key)) (\<lambda>x.
       stmt_return (Inr \<lparr>atr_access_token = ap_access_token pair, atr_refresh_token = ap_refresh_token pair,
         atr_expires_in = ap_expires_in pair\<rparr>))))))))))"

definition admin_refresh :: "admin_env \<Rightarrow> admin_draws \<Rightarrow> string \<Rightarrow> admin_token_response stmt" where
  "admin_refresh env d token =
     stmt_bind (stmt_return (admin_manager env)) (\<lambda>x.
     stmt_bind (stmt_return (opaque (verify_refresh (an_tokens env) token))) (\<lambda>(pubkey, session_id).
     stmt_bind (authorized_key env pubkey) (\<lambda>key.
     stmt_bind (find_active_admin_session_by_id session_id) (\<lambda>found.
     stmt_bind (require_some admin_auth_fail found) (\<lambda>session.
     stmt_bind (stmt_return (ensure (hash_refresh_token (an_lib env) token (an_refresh_pepper env) = as_refresh_token_hash session \<and>
         as_admin_key_id session = ak_id key) admin_auth_fail)) (\<lambda>x.
     stmt_bind (stmt_return (mint_access_token (an_tokens env) (an_jwt_error env) (admin_now env) pubkey (adr_jti d)))
       (\<lambda>(access_token, jti, expires_in).
     stmt_bind (rotate_admin_session_jti session_id jti) (\<lambda>rotated.
     stmt_bind (require_some admin_auth_fail rotated) (\<lambda>x.
       stmt_return (Inr \<lparr>atr_access_token = access_token, atr_refresh_token = token, atr_expires_in = expires_in\<rparr>))))))))))"

definition admin_logout :: "admin_env \<Rightarrow> admin_draws \<Rightarrow> string option \<Rightarrow> bool stmt" where
  "admin_logout env d header =
     stmt_bind (admin_guard env header) (\<lambda>ctx.
     stmt_bind (revoke_admin_session (ctx_session_id ctx)) (\<lambda>x.
     stmt_bind (ignoring (record_admin_audit (an_lib env) (an_clock env) (adr_audit d)
         (admin_audit_entry ''admin_logout'' (ctx_pubkey ctx) None None None) (integrity_secret env))) (\<lambda>x.
       stmt_return (Inr True))))"

definition admin_me :: "admin_env \<Rightarrow> string option \<Rightarrow> (string \<times> string) stmt" where
  "admin_me env header =
     stmt_bind (admin_guard env header) (\<lambda>ctx.
       stmt_return (Inr (ctx_pubkey ctx, uuid_to_string (an_lib env) (ctx_admin_key_id ctx))))"

section \<open>Keys\<close>

record key_response =
  kr_id :: string
  kr_pubkey :: string
  kr_status :: string

definition key_response_of :: "admin_env \<Rightarrow> admin_key_row \<Rightarrow> key_response" where
  "key_response_of env k =
     \<lparr>kr_id = uuid_to_string (an_lib env) (ak_id k), kr_pubkey = ak_pubkey k, kr_status = key_status k\<rparr>"

record admin_key_view =
  kv_id :: string
  kv_pubkey :: string
  kv_label :: "string option"
  kv_scope :: string
  kv_status :: string
  kv_created_at :: string
  kv_activated_at :: "string option"
  kv_revoked_at :: "string option"

definition key_view :: "admin_env \<Rightarrow> admin_key_row \<Rightarrow> admin_key_view" where
  "key_view env k =
     \<lparr>kv_id = uuid_to_string (an_lib env) (ak_id k), kv_pubkey = ak_pubkey k, kv_label = ak_label k,
      kv_scope = ak_scope k, kv_status = key_status k, kv_created_at = rfc3339 (an_lib env) (ak_created_at k),
      kv_activated_at = map_option (rfc3339 (an_lib env)) (ak_activated_at k),
      kv_revoked_at = map_option (rfc3339 (an_lib env)) (ak_revoked_at k)\<rparr>"

definition pending_key :: "admin_env \<Rightarrow> string \<Rightarrow> string option \<Rightarrow> new_admin_key" where
  "pending_key env pubkey label =
     \<lparr>nak_pubkey = pubkey, nak_label = label, nak_scope = ''admin'', nak_created_by_kind = ''admin'',
      nak_activation_deadline = Some (an_clock env + seconds (uint (pending_key_ttl_days (an_cfg env)) * 86400))\<rparr>"

definition admin_keys_add ::
    "admin_env \<Rightarrow> admin_draws \<Rightarrow> string option \<Rightarrow> string \<Rightarrow> string option \<Rightarrow> key_response stmt" where
  "admin_keys_add env d header req_pubkey label =
     stmt_bind (admin_guard env header) (\<lambda>ctx.
     let pubkey = to_lowercase req_pubkey in
     stmt_bind (stmt_return (validate_admin_pubkey pubkey)) (\<lambda>x.
     stmt_bind (create_admin_key_audited (an_lib env) (an_clock env) (adr_key d, adr_audit d)
         (pending_key env pubkey label)
         (admin_audit_entry ''admin_key_added'' (ctx_pubkey ctx) (Some (pubkey_prefix pubkey)) None None)
         (integrity_secret env) (uint (max_keys (an_cfg env)))) (\<lambda>outcome.
       case outcome of
         Created key \<Rightarrow> stmt_return (Inr (key_response_of env key))
       | CapReached \<Rightarrow> stmt_return (Inl (Forbidden ''admin key limit reached; revoke an existing key first'')))))"

definition admin_keys_list :: "admin_env \<Rightarrow> string option \<Rightarrow> admin_key_view list stmt" where
  "admin_keys_list env header =
     stmt_bind (admin_guard env header) (\<lambda>ctx.
     stmt_bind list_admin_keys (\<lambda>keys. stmt_return (Inr (map (key_view env) keys))))"

definition no_such_key :: app_error where
  "no_such_key = NotFound ''admin key not found or already revoked''"

definition admin_keys_revoke :: "admin_env \<Rightarrow> admin_draws \<Rightarrow> string option \<Rightarrow> uuid \<Rightarrow> bool stmt" where
  "admin_keys_revoke env d header i =
     stmt_bind (admin_guard env header) (\<lambda>ctx.
     stmt_bind (revoke_admin_key_full (an_lib env) (an_clock env) (adr_audit d) i
         (admin_audit_entry ''admin_key_revoked'' (ctx_pubkey ctx) (Some (uuid_to_string (an_lib env) i)) None None)
         (integrity_secret env) True) (\<lambda>outcome.
       case outcome of
         Revoked k \<Rightarrow> stmt_return (Inr True)
       | KeyNotFound \<Rightarrow> stmt_return (Inl no_such_key)
       | WouldEmptyAllowlist \<Rightarrow>
           stmt_return (Inl (Forbidden ''refusing to revoke the last admin key over the network; use the CLI''))))"

definition admin_keys_rotate ::
    "admin_env \<Rightarrow> admin_draws \<Rightarrow> string option \<Rightarrow> uuid \<Rightarrow> string \<Rightarrow> string option \<Rightarrow> key_response stmt" where
  "admin_keys_rotate env d header i req_pubkey label =
     stmt_bind (admin_guard env header) (\<lambda>ctx.
     let pubkey = to_lowercase req_pubkey in
     stmt_bind (stmt_return (validate_admin_pubkey pubkey)) (\<lambda>x.
     stmt_bind (rotate_admin_key (an_lib env) (an_clock env) (adr_key d, adr_audit d) i (pending_key env pubkey label)
         (admin_audit_entry ''admin_key_rotated'' (ctx_pubkey ctx) (Some (uuid_to_string (an_lib env) i)) None None)
         (integrity_secret env)) (\<lambda>rotated.
     stmt_bind (require_some no_such_key rotated) (\<lambda>key.
       stmt_return (Inr (key_response_of env key))))))"

section \<open>Invites\<close>

record invite_view =
  iv_code_prefix :: string
  iv_label :: "string option"
  iv_created_at :: string
  iv_status :: string

definition clamp :: "nat \<Rightarrow> nat \<Rightarrow> nat \<Rightarrow> nat" where
  "clamp lo hi n = max lo (min hi n)"

definition invite_hash :: "admin_env \<Rightarrow> string \<Rightarrow> string" where
  "invite_hash env code = hex_encode (an_nostr env) (sha256 (an_nostr env) code)"

definition admin_invites_mint ::
    "admin_env \<Rightarrow> admin_draws \<Rightarrow> string option \<Rightarrow> u32 option \<Rightarrow> string option \<Rightarrow> string list stmt" where
  "admin_invites_mint env d header req_count label =
     stmt_bind (admin_guard env header) (\<lambda>ctx.
     let count = clamp 1 1000 (case req_count of None \<Rightarrow> 1 | Some n \<Rightarrow> unat n) in
     mint_invites_audited (an_lib env) (invite_hash env) (an_clock env) (adr_audit d) (map (adr_codes d) [0..<count]) label
       (admin_audit_entry ''invites_minted'' (ctx_pubkey ctx) label (Some (JObj [(''count'', JNum (int count))])) None)
       (integrity_secret env))"

definition invite_status :: "timestamp \<Rightarrow> invite_code_row \<Rightarrow> string" where
  "invite_status now r =
     (if ic_used_at r \<noteq> None then ''used''
      else if (case ic_expires_at r of None \<Rightarrow> False | Some e \<Rightarrow> e \<le> now) then ''expired''
      else ''unused'')"

definition admin_invites_list :: "admin_env \<Rightarrow> string option \<Rightarrow> (invite_view list \<times> nat) stmt" where
  "admin_invites_list env header =
     stmt_bind (admin_guard env header) (\<lambda>ctx.
     stmt_bind (list_invite_codes 200 0) (\<lambda>rows.
     stmt_bind unused_invite_code_count (\<lambda>unused.
       stmt_return (Inr (map (\<lambda>r. \<lparr>iv_code_prefix = take 12 (ic_code_hash r), iv_label = ic_label r,
         iv_created_at = rfc3339 (an_lib env) (ic_created_at r), iv_status = invite_status (an_clock env) r\<rparr>) rows, unused)))))"

end
