(* ===== verification/Admin_Safety.thy ===== *)
theory Admin_Safety
  imports Admin_Audit Admin_Api
begin

text \<open>
  The admin plane as a whole. A request is a value of \<open>admin_request\<close>: the handlers, the commands of the
  command-line tool that write, and the start of the process; \<open>serve_admin\<close> is the database after it.
  \<open>trusted\<close> is what the plane rests on: the audit chain verifies, every key row carries the MAC of its fields, at
  most one key per public key is live, and the bootstrap latch carries its MAC.
\<close>

section \<open>Requests\<close>

datatype admin_request =
    AdminChallenge
  | AdminVerify string string string
  | AdminRefresh string
  | AdminLogout "string option"
  | AdminKeysAdd "string option" string "string option"
  | AdminKeysRevoke "string option" uuid
  | AdminKeysRotate "string option" uuid string "string option"
  | AdminInvitesMint "string option" "u32 option" "string option"
  | CliSetup string
  | CliAddKey new_admin_key new_admin_audit i64
  | CliRevokeKey uuid new_admin_audit
  | CliCreateWallet new_admin_key new_admin_audit i64
  | CliResetSetup
  | Boot

fun serve_admin :: "admin_env \<Rightarrow> admin_draws \<Rightarrow> admin_request \<Rightarrow> database \<Rightarrow> database" where
  "serve_admin env d AdminChallenge db = snd (admin_challenge env d db)"
| "serve_admin env d (AdminVerify ip token challenge) db = snd (admin_verify env d ip token challenge db)"
| "serve_admin env d (AdminRefresh token) db = snd (admin_refresh env d token db)"
| "serve_admin env d (AdminLogout header) db = snd (admin_logout env d header db)"
| "serve_admin env d (AdminKeysAdd header pubkey label) db = snd (admin_keys_add env d header pubkey label db)"
| "serve_admin env d (AdminKeysRevoke header i) db = snd (admin_keys_revoke env d header i db)"
| "serve_admin env d (AdminKeysRotate header i pubkey label) db = snd (admin_keys_rotate env d header i pubkey label db)"
| "serve_admin env d (AdminInvitesMint header count label) db = snd (admin_invites_mint env d header count label db)"
| "serve_admin env d (CliSetup pubkey) db =
     snd (bootstrap_admin (an_lib env) (an_clock env) (adr_key d, adr_audit d) pubkey (integrity_secret env) db)"
| "serve_admin env d (CliAddKey input audit max_live) db =
     snd (create_admin_key_audited (an_lib env) (an_clock env) (adr_key d, adr_audit d) input audit (integrity_secret env)
       max_live db)"
| "serve_admin env d (CliRevokeKey i audit) db =
     snd (revoke_admin_key_full (an_lib env) (an_clock env) (adr_audit d) i audit (integrity_secret env) False db)"
| "serve_admin env d (CliCreateWallet input audit max_live) db =
     snd (create_admin_key_bootstrapping (an_lib env) (an_clock env) (adr_key d, adr_audit d) input audit
       (integrity_secret env) max_live db)"
| "serve_admin env d CliResetSetup db = snd (reset_setup (an_lib env) (integrity_secret env) db)"
| "serve_admin env d Boot db = snd (boot_latch (an_lib env) (an_clock env) (integrity_secret env) db)"

section \<open>The trusted state\<close>

definition keys_ok :: "'a mac_lib_scheme \<Rightarrow> string \<Rightarrow> admin_key_row list \<Rightarrow> bool" where
  "keys_ok lib secret keys \<longleftrightarrow>
     distinct (map ak_id keys) \<and> list_all (mac_valid lib secret) keys \<and>
     distinct (map ak_pubkey (filter live_key keys))"

definition latch_ok :: "'a mac_lib_scheme \<Rightarrow> string \<Rightarrow> server_config_row option \<Rightarrow> bool" where
  "latch_ok lib secret row \<longleftrightarrow> (case row of None \<Rightarrow> True | Some c \<Rightarrow> verify_latch lib secret c)"

definition trusted :: "'a mac_lib_scheme \<Rightarrow> string \<Rightarrow> database \<Rightarrow> bool" where
  "trusted lib secret db \<longleftrightarrow>
     chain_ok lib secret (admin_audit_logs db) \<and> keys_ok lib secret (admin_keys db) \<and> latch_ok lib secret (server_config db)"

definition keeps_trust :: "'a mac_lib_scheme \<Rightarrow> string \<Rightarrow> database \<Rightarrow> database \<Rightarrow> bool" where
  "keeps_trust lib secret db db' \<longleftrightarrow>
     (\<exists>ext. admin_audit_logs db' = admin_audit_logs db @ ext) \<and> (trusted lib secret db \<longrightarrow> trusted lib secret db')"

interpretation trust: effect_bound "keeps_trust lib secret" for lib :: "'a mac_lib_scheme" and secret
  by unfold_locales (auto simp: keeps_trust_def)

text \<open>Statements on the other tables.\<close>

definition anchors_kept :: "database \<Rightarrow> database \<Rightarrow> bool" where
  "anchors_kept db db' \<longleftrightarrow>
     admin_audit_logs db' = admin_audit_logs db \<and> admin_keys db' = admin_keys db \<and> server_config db' = server_config db"

interpretation anchors: effect_bound anchors_kept
  by unfold_locales (auto simp: anchors_kept_def)

lemma anchors_trust: "within anchors_kept m \<Longrightarrow> within (keeps_trust lib secret) m"
  by (erule within_mono) (simp add: anchors_kept_def keeps_trust_def trusted_def)

lemma anchors_sql:
  "(\<And>db x db'. f db = Inr (x, db') \<Longrightarrow> anchors_kept db db') \<Longrightarrow> within anchors_kept (sql f)"
  by (rule within_sql) (simp_all add: anchors.refl)

lemma anchors_statements:
  "within anchors_kept (issue_challenge lib0 bs p subj ttl)"
  "within anchors_kept (consume_challenge n p)"
  "within anchors_kept (create_admin_session s)"
  "within anchors_kept (close_admin_sessions q)"
  "within anchors_kept (rotate_admin_session_jti i jti)"
  "within anchors_kept (insert_invite_code h l)"
  by (auto simp: within_def issue_challenge_def consume_challenge_def Let_def anchors_kept_def)
     (auto simp: create_admin_session_def close_admin_sessions_def rotate_admin_session_jti_def insert_invite_code_def
        sql_def run_sql_def Let_def split: sum.split)

lemma reads_admin:
  "reads (get_active_admin_key lib pk secret)" "reads (find_active_admin_session_by_jti jti)"
  "reads (find_active_admin_session_by_id i)" "reads live_key_count" "reads (read_setup_state lib secret)"
  "reads has_any_users" "reads has_any_admin_keys"
  unfolding get_active_admin_key_def find_active_admin_session_by_jti_def find_active_admin_session_by_id_def
    live_key_count_def read_setup_state_def has_any_users_def has_any_admin_keys_def
  by (rule reads_query)+

lemma reads_authorized_key: "reads (authorized_key env pk)"
  unfolding authorized_key_def by (intro unchanged.within_rules reads_admin)

lemma reads_admin_guard: "reads (admin_guard env header)"
  unfolding admin_guard_def by (intro unchanged.within_rules within_intros reads_admin reads_authorized_key)

section \<open>Statements on the trust anchors\<close>

lemma sealed_valid [simp]: "mac_valid lib secret (sealed lib secret k)"
  by (simp add: mac_valid_def sealed_def verify_admin_key_mac_def mac_input_def)

lemma sealed_fields [simp]:
  "ak_id (sealed lib secret k) = ak_id k" "ak_pubkey (sealed lib secret k) = ak_pubkey k"
  "ak_revoked_at (sealed lib secret k) = ak_revoked_at k" "ak_activated_at (sealed lib secret k) = ak_activated_at k"
  "ak_activation_deadline (sealed lib secret k) = ak_activation_deadline k" "ak_scope (sealed lib secret k) = ak_scope k"
  by (simp_all add: sealed_def)

lemma key_update_fields [simp]:
  "ak_id (set_activated lib secret now k) = ak_id k" "ak_pubkey (set_activated lib secret now k) = ak_pubkey k"
  "ak_id (set_key_revoked lib secret now k) = ak_id k" "ak_pubkey (set_key_revoked lib secret now k) = ak_pubkey k"
  "live_key (set_activated lib secret now k) = live_key k" "\<not> live_key (set_key_revoked lib secret now k)"
  "mac_valid lib secret (set_activated lib secret now k)" "mac_valid lib secret (set_key_revoked lib secret now k)"
  by (simp_all add: set_activated_def set_key_revoked_def live_key_def)

lemma new_key_rows [simp]:
  "ak_id (pending_key_row lib secret now i input) = i" "ak_pubkey (pending_key_row lib secret now i input) = nak_pubkey input"
  "live_key (pending_key_row lib secret now i input)" "mac_valid lib secret (pending_key_row lib secret now i input)"
  "ak_activated_at (pending_key_row lib secret now i input) = None"
  "ak_activation_deadline (pending_key_row lib secret now i input) = nak_activation_deadline input"
  "ak_id (bootstrap_key_row lib secret now i pk) = i" "ak_pubkey (bootstrap_key_row lib secret now i pk) = pk"
  "live_key (bootstrap_key_row lib secret now i pk)" "mac_valid lib secret (bootstrap_key_row lib secret now i pk)"
  by (simp_all add: pending_key_row_def bootstrap_key_row_def live_key_def)

text \<open>An update of key rows that keeps identifier and public key, revives none and leaves a valid MAC.\<close>

lemma keys_ok_update:
  assumes "keys_ok lib secret keys"
    and "\<And>k. ak_id (u k) = ak_id k" "\<And>k. ak_pubkey (u k) = ak_pubkey k" "\<And>k. live_key (u k) \<Longrightarrow> live_key k"
    and "\<And>k. mac_valid lib secret k \<Longrightarrow> mac_valid lib secret (u k)"
  shows "keys_ok lib secret (sql_update p u keys)"
  using assms(1)
proof (induction keys)
  case (Cons k keys)
  have "set (map ak_pubkey (filter live_key (sql_update p u ks))) \<subseteq> set (map ak_pubkey (filter live_key ks))" for ks
    using assms(3,4) by (force simp: sql_update_def)
  with Cons assms show ?case
    by (auto simp: keys_ok_def sql_update_def o_def split: if_splits)
qed (simp add: keys_ok_def sql_update_def)

lemma keys_ok_append:
  assumes "keys_ok lib secret keys" "mac_valid lib secret k" "ak_id k \<notin> set (map ak_id keys)"
    and "\<not> list_ex (\<lambda>x. live_key x \<and> ak_pubkey x = ak_pubkey k) keys"
  shows "keys_ok lib secret (keys @ [k])"
  using assms by (auto simp: keys_ok_def list_ex_iff)

lemma keeps_trust_keys:
  assumes "keys_ok lib secret (admin_keys db) \<Longrightarrow> keys_ok lib secret keys"
  shows "keeps_trust lib secret db (db\<lparr>admin_keys := keys\<rparr>)"
  using assms by (simp add: keeps_trust_def trusted_def)

lemma trust_add_key:
  assumes "mac_valid lib secret k"
  shows "within (keeps_trust lib secret) (map_err g (run_sql (add_key_row k)))"
  using assms
  by (intro within_run_sql trust.refl)
     (auto simp: add_key_row_def split: if_splits intro!: keeps_trust_keys keys_ok_append)

lemma trust_update_keys:
  assumes "\<And>k. ak_id (u k) = ak_id k" "\<And>k. ak_pubkey (u k) = ak_pubkey k" "\<And>k. live_key (u k) \<Longrightarrow> live_key k"
    and "\<And>k. mac_valid lib secret k \<Longrightarrow> mac_valid lib secret (u k)"
  shows "within (keeps_trust lib secret) (update_admin_keys p u)"
  unfolding update_admin_keys_def
  by (rule within_sql) (auto intro!: trust.refl keeps_trust_keys keys_ok_update assms)

lemma mac_valid_touch [simp]: "mac_valid lib secret (k\<lparr>ak_last_used_at := t\<rparr>) = mac_valid lib secret k"
  by (simp add: mac_valid_def mac_input_def)

lemma trust_append: "within (keeps_trust lib secret) (append_admin_audit lib now i e secret)"
  unfolding append_admin_audit_def
  by (rule within_sql) (auto simp: keeps_trust_def trusted_def Let_def chain_append split: if_splits)

lemma trust_statements:
  "within (keeps_trust lib secret) (insert_admin_key lib now i input secret)"
  "within (keeps_trust lib secret) (update_admin_keys p (set_activated lib secret now))"
  "within (keeps_trust lib secret) (update_admin_keys p (set_key_revoked lib secret now))"
  unfolding insert_admin_key_def by (intro trust_add_key trust_update_keys; simp)+

lemma trust_touch: "within (keeps_trust lib secret) (touch_admin_key_last_used i)"
  unfolding touch_admin_key_last_used_def
  by (rule within_sql) (auto intro!: trust.refl keeps_trust_keys keys_ok_update simp: live_key_def)

lemma latch_row_ok [simp]: "verify_latch lib secret (latch_row lib secret st c u)"
  by (simp add: verify_latch_def latch_row_def)

lemma trust_latch:
  "within (keeps_trust lib secret) (set_latch lib secret st c)"
  "within (keeps_trust lib secret) (init_server_config lib now secret locked)"
  unfolding set_latch_def init_server_config_def
  by (rule within_sql; auto simp: keeps_trust_def trusted_def latch_ok_def Let_def split: option.splits if_splits)+

lemmas trust_parts =
  trust_append trust_statements trust_touch trust_latch
  anchors_statements [THEN anchors_trust] reads_admin [THEN trust.within_reads]
  reads_admin_guard [THEN trust.within_reads] reads_authorized_key [THEN trust.within_reads]
  reads_query [THEN trust.within_reads]


section \<open>Operations and requests keep the trust\<close>

lemma trust_keys_ops:
  "within (keeps_trust lib secret) (record_admin_audit lib now i e secret)"
  "within (keeps_trust lib secret) (create_admin_key_audited lib now ids input e secret m)"
  "within (keeps_trust lib secret) (activate_admin_key lib now i secret)"
  "within (keeps_trust lib secret) (revoke_with_sessions lib now i secret)"
  unfolding record_admin_audit_def create_admin_key_audited_def activate_admin_key_def revoke_with_sessions_def
    live_key_count_def revoke_admin_sessions_for_key_def
  by (intro trust.within_rules within_intros trust_parts)+

lemma trust_revoke:
  "within (keeps_trust lib secret) (revoke_admin_key_full lib now aid i e secret b)"
  "within (keeps_trust lib secret) (rotate_admin_key lib now ids i input e secret)"
  unfolding revoke_admin_key_full_def rotate_admin_key_def live_key_count_def
  by (intro trust.within_rules within_intros trust_parts trust_keys_ops)+

lemma trust_setup:
  "within (keeps_trust lib secret) (bootstrap_admin lib now ids pk secret)"
  "within (keeps_trust lib secret) (create_admin_key_bootstrapping lib now ids input e secret m)"
  "within (keeps_trust lib secret) (reset_setup lib secret)"
  unfolding bootstrap_admin_def create_admin_key_bootstrapping_def reset_setup_def live_key_count_def
  by (intro trust.within_rules within_intros trust_parts trust_add_key new_key_rows)+

lemma within_setup_state [within_intros]:
  "within R a \<Longrightarrow> within R b \<Longrightarrow> within R c \<Longrightarrow> within R d \<Longrightarrow>
     within R (case st of Fresh \<Rightarrow> a | Uninitialized \<Rightarrow> b | Locked \<Rightarrow> c | Tampered \<Rightarrow> d)"
  by (cases st) simp_all

lemma within_add_outcome [within_intros]:
  "(\<And>k. within R (f k)) \<Longrightarrow> within R m \<Longrightarrow> within R (case z of Created k \<Rightarrow> f k | CapReached \<Rightarrow> m)"
  by (cases z) simp_all

lemma within_revoke_outcome [within_intros]:
  "(\<And>k. within R (f k)) \<Longrightarrow> within R m \<Longrightarrow> within R n \<Longrightarrow>
     within R (case z of Revoked k \<Rightarrow> f k | KeyNotFound \<Rightarrow> m | WouldEmptyAllowlist \<Rightarrow> n)"
  by (cases z) simp_all

lemma trust_boot: "within (keeps_trust lib secret) (boot_latch lib now secret)"
  unfolding boot_latch_def by (intro trust.within_rules within_intros trust_parts)

lemma trust_sessions:
  "within (keeps_trust lib secret) (create_admin_session_audited lib now i s e secret)"
  "within (keeps_trust lib secret) (revoke_admin_session j)"
  "within (keeps_trust lib secret) (mint_invites_audited lib h now i codes label e secret)"
  unfolding create_admin_session_audited_def revoke_admin_session_def mint_invites_audited_def
  by (intro trust.within_rules within_intros trust_parts)+

abbreviation env_trust :: "admin_env \<Rightarrow> database \<Rightarrow> database \<Rightarrow> bool" where
  "env_trust env \<equiv> keeps_trust (an_lib env) (integrity_secret env)"

lemma trust_login: "within (env_trust env) (admin_verify env d ip token challenge)"
  unfolding admin_verify_def admit_key_def open_admin_session_def
  by (intro trust.within_rules within_intros trust_parts trust_keys_ops trust_sessions)

lemma trust_handlers:
  "within (env_trust env) (admin_challenge env d)"
  "within (env_trust env) (admin_refresh env d token)"
  "within (env_trust env) (admin_logout env d header)"
  "within (env_trust env) (admin_keys_add env d header pk label)"
  "within (env_trust env) (admin_keys_revoke env d header i)"
  "within (env_trust env) (admin_keys_rotate env d header i pk label)"
  "within (env_trust env) (admin_invites_mint env d header n label)"
  unfolding admin_challenge_def admin_refresh_def admin_logout_def admin_keys_add_def admin_keys_revoke_def
    admin_keys_rotate_def admin_invites_mint_def Let_def
  by (intro trust.within_rules within_intros trust_parts trust_keys_ops trust_sessions trust_revoke)+

lemma serve_admin_trust: "env_trust env db (serve_admin env d r db)"
  by (cases r) (simp_all add: withinD trust_login trust_handlers trust_keys_ops trust_revoke trust_setup trust_boot)

end
