(* ===== verification/Admin_Auditing.thy ===== *)
theory Admin_Auditing
  imports Admin_Safety
begin

text \<open>
  Who is allowed to do what, and that every change of it leaves a row in the audit log. \<open>grants\<close> is the authority
  the tables give: the admin keys with their revocations, the invitations and the admin sessions. An action
  \<open>seals\<close> its change when, if it succeeds, it is silent or has appended exactly one row; a transaction
  around it then is audited on every path, because a failure takes the change back.
\<close>

section \<open>Silent and quiet steps\<close>

definition grants :: "database \<Rightarrow> (uuid \<times> string \<times> string \<times> timestamp option) list \<times> invite_code_row list \<times> uuid list" where
  "grants db =
     (map (\<lambda>k. (ak_id k, ak_pubkey k, ak_scope k, ak_revoked_at k)) (admin_keys db), invite_codes db,
      map as_id (admin_sessions db))"

definition quiet :: "database \<Rightarrow> database \<Rightarrow> bool" where
  "quiet db db' \<longleftrightarrow> admin_audit_logs db' = admin_audit_logs db"

definition silent :: "database \<Rightarrow> database \<Rightarrow> bool" where
  "silent db db' \<longleftrightarrow> grants db' = grants db \<and> quiet db db'"

definition ungranting :: "database \<Rightarrow> database \<Rightarrow> bool" where
  "ungranting db db' \<longleftrightarrow> grants db' = grants db"

definition logged :: "(admin_audit_row \<Rightarrow> bool) \<Rightarrow> database \<Rightarrow> database \<Rightarrow> bool" where
  "logged P db db' \<longleftrightarrow> (\<exists>row. admin_audit_logs db' = admin_audit_logs db @ [row] \<and> P row)"

interpretation quiet: effect_bound quiet
  by unfold_locales (auto simp: quiet_def)

interpretation silent: effect_bound silent
  by unfold_locales (auto simp: silent_def quiet_def)

interpretation ungranting: effect_bound ungranting
  by unfold_locales (auto simp: ungranting_def)

definition seals :: "(admin_audit_row \<Rightarrow> bool) \<Rightarrow> 'a stmt \<Rightarrow> bool" where
  "seals P m \<longleftrightarrow> (\<forall>db x db'. m db = (Inr x, db') \<longrightarrow> silent db db' \<or> logged P db db')"

definition ends_logged :: "(admin_audit_row \<Rightarrow> bool) \<Rightarrow> 'a stmt \<Rightarrow> bool" where
  "ends_logged P m \<longleftrightarrow> (\<forall>db x db'. m db = (Inr x, db') \<longrightarrow> logged P db db')"

abbreviation audits :: "(admin_audit_row \<Rightarrow> bool) \<Rightarrow> 'a stmt \<Rightarrow> bool" where
  "audits P \<equiv> within (\<lambda>db db'. silent db db' \<or> logged P db db')"

lemma silent_quiet: "silent db db' \<Longrightarrow> quiet db db'"
  by (simp add: silent_def)

lemma logged_quiet:
  "quiet db db1 \<Longrightarrow> logged P db1 db2 \<Longrightarrow> logged P db db2" "logged P db db1 \<Longrightarrow> quiet db1 db2 \<Longrightarrow> logged P db db2"
  by (auto simp: logged_def quiet_def)

lemma seals_return [within_intros]: "seals P (stmt_return r)"
  by (simp add: seals_def silent.refl)

lemma seals_if [within_intros]: "(b \<Longrightarrow> seals P m) \<Longrightarrow> (\<not> b \<Longrightarrow> seals P n) \<Longrightarrow> seals P (if b then m else n)"
  by simp

lemma seals_after_silent: "within silent m \<Longrightarrow> (\<And>x. seals P (f x)) \<Longrightarrow> seals P (stmt_bind m f)"
  unfolding seals_def stmt_bind_Inr by (blast dest: withinE intro: silent.trans logged_quiet(1) silent_quiet)

lemma seals_after_quiet: "within quiet m \<Longrightarrow> (\<And>x. ends_logged P (f x)) \<Longrightarrow> seals P (stmt_bind m f)"
  unfolding seals_def ends_logged_def stmt_bind_Inr by (blast dest: withinE intro: logged_quiet(1))

lemma ends_logged_bind:
  "within quiet m \<Longrightarrow> (\<And>x. ends_logged P (f x)) \<Longrightarrow> ends_logged P (stmt_bind m f)"
  unfolding ends_logged_def stmt_bind_Inr by (blast dest: withinE intro: logged_quiet(1))

lemma ends_logged_append:
  assumes "P (audit_row lib secret now i e (0, []))"
    and "\<And>prior. P (audit_row lib secret now i e prior) = P (audit_row lib secret now i e (0, []))"
  shows "ends_logged P (stmt_bind (append_admin_audit lib now i e secret) (\<lambda>x. stmt_return (Inr y)))"
  using assms by (auto simp: ends_logged_def stmt_bind_Inr append_Inr logged_def)

lemma audits_transaction: "seals P m \<Longrightarrow> audits P (transaction m)"
  unfolding within_def seals_def transaction_def
  by (auto simp: silent.refl split: prod.split sum.split)

lemma audits_silent: "within silent m \<Longrightarrow> audits P m"
  by (simp add: within_def)

lemma audits_after_silent: "within silent m \<Longrightarrow> (\<And>x. audits P (f x)) \<Longrightarrow> audits P (stmt_bind m f)"
  unfolding within_def stmt_bind_def
  by (auto split: prod.split sum.split) (metis logged_quiet(1) silent.trans silent_quiet snd_conv)+

lemma audits_then_silent: "audits P m \<Longrightarrow> (\<And>x. within silent (f x)) \<Longrightarrow> audits P (stmt_bind m f)"
  unfolding within_def stmt_bind_def
  by (auto split: prod.split sum.split) (metis logged_quiet(2) silent.trans silent_quiet snd_conv)+

lemma audits_mono: "audits P m \<Longrightarrow> (\<And>r. P r \<Longrightarrow> Q r) \<Longrightarrow> audits Q m"
  by (erule within_mono) (auto simp: logged_def)

section \<open>Statements\<close>

lemma silent_updates:
  "within silent (touch_admin_key_last_used i)"
  "within silent (activate_admin_key lib now i secret)"
  unfolding touch_admin_key_last_used_def activate_admin_key_def update_admin_keys_def
  by (intro silent.within_transaction within_sql silent.refl;
      auto simp: silent_def quiet_def grants_def sql_update_def set_activated_def sealed_def)+

lemma silent_challenges:
  "within silent (issue_challenge lib0 bs p subj ttl)" "within silent (consume_challenge n p)"
  by (auto simp: within_def issue_challenge_def consume_challenge_def Let_def silent_def quiet_def grants_def)

lemma silent_sessions:
  "within silent (rotate_admin_session_jti i jti)" "within silent (close_admin_sessions q)"
  unfolding rotate_admin_session_jti_def close_admin_sessions_def
  by (rule within_sql; auto simp: silent_def quiet_def grants_def sql_update_def Let_def)+

lemma silent_latch: "within silent (set_latch lib secret st c)" "within silent (init_server_config lib now secret b)"
  unfolding set_latch_def init_server_config_def
  by (rule within_sql; auto simp: silent_def quiet_def grants_def)+

lemma quiet_statements:
  "within quiet (insert_invite_code h l)" "within quiet (create_admin_session s)"
  "within quiet (map_err g (run_sql (add_key_row k)))" "within quiet (update_admin_keys p u)"
  unfolding insert_invite_code_def create_admin_session_def update_admin_keys_def
  by (intro within_sql within_run_sql quiet.refl; auto simp: quiet_def Let_def add_key_row_def split: if_splits)+

lemma quiet_of_silent: "within silent m \<Longrightarrow> within quiet m"
  by (erule within_mono) (rule silent_quiet)

lemmas silent_parts = silent_updates silent_challenges silent_sessions silent_latch
  reads_admin [THEN silent.within_reads] reads_admin_guard [THEN silent.within_reads]
  reads_authorized_key [THEN silent.within_reads] reads_query [THEN silent.within_reads]

lemmas quiet_parts = quiet_statements silent_parts [THEN quiet_of_silent]

lemma update_none_silent:
  assumes "update_admin_keys p u db = (Inr None, db')"
  shows "db' = db"
  using assms by (auto simp: update_admin_keys_def sql_Inr fetch_optional_None sql_returning_Nil sql_update_id)

lemma quiet_revoke: "within quiet (revoke_with_sessions lib now i secret)"
  unfolding revoke_with_sessions_def revoke_admin_sessions_for_key_def
  by (intro quiet.within_rules within_intros quiet_parts)

lemma revoke_none_silent: "revoke_with_sessions lib now i secret db = (Inr None, db') \<Longrightarrow> db' = db"
  by (auto simp: revoke_with_sessions_def stmt_bind_Inr dest: update_none_silent split: option.splits)

lemma seals_after_revoke:
  assumes "seals P (f None)" "\<And>k. ends_logged P (f (Some k))"
  shows "seals P (stmt_bind (revoke_with_sessions lib now i secret) f)"
  unfolding seals_def
proof (intro allI impI)
  fix db x db'
  assume "stmt_bind (revoke_with_sessions lib now i secret) f db = (Inr x, db')"
  then obtain r db1 where r: "revoke_with_sessions lib now i secret db = (Inr r, db1)" "f r db1 = (Inr x, db')"
    by (auto simp: stmt_bind_Inr)
  from withinE [OF quiet_revoke r(1)] r assms show "silent db db' \<or> logged P db db'"
    by (cases r) (auto simp: seals_def ends_logged_def dest!: revoke_none_silent intro: logged_quiet(1))
qed

section \<open>Audited operations\<close>

abbreviation row_says :: "new_admin_audit \<Rightarrow> admin_audit_row \<Rightarrow> bool" where
  "row_says e row \<equiv> row_as_new row = e"

lemma ends_logged_says: "ends_logged (row_says e) (stmt_bind (append_admin_audit lib now i e secret) (\<lambda>x. stmt_return (Inr y)))"
  by (rule ends_logged_append) (simp_all add: audit_row_fields)

lemmas seal_rules = seals_after_revoke seals_return seals_if seals_after_silent seals_after_quiet ends_logged_says ends_logged_bind

lemma audits_revoke:
  "audits (row_says e) (revoke_admin_key_full lib now aid i e secret b)"
  "audits (row_says e) (rotate_admin_key lib now ids i input e secret)"
  unfolding revoke_admin_key_full_def rotate_admin_key_def insert_admin_key_def
  by (rule audits_transaction, rule seals_after_silent, intro within_if silent.within_rules silent_parts,
      rule seals_if, rule seals_return, rule seals_after_revoke, simp add: seals_return, simp add: ends_logged_says)
     (rule audits_transaction, rule seals_after_revoke, simp add: seals_return,
      simp, intro ends_logged_bind quiet_parts ends_logged_says)

lemma audits_create:
  "audits (row_says e) (create_admin_key_audited lib now ids input e secret m)"
  "audits (row_says e) (create_admin_key_bootstrapping lib now ids input e secret m)"
  "audits (row_says (bootstrap_audit pk)) (bootstrap_admin lib now ids pk secret)"
  "audits (row_says e) (create_admin_session_audited lib now i s e secret)"
  "audits (row_says e) (mint_invites_audited lib h now i codes label e secret)"
  unfolding create_admin_key_audited_def create_admin_key_bootstrapping_def bootstrap_admin_def
    create_admin_session_audited_def mint_invites_audited_def insert_admin_key_def
  subgoal
    by (rule audits_transaction, rule seals_after_silent, rule silent_parts, rule seals_if, rule seals_return,
        intro seals_after_quiet quiet_parts ends_logged_says)
  subgoal
    by (rule audits_transaction, rule seals_after_silent, rule silent_parts, rule seals_after_silent, rule silent.within_return,
        rule seals_after_silent, rule silent_parts, rule seals_if, rule seals_return,
        intro seals_after_quiet ends_logged_bind within_if quiet.within_return quiet_parts ends_logged_says)
  subgoal
    by (rule audits_transaction, rule seals_after_silent, rule silent_parts, rule seals_after_silent, rule silent.within_return,
        intro seals_after_quiet ends_logged_bind quiet_parts ends_logged_says)
  by (intro audits_transaction seals_after_quiet quiet.within_for_all_do quiet_parts ends_logged_says)+

end
