(* ===== verification/Admin_Demo.thy ===== *)
theory Admin_Demo
  imports Admin_Auditing
begin

text \<open>
  A concrete deployment of the admin plane, to evaluate the properties on: one administrator is set up from the
  command line, logs in by a signed challenge, and a second key is registered that has a minute to log in.
\<close>

definition alice_key :: string where
  "alice_key = ''alice''"

definition bob_key :: string where
  "bob_key = ''bob''"

text \<open>Stand-ins for the codec, the keyed hash and the signature check that are cheap to evaluate.\<close>

definition demo_hex :: "byte list \<Rightarrow> string" where
  "demo_hex bs = ''h''"

definition demo_unhex :: "string \<Rightarrow> byte list option" where
  "demo_unhex s = Some (replicate (if s = ''sig'' then 64 else 32) 0)"

definition demo_mac :: mac_lib where
  "demo_mac =
     \<lparr>hex_encode = demo_hex, hex_decode = demo_unhex, uuid_to_string = (\<lambda>u. replicate (unat u) (CHR ''x'')),
      rfc3339 = (\<lambda>t. []), json_to_string = (\<lambda>j. []), hmac_sha256 = (\<lambda>k m. [])\<rparr>"

definition alice_claims :: admin_access_claims where
  "alice_claims = \<lparr>xa_sub = alice_key, xa_aud = ADMIN_ACCESS_AUD, xa_scope = ADMIN_SCOPE, xa_jti = ''xxx'', xa_iat = 2, xa_exp = 902\<rparr>"

definition alice_refresh_claims :: admin_refresh_claims where
  "alice_refresh_claims = \<lparr>xf_sub = alice_key, xf_aud = ADMIN_REFRESH_AUD, xf_sid = ''xx'', xf_iat = 2, xf_exp = 28802\<rparr>"

definition operator_tokens :: admin_token_lib where
  "operator_tokens =
     \<lparr>hex_encode = demo_hex, hex_decode = demo_unhex,
      uuid_to_string = (\<lambda>u. replicate (unat u) (CHR ''x'')), rfc3339 = (\<lambda>t. []),
      encode_access = (\<lambda>c. None), encode_refresh = (\<lambda>c. None), decode_access = (\<lambda>v t. None),
      decode_refresh = (\<lambda>v t. None), parse_uuid = (\<lambda>s. Some (of_nat (length s))),
      encode_admin_access = (\<lambda>c. if c = alice_claims then Some ''acc'' else None),
      encode_admin_refresh = (\<lambda>c. if c = alice_refresh_claims then Some ''ref'' else None),
      decode_admin_access = (\<lambda>v t. if t = ''acc'' then Some alice_claims else None),
      decode_admin_refresh = (\<lambda>v t. if t = ''ref'' then Some alice_refresh_claims else None)\<rparr>"

definition demo_admin_event :: nip98_event where
  "demo_admin_event =
     \<lparr>ev_id = ''h'', ev_pubkey = alice_key, ev_created_at = 2, ev_kind = NIP98_KIND,
      ev_tags = [[''u'', ''http://a/admin/auth/verify''], [''method'', ''POST''], [''purpose'', ''admin_login''],
        [''challenge'', ''h''], [''payload'', ''h''],
        [''instance_id'', ''h'']],
      ev_content = [], ev_sig = ''sig''\<rparr>"

definition demo_admin_nostr :: nostr_lib where
  "demo_admin_nostr =
     \<lparr>hex_encode = demo_hex, hex_decode = demo_unhex, uuid_to_string = (\<lambda>u. []), rfc3339 = (\<lambda>t. []),
      b64_decode = (\<lambda>s. if s = ''tok'' then Some [1] else None),
      json_event = (\<lambda>raw. Some demo_admin_event), json_serial = (\<lambda>p c k t x. Some ''s''),
      sha256 = (\<lambda>s. []), sha256_bytes = (\<lambda>s. []),
      key_ok = (\<lambda>k. True), signature_ok = (\<lambda>s. True), verify_raw = (\<lambda>k m s. True)\<rparr>"

definition operator_env :: "i64 \<Rightarrow> admin_env" where
  "operator_env t =
     \<lparr>an_lib = demo_mac, an_tokens = operator_tokens, an_nostr = demo_admin_nostr, an_enabled = True,
      an_cfg = \<lparr>admin_public_url = ''http://a/'', key_integrity_secret = ''s'', max_keys = 4, pending_key_ttl_days = 1,
        admin_onion = None\<rparr>,
      an_refresh_pepper = ''p'', an_clock = seconds t, an_jwt_error = ''jwt''\<rparr>"

definition operator_draws :: "uuid \<Rightarrow> admin_draws" where
  "operator_draws n =
     \<lparr>adr_key = n, adr_session = 2, adr_jti = 3, adr_audit = n, adr_nonce = [10], adr_codes = (\<lambda>n. ''c'')\<rparr>"

abbreviation operator_serve :: "i64 \<Rightarrow> uuid \<Rightarrow> admin_request \<Rightarrow> database \<Rightarrow> database" where
  "operator_serve t n \<equiv> serve_admin (operator_env t) (operator_draws n)"

definition fresh_server :: database where
  "fresh_server = empty_database (seconds 2) (\<lambda>f. ''db'')"

definition set_up :: database where
  "set_up = operator_serve 0 1 (CliSetup alice_key) (operator_serve 0 1 Boot fresh_server)"

definition challenged :: database where
  "challenged = operator_serve 2 1 AdminChallenge set_up"

definition logged_in :: database where
  "logged_in = operator_serve 2 2 (AdminVerify ''ip'' ''Nostr tok'' ''h'') challenged"

definition two_keys :: database where
  "two_keys = operator_serve 2 3 (CliAddKey
     \<lparr>nak_pubkey = bob_key, nak_label = None, nak_scope = ''admin'', nak_created_by_kind = ''cli'',
      nak_activation_deadline = Some (seconds 60)\<rparr> (sample_entry ''admin_key_added'') 4) logged_in"

lemma operator_env_fields [simp]:
  "an_lib (operator_env t) = demo_mac" "integrity_secret (operator_env t) = ''s''"
  by (simp_all add: operator_env_def)

lemma login_accepted:
  "fst (admin_verify (operator_env 2) (operator_draws 2) ''ip'' ''Nostr tok'' ''h'' challenged) =
     Inr \<lparr>atr_access_token = ''acc'', atr_refresh_token = ''ref'', atr_expires_in = 900\<rparr>"
  by code_simp

lemma second_key_live: "map live_key (admin_keys two_keys) = [True, True]"
  by code_simp

lemma alice_revoked:
  "fst (admin_keys_revoke (operator_env 2) (operator_draws 4) (Some ''Bearer acc'') 1 two_keys) = Inr True"
  by code_simp

end
