(* ===== verification/Admin_Properties.thy ===== *)
theory Admin_Properties
  imports Admin_Demo
begin

text \<open>
  The guarantees of the admin plane over every sequence of its requests: the anchors of trust keep verifying, a
  change of authority is audited, a revoked administrator is out, a login is proved by a signature over a fresh
  challenge that it uses up, the bootstrap latch stays closed, and no network request removes the last key of the
  allowlist. The last section shows the limit of that floor: keys nobody can activate any more count towards it.
\<close>

section \<open>Reachable states\<close>

text \<open>Any requests, under one integrity secret, interleaved with whatever the rest of the service does to the other
  tables.\<close>

inductive admin_reachable :: "mac_lib \<Rightarrow> string \<Rightarrow> database \<Rightarrow> bool" for lib secret where
  start: "admin_audit_logs db = [] \<Longrightarrow> admin_keys db = [] \<Longrightarrow> server_config db = None \<Longrightarrow> admin_reachable lib secret db"
| request: "admin_reachable lib secret db \<Longrightarrow> an_lib env = lib \<Longrightarrow> integrity_secret env = secret \<Longrightarrow>
    admin_reachable lib secret (serve_admin env d r db)"
| elsewhere: "admin_reachable lib secret db \<Longrightarrow> anchors_kept db db' \<Longrightarrow> admin_reachable lib secret db'"

lemma reachable_trusted: "admin_reachable lib secret db \<Longrightarrow> trusted lib secret db"
proof (induction rule: admin_reachable.induct)
  case (start db)
  then show ?case by (simp add: trusted_def chain_ok_def walk_simps keys_ok_def latch_ok_def)
next
  case (request db env d r)
  then show ?case using serve_admin_trust [of env db d r] by (simp add: keeps_trust_def)
next
  case (elsewhere db db')
  then show ?case by (simp add: trusted_def anchors_kept_def)
qed

lemma live_key_unique:
  assumes "keys_ok lib secret keys" "k \<in> set keys" "live_key k"
  shows "fetch_optional (filter (\<lambda>x. ak_pubkey x = ak_pubkey k \<and> live_key x) keys) = Some k"
  using assms
proof (induction keys)
  case (Cons x xs)
  have "keys_ok lib secret xs" using Cons.prems(1) by (auto simp: keys_ok_def split: if_splits)
  with Cons show ?case by (cases "x = k") (auto simp: keys_ok_def)
qed simp


section \<open>Changes of authority are audited\<close>

definition acted :: "admin_env \<Rightarrow> database \<Rightarrow> string option \<Rightarrow> string \<Rightarrow> admin_audit_row \<Rightarrow> bool" where
  "acted env db header action row \<longleftrightarrow>
     aa_action row = action \<and>
     (case fst (admin_guard env header db) of
        Inl e \<Rightarrow> False
      | Inr ctx \<Rightarrow> aa_actor_pubkey_prefix row = Some (pubkey_prefix (ctx_pubkey ctx)))"

text \<open>What the audit row of a request must say: the action and the key that authenticated it.\<close>

fun row_tells :: "admin_env \<Rightarrow> database \<Rightarrow> admin_request \<Rightarrow> admin_audit_row \<Rightarrow> bool" where
  "row_tells env db (AdminVerify ip token challenge) row \<longleftrightarrow>
     aa_action row = ''admin_login'' \<and>
     (case admin_proof env token challenge of
        Inl e \<Rightarrow> False | Inr pk \<Rightarrow> aa_actor_pubkey_prefix row = Some (pubkey_prefix pk))"
| "row_tells env db (AdminKeysAdd header pk label) row \<longleftrightarrow> acted env db header ''admin_key_added'' row"
| "row_tells env db (AdminKeysRevoke header i) row \<longleftrightarrow> acted env db header ''admin_key_revoked'' row"
| "row_tells env db (AdminKeysRotate header i pk label) row \<longleftrightarrow> acted env db header ''admin_key_rotated'' row"
| "row_tells env db (AdminInvitesMint header n label) row \<longleftrightarrow> acted env db header ''invites_minted'' row"
| "row_tells env db (CliSetup pk) row \<longleftrightarrow> row_as_new row = bootstrap_audit pk"
| "row_tells env db (CliAddKey input e m) row \<longleftrightarrow> row_as_new row = e"
| "row_tells env db (CliRevokeKey i e) row \<longleftrightarrow> row_as_new row = e"
| "row_tells env db (CliCreateWallet input e m) row \<longleftrightarrow> row_as_new row = e"
| "row_tells env db r row \<longleftrightarrow> False"

lemma row_tells_fun:
  "row_tells env db (AdminKeysAdd header pk label) = acted env db header ''admin_key_added''"
  "row_tells env db (AdminKeysRevoke header i) = acted env db header ''admin_key_revoked''"
  "row_tells env db (AdminKeysRotate header i pk label) = acted env db header ''admin_key_rotated''"
  "row_tells env db (AdminInvitesMint header n label) = acted env db header ''invites_minted''"
  "row_tells env db (CliSetup pk) = row_says (bootstrap_audit pk)"
  "row_tells env db (CliAddKey input e m) = row_says e"
  "row_tells env db (CliRevokeKey i e) = row_says e"
  "row_tells env db (CliCreateWallet input e m) = row_says e"
  by (simp_all add: fun_eq_iff)

lemma silent_grants: "within silent m \<Longrightarrow> within ungranting m"
  by (erule within_mono) (simp add: silent_def ungranting_def)

lemma ungranting_record: "within ungranting (record_admin_audit lib now i e secret)"
  unfolding record_admin_audit_def append_admin_audit_def
  by (intro ungranting.within_transaction within_sql ungranting.refl)
     (auto simp: ungranting_def grants_def Let_def split: if_splits)

lemma ungranting_handlers:
  "within ungranting (admin_challenge env d)" "within ungranting (admin_refresh env d token)"
  "within ungranting (admin_logout env d header)" "within ungranting (reset_setup lib secret)"
  "within ungranting (boot_latch lib now secret)"
  unfolding admin_challenge_def admin_refresh_def admin_logout_def reset_setup_def boot_latch_def revoke_admin_session_def
  by (intro ungranting.within_rules within_intros silent_parts [THEN silent_grants] ungranting_record)+

lemma acted_entry:
  "fst (admin_guard env header db) = Inr ctx \<Longrightarrow>
     row_as_new row = admin_audit_entry action (ctx_pubkey ctx) target details ip \<Longrightarrow> acted env db header action row"
  by (simp add: acted_def row_as_new_def admin_audit_entry_def)

text \<open>A handler that starts with the guard: it is silent when the guard refuses.\<close>

lemma guarded_audits:
  assumes "\<And>ctx. fst (admin_guard env header db) = Inr ctx \<Longrightarrow> audits P (f ctx)"
  shows "silent db (snd (stmt_bind (admin_guard env header) f db)) \<or>
    logged P db (snd (stmt_bind (admin_guard env header) f db))"
proof (cases "admin_guard env header db")
  case (Pair r db1)
  with reads_at [OF reads_admin_guard Pair] assms show ?thesis
    by (cases r) (auto simp: stmt_bind_def within_def silent.refl)
qed

lemma audits_acted:
  "fst (admin_guard env header db) = Inr ctx \<Longrightarrow>
     audits (row_says (admin_audit_entry action (ctx_pubkey ctx) target details ip)) m \<Longrightarrow> audits (acted env db header action) m"
  by (erule audits_mono) (erule acted_entry)

lemma audited_handlers:
  "silent db (snd (admin_keys_add env d header pk label db)) \<or>
     logged (acted env db header ''admin_key_added'') db (snd (admin_keys_add env d header pk label db))"
  "silent db (snd (admin_keys_revoke env d header i db)) \<or>
     logged (acted env db header ''admin_key_revoked'') db (snd (admin_keys_revoke env d header i db))"
  "silent db (snd (admin_keys_rotate env d header i pk label db)) \<or>
     logged (acted env db header ''admin_key_rotated'') db (snd (admin_keys_rotate env d header i pk label db))"
  "silent db (snd (admin_invites_mint env d header n label db)) \<or>
     logged (acted env db header ''invites_minted'') db (snd (admin_invites_mint env d header n label db))"
  unfolding admin_keys_add_def admin_keys_revoke_def admin_keys_rotate_def admin_invites_mint_def Let_def
  subgoal
    by (rule guarded_audits, rule audits_after_silent, rule silent.within_return, rule audits_then_silent,
        erule audits_acted, rule audits_create, intro within_intros silent.within_rules)
  subgoal
    by (rule guarded_audits, rule audits_then_silent, erule audits_acted, rule audits_revoke,
        intro within_intros silent.within_rules)
  subgoal
    by (rule guarded_audits, rule audits_after_silent, rule silent.within_return, rule audits_then_silent,
        erule audits_acted, rule audits_revoke, intro within_intros silent.within_rules)
  by (rule guarded_audits, erule audits_acted, rule audits_create)

text \<open>The commands of the command-line tool.\<close>

lemma audited_commands:
  "silent db (snd (create_admin_key_audited lib now ids input e secret m db)) \<or>
     logged (row_says e) db (snd (create_admin_key_audited lib now ids input e secret m db))"
  "silent db (snd (create_admin_key_bootstrapping lib now ids input e secret m db)) \<or>
     logged (row_says e) db (snd (create_admin_key_bootstrapping lib now ids input e secret m db))"
  "silent db (snd (bootstrap_admin lib now ids pk secret db)) \<or>
     logged (row_says (bootstrap_audit pk)) db (snd (bootstrap_admin lib now ids pk secret db))"
  "silent db (snd (revoke_admin_key_full lib now aid i e secret b db)) \<or>
     logged (row_says e) db (snd (revoke_admin_key_full lib now aid i e secret b db))"
  by (rule audits_create [THEN withinD] audits_revoke [THEN withinD])+

lemma audited_login:
  "silent db (snd (admin_verify env d ip token challenge db)) \<or>
     logged (row_tells env db (AdminVerify ip token challenge)) db (snd (admin_verify env d ip token challenge db))"
proof (cases "admin_proof env token challenge")
  case (Inr pk)
  have tells: "row_tells env db (AdminVerify ip token challenge) row"
    if "row_says (admin_audit_entry ''admin_login'' pk None None (Some ip)) row" for row
    using that Inr by (auto simp: row_as_new_def admin_audit_entry_def)
  have "audits (row_tells env db (AdminVerify ip token challenge)) (admin_verify env d ip token challenge)"
    unfolding admin_verify_def Inr admit_key_def open_admin_session_def stmt_bind_return
    by (intro audits_after_silent audits_then_silent audits_mono [OF audits_create(4) tells] within_intros
          silent.within_rules silent_parts)
  then show ?thesis by (rule withinD)
next
  case (Inl e)
  then show ?thesis
    by (cases "admin_manager env") (simp_all add: admin_verify_def silent.refl)
qed

lemma changes_logged: "silent db db' \<or> logged P db db' \<Longrightarrow> ungranting db db' \<or> logged P db db'"
  by (auto simp: silent_def ungranting_def)


section \<open>Revocation\<close>

lemma get_key_Inr:
  "get_active_admin_key lib pk secret db = (Inr (Some k), db') \<Longrightarrow>
     k \<in> set (admin_keys db) \<and> ak_pubkey k = pk \<and> live_key k \<and> mac_valid lib secret k \<and> db' = db"
  by (auto simp: get_active_admin_key_def query_def option_filter_def dest!: fetch_filter_Some split: if_splits option.splits)

lemma authorized_key_Inr:
  "authorized_key env pk db = (Inr k, db') \<Longrightarrow>
     k \<in> set (admin_keys db) \<and> ak_pubkey k = pk \<and> live_key k \<and> ak_activated_at k \<noteq> None \<and> db' = db"
  by (auto simp: authorized_key_def stmt_bind_Inr option_filter_def ok_or_def require_some_def
      dest!: get_key_Inr split: option.splits if_splits)

lemma admin_guard_Inr:
  assumes "admin_guard env header db = (Inr ctx, db')"
  shows "\<exists>k \<in> set (admin_keys db). ak_pubkey k = ctx_pubkey ctx \<and> ak_id k = ctx_admin_key_id ctx \<and> live_key k \<and>
    ak_activated_at k \<noteq> None"
  using assms reads_at [OF reads_query]
  by (auto simp: admin_guard_def stmt_bind_Inr find_active_admin_session_by_jti_def query_def require_some_def
      split: prod.splits if_splits dest!: authorized_key_Inr)

lemma revoke_with_sessions_Some:
  assumes "revoke_with_sessions lib now i secret db = (Inr (Some k'), db')"
  shows "\<exists>k \<in> set (admin_keys db). ak_id k = i \<and> live_key k"
    and "admin_keys db' = sql_update (\<lambda>k. ak_id k = i \<and> live_key k) (set_key_revoked lib secret now) (admin_keys db)"
    and "admin_sessions db' = sql_update (\<lambda>s. as_admin_key_id s = i \<and> as_revoked_at s = None)
      (\<lambda>s. s\<lparr>as_revoked_at := Some (db_now db)\<rparr>) (admin_sessions db)"
    and "db_now db' = db_now db"
  using assms
  by (auto simp: revoke_with_sessions_def stmt_bind_Inr update_admin_keys_def sql_Inr revoke_admin_sessions_for_key_def
      close_admin_sessions_def Let_def split: option.splits dest!: fetch_returning_Some)

lemma revoke_full_Revoked:
  assumes "revoke_admin_key_full lib now aid i e secret b db = (Inr (Revoked k'), db')"
  shows "\<exists>k db1. revoke_with_sessions lib now i secret db = (Inr (Some k), db1) \<and>
    admin_keys db' = admin_keys db1 \<and> admin_sessions db' = admin_sessions db1 \<and>
    (b \<longrightarrow> length (filter live_key (admin_keys db)) \<ge> 2)"
proof -
  from assms have floor: "b \<longrightarrow> length (filter live_key (admin_keys db)) \<ge> 2"
    and "stmt_bind (revoke_with_sessions lib now i secret) (\<lambda>updated.
        case updated of
          None \<Rightarrow> stmt_return (Inr KeyNotFound)
        | Some k \<Rightarrow> stmt_bind (append_admin_audit lib now aid e secret) (\<lambda>x. stmt_return (Inr (Revoked k)))) db =
      (Inr (Revoked k'), db')"
    by (cases b; simp add: revoke_admin_key_full_def transaction_Inr stmt_bind_def live_key_count_def query_def
        split: if_splits)+
  then obtain r db1 where r: "revoke_with_sessions lib now i secret db = (Inr r, db1)"
    "(case r of
        None \<Rightarrow> stmt_return (Inr KeyNotFound)
      | Some k \<Rightarrow> stmt_bind (append_admin_audit lib now aid e secret) (\<lambda>x. stmt_return (Inr (Revoked k)))) db1 =
      (Inr (Revoked k'), db')"
    by (auto simp: stmt_bind_Inr)
  then obtain k where "r = Some k" by (cases r) auto
  with r floor show ?thesis by (auto simp: stmt_bind_Inr append_Inr)
qed

lemma admin_keys_revoke_Inr:
  assumes "admin_keys_revoke env d header i db = (Inr b, db')"
  shows "\<exists>e k'. revoke_admin_key_full (an_lib env) (an_clock env) (adr_audit d) i e (integrity_secret env) True db =
    (Inr (Revoked k'), db')"
proof -
  from assms obtain ctx db1 where g: "admin_guard env header db = (Inr ctx, db1)"
    by (auto simp: admin_keys_revoke_def stmt_bind_Inr)
  with reads_at [OF reads_admin_guard g] assms show ?thesis
    by (cases "revoke_admin_key_full (an_lib env) (an_clock env) (adr_audit d) i
        (admin_audit_entry ''admin_key_revoked'' (ctx_pubkey ctx) (Some (uuid_to_string (an_lib env) i)) None None)
        (integrity_secret env) True db")
       (auto simp: admin_keys_revoke_def stmt_bind_def split: sum.splits revoke_key_outcome.splits)
qed

lemma revoked_pubkey_gone:
  assumes "keys_ok lib secret keys" "k \<in> set keys" "ak_id k = i" "live_key k"
    and "x \<in> set (sql_update (\<lambda>k. ak_id k = i \<and> live_key k) (set_key_revoked lib secret now) keys)" "live_key x"
  shows "ak_pubkey x \<noteq> ak_pubkey k"
proof
  assume same: "ak_pubkey x = ak_pubkey k"
  from assms(5) have x: "x \<in> set keys" "ak_id x \<noteq> i"
    by (rule in_sql_update; use assms(6) in simp)+
  from live_key_unique [OF assms(1,2,4)] live_key_unique [OF assms(1) x(1) assms(6)] same have "x = k" by simp
  with x assms(3) show False by simp
qed

text \<open>C16. When an administrator's key is revoked over the network, its holder is out at once: no token whatever
  passes the guard as that public key and no refresh token of it buys a new access token, and every session
  of the key is closed.\<close>

theorem revoked_admin_is_out:
  assumes "admin_reachable (an_lib env) (integrity_secret env) db"
    and "admin_keys_revoke env d header i db = (Inr b, db')"
  shows "\<exists>k \<in> set (admin_keys db). ak_id k = i \<and> live_key k \<and>
    (\<forall>header' ctx. fst (admin_guard env header' db') = Inr ctx \<longrightarrow> ctx_pubkey ctx \<noteq> ak_pubkey k) \<and>
    (\<forall>d' token sid. verify_refresh (an_tokens env) token = Inr (ak_pubkey k, sid) \<longrightarrow>
       isl (fst (admin_refresh env d' token db'))) \<and>
    (\<forall>s \<in> set (admin_sessions db'). as_admin_key_id s = i \<longrightarrow> as_revoked_at s \<noteq> None)"
proof -
  from admin_keys_revoke_Inr [OF assms(2)] obtain e k' where
    r: "revoke_admin_key_full (an_lib env) (an_clock env) (adr_audit d) i e (integrity_secret env) True db =
      (Inr (Revoked k'), db')" by blast
  from revoke_full_Revoked [OF r] obtain k1 db1 where
    w: "revoke_with_sessions (an_lib env) (an_clock env) i (integrity_secret env) db = (Inr (Some k1), db1)"
      "admin_keys db' = admin_keys db1" "admin_sessions db' = admin_sessions db1" by blast
  note w' = revoke_with_sessions_Some [OF w(1)]
  from w'(1) obtain k where k: "k \<in> set (admin_keys db)" "ak_id k = i" "live_key k" by blast
  have ok: "keys_ok (an_lib env) (integrity_secret env) (admin_keys db)"
    using reachable_trusted [OF assms(1)] by (simp add: trusted_def)
  have gone: "ak_pubkey x \<noteq> ak_pubkey k" if "x \<in> set (admin_keys db')" "live_key x" for x
    using revoked_pubkey_gone [OF ok k] that w(2) w'(2) by simp
  have guard: "ctx_pubkey ctx \<noteq> ak_pubkey k" if "fst (admin_guard env header' db') = Inr ctx" for header' ctx
    using admin_guard_Inr [of env header' db' ctx "snd (admin_guard env header' db')"] that gone
    by (metis prod.collapse)
  have refresh: "isl (fst (admin_refresh env d' token db'))"
    if t: "verify_refresh (an_tokens env) token = Inr (ak_pubkey k, sid)" for d' token sid
  proof (rule ccontr)
    assume "\<not> isl (fst (admin_refresh env d' token db'))"
    then obtain y db2 where "admin_refresh env d' token db' = (Inr y, db2)"
      by (metis prod.collapse sum.collapse(2))
    then obtain key db3 where "authorized_key env (ak_pubkey k) db' = (Inr key, db3)"
      by (cases "admin_manager env"; cases "authorized_key env (ak_pubkey k) db'")
         (auto simp: admin_refresh_def stmt_bind_def t opaque_def split: sum.splits)
    from authorized_key_Inr [OF this] gone show False by blast
  qed
  have "as_revoked_at s \<noteq> None" if "s \<in> set (admin_sessions db')" "as_admin_key_id s = i" for s
    using that(1) unfolding w(3) w'(3) by (rule in_sql_update) (use that(2) in simp_all)
  with k guard refresh show ?thesis by blast
qed

section \<open>Login\<close>

lemma consumed:
  "consume_challenge nonce purpose db = (Inr (Some subject), db') \<Longrightarrow>
     list_ex (consumable (db_now db) nonce purpose) (challenges db) \<and>
     db' = db\<lparr>challenges := sql_delete (consumable (db_now db) nonce purpose) (challenges db)\<rparr>"
  by (auto simp: consume_challenge_def Let_def list_ex_iff dest!: fetch_filter_Some split: if_splits)

text \<open>What a login may touch besides the challenges: it deletes none and adds none, and the clock of the database stands.\<close>

definition challenges_kept :: "database \<Rightarrow> database \<Rightarrow> bool" where
  "challenges_kept db db' \<longleftrightarrow> challenges db' = challenges db \<and> db_now db' = db_now db"

interpretation ck: effect_bound challenges_kept
  by unfold_locales (auto simp: challenges_kept_def)

lemma ck_statements:
  "within challenges_kept (append_admin_audit lib now i e secret)" "within challenges_kept (create_admin_session s)"
  "within challenges_kept (update_admin_keys p u)" "within challenges_kept (touch_admin_key_last_used i)"
  unfolding append_admin_audit_def create_admin_session_def update_admin_keys_def touch_admin_key_last_used_def
  by (rule within_sql; auto simp: challenges_kept_def Let_def split: if_splits)+

lemma ck_login:
  "within challenges_kept (admit_key env key)" "within challenges_kept (open_admin_session env d ip pk i)"
  unfolding admit_key_def open_admin_session_def activate_admin_key_def create_admin_session_audited_def
  by (intro ck.within_rules within_intros ck_statements)+

lemma admin_verify_Inr:
  assumes "admin_verify env d ip token challenge db = (Inr resp, db')"
  shows "\<exists>pk k. verify_signed_action (an_nostr env) token (admin_login_action env challenge) (admin_now env)
      ADMIN_ACTION_MAX_AGE_SECS = Inr pk \<and>
    list_ex (consumable (db_now db) challenge ''admin_login'') (challenges db) \<and>
    k \<in> set (admin_keys db) \<and> ak_pubkey k = pk \<and> live_key k \<and> mac_valid (an_lib env) (integrity_secret env) k \<and>
    (ak_activated_at k = None \<longrightarrow> (\<forall>deadline. ak_activation_deadline k = Some deadline \<longrightarrow> an_clock env \<le> deadline)) \<and>
    challenges db' = sql_delete (consumable (db_now db) challenge ''admin_login'') (challenges db) \<and> db_now db' = db_now db"
proof -
  from assms obtain pk c db1 k db2 u db3 pair db4 u' where
    pk: "admin_proof env token challenge = Inr pk" and
    c: "consume_challenge challenge ''admin_login'' db = (Inr (Some c), db1)" and
    k: "get_active_admin_key (an_lib env) pk (integrity_secret env) db1 = (Inr (Some k), db2)" and
    a: "admit_key env k db2 = (Inr u, db3)" and
    o: "open_admin_session env d ip pk (ak_id k) db3 = (Inr pair, db4)" and
    t: "touch_admin_key_last_used (ak_id k) db4 = (Inr u', db')"
    by (auto simp: admin_verify_def stmt_bind_Inr require_some_def ok_or_def split: option.splits)
  note key = get_key_Inr [OF k]
  have "challenges_kept db1 db'"
    using withinE [OF ck_login(1) a] withinE [OF ck_login(2) o] withinE [OF ck_statements(4) t] key by (blast intro: ck.trans)
  moreover have "ak_activated_at k = None \<Longrightarrow> ak_activation_deadline k = Some deadline \<Longrightarrow> an_clock env \<le> deadline" for deadline
    using a by (auto simp: admit_key_def split: if_splits)
  moreover have "verify_signed_action (an_nostr env) token (admin_login_action env challenge) (admin_now env)
      ADMIN_ACTION_MAX_AGE_SECS = Inr pk"
    using pk by (auto simp: admin_proof_def split: sum.splits)
  ultimately show ?thesis using key consumed [OF c] by (auto simp: challenges_kept_def)
qed

text \<open>C17. An administrator logs in only with a signature, made by a registered key that is neither revoked nor past
  its activation deadline, over this server's login action and a challenge the server issued for it and that had
  not expired; and the challenge is used up: no later login with it succeeds, whoever signs.\<close>

theorem admin_login_proved_once:
  assumes "admin_verify env d ip token challenge db = (Inr resp, db')"
  shows "(\<exists>pk k. verify_signed_action (an_nostr env) token (admin_login_action env challenge) (admin_now env)
        ADMIN_ACTION_MAX_AGE_SECS = Inr pk \<and>
      list_ex (consumable (db_now db) challenge ''admin_login'') (challenges db) \<and>
      k \<in> set (admin_keys db) \<and> ak_pubkey k = pk \<and> live_key k \<and> mac_valid (an_lib env) (integrity_secret env) k \<and>
      (ak_activated_at k = None \<longrightarrow> (\<forall>deadline. ak_activation_deadline k = Some deadline \<longrightarrow> an_clock env \<le> deadline))) \<and>
    (\<forall>env' d' ip' token' t. db_now db \<le> t \<longrightarrow> isl (fst (admin_verify env' d' ip' token' challenge (db'\<lparr>db_now := t\<rparr>))))"
    (is "?proved \<and> ?once")
proof -
  note v = admin_verify_Inr [OF assms]
  have "isl (fst (admin_verify env' d' ip' token' challenge (db'\<lparr>db_now := t\<rparr>)))" if "db_now db \<le> t" for env' d' ip' token' t
  proof (rule ccontr)
    assume "\<not> isl (fst (admin_verify env' d' ip' token' challenge (db'\<lparr>db_now := t\<rparr>)))"
    then obtain y db2 where "admin_verify env' d' ip' token' challenge (db'\<lparr>db_now := t\<rparr>) = (Inr y, db2)"
      by (metis prod.collapse sum.collapse(2))
    from admin_verify_Inr [OF this] v that show False
      by (auto simp: list_ex_iff sql_delete_def consumable_def)
  qed
  then have ?once by simp
  moreover have ?proved using v by (elim exE conjE) (intro exI conjI)
  ultimately show ?thesis by (rule conjI [rotated])
qed

section \<open>The allowlist over the network\<close>

fun over_network :: "admin_request \<Rightarrow> bool" where
  "over_network (CliSetup pk) = False"
| "over_network (CliAddKey input e m) = False"
| "over_network (CliRevokeKey i e) = False"
| "over_network (CliCreateWallet input e m) = False"
| "over_network CliResetSetup = False"
| "over_network r = True"

definition live_kept :: "database \<Rightarrow> database \<Rightarrow> bool" where
  "live_kept db db' \<longleftrightarrow> (list_ex live_key (admin_keys db) \<longrightarrow> list_ex live_key (admin_keys db'))"

interpretation lk: effect_bound live_kept
  by unfold_locales (auto simp: live_kept_def)

lemma live_anchors: "within anchors_kept m \<Longrightarrow> within live_kept m"
  by (erule within_mono) (simp add: anchors_kept_def live_kept_def)

lemma live_update: "(\<And>k. live_key (u k) = live_key k) \<Longrightarrow> list_ex live_key (sql_update p u keys) = list_ex live_key keys"
  by (induction keys) (auto simp: sql_update_def)

lemma live_statements:
  "within live_kept (append_admin_audit lib now i e secret)"
  "within live_kept (map_err g (run_sql (add_key_row k)))"
  "within live_kept (update_admin_keys p (set_activated lib secret now))"
  "within live_kept (touch_admin_key_last_used i)"
  "within live_kept (init_server_config lib now secret b)"
  unfolding append_admin_audit_def update_admin_keys_def touch_admin_key_last_used_def init_server_config_def
  by (intro within_sql within_run_sql lk.refl;
      auto simp: live_kept_def Let_def add_key_row_def live_update live_key_def set_activated_def sealed_def split: if_splits)+

lemmas live_parts = live_statements anchors_statements [THEN live_anchors] reads_admin [THEN lk.within_reads]
  reads_admin_guard [THEN lk.within_reads] reads_authorized_key [THEN lk.within_reads]

lemma live_login: "within live_kept (admin_verify env d ip token challenge)"
  unfolding admin_verify_def admit_key_def open_admin_session_def activate_admin_key_def create_admin_session_audited_def
  by (intro lk.within_rules within_intros live_parts)

lemma live_handlers:
  "within live_kept (admin_challenge env d)" "within live_kept (admin_refresh env d token)"
  "within live_kept (admin_logout env d header)" "within live_kept (admin_keys_add env d header pk label)"
  "within live_kept (admin_invites_mint env d header n label)" "within live_kept (boot_latch lib now secret)"
  unfolding admin_challenge_def admin_refresh_def admin_logout_def admin_keys_add_def admin_invites_mint_def boot_latch_def
    Let_def revoke_admin_session_def record_admin_audit_def create_admin_key_audited_def insert_admin_key_def
    mint_invites_audited_def
  by (intro lk.within_rules within_intros live_parts)+

text \<open>One of two live keys survives the revocation of the other.\<close>

lemma one_survives:
  assumes "distinct (map ak_id keys)" "length (filter live_key keys) \<ge> 2"
  shows "list_ex live_key (sql_update (\<lambda>k. ak_id k = i \<and> live_key k) u keys)"
proof -
  from assms(2) obtain x y zs where f: "filter live_key keys = x # y # zs"
    by (cases "filter live_key keys" rule: remdups_adj.cases) auto
  have "distinct (map ak_id (filter live_key keys))" using assms(1) by (rule distinct_map_filter)
  with f have ids: "ak_id x \<noteq> ak_id y" by simp
  have xy: "z \<in> set keys \<and> live_key z" if "z = x \<or> z = y" for z
    using that arg_cong [OF f, of set] by auto
  with ids obtain z where "z \<in> set keys" "live_key z" "ak_id z \<noteq> i" by metis
  then show ?thesis by (force simp: list_ex_iff set_sql_update)
qed

lemma live_revoke:
  assumes "distinct (map ak_id (admin_keys db))"
  shows "live_kept db (snd (revoke_admin_key_full lib now aid i e secret True db))"
proof (cases "revoke_admin_key_full lib now aid i e secret True db")
  case (Pair r db')
  show ?thesis
  proof (cases "\<exists>k. r = Inr (Revoked k)")
    case True
    with Pair obtain k where "revoke_admin_key_full lib now aid i e secret True db = (Inr (Revoked k), db')" by blast
    from revoke_full_Revoked [OF this] revoke_with_sessions_Some(2) show ?thesis
      using one_survives [OF assms] Pair by (fastforce simp: live_kept_def)
  next
    case False
    with Pair have "db' = db"
      by (auto simp: revoke_admin_key_full_def transaction_def stmt_bind_def live_key_count_def query_def
          split: prod.splits sum.splits if_splits option.splits dest: revoke_none_silent)
    with Pair show ?thesis by (simp add: lk.refl)
  qed
qed

lemma live_guarded:
  assumes "\<And>ctx. live_kept db (snd (f ctx db))"
  shows "live_kept db (snd (stmt_bind (admin_guard env header) f db))"
proof (cases "admin_guard env header db")
  case (Pair r db1)
  with reads_at [OF reads_admin_guard Pair] assms show ?thesis
    by (cases r) (auto simp: stmt_bind_def lk.refl)
qed

lemma live_revoke_handler:
  assumes "distinct (map ak_id (admin_keys db))"
  shows "live_kept db (snd (admin_keys_revoke env d header i db))"
  unfolding admin_keys_revoke_def
  by (rule live_guarded, rule lk.bind_at, rule live_revoke [OF assms])
     (simp add: lk.refl split: revoke_key_outcome.splits)

lemma rotate_Inr:
  assumes "rotate_admin_key lib now ids i input e secret db = (Inr (Some k), db')"
  shows "k \<in> set (admin_keys db') \<and> live_key k"
  using assms
  by (auto simp: rotate_admin_key_def transaction_Inr stmt_bind_Inr append_Inr insert_admin_key_def run_sql_Inr add_key_row_def
      split: option.splits if_splits)

lemma live_rotate: "live_kept db (snd (rotate_admin_key lib now ids i input e secret db))"
proof (cases "rotate_admin_key lib now ids i input e secret db")
  case (Pair r db')
  show ?thesis
  proof (cases "\<exists>k. r = Inr (Some k)")
    case True
    with Pair rotate_Inr show ?thesis by (fastforce simp: live_kept_def list_ex_iff)
  next
    case False
    with Pair have "db' = db"
      by (auto simp: rotate_admin_key_def transaction_def stmt_bind_def
          split: prod.splits sum.splits option.splits dest: revoke_none_silent)
    with Pair show ?thesis by (simp add: lk.refl)
  qed
qed

lemma live_rotate_handler: "live_kept db (snd (admin_keys_rotate env d header i pk label db))"
  unfolding admin_keys_rotate_def Let_def
  by (rule live_guarded, rule lk.bind_at, simp add: lk.refl, rule lk.bind_at, simp add: live_rotate)
     (simp add: stmt_bind_def require_some_def lk.refl split: prod.split sum.split)

text \<open>C18. No request over the network removes the last key of the allowlist: if some key is not revoked before a
  request, some key is not revoked after it. Only the command line can empty the list.\<close>

theorem network_keeps_a_live_key:
  assumes "admin_reachable lib secret db" "over_network r" "list_ex live_key (admin_keys db)"
  shows "list_ex live_key (admin_keys (serve_admin env d r db))"
proof -
  have "distinct (map ak_id (admin_keys db))"
    using reachable_trusted [OF assms(1)] by (simp add: trusted_def keys_ok_def)
  then have "live_kept db (serve_admin env d r db)"
    using assms(2) by (cases r)
      (simp_all add: live_revoke_handler live_rotate_handler live_login [THEN withinD] live_handlers [THEN withinD])
  with assms(3) show ?thesis by (simp add: live_kept_def)
qed

section \<open>The bootstrap latch\<close>

definition latch_kept :: "'a mac_lib_scheme \<Rightarrow> string \<Rightarrow> database \<Rightarrow> database \<Rightarrow> bool" where
  "latch_kept lib secret db db' \<longleftrightarrow>
     (setup_state_of lib secret (server_config db) = Locked \<longrightarrow> setup_state_of lib secret (server_config db') = Locked)"

interpretation latch: effect_bound "latch_kept lib secret" for lib :: "'a mac_lib_scheme" and secret
  by unfold_locales (auto simp: latch_kept_def)

lemma latch_same: "server_config db' = server_config db \<Longrightarrow> latch_kept lib secret db db'"
  by (simp add: latch_kept_def)

lemma latch_anchors: "within anchors_kept m \<Longrightarrow> within (latch_kept lib secret) m"
  by (erule within_mono) (simp add: anchors_kept_def latch_kept_def)

lemma latch_statements:
  "within (latch_kept lib secret) (append_admin_audit lib' now i e secret')"
  "within (latch_kept lib secret) (map_err g (run_sql (add_key_row k)))"
  "within (latch_kept lib secret) (update_admin_keys p u)"
  "within (latch_kept lib secret) (touch_admin_key_last_used i)"
  "within (latch_kept lib secret) (set_latch lib secret ''locked'' c)"
  "within (latch_kept lib secret) (init_server_config lib now secret b)"
  unfolding append_admin_audit_def update_admin_keys_def touch_admin_key_last_used_def set_latch_def init_server_config_def
  by (intro within_sql within_run_sql latch.refl;
      auto simp: add_key_row_def Let_def latch_kept_def setup_state_of_def split: if_splits option.splits intro: latch_same;
      simp add: latch_row_def)+

lemmas latch_parts = latch_statements anchors_statements [THEN latch_anchors] reads_admin [THEN latch.within_reads]
  reads_admin_guard [THEN latch.within_reads] reads_authorized_key [THEN latch.within_reads]
  reads_query [THEN latch.within_reads]

lemma latch_operations:
  "within (latch_kept lib secret) (create_admin_key_audited lib' now ids input e secret' m)"
  "within (latch_kept lib secret) (create_admin_key_bootstrapping lib now ids input e secret m)"
  "within (latch_kept lib secret) (bootstrap_admin lib now ids pk secret)"
  "within (latch_kept lib secret) (boot_latch lib now secret)"
  "within (latch_kept lib secret) (revoke_with_sessions lib' now i secret')"
  unfolding create_admin_key_audited_def create_admin_key_bootstrapping_def bootstrap_admin_def boot_latch_def
    revoke_with_sessions_def insert_admin_key_def revoke_admin_sessions_for_key_def live_key_count_def
  by (intro latch.within_rules within_intros latch_parts)+

lemma latch_handlers:
  "within (latch_kept lib secret) (admin_challenge env d)" "within (latch_kept lib secret) (admin_refresh env d token)"
  "within (latch_kept lib secret) (admin_logout env d header)" "within (latch_kept lib secret) (admin_keys_add env d header pk label)"
  "within (latch_kept lib secret) (admin_invites_mint env d header n label)"
  "within (latch_kept lib secret) (admin_keys_revoke env d header i)"
  "within (latch_kept lib secret) (admin_keys_rotate env d header i pk label)"
  "within (latch_kept lib secret) (revoke_admin_key_full lib' now aid i e secret' b)"
  unfolding admin_challenge_def admin_refresh_def admin_logout_def admin_keys_add_def admin_invites_mint_def
    admin_keys_revoke_def admin_keys_rotate_def Let_def revoke_admin_session_def record_admin_audit_def insert_admin_key_def
    mint_invites_audited_def revoke_admin_key_full_def rotate_admin_key_def
  by (intro latch.within_rules within_intros latch_parts latch_operations)+

lemma latch_login: "within (latch_kept lib secret) (admin_verify env d ip token challenge)"
  unfolding admin_verify_def admit_key_def open_admin_session_def activate_admin_key_def create_admin_session_audited_def
  by (intro latch.within_rules within_intros latch_parts)

text \<open>The server is bootstrapped once: when the latch is locked it stays locked through every request, command
  and restart but the explicit reset, and while any key of the allowlist is not revoked the setup command changes
  nothing.\<close>

theorem bootstrap_once:
  assumes "setup_state_of (an_lib env) (integrity_secret env) (server_config db) = Locked" "r \<noteq> CliResetSetup"
  shows "setup_state_of (an_lib env) (integrity_secret env) (server_config (serve_admin env d r db)) = Locked \<and>
    (\<forall>pk. list_ex live_key (admin_keys db) \<longrightarrow> serve_admin env d (CliSetup pk) db = db)"
proof
  have "latch_kept (an_lib env) (integrity_secret env) db (serve_admin env d r db)"
    using assms(2) by (cases r)
      (simp_all add: latch_login [THEN withinD] latch_handlers [THEN withinD] latch_operations [THEN withinD])
  with assms(1) show "setup_state_of (an_lib env) (integrity_secret env) (server_config (serve_admin env d r db)) = Locked"
    by (simp add: latch_kept_def)
  show "\<forall>pk. list_ex live_key (admin_keys db) \<longrightarrow> serve_admin env d (CliSetup pk) db = db"
    by (simp add: bootstrap_admin_def transaction_def stmt_bind_def query_def ensure_def)
qed

section \<open>The limit of the floor\<close>

definition stranded :: database where
  "stranded = operator_serve 61 4 (AdminKeysRevoke (Some ''Bearer acc'') 1) two_keys"

lemma stranded_keys:
  "map (\<lambda>k. (live_key k, ak_activated_at k, ak_activation_deadline k)) (admin_keys stranded) =
     [(False, Some 0, None), (True, None, Some (seconds 60))]"
  by code_simp

lemma stranded_key:
  assumes "k \<in> set (admin_keys stranded)" "live_key k"
  shows "ak_activated_at k = None" "ak_activation_deadline k = Some (seconds 60)"
  using imageI [OF assms(1), of "\<lambda>k. (live_key k, ak_activated_at k, ak_activation_deadline k)"] assms(2)
    arg_cong [OF stranded_keys, of set] by auto

text \<open>The floor counts every key that is not revoked, also one that can never be used: an administrator whose
  only colleague let the activation deadline pass revokes the own key over the network, the request succeeds,
  and from then on nobody can log in or pass the guard, whatever is presented.\<close>

theorem last_usable_key_revocable:
  "fst (admin_keys_revoke (operator_env 61) (operator_draws 4) (Some ''Bearer acc'') 1 two_keys) = Inr True \<and>
   (\<forall>n d ip token challenge. isl (fst (admin_verify (operator_env (61 + int n)) d ip token challenge stranded))) \<and>
   (\<forall>n header. isl (fst (admin_guard (operator_env (61 + int n)) header stranded)))"
proof (intro conjI allI)
  show "fst (admin_keys_revoke (operator_env 61) (operator_draws 4) (Some ''Bearer acc'') 1 two_keys) = Inr True"
    by code_simp
next
  fix n d ip token challenge
  have "admin_verify (operator_env (61 + int n)) d ip token challenge stranded \<noteq> (Inr resp, db')" for resp db'
  proof
    assume "admin_verify (operator_env (61 + int n)) d ip token challenge stranded = (Inr resp, db')"
    from admin_verify_Inr [OF this] obtain k where
      "k \<in> set (admin_keys stranded)" "live_key k"
      "ak_activated_at k = None \<longrightarrow> (\<forall>t. ak_activation_deadline k = Some t \<longrightarrow> seconds (61 + int n) \<le> t)"
      by (auto simp: operator_env_def)
    with stranded_key [of k] show False by (simp add: seconds_def)
  qed
  then show "isl (fst (admin_verify (operator_env (61 + int n)) d ip token challenge stranded))"
    by (metis prod.collapse sum.collapse(2))
next
  fix n header
  have "admin_guard (operator_env (61 + int n)) header stranded \<noteq> (Inr ctx, db')" for ctx db'
    using admin_guard_Inr [of "operator_env (61 + int n)" header stranded ctx db'] stranded_key(1) by auto
  then show "isl (fst (admin_guard (operator_env (61 + int n)) header stranded))"
    by (metis prod.collapse sum.collapse(2))
qed

section \<open>Witnesses\<close>

lemma operator_reachable:
  "admin_reachable demo_mac ''s'' db \<Longrightarrow> admin_reachable demo_mac ''s'' (operator_serve t n r db)"
  by (rule admin_reachable.request) simp_all

lemma demo_reachable:
  "admin_reachable demo_mac ''s'' set_up" "admin_reachable demo_mac ''s'' logged_in" "admin_reachable demo_mac ''s'' two_keys"
proof -
  have "admin_reachable demo_mac ''s'' fresh_server" by (rule admin_reachable.start) (simp_all add: fresh_server_def)
  then show s: "admin_reachable demo_mac ''s'' set_up" unfolding set_up_def by (intro operator_reachable)
  then show "admin_reachable demo_mac ''s'' logged_in" unfolding logged_in_def challenged_def by (intro operator_reachable)
  then show "admin_reachable demo_mac ''s'' two_keys" unfolding two_keys_def by (intro operator_reachable)
qed



theorem revoked_admin_is_out_witness:
  "\<exists>k \<in> set (admin_keys two_keys). ak_id k = 1 \<and> live_key k \<and>
    (\<forall>header' ctx. fst (admin_guard (operator_env 61) header' stranded) = Inr ctx \<longrightarrow> ctx_pubkey ctx \<noteq> ak_pubkey k)"
proof -
  have "fst (admin_keys_revoke (operator_env 61) (operator_draws 4) (Some ''Bearer acc'') 1 two_keys) = Inr True"
    by code_simp
  then have "admin_keys_revoke (operator_env 61) (operator_draws 4) (Some ''Bearer acc'') 1 two_keys = (Inr True, stranded)"
    by (simp add: stranded_def prod_eq_iff)
  from revoked_admin_is_out [OF _ this] demo_reachable(3) show ?thesis by auto
qed

theorem admin_login_proved_once_witness:
  "fst (admin_verify (operator_env 2) (operator_draws 2) ''ip'' ''Nostr tok'' ''h'' challenged) =
     Inr \<lparr>atr_access_token = ''acc'', atr_refresh_token = ''ref'', atr_expires_in = 900\<rparr> \<and>
   isl (fst (admin_verify (operator_env 3) (operator_draws 3) ''ip'' ''Nostr tok'' ''h'' (logged_in\<lparr>db_now := seconds 3\<rparr>)))"
proof -
  have v: "admin_verify (operator_env 2) (operator_draws 2) ''ip'' ''Nostr tok'' ''h'' challenged =
      (Inr \<lparr>atr_access_token = ''acc'', atr_refresh_token = ''ref'', atr_expires_in = 900\<rparr>, logged_in)"
    using login_accepted by (simp add: logged_in_def prod_eq_iff)
  have "db_now challenged = seconds 2" by code_simp
  with admin_login_proved_once [OF v] login_accepted show ?thesis by (simp add: seconds_def)
qed

theorem network_keeps_a_live_key_witness: "list_ex live_key (admin_keys stranded)"
  unfolding stranded_def
proof (rule network_keeps_a_live_key [OF demo_reachable(3)])
  show "over_network (AdminKeysRevoke (Some ''Bearer acc'') 1)" by simp
  show "list_ex live_key (admin_keys two_keys)" by code_simp
qed

theorem bootstrap_once_witness:
  "setup_state_of demo_mac ''s'' (server_config (operator_serve 9 9 Boot set_up)) = Locked \<and>
   operator_serve 9 9 (CliSetup bob_key) set_up = set_up"
proof -
  have "setup_state_of demo_mac ''s'' (server_config set_up) = Locked" "list_ex live_key (admin_keys set_up)" by code_simp+
  with bootstrap_once [of "operator_env 9" set_up Boot "operator_draws 9"] show ?thesis by simp
qed

end
