(* ===== verification/Slatepack_Relay.thy ===== *)
theory Slatepack_Relay
  imports Accounts_Db Auth_Session
begin

text \<open>
  The Grin slatepack relay: \<open>src/src/infra/db/grin_slatepacks.rs\<close> and \<open>src/src/api/wallet/grin_relay.rs\<close>. A relay
  entry is a mailbox for one interactive transfer: the sender creates it, the recipient responds, the sender
  records the broadcast. Every transition is one guarded \<open>UPDATE\<close> by primary key, on which the interface
  \<open>one_shot_update\<close> is interpreted; the abstract contract of an entry is the automaton \<open>relay_allowed\<close>.

  The arguments \<open>now\<close> are \<open>Utc::now()\<close> of the process, \<open>i\<close> the key the database draws.
\<close>

section \<open>Statements\<close>

record new_grin_slatepack =
  ngs_slate_id :: string
  ngs_sender_user_id :: uuid
  ngs_recipient_user_id :: "uuid option"
  ngs_recipient_address :: "string option"
  ngs_slatepack_content :: string
  ngs_amount_nanogrin :: i64
  ngs_expires_at :: timestamp

definition new_slatepack_row :: "timestamp \<Rightarrow> uuid \<Rightarrow> new_grin_slatepack \<Rightarrow> slatepack_row" where
  "new_slatepack_row now i n =
     \<lparr>sp_id = i, sp_slate_id = ngs_slate_id n, sp_sender_user_id = ngs_sender_user_id n,
      sp_recipient_user_id = ngs_recipient_user_id n, sp_recipient_address = ngs_recipient_address n,
      sp_slatepack_content = ngs_slatepack_content n, sp_amount_nanogrin = ngs_amount_nanogrin n,
      sp_status = PendingRecipient, sp_response_slatepack = None, sp_created_at = now, sp_updated_at = now,
      sp_expires_at = ngs_expires_at n, sp_finalized_at = None, sp_tx_hash = None\<rparr>"

definition create_grin_slatepack :: "uuid \<Rightarrow> new_grin_slatepack \<Rightarrow> slatepack_row stmt" where
  "create_grin_slatepack i n =
     map_err (unique_violation_as ''a relay for this slate_id already exists'') (run_sql (\<lambda>db.
       let row = new_slatepack_row (db_now db) i n in
       if i \<in> set (map sp_id (grin_slatepacks db)) then Inl (UniqueViolation ''grin_slatepacks_pkey'')
       else if ngs_slate_id n \<in> set (map sp_slate_id (grin_slatepacks db))
       then Inl (UniqueViolation ''grin_slatepacks_slate_id_key'')
       else if ngs_sender_user_id n \<notin> set (user_ids db) \<or> \<not> user_ref_ok db (ngs_recipient_user_id n)
       then Inl ConstraintViolation
       else Inr (row, db\<lparr>grin_slatepacks := grin_slatepacks db @ [row]\<rparr>)))"

definition get_slatepack_by_slate_id :: "string \<Rightarrow> slatepack_row option stmt" where
  "get_slatepack_by_slate_id slate_id =
     query (\<lambda>db. fetch_optional (filter (\<lambda>s. sp_slate_id s = slate_id) (grin_slatepacks db)))"

definition get_slatepack_by_id :: "uuid \<Rightarrow> slatepack_row option stmt" where
  "get_slatepack_by_id i = query (\<lambda>db. fetch_optional (filter (\<lambda>s. sp_id s = i) (grin_slatepacks db)))"

definition get_pending_slatepacks_for_user :: "uuid \<Rightarrow> slatepack_row list stmt" where
  "get_pending_slatepacks_for_user u =
     query (\<lambda>db. order_desc sp_created_at (filter
       (\<lambda>s. sp_recipient_user_id s = Some u \<and> sp_status s = PendingRecipient \<and> sp_expires_at s > db_now db)
       (grin_slatepacks db)))"

definition update_slatepack ::
    "uuid \<Rightarrow> (slatepack_row \<Rightarrow> bool) \<Rightarrow> (slatepack_row \<Rightarrow> slatepack_row) \<Rightarrow> slatepack_row option stmt" where
  "update_slatepack i g u =
     sql (\<lambda>db. Inr (fetch_optional (sql_returning (\<lambda>s. sp_id s = i \<and> g s) u (grin_slatepacks db)),
       db\<lparr>grin_slatepacks := sql_update (\<lambda>s. sp_id s = i \<and> g s) u (grin_slatepacks db)\<rparr>))"

definition awaits_response :: "timestamp \<Rightarrow> slatepack_row \<Rightarrow> bool" where
  "awaits_response now s \<longleftrightarrow> sp_status s = PendingRecipient \<and> sp_expires_at s > now"

definition set_response :: "timestamp \<Rightarrow> string \<Rightarrow> slatepack_row \<Rightarrow> slatepack_row" where
  "set_response now response s =
     s\<lparr>sp_response_slatepack := Some response, sp_status := PendingSender, sp_updated_at := now\<rparr>"

definition awaits_finalization :: "timestamp \<Rightarrow> slatepack_row \<Rightarrow> bool" where
  "awaits_finalization now s \<longleftrightarrow> sp_status s = PendingSender \<and> sp_expires_at s > now"

definition set_finalized :: "timestamp \<Rightarrow> string \<Rightarrow> slatepack_row \<Rightarrow> slatepack_row" where
  "set_finalized now tx_hash s =
     s\<lparr>sp_status := Finalized, sp_tx_hash := Some tx_hash, sp_finalized_at := Some now, sp_updated_at := now\<rparr>"

definition relay_active :: "slatepack_row \<Rightarrow> bool" where
  "relay_active s \<longleftrightarrow> sp_status s = PendingRecipient \<or> sp_status s = PendingSender"

definition set_relay_status :: "timestamp \<Rightarrow> slatepack_status \<Rightarrow> slatepack_row \<Rightarrow> slatepack_row" where
  "set_relay_status now st s = s\<lparr>sp_status := st, sp_updated_at := now\<rparr>"

definition add_slatepack_response :: "uuid \<Rightarrow> string \<Rightarrow> slatepack_row option stmt" where
  "add_slatepack_response i response db =
     update_slatepack i (awaits_response (db_now db)) (set_response (db_now db) response) db"

definition finalize_slatepack :: "uuid \<Rightarrow> string \<Rightarrow> slatepack_row option stmt" where
  "finalize_slatepack i tx_hash db =
     update_slatepack i (awaits_finalization (db_now db)) (set_finalized (db_now db) tx_hash) db"

definition cancel_slatepack :: "uuid \<Rightarrow> slatepack_row option stmt" where
  "cancel_slatepack i db = update_slatepack i relay_active (set_relay_status (db_now db) SlateCancelled) db"

definition expire_old_slatepacks :: "nat stmt" where
  "expire_old_slatepacks =
     sql (\<lambda>db.
       let p = (\<lambda>s. relay_active s \<and> sp_expires_at s < db_now db) in
       Inr (length (filter p (grin_slatepacks db)),
            db\<lparr>grin_slatepacks := sql_update p (set_relay_status (db_now db) SlateExpired) (grin_slatepacks db)\<rparr>))"

interpretation responding: one_shot_update sp_id "awaits_response now" "set_response now response" for now response
  by unfold_locales (simp_all add: set_response_def awaits_response_def)

interpretation finalizing: one_shot_update sp_id "awaits_finalization now" "set_finalized now tx_hash" for now tx_hash
  by unfold_locales (simp_all add: set_finalized_def awaits_finalization_def)

interpretation cancelling: one_shot_update sp_id relay_active "set_relay_status now SlateCancelled" for now
  by unfold_locales (simp_all add: set_relay_status_def relay_active_def)

section \<open>Handlers\<close>

definition MAX_SLATEPACK_LEN :: nat where
  "MAX_SLATEPACK_LEN = 64 * 1024"

definition RELAY_TTL_DAYS :: i64 where
  "RELAY_TTL_DAYS = 7"

definition relay_ensure_enabled :: "bool \<Rightarrow> unit result" where
  "relay_ensure_enabled grin_relay = ensure grin_relay (NotFound ''grin relay is not enabled on this server'')"

datatype party = Sender | Recipient | Either

fun party_ok :: "party \<Rightarrow> uuid \<Rightarrow> slatepack_row \<Rightarrow> bool" where
  "party_ok Sender u s \<longleftrightarrow> sp_sender_user_id s = u"
| "party_ok Recipient u s \<longleftrightarrow> sp_recipient_user_id s = Some u"
| "party_ok Either u s \<longleftrightarrow> sp_sender_user_id s = u \<or> sp_recipient_user_id s = Some u"

definition relay_not_found :: app_error where
  "relay_not_found = NotFound ''relay not found''"

definition fetch_authorized :: "string \<Rightarrow> uuid \<Rightarrow> party \<Rightarrow> slatepack_row stmt" where
  "fetch_authorized slate_id user_id party =
     stmt_bind (get_slatepack_by_slate_id slate_id) (\<lambda>found.
     stmt_bind (require_some relay_not_found found) (\<lambda>row.
       if party_ok party user_id row then stmt_return (Inr row) else stmt_return (Inl relay_not_found)))"

fun status_str :: "slatepack_status \<Rightarrow> string" where
  "status_str PendingRecipient = ''pending_recipient''"
| "status_str PendingSender = ''pending_sender''"
| "status_str Finalized = ''finalized''"
| "status_str SlateExpired = ''expired''"
| "status_str SlateCancelled = ''cancelled''"

record relay_entry =
  re_slate_id :: string
  re_sender_user_id :: string
  re_recipient_user_id :: "string option"
  re_slatepack_content :: string
  re_response_slatepack :: "string option"
  re_amount_nanogrin :: i64
  re_status :: string
  re_created_at :: string
  re_expires_at :: string
  re_finalized_at :: "string option"
  re_tx_hash :: "string option"

definition relay_entry_of :: "token_lib \<Rightarrow> slatepack_row \<Rightarrow> relay_entry" where
  "relay_entry_of lib s =
     \<lparr>re_slate_id = sp_slate_id s, re_sender_user_id = uuid_to_string lib (sp_sender_user_id s),
      re_recipient_user_id = map_option (uuid_to_string lib) (sp_recipient_user_id s),
      re_slatepack_content = sp_slatepack_content s, re_response_slatepack = sp_response_slatepack s,
      re_amount_nanogrin = sp_amount_nanogrin s, re_status = status_str (sp_status s),
      re_created_at = rfc3339 lib (sp_created_at s), re_expires_at = rfc3339 lib (sp_expires_at s),
      re_finalized_at = map_option (rfc3339 lib) (sp_finalized_at s), re_tx_hash = sp_tx_hash s\<rparr>"

definition validate_slate_id :: "token_lib \<Rightarrow> string \<Rightarrow> unit result" where
  "validate_slate_id lib slate_id =
     ensure (parse_uuid lib slate_id \<noteq> None) (ValidationError ''slate_id must be a valid UUID'')"

definition validate_slatepack :: "string \<Rightarrow> string \<Rightarrow> unit result" where
  "validate_slatepack value field =
     ensure (value \<noteq> [] \<and> length value \<le> MAX_SLATEPACK_LEN) (ValidationError (field @ '' has invalid length''))"

record create_relay_request =
  crr_recipient_user_id :: uuid
  crr_slate_id :: string
  crr_slatepack :: string
  crr_amount_nanogrin :: i64

text \<open>Every handler authenticates first and then checks that the feature is on.\<close>

definition relay_authed :: "token_lib \<Rightarrow> bool \<Rightarrow> string option \<Rightarrow> (uuid \<Rightarrow> 'a stmt) \<Rightarrow> 'a stmt" where
  "relay_authed lib grin_relay header f =
     stmt_bind (extract_user_id_from_token lib header) (\<lambda>user_id.
     stmt_bind (stmt_return (relay_ensure_enabled grin_relay)) (\<lambda>x. f user_id))"

definition relay_create ::
    "token_lib \<Rightarrow> bool \<Rightarrow> timestamp \<Rightarrow> uuid \<Rightarrow> string option \<Rightarrow> create_relay_request \<Rightarrow> relay_entry stmt" where
  "relay_create lib on now i header req =
     relay_authed lib on header (\<lambda>user_id.
     stmt_bind (stmt_return (validate_slate_id lib (crr_slate_id req))) (\<lambda>x.
     stmt_bind (stmt_return (validate_slatepack (crr_slatepack req) ''slatepack'')) (\<lambda>x.
     stmt_bind (stmt_return (ensure (\<not> crr_amount_nanogrin req < 0)
         (ValidationError ''amount_nanogrin must be non-negative''))) (\<lambda>x.
     stmt_bind (get_user_by_id (crr_recipient_user_id req)) (\<lambda>found.
     stmt_bind (require_some (ValidationError ''recipient is not a registered user'') found) (\<lambda>recipient.
     stmt_bind (create_grin_slatepack i
         \<lparr>ngs_slate_id = crr_slate_id req, ngs_sender_user_id = user_id, ngs_recipient_user_id = Some (u_id recipient),
          ngs_recipient_address = None, ngs_slatepack_content = crr_slatepack req,
          ngs_amount_nanogrin = crr_amount_nanogrin req,
          ngs_expires_at = now + seconds (RELAY_TTL_DAYS * 86400)\<rparr>) (\<lambda>row.
       stmt_return (Inr (relay_entry_of lib row)))))))))"

definition relay_pending :: "token_lib \<Rightarrow> bool \<Rightarrow> string option \<Rightarrow> relay_entry list stmt" where
  "relay_pending lib on header =
     relay_authed lib on header (\<lambda>user_id.
     stmt_bind (get_pending_slatepacks_for_user user_id) (\<lambda>rows.
       stmt_return (Inr (map (relay_entry_of lib) rows))))"

definition get_relay :: "token_lib \<Rightarrow> bool \<Rightarrow> string option \<Rightarrow> string \<Rightarrow> relay_entry stmt" where
  "get_relay lib on header slate_id =
     relay_authed lib on header (\<lambda>user_id.
     stmt_bind (fetch_authorized slate_id user_id Either) (\<lambda>row.
       stmt_return (Inr (relay_entry_of lib row))))"

definition relay_respond :: "token_lib \<Rightarrow> bool \<Rightarrow> string option \<Rightarrow> string \<Rightarrow> string \<Rightarrow> relay_entry stmt" where
  "relay_respond lib on header slate_id response =
     relay_authed lib on header (\<lambda>user_id.
     stmt_bind (stmt_return (validate_slatepack response ''response_slatepack'')) (\<lambda>x.
     stmt_bind (fetch_authorized slate_id user_id Recipient) (\<lambda>row.
     stmt_bind (add_slatepack_response (sp_id row) response) (\<lambda>updated.
     stmt_bind (require_some (Conflict ''relay is not awaiting a recipient response (or has expired)'') updated) (\<lambda>s.
       stmt_return (Inr (relay_entry_of lib s)))))))"

definition relay_finalize :: "token_lib \<Rightarrow> bool \<Rightarrow> string option \<Rightarrow> string \<Rightarrow> string \<Rightarrow> relay_entry stmt" where
  "relay_finalize lib on header slate_id tx_hash =
     relay_authed lib on header (\<lambda>user_id.
     stmt_bind (stmt_return (ensure (tx_hash \<noteq> [] \<and> length tx_hash \<le> 128) (ValidationError ''tx_hash has invalid length''))) (\<lambda>x.
     stmt_bind (fetch_authorized slate_id user_id Sender) (\<lambda>row.
     stmt_bind (finalize_slatepack (sp_id row) tx_hash) (\<lambda>updated.
     stmt_bind (require_some (Conflict ''relay is not awaiting finalization (or has expired)'') updated) (\<lambda>s.
       stmt_return (Inr (relay_entry_of lib s)))))))"

definition relay_cancel :: "token_lib \<Rightarrow> bool \<Rightarrow> string option \<Rightarrow> string \<Rightarrow> relay_entry stmt" where
  "relay_cancel lib on header slate_id =
     relay_authed lib on header (\<lambda>user_id.
     stmt_bind (fetch_authorized slate_id user_id Either) (\<lambda>row.
     stmt_bind (cancel_slatepack (sp_id row)) (\<lambda>updated.
     stmt_bind (require_some (Conflict ''relay can no longer be cancelled (already finalized or cancelled)'') updated) (\<lambda>s.
       stmt_return (Inr (relay_entry_of lib s))))))"

end
