(* ===== verification/Slatepack_Properties.thy ===== *)
theory Slatepack_Properties
  imports Slatepack_Relay
begin

text \<open>
  The contract of the slatepack relay and that the handlers implement it. The abstract specification of an entry is
  \<open>relay_allowed\<close>: who may move it from which status to which, before or after which time, and what the step
  writes; \<open>relay_reachable\<close> are the tables any sequence of requests, expiry sweeps and account deletions reaches.
\<close>

section \<open>The contract\<close>

definition relay_terms :: "slatepack_row \<Rightarrow> uuid \<times> string \<times> uuid \<times> uuid option \<times> string \<times> i64 \<times> timestamp \<times> timestamp" where
  "relay_terms s =
     (sp_id s, sp_slate_id s, sp_sender_user_id s, sp_recipient_user_id s, sp_slatepack_content s, sp_amount_nanogrin s,
      sp_created_at s, sp_expires_at s)"

definition relay_record :: "slatepack_row \<Rightarrow> string option \<times> string option \<times> timestamp option" where
  "relay_record s = (sp_response_slatepack s, sp_tx_hash s, sp_finalized_at s)"

text \<open>\<open>None\<close> is the housekeeping of the server.\<close>

fun relay_allowed :: "uuid option \<Rightarrow> timestamp \<Rightarrow> slatepack_row \<Rightarrow> slatepack_row \<Rightarrow> bool" where
  "relay_allowed actor now s s' \<longleftrightarrow>
     relay_terms s' = relay_terms s \<and> sp_updated_at s' = now \<and>
     (case (sp_status s, sp_status s') of
        (PendingRecipient, PendingSender) \<Rightarrow>
          actor \<noteq> None \<and> actor = sp_recipient_user_id s \<and> now < sp_expires_at s \<and>
          (case sp_response_slatepack s' of None \<Rightarrow> False | Some t \<Rightarrow> t \<noteq> [] \<and> length t \<le> MAX_SLATEPACK_LEN) \<and>
          sp_tx_hash s' = sp_tx_hash s \<and> sp_finalized_at s' = sp_finalized_at s
      | (PendingSender, Finalized) \<Rightarrow>
          actor = Some (sp_sender_user_id s) \<and> now < sp_expires_at s \<and>
          sp_response_slatepack s' = sp_response_slatepack s \<and> sp_finalized_at s' = Some now \<and>
          (case sp_tx_hash s' of None \<Rightarrow> False | Some t \<Rightarrow> t \<noteq> [] \<and> length t \<le> 128)
      | (st, SlateCancelled) \<Rightarrow>
          st \<in> {PendingRecipient, PendingSender} \<and> relay_record s' = relay_record s \<and>
          actor \<noteq> None \<and> (actor = Some (sp_sender_user_id s) \<or> actor = sp_recipient_user_id s)
      | (st, SlateExpired) \<Rightarrow>
          st \<in> {PendingRecipient, PendingSender} \<and> relay_record s' = relay_record s \<and> actor = None \<and> sp_expires_at s < now
      | _ \<Rightarrow> False)"

definition entry_ok :: "slatepack_row \<Rightarrow> bool" where
  "entry_ok s \<longleftrightarrow>
     0 \<le> sp_amount_nanogrin s \<and> sp_slatepack_content s \<noteq> [] \<and> length (sp_slatepack_content s) \<le> MAX_SLATEPACK_LEN \<and>
     (case sp_status s of
        PendingRecipient \<Rightarrow> relay_record s = (None, None, None)
      | PendingSender \<Rightarrow> sp_response_slatepack s \<noteq> None \<and> sp_tx_hash s = None \<and> sp_finalized_at s = None
      | Finalized \<Rightarrow> sp_response_slatepack s \<noteq> None \<and> sp_tx_hash s \<noteq> None \<and> sp_finalized_at s \<noteq> None
      | SlateExpired \<Rightarrow> sp_tx_hash s = None
      | SlateCancelled \<Rightarrow> sp_tx_hash s = None)"

definition relay_table_ok :: "slatepack_row list \<Rightarrow> bool" where
  "relay_table_ok rows \<longleftrightarrow> distinct (map sp_id rows) \<and> distinct (map sp_slate_id rows) \<and> list_all entry_ok rows"

section \<open>Requests\<close>

datatype relay_request =
    RelayCreate uuid "string option" create_relay_request
  | RelayPending "string option"
  | RelayGet "string option" string
  | RelayRespond "string option" string string
  | RelayFinalize "string option" string string
  | RelayCancel "string option" string
  | RelayExpire

fun serve_relay :: "token_lib \<Rightarrow> bool \<Rightarrow> timestamp \<Rightarrow> relay_request \<Rightarrow> database \<Rightarrow> database" where
  "serve_relay lib on now (RelayCreate i header req) db = snd (relay_create lib on now i header req db)"
| "serve_relay lib on now (RelayPending header) db = snd (relay_pending lib on header db)"
| "serve_relay lib on now (RelayGet header slate_id) db = snd (get_relay lib on header slate_id db)"
| "serve_relay lib on now (RelayRespond header slate_id response) db = snd (relay_respond lib on header slate_id response db)"
| "serve_relay lib on now (RelayFinalize header slate_id tx_hash) db = snd (relay_finalize lib on header slate_id tx_hash db)"
| "serve_relay lib on now (RelayCancel header slate_id) db = snd (relay_cancel lib on header slate_id db)"
| "serve_relay lib on now RelayExpire db = snd (expire_old_slatepacks db)"

definition caller :: "token_lib \<Rightarrow> string option \<Rightarrow> database \<Rightarrow> uuid option" where
  "caller lib header db = (case fst (extract_user_id_from_token lib header db) of Inl e \<Rightarrow> None | Inr u \<Rightarrow> Some u)"

fun relay_actor :: "token_lib \<Rightarrow> relay_request \<Rightarrow> database \<Rightarrow> uuid option" where
  "relay_actor lib (RelayCreate i header req) db = caller lib header db"
| "relay_actor lib (RelayPending header) db = caller lib header db"
| "relay_actor lib (RelayGet header slate_id) db = caller lib header db"
| "relay_actor lib (RelayRespond header slate_id t) db = caller lib header db"
| "relay_actor lib (RelayFinalize header slate_id t) db = caller lib header db"
| "relay_actor lib (RelayCancel header slate_id) db = caller lib header db"
| "relay_actor lib RelayExpire db = None"

lemma relay_authed_cases:
  obtains e where "relay_authed lib on header f db = (Inl e, db)"
  | u where "caller lib header db = Some u" "on" "relay_authed lib on header f db = f u db"
proof (cases "extract_user_id_from_token lib header db")
  case (Pair r db1)
  then have "db1 = db" using snd_extract_user_id [of lib header db] by simp
  with Pair that show thesis
    by (cases r; cases on) (auto simp: relay_authed_def stmt_bind_def relay_ensure_enabled_def caller_def)
qed

lemma fetch_authorized_cases:
  obtains e where "fetch_authorized slate_id u p db = (Inl e, db)"
  | s where "s \<in> set (grin_slatepacks db)" "sp_slate_id s = slate_id" "party_ok p u s"
      "fetch_authorized slate_id u p db = (Inr s, db)"
proof (cases "filter (\<lambda>s. sp_slate_id s = slate_id) (grin_slatepacks db)")
  case Nil
  with that(1) show thesis by (cases "db_outage db") (simp_all add: fetch_authorized_def stmt_bind_def get_slatepack_by_slate_id_def query_def)
next
  case (Cons s rest)
  then have "s \<in> set (grin_slatepacks db)" "sp_slate_id s = slate_id" by (auto simp: filter_eq_Cons_iff)
  with Cons that show thesis
    by (cases "db_outage db"; cases "party_ok p u s")
       (simp_all add: fetch_authorized_def stmt_bind_def get_slatepack_by_slate_id_def query_def)
qed

lemma relay_authed_snd:
  assumes "P db" "\<And>u. caller lib header db = Some u \<Longrightarrow> P (snd (f u db))"
  shows "P (snd (relay_authed lib on header f db))"
  using assms by (cases rule: relay_authed_cases [of lib on header f db]) auto

lemma checked_snd:
  assumes "P db" "b \<Longrightarrow> P (snd (f () db))"
  shows "P (snd (stmt_bind (stmt_return (ensure b e)) f db))"
  using assms by (cases b) simp_all

section \<open>Steps of the table\<close>

definition relay_step :: "uuid option \<Rightarrow> timestamp \<Rightarrow> slatepack_row list \<Rightarrow> slatepack_row list \<Rightarrow> bool" where
  "relay_step actor now rows rows' \<longleftrightarrow>
     (\<exists>f. rows' = map f rows \<and> (\<forall>s \<in> set rows. f s = s \<or> relay_allowed actor now s (f s))) \<or>
     (\<exists>row. rows' = rows @ [row] \<and> sp_id row \<notin> sp_id ` set rows \<and> sp_slate_id row \<notin> sp_slate_id ` set rows \<and>
        entry_ok row \<and> sp_status row = PendingRecipient \<and> actor = Some (sp_sender_user_id row))"

lemma relay_step_refl: "relay_step actor now rows rows"
  unfolding relay_step_def by (intro disjI1 exI [of _ id]) simp

lemma relay_allowed_terms: "relay_allowed actor now s s' \<Longrightarrow> relay_terms s' = relay_terms s"
  by simp

lemma relay_allowed_ok: "relay_allowed actor now s s' \<Longrightarrow> entry_ok s \<Longrightarrow> entry_ok s'"
  by (cases "sp_status s"; cases "sp_status s'")
     (auto simp: entry_ok_def relay_record_def relay_terms_def split: option.splits)

lemma relay_step_ok: "relay_step actor now rows rows' \<Longrightarrow> relay_table_ok rows \<Longrightarrow> relay_table_ok rows'"
proof (unfold relay_step_def, elim disjE exE conjE)
  fix f
  assume f: "rows' = map f rows" "\<forall>s \<in> set rows. f s = s \<or> relay_allowed actor now s (f s)" and ok: "relay_table_ok rows"
  have t: "relay_terms (f s) = relay_terms s" if "s \<in> set rows" for s using f(2) that relay_allowed_terms by metis
  then have "map sp_id rows' = map sp_id rows" "map sp_slate_id rows' = map sp_slate_id rows"
    by (auto simp: f(1) relay_terms_def)
  moreover have "list_all entry_ok rows'"
    using ok f relay_allowed_ok by (auto simp: relay_table_ok_def list_all_iff)
  ultimately show ?thesis using ok by (simp add: relay_table_ok_def)
qed (auto simp: relay_table_ok_def)

text \<open>An update by primary key of an entry that was looked up: the other rows stay.\<close>

lemma update_slatepack_step:
  assumes "distinct (map sp_id (grin_slatepacks db))" "s \<in> set (grin_slatepacks db)" "sp_id s = i"
    and "g s \<Longrightarrow> relay_allowed actor now s (u s)"
  shows "relay_step actor now (grin_slatepacks db) (grin_slatepacks (snd (update_slatepack i g u db)))"
proof (cases "db_outage db")
  case True
  then show ?thesis by (simp add: update_slatepack_def sql_def map_err_def run_sql_def relay_step_refl)
next
  case False
  let ?f = "\<lambda>s. if sp_id s = i \<and> g s then u s else s"
  have "?f x = x \<or> relay_allowed actor now x (?f x)" if "x \<in> set (grin_slatepacks db)" for x
    using that assms distinct_map [of sp_id "grin_slatepacks db"] by (auto dest: inj_onD)
  with False show ?thesis
    unfolding relay_step_def
    by (intro disjI1 exI [of _ ?f]) (simp add: update_slatepack_def sql_def map_err_def run_sql_def sql_update_def)
qed

text \<open>The shape of the three handlers that move an entry.\<close>

lemma moving_handler:
  assumes ok: "relay_table_ok (grin_slatepacks db)"
    and step: "\<And>s. party_ok p u s \<Longrightarrow> g s \<Longrightarrow> relay_allowed (Some u) (db_now db) s (w s)"
    and upd: "\<And>i. m i db = update_slatepack i g w db"
  shows "relay_step (Some u) (db_now db) (grin_slatepacks db)
    (grin_slatepacks (snd (stmt_bind (fetch_authorized slate_id u p) (\<lambda>row. stmt_bind (m (sp_id row)) (\<lambda>updated.
       stmt_bind (require_some e updated) (\<lambda>s. stmt_return (Inr (h s))))) db)))"
proof -
  have d: "distinct (map sp_id (grin_slatepacks db))"
    using ok by (simp add: relay_table_ok_def)
  show ?thesis
  proof (rule fetch_authorized_cases [of slate_id u p db])
    fix s
    assume s: "s \<in> set (grin_slatepacks db)" "party_ok p u s" "fetch_authorized slate_id u p db = (Inr s, db)"
    have "snd (stmt_bind (m (sp_id s)) (\<lambda>updated. stmt_bind (require_some e updated) (\<lambda>s. stmt_return (Inr (h s)))) db) =
        snd (update_slatepack (sp_id s) g w db)"
      by (simp add: stmt_bind_def upd require_some_def split: prod.split sum.split)
    moreover have "relay_step (Some u) (db_now db) (grin_slatepacks db)
        (grin_slatepacks (snd (update_slatepack (sp_id s) g w db)))"
      using s step by (intro update_slatepack_step [OF d s(1)]) auto
    ultimately show ?thesis by (simp add: stmt_bind_def s(3))
  qed (simp add: stmt_bind_def relay_step_refl)
qed

lemmas relay_writes = set_response_def set_finalized_def set_relay_status_def awaits_response_def awaits_finalization_def
  relay_active_def relay_terms_def relay_record_def

lemma step_respond:
  assumes "relay_table_ok (grin_slatepacks db)"
  shows "relay_step (caller lib header db) (db_now db) (grin_slatepacks db)
    (grin_slatepacks (snd (relay_respond lib on header slate_id response db)))"
  unfolding relay_respond_def validate_slatepack_def
  by (rule relay_authed_snd, simp add: relay_step_refl, rule checked_snd, simp add: relay_step_refl, simp only:,
      rule moving_handler [OF assms, where m = "\<lambda>i. add_slatepack_response i response" and g = "awaits_response (db_now db)" and w = "set_response (db_now db) response"])
      (auto simp: relay_writes add_slatepack_response_def)

lemma step_finalize:
  assumes "relay_table_ok (grin_slatepacks db)"
  shows "relay_step (caller lib header db) (db_now db) (grin_slatepacks db)
    (grin_slatepacks (snd (relay_finalize lib on header slate_id tx_hash db)))"
  unfolding relay_finalize_def
  by (rule relay_authed_snd, simp add: relay_step_refl, rule checked_snd, simp add: relay_step_refl, simp only:,
      rule moving_handler [OF assms, where m = "\<lambda>i. finalize_slatepack i tx_hash" and g = "awaits_finalization (db_now db)" and w = "set_finalized (db_now db) tx_hash"])
      (auto simp: relay_writes finalize_slatepack_def)

lemma step_cancel:
  assumes "relay_table_ok (grin_slatepacks db)"
  shows "relay_step (caller lib header db) (db_now db) (grin_slatepacks db)
    (grin_slatepacks (snd (relay_cancel lib on header slate_id db)))"
  unfolding relay_cancel_def
  by (rule relay_authed_snd, simp add: relay_step_refl, simp only:,
      rule moving_handler [OF assms, where m = "cancel_slatepack" and g = "relay_active" and w = "set_relay_status (db_now db) SlateCancelled"])
      (auto simp: relay_writes cancel_slatepack_def split: slatepack_status.split)

lemma step_expire:
  "relay_step None (db_now db) (grin_slatepacks db) (grin_slatepacks (snd (expire_old_slatepacks db)))"
proof (cases "db_outage db")
  case True
  then show ?thesis by (simp add: expire_old_slatepacks_def sql_def map_err_def run_sql_def relay_step_refl)
next
  case False
  let ?f = "\<lambda>s. if relay_active s \<and> sp_expires_at s < db_now db then set_relay_status (db_now db) SlateExpired s else s"
  from False show ?thesis
    unfolding relay_step_def
    by (intro disjI1 exI [of _ ?f])
       (auto simp: expire_old_slatepacks_def sql_def map_err_def run_sql_def sql_update_def Let_def relay_writes)
qed

lemma snd_then_return: "snd (stmt_bind m (\<lambda>x. stmt_return (Inr (f x))) db) = snd (m db)"
  by (simp add: stmt_bind_def split: prod.split sum.split)

lemma step_insert:
  assumes "ngs_slatepack_content n \<noteq> []" "length (ngs_slatepack_content n) \<le> MAX_SLATEPACK_LEN" "0 \<le> ngs_amount_nanogrin n"
  shows "relay_step (Some (ngs_sender_user_id n)) (db_now db) (grin_slatepacks db)
    (grin_slatepacks (snd (create_grin_slatepack i n db)))"
proof (cases "create_grin_slatepack i n db")
  case (Pair r db')
  show ?thesis
  proof (cases r)
    case (Inl e)
    with Pair have "db' = db"
      by (auto simp: create_grin_slatepack_def map_err_def run_sql_def Let_def split: if_splits)
    with Pair show ?thesis by (simp add: relay_step_refl)
  next
    case (Inr row)
    with Pair have row: "row = new_slatepack_row (db_now db) i n" "grin_slatepacks db' = grin_slatepacks db @ [row]"
      "i \<notin> sp_id ` set (grin_slatepacks db)" "ngs_slate_id n \<notin> sp_slate_id ` set (grin_slatepacks db)"
      by (auto simp: create_grin_slatepack_def run_sql_Inr Let_def split: if_splits)
    then show ?thesis using assms Pair unfolding relay_step_def
      by (intro disjI2 exI [of _ row]) (simp add: new_slatepack_row_def entry_ok_def relay_record_def)
  qed
qed

lemma reads_get_user: "reads (get_user_by_id i)"
  unfolding get_user_by_id_def select_user_def by (rule reads_query)

lemma step_create:
  "relay_step (caller lib header db) (db_now db) (grin_slatepacks db)
    (grin_slatepacks (snd (relay_create lib on now i header req db)))"
  unfolding relay_create_def validate_slate_id_def validate_slatepack_def
proof (rule relay_authed_snd, simp add: relay_step_refl, rule checked_snd, simp add: relay_step_refl,
    rule checked_snd, simp add: relay_step_refl, rule checked_snd, simp add: relay_step_refl)
  fix u
  assume u: "caller lib header db = Some u" and v: "crr_slatepack req \<noteq> [] \<and> length (crr_slatepack req) \<le> MAX_SLATEPACK_LEN"
    "\<not> crr_amount_nanogrin req < 0"
  let ?n = "\<lambda>r. \<lparr>ngs_slate_id = crr_slate_id req, ngs_sender_user_id = u, ngs_recipient_user_id = Some (u_id r),
      ngs_recipient_address = None, ngs_slatepack_content = crr_slatepack req, ngs_amount_nanogrin = crr_amount_nanogrin req,
      ngs_expires_at = now + seconds (RELAY_TTL_DAYS * 86400)\<rparr>"
  show "relay_step (caller lib header db) (db_now db) (grin_slatepacks db) (grin_slatepacks (snd (stmt_bind
      (get_user_by_id (crr_recipient_user_id req)) (\<lambda>found. stmt_bind (require_some (ValidationError ''recipient is not a registered user'') found)
      (\<lambda>recipient. stmt_bind (create_grin_slatepack i (?n recipient)) (\<lambda>row. stmt_return (Inr (relay_entry_of lib row))))) db)))"
  proof (cases "get_user_by_id (crr_recipient_user_id req) db")
    case (Pair found db1)
    with reads_at [OF reads_get_user Pair] have g: "get_user_by_id (crr_recipient_user_id req) db = (found, db)" by simp
    show ?thesis
    proof (cases "\<exists>r. found = Inr (Some r)")
      case True
      then obtain r where r: "found = Inr (Some r)" ..
      from step_insert [of "?n r" db i] v u g r show ?thesis
        by (simp add: stmt_bind_at(1) [of "get_user_by_id (crr_recipient_user_id req)" db "Some r" db] snd_then_return require_some_def ok_or_def)
    next
      case False
      with g show ?thesis
        by (cases found) (auto simp: stmt_bind_def require_some_def ok_or_def relay_step_refl split: option.splits)
    qed
  qed
qed

lemma snd_fetch_authorized [simp]: "snd (fetch_authorized slate_id u p db) = db"
  by (rule fetch_authorized_cases [of slate_id u p db]) simp_all

lemma relay_reads:
  "snd (relay_pending lib on header db) = db" "snd (get_relay lib on header slate_id db) = db"
  unfolding relay_pending_def get_relay_def
  by (rule relay_authed_snd [where P = "\<lambda>db'. db' = db"];
      simp add: snd_then_return get_pending_slatepacks_for_user_def)+

lemma entry_ok_erased [simp]: "entry_ok (s\<lparr>sp_recipient_user_id := x\<rparr>) = entry_ok s"
  by (simp add: entry_ok_def relay_record_def split: slatepack_status.split)

lemma entry_okD:
  assumes "entry_ok s"
  shows "0 \<le> sp_amount_nanogrin s" "sp_status s = PendingSender \<Longrightarrow> sp_response_slatepack s \<noteq> None"
    "sp_status s = Finalized \<longleftrightarrow> sp_tx_hash s \<noteq> None"
    "sp_status s = Finalized \<Longrightarrow> sp_response_slatepack s \<noteq> None \<and> sp_finalized_at s \<noteq> None"
  using assms by (cases "sp_status s"; simp add: entry_ok_def relay_record_def)+

lemma serve_relay_step:
  assumes "relay_table_ok (grin_slatepacks db)"
  shows "relay_step (relay_actor lib r db) (db_now db) (grin_slatepacks db) (grin_slatepacks (serve_relay lib on now r db))"
  using assms by (cases r) (simp_all add: step_create step_respond step_finalize step_cancel step_expire relay_reads relay_step_refl)

inductive relay_reachable :: "database \<Rightarrow> bool" where
  start: "grin_slatepacks db = [] \<Longrightarrow> relay_reachable db"
| request: "relay_reachable db \<Longrightarrow> relay_reachable (serve_relay lib on now r db)"
| erased: "relay_reachable db \<Longrightarrow>
    grin_slatepacks db' = sql_update (\<lambda>s. sp_recipient_user_id s = Some u) (sp_recipient_user_id_update (\<lambda>x. None))
      (sql_delete (\<lambda>s. sp_sender_user_id s = u) (grin_slatepacks db)) \<Longrightarrow> relay_reachable db'"
| elsewhere: "relay_reachable db \<Longrightarrow> grin_slatepacks db' = grin_slatepacks db \<Longrightarrow> relay_reachable db'"

lemma reachable_table: "relay_reachable db \<Longrightarrow> relay_table_ok (grin_slatepacks db)"
proof (induction rule: relay_reachable.induct)
  case (start db)
  then show ?case by (simp add: relay_table_ok_def)
next
  case (request db lib on now r)
  then show ?case using relay_step_ok serve_relay_step by blast
next
  case (erased db db' u)
  have "map sp_id (grin_slatepacks db') = map sp_id (sql_delete (\<lambda>s. sp_sender_user_id s = u) (grin_slatepacks db))"
    "map sp_slate_id (grin_slatepacks db') = map sp_slate_id (sql_delete (\<lambda>s. sp_sender_user_id s = u) (grin_slatepacks db))"
    using erased(2) by (simp_all add: sql_update_def)
  moreover have "list_all entry_ok (grin_slatepacks db')"
    using erased by (auto simp: relay_table_ok_def list_all_iff set_sql_update sql_delete_def)
  ultimately show ?case using erased(3) by (simp add: relay_table_ok_def sql_delete_def distinct_map_filter)
next
  case (elsewhere db db')
  then show ?case by simp
qed

section \<open>Properties\<close>

text \<open>C28. The relay follows its protocol: whatever request is served in a reachable state, an entry that is not
  created by it either stays as it is or makes one step of the contract on behalf of the authenticated caller: only
  the recipient responds, only the sender records the broadcast, both only before the expiry, a party cancels, only
  the sweep expires and only after the expiry; parties, content and amount never change and no entry vanishes.\<close>

theorem relay_follows_protocol:
  assumes "relay_reachable db" "s \<in> set (grin_slatepacks db)"
  shows "\<exists>s' \<in> set (grin_slatepacks (serve_relay lib on now r db)).
    s' = s \<or> relay_allowed (relay_actor lib r db) (db_now db) s s'"
  using serve_relay_step [OF reachable_table [OF assms(1)], of lib r on now] assms(2)
  by (auto simp: relay_step_def simp del: relay_allowed.simps)

text \<open>In every reachable state slate identifiers and keys are unique and what an entry records fits its status:
  an entry awaits the sender only with a response, is finalized only with a response, a transaction and its time,
  and no other entry has a transaction.\<close>

theorem relay_entries_consistent:
  assumes "relay_reachable db"
  shows "distinct (map sp_id (grin_slatepacks db)) \<and> distinct (map sp_slate_id (grin_slatepacks db)) \<and>
    (\<forall>s \<in> set (grin_slatepacks db). 0 \<le> sp_amount_nanogrin s \<and>
       (sp_status s = PendingSender \<longrightarrow> sp_response_slatepack s \<noteq> None) \<and>
       (sp_status s = Finalized \<longleftrightarrow> sp_tx_hash s \<noteq> None) \<and>
       (sp_status s = Finalized \<longrightarrow> sp_response_slatepack s \<noteq> None \<and> sp_finalized_at s \<noteq> None))"
  using reachable_table [OF assms]
  by (simp add: relay_table_ok_def list_all_iff entry_okD)

section \<open>Strangers\<close>

abbreviation without_slate :: "string \<Rightarrow> database \<Rightarrow> database" where
  "without_slate slate_id db \<equiv> db\<lparr>grin_slatepacks := sql_delete (\<lambda>s. sp_slate_id s = slate_id) (grin_slatepacks db)\<rparr>"

lemma extract_other_table:
  "fst (extract_user_id_from_token lib header (db\<lparr>grin_slatepacks := rows\<rparr>)) = fst (extract_user_id_from_token lib header db)"
proof (cases "bearer_token header")
  case (Inr t)
  then show ?thesis
    by (cases "verify_access_token lib t")
       (simp_all add: extract_user_id_from_token_def stmt_bind_def is_session_live_def query_def sql_error_def split: option.split)
qed (simp add: extract_user_id_from_token_def)

lemma fetch_stranger:
  assumes "\<forall>s \<in> set (grin_slatepacks db). sp_slate_id s = slate_id \<longrightarrow> \<not> party_ok Either u s"
  shows "fetch_authorized slate_id u p db =
    (Inl (if db_outage db then sql_error db ConnectionFault else relay_not_found), db)"
proof -
  have no: "\<not> party_ok p u s" if "s \<in> set (grin_slatepacks db)" "sp_slate_id s = slate_id" for s
    using assms that by (cases p) auto
  show ?thesis
    using no by (cases "filter (\<lambda>s. sp_slate_id s = slate_id) (grin_slatepacks db)")
      (auto simp: fetch_authorized_def stmt_bind_def get_slatepack_by_slate_id_def query_def filter_eq_Cons_iff)
qed

lemma authed_same:
  assumes "\<And>u. caller lib header db = Some u \<Longrightarrow> f u db = (Inl (e u), db) \<and> f u (without_slate slate_id db) = (Inl (e u), without_slate slate_id db)"
  shows "snd (relay_authed lib on header f db) = db \<and>
    fst (relay_authed lib on header f db) = fst (relay_authed lib on header f (without_slate slate_id db))"
proof -
  have "extract_user_id_from_token lib header db = (fst (extract_user_id_from_token lib header db), db)"
    "extract_user_id_from_token lib header (without_slate slate_id db) =
      (fst (extract_user_id_from_token lib header db), without_slate slate_id db)"
    using extract_other_table by (simp_all add: prod_eq_iff)
  with assms show ?thesis
    by (cases "fst (extract_user_id_from_token lib header db)"; cases on)
       (simp_all add: relay_authed_def stmt_bind_def relay_ensure_enabled_def caller_def)
qed


section \<open>A completed exchange\<close>

lemma fetch_at:
  assumes "relay_table_ok (grin_slatepacks db)" "s \<in> set (grin_slatepacks db)" "\<not> db_outage db" "party_ok p u s"
  shows "fetch_authorized (sp_slate_id s) u p db = (Inr s, db)"
  using unique_row [of sp_slate_id "grin_slatepacks db" s "\<lambda>x. True"] assms
  by (simp add: fetch_authorized_def stmt_bind_def get_slatepack_by_slate_id_def query_def relay_table_ok_def)

lemma update_at:
  assumes "relay_table_ok (grin_slatepacks db)" "s \<in> set (grin_slatepacks db)" "\<not> db_outage db" "g s"
  shows "\<exists>rows. update_slatepack (sp_id s) g w db = (Inr (Some (w s)), db\<lparr>grin_slatepacks := rows\<rparr>) \<and> w s \<in> set rows"
  using unique_row [of sp_id "grin_slatepacks db" s g] assms
  by (auto simp: update_slatepack_def sql_def map_err_def run_sql_def sql_returning_def relay_table_ok_def set_sql_update
      fetch_optional_map intro!: exI image_eqI [of _ _ s])

lemma authed_at:
  assumes "caller lib h db = Some u"
  shows "relay_authed lib True h f db = f u db"
proof (cases "extract_user_id_from_token lib h db")
  case (Pair r db1)
  then have "db1 = db" using snd_extract_user_id [of lib h db] by simp
  with Pair assms show ?thesis
    by (auto simp: relay_authed_def caller_def stmt_bind_def relay_ensure_enabled_def split: sum.splits)
qed

text \<open>C30. An exchange runs to its end: while an entry awaits its recipient and has not expired, the recipient's
  response is accepted, the sender then reads exactly that response, and the sender's report of the transaction
  finalizes the entry.\<close>

theorem relay_exchange_completes:
  assumes ok: "relay_reachable db" and up: "\<not> db_outage db"
    and s: "s \<in> set (grin_slatepacks db)" "sp_status s = PendingRecipient" "db_now db < sp_expires_at s"
    and who: "caller lib hs db = Some (sp_sender_user_id s)" "caller lib hr db = sp_recipient_user_id s"
      "sp_recipient_user_id s \<noteq> None"
    and fit: "t \<noteq> []" "length t \<le> MAX_SLATEPACK_LEN" "x \<noteq> []" "length x \<le> 128"
  shows "(\<exists>e. fst (relay_respond lib True hr (sp_slate_id s) t db) = Inr e) \<and>
    (\<exists>e. fst (get_relay lib True hs (sp_slate_id s) (snd (relay_respond lib True hr (sp_slate_id s) t db))) = Inr e \<and>
       re_response_slatepack e = Some t) \<and>
    (\<exists>e. fst (relay_finalize lib True hs (sp_slate_id s) x (snd (relay_respond lib True hr (sp_slate_id s) t db))) = Inr e \<and>
       re_status e = ''finalized'' \<and> re_tx_hash e = Some x)"
proof -
  let ?s1 = "set_response (db_now db) t s"
  note table = reachable_table [OF ok]
  from who(3) obtain r where r: "sp_recipient_user_id s = Some r" by blast
  from update_at [OF table s(1) up, of "awaits_response (db_now db)" "set_response (db_now db) t"] s obtain rows where
    u: "update_slatepack (sp_id s) (awaits_response (db_now db)) (set_response (db_now db) t) db =
      (Inr (Some ?s1), db\<lparr>grin_slatepacks := rows\<rparr>)" "?s1 \<in> set rows"
    by (auto simp: awaits_response_def)
  let ?db1 = "db\<lparr>grin_slatepacks := rows\<rparr>"
  have respond: "relay_respond lib True hr (sp_slate_id s) t db = (Inr (relay_entry_of lib ?s1), ?db1)"
    using fit r who(2) u fetch_at [OF table s(1) up, of Recipient r]
    by (simp add: relay_respond_def authed_at validate_slatepack_def stmt_bind_def add_slatepack_response_def)
  have table1: "relay_table_ok (grin_slatepacks ?db1)"
    using relay_step_ok [OF step_respond [OF table, of lib hr True "sp_slate_id s" t] table] respond by simp
  have s1: "sp_slate_id ?s1 = sp_slate_id s" "sp_sender_user_id ?s1 = sp_sender_user_id s" "sp_id ?s1 = sp_id s"
    by (simp_all add: set_response_def)
  have hs: "caller lib hs ?db1 = Some (sp_sender_user_id s)" using who(1) by (simp add: caller_def extract_other_table)
  have fetch: "fetch_authorized (sp_slate_id s) (sp_sender_user_id s) p ?db1 = (Inr ?s1, ?db1)"
    if "p = Sender \<or> p = Either" for p
    using fetch_at [OF table1, of ?s1 p "sp_sender_user_id s"] u(2) up s1 that by auto
  have read: "fst (get_relay lib True hs (sp_slate_id s) ?db1) = Inr (relay_entry_of lib ?s1)"
    using fetch [of Either] by (simp add: get_relay_def authed_at [OF hs] stmt_bind_def)
  let ?s2 = "set_finalized (db_now db) x ?s1"
  have "awaits_finalization (db_now db) ?s1" using s(3) by (simp add: awaits_finalization_def set_response_def)
  with update_at [OF table1, of ?s1 "awaits_finalization (db_now db)" "set_finalized (db_now db) x"] u(2) up s1
  obtain rows' where "update_slatepack (sp_id s) (awaits_finalization (db_now db)) (set_finalized (db_now db) x) ?db1 =
      (Inr (Some ?s2), ?db1\<lparr>grin_slatepacks := rows'\<rparr>)" by auto
  then have "fst (relay_finalize lib True hs (sp_slate_id s) x ?db1) = Inr (relay_entry_of lib ?s2)"
    using fit fetch [of Sender] s1
    by (simp add: relay_finalize_def authed_at [OF hs] stmt_bind_def finalize_slatepack_def)
  with respond read show ?thesis by (simp add: relay_entry_of_def set_response_def set_finalized_def)
qed

section \<open>Witnesses\<close>

definition mailbox_lib :: token_lib where
  "mailbox_lib =
     \<lparr>hex_encode = hex_encode_ref, hex_decode = hex_decode_ref,
      uuid_to_string = (\<lambda>u. replicate (unat u) (CHR ''x'')), rfc3339 = (\<lambda>t. []),
      encode_access = (\<lambda>c. None), encode_refresh = (\<lambda>c. None),
      decode_access = (\<lambda>v t. Some \<lparr>ac_sub = t, ac_aud = ACCESS_AUD, ac_iat = 0, ac_exp = 9, ac_platform = [], ac_sid = None\<rparr>),
      decode_refresh = (\<lambda>v t. None), parse_uuid = (\<lambda>s. Some (of_nat (length s)))\<rparr>"

definition mailbox_user :: "uuid \<Rightarrow> user_row" where
  "mailbox_user i =
     \<lparr>u_id = i, u_username = None, u_pubkey_hash = None, u_nostr_pubkey = None, u_wallet_birthday = None,
      u_seed_fingerprint = None, u_xmr_start_height = None, u_wow_start_height = None, u_created_at = 0, u_updated_at = 0,
      u_last_seen_at = None, u_premium_until = None\<rparr>"

definition mailbox_new :: relay_request where
  "mailbox_new = RelayCreate 7 (Some ''Bearer x'')
     \<lparr>crr_recipient_user_id = 2, crr_slate_id = ''s'', crr_slatepack = ''pack'', crr_amount_nanogrin = 5\<rparr>"

definition mailbox_entry :: slatepack_row where
  "mailbox_entry =
     \<lparr>sp_id = 7, sp_slate_id = ''s'', sp_sender_user_id = 1, sp_recipient_user_id = Some 2, sp_recipient_address = None,
      sp_slatepack_content = ''pack'', sp_amount_nanogrin = 5, sp_status = PendingRecipient, sp_response_slatepack = None,
      sp_created_at = 0, sp_updated_at = 0, sp_expires_at = seconds 604800, sp_finalized_at = None, sp_tx_hash = None\<rparr>"

definition mailbox_start :: database where
  "mailbox_start = (empty_database 0 (\<lambda>f. []))\<lparr>users := map mailbox_user [1, 2, 3]\<rparr>"

definition mailbox :: database where
  "mailbox = serve_relay mailbox_lib True 0 mailbox_new mailbox_start"

lemma mailbox_reachable: "relay_reachable mailbox"
  unfolding mailbox_def by (intro relay_reachable.request relay_reachable.start) (simp add: mailbox_start_def)

lemma mailbox_users: "fst (get_user_by_id 2 mailbox_start) = Inr (Some (mailbox_user 2))"
  "user_ids mailbox_start = [1, 2, 3]" "grin_slatepacks mailbox_start = []" "\<not> db_outage mailbox_start" "db_now mailbox_start = 0"
  by code_simp+

lemma mailbox_tokens:
  "caller mailbox_lib (Some ''Bearer x'') mailbox_start = Some 1" "caller mailbox_lib (Some ''Bearer xx'') mailbox_start = Some 2"
  "caller mailbox_lib (Some ''Bearer xxx'') mailbox_start = Some 3" "parse_uuid mailbox_lib ''s'' = Some 1"
  by code_simp+

lemma mailbox_is: "mailbox = mailbox_start\<lparr>grin_slatepacks := [mailbox_entry]\<rparr>"
proof -
  have "get_user_by_id 2 mailbox_start = (Inr (Some (mailbox_user 2)), mailbox_start)"
    using mailbox_users(1) reads_snd [OF reads_get_user, of 2 mailbox_start] by (simp add: prod_eq_iff)
  then show ?thesis
    by (simp add: mailbox_def mailbox_new_def relay_create_def authed_at [OF mailbox_tokens(1)] validate_slate_id_def mailbox_tokens
      validate_slatepack_def MAX_SLATEPACK_LEN_def stmt_bind_def mailbox_users create_grin_slatepack_def map_err_def run_sql_def
      user_ref_ok_def new_slatepack_row_def mailbox_entry_def RELAY_TTL_DAYS_def mailbox_user_def
      Let_def)
qed

lemma mailbox_rows: "grin_slatepacks mailbox = [mailbox_entry]" "\<not> db_outage mailbox" "db_now mailbox = 0"
  by (simp_all add: mailbox_is mailbox_users)

lemma mailbox_callers:
  "caller mailbox_lib (Some ''Bearer x'') mailbox = Some 1" "caller mailbox_lib (Some ''Bearer xx'') mailbox = Some 2"
  "caller mailbox_lib (Some ''Bearer xxx'') mailbox = Some 3"
  using mailbox_tokens(1-3) by (simp_all add: mailbox_is caller_def extract_other_table)

theorem relay_follows_protocol_witness:
  "\<exists>s' \<in> set (grin_slatepacks (serve_relay mailbox_lib True 1 (RelayRespond (Some ''Bearer xx'') ''s'' ''resp'') mailbox)).
    s' = mailbox_entry \<or>
    relay_allowed (relay_actor mailbox_lib (RelayRespond (Some ''Bearer xx'') ''s'' ''resp'') mailbox) (db_now mailbox) mailbox_entry s'"
  by (rule relay_follows_protocol [OF mailbox_reachable]) (simp add: mailbox_rows)

theorem relay_entries_consistent_witness: "distinct (map sp_slate_id (grin_slatepacks mailbox))"
  using relay_entries_consistent [OF mailbox_reachable] by blast


theorem relay_exchange_completes_witness:
  "\<exists>e. fst (relay_finalize mailbox_lib True (Some ''Bearer x'') ''s'' ''tx''
      (snd (relay_respond mailbox_lib True (Some ''Bearer xx'') ''s'' ''resp'' mailbox))) = Inr e \<and>
    re_status e = ''finalized'' \<and> re_tx_hash e = Some ''tx''"
proof -
  have "sp_slate_id mailbox_entry = ''s''" "sp_status mailbox_entry = PendingRecipient" "db_now mailbox < sp_expires_at mailbox_entry"
    "sp_sender_user_id mailbox_entry = 1" "sp_recipient_user_id mailbox_entry = Some 2"
    by (simp_all add: mailbox_entry_def mailbox_rows seconds_def)
  then show ?thesis
    using relay_exchange_completes [OF mailbox_reachable mailbox_rows(2), of mailbox_entry mailbox_lib "Some ''Bearer x''"
        "Some ''Bearer xx''" "''resp''" "''tx''"] mailbox_callers
    by (auto simp: mailbox_rows(1) MAX_SLATEPACK_LEN_def)
qed

end
