(* ===== verification/Erasure.thy ===== *)
theory Erasure
  imports Admin_Db Account_Deletion Nip98
begin

text \<open>
  Self-service erasure: \<open>src/src/infra/db/erasure.rs\<close> and \<open>src/src/api/erasure.rs\<close>. A request is made, confirmed by a
  second proof, waits out a grace period in which it can be cancelled, and is executed by a sweep in one
  transaction. \<open>now\<close> is \<open>Utc::now()\<close> of the process; keys the database or the process draws are arguments. The row lock
  of the sweep's \<open>SELECT\<close> is released with the statement and has no effect here.
\<close>

section \<open>Statements\<close>

definition live_request :: "erasure_request_row \<Rightarrow> bool" where
  "live_request e \<longleftrightarrow> er_status e = ''pending'' \<or> er_status e = ''confirmed''"

definition active_erasure_request :: "uuid \<Rightarrow> erasure_request_row option stmt" where
  "active_erasure_request u =
     query (\<lambda>db. fetch_optional (filter (\<lambda>e. er_user_id e = Some u \<and> live_request e) (erasure_requests db)))"

definition hours :: "i64 \<Rightarrow> i64" where
  "hours n = seconds (n * 3600)"

definition new_erasure_row :: "timestamp \<Rightarrow> uuid \<Rightarrow> uuid \<Rightarrow> string \<Rightarrow> timestamp \<Rightarrow> erasure_request_row" where
  "new_erasure_row now i u subject scheduled =
     \<lparr>er_id = i, er_user_id = Some u, er_subject_hash = subject, er_status = ''pending'', er_requested_at = now,
      er_scheduled_for = scheduled, er_confirmed_at = None, er_completed_at = None, er_cancelled_at = None\<rparr>"

text \<open>The primary key, the partial unique index \<open>erasure_requests_active_user\<close> and the foreign key.\<close>

definition add_erasure_row :: "erasure_request_row \<Rightarrow> database \<Rightarrow> sql_fault + (erasure_request_row \<times> database)" where
  "add_erasure_row e db =
     (if er_id e \<in> set (map er_id (erasure_requests db)) then Inl (UniqueViolation ''erasure_requests_pkey'')
      else if list_ex (\<lambda>x. live_request x \<and> er_user_id x = er_user_id e) (erasure_requests db)
      then Inl (UniqueViolation ''erasure_requests_active_user'')
      else if \<not> user_ref_ok db (er_user_id e) then Inl ConstraintViolation
      else Inr (e, db\<lparr>erasure_requests := erasure_requests db @ [e]\<rparr>))"

definition db_request_erasure :: "timestamp \<Rightarrow> uuid \<Rightarrow> uuid \<Rightarrow> string \<Rightarrow> i64 \<Rightarrow> erasure_request_row stmt" where
  "db_request_erasure now i u subject grace_hours =
     stmt_bind (active_erasure_request u) (\<lambda>found.
       case found of
         Some existing \<Rightarrow> stmt_return (Inr existing)
       | None \<Rightarrow> (\<lambda>db.
           case run_sql (\<lambda>db. add_erasure_row (new_erasure_row (db_now db) i u subject (now + hours grace_hours)) db) db of
             (Inr row, db') \<Rightarrow> (Inr row, db')
           | (Inl (UniqueViolation c), db') \<Rightarrow>
               stmt_bind (active_erasure_request u) (require_some (Internal ''erasure request race'')) db'
           | (Inl f, db') \<Rightarrow> (Inl (sql_error db f), db')))"

definition update_erasure ::
    "(erasure_request_row \<Rightarrow> bool) \<Rightarrow> (erasure_request_row \<Rightarrow> erasure_request_row) \<Rightarrow> erasure_request_row option stmt" where
  "update_erasure p w =
     sql (\<lambda>db. Inr (fetch_optional (sql_returning p w (erasure_requests db)),
       db\<lparr>erasure_requests := sql_update p w (erasure_requests db)\<rparr>))"

definition set_confirmed :: "timestamp \<Rightarrow> timestamp \<Rightarrow> erasure_request_row \<Rightarrow> erasure_request_row" where
  "set_confirmed now scheduled e =
     e\<lparr>er_status := ''confirmed'', er_confirmed_at := Some now, er_scheduled_for := scheduled\<rparr>"

definition set_erasure_cancelled :: "timestamp \<Rightarrow> erasure_request_row \<Rightarrow> erasure_request_row" where
  "set_erasure_cancelled now e = e\<lparr>er_status := ''cancelled'', er_cancelled_at := Some now\<rparr>"

definition set_completed :: "timestamp \<Rightarrow> erasure_request_row \<Rightarrow> erasure_request_row" where
  "set_completed now e = e\<lparr>er_status := ''completed'', er_completed_at := Some now\<rparr>"

definition confirm_erasure_request :: "timestamp \<Rightarrow> uuid \<Rightarrow> uuid \<Rightarrow> i64 \<Rightarrow> erasure_request_row option stmt" where
  "confirm_erasure_request now i u grace_hours db =
     update_erasure (\<lambda>e. er_id e = i \<and> er_user_id e = Some u \<and> er_status e = ''pending'')
       (set_confirmed (db_now db) (now + hours grace_hours)) db"

definition cancel_erasure_request :: "uuid \<Rightarrow> uuid \<Rightarrow> erasure_request_row option stmt" where
  "cancel_erasure_request i u db =
     update_erasure (\<lambda>e. er_id e = i \<and> er_user_id e = Some u \<and> live_request e) (set_erasure_cancelled (db_now db)) db"

definition due :: "timestamp \<Rightarrow> erasure_request_row \<Rightarrow> bool" where
  "due now e \<longleftrightarrow> er_status e = ''confirmed'' \<and> er_scheduled_for e \<le> now"

definition due_erasure_requests :: "nat \<Rightarrow> erasure_request_row list stmt" where
  "due_erasure_requests limit =
     query (\<lambda>db. take limit (order_asc er_scheduled_for (filter (due (db_now db)) (erasure_requests db))))"

section \<open>Execution\<close>

definition claim_erasure :: "uuid \<Rightarrow> erasure_request_row option stmt" where
  "claim_erasure i db = update_erasure (\<lambda>e. er_id e = i \<and> er_status e = ''confirmed'') (set_completed (db_now db)) db"

definition forget_logins :: "bool \<Rightarrow> uuid \<Rightarrow> unit stmt" where
  "forget_logins purge u =
     sql (\<lambda>db. Inr ((), db\<lparr>login_events :=
       (if purge then sql_delete (\<lambda>l. le_user_id l = Some u) (login_events db)
        else sql_update (\<lambda>l. le_user_id l = Some u)
          (\<lambda>l. l\<lparr>le_user_id := None, le_origin := None, le_asset := ''redacted''\<rparr>) (login_events db))\<rparr>))"

definition scrub_audit :: "uuid \<Rightarrow> unit stmt" where
  "scrub_audit u =
     sql (\<lambda>db. Inr ((), db\<lparr>audit_logs :=
       sql_update (\<lambda>a. al_user_id a = Some u) (\<lambda>a. a\<lparr>al_user_agent := None\<rparr>) (audit_logs db)\<rparr>))"

definition erasure_audit :: "'a crates_scheme \<Rightarrow> string \<Rightarrow> uuid \<Rightarrow> new_admin_audit" where
  "erasure_audit lib action i =
     \<lparr>na_action = action, na_actor_kind = ''user'', na_actor_pubkey_prefix = None, na_target = Some (uuid_to_string lib i),
      na_details = None, na_ip_address = None\<rparr>"

definition erase_account :: "mac_lib \<Rightarrow> timestamp \<Rightarrow> uuid \<Rightarrow> uuid \<Rightarrow> bool \<Rightarrow> string \<Rightarrow> uuid \<Rightarrow> bool stmt" where
  "erase_account lib now audit_id i purge secret u =
     stmt_bind (forget_logins purge u) (\<lambda>x.
     stmt_bind (scrub_audit u) (\<lambda>x.
     stmt_bind (delete_user u) (\<lambda>x.
     stmt_bind (append_admin_audit lib now audit_id (erasure_audit lib ''account_erasure_completed'' i) secret) (\<lambda>x.
       stmt_return (Inr True)))))"

text \<open>One transaction; the result \<open>False\<close> is a roll-back too.\<close>

definition execute_erasure :: "mac_lib \<Rightarrow> timestamp \<Rightarrow> uuid \<Rightarrow> uuid \<Rightarrow> bool \<Rightarrow> string \<Rightarrow> bool stmt" where
  "execute_erasure lib now audit_id i purge secret db =
     (case stmt_bind (claim_erasure i) (\<lambda>claimed.
        case Option.bind claimed er_user_id of
          None \<Rightarrow> stmt_return (Inr False)
        | Some u \<Rightarrow> erase_account lib now audit_id i purge secret u) db of
        (Inr True, db') \<Rightarrow> (Inr True, db')
      | (Inr False, db') \<Rightarrow> (Inr False, db)
      | (Inl e, db') \<Rightarrow> (Inl e, db))"

section \<open>Environment and proofs\<close>

record erasure_env =
  ee_lib :: mac_lib
  ee_nostr :: nostr_lib
  ee_enabled :: bool
  ee_public_api_url :: "string option"
  ee_grace_hours :: u64
  ee_purge_login_events :: bool
  ee_secret :: string
  ee_clock :: timestamp

definition ERASURE_CHALLENGE_TTL_SECS :: i64 where
  "ERASURE_CHALLENGE_TTL_SECS = 300"

definition ERASURE_ACTION_MAX_AGE_SECS :: i64 where
  "ERASURE_ACTION_MAX_AGE_SECS = 120"

definition erasure_ensure_enabled :: "erasure_env \<Rightarrow> unit result" where
  "erasure_ensure_enabled env = ensure (ee_enabled env) (NotFound ''erasure is not enabled'')"

definition erasure_url :: "erasure_env \<Rightarrow> string \<Rightarrow> string result" where
  "erasure_url env path =
     try_bind (ok_or (ee_public_api_url env) (NotFound ''erasure is not enabled'')) (\<lambda>base.
       Inr (trim_end_matches (CHR ''/'') base @ path))"

definition subject_hash :: "erasure_env \<Rightarrow> string \<Rightarrow> string" where
  "subject_hash env npub = hex_encode (ee_nostr env) (sha256 (ee_nostr env) npub)"

definition uuid_of_bytes :: "byte list \<Rightarrow> uuid" where
  "uuid_of_bytes bs = foldl (\<lambda>acc b. or (push_bit 8 acc) (ucast b)) 0 bs"

definition synthetic_erasure_id :: "erasure_env \<Rightarrow> string \<Rightarrow> string" where
  "synthetic_erasure_id env pubkey =
     uuid_to_string (ee_nostr env) (uuid_of_bytes (take 16 (sha256 (ee_nostr env)
       (ee_secret env @ [unit_separator] @ ''erasure-synthetic'' @ [unit_separator] @ pubkey))))"

record proof_request =
  pr_token :: string
  pr_nonce :: string

definition bad_erasure_proof :: app_error where
  "bad_erasure_proof = AuthError ''Invalid erasure proof''"

definition erasure_action ::
    "erasure_env \<Rightarrow> string \<Rightarrow> string \<Rightarrow> string \<Rightarrow> string \<Rightarrow> (string \<times> string) option \<Rightarrow> signed_action" where
  "erasure_action env url purpose nonce action_path target =
     \<lparr>sa_url = url, sa_method = ''POST'', sa_purpose = purpose, sa_nonce = nonce,
      sa_payload_sha256 = descriptor_sha256 (ee_nostr env)
        (request_descriptor (ee_nostr env) ''POST'' (''/api/v1'' @ action_path) [] []),
      sa_target = target, sa_instance_id = None\<rparr>"

definition erasure_signer ::
    "erasure_env \<Rightarrow> proof_request \<Rightarrow> string \<Rightarrow> string \<Rightarrow> (string \<times> string) option \<Rightarrow> string result" where
  "erasure_signer env body purpose action_path target =
     try_bind (erasure_url env action_path) (\<lambda>url.
       case verify_signed_action (ee_nostr env) (pr_token body)
              (erasure_action env url purpose (pr_nonce body) action_path target) (ee_clock env div 1000000)
              ERASURE_ACTION_MAX_AGE_SECS of
         Inl e \<Rightarrow> Inl bad_erasure_proof
       | Inr pubkey \<Rightarrow> Inr pubkey)"

definition prove ::
    "erasure_env \<Rightarrow> proof_request \<Rightarrow> string \<Rightarrow> string \<Rightarrow> (string \<times> string) option \<Rightarrow> (string \<times> user_row option) stmt" where
  "prove env body purpose action_path target =
     stmt_bind (stmt_return (erasure_signer env body purpose action_path target)) (\<lambda>pubkey.
     stmt_bind (consume_challenge (pr_nonce body) purpose) (\<lambda>consumed.
     stmt_bind (require_some bad_erasure_proof consumed) (\<lambda>subject.
     stmt_bind (find_user_by_nostr_pubkey pubkey) (\<lambda>user.
       stmt_return (Inr (pubkey, user))))))"

section \<open>Handlers\<close>

definition erasure_challenge :: "erasure_env \<Rightarrow> byte list \<Rightarrow> string \<Rightarrow> (string \<times> i64) stmt" where
  "erasure_challenge env nonce purpose =
     stmt_bind (stmt_return (erasure_ensure_enabled env)) (\<lambda>x.
     stmt_bind (stmt_return (ensure (purpose \<in> {''erasure_request'', ''erasure_confirm'', ''erasure_cancel'', ''erasure_export''})
         (ValidationError ''unknown erasure purpose''))) (\<lambda>x.
     stmt_bind (issue_challenge (ee_nostr env) nonce purpose None ERASURE_CHALLENGE_TTL_SECS) (\<lambda>challenge.
       stmt_return (Inr (challenge, ERASURE_CHALLENGE_TTL_SECS)))))"

abbreviation erasure_record :: "erasure_env \<Rightarrow> uuid \<Rightarrow> string \<Rightarrow> uuid \<Rightarrow> unit stmt" where
  "erasure_record env aid action i \<equiv>
     ignoring (record_admin_audit (ee_lib env) (ee_clock env) aid (erasure_audit (ee_lib env) action i) (ee_secret env))"

text \<open>The result is the erasure identifier and the fixed status.\<close>

definition request_erasure :: "erasure_env \<Rightarrow> uuid \<times> uuid \<Rightarrow> proof_request \<Rightarrow> (string \<times> string) stmt" where
  "request_erasure env ids body =
     stmt_bind (stmt_return (erasure_ensure_enabled env)) (\<lambda>x.
     stmt_bind (prove env body ''erasure_request'' ''/account/erasure'' None) (\<lambda>(pubkey, user).
     stmt_bind (case user of
         Some u \<Rightarrow>
           stmt_bind (db_request_erasure (ee_clock env) (fst ids) (u_id u) (subject_hash env pubkey) (uint (ee_grace_hours env))) (\<lambda>req.
           stmt_bind (erasure_record env (snd ids) ''account_erasure_requested'' (er_id req)) (\<lambda>x.
             stmt_return (Inr (uuid_to_string (ee_nostr env) (er_id req)))))
       | None \<Rightarrow> stmt_return (Inr (synthetic_erasure_id env pubkey))) (\<lambda>erasure_id.
       stmt_return (Inr (erasure_id, ''pending'')))))"

definition confirm_erasure :: "erasure_env \<Rightarrow> uuid \<Rightarrow> uuid \<Rightarrow> proof_request \<Rightarrow> (string \<times> string option) stmt" where
  "confirm_erasure env aid i body =
     stmt_bind (stmt_return (erasure_ensure_enabled env)) (\<lambda>x.
     let id_str = uuid_to_string (ee_nostr env) i in
     stmt_bind (prove env body ''erasure_confirm'' (''/account/erasure/'' @ id_str @ ''/confirm'')
         (Some (''erasure_id'', id_str))) (\<lambda>(pubkey, user).
     stmt_bind (require_some (NotFound ''no such erasure request'') user) (\<lambda>u.
     stmt_bind (confirm_erasure_request (ee_clock env) i (u_id u) (uint (ee_grace_hours env))) (\<lambda>found.
     stmt_bind (require_some (NotFound ''no pending erasure request'') found) (\<lambda>req.
     stmt_bind (ignoring (revoke_all_user_sessions (u_id u))) (\<lambda>x.
     stmt_bind (erasure_record env aid ''account_erasure_confirmed'' (er_id req)) (\<lambda>x.
       stmt_return (Inr (er_status req, Some (rfc3339 (ee_nostr env) (er_scheduled_for req)))))))))))"

definition cancel_erasure :: "erasure_env \<Rightarrow> uuid \<Rightarrow> uuid \<Rightarrow> proof_request \<Rightarrow> (string \<times> string option) stmt" where
  "cancel_erasure env aid i body =
     stmt_bind (stmt_return (erasure_ensure_enabled env)) (\<lambda>x.
     let id_str = uuid_to_string (ee_nostr env) i in
     stmt_bind (prove env body ''erasure_cancel'' (''/account/erasure/'' @ id_str) (Some (''erasure_id'', id_str))) (\<lambda>(pubkey, user).
     stmt_bind (require_some (NotFound ''no such erasure request'') user) (\<lambda>u.
     stmt_bind (cancel_erasure_request i (u_id u)) (\<lambda>found.
     stmt_bind (require_some (NotFound ''no live erasure request'') found) (\<lambda>req.
     stmt_bind (erasure_record env aid ''account_erasure_cancelled'' (er_id req)) (\<lambda>x.
       stmt_return (Inr (er_status req, None))))))))"

record export_key =
  xk_asset :: string
  xk_public_key :: string
  xk_public_spend_key :: "string option"
  xk_key_type :: string

record export_response =
  xp_user_id :: string
  xp_username :: "string option"
  xp_nostr_pubkey :: "string option"
  xp_created_at :: string
  xp_keys :: "export_key list"

definition export_key_of :: "user_key_row \<Rightarrow> export_key" where
  "export_key_of k =
     \<lparr>xk_asset = asset_as_str (k_asset k), xk_public_key = k_public_key k, xk_public_spend_key = k_public_spend_key k,
      xk_key_type = k_key_type k\<rparr>"

definition export_account :: "erasure_env \<Rightarrow> uuid \<Rightarrow> proof_request \<Rightarrow> export_response stmt" where
  "export_account env aid body =
     stmt_bind (stmt_return (erasure_ensure_enabled env)) (\<lambda>x.
     stmt_bind (prove env body ''erasure_export'' ''/account/export'' None) (\<lambda>(pubkey, user).
     stmt_bind (require_some bad_erasure_proof user) (\<lambda>u.
     stmt_bind (get_user_keys (u_id u)) (\<lambda>keys.
     stmt_bind (erasure_record env aid ''account_exported'' (u_id u)) (\<lambda>x.
       stmt_return (Inr \<lparr>xp_user_id = uuid_to_string (ee_nostr env) (u_id u), xp_username = u_username u,
         xp_nostr_pubkey = u_nostr_pubkey u, xp_created_at = rfc3339 (ee_nostr env) (u_created_at u),
         xp_keys = map export_key_of keys\<rparr>))))))"

text \<open>The sweep: a failing request is logged and skipped. \<open>aids\<close> are the audit keys drawn, one per request.\<close>

fun execute_all :: "erasure_env \<Rightarrow> (nat \<Rightarrow> uuid) \<Rightarrow> erasure_request_row list \<Rightarrow> nat stmt" where
  "execute_all env aids [] db = (Inr 0, db)"
| "execute_all env aids (req # reqs) db =
     (case execute_erasure (ee_lib env) (ee_clock env) (aids 0) (er_id req) (ee_purge_login_events env) (ee_secret env) db of
        (r, db') \<Rightarrow>
          (case execute_all env (\<lambda>n. aids (Suc n)) reqs db' of
             (Inr n, db'') \<Rightarrow> (Inr (if r = Inr True then Suc n else n), db'')
           | (Inl e, db'') \<Rightarrow> (Inl e, db'')))"

definition run_erasure_sweep :: "erasure_env \<Rightarrow> (nat \<Rightarrow> uuid) \<Rightarrow> nat \<Rightarrow> nat stmt" where
  "run_erasure_sweep env aids batch =
     stmt_bind (due_erasure_requests batch) (execute_all env aids)"

definition ERASURE_SWEEP_BATCH :: nat where
  "ERASURE_SWEEP_BATCH = 50"

end
