(* ===== verification/Erasure_Properties.thy ===== *)
theory Erasure_Properties
  imports Erasure Admin_Demo
begin

text \<open>
  What erasure promises: nothing of the account is left and nobody else's account is touched, an account is
  erased only when it is due and its owner confirmed, the answer to a request tells nothing about the existence of
  an account, and where the sweep falls short.
\<close>

section \<open>What refers to a user\<close>

definition mentions :: "uuid \<Rightarrow> database \<Rightarrow> bool" where
  "mentions u db \<longleftrightarrow>
     list_ex (\<lambda>x. u_id x = u) (users db) \<or> list_ex (\<lambda>s. s_user_id s = u) (sessions db) \<or>
     list_ex (\<lambda>k. k_user_id k = u) (user_keys db) \<or> list_ex (\<lambda>c. ic_used_by c = Some u) (invite_codes db) \<or>
     list_ex (\<lambda>p. pm_user_id p = u) (premium_invoices db) \<or> list_ex (\<lambda>l. le_user_id l = Some u) (login_events db) \<or>
     list_ex (\<lambda>e. er_user_id e = Some u) (erasure_requests db) \<or>
     list_ex (\<lambda>s. sp_sender_user_id s = u \<or> sp_recipient_user_id s = Some u) (grin_slatepacks db) \<or>
     list_ex (\<lambda>a. al_user_id a = Some u) (audit_logs db) \<or>
     list_ex (\<lambda>t. sender_user_id t = u \<or> claimed_by_user_id t = Some u \<or> recipient_user_id t = Some u) (social_tips db)"

lemma delete_user_forgets:
  assumes "delete_user u db = (Inr x, db')"
  shows "\<not> mentions u db'"
  using assms
  by (auto simp: delete_user_def mentions_def Let_def list_ex_iff sql_delete_def set_sql_update forget_user_def
      split: if_splits)

lemma delete_user_frame:
  assumes "delete_user u db = (Inr x, db')"
  shows "users db' = sql_delete (\<lambda>x. u_id x = u) (users db)" "admin_audit_logs db' = admin_audit_logs db"
    "user_keys db' = sql_delete (\<lambda>k. k_user_id k = u) (user_keys db)"
    "sessions db' = sql_delete (\<lambda>s. s_user_id s = u) (sessions db)"
    "map er_id (erasure_requests db') = map er_id (erasure_requests db)"
    "map er_status (erasure_requests db') = map er_status (erasure_requests db)"
    "db_now db' = db_now db"
  using assms by (auto simp: delete_user_def Let_def sql_update_def split: if_splits)

text \<open>The statements that precede the deletion, and the tables they leave.\<close>

lemma claim_Inr:
  assumes "claim_erasure i db = (Inr (Some e'), db')"
  shows "\<exists>e \<in> set (erasure_requests db). er_id e = i \<and> er_status e = ''confirmed'' \<and> e' = set_completed (db_now db) e"
    "db' = db\<lparr>erasure_requests := sql_update (\<lambda>e. er_id e = i \<and> er_status e = ''confirmed'') (set_completed (db_now db))
       (erasure_requests db)\<rparr>"
  using assms by (auto simp: claim_erasure_def update_erasure_def sql_Inr dest!: fetch_returning_Some)

lemma forget_logins_Inr:
  assumes "forget_logins purge u db = (Inr x, db')"
  shows "db' = db\<lparr>login_events := login_events db'\<rparr>"
  using assms by (auto simp: forget_logins_def sql_Inr)

lemma scrub_audit_Inr:
  assumes "scrub_audit u db = (Inr x, db')"
  shows "db' = db\<lparr>audit_logs := audit_logs db'\<rparr>"
  using assms by (auto simp: scrub_audit_def sql_Inr)

lemma execute_Inr:
  assumes "execute_erasure lib now aid i purge secret db = (Inr True, db')"
  obtains e u db1 db2 db3 db4 y z w where "e \<in> set (erasure_requests db)" "er_id e = i" "er_status e = ''confirmed''"
    "er_user_id e = Some u"
    "db1 = db\<lparr>erasure_requests := sql_update (\<lambda>e. er_id e = i \<and> er_status e = ''confirmed'') (set_completed (db_now db))
       (erasure_requests db)\<rparr>"
    "forget_logins purge u db1 = (Inr y, db2)" "scrub_audit u db2 = (Inr z, db3)" "delete_user u db3 = (Inr w, db4)"
    "\<exists>row. db' = db4\<lparr>admin_audit_logs := admin_audit_logs db4 @ [row]\<rparr> \<and>
       row = audit_row lib secret now aid (erasure_audit lib ''account_erasure_completed'' i) (chain_end (admin_audit_logs db4))"
proof -
  from assms have "stmt_bind (claim_erasure i) (\<lambda>claimed. case Option.bind claimed er_user_id of
      None \<Rightarrow> stmt_return (Inr False) | Some u \<Rightarrow> erase_account lib now aid i purge secret u) db = (Inr True, db')"
    by (auto simp: execute_erasure_def split: prod.splits sum.splits bool.splits if_splits)
  then obtain claimed db1 where c: "claim_erasure i db = (Inr claimed, db1)"
    "(case Option.bind claimed er_user_id of None \<Rightarrow> stmt_return (Inr False)
      | Some u \<Rightarrow> erase_account lib now aid i purge secret u) db1 = (Inr True, db')"
    by (auto simp: stmt_bind_Inr)
  then obtain e' u where e': "claimed = Some e'" "er_user_id e' = Some u" by (cases claimed) (auto split: option.splits)
  with c have r: "erase_account lib now aid i purge secret u db1 = (Inr True, db')" by simp
  from claim_Inr [of i db e' db1] c(1) e' obtain e where
    e: "e \<in> set (erasure_requests db)" "er_id e = i" "er_status e = ''confirmed''" "er_user_id e = Some u"
    by (auto simp: set_completed_def)
  from r e claim_Inr(2) [of i db e' db1] c(1) e'(1) that show thesis
    by (auto simp: erase_account_def stmt_bind_Inr append_Inr)
qed

text \<open>C19. An executed erasure leaves no trace of the account: it was confirmed by its request, no row of any table
  refers to the user any more, what the security log keeps of the user is stripped of name and device, the request
  stays as a completed tombstone without the link, exactly one row enters the audit chain, and the other users with
  their keys and sessions are as before.\<close>

theorem erasure_leaves_no_trace:
  assumes "execute_erasure lib now aid i purge secret db = (Inr True, db')"
  shows "\<exists>u. (\<exists>e \<in> set (erasure_requests db). er_id e = i \<and> er_status e = ''confirmed'' \<and> er_user_id e = Some u) \<and>
    \<not> mentions u db' \<and>
    (\<forall>a \<in> set (audit_logs db). al_user_id a = Some u \<longrightarrow> a\<lparr>al_user_id := None, al_user_agent := None\<rparr> \<in> set (audit_logs db')) \<and>
    (\<exists>e \<in> set (erasure_requests db'). er_id e = i \<and> er_status e = ''completed'' \<and> er_user_id e = None) \<and>
    (\<exists>row. admin_audit_logs db' = admin_audit_logs db @ [row] \<and> aa_action row = ''account_erasure_completed'') \<and>
    users db' = filter (\<lambda>x. u_id x \<noteq> u) (users db) \<and>
    user_keys db' = filter (\<lambda>k. k_user_id k \<noteq> u) (user_keys db) \<and>
    sessions db' = filter (\<lambda>s. s_user_id s \<noteq> u) (sessions db)"
proof -
  from assms obtain e u db1 db2 db3 db4 y z w row where
    e: "e \<in> set (erasure_requests db)" "er_id e = i" "er_status e = ''confirmed''" "er_user_id e = Some u"
    and s: "db1 = db\<lparr>erasure_requests := sql_update (\<lambda>e. er_id e = i \<and> er_status e = ''confirmed'') (set_completed (db_now db))
       (erasure_requests db)\<rparr>"
      "forget_logins purge u db1 = (Inr y, db2)" "scrub_audit u db2 = (Inr z, db3)" "delete_user u db3 = (Inr w, db4)"
      "db' = db4\<lparr>admin_audit_logs := admin_audit_logs db4 @ [row]\<rparr>"
      "row = audit_row lib secret now aid (erasure_audit lib ''account_erasure_completed'' i) (chain_end (admin_audit_logs db4))"
    by (rule execute_Inr) blast
  have r2: "db2 = db1\<lparr>login_events := login_events db2\<rparr>" by (rule forget_logins_Inr [OF s(2)])
  have r3: "db3 = db2\<lparr>audit_logs := sql_update (\<lambda>a. al_user_id a = Some u) (\<lambda>a. a\<lparr>al_user_agent := None\<rparr>) (audit_logs db2)\<rparr>"
    using s(3) by (auto simp: scrub_audit_def sql_Inr)
  have tables: "users db3 = users db" "user_keys db3 = user_keys db" "sessions db3 = sessions db"
    "admin_audit_logs db3 = admin_audit_logs db" "erasure_requests db3 = erasure_requests db1"
    "audit_logs db2 = audit_logs db"
    by (subst r3, simp, subst r2, simp add: s(1))+ (subst r2, simp add: s(1))
  have gone: "\<not> mentions u db'" using delete_user_forgets [OF s(4)] by (simp add: s(5) mentions_def)
  have audits: "a\<lparr>al_user_id := None, al_user_agent := None\<rparr> \<in> set (audit_logs db')"
    if "a \<in> set (audit_logs db)" "al_user_id a = Some u" for a
  proof -
    have "a\<lparr>al_user_agent := None\<rparr> \<in> set (audit_logs db3)"
      using that tables(6) by (subst r3) (force simp: set_sql_update)
    then show ?thesis using s(4) that(2) by (force simp: s(5) delete_user_def Let_def set_sql_update split: if_splits)
  qed
  have "set_completed (db_now db) e \<in> set (erasure_requests db3)"
    using e tables(5) by (force simp: s(1) set_sql_update)
  then have "(set_completed (db_now db) e)\<lparr>er_user_id := None\<rparr> \<in> set (erasure_requests db4)"
    using s(4) e(4) by (force simp: delete_user_def Let_def set_sql_update set_completed_def split: if_splits)
  then have tomb: "\<exists>e \<in> set (erasure_requests db'). er_id e = i \<and> er_status e = ''completed'' \<and> er_user_id e = None"
    using e(2) by (intro bexI [of _ "(set_completed (db_now db) e)\<lparr>er_user_id := None\<rparr>"]) (simp_all add: s(5) set_completed_def)
  have log: "admin_audit_logs db' = admin_audit_logs db @ [row]" "aa_action row = ''account_erasure_completed''"
    using delete_user_frame(2) [OF s(4)] tables(4) by (simp_all add: s(5,6) audit_row_def erasure_audit_def Let_def)
  have rest: "users db' = filter (\<lambda>x. u_id x \<noteq> u) (users db)" "user_keys db' = filter (\<lambda>k. k_user_id k \<noteq> u) (user_keys db)"
    "sessions db' = filter (\<lambda>s. s_user_id s \<noteq> u) (sessions db)"
    using delete_user_frame(1,3,4) [OF s(4)] tables(1-3) by (simp_all add: s(5) sql_delete_def)
  from e gone audits tomb log rest show ?thesis by (intro exI [of _ u]) auto
qed

section \<open>Only what is due\<close>

text \<open>What executing erasures can do to a request: a confirmed one was confirmed before, for the same user.\<close>

definition request_ages :: "erasure_request_row \<Rightarrow> erasure_request_row \<Rightarrow> bool" where
  "request_ages e e' \<longleftrightarrow>
     er_id e' = er_id e \<and>
     (er_status e' = ''confirmed'' \<longrightarrow> er_status e = ''confirmed'' \<and>
        (\<forall>u. er_user_id e' = Some u \<longrightarrow> er_user_id e = Some u))"

abbreviation requests_age :: "database \<Rightarrow> database \<Rightarrow> bool" where
  "requests_age db db' \<equiv> list_all2 request_ages (erasure_requests db) (erasure_requests db')"

lemma requests_age_refl: "requests_age db db"
  by (rule list_all2_refl) (simp add: request_ages_def)

lemma requests_age_trans: "requests_age db db1 \<Longrightarrow> requests_age db1 db2 \<Longrightarrow> requests_age db db2"
  by (rule list_all2_trans [of request_ages request_ages request_ages]) (auto simp: request_ages_def)

lemma requests_age_find:
  assumes "requests_age db db'" "e' \<in> set (erasure_requests db')"
  shows "\<exists>e \<in> set (erasure_requests db). request_ages e e'"
proof -
  from assms(2) obtain n where "n < length (erasure_requests db')" "e' = erasure_requests db' ! n" by (metis in_set_conv_nth)
  with assms(1) show ?thesis by (intro bexI [of _ "erasure_requests db ! n"]) (auto simp: list_all2_conv_all_nth)
qed

lemma age_map: "(\<And>e. request_ages e (f e)) \<Longrightarrow> list_all2 request_ages es (map f es)"
  by (simp add: list_all2_conv_all_nth)

lemma execute_false: "execute_erasure lib now aid i purge secret db = (r, db') \<Longrightarrow> r \<noteq> Inr True \<Longrightarrow> db' = db"
  by (auto simp: execute_erasure_def split: prod.splits sum.splits bool.splits)

lemma execute_ages:
  assumes "execute_erasure lib now aid i purge secret db = (r, db')"
  shows "requests_age db db'"
    and "x \<in> set (users db) \<Longrightarrow> x \<notin> set (users db') \<Longrightarrow>
      \<exists>e \<in> set (erasure_requests db). er_id e = i \<and> er_status e = ''confirmed'' \<and> er_user_id e = Some (u_id x)"
proof -
  have "requests_age db db' \<and> (x \<in> set (users db) \<longrightarrow> x \<notin> set (users db') \<longrightarrow>
      (\<exists>e \<in> set (erasure_requests db). er_id e = i \<and> er_status e = ''confirmed'' \<and> er_user_id e = Some (u_id x)))"
  proof (cases "r = Inr True")
    case True
    with assms have "execute_erasure lib now aid i purge secret db = (Inr True, db')" by simp
    then obtain e u db1 db2 db3 db4 y z w row where
      e: "e \<in> set (erasure_requests db)" "er_id e = i" "er_status e = ''confirmed''" "er_user_id e = Some u"
      and s: "db1 = db\<lparr>erasure_requests := sql_update (\<lambda>e. er_id e = i \<and> er_status e = ''confirmed'') (set_completed (db_now db))
         (erasure_requests db)\<rparr>"
        "forget_logins purge u db1 = (Inr y, db2)" "scrub_audit u db2 = (Inr z, db3)" "delete_user u db3 = (Inr w, db4)"
        "db' = db4\<lparr>admin_audit_logs := admin_audit_logs db4 @ [row]\<rparr>"
      by (rule execute_Inr) blast
    have t: "erasure_requests db3 = erasure_requests db1" "users db3 = users db"
      by (subst scrub_audit_Inr [OF s(3)], simp, subst forget_logins_Inr [OF s(2)], simp add: s(1))+
    have "requests_age db db1"
      unfolding s(1) sql_update_def by simp (rule age_map, simp add: request_ages_def set_completed_def)
    moreover have "requests_age db1 db4"
      using s(4) t(1) by (auto simp: delete_user_def Let_def sql_update_def split: if_splits
          intro!: age_map simp: request_ages_def)
    ultimately have "requests_age db db'" unfolding s(5) by (auto intro: requests_age_trans)
    with e delete_user_frame(1) [OF s(4)] t(2) show ?thesis by (auto simp: s(5) sql_delete_def)
  next
    case False
    with execute_false [OF assms] show ?thesis by (simp add: requests_age_refl)
  qed
  then show "requests_age db db'" "x \<in> set (users db) \<Longrightarrow> x \<notin> set (users db') \<Longrightarrow>
      \<exists>e \<in> set (erasure_requests db). er_id e = i \<and> er_status e = ''confirmed'' \<and> er_user_id e = Some (u_id x)" by blast+
qed

lemma execute_all_erases:
  assumes "x \<in> set (users db)" "x \<notin> set (users (snd (execute_all env aids reqs db)))"
  shows "\<exists>q \<in> set reqs. \<exists>e \<in> set (erasure_requests db). er_id e = er_id q \<and> er_status e = ''confirmed'' \<and>
    er_user_id e = Some (u_id x)"
  using assms
proof (induction reqs arbitrary: aids db)
  case (Cons q reqs)
  obtain r db1 where run: "execute_erasure (ee_lib env) (ee_clock env) (aids 0) (er_id q) (ee_purge_login_events env) (ee_secret env) db = (r, db1)"
    by (cases "execute_erasure (ee_lib env) (ee_clock env) (aids 0) (er_id q) (ee_purge_login_events env) (ee_secret env) db")
  have rest: "x \<notin> set (users (snd (execute_all env (\<lambda>n. aids (Suc n)) reqs db1)))"
    using Cons.prems(2) run by (auto split: prod.splits sum.splits)
  show ?case
  proof (cases "x \<in> set (users db1)")
    case True
    from Cons.IH [OF True rest] obtain q' e' where q': "q' \<in> set reqs" "e' \<in> set (erasure_requests db1)" "er_id e' = er_id q'"
      "er_status e' = ''confirmed''" "er_user_id e' = Some (u_id x)" by blast
    from requests_age_find [OF execute_ages(1) [OF run] q'(2)] q' show ?thesis by (auto simp: request_ages_def)
  next
    case False
    from execute_ages(2) [OF run Cons.prems(1) False] show ?thesis by auto
  qed
qed simp

text \<open>C26. The sweep erases only what is due: an account that is gone after it had a confirmed request whose grace
  period was over; a request that is pending, was cancelled, or still within its grace period is not executed.\<close>

theorem sweep_erases_only_due:
  assumes "distinct (map er_id (erasure_requests db))" "x \<in> set (users db)"
    and "x \<notin> set (users (snd (run_erasure_sweep env aids batch db)))"
  shows "\<exists>e \<in> set (erasure_requests db). er_user_id e = Some (u_id x) \<and> er_status e = ''confirmed'' \<and>
    er_scheduled_for e \<le> db_now db"
proof -
  let ?due = "take batch (order_asc er_scheduled_for (filter (due (db_now db)) (erasure_requests db)))"
  have "x \<notin> set (users (snd (execute_all env aids ?due db)))"
    using assms(2,3) by (auto simp: run_erasure_sweep_def stmt_bind_def due_erasure_requests_def query_def split: if_splits)
  from execute_all_erases [OF assms(2) this] obtain q e where
    q: "q \<in> set ?due" "e \<in> set (erasure_requests db)" "er_id e = er_id q" "er_status e = ''confirmed''"
    "er_user_id e = Some (u_id x)" by blast
  from q(1) have "q \<in> set (erasure_requests db)" "due (db_now db) q" by (auto dest: in_set_takeD)
  moreover from this(1) q(2,3) assms(1) have "e = q" by (simp add: distinct_map inj_on_def)
  ultimately show ?thesis using q by (auto simp: due_def)
qed

section \<open>Who confirms\<close>

datatype erasure_op =
    ErasureChallenge "byte list" string
  | ErasureRequest "uuid \<times> uuid" proof_request
  | ErasureConfirm uuid uuid proof_request
  | ErasureCancel uuid uuid proof_request
  | ErasureExport uuid proof_request
  | ErasureSweep "nat \<Rightarrow> uuid" nat

fun serve_erasure :: "erasure_env \<Rightarrow> erasure_op \<Rightarrow> database \<Rightarrow> database" where
  "serve_erasure env (ErasureChallenge nonce purpose) db = snd (erasure_challenge env nonce purpose db)"
| "serve_erasure env (ErasureRequest ids body) db = snd (request_erasure env ids body db)"
| "serve_erasure env (ErasureConfirm aid i body) db = snd (confirm_erasure env aid i body db)"
| "serve_erasure env (ErasureCancel aid i body) db = snd (cancel_erasure env aid i body db)"
| "serve_erasure env (ErasureExport aid body) db = snd (export_account env aid body db)"
| "serve_erasure env (ErasureSweep aids batch) db = snd (run_erasure_sweep env aids batch db)"

text \<open>Nothing becomes confirmed.\<close>

definition no_new_confirmed :: "database \<Rightarrow> database \<Rightarrow> bool" where
  "no_new_confirmed db db' \<longleftrightarrow>
     (\<forall>e \<in> set (erasure_requests db'). er_status e = ''confirmed'' \<longrightarrow> er_user_id e \<noteq> None \<longrightarrow> e \<in> set (erasure_requests db))"

interpretation nnc: effect_bound no_new_confirmed
  by unfold_locales (auto simp: no_new_confirmed_def)

lemma nnc_same: "erasure_requests db' = erasure_requests db \<Longrightarrow> no_new_confirmed db db'"
  by (simp add: no_new_confirmed_def)

lemma nnc_update:
  assumes "\<And>e. p e \<Longrightarrow> er_status (w e) \<noteq> ''confirmed'' \<or> er_user_id (w e) = None"
  shows "no_new_confirmed db (db\<lparr>erasure_requests := sql_update p w (erasure_requests db)\<rparr>)"
  using assms by (auto simp: no_new_confirmed_def set_sql_update split: if_splits)

lemma nnc_add: "within no_new_confirmed (db_request_erasure now i u subject grace)"
proof (rule withinI)
  fix db
  show "no_new_confirmed db (snd (db_request_erasure now i u subject grace db))"
    by (auto simp: db_request_erasure_def active_erasure_request_def stmt_bind_def query_def run_sql_def add_erasure_row_def
        require_some_def nnc.refl new_erasure_row_def
        split: option.split sum.split sql_fault.split intro!: nnc.refl)
       (auto simp: no_new_confirmed_def)
qed

lemma nnc_statements:
  "within no_new_confirmed (append_admin_audit lib now j en secret)"
  "within no_new_confirmed (issue_challenge lib0 bs purpose subj ttl)"
  "within no_new_confirmed (consume_challenge n purpose)"
  "within no_new_confirmed (revoke_all_user_sessions u)"
  "within no_new_confirmed (cancel_erasure_request i u)"
  "within no_new_confirmed (claim_erasure i)"
  "within no_new_confirmed (forget_logins purge u)"
  "within no_new_confirmed (scrub_audit u)"
  "within no_new_confirmed (delete_user u)"
  subgoal unfolding append_admin_audit_def by (rule within_sql; auto simp: Let_def intro: nnc.refl nnc_same split: if_splits)
  subgoal by (auto simp: within_def issue_challenge_def Let_def intro: nnc_same)
  subgoal by (auto simp: within_def consume_challenge_def Let_def intro: nnc_same)
  subgoal by (auto simp: within_def revoke_all_user_sessions_def update_sessions_def Let_def intro: nnc_same)
  subgoal
    by (auto simp: within_def cancel_erasure_request_def update_erasure_def sql_def map_err_def run_sql_def
        intro!: nnc.refl nnc_update simp: set_erasure_cancelled_def)
  subgoal
    by (auto simp: within_def claim_erasure_def update_erasure_def sql_def map_err_def run_sql_def
        intro!: nnc.refl nnc_update simp: set_completed_def)
  subgoal unfolding forget_logins_def by (rule within_sql; auto intro: nnc.refl nnc_same)
  subgoal unfolding scrub_audit_def by (rule within_sql; auto intro: nnc.refl nnc_same)
  subgoal
    by (auto simp: within_def delete_user_def Let_def no_new_confirmed_def set_sql_update split: if_splits)
  done

lemma nnc_reads:
  "reads (find_user_by_nostr_pubkey k)" "reads (get_user_keys u)" "reads (due_erasure_requests n)"
  unfolding find_user_by_nostr_pubkey_def select_user_def get_user_keys_def due_erasure_requests_def by (rule reads_query)+

lemma nnc_prove: "within no_new_confirmed (prove env body purpose path target)"
  unfolding prove_def by (intro nnc.within_rules nnc_statements nnc_reads [THEN nnc.within_reads])

lemma nnc_record: "within no_new_confirmed (record_admin_audit lib now i e secret)"
  unfolding record_admin_audit_def by (intro nnc.within_rules nnc_statements)

lemma nnc_handlers:
  "within no_new_confirmed (erasure_challenge env nonce purpose)"
  "within no_new_confirmed (request_erasure env ids body)"
  "within no_new_confirmed (cancel_erasure env aid i body)"
  "within no_new_confirmed (export_account env aid body)"
  unfolding erasure_challenge_def request_erasure_def cancel_erasure_def export_account_def Let_def
  by (intro nnc.within_rules within_intros nnc_prove nnc_record nnc_add nnc_statements nnc_reads [THEN nnc.within_reads])+

lemma nnc_execute: "within no_new_confirmed (execute_erasure lib now aid i purge secret)"
proof -
  have body: "within no_new_confirmed (stmt_bind (claim_erasure i) (\<lambda>claimed. case Option.bind claimed er_user_id of
      None \<Rightarrow> stmt_return (Inr False) | Some u \<Rightarrow> erase_account lib now aid i purge secret u))"
    unfolding erase_account_def by (intro nnc.within_rules within_intros nnc_statements)
  show ?thesis
  proof (rule withinI)
    fix db
    show "no_new_confirmed db (snd (execute_erasure lib now aid i purge secret db))"
      using withinD [OF body, of db] by (auto simp: execute_erasure_def nnc.refl split: prod.split sum.split bool.split)
  qed
qed

lemma nnc_execute_all: "no_new_confirmed db (snd (execute_all env aids reqs db))"
proof (induction reqs arbitrary: aids db)
  case (Cons q reqs)
  have "no_new_confirmed db (snd (execute_erasure (ee_lib env) (ee_clock env) (aids 0) (er_id q) (ee_purge_login_events env) (ee_secret env) db))"
    by (rule withinD [OF nnc_execute])
  with Cons.IH show ?case by (auto split: prod.split sum.split) (metis nnc.trans snd_conv)+
qed (simp add: nnc.refl)

lemma nnc_sweep: "no_new_confirmed db (snd (run_erasure_sweep env aids batch db))"
  using nnc_execute_all by (simp add: run_erasure_sweep_def stmt_bind_def due_erasure_requests_def query_def nnc.refl)

lemma prove_Inr:
  assumes "prove env body purpose path target db = (Inr (pk, user), db')"
  shows "erasure_signer env body purpose path target = Inr pk"
    "list_ex (consumable (db_now db) (pr_nonce body) purpose) (challenges db)"
    "user = Some x \<Longrightarrow> x \<in> set (users db) \<and> u_nostr_pubkey x = Some pk"
    "erasure_requests db' = erasure_requests db" "db_now db' = db_now db" "users db' = users db"
proof -
  from assms show "erasure_signer env body purpose path target = Inr pk"
    "list_ex (consumable (db_now db) (pr_nonce body) purpose) (challenges db)"
    "user = Some x \<Longrightarrow> x \<in> set (users db) \<and> u_nostr_pubkey x = Some pk"
    "erasure_requests db' = erasure_requests db" "db_now db' = db_now db" "users db' = users db"
    by (auto simp: prove_def stmt_bind_Inr consume_challenge_def Let_def find_user_by_nostr_pubkey_def select_user_def query_def
        require_some_def ok_or_def list_ex_iff split: if_splits option.splits dest!: fetch_filter_Some)
qed

lemma confirm_new:
  assumes "e' \<in> set (erasure_requests (snd (confirm_erasure env aid i body db)))" "er_status e' = ''confirmed''"
    and "er_user_id e' = Some v" "e' \<notin> set (erasure_requests db)"
  shows "er_id e' = i \<and> er_scheduled_for e' = ee_clock env + hours (uint (ee_grace_hours env)) \<and>
    (\<exists>pk x. erasure_signer env body ''erasure_confirm'' (''/account/erasure/'' @ uuid_to_string (ee_nostr env) i @ ''/confirm'')
        (Some (''erasure_id'', uuid_to_string (ee_nostr env) i)) = Inr pk \<and>
      x \<in> set (users db) \<and> u_nostr_pubkey x = Some pk \<and> u_id x = v \<and>
      list_ex (consumable (db_now db) (pr_nonce body) ''erasure_confirm'') (challenges db))"
proof -
  let ?id = "uuid_to_string (ee_nostr env) i"
  let ?prove = "prove env body ''erasure_confirm'' (''/account/erasure/'' @ ?id @ ''/confirm'') (Some (''erasure_id'', ?id))"
  let ?rest = "\<lambda>x found. stmt_bind (require_some (NotFound ''no pending erasure request'') found) (\<lambda>req.
      stmt_bind (ignoring (revoke_all_user_sessions (u_id x))) (\<lambda>y.
      stmt_bind (erasure_record env aid ''account_erasure_confirmed'' (er_id req)) (\<lambda>y.
        stmt_return (Inr (er_status req, Some (rfc3339 (ee_nostr env) (er_scheduled_for req)))))))"
  have after: "within no_new_confirmed (?rest x found)" for x found
    by (intro nnc.within_rules within_intros nnc_statements nnc_record)
  from assms(1,4) have en: "ee_enabled env"
    by (auto simp: confirm_erasure_def erasure_ensure_enabled_def ensure_def split: if_splits)
  obtain r db1 where p: "?prove db = (r, db1)" by (cases "?prove db")
  have nn1: "no_new_confirmed db db1" using withinE [OF nnc_prove p] .
  from assms p en nn1 obtain pk user where r: "r = Inr (pk, user)"
    by (cases r) (auto simp: confirm_erasure_def erasure_ensure_enabled_def stmt_bind_def Let_def no_new_confirmed_def)
  note pr = prove_Inr [OF p [unfolded r]]
  from assms p en nn1 r obtain x where x: "user = Some x"
    by (cases user) (auto simp: confirm_erasure_def erasure_ensure_enabled_def stmt_bind_def Let_def no_new_confirmed_def)
  let ?p = "\<lambda>e. er_id e = i \<and> er_user_id e = Some (u_id x) \<and> er_status e = ''pending''"
  let ?w = "set_confirmed (db_now db1) (ee_clock env + hours (uint (ee_grace_hours env)))"
  let ?db2 = "snd (confirm_erasure_request (ee_clock env) i (u_id x) (uint (ee_grace_hours env)) db1)"
  have "confirm_erasure env aid i body db =
      stmt_bind (confirm_erasure_request (ee_clock env) i (u_id x) (uint (ee_grace_hours env))) (?rest x) db1"
    unfolding confirm_erasure_def erasure_ensure_enabled_def Let_def
    by (simp only: en ensure_def if_True stmt_bind_return stmt_bind_at(1) [of ?prove db "(pk, user)" db1, OF p [unfolded r]]
        prod.case x require_some_def ok_or_def option.case)
  then have "no_new_confirmed ?db2 (snd (confirm_erasure env aid i body db))"
    using nnc.bind_tail [OF after] by simp
  with assms have "e' \<in> set (erasure_requests ?db2)" by (auto simp: no_new_confirmed_def)
  then obtain e where "e \<in> set (erasure_requests db)" "?p e" "e' = ?w e"
    using assms(4) pr(4) by (auto simp: confirm_erasure_request_def update_erasure_def sql_def map_err_def run_sql_def set_sql_update
        split: if_splits)
  with pr x assms(3) show ?thesis by (auto simp: set_confirmed_def)
qed

text \<open>C27. Nobody but the owner confirms an erasure: whatever operation makes a request confirmed is a confirmation
  of that very request, signed for it over a nonce the server issued for confirmations, by the key linked to the
  account the request is for; and its grace period starts then.\<close>

theorem erasure_confirmed_by_owner:
  assumes "e' \<in> set (erasure_requests (serve_erasure env op db))" "e' \<notin> set (erasure_requests db)"
    and "er_status e' = ''confirmed''" "er_user_id e' = Some v"
  shows "\<exists>aid body pk x. op = ErasureConfirm aid (er_id e') body \<and>
    erasure_signer env body ''erasure_confirm''
      (''/account/erasure/'' @ uuid_to_string (ee_nostr env) (er_id e') @ ''/confirm'')
      (Some (''erasure_id'', uuid_to_string (ee_nostr env) (er_id e'))) = Inr pk \<and>
    x \<in> set (users db) \<and> u_nostr_pubkey x = Some pk \<and> u_id x = v \<and>
    list_ex (consumable (db_now db) (pr_nonce body) ''erasure_confirm'') (challenges db) \<and>
    er_scheduled_for e' = ee_clock env + hours (uint (ee_grace_hours env))"
proof -
  have "\<not> no_new_confirmed db (serve_erasure env op db)" using assms by (auto simp: no_new_confirmed_def)
  then obtain aid i body where op: "op = ErasureConfirm aid i body"
    using nnc_handlers [THEN withinD] nnc_sweep by (cases op) auto
  with confirm_new [of e' env aid i body db v] assms show ?thesis by auto
qed

section \<open>The answer to a request\<close>

lemma prove_user:
  assumes "prove env body purpose path target db = (Inr (pk, user), db')"
  shows "user = fetch_optional (filter (\<lambda>r. u_nostr_pubkey r = Some pk) (users db))"
  using assms by (auto simp: prove_def stmt_bind_Inr consume_challenge_def Let_def find_user_by_nostr_pubkey_def select_user_def
      query_def require_some_def ok_or_def split: if_splits option.splits)

lemma db_request_Inr:
  assumes "db_request_erasure now i u subject grace db = (Inr e, db')"
  shows "fetch_optional (filter (\<lambda>e. er_user_id e = Some u \<and> live_request e) (erasure_requests db')) = Some e"
    "(\<exists>e0. fetch_optional (filter (\<lambda>e. er_user_id e = Some u \<and> live_request e) (erasure_requests db)) = Some e0) \<Longrightarrow>
      fetch_optional (filter (\<lambda>e. er_user_id e = Some u \<and> live_request e) (erasure_requests db)) = Some e"
proof -
  have e: "er_user_id (new_erasure_row a i u b c) = Some u" "live_request (new_erasure_row a i u b c)" for a b c
    by (simp_all add: new_erasure_row_def live_request_def)
  show "fetch_optional (filter (\<lambda>e. er_user_id e = Some u \<and> live_request e) (erasure_requests db')) = Some e"
    using assms e
    by (cases "filter (\<lambda>e. er_user_id e = Some u \<and> live_request e) (erasure_requests db)")
       (auto simp: db_request_erasure_def active_erasure_request_def stmt_bind_def query_def run_sql_def add_erasure_row_def
        require_some_def ok_or_def split: if_splits)
  show "\<exists>e0. fetch_optional (filter (\<lambda>e. er_user_id e = Some u \<and> live_request e) (erasure_requests db)) = Some e0 \<Longrightarrow>
      fetch_optional (filter (\<lambda>e. er_user_id e = Some u \<and> live_request e) (erasure_requests db)) = Some e"
    using assms by (auto simp: db_request_erasure_def active_erasure_request_def stmt_bind_def query_def split: if_splits)
qed

lemma snd_record: "erasure_requests (snd (erasure_record env aid action i db)) = erasure_requests db"
    "users (snd (erasure_record env aid action i db)) = users db"
  by (auto simp: record_admin_audit_def transaction_def append_admin_audit_def sql_def map_err_def run_sql_def Let_def
      split: prod.split sum.split)

lemma db_request_users: "users (snd (db_request_erasure now i u subject grace db)) = users db"
  by (auto simp: db_request_erasure_def active_erasure_request_def stmt_bind_def query_def run_sql_def add_erasure_row_def
      require_some_def split: option.split sum.split sql_fault.split)

lemma request_Inr:
  assumes "request_erasure env ids body db = (Inr a, db')"
  shows "\<exists>pk. erasure_signer env body ''erasure_request'' ''/account/erasure'' None = Inr pk \<and> snd a = ''pending'' \<and>
    users db' = users db \<and>
    (case fetch_optional (filter (\<lambda>r. u_nostr_pubkey r = Some pk) (users db)) of
       None \<Rightarrow> fst a = synthetic_erasure_id env pk \<and> erasure_requests db' = erasure_requests db
     | Some x \<Rightarrow> \<exists>e. fst a = uuid_to_string (ee_nostr env) (er_id e) \<and>
         fetch_optional (filter (\<lambda>e. er_user_id e = Some (u_id x) \<and> live_request e) (erasure_requests db')) = Some e \<and>
         ((\<exists>e0. fetch_optional (filter (\<lambda>e. er_user_id e = Some (u_id x) \<and> live_request e) (erasure_requests db)) = Some e0) \<longrightarrow>
           fetch_optional (filter (\<lambda>e. er_user_id e = Some (u_id x) \<and> live_request e) (erasure_requests db)) = Some e))"
proof -
  from assms obtain pk user db1 i where
    p: "prove env body ''erasure_request'' ''/account/erasure'' None db = (Inr (pk, user), db1)"
    and a: "a = (i, ''pending'')"
    and c: "(case user of
         Some u \<Rightarrow>
           stmt_bind (db_request_erasure (ee_clock env) (fst ids) (u_id u) (subject_hash env pk) (uint (ee_grace_hours env))) (\<lambda>req.
           stmt_bind (erasure_record env (snd ids) ''account_erasure_requested'' (er_id req)) (\<lambda>x.
             stmt_return (Inr (uuid_to_string (ee_nostr env) (er_id req)))))
       | None \<Rightarrow> stmt_return (Inr (synthetic_erasure_id env pk))) db1 = (Inr i, db')"
    by (auto simp: request_erasure_def stmt_bind_Inr)
  note pr = prove_Inr [OF p] and user = prove_user [OF p]
  show ?thesis
  proof (cases user)
    case None
    with c a pr(1,4,6) user show ?thesis by simp
  next
    case (Some x)
    with c obtain e db2 u where
      q: "db_request_erasure (ee_clock env) (fst ids) (u_id x) (subject_hash env pk) (uint (ee_grace_hours env)) db1 = (Inr e, db2)"
      and l: "erasure_record env (snd ids) ''account_erasure_requested'' (er_id e) db2 = (Inr u, db')"
      and i: "i = uuid_to_string (ee_nostr env) (er_id e)"
      by (auto simp: stmt_bind_Inr)
    have t: "erasure_requests db' = erasure_requests db2" "users db' = users db1"
      using snd_record [of env "snd ids" "''account_erasure_requested''" "er_id e" db2] l
        db_request_users [of "ee_clock env" "fst ids" "u_id x" "subject_hash env pk" "uint (ee_grace_hours env)" db1] q by auto
    have x: "fetch_optional (filter (\<lambda>r. u_nostr_pubkey r = Some pk) (users db)) = Some x" using user Some by simp
    from db_request_Inr [OF q] t pr(1,4,6) a i show ?thesis by (intro exI [of _ pk]) (simp add: x)
  qed
qed

text \<open>The answer to an erasure request does not tell whether the account exists: asked again by the same key,
  at whatever time and while nothing else happened to the requests, it is the same answer, with status pending,
  whether the key is linked to an account or not.\<close>

theorem erasure_request_stable:
  assumes "request_erasure env ids body db = (Inr a, db1)"
    and "request_erasure (env\<lparr>ee_clock := t\<rparr>) ids' body' db2 = (Inr b, db3)"
    and "erasure_signer (env\<lparr>ee_clock := t\<rparr>) body' ''erasure_request'' ''/account/erasure'' None =
      erasure_signer env body ''erasure_request'' ''/account/erasure'' None"
    and "users db2 = users db1" "erasure_requests db2 = erasure_requests db1"
  shows "b = a \<and> snd b = ''pending''"
proof -
  have syn: "synthetic_erasure_id (env\<lparr>ee_clock := t\<rparr>) pk = synthetic_erasure_id env pk" for pk
    by (simp add: synthetic_erasure_id_def)
  from request_Inr [OF assms(1)] request_Inr [OF assms(2)] assms(3-5) show ?thesis
    by (auto simp: syn prod_eq_iff split: option.splits)
qed

section \<open>Requests that cannot be executed\<close>

lemma delete_fails:
  assumes "r \<in> set (social_tips db)" "\<not> is_public r" "recipient_user_id r = Some u" "sender_user_id r \<noteq> u"
  shows "delete_user u db = (Inl (sql_error db (if db_outage db then ConnectionFault else ConstraintViolation)), db)"
proof -
  have "forget_user (db_now db) u r \<in> set (map (forget_user (db_now db) u) (sql_delete (\<lambda>r. sender_user_id r = u) (social_tips db)))"
    using assms by (auto simp: sql_delete_def)
  moreover have "\<not> tip_checks_ok (forget_user (db_now db) u r)" using assms by (simp add: forget_user_def tip_checks_ok_def)
  ultimately show ?thesis by (auto simp: delete_user_def Let_def list_all_iff)
qed

lemma execute_stuck:
  assumes "\<not> db_outage db" "e \<in> set (erasure_requests db)" "er_status e = ''confirmed''" "er_user_id e = Some u"
    and "distinct (map er_id (erasure_requests db))"
    and "r \<in> set (social_tips db)" "\<not> is_public r" "recipient_user_id r = Some u" "sender_user_id r \<noteq> u"
  shows "\<exists>f. execute_erasure lib now aid (er_id e) purge secret db = (Inl f, db)"
proof (cases "execute_erasure lib now aid (er_id e) purge secret db")
  case (Pair x db')
  have "x \<noteq> Inr True"
  proof
    assume "x = Inr True"
    with Pair obtain e' v db1 db2 db3 db4 y z w where
      s: "e' \<in> set (erasure_requests db)" "er_id e' = er_id e" "er_user_id e' = Some v"
        "db1 = db\<lparr>erasure_requests := sql_update (\<lambda>x. er_id x = er_id e \<and> er_status x = ''confirmed'') (set_completed (db_now db))
         (erasure_requests db)\<rparr>"
        "forget_logins purge v db1 = (Inr y, db2)" "scrub_audit v db2 = (Inr z, db3)" "delete_user v db3 = (Inr w, db4)"
      by (auto elim: execute_Inr)
    from s(1,2) assms(2,5) have "e' = e" by (simp add: distinct_map inj_on_def)
    with s(3) assms(4) have "v = u" by simp
    moreover have "social_tips db3 = social_tips db"
      by (subst scrub_audit_Inr [OF s(6)], simp, subst forget_logins_Inr [OF s(5)], simp add: s(4))
    ultimately show False using delete_fails [of r db3 u] assms(6-9) s(7) by simp
  qed
  moreover have "x \<noteq> Inr False"
  proof -
    have "fetch_optional (filter (\<lambda>x. er_id x = er_id e \<and> er_status x = ''confirmed'') (erasure_requests db)) = Some e"
      using unique_row [of er_id "erasure_requests db" e "\<lambda>x. er_status x = ''confirmed''"] assms(2,3,5) by simp
    then have "claim_erasure (er_id e) db = (Inr (Some (set_completed (db_now db) e)), snd (claim_erasure (er_id e) db))"
      using assms(1) by (cases "filter (\<lambda>x. er_id x = er_id e \<and> er_status x = ''confirmed'') (erasure_requests db)")
        (auto simp: claim_erasure_def update_erasure_def sql_def map_err_def run_sql_def sql_returning_def)
    then have "stmt_bind (claim_erasure (er_id e)) (\<lambda>claimed. case Option.bind claimed er_user_id of
          None \<Rightarrow> stmt_return (Inr False) | Some u \<Rightarrow> erase_account lib now aid (er_id e) purge secret u) db =
        erase_account lib now aid (er_id e) purge secret u (snd (claim_erasure (er_id e) db))"
      using assms(4) by (subst stmt_bind_at(1) [where x = "Some (set_completed (db_now db) e)"]) (auto simp: set_completed_def)
    moreover have "erase_account lib now aid (er_id e) purge secret u db2 \<noteq> (Inr False, db3)" for db2 db3
      by (auto simp: erase_account_def stmt_bind_Inr)
    ultimately show ?thesis using Pair by (auto simp: execute_erasure_def split: prod.splits sum.splits bool.splits)
  qed
  ultimately obtain f where "x = Inl f" by (cases x) auto
  with Pair execute_false [OF Pair] show ?thesis by auto
qed

text \<open>A request whose account cannot be deleted blocks the sweep: when the earliest due requests, as many as one
  sweep takes, all belong to recipients of targeted tips, the sweep erases nobody and changes nothing, however many
  other requests are due; and so does every sweep after it.\<close>

theorem stuck_erasures_block_the_sweep:
  assumes "\<not> db_outage db" "distinct (map er_id (erasure_requests db))"
    and "\<forall>e \<in> set (take batch (order_asc er_scheduled_for (filter (due (db_now db)) (erasure_requests db)))).
      \<exists>u. er_user_id e = Some u \<and>
        list_ex (\<lambda>r. \<not> is_public r \<and> recipient_user_id r = Some u \<and> sender_user_id r \<noteq> u) (social_tips db)"
  shows "run_erasure_sweep env aids batch db = (Inr 0, db)"
proof -
  have all: "execute_all env aids reqs db = (Inr 0, db)"
    if "\<forall>e \<in> set reqs. e \<in> set (erasure_requests db) \<and> er_status e = ''confirmed'' \<and> (\<exists>u. er_user_id e = Some u \<and>
        list_ex (\<lambda>r. \<not> is_public r \<and> recipient_user_id r = Some u \<and> sender_user_id r \<noteq> u) (social_tips db))" for reqs
    using that
  proof (induction reqs arbitrary: aids)
    case (Cons q reqs)
    then obtain u r where "q \<in> set (erasure_requests db)" "er_status q = ''confirmed''" "er_user_id q = Some u"
      "r \<in> set (social_tips db)" "\<not> is_public r" "recipient_user_id r = Some u" "sender_user_id r \<noteq> u"
      by (auto simp: list_ex_iff)
    from execute_stuck [OF assms(1) this(1-3) assms(2) this(4-7)] obtain f where
      "execute_erasure (ee_lib env) (ee_clock env) (aids 0) (er_id q) (ee_purge_login_events env) (ee_secret env) db = (Inl f, db)"
      by blast
    with Cons show ?case by simp
  qed simp
  let ?due = "take batch (order_asc er_scheduled_for (filter (due (db_now db)) (erasure_requests db)))"
  have "e \<in> set (erasure_requests db) \<and> er_status e = ''confirmed''" if "e \<in> set ?due" for e
    using in_set_takeD [OF that] by (auto simp: due_def)
  with assms(3) have "execute_all env aids ?due db = (Inr 0, db)" by (intro all) blast
  with assms(1) show ?thesis by (simp add: run_erasure_sweep_def stmt_bind_def due_erasure_requests_def query_def)
qed

section \<open>Witnesses\<close>

definition leaver_event :: nip98_event where
  "leaver_event =
     \<lparr>ev_id = ''h'', ev_pubkey = ''leaver'', ev_created_at = 2, ev_kind = NIP98_KIND,
      ev_tags = [[''u'', ''http://a/account/erasure/x/confirm''], [''method'', ''POST''], [''purpose'', ''erasure_confirm''],
        [''challenge'', ''h''], [''payload'', ''h''], [''erasure_id'', ''x'']],
      ev_content = [], ev_sig = ''sig''\<rparr>"

definition leaver_request_event :: nip98_event where
  "leaver_request_event = leaver_event\<lparr>ev_tags := [[''u'', ''http://a/account/erasure''], [''method'', ''POST''],
     [''purpose'', ''erasure_request''], [''challenge'', ''h''], [''payload'', ''h'']]\<rparr>"

definition leaver_nostr :: nostr_lib where
  "leaver_nostr = demo_admin_nostr
     \<lparr>uuid_to_string := (\<lambda>u. replicate (unat u) (CHR ''x'')),
      b64_decode := (\<lambda>s. if s = ''conf'' then Some [1] else if s = ''req'' then Some [2] else None),
      json_event := (\<lambda>raw. Some (if raw = [1] then leaver_event else leaver_request_event))\<rparr>"

definition leaver_env :: erasure_env where
  "leaver_env =
     \<lparr>ee_lib = demo_mac, ee_nostr = leaver_nostr, ee_enabled = True, ee_public_api_url = Some ''http://a'', ee_grace_hours = 0,
      ee_purge_login_events = True, ee_secret = ''s'', ee_clock = seconds 2\<rparr>"

definition leaver :: user_row where
  "leaver =
     \<lparr>u_id = 1, u_username = None, u_pubkey_hash = None, u_nostr_pubkey = Some ''leaver'', u_wallet_birthday = None,
      u_seed_fingerprint = None, u_xmr_start_height = None, u_wow_start_height = None, u_created_at = 0, u_updated_at = 0,
      u_last_seen_at = None, u_premium_until = None\<rparr>"

definition leaver_db :: "string \<Rightarrow> database" where
  "leaver_db purpose = (empty_database (seconds 2) (\<lambda>f. []))\<lparr>users := [leaver],
     erasure_requests := [new_erasure_row 0 1 1 ''h'' 0],
     challenges := [\<lparr>c_nonce = ''h'', c_purpose = purpose, c_subject = None, c_created_at = 0, c_expires_at = seconds 300\<rparr>]\<rparr>"

abbreviation leaver_op :: erasure_op where
  "leaver_op \<equiv> ErasureConfirm 9 1 \<lparr>pr_token = ''Nostr conf'', pr_nonce = ''h''\<rparr>"

definition leaver_confirmed :: database where
  "leaver_confirmed = serve_erasure leaver_env leaver_op (leaver_db ''erasure_confirm'')"

lemma leaver_confirmed_rows: "erasure_requests leaver_confirmed = [set_confirmed (seconds 2) (seconds 2) (new_erasure_row 0 1 1 ''h'' 0)]"
  by code_simp

theorem erasure_confirmed_by_owner_witness:
  "\<exists>body pk x. erasure_signer leaver_env body ''erasure_confirm'' ''/account/erasure/x/confirm'' (Some (''erasure_id'', ''x'')) = Inr pk \<and>
    x \<in> set (users (leaver_db ''erasure_confirm'')) \<and> u_nostr_pubkey x = Some pk \<and> u_id x = 1"
proof -
  let ?e = "set_confirmed (seconds 2) (seconds 2) (new_erasure_row 0 1 1 ''h'' 0)"
  have "?e \<in> set (erasure_requests (serve_erasure leaver_env leaver_op (leaver_db ''erasure_confirm'')))"
    using leaver_confirmed_rows by (simp add: leaver_confirmed_def)
  moreover have "?e \<notin> set (erasure_requests (leaver_db ''erasure_confirm''))" "er_status ?e = ''confirmed''" "er_user_id ?e = Some 1"
    "er_id ?e = 1" "uuid_to_string (ee_nostr leaver_env) 1 = ''x''"
    by code_simp+
  ultimately show ?thesis using erasure_confirmed_by_owner [of ?e leaver_env leaver_op "leaver_db ''erasure_confirm''" 1] by auto
qed

theorem sweep_erases_only_due_witness:
  "\<exists>e \<in> set (erasure_requests leaver_confirmed). er_user_id e = Some (u_id leaver) \<and> er_status e = ''confirmed'' \<and>
    er_scheduled_for e \<le> db_now leaver_confirmed"
proof (rule sweep_erases_only_due)
  show "distinct (map er_id (erasure_requests leaver_confirmed))" by (simp add: leaver_confirmed_rows)
  show "leaver \<in> set (users leaver_confirmed)"
    "leaver \<notin> set (users (snd (run_erasure_sweep leaver_env (\<lambda>n. 7) 50 leaver_confirmed)))" by code_simp+
qed

theorem erasure_leaves_no_trace_witness:
  "\<exists>u. (\<exists>e \<in> set (erasure_requests leaver_confirmed). er_user_id e = Some u) \<and>
     \<not> mentions u (snd (execute_erasure demo_mac (seconds 2) 7 1 True ''s'' leaver_confirmed))"
proof -
  have "fst (execute_erasure demo_mac (seconds 2) 7 1 True ''s'' leaver_confirmed) = Inr True" by code_simp
  then have "execute_erasure demo_mac (seconds 2) 7 1 True ''s'' leaver_confirmed =
      (Inr True, snd (execute_erasure demo_mac (seconds 2) 7 1 True ''s'' leaver_confirmed))" by (simp add: prod_eq_iff)
  from erasure_leaves_no_trace [OF this] show ?thesis by blast
qed

theorem erasure_request_stable_witness:
  "fst (request_erasure (leaver_env\<lparr>ee_clock := seconds 3\<rparr>) (5, 6) \<lparr>pr_token = ''Nostr req'', pr_nonce = ''h''\<rparr>
      ((snd (request_erasure leaver_env (3, 4) \<lparr>pr_token = ''Nostr req'', pr_nonce = ''h''\<rparr> (leaver_db ''erasure_request'')))
        \<lparr>challenges := challenges (leaver_db ''erasure_request'')\<rparr>)) = Inr (''x'', ''pending'')"
proof -
  let ?body = "\<lparr>pr_token = ''Nostr req'', pr_nonce = ''h''\<rparr>"
  let ?db1 = "snd (request_erasure leaver_env (3, 4) ?body (leaver_db ''erasure_request''))"
  let ?db2 = "?db1\<lparr>challenges := challenges (leaver_db ''erasure_request'')\<rparr>"
  have a: "fst (request_erasure leaver_env (3, 4) ?body (leaver_db ''erasure_request'')) = Inr (''x'', ''pending'')" by code_simp
  have b: "\<not> isl (fst (request_erasure (leaver_env\<lparr>ee_clock := seconds 3\<rparr>) (5, 6) ?body ?db2))" by code_simp
  have s: "erasure_signer (leaver_env\<lparr>ee_clock := seconds 3\<rparr>) ?body ''erasure_request'' ''/account/erasure'' None =
      erasure_signer leaver_env ?body ''erasure_request'' ''/account/erasure'' None" by code_simp
  from b obtain y where y: "fst (request_erasure (leaver_env\<lparr>ee_clock := seconds 3\<rparr>) (5, 6) ?body ?db2) = Inr y"
    by (metis sum.collapse(2))
  have "y = (''x'', ''pending'')"
    using erasure_request_stable [of leaver_env "(3, 4)" ?body "leaver_db ''erasure_request''" "(''x'', ''pending'')" ?db1 "seconds 3"
        "(5, 6)" ?body ?db2 y "snd (request_erasure (leaver_env\<lparr>ee_clock := seconds 3\<rparr>) (5, 6) ?body ?db2)"] a y s
    by (simp add: prod_eq_iff)
  with y show ?thesis by simp
qed

definition gift :: social_tip_row where
  "gift =
     \<lparr>row_id = 5, sender_user_id = 2, asset = ''btc'', amount = 1, is_public = False, claim_key_hash = None,
      encrypted_key = Some [1], tip_address = None, funding_txid = None, status = ''draft'', funding_confirmations = 0,
      funding_confirmed_at = None, last_confirmation_check = None, confirmations_required = 1,
      funding_amount_verified = False, funding_amount_observed = None, funding_amount_verified_at = None, claimed_at = None,
      claimed_by_user_id = None, clawed_back_at = None, sweep_txid = None, sweep_confirmed_at = None,
      sweep_block_height = None, sweep_block_hash = None, sweep_confirmed_dm_sent_at = None, reorg_notified_at = None,
      tip_view_key = None, lws_registered_at = None, lws_deactivated_at = None, created_at = 0, updated_at = 0,
      grin_commitment = None, recipient_user_id = Some 1\<rparr>"

text \<open>The first request belongs to the recipient of a draft; the second, by somebody else, waits behind it.\<close>

definition queue_of_two :: database where
  "queue_of_two = (empty_database (seconds 2) (\<lambda>f. []))\<lparr>users := [leaver, leaver\<lparr>u_id := 3, u_nostr_pubkey := None\<rparr>],
     erasure_requests := [set_confirmed 0 1 (new_erasure_row 0 1 1 ''h'' 0), set_confirmed 0 2 (new_erasure_row 0 2 3 ''g'' 0)],
     social_tips := [gift]\<rparr>"

lemma queue_of_two_rows:
  "\<not> db_outage queue_of_two" "distinct (map er_id (erasure_requests queue_of_two))" "social_tips queue_of_two = [gift]"
  "map er_user_id (take 1 (order_asc er_scheduled_for (filter (due (db_now queue_of_two)) (erasure_requests queue_of_two)))) = [Some 1]"
  by code_simp+

theorem stuck_erasures_block_the_sweep_witness:
  "run_erasure_sweep leaver_env (\<lambda>n. 7) 1 queue_of_two = (Inr 0, queue_of_two)"
proof (rule stuck_erasures_block_the_sweep [OF queue_of_two_rows(1,2)], rule ballI)
  fix e
  assume "e \<in> set (take 1 (order_asc er_scheduled_for (filter (due (db_now queue_of_two)) (erasure_requests queue_of_two))))"
  then have "er_user_id e \<in> {Some 1}" using queue_of_two_rows(4) by (metis imageI list.set(1,2) set_map)
  then show "\<exists>u. er_user_id e = Some u \<and>
      list_ex (\<lambda>r. \<not> is_public r \<and> recipient_user_id r = Some u \<and> sender_user_id r \<noteq> u) (social_tips queue_of_two)"
    by (simp add: queue_of_two_rows(3) gift_def)
qed

end
