(* ===== verification/Config.thy ===== *)
theory Config
  imports Premium Admin_Api
begin

text \<open>
  \<open>src/src/config.rs\<close>: the configuration tree, the restore policy and the validation that every
  start and every operator edit runs. The parts other components use (\<open>pow_config\<close>, \<open>payment_config\<close>,
  \<open>admin_config\<close>, \<open>relay_config\<close>, \<open>premium_config\<close>) are extended here by the fields only the
  validation reads, so that a component's configuration is the truncation of the one validated here.

  The \<open>url\<close> and \<open>ipnetwork\<close> crates and the resolver behind \<open>to_socket_addrs\<close> are the record \<open>net_lib\<close>.
  Logged warnings are left out.
\<close>

section \<open>Text helpers\<close>

text \<open>\<open>Debug\<close> of a string: quoted, with quotes, backslashes and control characters escaped.\<close>

fun hex_number :: "nat \<Rightarrow> string" where
  "hex_number n = (if n < 16 then [hex_digit n] else hex_number (n div 16) @ [hex_digit (n mod 16)])"

declare hex_number.simps [simp del]

definition char_debug :: "char \<Rightarrow> string" where
  "char_debug c =
     (let n = (of_char c :: nat) in
      if n = 0 then [CHR 0x5C, CHR ''0'']
      else if n = 9 then [CHR 0x5C, CHR ''t'']
      else if n = 10 then [CHR 0x5C, CHR ''n'']
      else if n = 13 then [CHR 0x5C, CHR ''r'']
      else if n = 34 \<or> n = 92 then [CHR 0x5C, c]
      else if n < 32 \<or> n = 127 then [CHR 0x5C, CHR ''u'', CHR 0x7B] @ hex_number n @ [CHR 0x7D]
      else [c])"

definition str_debug :: "string \<Rightarrow> string" where
  "str_debug s = [CHR 0x22] @ concat (map char_debug s) @ [CHR 0x22]"

fun str_join :: "string \<Rightarrow> string list \<Rightarrow> string" where
  "str_join sep [] = []"
| "str_join sep [s] = s"
| "str_join sep (s # t # ss) = s @ sep @ str_join sep (t # ss)"

definition starts_with :: "string \<Rightarrow> string \<Rightarrow> bool" where
  "starts_with p s \<longleftrightarrow> strip_prefix p s \<noteq> None"

definition PLACEHOLDERS :: "string list" where
  "PLACEHOLDERS =
     [''change_me'', ''changeme'', ''your-'', ''example'', ''placeholder'', ''dev-'', ''xxxx'', ''0000000000'']"

definition looks_placeholder :: "string \<Rightarrow> bool" where
  "looks_placeholder s \<longleftrightarrow> list_ex (\<lambda>p. str_contains p (to_lowercase s)) PLACEHOLDERS"

fun positive_decimal_from :: "bool \<Rightarrow> bool \<Rightarrow> bool \<Rightarrow> string \<Rightarrow> bool" where
  "positive_decimal_from seen_dot seen_digit seen_nonzero [] \<longleftrightarrow> seen_digit \<and> seen_nonzero"
| "positive_decimal_from seen_dot seen_digit seen_nonzero (c # cs) \<longleftrightarrow>
     (if is_ascii_digit c then positive_decimal_from seen_dot True (seen_nonzero \<or> c \<noteq> CHR ''0'') cs
      else if c = CHR ''.'' \<and> \<not> seen_dot then positive_decimal_from True seen_digit seen_nonzero cs
      else False)"

definition is_positive_decimal :: "string \<Rightarrow> bool" where
  "is_positive_decimal s \<longleftrightarrow> positive_decimal_from False False False s"

section \<open>Addresses\<close>

datatype ip_addr = V4 "32 word" | V6 "128 word"

definition ip_is_loopback :: "ip_addr \<Rightarrow> bool" where
  "ip_is_loopback a = (case a of V4 w \<Rightarrow> drop_bit 24 w = 127 | V6 w \<Rightarrow> w = 1)"

datatype url_host = Domain string | Ipv4 "32 word" | Ipv6 "128 word"

record parsed_url =
  pu_scheme :: string
  pu_host :: "url_host option"
  pu_host_str :: "string option"

type_synonym ip_network = "ip_addr \<times> nat"

record net_lib =
  url_parse :: "string \<Rightarrow> parsed_url option"
  to_socket_addrs :: "string \<Rightarrow> ip_addr list option"
  ip_network_from_str :: "string \<Rightarrow> ip_network option"
  ip_addr_from_str :: "string \<Rightarrow> ip_network option"

definition is_loopback_url :: "net_lib \<Rightarrow> string \<Rightarrow> bool" where
  "is_loopback_url lib s =
     (case Option.bind (url_parse lib s) pu_host of
        Some (Ipv4 ip) \<Rightarrow> ip_is_loopback (V4 ip)
      | Some (Ipv6 ip) \<Rightarrow> ip_is_loopback (V6 ip)
      | Some (Domain d) \<Rightarrow> eq_ignore_ascii_case d ''localhost''
      | None \<Rightarrow> False)"

section \<open>The tree\<close>

datatype deployment_mode = SingleInstance | Fleet

datatype restart_apply_mode = Manual | Auto

definition restart_apply_mode_as_str :: "restart_apply_mode \<Rightarrow> string" where
  "restart_apply_mode_as_str m = (case m of Manual \<Rightarrow> ''manual'' | Auto \<Rightarrow> ''auto'')"

record console_config =
  co_restart_apply_mode :: restart_apply_mode

record auth_settings =
  st_jwt_secret :: string
  st_jwt_expiry_hours :: u64

record identity_config =
  id_public_api_url :: "string option"
  id_nip05_domain :: "string option"

record secret_config =
  sx_seed_fingerprint_pepper :: string
  sx_refresh_token_pepper :: string
  sx_ip_salt :: string

record rate_limit_config =
  rl_strict_period_ms :: u64
  rl_strict_burst :: u32
  rl_normal_period_ms :: u64
  rl_normal_burst :: u32

definition rate_limit_default :: rate_limit_config where
  "rate_limit_default =
     \<lparr>rl_strict_period_ms = 500, rl_strict_burst = 20, rl_normal_period_ms = 100, rl_normal_burst = 60\<rparr>"

definition SUPPORTED_PRICE_ASSETS :: "string list" where
  "SUPPORTED_PRICE_ASSETS = [''btc'', ''ltc'', ''xmr'', ''wow'', ''grin'']"

definition SUPPORTED_PRICE_CURRENCIES :: "string list" where
  "SUPPORTED_PRICE_CURRENCIES = [''usd'', ''eur'', ''gbp'', ''jpy'', ''cny'', ''aud'', ''cad'', ''chf'', ''btc'']"

record chain_flags =
  fl_btc :: bool
  fl_ltc :: bool
  fl_xmr :: bool
  fl_wow :: bool
  fl_grin :: bool

record feature_flags =
  ft_chains :: chain_flags
  ft_prices :: bool
  ft_prices_provider :: string
  ft_prices_interval_secs :: u64
  ft_prices_assets :: "string list"
  ft_prices_currency :: string
  ft_tips :: bool
  ft_targeted_tips :: bool
  ft_nostr_identity :: bool
  ft_grin_relay :: bool

record utxo_config =
  ux_network :: string
  ux_electrum_primary :: "string option"
  ux_electrum_fallbacks :: "string list"
  ux_electrum_strict_tls :: bool

record lws_config =
  lw_lws_url :: string
  lw_lws_admin_url :: string
  lw_lws_admin_key :: string
  lw_daemon_url :: string

record grin_config =
  gn_owner_api_url :: string
  gn_owner_api_secret :: string
  gn_wallet_password :: string
  gn_foreign_api_url :: string
  gn_node_api_url :: string
  gn_node_api_user :: string
  gn_node_api_pass :: string
  gn_node_foreign_api_url :: string
  gn_node_foreign_api_secret :: string

record grin_lws_config =
  gl_url :: string
  gl_admin_url :: "string option"
  gl_admin_key :: string

record chain_config =
  cc_btc :: utxo_config
  cc_ltc :: utxo_config
  cc_xmr :: lws_config
  cc_wow :: lws_config
  cc_grin :: grin_config
  cc_grin_lws :: grin_lws_config

record pow_settings = pow_config +
  pow_cost :: u64

record admin_settings = admin_config +
  am_enabled :: bool
  am_bind :: string
  am_jwt_secret :: string
  am_pubkeys :: "string list"
  am_allow_public_bind :: bool

record landing_config =
  la_enabled :: bool
  la_title :: "string option"
  la_expose_version :: bool
  la_expose_chains :: bool
  la_expose_price_feed :: bool
  la_expose_uptime :: bool
  la_stats_enabled :: bool
  la_stats_cache_hours :: u64
  la_stats_min_users :: i64

record retention_config =
  re_login_events_days :: u64
  re_audit_days :: u64
  re_erasure_enabled :: bool
  re_purge_login_events :: bool
  re_export_per_day :: u32
  re_grace_period_hours :: u64

datatype restore_policy = CreateOnly | Bounded | Unlimited

definition restore_policy_as_str :: "restore_policy \<Rightarrow> string" where
  "restore_policy_as_str p =
     (case p of CreateOnly \<Rightarrow> ''create-only'' | Bounded \<Rightarrow> ''bounded'' | Unlimited \<Rightarrow> ''unlimited'')"

record restore_config =
  rs_policy :: restore_policy
  rs_max_depth_days :: u32
  rs_pow_free_days :: u32
  rs_pow_days_per_bit :: u32
  rs_pow_max_bits :: u32

definition gate_mode_as_str :: "gate_mode \<Rightarrow> string" where
  "gate_mode_as_str m = (case m of GateAll \<Rightarrow> ''all'' | GateAny \<Rightarrow> ''any'')"

definition gate_mode_from_env_str :: "string \<Rightarrow> gate_mode" where
  "gate_mode_from_env_str s = (if eq_ignore_ascii_case s ''any'' then GateAny else GateAll)"

record payment_settings = payment_config +
  pay_provider :: string
  pay_provider_url :: string
  pay_store_id :: string
  pay_api_key :: string

record registration_config =
  rg_require_invite :: bool
  rg_payment :: payment_settings
  rg_gate_mode :: gate_mode

record payment_rail_config =
  pl_kind :: string
  pl_asset :: string
  pl_provider_url :: string
  pl_store_id :: string
  pl_api_key :: string

record premium_settings = premium_config +
  pm_primary_assets :: "string list"
  pm_rails :: "payment_rail_config list"

record relay_settings = relay_config +
  ry_admission_bind :: string
  ry_admission_allow_public :: bool
  ry_retention_days :: u32

record messaging_config =
  ms_relay :: relay_settings
  ms_nip05_interop_hints :: bool
  ms_nip05_extra_relay_hints :: "string list"

record feed_config =
  fd_enabled :: bool
  fd_show_owner :: bool
  fd_show_premium :: bool
  fd_owner_npub :: string
  fd_allowlist_npubs :: "string list"
  fd_extra_relays :: "string list"

record config =
  cf_server_host :: string
  cf_server_port :: u16
  cf_deployment_mode :: deployment_mode
  cf_environment :: string
  cf_database_url :: string
  cf_legacy_database_url :: "string option"
  cf_tip_share_base :: "string option"
  cf_auth :: auth_settings
  cf_identity :: identity_config
  cf_secrets :: secret_config
  cf_trusted_proxies :: "ip_network list"
  cf_rate_limit :: rate_limit_config
  cf_cors_allowed_origins :: "string list"
  cf_features :: feature_flags
  cf_chains :: chain_config
  cf_pow :: pow_settings
  cf_admin :: admin_settings
  cf_landing :: landing_config
  cf_retention :: retention_config
  cf_restore :: restore_config
  cf_registration :: registration_config
  cf_messaging :: messaging_config
  cf_premium :: premium_settings
  cf_feed :: feed_config
  cf_console :: console_config

definition is_production :: "config \<Rightarrow> bool" where
  "is_production c \<longleftrightarrow> cf_environment c = ''production''"

section \<open>The restore policy\<close>

definition u64_saturating_mul :: "u64 \<Rightarrow> u64 \<Rightarrow> u64" where
  "u64_saturating_mul a b = (if uint a * uint b < 2 ^ 64 then a * b else - 1)"

definition blocks_per_day :: "string \<Rightarrow> u64" where
  "blocks_per_day chain =
     (if chain = ''xmr'' \<or> chain = ''wow'' then 720
      else if chain = ''grin'' then 1440
      else if chain = ''btc'' then 144
      else if chain = ''ltc'' then 576
      else 720)"

definition min_start_height :: "restore_config \<Rightarrow> string \<Rightarrow> u64 \<Rightarrow> u64" where
  "min_start_height r chain tip =
     (case rs_policy r of
        Unlimited \<Rightarrow> 0
      | CreateOnly \<Rightarrow> u64_saturating_sub tip (u64_saturating_mul 1 (blocks_per_day chain))
      | Bounded \<Rightarrow> u64_saturating_sub tip (u64_saturating_mul (ucast (rs_max_depth_days r)) (blocks_per_day chain)))"

text \<open>The last branch is unreachable in the source; \<open>None\<close> stands for the panic.\<close>

definition restore_enforce :: "restore_config \<Rightarrow> string \<Rightarrow> u64 \<Rightarrow> u64 \<Rightarrow> unit result option" where
  "restore_enforce r chain start_height tip =
     (if rs_policy r = Unlimited \<or> start_height \<ge> min_start_height r chain tip then Some (Inr ())
      else case rs_policy r of
        CreateOnly \<Rightarrow> Some (Inl (ValidationError
          (''this instance accepts new-wallet registration only (create-only); a restore '' @
           ''scan from an earlier height is not permitted here'')))
      | Bounded \<Rightarrow> Some (Inl (ValidationError
          (''restore depth exceeds this instance'' @ quote @ ''s limit of '' @
           int_to_string (uint (rs_max_depth_days r)) @ '' days'')))
      | Unlimited \<Rightarrow> None)"

definition required_restore_pow_bits :: "restore_config \<Rightarrow> string \<Rightarrow> u64 \<Rightarrow> u64 \<Rightarrow> u32" where
  "required_restore_pow_bits r chain start_height tip =
     (if rs_pow_days_per_bit r = 0 then 0
      else
        let depth_days = u64_saturating_sub tip start_height div max (blocks_per_day chain) 1;
            over = u64_saturating_sub depth_days (ucast (rs_pow_free_days r))
        in min (ucast (over div ucast (rs_pow_days_per_bit r))) (rs_pow_max_bits r))"

definition enforce_restore_pow ::
    "'a proof_lib_scheme \<Rightarrow> restore_config \<Rightarrow> string \<Rightarrow> string \<Rightarrow> u64 \<Rightarrow> u64 \<Rightarrow> u64 option \<Rightarrow> unit result" where
  "enforce_restore_pow lib r chain address start_height tip nonce =
     (let bits = required_restore_pow_bits r chain start_height tip in
      if bits = 0 then Inr ()
      else
        try_bind (ok_or nonce (ValidationError
            (''this restore depth requires a '' @ int_to_string (uint bits) @
             ''-bit proof-of-work nonce; upgrade to a newer Smirk client''))) (\<lambda>n.
          ensure (restore_pow_verify lib chain address start_height n (unat bits))
            (ValidationError ''restore proof-of-work is insufficient for the requested depth'')))"

section \<open>Validation\<close>

abbreviation cfg_err :: "string \<Rightarrow> app_error" where
  "cfg_err \<equiv> ConfigError"

text \<open>Checks in a row, each followed by \<open>?\<close>: the first failure is the result.\<close>

fun all_ok :: "unit result list \<Rightarrow> unit result" where
  "all_ok [] = Inr ()"
| "all_ok (r # rs) = try_bind r (\<lambda>_. all_ok rs)"

definition check_when :: "bool \<Rightarrow> unit result list \<Rightarrow> unit result" where
  "check_when b rs = (if b then all_ok rs else Inr ())"

definition require_secret :: "bool \<Rightarrow> string \<Rightarrow> string \<Rightarrow> nat \<Rightarrow> unit result" where
  "require_secret in_prod name val n =
     (if length val < n
      then Inl (cfg_err (name @ '' must be set and at least '' @ nat_to_string n @ '' bytes''))
      else if in_prod \<and> looks_placeholder val
      then Inl (cfg_err (name @ '' looks like a placeholder; set a real value''))
      else Inr ())"

definition CHECKOUT_RAILS :: "(string \<times> string \<times> string) list" where
  "CHECKOUT_RAILS =
     [(''xmrcheckout'', ''XMR'', ''PAYMENT_XMRCHECKOUT''), (''wowcheckout'', ''WOW'', ''PAYMENT_WOWCHECKOUT'')]"

definition rail_prefix :: "payment_rail_config \<Rightarrow> string" where
  "rail_prefix rail =
     (case find (\<lambda>(k, a, p). k = pl_kind rail) CHECKOUT_RAILS of
        Some (k, a, p) \<Rightarrow> p
      | None \<Rightarrow> ''PAYMENT_RAIL'')"

definition validate_rail :: "net_lib \<Rightarrow> payment_rail_config \<Rightarrow> bool \<Rightarrow> unit result" where
  "validate_rail lib rail in_prod =
     (let prefix = rail_prefix rail in
      all_ok
        [ensure (\<not> (trim (pl_provider_url rail) = [] \<or> trim (pl_store_id rail) = []))
           (cfg_err (prefix @ ''_URL and '' @ prefix @ ''_STORE_ID must both be set to enable the '' @ pl_kind rail @
              '' rail, or '' @ prefix @ ''_* left entirely unset'')),
         ensure (\<not> (in_prod \<and> \<not> starts_with ''https://'' (pl_provider_url rail) \<and> \<not> is_loopback_url lib (pl_provider_url rail)))
           (cfg_err (prefix @ ''_URL must be https:// in production (loopback exempt)'')),
         ensure (\<not> length (pl_api_key rail) < 8) (cfg_err (prefix @ ''_API_KEY must be set and at least 8 bytes'')),
         ensure (\<not> (in_prod \<and> looks_placeholder (pl_api_key rail)))
           (cfg_err (prefix @ ''_API_KEY looks like a placeholder; set a real value''))])"

definition validate_rate_limit :: "config \<Rightarrow> unit result" where
  "validate_rate_limit c =
     (let r = cf_rate_limit c in
      all_ok
        [ensure (\<not> (rl_strict_period_ms r = 0 \<or> rl_normal_period_ms r = 0))
           (cfg_err ''RATE_LIMIT_*_PERIOD_MS must be >= 1 (milliseconds per replenished token)''),
         ensure (\<not> (rl_strict_burst r = 0 \<or> rl_normal_burst r = 0))
           (cfg_err ''RATE_LIMIT_*_BURST must be >= 1'')])"

definition validate_secrets :: "config \<Rightarrow> unit result" where
  "validate_secrets c =
     (let in_prod = is_production c in
      all_ok
        [require_secret in_prod ''JWT_SECRET'' (st_jwt_secret (cf_auth c)) 32,
         require_secret in_prod ''SEED_FINGERPRINT_PEPPER'' (sx_seed_fingerprint_pepper (cf_secrets c)) 32,
         require_secret in_prod ''REFRESH_TOKEN_PEPPER'' (sx_refresh_token_pepper (cf_secrets c)) 32,
         require_secret in_prod ''IP_SALT'' (sx_ip_salt (cf_secrets c)) 16])"

definition validate_restore :: "config \<Rightarrow> unit result" where
  "validate_restore c =
     ensure (\<not> (rs_policy (cf_restore c) = Bounded \<and> rs_max_depth_days (cf_restore c) = 0))
       (cfg_err ''WALLET_MAX_RESTORE_DEPTH_DAYS must be > 0 when WALLET_RESTORE_POLICY=bounded'')"

definition validate_nostr :: "net_lib \<Rightarrow> config \<Rightarrow> unit result" where
  "validate_nostr lib c =
     (if \<not> ft_nostr_identity (cf_features c) then Inr ()
      else
        try_bind (ok_or (id_public_api_url (cf_identity c))
            (cfg_err ''PUBLIC_API_URL is required when FEATURE_NOSTR_IDENTITY is on'')) (\<lambda>url.
        try_bind (ok_or (url_parse lib url) (cfg_err ''PUBLIC_API_URL must be an absolute URL'')) (\<lambda>parsed.
          all_ok
            [ensure (\<not> (is_production c \<and> pu_scheme parsed \<noteq> ''https''))
               (cfg_err ''PUBLIC_API_URL must be https in production''),
             ensure (\<not> (is_production c \<and> looks_placeholder url))
               (cfg_err ''PUBLIC_API_URL looks like a placeholder; set your own domain'')])))"

definition validate_pow :: "config \<Rightarrow> unit result" where
  "validate_pow c =
     (let p = cf_pow c in
      all_ok
        [check_when (pow_enabled p) [require_secret (is_production c) ''ALTCHA_HMAC_KEY'' (pow_hmac_key p) 32],
         ensure (\<not> (\<not> pow_enabled p \<and> (pow_required p \<or> pow_required_for_pubkeys p \<noteq> [])))
           (cfg_err (''POW_REQUIRED (or TEST_POW_REQUIRED_FOR_PUBKEYS) is set but FEATURE_POW is off '' @ em_dash @
              '' the PoW gate would never apply; set FEATURE_POW=true''))])"

definition validate_admin :: "net_lib \<Rightarrow> config \<Rightarrow> unit result" where
  "validate_admin lib c =
     (let a = cf_admin c; in_prod = is_production c in
      check_when (am_enabled a)
        [require_secret in_prod ''ADMIN_JWT_SECRET'' (am_jwt_secret a) 32,
         require_secret in_prod ''ADMIN_KEY_INTEGRITY_SECRET'' (key_integrity_secret a) 32,
         ensure (url_parse lib (admin_public_url a) \<noteq> None) (cfg_err ''ADMIN_PUBLIC_URL must be an absolute URL'')])"

definition validate_price_asset :: "string \<Rightarrow> unit result" where
  "validate_price_asset a =
     ensure (a \<in> set SUPPORTED_PRICE_ASSETS)
       (cfg_err (''PRICES_ASSETS contains unsupported asset '' @ str_debug a @ ''; supported: '' @
          str_join '', '' SUPPORTED_PRICE_ASSETS))"

definition validate_prices :: "config \<Rightarrow> unit result" where
  "validate_prices c =
     (let f = cf_features c in
      check_when (ft_prices f)
        [ensure (ft_prices_provider f \<in> {''neroswap'', ''coingecko'', ''kraken''})
           (cfg_err (''PRICES_PROVIDER '' @ str_debug (ft_prices_provider f) @
              '' is not supported; supported: neroswap, coingecko, kraken'')),
         all_ok (map validate_price_asset (ft_prices_assets f)),
         ensure (ft_prices_currency f \<in> set SUPPORTED_PRICE_CURRENCIES)
           (cfg_err (''PRICES_CURRENCY '' @ str_debug (ft_prices_currency f) @ '' is not supported; supported: '' @
              str_join '', '' SUPPORTED_PRICE_CURRENCIES))])"

definition validate_erasure :: "config \<Rightarrow> unit result" where
  "validate_erasure c =
     check_when (re_erasure_enabled (cf_retention c))
       [require_secret (is_production c) ''ADMIN_KEY_INTEGRITY_SECRET'' (key_integrity_secret (cf_admin c)) 32,
        ensure (id_public_api_url (cf_identity c) \<noteq> None)
          (cfg_err ''PUBLIC_API_URL is required when ERASURE_ENABLED is on (it binds the signed-action proof)''),
        ensure (\<not> re_grace_period_hours (cf_retention c) > 24 * 365 * 10)
          (cfg_err ''ERASURE_GRACE_PERIOD_HOURS must be <= 87600 (10 years)'')]"

definition chain_warnings :: "config \<Rightarrow> string list" where
  "chain_warnings c =
     (let f = ft_chains (cf_features c); cs = cf_chains c in
      (if fl_btc f \<and> ux_electrum_primary (cc_btc cs) = None \<and> ux_electrum_fallbacks (cc_btc cs) = []
       then [''BTC_ELECTRUM_URL''] else []) @
      (if fl_ltc f \<and> ux_electrum_primary (cc_ltc cs) = None \<and> ux_electrum_fallbacks (cc_ltc cs) = []
       then [''LTC_ELECTRUM_URL''] else []) @
      (if fl_xmr f \<and> lw_lws_admin_key (cc_xmr cs) = [] then [''XMR_LWS_ADMIN_KEY''] else []) @
      (if fl_wow f \<and> lw_lws_admin_key (cc_wow cs) = [] then [''WOW_LWS_ADMIN_KEY''] else []) @
      (if fl_grin f \<and> gn_owner_api_secret (cc_grin cs) = [] then [''GRIN_OWNER_API_SECRET''] else []))"

definition validate_chains :: "config \<Rightarrow> unit result" where
  "validate_chains c =
     ensure (\<not> (chain_warnings c \<noteq> [] \<and> is_production c))
       (cfg_err (''missing required config for enabled chains: '' @ str_join '', '' (chain_warnings c)))"

definition validate_tips :: "config \<Rightarrow> unit result" where
  "validate_tips c =
     (let f = ft_chains (cf_features c) in
      check_when (ft_tips (cf_features c))
        [ensure (fl_btc f \<or> fl_ltc f \<or> fl_xmr f \<or> fl_wow f \<or> fl_grin f)
           (cfg_err (''FEATURE_TIPS is on but no supported tip chain is enabled: enable at least '' @
              ''one of FEATURE_BTC / FEATURE_LTC / FEATURE_XMR / FEATURE_WOW / FEATURE_GRIN'')),
         ensure (cf_tip_share_base c \<noteq> None)
           (cfg_err (''FEATURE_TIPS is on but TIP_SHARE_BASE_URL is unset '' @ em_dash @
              '' it is required to build public tip share links''))])"

definition validate_payment :: "net_lib \<Rightarrow> config \<Rightarrow> unit result" where
  "validate_payment lib c =
     (let p = rg_payment (cf_registration c); in_prod = is_production c in
      check_when (require_payment p)
        [ensure (pay_provider p = ''btcpay'')
           (cfg_err (''PAYMENT_PROVIDER '' @ str_debug (pay_provider p) @ '' is not supported; supported: btcpay'')),
         ensure (pay_provider_url p \<noteq> [])
           (cfg_err ''PAYMENT_PROVIDER_URL is required when REGISTRATION_REQUIRE_PAYMENT is on''),
         try_bind (ok_or (url_parse lib (pay_provider_url p))
             (cfg_err ''PAYMENT_PROVIDER_URL must be an absolute URL'')) (\<lambda>url.
           ensure (\<not> (in_prod \<and> pu_scheme url \<noteq> ''https'' \<and> \<not> is_loopback_url lib (pay_provider_url p)))
             (cfg_err ''PAYMENT_PROVIDER_URL must be https in production (loopback exempt)'')),
         ensure (pay_store_id p \<noteq> [])
           (cfg_err ''PAYMENT_STORE_ID is required when REGISTRATION_REQUIRE_PAYMENT is on''),
         require_secret in_prod ''PAYMENT_API_KEY'' (pay_api_key p) 8,
         ensure (is_positive_decimal (pay_amount p))
           (cfg_err ''PAYMENT_AMOUNT must be a positive decimal (e.g. 0.01) when REGISTRATION_REQUIRE_PAYMENT is on''),
         ensure (pay_currency p \<noteq> [])
           (cfg_err ''PAYMENT_CURRENCY is required when REGISTRATION_REQUIRE_PAYMENT is on''),
         ensure (pay_confirmations p \<noteq> 0)
           (cfg_err (''PAYMENT_CONFIRMATIONS must be >= 1 (0-conf lets a settled payment be '' @
              ''double-spent after registration)'')),
         ensure (\<not> (pay_expires_minutes p = 0 \<or> pay_expires_minutes p > 10080))
           (cfg_err ''PAYMENT_EXPIRES_MINUTES must be between 1 and 10080 (7 days)'')])"

definition admission_loopback :: "net_lib \<Rightarrow> string \<Rightarrow> bool" where
  "admission_loopback lib bind =
     (case to_socket_addrs lib bind of
        None \<Rightarrow> False
      | Some addrs \<Rightarrow> addrs \<noteq> [] \<and> list_all ip_is_loopback addrs)"

definition validate_relay :: "net_lib \<Rightarrow> config \<Rightarrow> unit result" where
  "validate_relay lib c =
     (let r = ms_relay (cf_messaging c); in_prod = is_production c in
      check_when (rc_enabled r)
        [ensure (rc_mode r \<in> {''bundled'', ''external''})
           (cfg_err (''RELAY_MODE '' @ str_debug (rc_mode r) @ '' is not supported; use bundled|external'')),
         ensure (trim (rc_advertised_url r) \<noteq> [])
           (cfg_err ''RELAY_URL is required when RELAY_ENABLED (the ws(s):// URL clients connect to)''),
         ensure (starts_with ''wss://'' (rc_advertised_url r) \<or> starts_with ''ws://'' (rc_advertised_url r))
           (cfg_err ''RELAY_URL must be a ws:// or wss:// URL''),
         ensure (\<not> (in_prod \<and> starts_with ''ws://'' (rc_advertised_url r)))
           (cfg_err ''RELAY_URL must be wss:// in production''),
         ensure (rc_write_policy r \<in> {''inbox-outbox'', ''author-allowlist'', ''open'', ''premium-post''})
           (cfg_err (''RELAY_WRITE_POLICY '' @ str_debug (rc_write_policy r) @
              '' is not supported; use inbox-outbox|author-allowlist|open|premium-post'')),
         ensure (\<not> rc_inbound_pow_bits r > 40) (cfg_err ''RELAY_INBOUND_POW_BITS must be <= 40 (0 disables)''),
         ensure (\<not> (rc_write_policy r \<noteq> ''open'' \<and> trim (ry_admission_bind r) = []))
           (cfg_err ''RELAY_ADMISSION_BIND is required for a non-open RELAY_WRITE_POLICY''),
         ensure (\<not> (rc_write_policy r \<noteq> ''open'' \<and> \<not> ry_admission_allow_public r \<and> \<not> admission_loopback lib (ry_admission_bind r)))
           (cfg_err (''RELAY_ADMISSION_BIND must be loopback (it is a registration oracle); '' @
              ''set RELAY_ADMISSION_ALLOW_PUBLIC=true to override + firewall it''))])"

definition validate_feed :: "config \<Rightarrow> unit result" where
  "validate_feed c =
     ensure (\<not> (fd_enabled (cf_feed c) \<and> \<not> rc_enabled (ms_relay (cf_messaging c))))
       (cfg_err ''FEED_ENABLED needs RELAY_ENABLED=true (the feed reads posts from the relay)'')"

text \<open>The loop over the plans, with the identifiers seen so far.\<close>

fun validate_plans :: "string list \<Rightarrow> premium_plan list \<Rightarrow> unit result" where
  "validate_plans seen [] = Inr ()"
| "validate_plans seen (plan # plans) =
     all_ok
       [ensure (plan_id plan \<notin> set seen) (cfg_err (''duplicate PREMIUM_PLANS id '' @ str_debug (plan_id plan))),
        ensure (is_positive_decimal (plan_amount plan))
          (cfg_err (''PREMIUM_PLANS['' @ plan_id plan @ ''] amount '' @ str_debug (plan_amount plan) @
             '' must be a positive decimal'')),
        ensure (\<not> plan_days plan > 3660)
          (cfg_err (''PREMIUM_PLANS['' @ plan_id plan @ ''] days '' @ int_to_string (plan_days plan) @
             '' exceeds the 3660-day (10-year) maximum'')),
        validate_plans (plan_id plan # seen) plans]"

definition validate_premium :: "net_lib \<Rightarrow> config \<Rightarrow> unit result" where
  "validate_premium lib c =
     (let p = rg_payment (cf_registration c); in_prod = is_production c; r = ms_relay (cf_messaging c); pm = cf_premium c in
      check_when (premium_enabled pm)
        [ensure (pay_provider p = ''btcpay'')
           (cfg_err (''PREMIUM_ENABLED needs a supported PAYMENT_PROVIDER (btcpay); got '' @ str_debug (pay_provider p))),
         ensure (trim (pay_provider_url p) \<noteq> []) (cfg_err ''PREMIUM_ENABLED needs PAYMENT_PROVIDER_URL''),
         ensure (\<not> (in_prod \<and> \<not> starts_with ''https://'' (pay_provider_url p) \<and> \<not> is_loopback_url lib (pay_provider_url p)))
           (cfg_err ''PAYMENT_PROVIDER_URL must be https:// in production (loopback exempt)''),
         ensure (trim (pay_store_id p) \<noteq> []) (cfg_err ''PREMIUM_ENABLED needs PAYMENT_STORE_ID''),
         require_secret in_prod ''PAYMENT_API_KEY'' (pay_api_key p) 8,
         ensure (pay_confirmations p \<noteq> 0)
           (cfg_err (''PAYMENT_CONFIRMATIONS must be >= 1 when PREMIUM_ENABLED is on '' @
              ''(0-conf lets a settled premium payment be double-spent after activation)'')),
         ensure (\<not> (pay_expires_minutes p = 0 \<or> pay_expires_minutes p > 10080))
           (cfg_err ''PAYMENT_EXPIRES_MINUTES must be between 1 and 10080 (7 days)''),
         ensure (trim (premium_currency pm) \<noteq> []) (cfg_err ''PREMIUM_ENABLED needs PREMIUM_CURRENCY''),
         ensure (rc_enabled r) (cfg_err ''PREMIUM_ENABLED needs RELAY_ENABLED=true''),
         ensure (rc_write_policy r = ''premium-post'') (cfg_err ''PREMIUM_ENABLED needs RELAY_WRITE_POLICY=premium-post''),
         ensure (premium_plans pm \<noteq> [])
           (cfg_err ''PREMIUM_ENABLED needs at least one PREMIUM_PLANS entry (id:days:amount)''),
         validate_plans [] (premium_plans pm),
         all_ok (map (\<lambda>rail. validate_rail lib rail in_prod) (pm_rails pm))])"

definition validate :: "net_lib \<Rightarrow> config \<Rightarrow> unit result" where
  "validate lib c =
     all_ok
       [validate_rate_limit c, validate_secrets c, validate_restore c, validate_nostr lib c, validate_pow c,
        validate_admin lib c, validate_prices c, validate_erasure c, validate_chains c, validate_tips c,
        validate_payment lib c, validate_relay lib c, validate_feed c, validate_premium lib c]"

end
