(* ===== verification/Config_Env.thy ===== *)
theory Config_Env
  imports Config
begin

text \<open>
  \<open>Config::from_env\<close> of \<open>src/src/config.rs\<close>: the environment is an argument, a partial function from names
  to values (\<open>env::var\<close> is an error for an unset variable). The integer parsers of the standard library are
  written out: an optional sign, at least one digit, no overflow.
\<close>

type_synonym environment = "string \<Rightarrow> string option"

section \<open>Parsing\<close>

fun decimal_value :: "int \<Rightarrow> string \<Rightarrow> int option" where
  "decimal_value acc [] = Some acc"
| "decimal_value acc (c # cs) =
     (if is_ascii_digit c then decimal_value (10 * acc + (of_char c - 48)) cs else None)"

definition parse_digits :: "string \<Rightarrow> int option" where
  "parse_digits s = (if s = [] then None else decimal_value 0 s)"

definition parse_unsigned :: "nat \<Rightarrow> string \<Rightarrow> int option" where
  "parse_unsigned bits s =
     option_filter (\<lambda>n. n < 2 ^ bits)
       (case s of c # cs \<Rightarrow> if c = CHR ''+'' then parse_digits cs else parse_digits s | [] \<Rightarrow> None)"

definition parse_signed :: "nat \<Rightarrow> string \<Rightarrow> int option" where
  "parse_signed bits s =
     option_filter (\<lambda>n. - (2 ^ (bits - 1)) \<le> n \<and> n < 2 ^ (bits - 1))
       (case s of
          c # cs \<Rightarrow>
            if c = CHR ''+'' then parse_digits cs
            else if c = CHR ''-'' then map_option uminus (parse_digits cs)
            else parse_digits s
        | [] \<Rightarrow> None)"

fun str_split :: "char \<Rightarrow> string \<Rightarrow> string list" where
  "str_split sep [] = [[]]"
| "str_split sep (c # cs) =
     (if c = sep then [] # str_split sep cs
      else case str_split sep cs of [] \<Rightarrow> [[c]] | w # ws \<Rightarrow> (c # w) # ws)"

section \<open>Helpers\<close>

definition env_opt :: "environment \<Rightarrow> string \<Rightarrow> string option" where
  "env_opt env key = option_filter (\<lambda>s. s \<noteq> []) (env key)"

definition env_or :: "environment \<Rightarrow> string \<Rightarrow> string \<Rightarrow> string" where
  "env_or env key d = (case env_opt env key of Some s \<Rightarrow> s | None \<Rightarrow> d)"

definition env_bool :: "environment \<Rightarrow> string \<Rightarrow> bool \<Rightarrow> bool" where
  "env_bool env key d =
     (case env key of
        Some v \<Rightarrow> to_lowercase v \<in> {''1'', ''true'', ''yes'', ''on''}
      | None \<Rightarrow> d)"

definition env_parse :: "(string \<Rightarrow> 'a option) \<Rightarrow> environment \<Rightarrow> string \<Rightarrow> 'a \<Rightarrow> 'a result" where
  "env_parse parse env key d =
     (case env_opt env key of
        Some v \<Rightarrow> ok_or (parse v) (cfg_err (key @ '' is set but not a valid value''))
      | None \<Rightarrow> Inr d)"

definition env_u64 :: "environment \<Rightarrow> string \<Rightarrow> u64 \<Rightarrow> u64 result" where
  "env_u64 = env_parse (\<lambda>s. map_option word_of_int (parse_unsigned 64 s))"

definition env_u32 :: "environment \<Rightarrow> string \<Rightarrow> u32 \<Rightarrow> u32 result" where
  "env_u32 = env_parse (\<lambda>s. map_option word_of_int (parse_unsigned 32 s))"

definition env_u16 :: "environment \<Rightarrow> string \<Rightarrow> u16 \<Rightarrow> u16 result" where
  "env_u16 = env_parse (\<lambda>s. map_option word_of_int (parse_unsigned 16 s))"

definition env_u8 :: "environment \<Rightarrow> string \<Rightarrow> byte \<Rightarrow> byte result" where
  "env_u8 = env_parse (\<lambda>s. map_option word_of_int (parse_unsigned 8 s))"

definition env_usize :: "environment \<Rightarrow> string \<Rightarrow> nat \<Rightarrow> nat result" where
  "env_usize = env_parse (\<lambda>s. map_option nat (parse_unsigned 64 s))"

definition env_i64 :: "environment \<Rightarrow> string \<Rightarrow> i64 \<Rightarrow> i64 result" where
  "env_i64 = env_parse (parse_signed 64)"

definition env_list :: "environment \<Rightarrow> string \<Rightarrow> string list" where
  "env_list env key =
     (case env_opt env key of
        Some s \<Rightarrow> filter (\<lambda>x. x \<noteq> []) (map trim (str_split (CHR '','') s))
      | None \<Rightarrow> [])"

fun parse_networks_from :: "net_lib \<Rightarrow> string \<Rightarrow> string list \<Rightarrow> ip_network list result" where
  "parse_networks_from lib key [] = Inr []"
| "parse_networks_from lib key (tok # toks) =
     try_bind (ok_or (option_or (ip_network_from_str lib tok) (ip_addr_from_str lib tok))
         (cfg_err (key @ '' contains an invalid CIDR/IP: '' @ tok))) (\<lambda>net.
     try_bind (parse_networks_from lib key toks) (\<lambda>nets. Inr (net # nets)))"

definition parse_networks :: "net_lib \<Rightarrow> environment \<Rightarrow> string \<Rightarrow> ip_network list result" where
  "parse_networks lib env key = parse_networks_from lib key (env_list env key)"

definition parse_checkout_rails :: "environment \<Rightarrow> payment_rail_config list" where
  "parse_checkout_rails env =
     List.map_filter (\<lambda>(kind, a, prefix).
       let url = env_or env (prefix @ ''_URL'') []; store = env_or env (prefix @ ''_STORE_ID'') [];
           key = env_or env (prefix @ ''_API_KEY'') []
       in if url \<noteq> [] \<or> store \<noteq> [] \<or> key \<noteq> []
          then Some \<lparr>pl_kind = kind, pl_asset = a, pl_provider_url = url, pl_store_id = store, pl_api_key = key\<rparr>
          else None) CHECKOUT_RAILS"

text \<open>\<open>splitn(3, ':')\<close>: the third part keeps its colons.\<close>

definition parse_plan :: "string \<Rightarrow> premium_plan option" where
  "parse_plan entry =
     (case split_once '':'' (trim entry) of
        None \<Rightarrow> None
      | Some (i, rest) \<Rightarrow>
          (case split_once '':'' rest of
             None \<Rightarrow> None
           | Some (d, amt) \<Rightarrow>
               (case parse_signed 32 (trim d) of
                  None \<Rightarrow> None
                | Some days \<Rightarrow>
                    if trim i \<noteq> [] \<and> trim amt \<noteq> [] \<and> days > 0
                    then Some \<lparr>plan_id = trim i, plan_days = days, plan_amount = trim amt\<rparr>
                    else None)))"

definition parse_premium_plans :: "string \<Rightarrow> premium_plan list" where
  "parse_premium_plans s = List.map_filter parse_plan (str_split (CHR '','') s)"

section \<open>The sections\<close>

definition env_deployment_mode :: "environment \<Rightarrow> deployment_mode result" where
  "env_deployment_mode env =
     (let m = to_lowercase (env_or env ''DEPLOYMENT_MODE'' ''single'') in
      if m = ''fleet'' then Inr Fleet
      else if m = ''single'' then Inr SingleInstance
      else Inl (cfg_err (''DEPLOYMENT_MODE must be single|fleet, got '' @ m)))"

definition env_secrets :: "environment \<Rightarrow> secret_config" where
  "env_secrets env =
     \<lparr>sx_seed_fingerprint_pepper = env_or env ''SEED_FINGERPRINT_PEPPER'' [],
      sx_refresh_token_pepper = env_or env ''REFRESH_TOKEN_PEPPER'' [], sx_ip_salt = env_or env ''IP_SALT'' []\<rparr>"

definition env_rate_limit :: "environment \<Rightarrow> rate_limit_config result" where
  "env_rate_limit env =
     try_bind (env_u64 env ''RATE_LIMIT_STRICT_PERIOD_MS'' 500) (\<lambda>sp.
     try_bind (env_u32 env ''RATE_LIMIT_STRICT_BURST'' 20) (\<lambda>sb.
     try_bind (env_u64 env ''RATE_LIMIT_NORMAL_PERIOD_MS'' 100) (\<lambda>np.
     try_bind (env_u32 env ''RATE_LIMIT_NORMAL_BURST'' 60) (\<lambda>nb.
       Inr \<lparr>rl_strict_period_ms = sp, rl_strict_burst = sb, rl_normal_period_ms = np, rl_normal_burst = nb\<rparr>))))"

definition env_prices_assets :: "environment \<Rightarrow> string list" where
  "env_prices_assets env =
     (case env ''PRICES_ASSETS'' of
        None \<Rightarrow> SUPPORTED_PRICE_ASSETS
      | Some s \<Rightarrow> filter (\<lambda>x. x \<noteq> []) (map (\<lambda>x. to_lowercase (trim x)) (str_split (CHR '','') s)))"

definition env_features :: "environment \<Rightarrow> feature_flags result" where
  "env_features env =
     try_bind (env_u64 env ''PRICES_FETCH_INTERVAL_SECS'' 300) (\<lambda>interval.
       Inr \<lparr>ft_chains = \<lparr>fl_btc = env_bool env ''FEATURE_BTC'' True, fl_ltc = env_bool env ''FEATURE_LTC'' True,
              fl_xmr = env_bool env ''FEATURE_XMR'' True, fl_wow = env_bool env ''FEATURE_WOW'' True,
              fl_grin = env_bool env ''FEATURE_GRIN'' True\<rparr>,
            ft_prices = env_bool env ''FEATURE_PRICES'' True,
            ft_prices_provider = to_lowercase (env_or env ''PRICES_PROVIDER'' ''neroswap''),
            ft_prices_interval_secs = interval,
            ft_prices_assets = env_prices_assets env,
            ft_prices_currency = to_lowercase (env_or env ''PRICES_CURRENCY'' ''usd''),
            ft_tips = env_bool env ''FEATURE_TIPS'' False,
            ft_targeted_tips = env_bool env ''FEATURE_TARGETED_TIPS'' False,
            ft_nostr_identity = env_bool env ''FEATURE_NOSTR_IDENTITY'' True,
            ft_grin_relay = env_bool env ''FEATURE_GRIN_RELAY'' True\<rparr>)"

definition env_utxo :: "environment \<Rightarrow> string \<Rightarrow> utxo_config" where
  "env_utxo env coin =
     \<lparr>ux_network = env_or env (coin @ ''_NETWORK'') ''mainnet'', ux_electrum_primary = env_opt env (coin @ ''_ELECTRUM_URL''),
      ux_electrum_fallbacks = env_list env (coin @ ''_ELECTRUM_FALLBACKS''),
      ux_electrum_strict_tls = env_bool env ''ELECTRUM_STRICT_TLS'' False\<rparr>"

definition env_lws :: "environment \<Rightarrow> string \<Rightarrow> string \<Rightarrow> string \<Rightarrow> string \<Rightarrow> lws_config" where
  "env_lws env coin lws admin daemon =
     \<lparr>lw_lws_url = env_or env (coin @ ''_LWS_URL'') lws, lw_lws_admin_url = env_or env (coin @ ''_LWS_ADMIN_URL'') admin,
      lw_lws_admin_key = env_or env (coin @ ''_LWS_ADMIN_KEY'') [], lw_daemon_url = env_or env (coin @ ''_DAEMON_URL'') daemon\<rparr>"

definition env_grin :: "environment \<Rightarrow> grin_config" where
  "env_grin env =
     \<lparr>gn_owner_api_url = env_or env ''GRIN_OWNER_API_URL'' ''http://127.0.0.1:3420/v3/owner'',
      gn_owner_api_secret = env_or env ''GRIN_OWNER_API_SECRET'' [],
      gn_wallet_password = env_or env ''GRIN_WALLET_PASSWORD'' [],
      gn_foreign_api_url = env_or env ''GRIN_FOREIGN_API_URL'' ''http://127.0.0.1:3415/v2/foreign'',
      gn_node_api_url = env_or env ''GRIN_NODE_API_URL'' ''http://127.0.0.1:3413/v2/owner'',
      gn_node_api_user = env_or env ''GRIN_NODE_API_USER'' ''grin'',
      gn_node_api_pass = env_or env ''GRIN_NODE_API_PASS'' [],
      gn_node_foreign_api_url = env_or env ''GRIN_NODE_FOREIGN_API_URL'' ''http://127.0.0.1:3413/v2/foreign'',
      gn_node_foreign_api_secret = env_or env ''GRIN_NODE_FOREIGN_API_SECRET'' []\<rparr>"

definition env_chains :: "environment \<Rightarrow> chain_config" where
  "env_chains env =
     \<lparr>cc_btc = env_utxo env ''BTC'', cc_ltc = env_utxo env ''LTC'',
      cc_xmr = env_lws env ''XMR'' ''http://127.0.0.1:8443'' ''http://127.0.0.1:9443'' ''http://127.0.0.1:18081'',
      cc_wow = env_lws env ''WOW'' ''http://127.0.0.1:18443'' ''http://127.0.0.1:19443'' ''http://127.0.0.1:34568'',
      cc_grin = env_grin env,
      cc_grin_lws = \<lparr>gl_url = env_or env ''GRIN_LWS_URL'' [], gl_admin_url = env_opt env ''GRIN_LWS_ADMIN_URL'',
        gl_admin_key = env_or env ''GRIN_LWS_ADMIN_KEY'' []\<rparr>\<rparr>"

definition env_pow :: "environment \<Rightarrow> pow_settings result" where
  "env_pow env =
     try_bind (env_u64 env ''ALTCHA_COST'' 100000) (\<lambda>cost.
       Inr \<lparr>pow_enabled = env_bool env ''FEATURE_POW'' False, pow_hmac_key = env_or env ''ALTCHA_HMAC_KEY'' [],
            pow_required = env_bool env ''POW_REQUIRED'' False,
            pow_required_for_pubkeys = map to_lowercase (env_list env ''TEST_POW_REQUIRED_FOR_PUBKEYS''),
            pow_cost = cost\<rparr>)"

definition env_admin :: "environment \<Rightarrow> admin_settings result" where
  "env_admin env =
     try_bind (env_u32 env ''ADMIN_MAX_KEYS'' 8) (\<lambda>n.
     try_bind (env_u32 env ''ADMIN_PENDING_KEY_TTL_DAYS'' 7) (\<lambda>ttl.
       Inr \<lparr>admin_public_url = env_or env ''ADMIN_PUBLIC_URL'' ''http://127.0.0.1:8081'',
            key_integrity_secret = env_or env ''ADMIN_KEY_INTEGRITY_SECRET'' [], max_keys = n,
            pending_key_ttl_days = ttl, admin_onion = env_opt env ''TOR_ADMIN_ONION'',
            am_enabled = env_bool env ''ADMIN_ENABLED'' False, am_bind = env_or env ''ADMIN_BIND'' ''127.0.0.1:8081'',
            am_jwt_secret = env_or env ''ADMIN_JWT_SECRET'' [], am_pubkeys = env_list env ''ADMIN_PUBKEYS'',
            am_allow_public_bind = env_bool env ''ADMIN_ALLOW_PUBLIC_BIND'' False\<rparr>))"

definition env_landing :: "environment \<Rightarrow> landing_config result" where
  "env_landing env =
     try_bind (env_u64 env ''PUBLIC_STATS_CACHE_HOURS'' 24) (\<lambda>hours.
     try_bind (env_i64 env ''PUBLIC_STATS_MIN_USERS'' 20) (\<lambda>floor_users.
       Inr \<lparr>la_enabled = env_bool env ''PUBLIC_LANDING_ENABLED'' False, la_title = env_opt env ''PUBLIC_LANDING_TITLE'',
            la_expose_version = env_bool env ''PUBLIC_EXPOSE_VERSION'' False,
            la_expose_chains = env_bool env ''PUBLIC_EXPOSE_CHAINS'' False,
            la_expose_price_feed = env_bool env ''PUBLIC_EXPOSE_PRICE_FEED'' False,
            la_expose_uptime = env_bool env ''PUBLIC_EXPOSE_UPTIME'' False,
            la_stats_enabled = env_bool env ''PUBLIC_STATS_ENABLED'' False, la_stats_cache_hours = hours,
            la_stats_min_users = floor_users\<rparr>))"

definition env_retention :: "environment \<Rightarrow> retention_config result" where
  "env_retention env =
     try_bind (env_u64 env ''RETENTION_LOGIN_EVENTS_DAYS'' 90) (\<lambda>logins.
     try_bind (env_u64 env ''RETENTION_AUDIT_DAYS'' 365) (\<lambda>audit.
     try_bind (env_u32 env ''ERASURE_EXPORT_PER_DAY'' 3) (\<lambda>exports.
     try_bind (env_u64 env ''ERASURE_GRACE_PERIOD_HOURS'' 72) (\<lambda>grace.
       Inr \<lparr>re_login_events_days = logins, re_audit_days = audit, re_erasure_enabled = env_bool env ''ERASURE_ENABLED'' False,
            re_purge_login_events = env_bool env ''ERASURE_PURGE_LOGIN_EVENTS'' True, re_export_per_day = exports,
            re_grace_period_hours = grace\<rparr>))))"

definition env_restore_policy :: "environment \<Rightarrow> restore_policy result" where
  "env_restore_policy env =
     (let p = to_lowercase (env_or env ''WALLET_RESTORE_POLICY'' ''create-only'') in
      if p \<in> {''create-only'', ''create_only'', ''createonly''} then Inr CreateOnly
      else if p = ''bounded'' then Inr Bounded
      else if p = ''unlimited'' then Inr Unlimited
      else Inl (cfg_err (''WALLET_RESTORE_POLICY must be create-only|bounded|unlimited, got '' @ p)))"

definition env_restore :: "environment \<Rightarrow> restore_config result" where
  "env_restore env =
     try_bind (env_restore_policy env) (\<lambda>policy.
     try_bind (env_u32 env ''WALLET_MAX_RESTORE_DEPTH_DAYS'' 365) (\<lambda>depth.
     try_bind (env_u32 env ''WALLET_RESTORE_POW_FREE_DAYS'' 90) (\<lambda>free.
     try_bind (env_u32 env ''WALLET_RESTORE_POW_DAYS_PER_BIT'' 0) (\<lambda>per_bit.
     try_bind (env_u32 env ''WALLET_RESTORE_POW_MAX_BITS'' 24) (\<lambda>max_bits.
       Inr \<lparr>rs_policy = policy, rs_max_depth_days = depth, rs_pow_free_days = free, rs_pow_days_per_bit = per_bit,
            rs_pow_max_bits = max_bits\<rparr>)))))"

definition env_registration :: "environment \<Rightarrow> registration_config result" where
  "env_registration env =
     try_bind (env_u32 env ''PAYMENT_CONFIRMATIONS'' 1) (\<lambda>confirmations.
     try_bind (env_u32 env ''PAYMENT_EXPIRES_MINUTES'' 60) (\<lambda>expires.
       Inr \<lparr>rg_require_invite = env_bool env ''REGISTRATION_REQUIRE_INVITE'' False,
            rg_payment =
              \<lparr>require_payment = env_bool env ''REGISTRATION_REQUIRE_PAYMENT'' False,
               pay_amount = env_or env ''PAYMENT_AMOUNT'' [],
               pay_currency = to_uppercase (env_or env ''PAYMENT_CURRENCY'' []),
               pay_confirmations = confirmations, pay_expires_minutes = expires,
               pay_provider = to_lowercase (env_or env ''PAYMENT_PROVIDER'' ''btcpay''),
               pay_provider_url = env_or env ''PAYMENT_PROVIDER_URL'' [],
               pay_store_id = env_or env ''PAYMENT_STORE_ID'' [], pay_api_key = env_or env ''PAYMENT_API_KEY'' []\<rparr>,
            rg_gate_mode = gate_mode_from_env_str (env_or env ''REGISTRATION_GATE_MODE'' ''all'')\<rparr>))"

definition env_messaging :: "environment \<Rightarrow> messaging_config result" where
  "env_messaging env =
     try_bind (env_u8 env ''RELAY_INBOUND_POW_BITS'' 0) (\<lambda>pow_bits.
     try_bind (env_usize env ''RELAY_MAX_EVENT_BYTES'' 65536) (\<lambda>max_bytes.
     try_bind (env_u32 env ''RELAY_RETENTION_DAYS'' 30) (\<lambda>days.
       Inr \<lparr>ms_relay =
              \<lparr>rc_enabled = env_bool env ''RELAY_ENABLED'' False,
               rc_mode = to_lowercase (env_or env ''RELAY_MODE'' ''bundled''),
               rc_advertised_url = env_or env ''RELAY_URL'' [],
               rc_write_policy = to_lowercase (env_or env ''RELAY_WRITE_POLICY'' ''inbox-outbox''),
               rc_inbound_pow_bits = pow_bits, rc_max_event_bytes = max_bytes,
               rc_write_allowlist = env_list env ''RELAY_WRITE_ALLOWLIST_NPUBS'',
               ry_admission_bind = env_or env ''RELAY_ADMISSION_BIND'' ''127.0.0.1:8090'',
               ry_admission_allow_public = env_bool env ''RELAY_ADMISSION_ALLOW_PUBLIC'' False,
               ry_retention_days = days\<rparr>,
            ms_nip05_interop_hints = env_bool env ''NIP05_INTEROP_HINTS'' False,
            ms_nip05_extra_relay_hints = env_list env ''NIP05_EXTRA_RELAY_HINTS''\<rparr>)))"

definition env_premium :: "environment \<Rightarrow> premium_settings" where
  "env_premium env =
     \<lparr>premium_enabled = env_bool env ''PREMIUM_ENABLED'' False,
      premium_currency = to_uppercase (env_or env ''PREMIUM_CURRENCY'' []),
      premium_plans = parse_premium_plans (env_or env ''PREMIUM_PLANS'' []),
      pm_primary_assets = map to_uppercase (env_list env ''PAYMENT_ASSETS''),
      pm_rails = parse_checkout_rails env\<rparr>"

definition env_feed :: "environment \<Rightarrow> feed_config" where
  "env_feed env =
     \<lparr>fd_enabled = env_bool env ''FEED_ENABLED'' False, fd_show_owner = env_bool env ''FEED_SHOW_OWNER'' True,
      fd_show_premium = env_bool env ''FEED_SHOW_PREMIUM'' True,
      fd_owner_npub = trim (env_or env ''FEED_OWNER_NPUB'' []),
      fd_allowlist_npubs = env_list env ''FEED_ALLOWLIST_NPUBS'', fd_extra_relays = env_list env ''FEED_EXTRA_RELAYS''\<rparr>"

definition env_console :: "environment \<Rightarrow> console_config" where
  "env_console env =
     \<lparr>co_restart_apply_mode = (if env_or env ''RESTART_APPLY_MODE'' ''manual'' = ''auto'' then Auto else Manual)\<rparr>"

section \<open>The whole\<close>

definition env_config :: "net_lib \<Rightarrow> environment \<Rightarrow> config result" where
  "env_config lib env =
     try_bind (env_u16 env ''SERVER_PORT'' 8080) (\<lambda>port.
     try_bind (env_deployment_mode env) (\<lambda>mode.
     try_bind (ok_or (env_opt env ''DATABASE_URL'') (cfg_err ''DATABASE_URL is required'')) (\<lambda>database.
     try_bind (env_u64 env ''JWT_EXPIRY_HOURS'' 24) (\<lambda>expiry.
     try_bind (parse_networks lib env ''TRUSTED_PROXIES'') (\<lambda>proxies.
     try_bind (env_rate_limit env) (\<lambda>rate_limit.
     try_bind (env_features env) (\<lambda>features.
     try_bind (env_pow env) (\<lambda>pow.
     try_bind (env_admin env) (\<lambda>admin.
     try_bind (env_landing env) (\<lambda>landing.
     try_bind (env_retention env) (\<lambda>retention.
     try_bind (env_restore env) (\<lambda>restore.
     try_bind (env_registration env) (\<lambda>registration.
     try_bind (env_messaging env) (\<lambda>messaging.
       Inr \<lparr>cf_server_host = env_or env ''SERVER_HOST'' ''0.0.0.0'', cf_server_port = port, cf_deployment_mode = mode,
            cf_environment = env_or env ''ENVIRONMENT'' ''development'', cf_database_url = database,
            cf_legacy_database_url = env_opt env ''LEGACY_DATABASE_URL'',
            cf_tip_share_base = env_opt env ''TIP_SHARE_BASE_URL'',
            cf_auth = \<lparr>st_jwt_secret = env_or env ''JWT_SECRET'' [], st_jwt_expiry_hours = expiry\<rparr>,
            cf_identity = \<lparr>id_public_api_url = env_opt env ''PUBLIC_API_URL'', id_nip05_domain = env_opt env ''NIP05_DOMAIN''\<rparr>,
            cf_secrets = env_secrets env, cf_trusted_proxies = proxies, cf_rate_limit = rate_limit,
            cf_cors_allowed_origins = env_list env ''CORS_ALLOWED_ORIGINS'', cf_features = features,
            cf_chains = env_chains env, cf_pow = pow, cf_admin = admin, cf_landing = landing,
            cf_retention = retention, cf_restore = restore, cf_registration = registration,
            cf_messaging = messaging, cf_premium = env_premium env, cf_feed = env_feed env,
            cf_console = env_console env\<rparr>))))))))))))))"

definition from_env :: "net_lib \<Rightarrow> environment \<Rightarrow> config result" where
  "from_env lib env =
     try_bind (env_config lib env) (\<lambda>cfg.
     try_bind (validate lib cfg) (\<lambda>_. Inr cfg))"

end
