(* ===== verification/Config_Overlay.thy ===== *)
theory Config_Overlay
  imports Config_Env
begin

text \<open>
  \<open>src/src/config_overlay.rs\<close>: the sparse patch an operator may put over the environment's configuration, its
  application (which re-runs the validation) and the reverse reading of every editable field.
\<close>

section \<open>Patches\<close>

record landing_overlay =
  lo_enabled :: "bool option"
  lo_title :: "string option"
  lo_expose_version :: "bool option"
  lo_expose_chains :: "bool option"
  lo_expose_price_feed :: "bool option"
  lo_expose_uptime :: "bool option"
  lo_stats_enabled :: "bool option"
  lo_stats_cache_hours :: "u64 option"
  lo_stats_min_users :: "i64 option"

record retention_overlay =
  to_login_events_days :: "u64 option"
  to_audit_days :: "u64 option"
  to_erasure_enabled :: "bool option"
  to_purge_login_events :: "bool option"
  to_export_per_day :: "u32 option"
  to_grace_period_hours :: "u64 option"

record restore_overlay =
  so_policy :: "string option"
  so_max_depth_days :: "u32 option"
  so_pow_free_days :: "u32 option"
  so_pow_days_per_bit :: "u32 option"
  so_pow_max_bits :: "u32 option"

record console_overlay =
  no_restart_apply_mode :: "string option"

record registration_overlay =
  go_require_invite :: "bool option"
  go_gate_mode :: "string option"
  go_require_payment :: "bool option"
  go_payment_amount :: "string option"
  go_payment_currency :: "string option"
  go_payment_confirmations :: "u32 option"
  go_payment_expires_minutes :: "u32 option"

record pow_overlay =
  wo_enabled :: "bool option"
  wo_required :: "bool option"
  wo_cost :: "u64 option"

record features_overlay =
  fo_prices :: "bool option"
  fo_prices_provider :: "string option"
  fo_prices_interval_secs :: "u64 option"
  fo_prices_currency :: "string option"
  fo_tips :: "bool option"
  fo_nostr_identity :: "bool option"
  fo_grin_relay :: "bool option"
  fo_chain_btc :: "bool option"
  fo_chain_ltc :: "bool option"
  fo_chain_xmr :: "bool option"
  fo_chain_wow :: "bool option"
  fo_chain_grin :: "bool option"

record relay_overlay =
  yo_enabled :: "bool option"
  yo_mode :: "string option"
  yo_advertised_url :: "string option"
  yo_write_policy :: "string option"
  yo_inbound_pow_bits :: "byte option"
  yo_max_event_bytes :: "nat option"
  yo_retention_days :: "u32 option"

record premium_overlay =
  mo_enabled :: "bool option"
  mo_currency :: "string option"

record settings_overlay =
  ov_landing :: "landing_overlay option"
  ov_retention :: "retention_overlay option"
  ov_restore :: "restore_overlay option"
  ov_console :: "console_overlay option"
  ov_registration :: "registration_overlay option"
  ov_pow :: "pow_overlay option"
  ov_features :: "features_overlay option"
  ov_relay :: "relay_overlay option"
  ov_premium :: "premium_overlay option"

definition overlay_default :: settings_overlay where
  "overlay_default =
     \<lparr>ov_landing = None, ov_retention = None, ov_restore = None, ov_console = None, ov_registration = None,
      ov_pow = None, ov_features = None, ov_relay = None, ov_premium = None\<rparr>"

section \<open>Runtime classes\<close>

datatype runtime_kind = RuntimeSafe | RestartRequired

definition runtime_class :: "string \<Rightarrow> string \<Rightarrow> runtime_kind" where
  "runtime_class sec fld =
     (if sec = ''retention'' \<and> fld = ''erasure_enabled'' then RestartRequired
      else if sec = ''landing'' then RuntimeSafe
      else if sec = ''retention'' then RuntimeSafe
      else if sec = ''restore'' then RuntimeSafe
      else if sec = ''console'' then RuntimeSafe
      else if sec = ''registration'' \<and> fld = ''require_payment'' then RestartRequired
      else if sec = ''registration'' then RuntimeSafe
      else if sec = ''pow'' then RuntimeSafe
      else if sec = ''features'' then RestartRequired
      else if sec = ''relay'' then RestartRequired
      else if sec = ''premium'' then RestartRequired
      else RestartRequired)"

definition EDITABLE_FIELDS :: "(string \<times> string) list" where
  "EDITABLE_FIELDS =
     [(''landing'', ''enabled''), (''landing'', ''title''), (''landing'', ''expose_version''),
      (''landing'', ''expose_chains''), (''landing'', ''expose_price_feed''), (''landing'', ''expose_uptime''),
      (''landing'', ''stats_enabled''), (''landing'', ''stats_cache_hours''), (''landing'', ''stats_min_users''),
      (''retention'', ''login_events_days''), (''retention'', ''audit_days''), (''retention'', ''erasure_enabled''),
      (''retention'', ''purge_login_events''), (''retention'', ''export_per_day''),
      (''retention'', ''grace_period_hours''),
      (''restore'', ''policy''), (''restore'', ''max_depth_days''), (''restore'', ''pow_free_days''),
      (''restore'', ''pow_days_per_bit''), (''restore'', ''pow_max_bits''),
      (''console'', ''restart_apply_mode''),
      (''registration'', ''require_invite''), (''registration'', ''gate_mode''),
      (''registration'', ''require_payment''), (''registration'', ''payment_amount''),
      (''registration'', ''payment_currency''), (''registration'', ''payment_confirmations''),
      (''registration'', ''payment_expires_minutes''),
      (''pow'', ''enabled''), (''pow'', ''required''), (''pow'', ''cost''),
      (''features'', ''prices''), (''features'', ''prices_provider''), (''features'', ''prices_interval_secs''),
      (''features'', ''prices_currency''), (''features'', ''tips''), (''features'', ''nostr_identity''),
      (''features'', ''grin_relay''), (''features'', ''chain_btc''), (''features'', ''chain_ltc''),
      (''features'', ''chain_xmr''), (''features'', ''chain_wow''), (''features'', ''chain_grin''),
      (''relay'', ''enabled''), (''relay'', ''mode''), (''relay'', ''advertised_url''), (''relay'', ''write_policy''),
      (''relay'', ''inbound_pow_bits''), (''relay'', ''max_event_bytes''), (''relay'', ''retention_days''),
      (''premium'', ''enabled''), (''premium'', ''currency'')]"

section \<open>Application\<close>

text \<open>\<open>if let Some(v) = ... { c.field = v }\<close>: an absent field keeps the value.\<close>

definition or_keep :: "'a option \<Rightarrow> 'a \<Rightarrow> 'a" where
  "or_keep x d = (case x of None \<Rightarrow> d | Some v \<Rightarrow> v)"

lemma or_keep_simps [simp]: "or_keep None d = d" "or_keep (Some v) d = v"
  by (simp_all add: or_keep_def)

definition apply_landing :: "landing_overlay \<Rightarrow> landing_config \<Rightarrow> landing_config" where
  "apply_landing l c =
     \<lparr>la_enabled = or_keep (lo_enabled l) (la_enabled c),
      la_title = (case lo_title l of None \<Rightarrow> la_title c | Some v \<Rightarrow> if v = [] then None else Some v),
      la_expose_version = or_keep (lo_expose_version l) (la_expose_version c),
      la_expose_chains = or_keep (lo_expose_chains l) (la_expose_chains c),
      la_expose_price_feed = or_keep (lo_expose_price_feed l) (la_expose_price_feed c),
      la_expose_uptime = or_keep (lo_expose_uptime l) (la_expose_uptime c),
      la_stats_enabled = or_keep (lo_stats_enabled l) (la_stats_enabled c),
      la_stats_cache_hours = or_keep (lo_stats_cache_hours l) (la_stats_cache_hours c),
      la_stats_min_users = or_keep (lo_stats_min_users l) (la_stats_min_users c)\<rparr>"

definition apply_retention :: "retention_overlay \<Rightarrow> retention_config \<Rightarrow> retention_config" where
  "apply_retention r c =
     \<lparr>re_login_events_days = or_keep (to_login_events_days r) (re_login_events_days c),
      re_audit_days = or_keep (to_audit_days r) (re_audit_days c),
      re_erasure_enabled = or_keep (to_erasure_enabled r) (re_erasure_enabled c),
      re_purge_login_events = or_keep (to_purge_login_events r) (re_purge_login_events c),
      re_export_per_day = or_keep (to_export_per_day r) (re_export_per_day c),
      re_grace_period_hours = or_keep (to_grace_period_hours r) (re_grace_period_hours c)\<rparr>"

definition parse_restore_policy :: "string \<Rightarrow> restore_policy result" where
  "parse_restore_policy p =
     (if p = ''create-only'' then Inr CreateOnly
      else if p = ''bounded'' then Inr Bounded
      else if p = ''unlimited'' then Inr Unlimited
      else Inl (ValidationError (''invalid restore.policy '' @ str_debug p @ '' (want create-only|bounded|unlimited)'')))"

definition parse_restart_mode :: "string \<Rightarrow> restart_apply_mode result" where
  "parse_restart_mode m =
     (if m = ''manual'' then Inr Manual
      else if m = ''auto'' then Inr Auto
      else Inl (ValidationError (''invalid console.restart_apply_mode '' @ str_debug m @ '' (want manual|auto)'')))"

definition parse_gate_mode :: "string \<Rightarrow> gate_mode result" where
  "parse_gate_mode m =
     (let l = to_lowercase m in
      if l = ''all'' then Inr GateAll
      else if l = ''any'' then Inr GateAny
      else Inl (ValidationError (''invalid registration.gate_mode '' @ str_debug l @ '' (want all|any)'')))"

text \<open>A field that is parsed when present.\<close>

definition parse_or_keep :: "('a \<Rightarrow> 'b result) \<Rightarrow> 'a option \<Rightarrow> 'b \<Rightarrow> 'b result" where
  "parse_or_keep parse x d = (case x of None \<Rightarrow> Inr d | Some v \<Rightarrow> parse v)"

lemma parse_or_keep_simps [simp]:
  "parse_or_keep parse None d = Inr d" "parse_or_keep parse (Some v) d = parse v"
  by (simp_all add: parse_or_keep_def)

definition apply_restore :: "restore_overlay \<Rightarrow> restore_config \<Rightarrow> restore_config result" where
  "apply_restore r c =
     try_bind (parse_or_keep parse_restore_policy (so_policy r) (rs_policy c)) (\<lambda>policy.
       Inr \<lparr>rs_policy = policy,
            rs_max_depth_days = or_keep (so_max_depth_days r) (rs_max_depth_days c),
            rs_pow_free_days = or_keep (so_pow_free_days r) (rs_pow_free_days c),
            rs_pow_days_per_bit = or_keep (so_pow_days_per_bit r) (rs_pow_days_per_bit c),
            rs_pow_max_bits = or_keep (so_pow_max_bits r) (rs_pow_max_bits c)\<rparr>)"

definition apply_console :: "console_overlay \<Rightarrow> console_config \<Rightarrow> console_config result" where
  "apply_console cs c =
     try_bind (parse_or_keep parse_restart_mode (no_restart_apply_mode cs) (co_restart_apply_mode c)) (\<lambda>m.
       Inr \<lparr>co_restart_apply_mode = m\<rparr>)"

definition apply_registration :: "registration_overlay \<Rightarrow> registration_config \<Rightarrow> registration_config result" where
  "apply_registration rg c =
     try_bind (parse_or_keep parse_gate_mode (go_gate_mode rg) (rg_gate_mode c)) (\<lambda>m.
       Inr \<lparr>rg_require_invite = or_keep (go_require_invite rg) (rg_require_invite c),
            rg_payment = (rg_payment c)
              \<lparr>require_payment := or_keep (go_require_payment rg) (require_payment (rg_payment c)),
               pay_amount := or_keep (go_payment_amount rg) (pay_amount (rg_payment c)),
               pay_currency := or_keep (map_option to_uppercase (go_payment_currency rg)) (pay_currency (rg_payment c)),
               pay_confirmations := or_keep (go_payment_confirmations rg) (pay_confirmations (rg_payment c)),
               pay_expires_minutes := or_keep (go_payment_expires_minutes rg) (pay_expires_minutes (rg_payment c))\<rparr>,
            rg_gate_mode = m\<rparr>)"

definition apply_pow :: "pow_overlay \<Rightarrow> pow_settings \<Rightarrow> pow_settings" where
  "apply_pow p c =
     c\<lparr>pow_enabled := or_keep (wo_enabled p) (pow_enabled c),
       pow_required := or_keep (wo_required p) (pow_required c),
       pow_cost := or_keep (wo_cost p) (pow_cost c)\<rparr>"

definition apply_features :: "features_overlay \<Rightarrow> feature_flags \<Rightarrow> feature_flags" where
  "apply_features f c =
     c\<lparr>ft_prices := or_keep (fo_prices f) (ft_prices c),
       ft_prices_provider := or_keep (map_option to_lowercase (fo_prices_provider f)) (ft_prices_provider c),
       ft_prices_interval_secs := or_keep (fo_prices_interval_secs f) (ft_prices_interval_secs c),
       ft_prices_currency := or_keep (map_option to_lowercase (fo_prices_currency f)) (ft_prices_currency c),
       ft_tips := or_keep (fo_tips f) (ft_tips c),
       ft_nostr_identity := or_keep (fo_nostr_identity f) (ft_nostr_identity c),
       ft_grin_relay := or_keep (fo_grin_relay f) (ft_grin_relay c),
       ft_chains :=
         \<lparr>fl_btc = or_keep (fo_chain_btc f) (fl_btc (ft_chains c)),
          fl_ltc = or_keep (fo_chain_ltc f) (fl_ltc (ft_chains c)),
          fl_xmr = or_keep (fo_chain_xmr f) (fl_xmr (ft_chains c)),
          fl_wow = or_keep (fo_chain_wow f) (fl_wow (ft_chains c)),
          fl_grin = or_keep (fo_chain_grin f) (fl_grin (ft_chains c))\<rparr>\<rparr>"

definition apply_relay :: "relay_overlay \<Rightarrow> relay_settings \<Rightarrow> relay_settings" where
  "apply_relay r c =
     c\<lparr>rc_enabled := or_keep (yo_enabled r) (rc_enabled c),
       rc_mode := or_keep (map_option to_lowercase (yo_mode r)) (rc_mode c),
       rc_advertised_url := or_keep (yo_advertised_url r) (rc_advertised_url c),
       rc_write_policy := or_keep (map_option to_lowercase (yo_write_policy r)) (rc_write_policy c),
       rc_inbound_pow_bits := or_keep (yo_inbound_pow_bits r) (rc_inbound_pow_bits c),
       rc_max_event_bytes := or_keep (yo_max_event_bytes r) (rc_max_event_bytes c),
       ry_retention_days := or_keep (yo_retention_days r) (ry_retention_days c)\<rparr>"

definition apply_premium :: "premium_overlay \<Rightarrow> premium_settings \<Rightarrow> premium_settings" where
  "apply_premium p c =
     c\<lparr>premium_enabled := or_keep (mo_enabled p) (premium_enabled c),
       premium_currency := or_keep (map_option to_uppercase (mo_currency p)) (premium_currency c)\<rparr>"

text \<open>The merge without the final validation, and with it.\<close>

definition merge_overlay :: "settings_overlay \<Rightarrow> config \<Rightarrow> config result" where
  "merge_overlay ov c =
     try_bind (case ov_restore ov of None \<Rightarrow> Inr (cf_restore c) | Some r \<Rightarrow> apply_restore r (cf_restore c)) (\<lambda>restore.
     try_bind (case ov_console ov of None \<Rightarrow> Inr (cf_console c) | Some cs \<Rightarrow> apply_console cs (cf_console c)) (\<lambda>console.
     try_bind (case ov_registration ov of None \<Rightarrow> Inr (cf_registration c)
               | Some rg \<Rightarrow> apply_registration rg (cf_registration c)) (\<lambda>registration.
       Inr (c\<lparr>cf_landing := (case ov_landing ov of None \<Rightarrow> cf_landing c | Some l \<Rightarrow> apply_landing l (cf_landing c)),
              cf_retention := (case ov_retention ov of None \<Rightarrow> cf_retention c | Some r \<Rightarrow> apply_retention r (cf_retention c)),
              cf_restore := restore, cf_console := console, cf_registration := registration,
              cf_pow := (case ov_pow ov of None \<Rightarrow> cf_pow c | Some p \<Rightarrow> apply_pow p (cf_pow c)),
              cf_features := (case ov_features ov of None \<Rightarrow> cf_features c | Some f \<Rightarrow> apply_features f (cf_features c)),
              cf_messaging := (case ov_relay ov of None \<Rightarrow> cf_messaging c
                 | Some r \<Rightarrow> (cf_messaging c)\<lparr>ms_relay := apply_relay r (ms_relay (cf_messaging c))\<rparr>),
              cf_premium := (case ov_premium ov of None \<Rightarrow> cf_premium c
                 | Some p \<Rightarrow> apply_premium p (cf_premium c))\<rparr>))))"

definition apply_overlay :: "net_lib \<Rightarrow> config \<Rightarrow> settings_overlay \<Rightarrow> config result" where
  "apply_overlay lib c ov =
     try_bind (merge_overlay ov c) (\<lambda>c'.
     try_bind (validate lib c') (\<lambda>_. Inr c'))"

section \<open>The editable fields of a configuration\<close>

definition editable_overlay :: "config \<Rightarrow> settings_overlay" where
  "editable_overlay c =
     \<lparr>ov_landing = Some
        \<lparr>lo_enabled = Some (la_enabled (cf_landing c)), lo_title = Some (or_keep (la_title (cf_landing c)) []),
         lo_expose_version = Some (la_expose_version (cf_landing c)),
         lo_expose_chains = Some (la_expose_chains (cf_landing c)),
         lo_expose_price_feed = Some (la_expose_price_feed (cf_landing c)),
         lo_expose_uptime = Some (la_expose_uptime (cf_landing c)),
         lo_stats_enabled = Some (la_stats_enabled (cf_landing c)),
         lo_stats_cache_hours = Some (la_stats_cache_hours (cf_landing c)),
         lo_stats_min_users = Some (la_stats_min_users (cf_landing c))\<rparr>,
      ov_retention = Some
        \<lparr>to_login_events_days = Some (re_login_events_days (cf_retention c)),
         to_audit_days = Some (re_audit_days (cf_retention c)),
         to_erasure_enabled = Some (re_erasure_enabled (cf_retention c)),
         to_purge_login_events = Some (re_purge_login_events (cf_retention c)),
         to_export_per_day = Some (re_export_per_day (cf_retention c)),
         to_grace_period_hours = Some (re_grace_period_hours (cf_retention c))\<rparr>,
      ov_restore = Some
        \<lparr>so_policy = Some (restore_policy_as_str (rs_policy (cf_restore c))),
         so_max_depth_days = Some (rs_max_depth_days (cf_restore c)),
         so_pow_free_days = Some (rs_pow_free_days (cf_restore c)),
         so_pow_days_per_bit = Some (rs_pow_days_per_bit (cf_restore c)),
         so_pow_max_bits = Some (rs_pow_max_bits (cf_restore c))\<rparr>,
      ov_console = Some
        \<lparr>no_restart_apply_mode = Some (restart_apply_mode_as_str (co_restart_apply_mode (cf_console c)))\<rparr>,
      ov_registration = Some
        \<lparr>go_require_invite = Some (rg_require_invite (cf_registration c)),
         go_gate_mode = Some (gate_mode_as_str (rg_gate_mode (cf_registration c))),
         go_require_payment = Some (require_payment (rg_payment (cf_registration c))),
         go_payment_amount = Some (pay_amount (rg_payment (cf_registration c))),
         go_payment_currency = Some (pay_currency (rg_payment (cf_registration c))),
         go_payment_confirmations = Some (pay_confirmations (rg_payment (cf_registration c))),
         go_payment_expires_minutes = Some (pay_expires_minutes (rg_payment (cf_registration c)))\<rparr>,
      ov_pow = Some
        \<lparr>wo_enabled = Some (pow_enabled (cf_pow c)), wo_required = Some (pow_required (cf_pow c)),
         wo_cost = Some (pow_cost (cf_pow c))\<rparr>,
      ov_features = Some
        \<lparr>fo_prices = Some (ft_prices (cf_features c)), fo_prices_provider = Some (ft_prices_provider (cf_features c)),
         fo_prices_interval_secs = Some (ft_prices_interval_secs (cf_features c)),
         fo_prices_currency = Some (ft_prices_currency (cf_features c)), fo_tips = Some (ft_tips (cf_features c)),
         fo_nostr_identity = Some (ft_nostr_identity (cf_features c)),
         fo_grin_relay = Some (ft_grin_relay (cf_features c)),
         fo_chain_btc = Some (fl_btc (ft_chains (cf_features c))),
         fo_chain_ltc = Some (fl_ltc (ft_chains (cf_features c))),
         fo_chain_xmr = Some (fl_xmr (ft_chains (cf_features c))),
         fo_chain_wow = Some (fl_wow (ft_chains (cf_features c))),
         fo_chain_grin = Some (fl_grin (ft_chains (cf_features c)))\<rparr>,
      ov_relay = Some
        \<lparr>yo_enabled = Some (rc_enabled (ms_relay (cf_messaging c))),
         yo_mode = Some (rc_mode (ms_relay (cf_messaging c))),
         yo_advertised_url = Some (rc_advertised_url (ms_relay (cf_messaging c))),
         yo_write_policy = Some (rc_write_policy (ms_relay (cf_messaging c))),
         yo_inbound_pow_bits = Some (rc_inbound_pow_bits (ms_relay (cf_messaging c))),
         yo_max_event_bytes = Some (rc_max_event_bytes (ms_relay (cf_messaging c))),
         yo_retention_days = Some (ry_retention_days (ms_relay (cf_messaging c)))\<rparr>,
      ov_premium = Some
        \<lparr>mo_enabled = Some (premium_enabled (cf_premium c)), mo_currency = Some (premium_currency (cf_premium c))\<rparr>\<rparr>"

end
