(* ===== verification/Settings_Json.thy ===== *)
theory Settings_Json
  imports Config_Overlay
begin

text \<open>
  The JSON form of the settings patches of \<open>src/src/config_overlay.rs\<close>, as the derived serialisers read and write
  it: every field of a patch is written, an absent one as \<open>null\<close>; on reading, an unknown key is ignored and a
  missing or \<open>null\<close> field is absent. A \<open>serde_json::Map\<close> is a list of entries in the order of its keys. A
  fractional number has no counterpart in \<open>json\<close>; every field it could be read into refuses it.
\<close>

section \<open>Objects\<close>

definition json_object :: "(string \<times> json) list \<Rightarrow> json" where
  "json_object fs = JObj (sort_key fst fs)"

definition json_or_null :: "json option \<Rightarrow> json" where
  "json_or_null x = (case x of None \<Rightarrow> JNull | Some v \<Rightarrow> v)"

fun obj_put :: "string \<Rightarrow> json \<Rightarrow> (string \<times> json) list \<Rightarrow> (string \<times> json) list" where
  "obj_put k v [] = [(k, v)]"
| "obj_put k v ((k', v') # fs) =
     (if k = k' then (k, v) # fs
      else if k < k' then (k, v) # (k', v') # fs
      else (k', v') # obj_put k v fs)"

lemma map_of_obj_put [simp]: "map_of (obj_put k v fs) = (map_of fs)(k \<mapsto> v)"
proof (induction k v fs rule: obj_put.induct)
  case (2 k v k' v' fs)
  then show ?case by (auto simp: fun_upd_twist)
qed simp

text \<open>A derived struct is read from an object, by name, or from an array, by position.\<close>

definition struct_fields :: "string list \<Rightarrow> json \<Rightarrow> (string \<Rightarrow> json) option" where
  "struct_fields names v =
     (case v of
        JObj fs \<Rightarrow> Some (\<lambda>k. json_or_null (map_of fs k))
      | JArr vs \<Rightarrow>
          if length vs \<le> length names then Some (\<lambda>k. json_or_null (map_of (zip names vs) k)) else None
      | _ \<Rightarrow> None)"

section \<open>Fields\<close>

definition json_of_word :: "'w::len word \<Rightarrow> json" where
  "json_of_word w = JNum (uint w)"

definition json_of_usize :: "nat \<Rightarrow> json" where
  "json_of_usize n = JNum (int n)"

definition dec_bool :: "json \<Rightarrow> bool option option" where
  "dec_bool v = (case v of JNull \<Rightarrow> Some None | JBool b \<Rightarrow> Some (Some b) | _ \<Rightarrow> None)"

definition dec_str :: "json \<Rightarrow> string option option" where
  "dec_str v = (case v of JNull \<Rightarrow> Some None | JStr s \<Rightarrow> Some (Some s) | _ \<Rightarrow> None)"

definition dec_word :: "json \<Rightarrow> 'w::len word option option" where
  "dec_word v =
     (case v of
        JNull \<Rightarrow> Some None
      | JNum i \<Rightarrow> if 0 \<le> i \<and> i < 2 ^ LENGTH('w) then Some (Some (word_of_int i)) else None
      | _ \<Rightarrow> None)"

definition dec_i64 :: "json \<Rightarrow> i64 option option" where
  "dec_i64 v =
     (case v of JNull \<Rightarrow> Some None | JNum i \<Rightarrow> if in_i64 i then Some (Some i) else None | _ \<Rightarrow> None)"

definition dec_usize :: "json \<Rightarrow> nat option option" where
  "dec_usize v =
     (case v of JNull \<Rightarrow> Some None | JNum i \<Rightarrow> if 0 \<le> i \<and> i < 2 ^ 64 then Some (Some (nat i)) else None | _ \<Rightarrow> None)"

definition dec_section :: "(json \<Rightarrow> 'a option) \<Rightarrow> json \<Rightarrow> 'a option option" where
  "dec_section dec v = (case v of JNull \<Rightarrow> Some None | _ \<Rightarrow> map_option Some (dec v))"

section \<open>Patches\<close>

definition landing_to_json :: "landing_overlay \<Rightarrow> json" where
  "landing_to_json x =
     json_object
       [(''enabled'', json_opt JBool (lo_enabled x)), (''title'', json_opt JStr (lo_title x)),
        (''expose_version'', json_opt JBool (lo_expose_version x)), (''expose_chains'', json_opt JBool (lo_expose_chains x)),
        (''expose_price_feed'', json_opt JBool (lo_expose_price_feed x)), (''expose_uptime'', json_opt JBool (lo_expose_uptime x)),
        (''stats_enabled'', json_opt JBool (lo_stats_enabled x)), (''stats_cache_hours'', json_opt json_of_word (lo_stats_cache_hours x)),
        (''stats_min_users'', json_opt JNum (lo_stats_min_users x))]"

definition landing_of_json :: "json \<Rightarrow> landing_overlay option" where
  "landing_of_json v =
     Option.bind (struct_fields [''enabled'', ''title'', ''expose_version'', ''expose_chains'', ''expose_price_feed'',
        ''expose_uptime'', ''stats_enabled'', ''stats_cache_hours'', ''stats_min_users''] v) (\<lambda>g.
     Option.bind (dec_bool (g ''enabled'')) (\<lambda>v0.
     Option.bind (dec_str (g ''title'')) (\<lambda>v1.
     Option.bind (dec_bool (g ''expose_version'')) (\<lambda>v2.
     Option.bind (dec_bool (g ''expose_chains'')) (\<lambda>v3.
     Option.bind (dec_bool (g ''expose_price_feed'')) (\<lambda>v4.
     Option.bind (dec_bool (g ''expose_uptime'')) (\<lambda>v5.
     Option.bind (dec_bool (g ''stats_enabled'')) (\<lambda>v6.
     Option.bind (dec_word (g ''stats_cache_hours'')) (\<lambda>v7.
     Option.bind (dec_i64 (g ''stats_min_users'')) (\<lambda>v8.
       Some \<lparr>lo_enabled = v0, lo_title = v1, lo_expose_version = v2, lo_expose_chains = v3,
              lo_expose_price_feed = v4, lo_expose_uptime = v5, lo_stats_enabled = v6, lo_stats_cache_hours = v7,
              lo_stats_min_users = v8\<rparr>))))))))))"

definition retention_to_json :: "retention_overlay \<Rightarrow> json" where
  "retention_to_json x =
     json_object
       [(''login_events_days'', json_opt json_of_word (to_login_events_days x)), (''audit_days'', json_opt json_of_word (to_audit_days x)),
        (''erasure_enabled'', json_opt JBool (to_erasure_enabled x)), (''purge_login_events'', json_opt JBool (to_purge_login_events x)),
        (''export_per_day'', json_opt json_of_word (to_export_per_day x)), (''grace_period_hours'', json_opt json_of_word (to_grace_period_hours x))]"

definition retention_of_json :: "json \<Rightarrow> retention_overlay option" where
  "retention_of_json v =
     Option.bind (struct_fields [''login_events_days'', ''audit_days'', ''erasure_enabled'', ''purge_login_events'', ''export_per_day'',
        ''grace_period_hours''] v) (\<lambda>g.
     Option.bind (dec_word (g ''login_events_days'')) (\<lambda>v0.
     Option.bind (dec_word (g ''audit_days'')) (\<lambda>v1.
     Option.bind (dec_bool (g ''erasure_enabled'')) (\<lambda>v2.
     Option.bind (dec_bool (g ''purge_login_events'')) (\<lambda>v3.
     Option.bind (dec_word (g ''export_per_day'')) (\<lambda>v4.
     Option.bind (dec_word (g ''grace_period_hours'')) (\<lambda>v5.
       Some \<lparr>to_login_events_days = v0, to_audit_days = v1, to_erasure_enabled = v2, to_purge_login_events = v3,
              to_export_per_day = v4, to_grace_period_hours = v5\<rparr>)))))))"

definition restore_to_json :: "restore_overlay \<Rightarrow> json" where
  "restore_to_json x =
     json_object
       [(''policy'', json_opt JStr (so_policy x)), (''max_depth_days'', json_opt json_of_word (so_max_depth_days x)),
        (''pow_free_days'', json_opt json_of_word (so_pow_free_days x)), (''pow_days_per_bit'', json_opt json_of_word (so_pow_days_per_bit x)),
        (''pow_max_bits'', json_opt json_of_word (so_pow_max_bits x))]"

definition restore_of_json :: "json \<Rightarrow> restore_overlay option" where
  "restore_of_json v =
     Option.bind (struct_fields [''policy'', ''max_depth_days'', ''pow_free_days'', ''pow_days_per_bit'', ''pow_max_bits''] v) (\<lambda>g.
     Option.bind (dec_str (g ''policy'')) (\<lambda>v0.
     Option.bind (dec_word (g ''max_depth_days'')) (\<lambda>v1.
     Option.bind (dec_word (g ''pow_free_days'')) (\<lambda>v2.
     Option.bind (dec_word (g ''pow_days_per_bit'')) (\<lambda>v3.
     Option.bind (dec_word (g ''pow_max_bits'')) (\<lambda>v4.
       Some \<lparr>so_policy = v0, so_max_depth_days = v1, so_pow_free_days = v2, so_pow_days_per_bit = v3,
              so_pow_max_bits = v4\<rparr>))))))"

definition console_to_json :: "console_overlay \<Rightarrow> json" where
  "console_to_json x =
     json_object
       [(''restart_apply_mode'', json_opt JStr (no_restart_apply_mode x))]"

definition console_of_json :: "json \<Rightarrow> console_overlay option" where
  "console_of_json v =
     Option.bind (struct_fields [''restart_apply_mode''] v) (\<lambda>g.
     Option.bind (dec_str (g ''restart_apply_mode'')) (\<lambda>v0.
       Some \<lparr>no_restart_apply_mode = v0\<rparr>))"

definition registration_to_json :: "registration_overlay \<Rightarrow> json" where
  "registration_to_json x =
     json_object
       [(''require_invite'', json_opt JBool (go_require_invite x)), (''gate_mode'', json_opt JStr (go_gate_mode x)),
        (''require_payment'', json_opt JBool (go_require_payment x)), (''payment_amount'', json_opt JStr (go_payment_amount x)),
        (''payment_currency'', json_opt JStr (go_payment_currency x)), (''payment_confirmations'', json_opt json_of_word (go_payment_confirmations x)),
        (''payment_expires_minutes'', json_opt json_of_word (go_payment_expires_minutes x))]"

definition registration_of_json :: "json \<Rightarrow> registration_overlay option" where
  "registration_of_json v =
     Option.bind (struct_fields [''require_invite'', ''gate_mode'', ''require_payment'', ''payment_amount'', ''payment_currency'',
        ''payment_confirmations'', ''payment_expires_minutes''] v) (\<lambda>g.
     Option.bind (dec_bool (g ''require_invite'')) (\<lambda>v0.
     Option.bind (dec_str (g ''gate_mode'')) (\<lambda>v1.
     Option.bind (dec_bool (g ''require_payment'')) (\<lambda>v2.
     Option.bind (dec_str (g ''payment_amount'')) (\<lambda>v3.
     Option.bind (dec_str (g ''payment_currency'')) (\<lambda>v4.
     Option.bind (dec_word (g ''payment_confirmations'')) (\<lambda>v5.
     Option.bind (dec_word (g ''payment_expires_minutes'')) (\<lambda>v6.
       Some \<lparr>go_require_invite = v0, go_gate_mode = v1, go_require_payment = v2, go_payment_amount = v3,
              go_payment_currency = v4, go_payment_confirmations = v5, go_payment_expires_minutes = v6\<rparr>))))))))"

definition pow_to_json :: "pow_overlay \<Rightarrow> json" where
  "pow_to_json x =
     json_object
       [(''enabled'', json_opt JBool (wo_enabled x)), (''required'', json_opt JBool (wo_required x)),
        (''cost'', json_opt json_of_word (wo_cost x))]"

definition pow_of_json :: "json \<Rightarrow> pow_overlay option" where
  "pow_of_json v =
     Option.bind (struct_fields [''enabled'', ''required'', ''cost''] v) (\<lambda>g.
     Option.bind (dec_bool (g ''enabled'')) (\<lambda>v0.
     Option.bind (dec_bool (g ''required'')) (\<lambda>v1.
     Option.bind (dec_word (g ''cost'')) (\<lambda>v2.
       Some \<lparr>wo_enabled = v0, wo_required = v1, wo_cost = v2\<rparr>))))"

definition features_to_json :: "features_overlay \<Rightarrow> json" where
  "features_to_json x =
     json_object
       [(''prices'', json_opt JBool (fo_prices x)), (''prices_provider'', json_opt JStr (fo_prices_provider x)),
        (''prices_interval_secs'', json_opt json_of_word (fo_prices_interval_secs x)), (''prices_currency'', json_opt JStr (fo_prices_currency x)),
        (''tips'', json_opt JBool (fo_tips x)), (''nostr_identity'', json_opt JBool (fo_nostr_identity x)),
        (''grin_relay'', json_opt JBool (fo_grin_relay x)), (''chain_btc'', json_opt JBool (fo_chain_btc x)),
        (''chain_ltc'', json_opt JBool (fo_chain_ltc x)), (''chain_xmr'', json_opt JBool (fo_chain_xmr x)),
        (''chain_wow'', json_opt JBool (fo_chain_wow x)), (''chain_grin'', json_opt JBool (fo_chain_grin x))]"

definition features_of_json :: "json \<Rightarrow> features_overlay option" where
  "features_of_json v =
     Option.bind (struct_fields [''prices'', ''prices_provider'', ''prices_interval_secs'', ''prices_currency'', ''tips'',
        ''nostr_identity'', ''grin_relay'', ''chain_btc'', ''chain_ltc'', ''chain_xmr'',
        ''chain_wow'', ''chain_grin''] v) (\<lambda>g.
     Option.bind (dec_bool (g ''prices'')) (\<lambda>v0.
     Option.bind (dec_str (g ''prices_provider'')) (\<lambda>v1.
     Option.bind (dec_word (g ''prices_interval_secs'')) (\<lambda>v2.
     Option.bind (dec_str (g ''prices_currency'')) (\<lambda>v3.
     Option.bind (dec_bool (g ''tips'')) (\<lambda>v4.
     Option.bind (dec_bool (g ''nostr_identity'')) (\<lambda>v5.
     Option.bind (dec_bool (g ''grin_relay'')) (\<lambda>v6.
     Option.bind (dec_bool (g ''chain_btc'')) (\<lambda>v7.
     Option.bind (dec_bool (g ''chain_ltc'')) (\<lambda>v8.
     Option.bind (dec_bool (g ''chain_xmr'')) (\<lambda>v9.
     Option.bind (dec_bool (g ''chain_wow'')) (\<lambda>v10.
     Option.bind (dec_bool (g ''chain_grin'')) (\<lambda>v11.
       Some \<lparr>fo_prices = v0, fo_prices_provider = v1, fo_prices_interval_secs = v2, fo_prices_currency = v3,
              fo_tips = v4, fo_nostr_identity = v5, fo_grin_relay = v6, fo_chain_btc = v7,
              fo_chain_ltc = v8, fo_chain_xmr = v9, fo_chain_wow = v10, fo_chain_grin = v11\<rparr>)))))))))))))"

definition relay_to_json :: "relay_overlay \<Rightarrow> json" where
  "relay_to_json x =
     json_object
       [(''enabled'', json_opt JBool (yo_enabled x)), (''mode'', json_opt JStr (yo_mode x)),
        (''advertised_url'', json_opt JStr (yo_advertised_url x)), (''write_policy'', json_opt JStr (yo_write_policy x)),
        (''inbound_pow_bits'', json_opt json_of_word (yo_inbound_pow_bits x)), (''max_event_bytes'', json_opt json_of_usize (yo_max_event_bytes x)),
        (''retention_days'', json_opt json_of_word (yo_retention_days x))]"

definition relay_of_json :: "json \<Rightarrow> relay_overlay option" where
  "relay_of_json v =
     Option.bind (struct_fields [''enabled'', ''mode'', ''advertised_url'', ''write_policy'', ''inbound_pow_bits'',
        ''max_event_bytes'', ''retention_days''] v) (\<lambda>g.
     Option.bind (dec_bool (g ''enabled'')) (\<lambda>v0.
     Option.bind (dec_str (g ''mode'')) (\<lambda>v1.
     Option.bind (dec_str (g ''advertised_url'')) (\<lambda>v2.
     Option.bind (dec_str (g ''write_policy'')) (\<lambda>v3.
     Option.bind (dec_word (g ''inbound_pow_bits'')) (\<lambda>v4.
     Option.bind (dec_usize (g ''max_event_bytes'')) (\<lambda>v5.
     Option.bind (dec_word (g ''retention_days'')) (\<lambda>v6.
       Some \<lparr>yo_enabled = v0, yo_mode = v1, yo_advertised_url = v2, yo_write_policy = v3,
              yo_inbound_pow_bits = v4, yo_max_event_bytes = v5, yo_retention_days = v6\<rparr>))))))))"

definition premium_to_json :: "premium_overlay \<Rightarrow> json" where
  "premium_to_json x =
     json_object
       [(''enabled'', json_opt JBool (mo_enabled x)), (''currency'', json_opt JStr (mo_currency x))]"

definition premium_of_json :: "json \<Rightarrow> premium_overlay option" where
  "premium_of_json v =
     Option.bind (struct_fields [''enabled'', ''currency''] v) (\<lambda>g.
     Option.bind (dec_bool (g ''enabled'')) (\<lambda>v0.
     Option.bind (dec_str (g ''currency'')) (\<lambda>v1.
       Some \<lparr>mo_enabled = v0, mo_currency = v1\<rparr>)))"

definition settings_to_json :: "settings_overlay \<Rightarrow> json" where
  "settings_to_json x =
     json_object
       [(''landing'', json_opt landing_to_json (ov_landing x)), (''retention'', json_opt retention_to_json (ov_retention x)),
        (''restore'', json_opt restore_to_json (ov_restore x)), (''console'', json_opt console_to_json (ov_console x)),
        (''registration'', json_opt registration_to_json (ov_registration x)), (''pow'', json_opt pow_to_json (ov_pow x)),
        (''features'', json_opt features_to_json (ov_features x)), (''relay'', json_opt relay_to_json (ov_relay x)),
        (''premium'', json_opt premium_to_json (ov_premium x))]"

definition settings_of_json :: "json \<Rightarrow> settings_overlay option" where
  "settings_of_json v =
     Option.bind (struct_fields [''landing'', ''retention'', ''restore'', ''console'', ''registration'',
        ''pow'', ''features'', ''relay'', ''premium''] v) (\<lambda>g.
     Option.bind (dec_section landing_of_json (g ''landing'')) (\<lambda>v0.
     Option.bind (dec_section retention_of_json (g ''retention'')) (\<lambda>v1.
     Option.bind (dec_section restore_of_json (g ''restore'')) (\<lambda>v2.
     Option.bind (dec_section console_of_json (g ''console'')) (\<lambda>v3.
     Option.bind (dec_section registration_of_json (g ''registration'')) (\<lambda>v4.
     Option.bind (dec_section pow_of_json (g ''pow'')) (\<lambda>v5.
     Option.bind (dec_section features_of_json (g ''features'')) (\<lambda>v6.
     Option.bind (dec_section relay_of_json (g ''relay'')) (\<lambda>v7.
     Option.bind (dec_section premium_of_json (g ''premium'')) (\<lambda>v8.
       Some \<lparr>ov_landing = v0, ov_retention = v1, ov_restore = v2, ov_console = v3,
              ov_registration = v4, ov_pow = v5, ov_features = v6, ov_relay = v7,
              ov_premium = v8\<rparr>))))))))))"
section \<open>Merging\<close>

fun json_merge_skip_null :: "json \<Rightarrow> json \<Rightarrow> json"
  and merge_fields :: "(string \<times> json) list \<Rightarrow> (string \<times> json) list \<Rightarrow> (string \<times> json) list" where
  "json_merge_skip_null (JObj b) (JObj p) = JObj (merge_fields b p)"
| "json_merge_skip_null b p = p"
| "merge_fields b [] = b"
| "merge_fields b ((k, pv) # p) =
     (if pv = JNull then merge_fields b p
      else merge_fields (obj_put k (json_merge_skip_null (json_or_null (map_of b k)) pv) b) p)"

end
