(* ===== verification/Operator_Settings.thy ===== *)
theory Operator_Settings
  imports Settings_Json
begin

text \<open>
  \<open>src/src/infra/db/operator_settings.rs\<close>: one sealed row per section of the settings patch, its load (which drops
  what the seal does not cover) and its audited write under optimistic concurrency; the start of \<open>src/src/main.rs\<close>
  that puts the stored patch over the environment's configuration; and the configuration editor of
  \<open>src/src/api/admin.rs\<close> with the console's read and write.

  \<open>Utc::now()\<close> and the identifiers of the audit entries are arguments. A version counts the writes of a section and
  does not overflow. The lock \<open>FOR UPDATE\<close> orders writers; a transaction is one atomic step here.
\<close>

section \<open>The seal\<close>

fun canonical_json :: "'a json_lib_scheme \<Rightarrow> json \<Rightarrow> string"
  and canonical_entries :: "'a json_lib_scheme \<Rightarrow> (string \<times> json) list \<Rightarrow> (string \<times> string) list"
  and canonical_items :: "'a json_lib_scheme \<Rightarrow> json list \<Rightarrow> string list" where
  "canonical_json lib (JObj fs) =
     [CHR 0x7B] @ str_join '','' (map snd (sort_key fst (canonical_entries lib fs))) @ [CHR 0x7D]"
| "canonical_json lib (JArr vs) = ''['' @ str_join '','' (canonical_items lib vs) @ '']''"
| "canonical_json lib v = json_to_string lib v"
| "canonical_entries lib [] = []"
| "canonical_entries lib ((k, v) # fs) =
     (k, json_to_string lib (JStr k) @ '':'' @ canonical_json lib v) # canonical_entries lib fs"
| "canonical_items lib [] = []"
| "canonical_items lib (v # vs) = canonical_json lib v # canonical_items lib vs"

definition settings_mac :: "'a mac_lib_scheme \<Rightarrow> string \<Rightarrow> string \<Rightarrow> i64 \<Rightarrow> json \<Rightarrow> string" where
  "settings_mac lib secret sec version doc =
     peppered_hex lib secret ''operator_settings''
       (sec @ [unit_separator] @ int_to_string version @ [unit_separator] @ canonical_json lib doc)"

definition verify_settings_mac :: "'a mac_lib_scheme \<Rightarrow> string \<Rightarrow> operator_setting_row \<Rightarrow> bool" where
  "verify_settings_mac lib secret row \<longleftrightarrow>
     settings_mac lib secret (os_section row) (os_version row) (os_doc row) = os_integrity_mac row"

section \<open>The store\<close>

fun merge_rows :: "'a mac_lib_scheme \<Rightarrow> string \<Rightarrow> operator_setting_row list \<Rightarrow> (string \<times> json) list \<Rightarrow> (string \<times> json) list" where
  "merge_rows lib secret [] merged = merged"
| "merge_rows lib secret (row # rows) merged =
     merge_rows lib secret rows
       (if verify_settings_mac lib secret row then obj_put (os_section row) (os_doc row) merged else merged)"

definition overlay_of_rows :: "'a mac_lib_scheme \<Rightarrow> string \<Rightarrow> operator_setting_row list \<Rightarrow> settings_overlay" where
  "overlay_of_rows lib secret rows =
     (case settings_of_json (JObj (merge_rows lib secret rows [])) of
        Some ov \<Rightarrow> ov
      | None \<Rightarrow> overlay_default)"

definition load_settings_overlay :: "'a mac_lib_scheme \<Rightarrow> string \<Rightarrow> settings_overlay stmt" where
  "load_settings_overlay lib secret = query (\<lambda>db. overlay_of_rows lib secret (operator_settings db))"

definition setting_row ::
    "'a mac_lib_scheme \<Rightarrow> timestamp \<Rightarrow> string \<Rightarrow> json \<Rightarrow> i64 \<Rightarrow> uuid option \<Rightarrow> string \<Rightarrow> operator_setting_row" where
  "setting_row lib now sec doc version updated_by secret =
     \<lparr>os_section = sec, os_doc = doc, os_version = version, os_updated_by = updated_by, os_updated_at = now,
      os_integrity_mac = settings_mac lib secret sec version doc\<rparr>"

text \<open>The upsert; the writer is a reference into \<open>admin_keys\<close>.\<close>

definition upsert_setting :: "operator_setting_row \<Rightarrow> unit stmt" where
  "upsert_setting row =
     sql (\<lambda>db.
       if (case os_updated_by row of None \<Rightarrow> False | Some k \<Rightarrow> k \<notin> set (map ak_id (admin_keys db))) then Inl ConstraintViolation
       else if os_section row \<in> set (map os_section (operator_settings db))
       then Inr ((), db\<lparr>operator_settings :=
              sql_update (\<lambda>r. os_section r = os_section row) (\<lambda>_. row) (operator_settings db)\<rparr>)
       else Inr ((), db\<lparr>operator_settings := operator_settings db @ [row]\<rparr>))"

definition current_version :: "string \<Rightarrow> i64 option stmt" where
  "current_version sec =
     query (\<lambda>db. map_option os_version (fetch_optional (filter (\<lambda>r. os_section r = sec) (operator_settings db))))"

definition stale_write :: "string \<Rightarrow> i64 \<Rightarrow> i64 \<Rightarrow> app_error" where
  "stale_write sec expected found =
     Conflict (''settings section '' @ quote @ sec @ quote @ '' changed concurrently (expected v'' @ int_to_string expected @
       '', found v'' @ int_to_string found @ ''); reload and retry'')"

definition put_setting_audited ::
    "'a mac_lib_scheme \<Rightarrow> timestamp \<Rightarrow> uuid \<Rightarrow> string \<Rightarrow> json \<Rightarrow> uuid option \<Rightarrow> i64 option \<Rightarrow> new_admin_audit \<Rightarrow> string \<Rightarrow>
     i64 stmt" where
  "put_setting_audited lib now i sec doc updated_by expected_version audit secret =
     transaction
       (stmt_bind (current_version sec) (\<lambda>current.
        let cur = or_keep current 0 in
        stmt_bind (case expected_version of
            None \<Rightarrow> stmt_return (Inr ())
          | Some e \<Rightarrow> stmt_return (ensure (cur = e) (stale_write sec e cur))) (\<lambda>_.
        stmt_bind (upsert_setting (setting_row lib now sec doc (cur + 1) updated_by secret)) (\<lambda>_.
        stmt_bind (append_admin_audit lib now i audit secret) (\<lambda>_.
          stmt_return (Inr (cur + 1)))))))"

definition settings_versions :: "(string \<times> i64) list stmt" where
  "settings_versions = query (\<lambda>db. map (\<lambda>r. (os_section r, os_version r)) (operator_settings db))"

section \<open>The effective configuration at start\<close>

text \<open>Without an integrity secret there is no anchor for the stored patch: the environment alone counts. A stored patch
  that no longer validates is ignored.\<close>

definition boot_config :: "'a mac_lib_scheme \<Rightarrow> net_lib \<Rightarrow> environment \<Rightarrow> (config \<times> config) stmt" where
  "boot_config lib net env =
     stmt_bind (stmt_return (from_env net env)) (\<lambda>base.
     stmt_bind (if key_integrity_secret (cf_admin base) = [] then stmt_return (Inr overlay_default)
                else load_settings_overlay lib (key_integrity_secret (cf_admin base))) (\<lambda>ov.
       stmt_return (Inr (base, case apply_overlay net base ov of Inr effective \<Rightarrow> effective | Inl e \<Rightarrow> base))))"

section \<open>The configuration editor\<close>

record console_state =
  cs_db :: database
  cs_config :: config
  cs_restart_requested :: bool

type_synonym 'a console_action = "(console_state, 'a) action"

record console_env =
  ce_admin :: admin_env
  ce_net :: net_lib
  ce_base :: config
  ce_serde_error :: string

definition console_db :: "'a stmt \<Rightarrow> 'a console_action" where
  "console_db m = on_part cs_db (\<lambda>d s. s\<lparr>cs_db := d\<rparr>) m"

definition running :: "config console_action" where
  "running s = (Inr (cs_config s), s)"

text \<open>The handlers read the admin section of the running configuration.\<close>

definition live_env :: "console_env \<Rightarrow> config \<Rightarrow> admin_env" where
  "live_env env c = (ce_admin env)\<lparr>an_cfg := admin_config.truncate (cf_admin c)\<rparr>"

record admin_config_response =
  ar_effective :: settings_overlay
  ar_overlay :: settings_overlay
  ar_versions :: "(string \<times> i64) list"
  ar_runtime_class :: "(string \<times> runtime_kind) list"
  ar_restart_pending :: bool

definition overlay_restart_pending :: "net_lib \<Rightarrow> config \<Rightarrow> settings_overlay \<Rightarrow> config \<Rightarrow> bool" where
  "overlay_restart_pending net base persisted live =
     (case apply_overlay net base persisted of
        Inr p \<Rightarrow> settings_to_json (editable_overlay p) \<noteq> settings_to_json (editable_overlay live)
      | Inl e \<Rightarrow> False)"

definition admin_config_get :: "console_env \<Rightarrow> string option \<Rightarrow> admin_config_response console_action" where
  "admin_config_get env header =
     stmt_bind running (\<lambda>live.
     let aenv = live_env env live in
     stmt_bind (console_db (admin_guard aenv header)) (\<lambda>ctx.
     stmt_bind (console_db (load_settings_overlay (an_lib aenv) (integrity_secret aenv))) (\<lambda>overlay.
     stmt_bind (console_db settings_versions) (\<lambda>versions.
       stmt_return (Inr
         \<lparr>ar_effective = editable_overlay live, ar_overlay = overlay, ar_versions = versions,
          ar_runtime_class = map (\<lambda>(s, f). (s @ ''.'' @ f, runtime_class s f)) EDITABLE_FIELDS,
          ar_restart_pending = overlay_restart_pending (ce_net env) (ce_base env) overlay live\<rparr>)))))"

record put_config_request =
  pq_patch :: settings_overlay
  pq_expected_versions :: "string \<Rightarrow> i64 option"

record put_config_response =
  pp_applied :: string
  pp_restart_pending :: bool

definition json_fields :: "json \<Rightarrow> (string \<times> json) list option" where
  "json_fields v = (case v of JObj fs \<Rightarrow> Some fs | _ \<Rightarrow> None)"

definition touched_fields :: "json \<Rightarrow> string list" where
  "touched_fields v =
     (case json_fields v of None \<Rightarrow> [] | Some fs \<Rightarrow> map fst (filter (\<lambda>(k, x). x \<noteq> JNull) fs))"

text \<open>The sections of the patch with a non-null field, and whether one of these fields needs a restart.\<close>

definition changed_sections :: "(string \<times> json) list \<Rightarrow> string list" where
  "changed_sections patch_obj = map fst (filter (\<lambda>(sec, fields). touched_fields fields \<noteq> []) patch_obj)"

definition any_restart :: "(string \<times> json) list \<Rightarrow> bool" where
  "any_restart patch_obj \<longleftrightarrow>
     list_ex (\<lambda>(sec, fields). list_ex (\<lambda>fld. runtime_class sec fld = RestartRequired) (touched_fields fields)) patch_obj"

definition config_updated_entry :: "string \<Rightarrow> string \<Rightarrow> new_admin_audit" where
  "config_updated_entry actor sec =
     admin_audit_entry ''config_updated'' actor (Some sec) (Some (JObj [(''section'', JStr sec)])) None"

definition persist_section ::
    "admin_env \<Rightarrow> (string \<Rightarrow> uuid) \<Rightarrow> admin_context \<Rightarrow> (string \<times> json) list \<Rightarrow> (string \<Rightarrow> i64 option) \<Rightarrow> string \<Rightarrow> i64 stmt" where
  "persist_section aenv ids ctx merged_obj expected sec =
     put_setting_audited (an_lib aenv) (an_clock aenv) (ids sec) sec
       (case map_of merged_obj sec of Some doc \<Rightarrow> doc | None \<Rightarrow> JObj [])
       (Some (ctx_admin_key_id ctx)) (expected sec) (config_updated_entry (ctx_pubkey ctx) sec) (integrity_secret aenv)"

definition merged_settings :: "settings_overlay \<Rightarrow> settings_overlay \<Rightarrow> json" where
  "merged_settings persisted patch = json_merge_skip_null (settings_to_json persisted) (settings_to_json patch)"

text \<open>The last part: a patch of runtime-safe fields is put on the running configuration, any other waits for a restart.\<close>

definition apply_put :: "console_env \<Rightarrow> settings_overlay \<Rightarrow> settings_overlay \<Rightarrow> put_config_response console_action" where
  "apply_put env patch merged =
     stmt_bind running (\<lambda>live.
       if any_restart (case json_fields (settings_to_json patch) of Some fs \<Rightarrow> fs | None \<Rightarrow> [])
       then (\<lambda>s. (Inr \<lparr>pp_applied = ''restart-required'', pp_restart_pending = True\<rparr>,
              if co_restart_apply_mode (cf_console live) = Auto then s\<lparr>cs_restart_requested := True\<rparr> else s))
       else
         (case apply_overlay (ce_net env) live patch of
            Inl e \<Rightarrow> stmt_return (Inl (Internal (''hot-swap re-validate failed: '' @ error_display e)))
          | Inr hot \<Rightarrow>
              (\<lambda>s. (Inr \<lparr>pp_applied = ''runtime'',
                        pp_restart_pending = overlay_restart_pending (ce_net env) (ce_base env) merged hot\<rparr>,
                    s\<lparr>cs_config := hot\<rparr>))))"

definition admin_config_put ::
    "console_env \<Rightarrow> (string \<Rightarrow> uuid) \<Rightarrow> string option \<Rightarrow> put_config_request \<Rightarrow> put_config_response console_action" where
  "admin_config_put env ids header req =
     stmt_bind running (\<lambda>live.
     let aenv = live_env env live;
         patch_obj = (case json_fields (settings_to_json (pq_patch req)) of Some fs \<Rightarrow> fs | None \<Rightarrow> []) in
     stmt_bind (console_db (admin_guard aenv header)) (\<lambda>ctx.
     stmt_bind (console_db (load_settings_overlay (an_lib aenv) (integrity_secret aenv))) (\<lambda>persisted.
     let merged_json = merged_settings persisted (pq_patch req) in
     stmt_bind (require_some (ValidationError (''bad settings: '' @ ce_serde_error env)) (settings_of_json merged_json)) (\<lambda>merged.
     stmt_bind (stmt_return (apply_overlay (ce_net env) (ce_base env) merged)) (\<lambda>_.
     stmt_bind (stmt_return (ensure (changed_sections patch_obj \<noteq> []) (ValidationError ''empty config patch''))) (\<lambda>_.
     stmt_bind (console_db (for_all_do
         (persist_section aenv ids ctx (case json_fields merged_json of Some fs \<Rightarrow> fs | None \<Rightarrow> []) (pq_expected_versions req))
         (changed_sections patch_obj))) (\<lambda>_.
       apply_put env (pq_patch req) merged)))))))"

end
