(* ===== verification/Config_Rules.thy ===== *)
theory Config_Rules
  imports Config_Overlay
begin

text \<open>
  What the validation of \<open>Config\<close> guarantees: the checks as facts about the tree, the relay built from a validated
  configuration, the bounds of the restore policy, and the effect of a settings patch.
\<close>

section \<open>Checks in a row\<close>

lemma all_ok_Inr [simp]: "all_ok rs = Inr () \<longleftrightarrow> (\<forall>r \<in> set rs. r = Inr ())"
  by (induction rs) auto

lemma check_when_Inr [simp]: "check_when b rs = Inr () \<longleftrightarrow> (b \<longrightarrow> (\<forall>r \<in> set rs. r = Inr ()))"
  by (simp add: check_when_def)

lemma require_secret_Inr [simp]:
  "require_secret p name val n = Inr () \<longleftrightarrow> n \<le> length val \<and> \<not> (p \<and> looks_placeholder val)"
  by (auto simp: require_secret_def)

lemma validate_plans_Inr:
  "validate_plans seen ps = Inr () \<longleftrightarrow>
     distinct (map plan_id ps) \<and> set seen \<inter> set (map plan_id ps) = {} \<and>
     (\<forall>p \<in> set ps. is_positive_decimal (plan_amount p) \<and> plan_days p \<le> 3660)"
  by (induction ps arbitrary: seen) auto

lemmas section_checks =
  validate_rate_limit_def validate_secrets_def validate_restore_def validate_nostr_def validate_pow_def
  validate_admin_def validate_prices_def validate_erasure_def validate_chains_def validate_tips_def
  validate_payment_def validate_relay_def validate_feed_def validate_premium_def

lemma validate_parts:
  "validate lib c = Inr () \<longleftrightarrow>
     validate_rate_limit c = Inr () \<and> validate_secrets c = Inr () \<and> validate_restore c = Inr () \<and>
     validate_nostr lib c = Inr () \<and> validate_pow c = Inr () \<and> validate_admin lib c = Inr () \<and>
     validate_prices c = Inr () \<and> validate_erasure c = Inr () \<and> validate_chains c = Inr () \<and>
     validate_tips c = Inr () \<and> validate_payment lib c = Inr () \<and> validate_relay lib c = Inr () \<and>
     validate_feed c = Inr () \<and> validate_premium lib c = Inr ()"
  by (simp add: validate_def)

section \<open>What is safe to serve\<close>

text \<open>A secret the server signs or peppers with: long enough, and in production not a placeholder.\<close>

definition strong_secret :: "config \<Rightarrow> string \<Rightarrow> nat \<Rightarrow> bool" where
  "strong_secret c s n \<longleftrightarrow> n \<le> length s \<and> (is_production c \<longrightarrow> \<not> looks_placeholder s)"

definition invoices_final :: "payment_settings \<Rightarrow> bool" where
  "invoices_final p \<longleftrightarrow> pay_confirmations p \<ge> 1 \<and> 1 \<le> pay_expires_minutes p \<and> pay_expires_minutes p \<le> 10080"

definition admission_private :: "net_lib \<Rightarrow> relay_settings \<Rightarrow> bool" where
  "admission_private lib r \<longleftrightarrow>
     rc_write_policy r = ''open'' \<or> ry_admission_allow_public r \<or>
     (\<exists>addrs. to_socket_addrs lib (ry_admission_bind r) = Some addrs \<and> addrs \<noteq> [] \<and> (\<forall>a \<in> set addrs. ip_is_loopback a))"

lemma u32_ge_1: "(x::u32) \<noteq> 0 \<longleftrightarrow> 1 \<le> x"
  by (metis word_gt_0 word_less_1 not_less)

lemma validate_secrets_strong:
  "validate lib c = Inr () \<Longrightarrow>
     strong_secret c (st_jwt_secret (cf_auth c)) 32 \<and> strong_secret c (sx_seed_fingerprint_pepper (cf_secrets c)) 32 \<and>
     strong_secret c (sx_refresh_token_pepper (cf_secrets c)) 32 \<and> strong_secret c (sx_ip_salt (cf_secrets c)) 16"
  by (simp add: validate_parts validate_secrets_def strong_secret_def Let_def)

lemma validate_admin_strong:
  "validate lib c = Inr () \<Longrightarrow> am_enabled (cf_admin c) \<Longrightarrow>
     strong_secret c (am_jwt_secret (cf_admin c)) 32 \<and> strong_secret c (key_integrity_secret (cf_admin c)) 32"
  by (simp add: validate_parts validate_admin_def strong_secret_def Let_def)

lemma validate_pow_armed:
  "validate lib c = Inr () \<Longrightarrow> pow_required (cf_pow c) \<or> pow_required_for_pubkeys (cf_pow c) \<noteq> [] \<Longrightarrow>
     pow_enabled (cf_pow c) \<and> strong_secret c (pow_hmac_key (cf_pow c)) 32"
  by (auto simp: validate_parts validate_pow_def strong_secret_def Let_def)

lemma validate_invoices_final:
  "validate lib c = Inr () \<Longrightarrow>
     require_payment (rg_payment (cf_registration c)) \<or> premium_enabled (cf_premium c) \<Longrightarrow>
     invoices_final (rg_payment (cf_registration c)) \<and> strong_secret c (pay_api_key (rg_payment (cf_registration c))) 8"
  by (auto simp: validate_parts validate_payment_def validate_premium_def invoices_final_def strong_secret_def
      Let_def u32_ge_1 not_less)

lemma validate_relay_private:
  "validate lib c = Inr () \<Longrightarrow> rc_enabled (ms_relay (cf_messaging c)) \<Longrightarrow>
     admission_private lib (ms_relay (cf_messaging c))"
  by (auto simp: validate_parts validate_relay_def admission_private_def admission_loopback_def Let_def list_all_iff
      split: option.splits)

lemma validate_premium_plans:
  "validate lib c = Inr () \<Longrightarrow> premium_enabled (cf_premium c) \<Longrightarrow>
     rc_enabled (ms_relay (cf_messaging c)) \<and> rc_write_policy (ms_relay (cf_messaging c)) = ''premium-post'' \<and>
     premium_plans (cf_premium c) \<noteq> [] \<and> distinct (map plan_id (premium_plans (cf_premium c))) \<and>
     (\<forall>p \<in> set (premium_plans (cf_premium c)). is_positive_decimal (plan_amount p) \<and> plan_days p \<le> 3660)"
  by (simp add: validate_parts validate_premium_def Let_def validate_plans_Inr)

lemma validate_erasure_grace:
  "validate lib c = Inr () \<Longrightarrow> re_erasure_enabled (cf_retention c) \<Longrightarrow>
     re_grace_period_hours (cf_retention c) \<le> 87600 \<and> strong_secret c (key_integrity_secret (cf_admin c)) 32"
  by (simp add: validate_parts validate_erasure_def strong_secret_def not_less)

section \<open>A validated relay can be built\<close>

lemma parse_write_policy_known:
  "s \<in> {''inbox-outbox'', ''author-allowlist'', ''open'', ''premium-post''} \<Longrightarrow> parse_write_policy s \<noteq> None"
  by (auto simp: parse_write_policy_def)

lemma validated_relay_from_config:
  assumes "validate lib c = Inr ()"
  shows "\<exists>relay. relay_from_config crates bech (relay_config.truncate (ms_relay (cf_messaging c))) = Inr relay \<and>
     (relay \<noteq> None \<longleftrightarrow> rc_enabled (ms_relay (cf_messaging c)))"
proof -
  let ?r = "ms_relay (cf_messaging c)"
  have "rc_enabled ?r \<Longrightarrow> rc_mode ?r \<in> {''bundled'', ''external''} \<and> parse_write_policy (rc_write_policy ?r) \<noteq> None"
    using assms parse_write_policy_known [of "rc_write_policy ?r"]
    by (simp add: validate_parts validate_relay_def Let_def)
  then show ?thesis
    by (auto simp: relay_from_config_def relay_config.truncate_def ok_or_def split: option.splits)
qed

definition safe_to_serve :: "net_lib \<Rightarrow> config \<Rightarrow> bool" where
  "safe_to_serve lib c \<longleftrightarrow>
     strong_secret c (st_jwt_secret (cf_auth c)) 32 \<and> strong_secret c (sx_seed_fingerprint_pepper (cf_secrets c)) 32 \<and>
     strong_secret c (sx_refresh_token_pepper (cf_secrets c)) 32 \<and> strong_secret c (sx_ip_salt (cf_secrets c)) 16 \<and>
     (am_enabled (cf_admin c) \<longrightarrow>
        strong_secret c (am_jwt_secret (cf_admin c)) 32 \<and> strong_secret c (key_integrity_secret (cf_admin c)) 32) \<and>
     (pow_required (cf_pow c) \<or> pow_required_for_pubkeys (cf_pow c) \<noteq> [] \<longrightarrow>
        pow_enabled (cf_pow c) \<and> strong_secret c (pow_hmac_key (cf_pow c)) 32) \<and>
     (require_payment (rg_payment (cf_registration c)) \<or> premium_enabled (cf_premium c) \<longrightarrow>
        invoices_final (rg_payment (cf_registration c)) \<and> strong_secret c (pay_api_key (rg_payment (cf_registration c))) 8) \<and>
     (rc_enabled (ms_relay (cf_messaging c)) \<longrightarrow> admission_private lib (ms_relay (cf_messaging c))) \<and>
     (premium_enabled (cf_premium c) \<longrightarrow>
        rc_enabled (ms_relay (cf_messaging c)) \<and> rc_write_policy (ms_relay (cf_messaging c)) = ''premium-post'' \<and>
        premium_plans (cf_premium c) \<noteq> [] \<and> distinct (map plan_id (premium_plans (cf_premium c))) \<and>
        (\<forall>p \<in> set (premium_plans (cf_premium c)). is_positive_decimal (plan_amount p) \<and> plan_days p \<le> 3660)) \<and>
     (re_erasure_enabled (cf_retention c) \<longrightarrow>
        re_grace_period_hours (cf_retention c) \<le> 87600 \<and> strong_secret c (key_integrity_secret (cf_admin c)) 32)"

lemma validate_safe_to_serve: "validate lib c = Inr () \<Longrightarrow> safe_to_serve lib c"
  unfolding safe_to_serve_def
  using validate_secrets_strong [of lib c] validate_admin_strong [of lib c] validate_pow_armed [of lib c]
    validate_invoices_final [of lib c] validate_relay_private [of lib c] validate_premium_plans [of lib c]
    validate_erasure_grace [of lib c]
  by blast

section \<open>Decimals\<close>

lemma positive_decimal_from_iff:
  "positive_decimal_from dot dig nz s \<longleftrightarrow>
     (\<forall>c \<in> set s. is_ascii_digit c \<or> c = CHR ''.'') \<and> count_list s (CHR ''.'') \<le> (if dot then 0 else 1) \<and>
     (dig \<or> (\<exists>c \<in> set s. is_ascii_digit c)) \<and> (nz \<or> (\<exists>c \<in> set s. is_ascii_digit c \<and> c \<noteq> CHR ''0''))"
proof (induction s arbitrary: dot dig nz)
  case (Cons c s)
  have "\<not> is_ascii_digit (CHR ''.'')" by code_simp
  then show ?case
    by (cases "c = CHR ''.''") (auto simp: Cons.IH count_list_0_iff)
qed simp

section \<open>The restore policy\<close>

lemma uint_u64_saturating_mul: "uint (u64_saturating_mul a b) = min (uint a * uint b) (2 ^ 64 - 1)"
proof (cases "uint a * uint b < 2 ^ 64")
  case True
  have "uint (a * b) = uint a * uint b"
    using True by (simp add: uint_word_ariths(3))
  with True show ?thesis by (simp add: u64_saturating_mul_def)
next
  case False
  then show ?thesis by (simp add: u64_saturating_mul_def unsigned_minus_1_eq_mask mask_eq_exp_minus_1)
qed

text \<open>The days a policy allows behind the tip.\<close>

definition allowed_days :: "restore_config \<Rightarrow> int option" where
  "allowed_days r =
     (case rs_policy r of Unlimited \<Rightarrow> None | CreateOnly \<Rightarrow> Some 1 | Bounded \<Rightarrow> Some (uint (rs_max_depth_days r)))"

lemma uint_ucast_u32_u64: "uint (ucast (w::u32) :: u64) = uint w"
proof -
  have "uint w < 2 ^ 64" using uint_lt2p [of w] by simp
  then show ?thesis by (simp add: unsigned_ucast_eq take_bit_int_eq_self)
qed

lemma uint_min_start_height:
  "allowed_days r = Some d \<Longrightarrow> uint (min_start_height r chain tip) = max 0 (uint tip - d * uint (blocks_per_day chain))"
proof -
  assume d: "allowed_days r = Some d"
  have tip: "uint tip \<le> 2 ^ 64 - 1" using uint_lt2p [of tip] by simp
  have "uint (min_start_height r chain tip) = max 0 (uint tip - min (d * uint (blocks_per_day chain)) (2 ^ 64 - 1))"
    using d
    by (auto simp: allowed_days_def min_start_height_def uint_u64_saturating_sub uint_u64_saturating_mul
        uint_ucast_u32_u64 split: restore_policy.splits)
  also have "\<dots> = max 0 (uint tip - d * uint (blocks_per_day chain))"
    using tip by (auto simp: min_def max_def)
  finally show ?thesis .
qed

lemma blocks_per_day_bounds: "144 \<le> uint (blocks_per_day chain) \<and> uint (blocks_per_day chain) \<le> 1440"
  by (simp add: blocks_per_day_def)

lemma restore_enforce_total:
  "restore_enforce r chain h tip = Some (Inr ()) \<longleftrightarrow>
     rs_policy r = Unlimited \<or> h \<ge> min_start_height r chain tip"
  "restore_enforce r chain h tip \<noteq> None"
  by (auto simp: restore_enforce_def split: restore_policy.splits)

text \<open>The price of a restore in bits, over the integers, for a chain short enough that the cast to \<open>u32\<close> keeps
  the value.\<close>

definition depth_bits :: "restore_config \<Rightarrow> string \<Rightarrow> int \<Rightarrow> int \<Rightarrow> int" where
  "depth_bits r chain h tip =
     max 0 (max 0 (tip - h) div uint (blocks_per_day chain) - uint (rs_pow_free_days r)) div uint (rs_pow_days_per_bit r)"

lemma uint_max: "uint (max a b) = max (uint a) (uint b)"
  by (simp add: max_def word_le_def)

lemma uint_min: "uint (min a b) = min (uint a) (uint b)"
  by (simp add: min_def word_le_def)

lemma max_diff_less: "(a::int) < n \<Longrightarrow> 0 \<le> b \<Longrightarrow> 0 < n \<Longrightarrow> max 0 (a - b) < n"
  by simp

lemma uint_required_restore_pow_bits:
  assumes "rs_pow_days_per_bit r \<noteq> 0" "uint tip < 144 * 2 ^ 32"
  shows "uint (required_restore_pow_bits r chain h tip) =
     min (depth_bits r chain (uint h) (uint tip)) (uint (rs_pow_max_bits r))"
proof -
  define q where "q = u64_saturating_sub (u64_saturating_sub tip h div max (blocks_per_day chain) 1)
    (ucast (rs_pow_free_days r)) div ucast (rs_pow_days_per_bit r)"
  have bpd: "max (uint (blocks_per_day chain)) 1 = uint (blocks_per_day chain)"
    using blocks_per_day_bounds [of chain] by simp
  have per: "0 < uint (rs_pow_days_per_bit r)"
    using assms(1) by (metis uint_0_iff uint_ge_0 le_less)
  have q: "uint q = depth_bits r chain (uint h) (uint tip)"
    by (simp add: q_def depth_bits_def uint_div uint_u64_saturating_sub uint_max uint_ucast_u32_u64 bpd)
  have "max 0 (uint tip - uint h) div uint (blocks_per_day chain) \<le> uint tip div 144"
    using blocks_per_day_bounds [of chain] zdiv_mono1 [of "max 0 (uint tip - uint h)" "uint tip" "uint (blocks_per_day chain)"]
      zdiv_mono2 [of "uint tip" 144 "uint (blocks_per_day chain)"] by simp
  also have "\<dots> < 2 ^ 32" using assms(2) by (simp add: div_less_iff_less_mult)
  finally have "max 0 (max 0 (uint tip - uint h) div uint (blocks_per_day chain) - uint (rs_pow_free_days r)) < 2 ^ 32"
    by (rule max_diff_less) simp_all
  then have "uint q < 2 ^ 32"
    unfolding q depth_bits_def using per by (smt (verit) div_by_1 zdiv_mono2)
  then have "uint (ucast q :: u32) = uint q"
    by (simp add: unsigned_ucast_eq take_bit_int_eq_self)
  then show ?thesis
    using assms(1) q by (simp add: required_restore_pow_bits_def Let_def uint_min q_def)
qed

lemma depth_bits_mono:
  "h \<le> h' \<Longrightarrow> 0 < uint (rs_pow_days_per_bit r) \<Longrightarrow> depth_bits r chain h' tip \<le> depth_bits r chain h tip"
  using blocks_per_day_bounds [of chain] unfolding depth_bits_def
  by (intro zdiv_mono1 max.mono diff_mono order_refl) auto

section \<open>The effect of a patch\<close>

lemma apply_overlay_Inr:
  "apply_overlay lib c ov = Inr c' \<longleftrightarrow> merge_overlay ov c = Inr c' \<and> validate lib c' = Inr ()"
  by (auto simp: apply_overlay_def)

text \<open>What no patch can reach: every secret, every bind address, the wiring of the processor and of the chains.\<close>

definition same_fixed :: "config \<Rightarrow> config \<Rightarrow> bool" where
  "same_fixed c c' \<longleftrightarrow>
     cf_server_host c' = cf_server_host c \<and> cf_server_port c' = cf_server_port c \<and>
     cf_deployment_mode c' = cf_deployment_mode c \<and> cf_environment c' = cf_environment c \<and>
     cf_database_url c' = cf_database_url c \<and> cf_legacy_database_url c' = cf_legacy_database_url c \<and>
     cf_tip_share_base c' = cf_tip_share_base c \<and> cf_auth c' = cf_auth c \<and> cf_identity c' = cf_identity c \<and>
     cf_secrets c' = cf_secrets c \<and> cf_trusted_proxies c' = cf_trusted_proxies c \<and>
     cf_rate_limit c' = cf_rate_limit c \<and> cf_cors_allowed_origins c' = cf_cors_allowed_origins c \<and>
     cf_chains c' = cf_chains c \<and> cf_admin c' = cf_admin c \<and> cf_feed c' = cf_feed c \<and>
     pow_hmac_key (cf_pow c') = pow_hmac_key (cf_pow c) \<and>
     pow_required_for_pubkeys (cf_pow c') = pow_required_for_pubkeys (cf_pow c) \<and>
     pay_provider (rg_payment (cf_registration c')) = pay_provider (rg_payment (cf_registration c)) \<and>
     pay_provider_url (rg_payment (cf_registration c')) = pay_provider_url (rg_payment (cf_registration c)) \<and>
     pay_store_id (rg_payment (cf_registration c')) = pay_store_id (rg_payment (cf_registration c)) \<and>
     pay_api_key (rg_payment (cf_registration c')) = pay_api_key (rg_payment (cf_registration c)) \<and>
     ft_prices_assets (cf_features c') = ft_prices_assets (cf_features c) \<and>
     ft_targeted_tips (cf_features c') = ft_targeted_tips (cf_features c) \<and>
     ry_admission_bind (ms_relay (cf_messaging c')) = ry_admission_bind (ms_relay (cf_messaging c)) \<and>
     ry_admission_allow_public (ms_relay (cf_messaging c')) = ry_admission_allow_public (ms_relay (cf_messaging c)) \<and>
     rc_write_allowlist (ms_relay (cf_messaging c')) = rc_write_allowlist (ms_relay (cf_messaging c)) \<and>
     ms_nip05_interop_hints (cf_messaging c') = ms_nip05_interop_hints (cf_messaging c) \<and>
     ms_nip05_extra_relay_hints (cf_messaging c') = ms_nip05_extra_relay_hints (cf_messaging c) \<and>
     premium_plans (cf_premium c') = premium_plans (cf_premium c) \<and>
     pm_primary_assets (cf_premium c') = pm_primary_assets (cf_premium c) \<and>
     pm_rails (cf_premium c') = pm_rails (cf_premium c)"

lemma patched_parts [simp]:
  "pow_hmac_key (case p of None \<Rightarrow> w | Some x \<Rightarrow> apply_pow x w) = pow_hmac_key w"
  "pow_required_for_pubkeys (case p of None \<Rightarrow> w | Some x \<Rightarrow> apply_pow x w) = pow_required_for_pubkeys w"
  "ft_prices_assets (case f of None \<Rightarrow> ft | Some x \<Rightarrow> apply_features x ft) = ft_prices_assets ft"
  "ft_targeted_tips (case f of None \<Rightarrow> ft | Some x \<Rightarrow> apply_features x ft) = ft_targeted_tips ft"
  "ms_nip05_interop_hints (case r of None \<Rightarrow> m | Some x \<Rightarrow> m\<lparr>ms_relay := apply_relay x (ms_relay m)\<rparr>) =
     ms_nip05_interop_hints m"
  "ms_nip05_extra_relay_hints (case r of None \<Rightarrow> m | Some x \<Rightarrow> m\<lparr>ms_relay := apply_relay x (ms_relay m)\<rparr>) =
     ms_nip05_extra_relay_hints m"
  "ry_admission_bind (ms_relay (case r of None \<Rightarrow> m | Some x \<Rightarrow> m\<lparr>ms_relay := apply_relay x (ms_relay m)\<rparr>)) =
     ry_admission_bind (ms_relay m)"
  "ry_admission_allow_public (ms_relay (case r of None \<Rightarrow> m | Some x \<Rightarrow> m\<lparr>ms_relay := apply_relay x (ms_relay m)\<rparr>)) =
     ry_admission_allow_public (ms_relay m)"
  "rc_write_allowlist (ms_relay (case r of None \<Rightarrow> m | Some x \<Rightarrow> m\<lparr>ms_relay := apply_relay x (ms_relay m)\<rparr>)) =
     rc_write_allowlist (ms_relay m)"
  "premium_plans (case q of None \<Rightarrow> pm | Some x \<Rightarrow> apply_premium x pm) = premium_plans pm"
  "pm_primary_assets (case q of None \<Rightarrow> pm | Some x \<Rightarrow> apply_premium x pm) = pm_primary_assets pm"
  "pm_rails (case q of None \<Rightarrow> pm | Some x \<Rightarrow> apply_premium x pm) = pm_rails pm"
  by (cases p; cases f; cases r; cases q; simp add: apply_pow_def apply_features_def apply_relay_def apply_premium_def)+

lemma patched_registration:
  "(case g of None \<Rightarrow> Inr rc | Some x \<Rightarrow> apply_registration x rc) = Inr rc' \<Longrightarrow>
     pay_provider (rg_payment rc') = pay_provider (rg_payment rc) \<and>
     pay_provider_url (rg_payment rc') = pay_provider_url (rg_payment rc) \<and>
     pay_store_id (rg_payment rc') = pay_store_id (rg_payment rc) \<and>
     pay_api_key (rg_payment rc') = pay_api_key (rg_payment rc)"
  by (cases g) (auto simp: apply_registration_def)

lemma merge_overlay_fixed: "merge_overlay ov c = Inr c' \<Longrightarrow> same_fixed c c'"
  by (auto simp: merge_overlay_def same_fixed_def dest: patched_registration)

lemma same_fixed_refl [simp]: "same_fixed c c"
  by (simp add: same_fixed_def)

lemma same_fixed_trans: "same_fixed a b \<Longrightarrow> same_fixed b c \<Longrightarrow> same_fixed a c"
  by (simp add: same_fixed_def)

section \<open>Putting a configuration's own fields over it\<close>

lemma char_upper_idem [simp]: "char_upper (char_upper c) = char_upper c"
proof (cases "is_ascii_lower c")
  case True
  then have "(of_char (char_of ((of_char c :: nat) - 32)) :: nat) = of_char c - 32"
    by (auto simp: is_ascii_lower_def)
  with True show ?thesis by (auto simp: char_upper_def is_ascii_lower_def)
next
  case False
  then show ?thesis by (simp add: char_upper_def)
qed

lemma to_uppercase_idem [simp]: "to_uppercase (to_uppercase s) = to_uppercase s"
  by (simp add: to_uppercase_def)

text \<open>The normal form the environment gives the strings that a patch normalises.\<close>

definition normal_config :: "config \<Rightarrow> bool" where
  "normal_config c \<longleftrightarrow>
     la_title (cf_landing c) \<noteq> Some [] \<and>
     to_uppercase (pay_currency (rg_payment (cf_registration c))) = pay_currency (rg_payment (cf_registration c)) \<and>
     to_lowercase (ft_prices_provider (cf_features c)) = ft_prices_provider (cf_features c) \<and>
     to_lowercase (ft_prices_currency (cf_features c)) = ft_prices_currency (cf_features c) \<and>
     to_lowercase (rc_mode (ms_relay (cf_messaging c))) = rc_mode (ms_relay (cf_messaging c)) \<and>
     to_lowercase (rc_write_policy (ms_relay (cf_messaging c))) = rc_write_policy (ms_relay (cf_messaging c)) \<and>
     to_uppercase (premium_currency (cf_premium c)) = premium_currency (cf_premium c)"

lemma parse_as_str [simp]:
  "parse_restore_policy (restore_policy_as_str p) = Inr p"
  "parse_restart_mode (restart_apply_mode_as_str m) = Inr m"
  by (cases p; simp add: parse_restore_policy_def restore_policy_as_str_def)
     (cases m; simp add: parse_restart_mode_def restart_apply_mode_as_str_def)

lemma parse_gate_as_str [simp]: "parse_gate_mode (gate_mode_as_str g) = Inr g"
proof -
  have "to_lowercase ''all'' = ''all''" "to_lowercase ''any'' = ''any''" by code_simp+
  then show ?thesis by (cases g) (simp_all add: parse_gate_mode_def gate_mode_as_str_def)
qed

lemma env_opt_nonempty: "env_opt env key \<noteq> Some []"
  by (auto simp: env_opt_def)

lemma env_sections_normal:
  "env_landing env = Inr l \<Longrightarrow> la_title l \<noteq> Some []"
  "env_registration env = Inr r \<Longrightarrow> to_uppercase (pay_currency (rg_payment r)) = pay_currency (rg_payment r)"
  "env_features env = Inr f \<Longrightarrow> to_lowercase (ft_prices_provider f) = ft_prices_provider f \<and>
     to_lowercase (ft_prices_currency f) = ft_prices_currency f"
  "env_messaging env = Inr m \<Longrightarrow> to_lowercase (rc_mode (ms_relay m)) = rc_mode (ms_relay m) \<and>
     to_lowercase (rc_write_policy (ms_relay m)) = rc_write_policy (ms_relay m)"
  "to_uppercase (premium_currency (env_premium env)) = premium_currency (env_premium env)"
  using env_opt_nonempty [of env]
  by (auto simp: env_landing_def env_registration_def env_features_def env_messaging_def env_premium_def)

lemma env_config_normal: "env_config lib env = Inr c \<Longrightarrow> normal_config c"
  unfolding env_config_def try_bind_Inr by (elim exE conjE) (auto simp: normal_config_def env_sections_normal)

lemma merge_editable: "normal_config c \<Longrightarrow> merge_overlay (editable_overlay c) c = Inr c"
  by (auto simp: merge_overlay_def editable_overlay_def apply_landing_def apply_retention_def apply_restore_def
      apply_console_def apply_registration_def apply_pow_def apply_features_def apply_relay_def apply_premium_def
      normal_config_def or_keep_def split: option.splits)

end
