(* ===== verification/Settings_Rules.thy ===== *)
theory Settings_Rules
  imports Operator_Settings Config_Rules Admin_Audit
begin

text \<open>
  The JSON form of a settings patch reads back as the patch, and merging two of these forms is the field-wise merge
  of the patches (\<open>overlay_merge\<close>, the specification of an edit). Every section has the contract \<open>section_codec\<close>.
  The seal of a stored section is unambiguous: two documents have the same canonical text exactly when they differ
  in the order of their keys only.
\<close>

section \<open>Objects\<close>

lemma map_of_sort_key: "distinct (map fst fs) \<Longrightarrow> map_of (sort_key fst fs) = map_of fs"
  by (subst map_of_inject_set) (simp_all add: distinct_map)

lemma json_object_JObj: "\<exists>fs. json_object gs = JObj fs"
  by (simp add: json_object_def)

lemma struct_fields_object:
  "distinct (map fst fs) \<Longrightarrow> struct_fields names (json_object fs) = Some (\<lambda>k. json_or_null (map_of fs k))"
  by (simp add: struct_fields_def json_object_def map_of_sort_key)

lemma json_or_null_simps [simp]: "json_or_null None = JNull" "json_or_null (Some v) = v"
  by (simp_all add: json_or_null_def)

text \<open>The value of a field after a merge.\<close>

definition patched :: "json \<Rightarrow> json \<Rightarrow> json" where
  "patched x y = (if y = JNull then x else json_merge_skip_null x y)"

lemma map_of_merge_fields:
  "distinct (map fst p) \<Longrightarrow>
     json_or_null (map_of (merge_fields b p) k) = patched (json_or_null (map_of b k)) (json_or_null (map_of p k))"
proof (induction p arbitrary: b)
  case Nil
  then show ?case by (simp add: patched_def)
next
  case (Cons f p)
  obtain k' pv where f: "f = (k', pv)" by force
  have "k' \<notin> fst ` set p" using Cons.prems by (simp add: f)
  then have "map_of p k' = None" by (simp add: map_of_eq_None_iff)
  with Cons f show ?case by (auto simp: patched_def)
qed

lemma struct_fields_merge:
  assumes "distinct (map fst b)" "distinct (map fst p)"
  shows "struct_fields names (json_merge_skip_null (json_object b) (json_object p)) =
    Some (\<lambda>k. patched (json_or_null (map_of b k)) (json_or_null (map_of p k)))"
proof -
  have "distinct (map fst (sort_key fst p))" using assms(2) by (simp add: distinct_map)
  then show ?thesis
    using assms by (simp add: struct_fields_def json_object_def map_of_merge_fields map_of_sort_key)
qed

section \<open>Fields\<close>

lemma json_opt_simps [simp]: "json_opt f None = JNull" "json_opt f (Some v) = f v"
  by (simp_all add: json_opt_def)

lemma merge_scalar [simp]:
  "json_merge_skip_null x (JBool b) = JBool b" "json_merge_skip_null x (JNum i) = JNum i"
  "json_merge_skip_null x (JStr s) = JStr s"
  by (cases x; simp)+

lemma uint_in_range: "uint (w :: 'w::len word) < 2 ^ LENGTH('w)"
  by (rule uint_lt2p)

lemma dec_round [simp]:
  "dec_bool (json_opt JBool x) = Some x" "dec_str (json_opt JStr y) = Some y"
  "dec_word (json_opt json_of_word w) = Some w"
  "pred_option in_i64 i \<Longrightarrow> dec_i64 (json_opt JNum i) = Some i"
  "pred_option (\<lambda>n. n < 2 ^ 64) n \<Longrightarrow> dec_usize (json_opt json_of_usize n) = Some n"
  by ((cases x; simp add: dec_bool_def), (cases y; simp add: dec_str_def),
      (cases w; simp add: dec_word_def json_of_word_def uint_in_range),
      (cases i; simp add: dec_i64_def), (cases n; simp add: dec_usize_def json_of_usize_def))

lemma patched_simps [simp]:
  "patched x JNull = x" "patched x (JBool b) = JBool b" "patched x (JNum i) = JNum i" "patched x (JStr s) = JStr s"
  by (simp_all add: patched_def)

lemma dec_value [simp]:
  "dec_bool (JBool b) = Some (Some b)" "dec_str (JStr s) = Some (Some s)"
  "dec_word (json_of_word w) = Some (Some w)" "in_i64 i \<Longrightarrow> dec_i64 (JNum i) = Some (Some i)"
  "n < 2 ^ 64 \<Longrightarrow> dec_usize (json_of_usize n) = Some (Some n)"
  using dec_round(1) [of "Some b"] dec_round(2) [of "Some s"] dec_round(3) [of "Some w"] dec_round(4) [of "Some i"]
    dec_round(5) [of "Some n"] by simp_all

lemma patched_number [simp]: "patched x (json_of_word w) = json_of_word w" "patched x (json_of_usize n) = json_of_usize n"
  by (simp_all add: json_of_word_def json_of_usize_def)

lemma dec_patched [simp]:
  "dec_bool (patched (json_opt JBool x) (json_opt JBool x')) = Some (option_or x' x)"
  "dec_str (patched (json_opt JStr y) (json_opt JStr y')) = Some (option_or y' y)"
  "dec_word (patched (json_opt json_of_word w) (json_opt json_of_word w')) = Some (option_or w' w)"
  "pred_option in_i64 i \<Longrightarrow> pred_option in_i64 i' \<Longrightarrow>
     dec_i64 (patched (json_opt JNum i) (json_opt JNum i')) = Some (option_or i' i)"
  "pred_option (\<lambda>n. n < 2 ^ 64) n \<Longrightarrow> pred_option (\<lambda>n. n < 2 ^ 64) n' \<Longrightarrow>
     dec_usize (patched (json_opt json_of_usize n) (json_opt json_of_usize n')) = Some (option_or n' n)"
  by ((cases x'; simp), (cases y'; simp), (cases w'; simp), (cases i'; simp), (cases n'; simp))

section \<open>Sections\<close>

definition section_merge :: "('a \<Rightarrow> 'a \<Rightarrow> 'a) \<Rightarrow> 'a option \<Rightarrow> 'a option \<Rightarrow> 'a option" where
  "section_merge f b p =
     (case p of None \<Rightarrow> b | Some y \<Rightarrow> (case b of None \<Rightarrow> Some y | Some x \<Rightarrow> Some (f x y)))"

locale section_codec =
  fixes enc :: "'a \<Rightarrow> json" and dec :: "json \<Rightarrow> 'a option" and mrg :: "'a \<Rightarrow> 'a \<Rightarrow> 'a" and ok :: "'a \<Rightarrow> bool"
  assumes is_object: "\<exists>fs. enc x = JObj fs"
    and round: "ok x \<Longrightarrow> dec (enc x) = Some x"
    and merged: "ok b \<Longrightarrow> ok p \<Longrightarrow> dec (json_merge_skip_null (enc b) (enc p)) = Some (mrg b p)"
begin

lemma dec_section_object: "dec_section dec (JObj fs) = map_option Some (dec (JObj fs))"
  by (simp add: dec_section_def)

lemma section_round: "pred_option ok x \<Longrightarrow> dec_section dec (json_opt enc x) = Some x"
proof (cases x)
  case (Some a)
  assume "pred_option ok x"
  moreover obtain fs where "enc a = JObj fs" using is_object by blast
  ultimately show ?thesis using Some round [of a] by (simp add: dec_section_def)
qed (simp add: dec_section_def)

lemma section_patched:
  assumes "pred_option ok x" "pred_option ok y"
  shows "dec_section dec (patched (json_opt enc x) (json_opt enc y)) = Some (section_merge mrg x y)"
proof (cases y)
  case None
  then show ?thesis using section_round [OF assms(1)] by (simp add: patched_def section_merge_def)
next
  case (Some p)
  obtain fs where p: "enc p = JObj fs" using is_object by blast
  show ?thesis
  proof (cases x)
    case None
    then show ?thesis using Some p assms(2) round [of p] by (simp add: patched_def dec_section_def section_merge_def)
  next
    case (Some b)
    obtain gs where b: "enc b = JObj gs" using is_object by blast
    from Some \<open>y = Some p\<close> assms have "dec (json_merge_skip_null (enc b) (enc p)) = Some (mrg b p)"
      by (simp add: merged)
    with Some \<open>y = Some p\<close> p b show ?thesis by (simp add: patched_def dec_section_def section_merge_def)
  qed
qed

end

text \<open>The specification of an edit: the fields the patch sets win.\<close>

definition landing_merge :: "landing_overlay \<Rightarrow> landing_overlay \<Rightarrow> landing_overlay" where
  "landing_merge b p =
     \<lparr>lo_enabled = option_or (lo_enabled p) (lo_enabled b), lo_title = option_or (lo_title p) (lo_title b),
      lo_expose_version = option_or (lo_expose_version p) (lo_expose_version b), lo_expose_chains = option_or (lo_expose_chains p) (lo_expose_chains b),
      lo_expose_price_feed = option_or (lo_expose_price_feed p) (lo_expose_price_feed b), lo_expose_uptime = option_or (lo_expose_uptime p) (lo_expose_uptime b),
      lo_stats_enabled = option_or (lo_stats_enabled p) (lo_stats_enabled b), lo_stats_cache_hours = option_or (lo_stats_cache_hours p) (lo_stats_cache_hours b),
      lo_stats_min_users = option_or (lo_stats_min_users p) (lo_stats_min_users b)\<rparr>"

definition retention_merge :: "retention_overlay \<Rightarrow> retention_overlay \<Rightarrow> retention_overlay" where
  "retention_merge b p =
     \<lparr>to_login_events_days = option_or (to_login_events_days p) (to_login_events_days b), to_audit_days = option_or (to_audit_days p) (to_audit_days b),
      to_erasure_enabled = option_or (to_erasure_enabled p) (to_erasure_enabled b), to_purge_login_events = option_or (to_purge_login_events p) (to_purge_login_events b),
      to_export_per_day = option_or (to_export_per_day p) (to_export_per_day b), to_grace_period_hours = option_or (to_grace_period_hours p) (to_grace_period_hours b)\<rparr>"

definition restore_merge :: "restore_overlay \<Rightarrow> restore_overlay \<Rightarrow> restore_overlay" where
  "restore_merge b p =
     \<lparr>so_policy = option_or (so_policy p) (so_policy b), so_max_depth_days = option_or (so_max_depth_days p) (so_max_depth_days b),
      so_pow_free_days = option_or (so_pow_free_days p) (so_pow_free_days b), so_pow_days_per_bit = option_or (so_pow_days_per_bit p) (so_pow_days_per_bit b),
      so_pow_max_bits = option_or (so_pow_max_bits p) (so_pow_max_bits b)\<rparr>"

definition console_merge :: "console_overlay \<Rightarrow> console_overlay \<Rightarrow> console_overlay" where
  "console_merge b p =
     \<lparr>no_restart_apply_mode = option_or (no_restart_apply_mode p) (no_restart_apply_mode b)\<rparr>"

definition registration_merge :: "registration_overlay \<Rightarrow> registration_overlay \<Rightarrow> registration_overlay" where
  "registration_merge b p =
     \<lparr>go_require_invite = option_or (go_require_invite p) (go_require_invite b), go_gate_mode = option_or (go_gate_mode p) (go_gate_mode b),
      go_require_payment = option_or (go_require_payment p) (go_require_payment b), go_payment_amount = option_or (go_payment_amount p) (go_payment_amount b),
      go_payment_currency = option_or (go_payment_currency p) (go_payment_currency b), go_payment_confirmations = option_or (go_payment_confirmations p) (go_payment_confirmations b),
      go_payment_expires_minutes = option_or (go_payment_expires_minutes p) (go_payment_expires_minutes b)\<rparr>"

definition pow_merge :: "pow_overlay \<Rightarrow> pow_overlay \<Rightarrow> pow_overlay" where
  "pow_merge b p =
     \<lparr>wo_enabled = option_or (wo_enabled p) (wo_enabled b), wo_required = option_or (wo_required p) (wo_required b),
      wo_cost = option_or (wo_cost p) (wo_cost b)\<rparr>"

definition features_merge :: "features_overlay \<Rightarrow> features_overlay \<Rightarrow> features_overlay" where
  "features_merge b p =
     \<lparr>fo_prices = option_or (fo_prices p) (fo_prices b), fo_prices_provider = option_or (fo_prices_provider p) (fo_prices_provider b),
      fo_prices_interval_secs = option_or (fo_prices_interval_secs p) (fo_prices_interval_secs b), fo_prices_currency = option_or (fo_prices_currency p) (fo_prices_currency b),
      fo_tips = option_or (fo_tips p) (fo_tips b), fo_nostr_identity = option_or (fo_nostr_identity p) (fo_nostr_identity b),
      fo_grin_relay = option_or (fo_grin_relay p) (fo_grin_relay b), fo_chain_btc = option_or (fo_chain_btc p) (fo_chain_btc b),
      fo_chain_ltc = option_or (fo_chain_ltc p) (fo_chain_ltc b), fo_chain_xmr = option_or (fo_chain_xmr p) (fo_chain_xmr b),
      fo_chain_wow = option_or (fo_chain_wow p) (fo_chain_wow b), fo_chain_grin = option_or (fo_chain_grin p) (fo_chain_grin b)\<rparr>"

definition relay_merge :: "relay_overlay \<Rightarrow> relay_overlay \<Rightarrow> relay_overlay" where
  "relay_merge b p =
     \<lparr>yo_enabled = option_or (yo_enabled p) (yo_enabled b), yo_mode = option_or (yo_mode p) (yo_mode b),
      yo_advertised_url = option_or (yo_advertised_url p) (yo_advertised_url b), yo_write_policy = option_or (yo_write_policy p) (yo_write_policy b),
      yo_inbound_pow_bits = option_or (yo_inbound_pow_bits p) (yo_inbound_pow_bits b), yo_max_event_bytes = option_or (yo_max_event_bytes p) (yo_max_event_bytes b),
      yo_retention_days = option_or (yo_retention_days p) (yo_retention_days b)\<rparr>"

definition premium_merge :: "premium_overlay \<Rightarrow> premium_overlay \<Rightarrow> premium_overlay" where
  "premium_merge b p =
     \<lparr>mo_enabled = option_or (mo_enabled p) (mo_enabled b), mo_currency = option_or (mo_currency p) (mo_currency b)\<rparr>"

definition overlay_merge :: "settings_overlay \<Rightarrow> settings_overlay \<Rightarrow> settings_overlay" where
  "overlay_merge b p =
     \<lparr>ov_landing = section_merge landing_merge (ov_landing b) (ov_landing p),
      ov_retention = section_merge retention_merge (ov_retention b) (ov_retention p),
      ov_restore = section_merge restore_merge (ov_restore b) (ov_restore p),
      ov_console = section_merge console_merge (ov_console b) (ov_console p),
      ov_registration = section_merge registration_merge (ov_registration b) (ov_registration p),
      ov_pow = section_merge pow_merge (ov_pow b) (ov_pow p),
      ov_features = section_merge features_merge (ov_features b) (ov_features p),
      ov_relay = section_merge relay_merge (ov_relay b) (ov_relay p),
      ov_premium = section_merge premium_merge (ov_premium b) (ov_premium p)\<rparr>"
text \<open>The two fields whose type in the model is wider than the source's.\<close>

definition landing_in_range :: "landing_overlay \<Rightarrow> bool" where
  "landing_in_range l \<longleftrightarrow> pred_option in_i64 (lo_stats_min_users l)"

definition relay_in_range :: "relay_overlay \<Rightarrow> bool" where
  "relay_in_range r \<longleftrightarrow> pred_option (\<lambda>n. n < 2 ^ 64) (yo_max_event_bytes r)"

definition overlay_in_range :: "settings_overlay \<Rightarrow> bool" where
  "overlay_in_range ov \<longleftrightarrow> pred_option landing_in_range (ov_landing ov) \<and> pred_option relay_in_range (ov_relay ov)"

interpretation landing_codec: section_codec landing_to_json landing_of_json landing_merge landing_in_range
  by unfold_locales
     (simp_all add: landing_to_json_def landing_of_json_def landing_merge_def struct_fields_object struct_fields_merge json_object_JObj
        landing_in_range_def)

interpretation retention_codec: section_codec retention_to_json retention_of_json retention_merge "\<lambda>_. True"
  by unfold_locales
     (simp_all add: retention_to_json_def retention_of_json_def retention_merge_def struct_fields_object struct_fields_merge json_object_JObj
       )

interpretation restore_codec: section_codec restore_to_json restore_of_json restore_merge "\<lambda>_. True"
  by unfold_locales
     (simp_all add: restore_to_json_def restore_of_json_def restore_merge_def struct_fields_object struct_fields_merge json_object_JObj
       )

interpretation console_codec: section_codec console_to_json console_of_json console_merge "\<lambda>_. True"
  by unfold_locales
     (simp_all add: console_to_json_def console_of_json_def console_merge_def struct_fields_object struct_fields_merge json_object_JObj
       )

interpretation registration_codec: section_codec registration_to_json registration_of_json registration_merge "\<lambda>_. True"
  by unfold_locales
     (simp_all add: registration_to_json_def registration_of_json_def registration_merge_def struct_fields_object struct_fields_merge json_object_JObj
       )

interpretation pow_codec: section_codec pow_to_json pow_of_json pow_merge "\<lambda>_. True"
  by unfold_locales
     (simp_all add: pow_to_json_def pow_of_json_def pow_merge_def struct_fields_object struct_fields_merge json_object_JObj
       )

interpretation features_codec: section_codec features_to_json features_of_json features_merge "\<lambda>_. True"
  by unfold_locales
     (simp_all add: features_to_json_def features_of_json_def features_merge_def struct_fields_object struct_fields_merge json_object_JObj
       )

interpretation relay_codec: section_codec relay_to_json relay_of_json relay_merge relay_in_range
  by unfold_locales
     (simp_all add: relay_to_json_def relay_of_json_def relay_merge_def struct_fields_object struct_fields_merge json_object_JObj
        relay_in_range_def)

interpretation premium_codec: section_codec premium_to_json premium_of_json premium_merge "\<lambda>_. True"
  by unfold_locales
     (simp_all add: premium_to_json_def premium_of_json_def premium_merge_def struct_fields_object struct_fields_merge json_object_JObj
       )
section \<open>The whole patch\<close>

lemmas section_rounds =
  landing_codec.section_round retention_codec.section_round restore_codec.section_round console_codec.section_round
  registration_codec.section_round pow_codec.section_round features_codec.section_round relay_codec.section_round
  premium_codec.section_round

lemmas section_merges =
  landing_codec.section_patched retention_codec.section_patched restore_codec.section_patched
  console_codec.section_patched registration_codec.section_patched pow_codec.section_patched
  features_codec.section_patched relay_codec.section_patched premium_codec.section_patched

lemma pred_option_True [simp]: "pred_option (\<lambda>_. True) x"
  by (cases x) simp_all

lemma settings_round: "overlay_in_range ov \<Longrightarrow> settings_of_json (settings_to_json ov) = Some ov"
  by (simp add: settings_of_json_def settings_to_json_def struct_fields_object section_rounds overlay_in_range_def)

lemma settings_merge:
  assumes "overlay_in_range b" "overlay_in_range p"
  shows "settings_of_json (merged_settings b p) = Some (overlay_merge b p)"
  using assms
  by (simp add: merged_settings_def settings_of_json_def settings_to_json_def struct_fields_merge section_merges
      overlay_in_range_def overlay_merge_def)

section \<open>Canonical text\<close>

fun json_sort :: "json \<Rightarrow> json" and sort_entries :: "(string \<times> json) list \<Rightarrow> (string \<times> json) list"
  and sort_items :: "json list \<Rightarrow> json list" where
  "json_sort (JObj fs) = JObj (sort_key fst (sort_entries fs))"
| "json_sort (JArr vs) = JArr (sort_items vs)"
| "json_sort v = v"
| "sort_entries [] = []"
| "sort_entries ((k, v) # fs) = (k, json_sort v) # sort_entries fs"
| "sort_items [] = []"
| "sort_items (v # vs) = json_sort v # sort_items vs"

text \<open>The text of a document in the order it has, with the separators where a parser meets them.\<close>

fun plain :: "'a json_lib_scheme \<Rightarrow> json \<Rightarrow> string" and plain_fields :: "'a json_lib_scheme \<Rightarrow> (string \<times> json) list \<Rightarrow> string"
  and plain_items :: "'a json_lib_scheme \<Rightarrow> json list \<Rightarrow> string" where
  "plain lib (JObj []) = [CHR 0x7B, CHR 0x7D]"
| "plain lib (JObj ((k, v) # fs)) = [CHR 0x7B] @ json_to_string lib (JStr k) @ '':'' @ plain lib v @ plain_fields lib fs"
| "plain lib (JArr []) = ''[]''"
| "plain lib (JArr (v # vs)) = ''['' @ plain lib v @ plain_items lib vs"
| "plain lib v = json_to_string lib v"
| "plain_fields lib [] = [CHR 0x7D]"
| "plain_fields lib ((k, v) # fs) = '','' @ json_to_string lib (JStr k) @ '':'' @ plain lib v @ plain_fields lib fs"
| "plain_items lib [] = '']''"
| "plain_items lib (v # vs) = '','' @ plain lib v @ plain_items lib vs"

lemma insort_key_map: "(\<And>y. f (g y) = f' y) \<Longrightarrow> insort_key f (g x) (map g xs) = map g (insort_key f' x xs)"
  by (induction xs) auto

lemma sort_key_map: "(\<And>y. f (g y) = f' y) \<Longrightarrow> sort_key f (map g xs) = map g (sort_key f' xs)"
  by (induction xs) (auto simp: insort_key_map)

definition entry_text :: "'a json_lib_scheme \<Rightarrow> string \<times> json \<Rightarrow> string" where
  "entry_text lib f = json_to_string lib (JStr (fst f)) @ '':'' @ plain lib (snd f)"

lemma plain_join:
  "plain lib (JObj fs) = [CHR 0x7B] @ str_join '','' (map (entry_text lib) fs) @ [CHR 0x7D]"
  "plain lib (JArr vs) = ''['' @ str_join '','' (map (plain lib) vs) @ '']''"
proof -
  have fields: "entry_text lib f @ plain_fields lib fs = str_join '','' (map (entry_text lib) (f # fs)) @ [CHR 0x7D]" for f fs
    by (induction fs arbitrary: f) (auto simp: entry_text_def)
  have items: "plain lib v @ plain_items lib vs = str_join '','' (map (plain lib) (v # vs)) @ '']''" for v vs
    by (induction vs arbitrary: v) auto
  show "plain lib (JObj fs) = [CHR 0x7B] @ str_join '','' (map (entry_text lib) fs) @ [CHR 0x7D]"
    using fields by (cases fs) (auto simp: entry_text_def)
  show "plain lib (JArr vs) = ''['' @ str_join '','' (map (plain lib) vs) @ '']''"
    using items by (cases vs) auto
qed

lemma canonical_plain:
  "canonical_json lib v = plain lib (json_sort v)"
  "canonical_entries lib fs = map (\<lambda>f. (fst f, entry_text lib f)) (sort_entries fs)"
  "canonical_items lib vs = map (plain lib) (sort_items vs)"
proof (induction v and fs and vs rule: json_sort_sort_entries_sort_items.induct)
  case (1 fs)
  then show ?case
    using sort_key_map [of fst "\<lambda>f. (fst f, entry_text lib f)" fst "sort_entries fs"]
    by (simp add: plain_join o_def)
qed (simp_all add: plain_join entry_text_def)

section \<open>The canonical text is unambiguous\<close>

definition is_scalar :: "json \<Rightarrow> bool" where
  "is_scalar v = (case v of JObj _ \<Rightarrow> False | JArr _ \<Rightarrow> False | _ \<Rightarrow> True)"

definition punctuation :: "char set" where
  "punctuation = {CHR 0x7B, CHR 0x7D, CHR ''['', CHR '']'', CHR '','', CHR '':''}"

definition delimited :: "string \<Rightarrow> bool" where
  "delimited r \<longleftrightarrow> r = [] \<or> hd r \<in> {CHR 0x7D, CHR '']'', CHR '','', CHR '':''}"

text \<open>What JSON promises of the text of a scalar: it is not empty, it does not start with a punctuation character, and
  where a separator, a closing bracket or the end follows, it is clear where it ends and what it stands for.\<close>

definition scalar_laws :: "'a json_lib_scheme \<Rightarrow> bool" where
  "scalar_laws lib \<longleftrightarrow>
     (\<forall>v. is_scalar v \<longrightarrow> json_to_string lib v \<noteq> [] \<and> hd (json_to_string lib v) \<notin> punctuation) \<and>
     (\<forall>v w r r'. is_scalar v \<longrightarrow> is_scalar w \<longrightarrow> delimited r \<longrightarrow> delimited r' \<longrightarrow>
        json_to_string lib v @ r = json_to_string lib w @ r' \<longrightarrow> v = w \<and> r = r')"

lemma scalar_laws_render: "json_to_string lib = render \<Longrightarrow> scalar_laws lib"
proof -
  assume lib: "json_to_string lib = render"
  have "render v @ r = render w @ r' \<Longrightarrow> v = w \<and> r = r'" for v w r r'
    using render_delimited(1) by blast
  moreover have "is_scalar v \<Longrightarrow> render v \<noteq> [] \<and> hd (render v) \<notin> punctuation" for v
    by (cases v) (auto simp: is_scalar_def punctuation_def)
  ultimately show ?thesis by (simp add: scalar_laws_def lib)
qed

lemma key_step:
  assumes "scalar_laws lib" "json_to_string lib (JStr k) @ CHR '':'' # r = json_to_string lib (JStr k') @ CHR '':'' # r'"
  shows "k = k' \<and> r = r'"
proof -
  have "is_scalar (JStr k)" "is_scalar (JStr k')" "delimited (CHR '':'' # r)" "delimited (CHR '':'' # r')"
    by (simp_all add: is_scalar_def delimited_def)
  with assms show ?thesis unfolding scalar_laws_def by (metis json.inject(3) list.inject)
qed

lemma scalar_start:
  "scalar_laws lib \<Longrightarrow> is_scalar v \<Longrightarrow> \<exists>c t. json_to_string lib v = c # t \<and> c \<notin> punctuation"
  by (cases "json_to_string lib v") (auto simp: scalar_laws_def)

lemma plain_start:
  assumes "scalar_laws lib"
  shows "\<exists>c t. plain lib v = c # t \<and> c \<notin> {CHR 0x7D, CHR '']'', CHR '','', CHR '':''} \<and>
    (c = CHR 0x7B \<longleftrightarrow> (\<exists>fs. v = JObj fs)) \<and> (c = CHR ''['' \<longleftrightarrow> (\<exists>vs. v = JArr vs))"
proof (cases "is_scalar v")
  case True
  then have "plain lib v = json_to_string lib v" "\<nexists>fs. v = JObj fs" "\<nexists>vs. v = JArr vs"
    by (cases v; simp add: is_scalar_def)+
  with scalar_start [OF assms True] show ?thesis by (auto simp: punctuation_def)
next
  case False
  then show ?thesis by (cases v) (auto simp: is_scalar_def plain_join)
qed

lemma key_no_close:
  assumes "scalar_laws lib"
  shows "json_to_string lib (JStr k) @ s \<noteq> CHR 0x7D # t"
  using scalar_start [OF assms, of "JStr k"] by (auto simp: is_scalar_def punctuation_def)

lemma plain_no_close:
  assumes "scalar_laws lib"
  shows "plain lib v @ s \<noteq> CHR '']'' # t"
  using plain_start [OF assms, of v] by auto

lemma delimited_tails [simp]:
  "delimited (plain_fields lib fs @ r)" "delimited (plain_items lib vs @ r)"
  by (cases fs; auto simp: delimited_def) (cases vs; auto simp: delimited_def)

lemma is_scalar_iff: "is_scalar v \<longleftrightarrow> (\<nexists>fs. v = JObj fs) \<and> (\<nexists>vs. v = JArr vs)"
  by (cases v) (simp_all add: is_scalar_def)

lemma plain_Cons:
  "plain lib (JObj (f # fs)) = CHR 0x7B # json_to_string lib (JStr (fst f)) @ CHR '':'' # plain lib (snd f) @ plain_fields lib fs"
  "plain_fields lib (f # fs) = CHR '','' # json_to_string lib (JStr (fst f)) @ CHR '':'' # plain lib (snd f) @ plain_fields lib fs"
  by (cases f; simp)+

lemma empty_object:
  assumes "scalar_laws lib" "plain lib (JObj fs) @ r = plain lib (JObj gs) @ r'"
  shows "fs = [] \<longleftrightarrow> gs = []"
  using assms(2) key_no_close [OF assms(1)] key_no_close [OF assms(1), symmetric]
  by (cases fs; cases gs) (simp_all add: plain_Cons)

lemma empty_array:
  assumes "scalar_laws lib" "plain lib (JArr vs) @ r = plain lib (JArr ws) @ r'"
  shows "vs = [] \<longleftrightarrow> ws = []"
  using assms(2) plain_no_close [OF assms(1)] plain_no_close [OF assms(1), symmetric]
  by (cases vs; cases ws) simp_all

lemma same_shape:
  assumes "scalar_laws lib" "plain lib v @ r = plain lib w @ r'"
  shows "(\<exists>fs. v = JObj fs) \<longleftrightarrow> (\<exists>gs. w = JObj gs)" "(\<exists>vs. v = JArr vs) \<longleftrightarrow> (\<exists>ws. w = JArr ws)"
proof -
  obtain c t where v: "plain lib v = c # t" "c = CHR 0x7B \<longleftrightarrow> (\<exists>fs. v = JObj fs)" "c = CHR ''['' \<longleftrightarrow> (\<exists>vs. v = JArr vs)"
    using plain_start [OF assms(1), of v] by blast
  obtain d u where w: "plain lib w = d # u" "d = CHR 0x7B \<longleftrightarrow> (\<exists>fs. w = JObj fs)" "d = CHR ''['' \<longleftrightarrow> (\<exists>vs. w = JArr vs)"
    using plain_start [OF assms(1), of w] by blast
  have "c = d" using assms(2) by (simp add: v(1) w(1))
  with v w show "(\<exists>fs. v = JObj fs) \<longleftrightarrow> (\<exists>gs. w = JObj gs)" "(\<exists>vs. v = JArr vs) \<longleftrightarrow> (\<exists>ws. w = JArr ws)"
    by blast+
qed

lemma plain_scalar_inj:
  assumes "scalar_laws lib" "is_scalar v" "delimited r" "delimited r'" "plain lib v @ r = plain lib w @ r'"
  shows "v = w \<and> r = r'"
proof -
  have "is_scalar w" using same_shape [OF assms(1,5)] assms(2) by (simp add: is_scalar_iff)
  moreover have "plain lib u = json_to_string lib u" if "is_scalar u" for u
    using that by (cases u) (simp_all add: is_scalar_def)
  ultimately show ?thesis using assms unfolding scalar_laws_def by metis
qed

lemma plain_delimited:
  assumes laws: "scalar_laws lib"
  shows "\<And>w r r'. delimited r \<Longrightarrow> delimited r' \<Longrightarrow> plain lib v @ r = plain lib w @ r' \<Longrightarrow> v = w \<and> r = r'"
    and "\<And>gs r r'. delimited r \<Longrightarrow> delimited r' \<Longrightarrow> plain_fields lib fs @ r = plain_fields lib gs @ r' \<Longrightarrow> fs = gs \<and> r = r'"
    and "\<And>ws r r'. delimited r \<Longrightarrow> delimited r' \<Longrightarrow> plain_items lib vs @ r = plain_items lib ws @ r' \<Longrightarrow> vs = ws \<and> r = r'"
proof (induction v and fs and vs rule: json_sort_sort_entries_sort_items.induct)
  case (1 fs)
  from same_shape [OF laws "1.prems"(3)] obtain gs where w: "w = JObj gs" by auto
  have "fs = [] \<longleftrightarrow> gs = []" using "1.prems"(3) unfolding w by (rule empty_object [OF laws])
  moreover have "fs \<noteq> [] \<Longrightarrow> gs \<noteq> [] \<Longrightarrow> plain_fields lib fs @ r = plain_fields lib gs @ r'"
    using "1.prems"(3) by (cases fs; cases gs) (simp_all add: w plain_Cons)
  ultimately show ?case using "1.IH" [OF "1.prems"(1,2)] "1.prems"(3) by (cases "fs = []") (simp_all add: w)
next
  case (2 vs)
  from same_shape [OF laws "2.prems"(3)] obtain ws where w: "w = JArr ws" by auto
  have "vs = [] \<longleftrightarrow> ws = []" using "2.prems"(3) unfolding w by (rule empty_array [OF laws])
  moreover have "vs \<noteq> [] \<Longrightarrow> ws \<noteq> [] \<Longrightarrow> plain_items lib vs @ r = plain_items lib ws @ r'"
    using "2.prems"(3) by (cases vs; cases ws) (simp_all add: w)
  ultimately show ?case using "2.IH" [OF "2.prems"(1,2)] "2.prems"(3) by (cases "vs = []") (simp_all add: w)
next
  case (5 k v fs)
  obtain f gs' where gs: "gs = f # gs'" using "5.prems"(3) by (cases gs) simp_all
  have "json_to_string lib (JStr k) @ CHR '':'' # (plain lib v @ plain_fields lib fs @ r) =
      json_to_string lib (JStr (fst f)) @ CHR '':'' # (plain lib (snd f) @ plain_fields lib gs' @ r')"
    using "5.prems"(3) by (simp add: gs plain_Cons)
  from key_step [OF laws this] have k: "k = fst f" and rest: "plain lib v @ plain_fields lib fs @ r = plain lib (snd f) @ plain_fields lib gs' @ r'"
    by simp_all
  from "5.IH"(1) [OF delimited_tails(1) delimited_tails(1) rest] "5.IH"(2) [OF "5.prems"(1,2)] k
  show ?case by (cases f) (simp add: gs)
next
  case (7 v vs)
  obtain v' ws' where ws: "ws = v' # ws'" using "7.prems"(3) by (cases ws) simp_all
  have rest: "plain lib v @ plain_items lib vs @ r = plain lib v' @ plain_items lib ws' @ r'"
    using "7.prems"(3) by (simp add: ws)
  from "7.IH"(1) [OF delimited_tails(2) delimited_tails(2) rest] "7.IH"(2) [OF "7.prems"(1,2)]
  show ?case by (simp add: ws)
next
  case 4
  then show ?case by (cases gs) (simp_all add: plain_Cons)
next
  case 6
  then show ?case by (cases ws) simp_all
qed (rule plain_scalar_inj [OF laws]; simp add: is_scalar_def)+

lemma canonical_json_eq:
  assumes "scalar_laws lib"
  shows "canonical_json lib v = canonical_json lib w \<longleftrightarrow> json_sort v = json_sort w"
  using plain_delimited(1) [OF assms, of "[]" "[]" "json_sort v" "json_sort w"] by (auto simp: canonical_plain(1) delimited_def)

end
