(* ===== verification/Config_Console.thy ===== *)
theory Config_Console
  imports Settings_Rules Admin_Safety
begin

text \<open>
  Rules for the settings store and the configuration editor: what a write of a section does to the versions and the
  audit log, what a load takes from the table, and the bound on what an edit does to the running configuration.
\<close>

section \<open>Versions\<close>

definition section_version :: "string \<Rightarrow> database \<Rightarrow> i64" where
  "section_version sec db = or_keep (map_option os_version (find (\<lambda>r. os_section r = sec) (operator_settings db))) 0"

lemma fetch_optional_filter: "fetch_optional (filter p xs) = find p xs"
  by (induction xs) simp_all

lemma current_version_value: "fst (current_version sec db) = Inr v \<Longrightarrow> or_keep v 0 = section_version sec db"
  by (auto simp: current_version_def section_version_def fetch_optional_filter)

lemma find_update_other:
  "os_section row = k \<Longrightarrow> j \<noteq> k \<Longrightarrow>
     find (\<lambda>r. os_section r = j) (sql_update (\<lambda>r. os_section r = k) (\<lambda>_. row) rows) = find (\<lambda>r. os_section r = j) rows"
  by (induction rows) (auto simp: sql_update_def)

lemma find_update_same:
  "os_section row = k \<Longrightarrow> list_ex (\<lambda>r. os_section r = k) rows \<Longrightarrow>
     find (\<lambda>r. os_section r = k) (sql_update (\<lambda>r. os_section r = k) (\<lambda>_. row) rows) = Some row"
  by (induction rows) (auto simp: sql_update_def)

lemma find_update:
  assumes "os_section row = k" "k \<in> os_section ` set rows"
  shows "find (\<lambda>r. os_section r = j) (sql_update (\<lambda>r. os_section r = k) (\<lambda>_. row) rows) =
    (if j = k then Some row else find (\<lambda>r. os_section r = j) rows)"
proof -
  have "list_ex (\<lambda>r. os_section r = k) rows" using assms(2) by (force simp: list_ex_iff)
  from find_update_same [OF assms(1) this] find_update_other [OF assms(1)] show ?thesis by simp
qed

lemma find_append_new:
  "os_section row \<notin> os_section ` set rows \<Longrightarrow>
     find (\<lambda>r. os_section r = j) (rows @ [row]) =
       (if j = os_section row then Some row else find (\<lambda>r. os_section r = j) rows)"
  by (induction rows) auto

lemma upsert_setting_Inr:
  assumes "upsert_setting row db = (Inr u, db')"
  shows "find (\<lambda>r. os_section r = j) (operator_settings db') =
           (if j = os_section row then Some row else find (\<lambda>r. os_section r = j) (operator_settings db))"
    and "admin_audit_logs db' = admin_audit_logs db" "admin_keys db' = admin_keys db" "db_outage db' = db_outage db"
  using assms
  by (auto simp: upsert_setting_def sql_Inr find_update find_append_new split: if_splits option.splits)

lemma put_setting_Inr:
  assumes "put_setting_audited lib now i sec doc by_key expected audit secret db = (Inr v, db')"
  shows "v = section_version sec db + 1" "expected \<noteq> None \<Longrightarrow> expected = Some (section_version sec db)"
    and "find (\<lambda>r. os_section r = j) (operator_settings db') =
      (if j = sec then Some (setting_row lib now sec doc v by_key secret) else find (\<lambda>r. os_section r = j) (operator_settings db))"
    and "\<exists>row. admin_audit_logs db' = admin_audit_logs db @ [row] \<and> row_as_new row = audit"
proof -
  let ?cur = "section_version sec db" and ?row = "\<lambda>n. setting_row lib now sec doc n by_key secret"
  from assms obtain current db1 where cur: "current_version sec db = (Inr current, db1)"
    and rest: "stmt_bind (case expected of None \<Rightarrow> stmt_return (Inr ())
          | Some e \<Rightarrow> stmt_return (ensure (or_keep current 0 = e) (stale_write sec e (or_keep current 0)))) (\<lambda>_.
        stmt_bind (upsert_setting (?row (or_keep current 0 + 1))) (\<lambda>_.
        stmt_bind (append_admin_audit lib now i audit secret) (\<lambda>_. stmt_return (Inr (or_keep current 0 + 1))))) db1 = (Inr v, db')"
    unfolding put_setting_audited_def transaction_Inr Let_def by (auto simp: stmt_bind_Inr)
  have db1: "db1 = db" using cur by (simp add: current_version_def query_def split: if_splits)
  have c: "or_keep current 0 = ?cur" using current_version_value [of sec db current] cur by simp
  from rest obtain u db2 x where ok: "expected \<noteq> None \<longrightarrow> expected = Some ?cur" and v: "v = ?cur + 1"
    and up: "upsert_setting (?row v) db = (Inr u, db2)" and app: "append_admin_audit lib now i audit secret db2 = (Inr x, db')"
    unfolding c db1 by (auto simp: stmt_bind_Inr split: option.splits)
  show "v = ?cur + 1" "expected \<noteq> None \<Longrightarrow> expected = Some ?cur" using v ok by blast+
  have logs: "operator_settings db' = operator_settings db2"
    "\<exists>row. admin_audit_logs db' = admin_audit_logs db2 @ [row] \<and> row_as_new row = audit"
    using app by (auto simp: append_admin_audit_def sql_Inr Let_def audit_row_def row_as_new_def split: if_splits)
  show "find (\<lambda>r. os_section r = j) (operator_settings db') =
      (if j = sec then Some (?row v) else find (\<lambda>r. os_section r = j) (operator_settings db))"
    using upsert_setting_Inr(1) [OF up, of j] logs(1) by (simp add: setting_row_def)
  show "\<exists>row. admin_audit_logs db' = admin_audit_logs db @ [row] \<and> row_as_new row = audit"
    using logs(2) upsert_setting_Inr(2) [OF up] by simp
qed

lemma put_setting_clean:
  assumes "put_setting_audited lib now i sec doc by_key expected audit secret db = (r, db')" "isl r"
  shows "db' = db"
proof -
  from assms(2) obtain e where e: "r = Inl e" by (cases r) simp_all
  have "snd (put_setting_audited lib now i sec doc by_key expected audit secret db) = db"
    unfolding put_setting_audited_def
    by (rule transaction_Inl [of _ _ e]) (simp add: put_setting_audited_def [symmetric] assms(1) e)
  with assms(1) show ?thesis by simp
qed

lemma put_setting_version:
  assumes "put_setting_audited lib now i sec doc by_key expected audit secret db = (r, db')"
  shows "section_version j db' =
    (if \<not> isl r \<and> j = sec then section_version sec db + 1 else section_version j db)"
proof (cases r)
  case (Inl e)
  with put_setting_clean [OF assms] show ?thesis by simp
next
  case (Inr v)
  note ok = put_setting_Inr [OF assms [unfolded Inr]]
  from ok(3) [of j] ok(1) Inr show ?thesis by (simp add: section_version_def setting_row_def)
qed

lemma put_setting_sealed:
  "verify_settings_mac lib secret (setting_row lib now sec doc v by_key secret)"
  by (simp add: verify_settings_mac_def setting_row_def)

lemma put_setting_stale:
  assumes "\<not> db_outage db" "e \<noteq> section_version sec db"
  shows "put_setting_audited lib now i sec doc by_key (Some e) audit secret db =
    (Inl (stale_write sec e (section_version sec db)), db)"
proof -
  have "current_version sec db = (Inr (map_option os_version (find (\<lambda>r. os_section r = sec) (operator_settings db))), db)"
    using assms(1) by (simp add: current_version_def query_def fetch_optional_filter)
  then show ?thesis
    using assms(2) by (simp add: put_setting_audited_def transaction_def stmt_bind_def section_version_def Let_def)
qed

text \<open>Writes in a row, each at its own time and with its own entry for the log.\<close>

record setting_write =
  wr_now :: timestamp
  wr_id :: uuid
  wr_section :: string
  wr_doc :: json
  wr_by :: "uuid option"
  wr_expected :: "i64 option"
  wr_audit :: new_admin_audit

definition run_write :: "'a mac_lib_scheme \<Rightarrow> string \<Rightarrow> setting_write \<Rightarrow> i64 stmt" where
  "run_write lib secret w =
     put_setting_audited lib (wr_now w) (wr_id w) (wr_section w) (wr_doc w) (wr_by w) (wr_expected w) (wr_audit w) secret"

fun settings_run :: "'a mac_lib_scheme \<Rightarrow> string \<Rightarrow> setting_write list \<Rightarrow> database \<Rightarrow> database" where
  "settings_run lib secret [] db = db"
| "settings_run lib secret (w # ws) db = settings_run lib secret ws (snd (run_write lib secret w db))"

lemma settings_run_version: "section_version sec db \<le> section_version sec (settings_run lib secret ws db)"
proof (induction ws arbitrary: db)
  case (Cons w ws)
  have "section_version sec db \<le> section_version sec (snd (run_write lib secret w db))"
    by (cases "run_write lib secret w db") (simp add: run_write_def put_setting_version)
  also have "\<dots> \<le> section_version sec (settings_run lib secret ws (snd (run_write lib secret w db)))" by (rule Cons.IH)
  finally show ?case by simp
qed simp

section \<open>What a load takes\<close>

lemma map_of_merge_rows:
  "distinct (map os_section rows) \<Longrightarrow>
     map_of (merge_rows lib secret rows m) k =
       (case find (\<lambda>r. os_section r = k) rows of
          Some r \<Rightarrow> if verify_settings_mac lib secret r then Some (os_doc r) else map_of m k
        | None \<Rightarrow> map_of m k)"
proof (induction rows arbitrary: m)
  case (Cons r rows)
  from Cons.prems have "os_section r \<notin> os_section ` set rows" by simp
  then have "find (\<lambda>x. os_section x = os_section r) rows = None" by (force simp: find_None_iff image_iff)
  with Cons show ?case by (auto split: option.splits)
qed simp

text \<open>The reading of one section.\<close>

definition section_decodes :: "string \<Rightarrow> json \<Rightarrow> bool" where
  "section_decodes sec doc \<longleftrightarrow>
     (sec = ''landing'' \<longrightarrow> dec_section landing_of_json doc \<noteq> None) \<and>
     (sec = ''retention'' \<longrightarrow> dec_section retention_of_json doc \<noteq> None) \<and>
     (sec = ''restore'' \<longrightarrow> dec_section restore_of_json doc \<noteq> None) \<and>
     (sec = ''console'' \<longrightarrow> dec_section console_of_json doc \<noteq> None) \<and>
     (sec = ''registration'' \<longrightarrow> dec_section registration_of_json doc \<noteq> None) \<and>
     (sec = ''pow'' \<longrightarrow> dec_section pow_of_json doc \<noteq> None) \<and>
     (sec = ''features'' \<longrightarrow> dec_section features_of_json doc \<noteq> None) \<and>
     (sec = ''relay'' \<longrightarrow> dec_section relay_of_json doc \<noteq> None) \<and>
     (sec = ''premium'' \<longrightarrow> dec_section premium_of_json doc \<noteq> None)"

lemma settings_of_json_None:
  "map_of fs sec = Some doc \<Longrightarrow> \<not> section_decodes sec doc \<Longrightarrow> settings_of_json (JObj fs) = None"
  by (auto simp: settings_of_json_def struct_fields_def section_decodes_def bind_eq_None_conv)

lemma merge_rows_filter: "merge_rows lib secret rows m = merge_rows lib secret (filter (verify_settings_mac lib secret) rows) m"
  by (induction rows arbitrary: m) auto

definition sealed_text :: "'a json_lib_scheme \<Rightarrow> operator_setting_row \<Rightarrow> string" where
  "sealed_text lib r =
     os_section r @ [unit_separator] @ int_to_string (os_version r) @ [unit_separator] @ canonical_json lib (os_doc r)"

text \<open>A row with a valid seal over a text the service never sealed.\<close>

definition forged_setting :: "'a mac_lib_scheme \<Rightarrow> string \<Rightarrow> operator_setting_row list \<Rightarrow> operator_setting_row \<Rightarrow> bool" where
  "forged_setting lib secret written r \<longleftrightarrow>
     verify_settings_mac lib secret r \<and> sealed_text lib r \<notin> sealed_text lib ` set written"

lemma int_to_string_no_separator: "unit_separator \<notin> set (int_to_string i)"
proof -
  have "list_all (\<lambda>n. hex_digit n \<noteq> unit_separator) [0..<10]" "CHR ''-'' \<noteq> unit_separator" by code_simp+
  moreover from this(1) have "unit_separator \<notin> hex_digit ` {..<10}" 
    by (auto simp: list_all_iff) (metis atLeastLessThan_iff zero_le)
  ultimately show ?thesis using nat_to_string_digits [of unit_separator] by (auto simp: int_to_string_def)
qed

lemma sealed_text_inj:
  assumes "scalar_laws lib" "unit_separator \<notin> set (os_section q)" "unit_separator \<notin> set (os_section r)"
    and "sealed_text lib q = sealed_text lib r"
  shows "os_section q = os_section r" "os_version q = os_version r" "json_sort (os_doc q) = json_sort (os_doc r)"
proof -
  have 1: "os_section q = os_section r \<and>
      int_to_string (os_version q) @ unit_separator # canonical_json lib (os_doc q) =
      int_to_string (os_version r) @ unit_separator # canonical_json lib (os_doc r)"
    using assms(4) by (intro split_first [OF _ assms(2,3)]) (simp add: sealed_text_def)
  from split_first [OF conjunct2 [OF 1] int_to_string_no_separator int_to_string_no_separator]
  show "os_section q = os_section r" "os_version q = os_version r" "json_sort (os_doc q) = json_sort (os_doc r)"
    using 1 by (auto dest: int_to_string_inj simp: canonical_json_eq [OF assms(1)])
qed

section \<open>Edits of the running configuration\<close>

text \<open>What clients and workers built at the start read: it changes with a restart only.\<close>

definition restart_part :: "config \<Rightarrow> feature_flags \<times> messaging_config \<times> premium_settings \<times> bool \<times> bool" where
  "restart_part c =
     (cf_features c, cf_messaging c, cf_premium c, re_erasure_enabled (cf_retention c),
      require_payment (rg_payment (cf_registration c)))"

lemma runtime_class_restart:
  "runtime_class ''features'' f = RestartRequired" "runtime_class ''relay'' f = RestartRequired"
  "runtime_class ''premium'' f = RestartRequired" "runtime_class ''retention'' ''erasure_enabled'' = RestartRequired"
  "runtime_class ''registration'' ''require_payment'' = RestartRequired"
  by (simp_all add: runtime_class_def)

lemma touched_fields_object:
  "f \<in> set (touched_fields (json_object fs)) \<longleftrightarrow> list_ex (\<lambda>g. fst g = f \<and> snd g \<noteq> JNull) fs"
  by (force simp: touched_fields_def json_fields_def json_object_def list_ex_iff)

lemma untouched_object: "touched_fields (json_object fs) = [] \<longleftrightarrow> list_all (\<lambda>g. snd g = JNull) fs"
  by (force simp: touched_fields_def json_fields_def json_object_def list_all_iff filter_empty_conv)

lemma touched_Null [simp]: "touched_fields JNull = []"
  by (simp add: touched_fields_def json_fields_def)

lemma any_restart_patch:
  "any_restart (case json_fields (json_object fs) of Some gs \<Rightarrow> gs | None \<Rightarrow> []) \<longleftrightarrow>
     (\<exists>(sec, v) \<in> set fs. \<exists>f \<in> set (touched_fields v). runtime_class sec f = RestartRequired)"
  by (auto simp: any_restart_def json_fields_def json_object_def list_ex_iff)

abbreviation patch_entries :: "settings_overlay \<Rightarrow> (string \<times> json) list" where
  "patch_entries p \<equiv> (case json_fields (settings_to_json p) of Some fs \<Rightarrow> fs | None \<Rightarrow> [])"

lemma no_restart_sections:
  assumes "\<not> any_restart (patch_entries p)"
  shows "touched_fields (json_opt features_to_json (ov_features p)) = []"
    "touched_fields (json_opt relay_to_json (ov_relay p)) = []"
    "touched_fields (json_opt premium_to_json (ov_premium p)) = []"
    "''erasure_enabled'' \<notin> set (touched_fields (json_opt retention_to_json (ov_retention p)))"
    "''require_payment'' \<notin> set (touched_fields (json_opt registration_to_json (ov_registration p)))"
proof -
  have no: "f \<notin> set (touched_fields v)" if "(sec, v) \<in> set
      [(''features'', json_opt features_to_json (ov_features p)), (''relay'', json_opt relay_to_json (ov_relay p)),
       (''premium'', json_opt premium_to_json (ov_premium p)), (''retention'', json_opt retention_to_json (ov_retention p)),
       (''registration'', json_opt registration_to_json (ov_registration p))]" "runtime_class sec f = RestartRequired" for sec v f
    using assms that unfolding settings_to_json_def any_restart_patch by auto
  have empty: "xs = []" if "\<And>f. f \<notin> set xs" for xs :: "string list"
    using that by (cases xs) auto
  show "touched_fields (json_opt features_to_json (ov_features p)) = []"
    by (rule empty, rule no [of "''features''"]) (simp_all add: runtime_class_restart)
  show "touched_fields (json_opt relay_to_json (ov_relay p)) = []"
    by (rule empty, rule no [of "''relay''"]) (simp_all add: runtime_class_restart)
  show "touched_fields (json_opt premium_to_json (ov_premium p)) = []"
    by (rule empty, rule no [of "''premium''"]) (simp_all add: runtime_class_restart)
  show "''erasure_enabled'' \<notin> set (touched_fields (json_opt retention_to_json (ov_retention p)))"
    by (rule no [of "''retention''"]) (simp_all add: runtime_class_restart)
  show "''require_payment'' \<notin> set (touched_fields (json_opt registration_to_json (ov_registration p)))"
    by (rule no [of "''registration''"]) (simp_all add: runtime_class_restart)
qed

lemma json_opt_Null: "(\<And>v. f v \<noteq> JNull) \<Longrightarrow> json_opt f x = JNull \<longleftrightarrow> x = None"
  by (cases x) simp_all

lemma json_of_number_not_null: "json_of_word w \<noteq> JNull" "json_of_usize n \<noteq> JNull"
  by (simp_all add: json_of_word_def json_of_usize_def)

lemma untouched_features: "touched_fields (features_to_json f) = [] \<Longrightarrow> apply_features f c = c"
  by (simp add: features_to_json_def untouched_object json_opt_Null json_of_number_not_null apply_features_def)

lemma untouched_relay: "touched_fields (relay_to_json f) = [] \<Longrightarrow> apply_relay f c = c"
  by (simp add: relay_to_json_def untouched_object json_opt_Null json_of_number_not_null apply_relay_def)

lemma untouched_premium: "touched_fields (premium_to_json f) = [] \<Longrightarrow> apply_premium f c = c"
  by (simp add: premium_to_json_def untouched_object json_opt_Null apply_premium_def)

lemma untouched_erasure:
  "''erasure_enabled'' \<notin> set (touched_fields (retention_to_json f)) \<Longrightarrow>
     re_erasure_enabled (apply_retention f c) = re_erasure_enabled c"
  by (simp add: retention_to_json_def touched_fields_object json_opt_Null apply_retention_def)

lemma untouched_payment:
  "''require_payment'' \<notin> set (touched_fields (registration_to_json f)) \<Longrightarrow> apply_registration f c = Inr c' \<Longrightarrow>
     require_payment (rg_payment c') = require_payment (rg_payment c)"
  by (auto simp: registration_to_json_def touched_fields_object json_opt_Null apply_registration_def)

lemma hot_swap_restart_part:
  assumes "\<not> any_restart (patch_entries p)" "merge_overlay p c = Inr c'"
  shows "restart_part c' = restart_part c"
proof -
  note no = no_restart_sections [OF assms(1)]
  have "(case ov_features p of None \<Rightarrow> x | Some f \<Rightarrow> apply_features f x) = x" for x
    using no(1) by (cases "ov_features p") (simp_all add: untouched_features)
  moreover have "(case ov_relay p of None \<Rightarrow> m | Some r \<Rightarrow> m\<lparr>ms_relay := apply_relay r (ms_relay m)\<rparr>) = m" for m :: messaging_config
    using no(2) by (cases "ov_relay p") (simp_all add: untouched_relay)
  moreover have "(case ov_premium p of None \<Rightarrow> x | Some f \<Rightarrow> apply_premium f x) = x" for x
    using no(3) by (cases "ov_premium p") (simp_all add: untouched_premium)
  moreover have "re_erasure_enabled (case ov_retention p of None \<Rightarrow> x | Some f \<Rightarrow> apply_retention f x) = re_erasure_enabled x" for x
    using no(4) by (cases "ov_retention p") (simp_all add: untouched_erasure)
  moreover have "require_payment (rg_payment rc) = require_payment (rg_payment (cf_registration c))"
    if "(case ov_registration p of None \<Rightarrow> Inr (cf_registration c) | Some g \<Rightarrow> apply_registration g (cf_registration c)) = Inr rc" for rc
    using no(5) that by (cases "ov_registration p") (auto dest: untouched_payment)
  ultimately show ?thesis using assms(2) by (auto simp: merge_overlay_def restart_part_def)
qed

section \<open>The handlers\<close>

text \<open>What an edit may do to the running configuration.\<close>

definition live_step :: "net_lib \<Rightarrow> console_state \<Rightarrow> console_state \<Rightarrow> bool" where
  "live_step net s t \<longleftrightarrow>
     restart_part (cs_config t) = restart_part (cs_config s) \<and> same_fixed (cs_config s) (cs_config t) \<and>
     (cs_config t \<noteq> cs_config s \<longrightarrow> validate net (cs_config t) = Inr ())"

interpretation live: effect_bound "live_step net"
  by unfold_locales (auto simp: live_step_def intro: same_fixed_trans)

lemma reads_running: "reads running"
  by (rule withinI) (simp add: running_def)

lemma within_console_db: "within (live_step net) (console_db m)"
  by (rule withinI) (simp add: console_db_def on_part_def live_step_def split: prod.split)

lemma within_apply_put: "within (live_step (ce_net env)) (apply_put env patch merged)"
proof (rule withinI)
  fix s
  show "live_step (ce_net env) s (snd (apply_put env patch merged s))"
    by (auto simp: apply_put_def stmt_bind_def running_def live_step_def apply_overlay_Inr merge_overlay_fixed
        hot_swap_restart_part split: sum.split)
qed

lemma within_admin_config_put: "within (live_step (ce_net env)) (admin_config_put env ids header req)"
  unfolding admin_config_put_def Let_def
  by (intro live.within_rules within_console_db within_apply_put live.within_reads reads_running)

end
