(* ===== verification/Config_Properties.thy ===== *)
theory Config_Properties
  imports Config_Console Admin_Demo
begin

text \<open>
  The properties of the configuration: what a start from the environment guarantees, what an operator's edit can and
  cannot do, and what the sealed settings store promises.
\<close>

section \<open>A sample instance\<close>

text \<open>A resolver that knows one public URL and the loopback address, and the environment of a small instance.\<close>

definition demo_net :: net_lib where
  "demo_net =
     \<lparr>url_parse = (\<lambda>s. if starts_with ''https://'' s
        then Some \<lparr>pu_scheme = ''https'', pu_host = Some (Domain (drop 8 s)), pu_host_str = Some (drop 8 s)\<rparr> else None),
      to_socket_addrs = (\<lambda>s. if starts_with ''127.0.0.1:'' s then Some [V4 2130706433] else None),
      ip_network_from_str = (\<lambda>s. None), ip_addr_from_str = (\<lambda>s. None)\<rparr>"

definition demo_variables :: environment where
  "demo_variables = map_of
     [(''DATABASE_URL'', ''postgres://db''), (''JWT_SECRET'', replicate 32 CHR ''a''),
      (''SEED_FINGERPRINT_PEPPER'', replicate 32 CHR ''p''), (''REFRESH_TOKEN_PEPPER'', replicate 32 CHR ''r''),
      (''IP_SALT'', replicate 16 CHR ''s''), (''PUBLIC_API_URL'', ''https://a.org''),
      (''RELAY_ENABLED'', ''true''), (''RELAY_URL'', ''wss://r.org'')]"

lemma demo_lookup:
  "demo_variables k =
     (if k = ''DATABASE_URL'' then Some ''postgres://db''
      else if k = ''JWT_SECRET'' then Some (replicate 32 CHR ''a'')
      else if k = ''SEED_FINGERPRINT_PEPPER'' then Some (replicate 32 CHR ''p'')
      else if k = ''REFRESH_TOKEN_PEPPER'' then Some (replicate 32 CHR ''r'')
      else if k = ''IP_SALT'' then Some (replicate 16 CHR ''s'')
      else if k = ''PUBLIC_API_URL'' then Some ''https://a.org''
      else if k = ''RELAY_ENABLED'' then Some ''true''
      else if k = ''RELAY_URL'' then Some ''wss://r.org'' else None)"
  by (simp add: demo_variables_def)

text \<open>Whatever is not set has its default.\<close>

lemma env_unset:
  assumes "env k = None"
  shows "env_opt env k = None" "env_or env k d = d" "env_bool env k b = b" "env_parse p env k x = Inr x" "env_list env k = []"
  using assms by (simp_all add: env_opt_def env_or_def env_bool_def env_parse_def env_list_def option_filter_def)

lemma env_set:
  assumes "env k = Some v" "v \<noteq> []"
  shows "env_opt env k = Some v" "env_or env k d = v"
  using assms by (simp_all add: env_opt_def env_or_def option_filter_def)

definition demo_relay :: relay_settings where
  "demo_relay =
     \<lparr>rc_enabled = True, rc_mode = ''bundled'', rc_advertised_url = ''wss://r.org'', rc_write_policy = ''inbox-outbox'',
      rc_inbound_pow_bits = 0, rc_max_event_bytes = 65536, rc_write_allowlist = [], ry_admission_bind = ''127.0.0.1:8090'',
      ry_admission_allow_public = False, ry_retention_days = 30\<rparr>"

lemma demo_literals:
  "to_lowercase ''bundled'' = ''bundled''" "to_lowercase ''inbox-outbox'' = ''inbox-outbox''"
  "to_lowercase ''true'' = ''true''" "to_lowercase ''single'' = ''single''" "to_lowercase ''create-only'' = ''create-only''"
  "to_lowercase ''neroswap'' = ''neroswap''" "to_lowercase ''usd'' = ''usd''" "to_lowercase ''btcpay'' = ''btcpay''"
  "to_uppercase [] = []" "parse_premium_plans [] = []" "trim [] = []" "gate_mode_from_env_str ''all'' = GateAll"
  by code_simp+

lemmas demo_variables_simps = demo_lookup env_unset env_set demo_literals

lemma demo_messaging:
  "env_messaging demo_variables =
     Inr \<lparr>ms_relay = demo_relay, ms_nip05_interop_hints = False, ms_nip05_extra_relay_hints = []\<rparr>"
  by (simp add: env_messaging_def env_u8_def env_usize_def env_u32_def demo_variables_simps demo_relay_def) (simp add: env_bool_def demo_variables_simps)

lemma demo_registration:
  "env_registration demo_variables =
     Inr \<lparr>rg_require_invite = False,
          rg_payment = \<lparr>require_payment = False, pay_amount = [], pay_currency = [], pay_confirmations = 1,
            pay_expires_minutes = 60, pay_provider = ''btcpay'', pay_provider_url = [], pay_store_id = [], pay_api_key = []\<rparr>,
          rg_gate_mode = GateAll\<rparr>"
  by (simp add: env_registration_def env_u32_def demo_variables_simps)

lemma demo_features:
  "env_features demo_variables =
     Inr \<lparr>ft_chains = \<lparr>fl_btc = True, fl_ltc = True, fl_xmr = True, fl_wow = True, fl_grin = True\<rparr>, ft_prices = True,
          ft_prices_provider = ''neroswap'', ft_prices_interval_secs = 300, ft_prices_assets = SUPPORTED_PRICE_ASSETS,
          ft_prices_currency = ''usd'', ft_tips = False, ft_targeted_tips = False, ft_nostr_identity = True,
          ft_grin_relay = True\<rparr>"
  by (simp add: env_features_def env_u64_def env_prices_assets_def demo_variables_simps)

definition demo_config :: config where
  "demo_config =
     \<lparr>cf_server_host = ''0.0.0.0'', cf_server_port = 8080, cf_deployment_mode = SingleInstance,
      cf_environment = ''development'', cf_database_url = ''postgres://db'', cf_legacy_database_url = None,
      cf_tip_share_base = None,
      cf_auth = \<lparr>st_jwt_secret = replicate 32 CHR ''a'', st_jwt_expiry_hours = 24\<rparr>,
      cf_identity = \<lparr>id_public_api_url = Some ''https://a.org'', id_nip05_domain = None\<rparr>,
      cf_secrets = \<lparr>sx_seed_fingerprint_pepper = replicate 32 CHR ''p'', sx_refresh_token_pepper = replicate 32 CHR ''r'',
        sx_ip_salt = replicate 16 CHR ''s''\<rparr>,
      cf_trusted_proxies = [], cf_rate_limit = rate_limit_default, cf_cors_allowed_origins = [],
      cf_features = \<lparr>ft_chains = \<lparr>fl_btc = True, fl_ltc = True, fl_xmr = True, fl_wow = True, fl_grin = True\<rparr>, ft_prices = True,
          ft_prices_provider = ''neroswap'', ft_prices_interval_secs = 300, ft_prices_assets = SUPPORTED_PRICE_ASSETS,
          ft_prices_currency = ''usd'', ft_tips = False, ft_targeted_tips = False, ft_nostr_identity = True,
          ft_grin_relay = True\<rparr>,
      cf_chains = env_chains demo_variables,
      cf_pow = \<lparr>pow_enabled = False, pow_hmac_key = [], pow_required = False, pow_required_for_pubkeys = [], pow_cost = 100000\<rparr>,
      cf_admin = \<lparr>admin_public_url = ''http://127.0.0.1:8081'', key_integrity_secret = [], max_keys = 8,
        pending_key_ttl_days = 7, admin_onion = None, am_enabled = False, am_bind = ''127.0.0.1:8081'', am_jwt_secret = [],
        am_pubkeys = [], am_allow_public_bind = False\<rparr>,
      cf_landing = \<lparr>la_enabled = False, la_title = None, la_expose_version = False, la_expose_chains = False,
        la_expose_price_feed = False, la_expose_uptime = False, la_stats_enabled = False, la_stats_cache_hours = 24,
        la_stats_min_users = 20\<rparr>,
      cf_retention = \<lparr>re_login_events_days = 90, re_audit_days = 365, re_erasure_enabled = False,
        re_purge_login_events = True, re_export_per_day = 3, re_grace_period_hours = 72\<rparr>,
      cf_restore = \<lparr>rs_policy = CreateOnly, rs_max_depth_days = 365, rs_pow_free_days = 90, rs_pow_days_per_bit = 0,
        rs_pow_max_bits = 24\<rparr>,
      cf_registration = \<lparr>rg_require_invite = False,
          rg_payment = \<lparr>require_payment = False, pay_amount = [], pay_currency = [], pay_confirmations = 1,
            pay_expires_minutes = 60, pay_provider = ''btcpay'', pay_provider_url = [], pay_store_id = [], pay_api_key = []\<rparr>,
          rg_gate_mode = GateAll\<rparr>,
      cf_messaging = \<lparr>ms_relay = demo_relay, ms_nip05_interop_hints = False, ms_nip05_extra_relay_hints = []\<rparr>,
      cf_premium = env_premium demo_variables, cf_feed = env_feed demo_variables, cf_console = \<lparr>co_restart_apply_mode = Manual\<rparr>\<rparr>"

lemma demo_variables_config: "env_config demo_net demo_variables = Inr demo_config"
  by (simp add: env_config_def demo_messaging demo_registration demo_features demo_config_def rate_limit_default_def
      env_deployment_mode_def env_rate_limit_def env_pow_def env_admin_def env_landing_def env_retention_def env_restore_def
      env_restore_policy_def env_secrets_def env_console_def parse_networks_def env_u16_def env_u64_def env_u32_def env_i64_def
      demo_variables_simps)

lemma demo_checks:
  "validate_rate_limit demo_config = Inr ()" "validate_secrets demo_config = Inr ()" "validate_restore demo_config = Inr ()"
  "validate_nostr demo_net demo_config = Inr ()" "validate_pow demo_config = Inr ()"
  "validate_admin demo_net demo_config = Inr ()" "validate_prices demo_config = Inr ()"
  "validate_erasure demo_config = Inr ()" "validate_chains demo_config = Inr ()" "validate_tips demo_config = Inr ()"
  "validate_payment demo_net demo_config = Inr ()" "validate_feed demo_config = Inr ()"
  "validate_premium demo_net demo_config = Inr ()"
  by (simp_all add: demo_config_def section_checks Let_def rate_limit_default_def is_production_def demo_net_def
      starts_with_def env_premium_def env_feed_def demo_variables_simps validate_price_asset_def SUPPORTED_PRICE_CURRENCIES_def demo_relay_def)

lemma demo_relay_check: "validate_relay demo_net demo_config = Inr ()"
proof -
  have "trim ''wss://r.org'' \<noteq> []" "trim ''127.0.0.1:8090'' \<noteq> []" "ip_is_loopback (V4 2130706433)" by code_simp+
  then show ?thesis
    by (simp add: validate_relay_def demo_config_def demo_relay_def Let_def is_production_def demo_net_def starts_with_def
        admission_loopback_def)
qed

lemma demo_valid: "validate demo_net demo_config = Inr ()"
  by (simp add: validate_parts demo_checks demo_relay_check)

lemma demo_from_env: "from_env demo_net demo_variables = Inr demo_config"
  by (simp add: from_env_def demo_variables_config demo_valid)

section \<open>Starting from the environment\<close>

text \<open>C23. The server starts only with a configuration that is safe to serve: whatever the environment, a start
  yields secrets that are long enough (and in production no placeholders), an armed puzzle when one is asked for, invoices
  that are final before they count, an admission service that answers on loopback unless the operator opted out, premium
  plans with distinct names, positive prices and at most ten years, and a relay that can be built.\<close>

theorem started_config_is_safe:
  assumes "from_env lib env = Inr c"
  shows "safe_to_serve lib c \<and>
    (\<exists>relay. relay_from_config crates bech (relay_config.truncate (ms_relay (cf_messaging c))) = Inr relay \<and>
       (relay \<noteq> None \<longleftrightarrow> rc_enabled (ms_relay (cf_messaging c))))"
proof -
  have v: "validate lib c = Inr ()" using assms by (simp add: from_env_def)
  show ?thesis using validate_safe_to_serve [OF v] validated_relay_from_config [OF v] by blast
qed

theorem started_config_is_safe_witness:
  "from_env demo_net demo_variables = Inr demo_config \<and> safe_to_serve demo_net demo_config"
  using demo_from_env started_config_is_safe [OF demo_from_env] by blast

text \<open>C38. Reading the editable fields of a started configuration and putting them back changes nothing and
  passes the validation: the console can save what it shows.\<close>

theorem editable_overlay_identity:
  assumes "from_env lib env = Inr c"
  shows "apply_overlay lib c (editable_overlay c) = Inr c"
proof -
  have "env_config lib env = Inr c" "validate lib c = Inr ()" using assms by (simp_all add: from_env_def)
  then show ?thesis using merge_editable [OF env_config_normal [of lib env c]] by (simp add: apply_overlay_Inr)
qed

theorem editable_overlay_identity_witness:
  "from_env demo_net demo_variables = Inr demo_config \<and> apply_overlay demo_net demo_config (editable_overlay demo_config) = Inr demo_config"
  using demo_from_env editable_overlay_identity [OF demo_from_env] by simp

text \<open>C37. The restore policy is what it says, whatever the heights: a restore passes exactly when it starts no
  deeper than the allowed number of days of blocks below the tip (the saturating arithmetic never wraps), the check always
  answers, and the price of a restore never exceeds the cap, never falls when the restore starts deeper, and is what the
  depth in days gives on any chain shorter than 144 times 2 to the 32 blocks.\<close>

theorem restore_policy_exact:
  "(restore_enforce r chain h tip = Some (Inr ()) \<longleftrightarrow>
      (\<forall>d. allowed_days r = Some d \<longrightarrow> uint tip - d * uint (blocks_per_day chain) \<le> uint h)) \<and>
   restore_enforce r chain h tip \<noteq> None \<and>
   required_restore_pow_bits r chain h tip \<le> rs_pow_max_bits r \<and>
   (uint tip < 144 * 2 ^ 32 \<longrightarrow> h \<le> h' \<longrightarrow>
      required_restore_pow_bits r chain h' tip \<le> required_restore_pow_bits r chain h tip) \<and>
   (uint tip < 144 * 2 ^ 32 \<longrightarrow> rs_pow_days_per_bit r \<noteq> 0 \<longrightarrow>
      uint (required_restore_pow_bits r chain h tip) =
        min (depth_bits r chain (uint h) (uint tip)) (uint (rs_pow_max_bits r)))"
proof -
  have "restore_enforce r chain h tip = Some (Inr ()) \<longleftrightarrow>
      (\<forall>d. allowed_days r = Some d \<longrightarrow> uint tip - d * uint (blocks_per_day chain) \<le> uint h)"
  proof (cases "allowed_days r")
    case None
    then show ?thesis by (auto simp: restore_enforce_total allowed_days_def split: restore_policy.splits)
  next
    case (Some d)
    then have "rs_policy r \<noteq> Unlimited" by (auto simp: allowed_days_def)
    with uint_min_start_height [OF Some, of chain tip] Some show ?thesis
      by (simp add: restore_enforce_total word_le_def)
  qed
  moreover have "required_restore_pow_bits r chain h tip \<le> rs_pow_max_bits r"
    by (simp add: required_restore_pow_bits_def Let_def)
  moreover have "required_restore_pow_bits r chain h' tip \<le> required_restore_pow_bits r chain h tip"
    if t: "uint tip < 144 * 2 ^ 32" and h: "h \<le> h'"
  proof (cases "rs_pow_days_per_bit r = 0")
    case True
    then show ?thesis by (simp add: required_restore_pow_bits_def)
  next
    case False
    then have "0 < uint (rs_pow_days_per_bit r)" by (metis uint_0_iff uint_ge_0 le_less)
    from depth_bits_mono [OF h [unfolded word_le_def] this, of chain "uint tip"] show ?thesis
      by (simp add: word_le_def uint_required_restore_pow_bits [OF False t] min.coboundedI1)
  qed
  ultimately show ?thesis
    by (simp add: restore_enforce_total(2) uint_required_restore_pow_bits)
qed

theorem restore_policy_exact_witness:
  "required_restore_pow_bits \<lparr>rs_policy = Bounded, rs_max_depth_days = 30, rs_pow_free_days = 1, rs_pow_days_per_bit = 1,
     rs_pow_max_bits = 24\<rparr> ''btc'' 0 1440 = 9 \<and>
   restore_enforce \<lparr>rs_policy = Bounded, rs_max_depth_days = 30, rs_pow_free_days = 1, rs_pow_days_per_bit = 1,
     rs_pow_max_bits = 24\<rparr> ''btc'' 0 1440 = Some (Inr ())"
  using restore_policy_exact [of "\<lparr>rs_policy = Bounded, rs_max_depth_days = 30, rs_pow_free_days = 1, rs_pow_days_per_bit = 1,
     rs_pow_max_bits = 24\<rparr>" "''btc''" 0 1440 0]
  by (simp add: depth_bits_def blocks_per_day_def allowed_days_def word_uint_eq_iff)

section \<open>Edits\<close>

text \<open>C24. An operator's patch reaches the editable fields only: every secret, bind address, processor wiring,
  chain wiring, allowlist and plan of the configuration is the one from before, and the result has passed the
  validation, so that it is safe to serve. At a start the stored patch is put over the environment's configuration under
  the same rule, whatever the table holds, and no restart is pending then.\<close>

theorem overlay_cannot_reach_secrets:
  assumes "boot_config lib net env db = (Inr (base, effective), db')"
  shows "same_fixed base effective \<and> safe_to_serve net effective \<and>
    (apply_overlay net effective ov = Inr c \<longrightarrow> same_fixed base c \<and> safe_to_serve net c) \<and>
    \<not> overlay_restart_pending net base
        (if key_integrity_secret (cf_admin base) = [] then overlay_default
         else overlay_of_rows lib (key_integrity_secret (cf_admin base)) (operator_settings db)) effective"
proof -
  let ?ov = "if key_integrity_secret (cf_admin base) = [] then overlay_default
    else overlay_of_rows lib (key_integrity_secret (cf_admin base)) (operator_settings db)"
  have base: "validate net base = Inr ()"
    and eff: "effective = (case apply_overlay net base ?ov of Inr e \<Rightarrow> e | Inl _ \<Rightarrow> base)"
    using assms by (auto simp: boot_config_def stmt_bind_Inr from_env_def load_settings_overlay_def query_def split: if_splits)
  have step: "same_fixed x y \<and> validate net y = Inr ()" if "apply_overlay net x p = Inr y" for x y p
    using that by (auto simp: apply_overlay_Inr merge_overlay_fixed)
  have fixed: "same_fixed base effective \<and> validate net effective = Inr ()"
    using base step eff by (cases "apply_overlay net base ?ov") auto
  moreover have "same_fixed base c \<and> validate net c = Inr ()" if "apply_overlay net effective ov = Inr c"
    using step [OF that] fixed same_fixed_trans by blast
  moreover have "\<not> overlay_restart_pending net base ?ov effective"
    using eff by (cases "apply_overlay net base ?ov") (auto simp: overlay_restart_pending_def)
  ultimately show ?thesis using validate_safe_to_serve by blast
qed

text \<open>C25. An edit is the field-wise merge it is meant to be: the JSON form of a patch reads back as the patch, and
  merging the stored form with the patch's gives the stored settings with exactly the fields the patch sets replaced.\<close>

theorem config_edit_refines_merge:
  assumes "overlay_in_range stored" "overlay_in_range patch"
  shows "settings_of_json (settings_to_json patch) = Some patch \<and>
    settings_of_json (merged_settings stored patch) = Some (overlay_merge stored patch)"
  using settings_round [OF assms(2)] settings_merge [OF assms] by simp

text \<open>C20. A live edit never desynchronises the process: whatever request the configuration editor serves and
  however it ends, the running configuration keeps its features, chains, relay, premium tier, erasure switch and payment
  switch, which clients and workers built at the start depend on, it keeps every secret, and if it changed at all it has
  passed the validation.\<close>

theorem live_edit_keeps_boot_built_parts:
  assumes "admin_config_put env ids header req s = (r, s')"
  shows "restart_part (cs_config s') = restart_part (cs_config s) \<and> same_fixed (cs_config s) (cs_config s') \<and>
    (cs_config s' \<noteq> cs_config s \<longrightarrow> validate (ce_net env) (cs_config s') = Inr ())"
  using withinE [OF within_admin_config_put assms] by (simp add: live_step_def)

section \<open>The store\<close>

text \<open>C22. What somebody writes into the settings table without the secret has no effect: rows whose seal does not
  verify do not count, and a row that counts and is no forgery of the keyed hash carries, up to the order of keys in its
  document, the section, version and document of a row the service wrote (an older one included).\<close>

theorem settings_tampering_ignored:
  assumes "scalar_laws lib" "\<And>q. q \<in> set written \<union> set rows \<Longrightarrow> unit_separator \<notin> set (os_section q)"
    and "\<And>q. q \<in> set rows \<Longrightarrow> \<not> forged_setting lib secret written q"
  shows "overlay_of_rows lib secret rows = overlay_of_rows lib secret (filter (verify_settings_mac lib secret) rows) \<and>
    (\<forall>q \<in> set rows. verify_settings_mac lib secret q \<longrightarrow>
       (\<exists>w \<in> set written. os_section w = os_section q \<and> os_version w = os_version q \<and>
          json_sort (os_doc w) = json_sort (os_doc q)))"
proof -
  have "\<exists>w \<in> set written. os_section w = os_section q \<and> os_version w = os_version q \<and> json_sort (os_doc w) = json_sort (os_doc q)"
    if q: "q \<in> set rows" "verify_settings_mac lib secret q" for q
  proof -
    from assms(3) [OF q(1)] q(2) obtain w where w: "w \<in> set written" "sealed_text lib w = sealed_text lib q"
      by (auto simp: forged_setting_def)
    with sealed_text_inj [OF assms(1) _ _ w(2)] assms(2) q(1) show ?thesis by blast
  qed
  moreover have "overlay_of_rows lib secret rows = overlay_of_rows lib secret (filter (verify_settings_mac lib secret) rows)"
    by (simp add: overlay_of_rows_def merge_rows_filter [of lib secret rows])
  ultimately show ?thesis by blast
qed

section \<open>A sample edit\<close>

definition console_demo_config :: config where
  "console_demo_config = demo_config
     \<lparr>cf_admin := \<lparr>admin_public_url = ''http://a/'', key_integrity_secret = ''s'', max_keys = 4, pending_key_ttl_days = 1,
        admin_onion = None, am_enabled = False, am_bind = ''127.0.0.1:8081'', am_jwt_secret = [], am_pubkeys = [],
        am_allow_public_bind = False\<rparr>,
      cf_messaging := \<lparr>ms_relay = demo_relay\<lparr>rc_max_event_bytes := 9\<rparr>, ms_nip05_interop_hints = False,
        ms_nip05_extra_relay_hints = []\<rparr>\<rparr>"

definition console_demo_env :: console_env where
  "console_demo_env =
     \<lparr>ce_admin = operator_env 2, ce_net = demo_net, ce_base = console_demo_config, ce_serde_error = []\<rparr>"

definition console_demo_state :: console_state where
  "console_demo_state = \<lparr>cs_db = logged_in, cs_config = console_demo_config, cs_restart_requested = False\<rparr>"

definition landing_patch :: landing_overlay where
  "landing_patch =
     \<lparr>lo_enabled = Some True, lo_title = None, lo_expose_version = None, lo_expose_chains = None,
      lo_expose_price_feed = None, lo_expose_uptime = None, lo_stats_enabled = None, lo_stats_cache_hours = None,
      lo_stats_min_users = None\<rparr>"

definition demo_put :: put_config_request where
  "demo_put = \<lparr>pq_patch = overlay_default\<lparr>ov_landing := Some landing_patch\<rparr>, pq_expected_versions = (\<lambda>s. Some 0)\<rparr>"

lemma validate_landing [simp]: "validate lib (c\<lparr>cf_landing := l\<rparr>) = validate lib c"
  by (simp add: validate_def section_checks is_production_def chain_warnings_def)

lemma console_valid: "validate demo_net console_demo_config = Inr ()"
proof -
  have "trim ''wss://r.org'' \<noteq> []" "trim ''127.0.0.1:8090'' \<noteq> []" "ip_is_loopback (V4 2130706433)" by code_simp+
  moreover have "validate_nostr demo_net console_demo_config = validate_nostr demo_net demo_config"
    "validate_secrets console_demo_config = validate_secrets demo_config" "validate_prices console_demo_config = validate_prices demo_config"
    by (simp_all add: console_demo_config_def section_checks is_production_def)
  ultimately show ?thesis
    using demo_checks
    by (simp add: validate_parts) (simp add: console_demo_config_def demo_config_def section_checks Let_def rate_limit_default_def
        is_production_def demo_net_def starts_with_def env_premium_def env_feed_def demo_variables_simps demo_relay_def admission_loopback_def)
qed

definition edited_config :: config where
  "edited_config = console_demo_config\<lparr>cf_landing := (cf_landing console_demo_config)\<lparr>la_enabled := True\<rparr>\<rparr>"

lemma demo_edit: "apply_overlay demo_net console_demo_config (pq_patch demo_put) = Inr edited_config"
  by (simp add: apply_overlay_Inr merge_overlay_def demo_put_def overlay_default_def landing_patch_def apply_landing_def
      edited_config_def console_valid)

lemma demo_live_env: "live_env console_demo_env console_demo_config = operator_env 2"
  by (simp add: live_env_def console_demo_env_def console_demo_config_def operator_env_def admin_config.truncate_def)

lemma demo_guard:
  "admin_guard (operator_env 2) (Some ''Bearer acc'') logged_in =
     (Inr \<lparr>ctx_pubkey = alice_key, ctx_admin_key_id = 1, ctx_session_id = 2\<rparr>, logged_in)"
proof -
  have "fst (admin_guard (operator_env 2) (Some ''Bearer acc'') logged_in) =
      Inr \<lparr>ctx_pubkey = alice_key, ctx_admin_key_id = 1, ctx_session_id = 2\<rparr>" by code_simp
  with reads_snd [OF reads_admin_guard] show ?thesis by (metis prod.collapse)
qed

lemma logged_in_facts:
  "let db = logged_in in operator_settings db = [] \<and> \<not> db_outage db \<and> map ak_id (admin_keys db) = [1] \<and>
     9 \<notin> set (map aa_id (admin_audit_logs db))"
  by code_simp

lemma logged_in_settings: "operator_settings logged_in = []" "\<not> db_outage logged_in" "1 \<in> ak_id ` set (admin_keys logged_in)"
  using logged_in_facts by (auto simp: Let_def map_eq_Cons_conv)

lemma demo_load: "load_settings_overlay demo_mac ''s'' logged_in = (Inr overlay_default, logged_in)"
proof -
  have "settings_of_json (JObj []) = Some overlay_default"
    by (simp add: settings_of_json_def struct_fields_def dec_section_def overlay_default_def)
  then show ?thesis by (simp add: load_settings_overlay_def query_def logged_in_settings overlay_of_rows_def)
qed

lemma demo_merge:
  "settings_of_json (merged_settings overlay_default (pq_patch demo_put)) = Some (pq_patch demo_put)"
proof -
  have "overlay_in_range overlay_default" "overlay_in_range (pq_patch demo_put)"
    by (simp_all add: overlay_in_range_def overlay_default_def landing_in_range_def landing_patch_def demo_put_def)
  from settings_merge [OF this] show ?thesis
    by (simp add: overlay_merge_def section_merge_def demo_put_def overlay_default_def)
qed

lemma changed_sections_object:
  "changed_sections (case json_fields (json_object fs) of Some gs \<Rightarrow> gs | None \<Rightarrow> []) =
     map fst (sort_key fst (filter (\<lambda>(s, d). touched_fields d \<noteq> []) fs))"
  by (simp add: changed_sections_def json_fields_def json_object_def filter_sort)

lemma demo_touched: "touched_fields (landing_to_json landing_patch) = [''enabled'']"
  by code_simp

lemma demo_changed:
  "changed_sections (patch_entries (pq_patch demo_put)) = [''landing'']" "\<not> any_restart (patch_entries (pq_patch demo_put))"
  unfolding settings_to_json_def
  by (simp add: changed_sections_object demo_put_def overlay_default_def demo_touched)
     (simp add: any_restart_patch demo_put_def overlay_default_def demo_touched runtime_class_def)

lemma demo_persist:
  "fst (persist_section (operator_env 2) (\<lambda>s. 9) \<lparr>ctx_pubkey = alice_key, ctx_admin_key_id = 1, ctx_session_id = 2\<rparr>
     (case json_fields (merged_settings overlay_default (pq_patch demo_put)) of Some fs \<Rightarrow> fs | None \<Rightarrow> [])
     (pq_expected_versions demo_put) ''landing'' logged_in) = Inr 1"
  using logged_in_facts logged_in_settings(3)
  by (simp add: Let_def persist_section_def put_setting_audited_def current_version_def upsert_setting_def append_admin_audit_def
      demo_put_def stmt_bind_def query_def sql_def map_err_def run_sql_def setting_row_def)

lemma demo_put_runs:
  "\<exists>db. admin_config_put console_demo_env (\<lambda>s. 9) (Some ''Bearer acc'') demo_put console_demo_state =
     (Inr \<lparr>pp_applied = ''runtime'', pp_restart_pending = False\<rparr>,
      \<lparr>cs_db = db, cs_config = edited_config, cs_restart_requested = False\<rparr>)"
proof -
  obtain db where persist: "persist_section (operator_env 2) (\<lambda>s. 9) \<lparr>ctx_pubkey = alice_key, ctx_admin_key_id = 1, ctx_session_id = 2\<rparr>
     (case json_fields (merged_settings overlay_default (pq_patch demo_put)) of Some fs \<Rightarrow> fs | None \<Rightarrow> [])
     (pq_expected_versions demo_put) ''landing'' logged_in = (Inr 1, db)"
    using demo_persist by (metis prod.collapse)
  have "overlay_restart_pending demo_net console_demo_config (pq_patch demo_put) edited_config = False"
    by (simp add: overlay_restart_pending_def demo_edit)
  with persist show ?thesis
    using demo_edit
    by (simp add: admin_config_put_def Let_def stmt_bind_def running_def console_db_def on_part_def console_demo_state_def
        demo_live_env demo_guard demo_load demo_merge demo_changed apply_put_def)
       (simp add: console_demo_env_def demo_edit stmt_bind_def running_def demo_changed)
qed

theorem live_edit_keeps_boot_built_parts_witness:
  "\<exists>db. admin_config_put console_demo_env (\<lambda>s. 9) (Some ''Bearer acc'') demo_put console_demo_state =
     (Inr \<lparr>pp_applied = ''runtime'', pp_restart_pending = False\<rparr>,
      \<lparr>cs_db = db, cs_config = edited_config, cs_restart_requested = False\<rparr>) \<and>
     restart_part edited_config = restart_part console_demo_config"
proof -
  obtain db where run: "admin_config_put console_demo_env (\<lambda>s. 9) (Some ''Bearer acc'') demo_put console_demo_state =
     (Inr \<lparr>pp_applied = ''runtime'', pp_restart_pending = False\<rparr>,
      \<lparr>cs_db = db, cs_config = edited_config, cs_restart_requested = False\<rparr>)"
    using demo_put_runs by blast
  from live_edit_keeps_boot_built_parts [OF run] run show ?thesis by (auto simp: console_demo_state_def)
qed

theorem overlay_cannot_reach_secrets_witness:
  "boot_config sample_mac demo_net demo_variables fresh_server = (Inr (demo_config, demo_config), fresh_server) \<and>
   same_fixed console_demo_config edited_config \<and> safe_to_serve demo_net demo_config"
proof -
  have "apply_overlay demo_net demo_config overlay_default = Inr demo_config"
    by (simp add: apply_overlay_Inr merge_overlay_def overlay_default_def demo_valid)
  then have "boot_config sample_mac demo_net demo_variables fresh_server = (Inr (demo_config, demo_config), fresh_server)"
    by (simp add: boot_config_def demo_from_env) (simp add: demo_config_def)
  with overlay_cannot_reach_secrets [OF this] show ?thesis
    by (simp add: same_fixed_def edited_config_def)
qed

theorem config_edit_refines_merge_witness:
  "settings_of_json (merged_settings (overlay_default\<lparr>ov_landing := Some (landing_patch\<lparr>lo_title := Some ''t''\<rparr>)\<rparr>) (pq_patch demo_put)) =
     Some (overlay_default\<lparr>ov_landing := Some (landing_patch\<lparr>lo_title := Some ''t''\<rparr>)\<rparr>)"
proof -
  have "overlay_in_range (overlay_default\<lparr>ov_landing := Some (landing_patch\<lparr>lo_title := Some ''t''\<rparr>)\<rparr>)" "overlay_in_range (pq_patch demo_put)"
    by (simp_all add: overlay_in_range_def overlay_default_def landing_in_range_def landing_patch_def demo_put_def)
  from config_edit_refines_merge [OF this] show ?thesis
    by (simp add: overlay_merge_def section_merge_def demo_put_def overlay_default_def landing_patch_def landing_merge_def)
qed

theorem settings_tampering_ignored_witness:
  "let q = setting_row sample_mac 5 ''landing'' (JObj []) 1 None ''k'' in
   verify_settings_mac sample_mac ''k'' q \<and>
   overlay_of_rows sample_mac ''k'' [q, q\<lparr>os_section := ''pow'', os_integrity_mac := []\<rparr>] =
     overlay_of_rows sample_mac ''k'' (filter (verify_settings_mac sample_mac ''k'') [q, q\<lparr>os_section := ''pow'', os_integrity_mac := []\<rparr>])"
proof -
  let ?q = "setting_row sample_mac 5 ''landing'' (JObj []) 1 None ''k''"
  have laws: "scalar_laws sample_mac" by (rule scalar_laws_render) (simp add: sample_mac_def)
  let ?p = "?q\<lparr>os_section := ''pow'', os_integrity_mac := []\<rparr>"
  have bad: "\<not> verify_settings_mac sample_mac ''k'' ?p"
    by (simp add: verify_settings_mac_def settings_mac_def peppered_hex_def sample_mac_def setting_row_def)
  have "unit_separator \<notin> set ''landing''" "unit_separator \<notin> set ''pow''" by code_simp+
  then have sep: "unit_separator \<notin> set (os_section r)" if "r \<in> set [?q] \<union> set [?q, ?p]" for r
    using that by (auto simp: setting_row_def)
  have honest: "\<not> forged_setting sample_mac ''k'' [?q] r" if "r \<in> set [?q, ?p]" for r
    using that bad by (auto simp: forged_setting_def)
  show ?thesis
    unfolding Let_def using settings_tampering_ignored [OF laws sep honest] put_setting_sealed by blast
qed

section \<open>Concurrent edits and bad rows\<close>


definition demo_write :: "uuid \<Rightarrow> setting_write" where
  "demo_write i =
     \<lparr>wr_now = 5, wr_id = i, wr_section = ''landing'', wr_doc = JObj [], wr_by = None, wr_expected = Some 0,
      wr_audit = config_updated_entry alice_key ''landing''\<rparr>"


text \<open>C39. One section that does not decode discards the whole stored patch: when a sealed row of a known section
  holds a document the section cannot be read from, the load answers with the empty patch, whatever the other sections hold.\<close>

theorem bad_section_discards_overlay:
  assumes "distinct (map os_section rows)" "q \<in> set rows" "verify_settings_mac lib secret q"
    and "\<not> section_decodes (os_section q) (os_doc q)"
  shows "overlay_of_rows lib secret rows = overlay_default"
proof -
  have "find (\<lambda>r. os_section r = os_section q) rows = Some q"
    using assms(1,2) by (induction rows) auto
  then have "map_of (merge_rows lib secret rows []) (os_section q) = Some (os_doc q)"
    using assms(3) by (simp add: map_of_merge_rows [OF assms(1)])
  from settings_of_json_None [OF this assms(4)] show ?thesis by (simp add: overlay_of_rows_def)
qed

theorem bad_section_discards_overlay_witness:
  "let good = setting_row demo_mac 5 ''landing'' (landing_to_json landing_patch) 1 None ''s'';
       bad = setting_row demo_mac 5 ''pow'' (JObj [(''enabled'', JStr ''yes'')]) 1 None ''s'' in
   overlay_of_rows demo_mac ''s'' [good] = pq_patch demo_put \<and> overlay_of_rows demo_mac ''s'' [good, bad] = overlay_default"
proof -
  let ?good = "setting_row demo_mac 5 ''landing'' (landing_to_json landing_patch) 1 None ''s''"
  let ?bad = "setting_row demo_mac 5 ''pow'' (JObj [(''enabled'', JStr ''yes'')]) 1 None ''s''"
  have "\<not> section_decodes (os_section ?bad) (os_doc ?bad)" by code_simp
  from bad_section_discards_overlay [OF _ _ put_setting_sealed this, of "[?good, ?bad]"]
  have "overlay_of_rows demo_mac ''s'' [?good, ?bad] = overlay_default" by (simp add: setting_row_def)
  moreover have "overlay_of_rows demo_mac ''s'' [?good] = pq_patch demo_put" by code_simp
  ultimately show ?thesis by (simp add: Let_def)
qed

section \<open>The editable surface\<close>

definition surface :: "json \<Rightarrow> (string \<times> string) set" where
  "surface v = {(s, f). \<exists>fs d. json_fields v = Some fs \<and> (s, d) \<in> set fs \<and> f \<in> set (touched_fields d)}"

lemma surface_object:
  "surface (json_object []) = {}"
  "surface (json_object (f # fs)) = Pair (fst f) ` set (touched_fields (snd f)) \<union> surface (json_object fs)"
proof -
  have "surface (json_object hs) = {(s, f). \<exists>d. (s, d) \<in> set hs \<and> f \<in> set (touched_fields d)}" for hs
    by (simp add: surface_def json_object_def json_fields_def)
  then show "surface (json_object []) = {}"
    "surface (json_object (f # fs)) = Pair (fst f) ` set (touched_fields (snd f)) \<union> surface (json_object fs)"
    by (cases f; auto)+
qed

lemma touched_set: "set (touched_fields (json_object fs)) = fst ` set (filter (\<lambda>g. snd g \<noteq> JNull) fs)"
  by (force simp: touched_fields_object list_ex_iff)

lemmas section_objects =
  landing_to_json_def retention_to_json_def restore_to_json_def console_to_json_def registration_to_json_def
  pow_to_json_def features_to_json_def relay_to_json_def premium_to_json_def

text \<open>C40. The list of editable fields that the console classifies is exactly what a configuration's JSON form
  shows, with no value missing: no field can be edited without being classified as live or restart-required.\<close>

theorem editable_surface_complete:
  "surface (settings_to_json (editable_overlay c)) = set EDITABLE_FIELDS"
  by (simp add: settings_to_json_def surface_object editable_overlay_def EDITABLE_FIELDS_def touched_set section_objects
      json_of_number_not_null del: Un_insert_right)

end
