(* ===== verification/Capabilities.thy ===== *)
theory Capabilities
  imports Config_Console
begin

text \<open>
  What an instance says about itself: \<open>src/src/api/capabilities.rs\<close>, the landing read model of
  \<open>src/src/api/landing.rs\<close> with its cached statistics, \<open>src/src/api/health.rs\<close>, and the feature view of
  \<open>src/src/api/admin.rs\<close>.

  The process environment, which two flags are read from at request time, is an argument. Monotonic time is a count
  of microseconds. The landing page is the text the handler renders; \<open>None\<close> is a bare 404.
\<close>

section \<open>Capabilities\<close>

definition CARGO_PKG_VERSION :: string where
  "CARGO_PKG_VERSION = ''0.3.0''"

definition CAPABILITIES_CONTRACT_VERSION :: u32 where
  "CAPABILITIES_CONTRACT_VERSION = 1"

definition SUPPORTED_NIPS :: "u16 list" where
  "SUPPORTED_NIPS = [1, 17, 44, 59]"

definition env_flag_enabled :: "environment \<Rightarrow> string \<Rightarrow> bool" where
  "env_flag_enabled env name =
     (case env name of
        None \<Rightarrow> False
      | Some raw \<Rightarrow> list_ex (\<lambda>truthy. eq_ignore_ascii_case (trim raw) truthy) [''1'', ''true'', ''on'', ''yes''])"

definition subaddr_provisioning_enabled :: "environment \<Rightarrow> bool" where
  "subaddr_provisioning_enabled env = env_flag_enabled env ''FEATURE_XMR_SUBADDR_PROVISIONING''"

definition utxo_multi_enabled :: "environment \<Rightarrow> bool" where
  "utxo_multi_enabled env = env_flag_enabled env ''FEATURE_UTXO_MULTI_ADDRESS''"

record chain_capability =
  cy_enabled :: bool
  cy_network :: "string option"

record chain_capabilities =
  cy_btc :: chain_capability
  cy_ltc :: chain_capability
  cy_xmr :: chain_capability
  cy_wow :: chain_capability
  cy_grin :: chain_capability

record feature_capabilities =
  fy_grin_relay :: bool
  fy_grin_lws :: bool
  fy_prices :: bool
  fy_nostr_identity :: bool
  fy_nostr_native_auth :: bool
  fy_nostr_relay :: bool
  fy_premium_relay :: bool
  fy_feed :: bool
  fy_tips :: bool
  fy_targeted_tips :: bool
  fy_xmr_subaddr_provisioning :: bool
  fy_utxo_multi_address :: bool

record messaging_capability =
  my_relay_url :: string
  my_write_policy :: string
  my_inbound_pow_bits :: byte
  my_supported_nips :: "u16 list"

record premium_rail_info =
  ri_id :: string
  ri_assets :: "string list"

record premium_capability =
  py_currency :: string
  py_plans :: "premium_plan list"
  py_relay_url :: string
  py_rails :: "premium_rail_info list"

record feed_capability =
  dy_relay_url :: string
  dy_show_owner :: bool
  dy_show_premium :: bool
  dy_owner_npub :: "string option"
  dy_allowlist_npubs :: "string list"
  dy_extra_relays :: "string list"

record restore_capability =
  sy_policy :: string
  sy_max_depth_days :: "u32 option"
  sy_pow_free_days :: u32
  sy_pow_days_per_bit :: u32
  sy_pow_max_bits :: u32

record registration_capability =
  gy_invite_required :: bool
  gy_pow_required :: bool
  gy_payment_required :: bool
  gy_payment_amount :: "string option"
  gy_payment_currency :: "string option"
  gy_registration_mode :: string

record capabilities_response =
  cr_version :: string
  cr_contract_version :: u32
  cr_nip05_domain :: "string option"
  cr_chains :: chain_capabilities
  cr_features :: feature_capabilities
  cr_restore :: restore_capability
  cr_registration :: registration_capability
  cr_messaging :: "messaging_capability option"
  cr_premium :: "premium_capability option"
  cr_feed :: "feed_capability option"

definition chain_serviceable :: "config \<Rightarrow> string \<Rightarrow> bool" where
  "chain_serviceable c a =
     (let f = ft_chains (cf_features c); cs = cf_chains c in
      if a = ''btc'' then fl_btc f \<and> (ux_electrum_primary (cc_btc cs) \<noteq> None \<or> ux_electrum_fallbacks (cc_btc cs) \<noteq> [])
      else if a = ''ltc'' then fl_ltc f \<and> (ux_electrum_primary (cc_ltc cs) \<noteq> None \<or> ux_electrum_fallbacks (cc_ltc cs) \<noteq> [])
      else if a = ''xmr'' then fl_xmr f \<and> lw_lws_admin_key (cc_xmr cs) \<noteq> []
      else if a = ''wow'' then fl_wow f \<and> lw_lws_admin_key (cc_wow cs) \<noteq> []
      else if a = ''grin'' then fl_grin f \<and> gn_owner_api_secret (cc_grin cs) \<noteq> []
      else False)"

definition grin_lws_serviceable :: "config \<Rightarrow> bool" where
  "grin_lws_serviceable c \<longleftrightarrow> chain_serviceable c ''grin'' \<and> trim (gl_url (cc_grin_lws (cf_chains c))) \<noteq> []"

definition relay_advertised :: "config \<Rightarrow> bool" where
  "relay_advertised c \<longleftrightarrow> rc_enabled (ms_relay (cf_messaging c)) \<and> trim (rc_advertised_url (ms_relay (cf_messaging c))) \<noteq> []"

definition premium_rails :: "config \<Rightarrow> premium_rail_info list" where
  "premium_rails c =
     \<lparr>ri_id = pay_provider (rg_payment (cf_registration c)), ri_assets = pm_primary_assets (cf_premium c)\<rparr> #
     map (\<lambda>r. \<lparr>ri_id = pl_kind r, ri_assets = [pl_asset r]\<rparr>) (pm_rails (cf_premium c))"

definition premium_advertised :: "config \<Rightarrow> bool" where
  "premium_advertised c \<longleftrightarrow> premium_enabled (cf_premium c) \<and> relay_advertised c"

definition feed_advertised :: "config \<Rightarrow> bool" where
  "feed_advertised c \<longleftrightarrow> fd_enabled (cf_feed c) \<and> relay_advertised c"

definition tips_advertised :: "config \<Rightarrow> bool" where
  "tips_advertised c \<longleftrightarrow>
     ft_tips (cf_features c) \<and> cf_tip_share_base c \<noteq> None \<and>
     list_ex (chain_serviceable c) [''btc'', ''ltc'', ''xmr'', ''wow'', ''grin'']"

definition nip05_domain_of :: "net_lib \<Rightarrow> config \<Rightarrow> string option" where
  "nip05_domain_of net c =
     option_or (id_nip05_domain (cf_identity c))
       (map_option (\<lambda>h. case strip_prefix ''api.'' h of Some r \<Rightarrow> r | None \<Rightarrow> h)
         (map_option to_lowercase
           (Option.bind (Option.bind (id_public_api_url (cf_identity c)) (url_parse net)) pu_host_str)))"

definition then_some :: "bool \<Rightarrow> 'a \<Rightarrow> 'a option" where
  "then_some b x = (if b then Some x else None)"

definition effective_capabilities :: "net_lib \<Rightarrow> environment \<Rightarrow> config \<Rightarrow> capabilities_response" where
  "effective_capabilities net env c =
     (let p = rg_payment (cf_registration c); r = ms_relay (cf_messaging c);
          chain = (\<lambda>a. \<lparr>cy_enabled = chain_serviceable c a, cy_network = None\<rparr>);
          nostr = ft_nostr_identity (cf_features c) \<and> id_public_api_url (cf_identity c) \<noteq> None in
      \<lparr>cr_version = CARGO_PKG_VERSION, cr_contract_version = CAPABILITIES_CONTRACT_VERSION,
       cr_nip05_domain = nip05_domain_of net c,
       cr_chains =
         \<lparr>cy_btc = \<lparr>cy_enabled = chain_serviceable c ''btc'', cy_network = Some (ux_network (cc_btc (cf_chains c)))\<rparr>,
          cy_ltc = \<lparr>cy_enabled = chain_serviceable c ''ltc'', cy_network = Some (ux_network (cc_ltc (cf_chains c)))\<rparr>,
          cy_xmr = chain ''xmr'', cy_wow = chain ''wow'', cy_grin = chain ''grin''\<rparr>,
       cr_features =
         \<lparr>fy_grin_relay = ft_grin_relay (cf_features c), fy_grin_lws = grin_lws_serviceable c,
          fy_prices = ft_prices (cf_features c), fy_nostr_identity = nostr, fy_nostr_native_auth = nostr,
          fy_nostr_relay = relay_advertised c, fy_premium_relay = premium_advertised c, fy_feed = feed_advertised c,
          fy_tips = tips_advertised c, fy_targeted_tips = (tips_advertised c \<and> ft_targeted_tips (cf_features c)),
          fy_xmr_subaddr_provisioning = (subaddr_provisioning_enabled env \<and> (chain_serviceable c ''xmr'' \<or> chain_serviceable c ''wow'')),
          fy_utxo_multi_address = (utxo_multi_enabled env \<and> (chain_serviceable c ''btc'' \<or> chain_serviceable c ''ltc''))\<rparr>,
       cr_restore =
         \<lparr>sy_policy = restore_policy_as_str (rs_policy (cf_restore c)),
          sy_max_depth_days = (case rs_policy (cf_restore c) of Bounded \<Rightarrow> Some (rs_max_depth_days (cf_restore c)) | _ \<Rightarrow> None),
          sy_pow_free_days = rs_pow_free_days (cf_restore c), sy_pow_days_per_bit = rs_pow_days_per_bit (cf_restore c),
          sy_pow_max_bits = rs_pow_max_bits (cf_restore c)\<rparr>,
       cr_registration =
         \<lparr>gy_invite_required = rg_require_invite (cf_registration c),
          gy_pow_required = (pow_enabled (cf_pow c) \<and> pow_required (cf_pow c)),
          gy_payment_required = require_payment p,
          gy_payment_amount = then_some (require_payment p) (pay_amount p),
          gy_payment_currency = then_some (require_payment p) (pay_currency p),
          gy_registration_mode = gate_mode_as_str (rg_gate_mode (cf_registration c))\<rparr>,
       cr_messaging = then_some (relay_advertised c)
         \<lparr>my_relay_url = rc_advertised_url r, my_write_policy = rc_write_policy r,
          my_inbound_pow_bits = rc_inbound_pow_bits r, my_supported_nips = SUPPORTED_NIPS\<rparr>,
       cr_premium = then_some (premium_advertised c)
         \<lparr>py_currency = premium_currency (cf_premium c), py_plans = premium_plans (cf_premium c),
          py_relay_url = rc_advertised_url r, py_rails = premium_rails c\<rparr>,
       cr_feed = then_some (feed_advertised c)
         \<lparr>dy_relay_url = rc_advertised_url r, dy_show_owner = fd_show_owner (cf_feed c),
          dy_show_premium = fd_show_premium (cf_feed c),
          dy_owner_npub = then_some (fd_owner_npub (cf_feed c) \<noteq> []) (fd_owner_npub (cf_feed c)),
          dy_allowlist_npubs = fd_allowlist_npubs (cf_feed c), dy_extra_relays = fd_extra_relays (cf_feed c)\<rparr>\<rparr>)"

section \<open>The feature view\<close>

record downgrade =
  dg_feature :: string
  dg_reason :: string

definition note_downgrade :: "bool \<Rightarrow> bool \<Rightarrow> string \<Rightarrow> string \<Rightarrow> downgrade list" where
  "note_downgrade on eff feature reason = (if on \<and> \<not> eff then [\<lparr>dg_feature = feature, dg_reason = reason\<rparr>] else [])"

definition downgrades :: "config \<Rightarrow> capabilities_response \<Rightarrow> downgrade list" where
  "downgrades c eff =
     (let f = ft_chains (cf_features c) in
      note_downgrade (fl_btc f) (cy_enabled (cy_btc (cr_chains eff))) ''btc'' ''BTC_ELECTRUM_URL/fallbacks unset'' @
      note_downgrade (fl_ltc f) (cy_enabled (cy_ltc (cr_chains eff))) ''ltc'' ''LTC_ELECTRUM_URL/fallbacks unset'' @
      note_downgrade (fl_xmr f) (cy_enabled (cy_xmr (cr_chains eff))) ''xmr'' ''XMR_LWS_ADMIN_KEY unset'' @
      note_downgrade (fl_wow f) (cy_enabled (cy_wow (cr_chains eff))) ''wow'' ''WOW_LWS_ADMIN_KEY unset'' @
      note_downgrade (fl_grin f) (cy_enabled (cy_grin (cr_chains eff))) ''grin'' ''GRIN_OWNER_API_SECRET unset'' @
      note_downgrade (ft_nostr_identity (cf_features c)) (fy_nostr_identity (cr_features eff)) ''nostr_identity''
        ''PUBLIC_API_URL unset'')"

definition admin_features ::
    "console_env \<Rightarrow> environment \<Rightarrow> string option \<Rightarrow> (capabilities_response \<times> downgrade list) console_action" where
  "admin_features env penv header =
     stmt_bind running (\<lambda>live.
     stmt_bind (console_db (admin_guard (live_env env live) header)) (\<lambda>ctx.
       let effective = effective_capabilities (ce_net env) penv live in
       stmt_return (Inr (effective, downgrades live effective))))"

section \<open>Landing\<close>

record stats_info =
  si_any_handles :: bool
  si_handles_at_least :: "i64 option"

record server_info =
  sv_version :: "string option"
  sv_title :: "string option"
  sv_chains :: "string list option"
  sv_price_feed :: "bool option"
  sv_up :: "bool option"
  sv_stats :: "stats_info option"

definition coarse_version :: string where
  "coarse_version =
     (case str_split (CHR ''.'') CARGO_PKG_VERSION of
        major # minor # rest \<Rightarrow> major @ ''.'' @ minor
      | _ \<Rightarrow> CARGO_PKG_VERSION)"

definition enabled_chain_symbols :: "config \<Rightarrow> string list" where
  "enabled_chain_symbols c = filter (chain_serviceable c) [''btc'', ''ltc'', ''xmr'', ''wow'', ''grin'']"

definition build_server_info :: "config \<Rightarrow> server_info" where
  "build_server_info c =
     (let l = cf_landing c in
      \<lparr>sv_version = then_some (la_expose_version l) coarse_version, sv_title = la_title l,
       sv_chains = then_some (la_expose_chains l) (enabled_chain_symbols c),
       sv_price_feed = then_some (la_expose_price_feed l) (ft_prices (cf_features c)),
       sv_up = then_some (la_expose_uptime l) True, sv_stats = None\<rparr>)"

definition MIN_STATS_CACHE :: timestamp where
  "MIN_STATS_CACHE = seconds 3600"

definition bucket_step :: "i64 \<Rightarrow> i64" where
  "bucket_step n = (if n < 1000 then 10 else if n < 10000 then 100 else 1000)"

definition bucket_floor :: "i64 \<Rightarrow> i64" where
  "bucket_floor n = n - n mod bucket_step n"

record landing_state =
  ls_db :: database
  ls_cache :: "(timestamp \<times> stats_info) option"

definition stats_ttl :: "config \<Rightarrow> timestamp" where
  "stats_ttl c = max (seconds (uint (u64_saturating_mul (la_stats_cache_hours (cf_landing c)) 3600))) MIN_STATS_CACHE"

definition stats_of_count :: "i64 \<Rightarrow> i64 \<Rightarrow> stats_info" where
  "stats_of_count min_users handles =
     \<lparr>si_any_handles = (handles > 0),
      si_handles_at_least = option_filter (\<lambda>b. b > 0) (then_some (handles \<ge> min_users) (bucket_floor handles))\<rparr>"

definition fresh_stats :: "config \<Rightarrow> timestamp \<Rightarrow> (timestamp \<times> stats_info) option \<Rightarrow> stats_info option" where
  "fresh_stats c now cache =
     (case cache of None \<Rightarrow> None | Some (computed_at, info) \<Rightarrow> then_some (now - computed_at < stats_ttl c) info)"

text \<open>The block, and the state after it; a count that cannot be read omits the block.\<close>

definition stats_block :: "config \<Rightarrow> timestamp \<Rightarrow> landing_state \<Rightarrow> stats_info option \<times> landing_state" where
  "stats_block c now s =
     (case fresh_stats c now (ls_cache s) of
        Some info \<Rightarrow> (Some info, s)
      | None \<Rightarrow>
          (case get_handle_count (ls_db s) of
             (Inl e, db) \<Rightarrow> (None, s\<lparr>ls_db := db\<rparr>)
           | (Inr n, db) \<Rightarrow>
               let info = stats_of_count (la_stats_min_users (cf_landing c)) (int n) in
               (Some info, s\<lparr>ls_db := db, ls_cache := Some (now, info)\<rparr>)))"

definition server_info_handler :: "config \<Rightarrow> timestamp \<Rightarrow> landing_state \<Rightarrow> server_info option \<times> landing_state" where
  "server_info_handler c now s =
     (if \<not> la_enabled (cf_landing c) then (None, s)
      else if la_stats_enabled (cf_landing c)
      then (let (stats, s') = stats_block c now s in (Some ((build_server_info c)\<lparr>sv_stats := stats\<rparr>), s'))
      else (Some (build_server_info c), s))"

fun html_escape :: "string \<Rightarrow> string" where
  "html_escape [] = []"
| "html_escape (c # cs) =
     (if c = CHR 0x26 then ''&amp;''
      else if c = CHR ''<'' then ''&lt;''
      else if c = CHR ''>'' then ''&gt;''
      else if c = CHR 0x22 then ''&quot;''
      else if c = CHR 0x27 then ''&#x27;''
      else [c]) @ html_escape cs"

definition dquote :: string where
  "dquote = [CHR 0x22]"

definition landing_root :: "config \<Rightarrow> string option" where
  "landing_root c =
     (if \<not> la_enabled (cf_landing c) then None
      else
        let t = html_escape (or_keep (la_title (cf_landing c)) ''smirk-backend-core'') in
        Some (''<!doctype html><html lang='' @ dquote @ ''en'' @ dquote @ ''><head><meta charset='' @ dquote @ ''utf-8'' @ dquote @
          ''><meta name='' @ dquote @ ''viewport'' @ dquote @ '' content='' @ dquote @ ''width=device-width, initial-scale=1'' @ dquote @
          ''><title>'' @ t @ ''</title></head><body><h1>'' @ t @ ''</h1><p>status: ok</p></body></html>''))"

definition health :: string where
  "health = ''ok''"

section \<open>Rules\<close>

lemma then_some_simps [simp]:
  "then_some b x = None \<longleftrightarrow> \<not> b" "then_some b x = Some y \<longleftrightarrow> b \<and> y = x"
  by (auto simp: then_some_def)

lemma bucket_floor_bounds: "0 \<le> n \<Longrightarrow> bucket_floor n \<le> n \<and> n < bucket_floor n + bucket_step n \<and> bucket_floor n mod 10 = 0"
proof -
  assume "0 \<le> n"
  have "bucket_floor n = bucket_step n * (n div bucket_step n)"
    by (simp add: bucket_floor_def minus_mod_eq_mult_div)
  moreover have "10 dvd bucket_step n" "0 < bucket_step n" by (simp_all add: bucket_step_def)
  ultimately have "bucket_floor n mod 10 = 0" by (metis dvd_mult2 dvd_imp_mod_0)
  moreover have "0 \<le> n mod bucket_step n" "n mod bucket_step n < bucket_step n"
    using \<open>0 < bucket_step n\<close> by simp_all
  ultimately show ?thesis by (simp add: bucket_floor_def)
qed

lemma stats_ttl_hour: "seconds 3600 \<le> stats_ttl c"
  by (simp add: stats_ttl_def MIN_STATS_CACHE_def)

text \<open>The inverse of the escaping.\<close>

fun html_unescape :: "string \<Rightarrow> string" where
  "html_unescape [] = []"
| "html_unescape (c # cs) =
     (if c \<noteq> CHR 0x26 then c # html_unescape cs
      else if take 4 cs = ''amp;'' then CHR 0x26 # html_unescape (drop 4 cs)
      else if take 3 cs = ''lt;'' then CHR ''<'' # html_unescape (drop 3 cs)
      else if take 3 cs = ''gt;'' then CHR ''>'' # html_unescape (drop 3 cs)
      else if take 5 cs = ''quot;'' then CHR 0x22 # html_unescape (drop 5 cs)
      else if take 5 cs = ''#x27;'' then CHR 0x27 # html_unescape (drop 5 cs)
      else c # html_unescape cs)"

lemma html_unescape_escape: "html_unescape (html_escape s) = s"
  by (induction s) simp_all

lemma html_escape_no_markup: "set (html_escape s) \<inter> {CHR ''<'', CHR ''>'', CHR 0x22, CHR 0x27} = {}"
  by (induction s) auto

section \<open>Properties\<close>

text \<open>An instance never advertises what it cannot serve: an advertised chain has its data source, tips have a
  chain and a share link, targeted tips are tips, the premium tier and the feed have a reachable relay, the landing page
  names the chains the capabilities name, and in production a validated configuration has nothing enabled that is
  silently off.\<close>

theorem capabilities_are_honest:
  "let eff = effective_capabilities net env c; f = cr_features eff in
   (chain_serviceable c ''btc'' \<longleftrightarrow> cy_enabled (cy_btc (cr_chains eff))) \<and>
   (fy_targeted_tips f \<longrightarrow> fy_tips f) \<and>
   (fy_tips f \<longrightarrow> cf_tip_share_base c \<noteq> None \<and> enabled_chain_symbols c \<noteq> []) \<and>
   (fy_premium_relay f \<or> fy_feed f \<longrightarrow> fy_nostr_relay f) \<and>
   (cr_messaging eff \<noteq> None \<longleftrightarrow> fy_nostr_relay f) \<and> (cr_premium eff \<noteq> None \<longleftrightarrow> fy_premium_relay f) \<and>
   (cr_feed eff \<noteq> None \<longleftrightarrow> fy_feed f) \<and>
   (fy_grin_lws f \<longrightarrow> cy_enabled (cy_grin (cr_chains eff))) \<and>
   (\<forall>chains. sv_chains (build_server_info c) = Some chains \<longrightarrow>
      set chains = {a. chain_serviceable c a} \<inter> {''btc'', ''ltc'', ''xmr'', ''wow'', ''grin''}) \<and>
   (validate net c = Inr () \<and> is_production c \<longrightarrow> downgrades c eff = [])"
proof -
  have prod: "downgrades c (effective_capabilities net env c) = []" if "validate net c = Inr ()" "is_production c"
  proof -
    have "chain_warnings c = []" "ft_nostr_identity (cf_features c) \<longrightarrow> id_public_api_url (cf_identity c) \<noteq> None"
      using that by (auto simp: validate_parts validate_chains_def validate_nostr_def)
    then show ?thesis
      by (auto simp: downgrades_def effective_capabilities_def Let_def note_downgrade_def chain_warnings_def
          chain_serviceable_def split: if_splits)
  qed
  have "tips_advertised c \<longrightarrow> cf_tip_share_base c \<noteq> None \<and> enabled_chain_symbols c \<noteq> []"
    by (auto simp: tips_advertised_def enabled_chain_symbols_def)
  moreover have "set (enabled_chain_symbols c) = {a. chain_serviceable c a} \<inter> {''btc'', ''ltc'', ''xmr'', ''wow'', ''grin''}"
    by (auto simp: enabled_chain_symbols_def)
  ultimately show ?thesis
    using prod
    by (simp add: Let_def) (simp add: effective_capabilities_def Let_def premium_advertised_def feed_advertised_def
        grin_lws_serviceable_def build_server_info_def)
qed

text \<open>The public count tells little: what is published is at most the number of handles, within one bucket of
  it, always a multiple of ten, and nothing is published while the count is below the operator's floor; and for an hour at least after an answer was
  computed the same answer is given, whatever is registered meanwhile.\<close>

theorem public_stats_reveal_little:
  "(\<forall>b. si_handles_at_least (stats_of_count floor_users (int n)) = Some b \<longrightarrow>
      floor_users \<le> int n \<and> 0 < b \<and> b \<le> int n \<and> int n < b + bucket_step (int n) \<and> b mod 10 = 0) \<and>
   (stats_block c now s = (Some info, s') \<longrightarrow>
      (\<exists>computed_at. ls_cache s' = Some (computed_at, info) \<and> now - computed_at < stats_ttl c) \<and>
      (\<forall>t db. now \<le> t \<longrightarrow> ls_cache s = None \<longrightarrow> t - now < seconds 3600 \<longrightarrow>
         stats_block c t (s'\<lparr>ls_db := db\<rparr>) = (Some info, s'\<lparr>ls_db := db\<rparr>)))"
proof -
  have "0 < stats_ttl c" using stats_ttl_hour [of c] by (simp add: seconds_def)
  then have "(\<exists>computed_at. ls_cache s' = Some (computed_at, info) \<and> now - computed_at < stats_ttl c)"
    if "stats_block c now s = (Some info, s')"
    using that by (auto simp: stats_block_def fresh_stats_def Let_def split: option.splits prod.splits sum.splits)
  moreover have "stats_block c t (s'\<lparr>ls_db := db\<rparr>) = (Some info, s'\<lparr>ls_db := db\<rparr>)"
    if "stats_block c now s = (Some info, s')" "now \<le> t" "ls_cache s = None" "t - now < seconds 3600" for t db
    using that stats_ttl_hour [of c]
    by (auto simp: stats_block_def fresh_stats_def Let_def then_some_def split: option.splits prod.splits sum.splits)
  moreover have "floor_users \<le> int n \<and> 0 < b \<and> b \<le> int n \<and> int n < b + bucket_step (int n) \<and> b mod 10 = 0"
    if "si_handles_at_least (stats_of_count floor_users (int n)) = Some b" for b
    using that bucket_floor_bounds [of "int n"] by (auto simp: stats_of_count_def)
  ultimately show ?thesis by blast
qed

text \<open>The operator's title cannot break out of the page: its escaped form has no angle bracket and no quote,
  and reading the entities back gives the title.\<close>

theorem title_is_escaped:
  "set (html_escape t) \<inter> {CHR ''<'', CHR ''>'', CHR 0x22, CHR 0x27} = {} \<and> html_unescape (html_escape t) = t"
  using html_escape_no_markup html_unescape_escape by blast

end
