(* ===== verification/User_Api.thy ===== *)
theory User_Api
  imports Config Auth_Safety
begin

text \<open>
  The public directory of an instance: the handlers of \<open>src/src/api/users.rs\<close> (handles and published keys) and
  the name service of \<open>src/src/api/nip05.rs\<close>.

  A handler takes the token library, the caller's authorization header and the request. A hash map of an
  answer is a map. What the handlers do to accounts and what they disclose is shown at the end; the helper
  \<open>parse_asset\<close>, which the source repeats in each module, is the one of \<open>Auth_Api\<close>.
\<close>

section \<open>Handles\<close>

definition RESERVED_USERNAMES :: "string list" where
  "RESERVED_USERNAMES =
     [''admin'', ''administrator'', ''root'', ''support'', ''help'', ''smirk'', ''smirkcash'', ''official'', ''mod'',
      ''moderator'', ''system'', ''security'', ''team'', ''staff'', ''billing'', ''payment'', ''payments'', ''wallet'',
      ''info'', ''contact'', ''abuse'', ''noreply'', ''api'', ''www'', ''satoshi'']"

definition validate_handle :: "string \<Rightarrow> unit result" where
  "validate_handle username =
     (if length username < 3 \<or> length username > 32
      then Inl (ValidationError ''Username must be 3-32 characters'')
      else if \<not> list_all (\<lambda>c. is_ascii_lower c \<or> is_ascii_digit c \<or> c = CHR ''_'') username
      then Inl (ValidationError ''Username must contain only lowercase letters, numbers, and underscores'')
      else if hd username = CHR ''_'' \<or> last username = CHR ''_''
      then Inl (ValidationError ''Username cannot start or end with underscore'')
      else if username \<in> set RESERVED_USERNAMES then Inl (Conflict ''That username is not available'')
      else Inr ())"

definition db_set_username :: "uuid \<Rightarrow> string \<Rightarrow> user_row stmt" where
  "db_set_username i username = update_username i (Some username)"

text \<open>\<open>POST /users/me/username\<close> and \<open>GET /users/me/username\<close>\<close>

definition set_username :: "token_lib \<Rightarrow> string option \<Rightarrow> string \<Rightarrow> string stmt" where
  "set_username lib header requested =
     stmt_bind (extract_user_id_from_token lib header) (\<lambda>user_id.
     let username = to_lowercase requested in
     stmt_bind (stmt_return (validate_handle username)) (\<lambda>_.
     stmt_bind (db_set_username user_id username) (\<lambda>_.
       stmt_return (Inr username))))"

definition get_my_username :: "token_lib \<Rightarrow> string option \<Rightarrow> string option stmt" where
  "get_my_username lib header =
     stmt_bind (extract_user_id_from_token lib header) (\<lambda>user_id.
     stmt_bind (get_user_by_id user_id) (\<lambda>found.
     stmt_bind (require_some (AuthError ''Invalid or expired token'') found) (\<lambda>user.
       stmt_return (Inr (u_username user)))))"

section \<open>Key types\<close>

definition KEY_TYPE_PRIMARY :: string where
  "KEY_TYPE_PRIMARY = ''primary''"

definition KEY_TYPE_SLATEPACK :: string where
  "KEY_TYPE_SLATEPACK = ''slatepack''"

definition KEY_TYPE_ENC :: string where
  "KEY_TYPE_ENC = ''enc''"

definition ALLOWED_KEY_TYPES :: "string list" where
  "ALLOWED_KEY_TYPES = [KEY_TYPE_PRIMARY, KEY_TYPE_ENC, KEY_TYPE_SLATEPACK]"

definition is_grin_slatepack_address :: "string \<Rightarrow> bool" where
  "is_grin_slatepack_address val \<longleftrightarrow>
     (let v = trim val in starts_with ''grin1'' v \<or> starts_with ''tgrin1'' v)"

definition key_type_for :: "asset_type \<Rightarrow> string \<Rightarrow> string" where
  "key_type_for a public_key =
     (if a = Grin \<and> is_grin_slatepack_address public_key then KEY_TYPE_SLATEPACK else KEY_TYPE_PRIMARY)"

definition resolve_key_type :: "asset_type \<Rightarrow> string \<Rightarrow> string option \<Rightarrow> string result" where
  "resolve_key_type a public_key requested =
     (case option_filter (\<lambda>r. r \<noteq> []) (map_option trim requested) of
        None \<Rightarrow> Inr (key_type_for a public_key)
      | Some requested \<Rightarrow>
          try_bind (ok_or (find (\<lambda>allowed. eq_ignore_ascii_case allowed requested) ALLOWED_KEY_TYPES)
              (ValidationError (''Unknown key_type: '' @ requested @ '' (expected one of '' @
                 str_join '', '' ALLOWED_KEY_TYPES @ '')''))) (\<lambda>resolved.
          if resolved = KEY_TYPE_PRIMARY \<and> is_grin_slatepack_address public_key
          then Inl (ValidationError (''A Grin slatepack address cannot be registered as the primary key:'' @
            ''              primary holds the key that signs, which is a different derivation.''))
          else Inr resolved))"

fun key_type_for_tip :: "asset_type \<Rightarrow> string" where
  "key_type_for_tip Btc = KEY_TYPE_PRIMARY"
| "key_type_for_tip Ltc = KEY_TYPE_PRIMARY"
| "key_type_for_tip Xmr = KEY_TYPE_ENC"
| "key_type_for_tip Wow = KEY_TYPE_ENC"
| "key_type_for_tip Grin = KEY_TYPE_SLATEPACK"

section \<open>Published keys\<close>

record user_key_info =
  ki_asset :: string
  ki_public_key :: string
  ki_public_spend_key :: "string option"

record public_keys_info =
  pk_btc :: "string option"
  pk_ltc :: "string option"
  pk_xmr :: "string option"
  pk_wow :: "string option"
  pk_grin :: "string option"

record lookup_username_response =
  lu_registered :: bool
  lu_user_id :: "string option"
  lu_username :: "string option"
  lu_public_keys :: "public_keys_info option"
  lu_tip_keys :: "public_keys_info option"

record register_key_request =
  rk_asset :: string
  rk_public_key :: string
  rk_public_spend_key :: "string option"
  rk_key_type :: "string option"

definition key_info :: "user_key_row \<Rightarrow> user_key_info" where
  "key_info k =
     \<lparr>ki_asset = asset_as_str (k_asset k), ki_public_key = k_public_key k, ki_public_spend_key = k_public_spend_key k\<rparr>"

text \<open>\<open>GET /users/by-username/:username\<close>: the key a payment goes to and the key a tip is sealed to.\<close>

definition pick_key :: "user_key_row list \<Rightarrow> asset_type \<Rightarrow> string \<Rightarrow> string option" where
  "pick_key keys a key_type =
     map_option k_public_key (find (\<lambda>k. k_asset k = a \<and> k_key_type k = key_type) keys)"

definition key_for :: "user_key_row list \<Rightarrow> asset_type \<Rightarrow> string option" where
  "key_for keys a =
     (case a of
        Grin \<Rightarrow> option_or (pick_key keys a KEY_TYPE_SLATEPACK)
          (option_filter is_grin_slatepack_address (pick_key keys a KEY_TYPE_PRIMARY))
      | _ \<Rightarrow> pick_key keys a KEY_TYPE_PRIMARY)"

definition tip_key_for :: "user_key_row list \<Rightarrow> asset_type \<Rightarrow> string option" where
  "tip_key_for keys a =
     (if key_type_for_tip a = KEY_TYPE_ENC then pick_key keys a KEY_TYPE_ENC else key_for keys a)"

definition all_assets :: "(asset_type \<Rightarrow> string option) \<Rightarrow> public_keys_info" where
  "all_assets f = \<lparr>pk_btc = f Btc, pk_ltc = f Ltc, pk_xmr = f Xmr, pk_wow = f Wow, pk_grin = f Grin\<rparr>"

definition lookup_username :: "token_lib \<Rightarrow> string \<Rightarrow> lookup_username_response stmt" where
  "lookup_username lib requested =
     stmt_bind (get_user_by_username (to_lowercase requested)) (\<lambda>found.
       case found of
         None \<Rightarrow> stmt_return (Inr
           \<lparr>lu_registered = False, lu_user_id = None, lu_username = None, lu_public_keys = None, lu_tip_keys = None\<rparr>)
       | Some user \<Rightarrow>
           stmt_bind (get_user_keys (u_id user)) (\<lambda>keys.
             stmt_return (Inr
               \<lparr>lu_registered = True, lu_user_id = Some (uuid_to_string lib (u_id user)), lu_username = u_username user,
                lu_public_keys = Some (all_assets (key_for keys)),
                lu_tip_keys = Some (all_assets (tip_key_for keys))\<rparr>)))"

text \<open>\<open>POST /keys\<close>, \<open>GET /users/:user_id/keys\<close> and \<open>GET /users/:user_id/keys/:asset\<close>. The identifier a new row draws is
  the argument \<open>i\<close>.\<close>

definition register_key :: "token_lib \<Rightarrow> uuid \<Rightarrow> string option \<Rightarrow> register_key_request \<Rightarrow> user_key_info stmt" where
  "register_key lib i header req =
     stmt_bind (extract_user_id_from_token lib header) (\<lambda>user_id.
     stmt_bind (stmt_return (parse_asset (rk_asset req))) (\<lambda>a.
     stmt_bind (stmt_return (resolve_key_type a (rk_public_key req) (rk_key_type req))) (\<lambda>key_type.
     stmt_bind (upsert_user_key i
         \<lparr>nk_user_id = user_id, nk_asset = a, nk_public_key = rk_public_key req,
          nk_public_spend_key = rk_public_spend_key req, nk_key_type = key_type\<rparr>) (\<lambda>key.
       stmt_return (Inr (key_info key))))))"

definition list_user_keys :: "uuid \<Rightarrow> user_key_info list stmt" where
  "list_user_keys user_id =
     stmt_bind (get_user_keys user_id) (\<lambda>keys. stmt_return (Inr (map key_info keys)))"

definition get_user_key_for_asset :: "uuid \<Rightarrow> string \<Rightarrow> user_key_info stmt" where
  "get_user_key_for_asset user_id requested =
     stmt_bind (stmt_return (parse_asset requested)) (\<lambda>a.
     stmt_bind (get_user_key user_id a) (\<lambda>found.
     stmt_bind (require_some (NotFound ''User has no key for this asset'') found) (\<lambda>key.
       stmt_return (Inr (key_info key)))))"

section \<open>The name service\<close>

definition INTEROP_RELAY_HINTS :: "string list" where
  "INTEROP_RELAY_HINTS = [''wss://relay.damus.io'', ''wss://nos.lol'']"

record well_known_response =
  wk_names :: "string \<rightharpoonup> string"
  wk_relays :: "string \<rightharpoonup> string list"

text \<open>The loops push a hint that is not in the list yet.\<close>

fun push_new :: "string list \<Rightarrow> string list \<Rightarrow> string list" where
  "push_new hints [] = hints"
| "push_new hints (h # hs) = push_new (if h \<notin> set hints then hints @ [h] else hints) hs"

definition relay_hints :: "config \<Rightarrow> string list" where
  "relay_hints c =
     (let r = ms_relay (cf_messaging c);
          own = (if rc_enabled r \<and> trim (rc_advertised_url r) \<noteq> [] then [rc_advertised_url r] else []);
          interop = (if ms_nip05_interop_hints (cf_messaging c) then push_new own INTEROP_RELAY_HINTS else own)
      in push_new interop (filter (\<lambda>h. h \<noteq> []) (map trim (ms_nip05_extra_relay_hints (cf_messaging c)))))"

definition well_known_nostr :: "config \<Rightarrow> string option \<Rightarrow> well_known_response stmt" where
  "well_known_nostr c requested =
     (case requested of
        None \<Rightarrow> stmt_return (Inr \<lparr>wk_names = Map.empty, wk_relays = Map.empty\<rparr>)
      | Some raw \<Rightarrow>
          let name = to_lowercase raw in
          stmt_bind (get_user_by_username name) (\<lambda>found.
            stmt_return (Inr (case Option.bind found u_nostr_pubkey of
                None \<Rightarrow> \<lparr>wk_names = Map.empty, wk_relays = Map.empty\<rparr>
              | Some pubkey \<Rightarrow>
                  \<lparr>wk_names = [name \<mapsto> pubkey], wk_relays = [pubkey \<mapsto> relay_hints c]\<rparr>))))"

end
