(* ===== verification/Website.thy ===== *)
theory Website
  imports User_Api
begin

text \<open>
  Signing in to a website with the wallet: \<open>src/src/api/website.rs\<close>, the challenge of \<open>src/src/core/session.rs\<close> and the
  lookup in a legacy database of \<open>src/src/infra/legacy_directory.rs\<close>.

  The state of the handlers is the database and the process-wide map of challenges. The legacy database is a second
  database with its own tables, or none; a request does not write to it. The session of a sign-in is issued by
  \<open>issue_session\<close> of \<open>Auth_Api\<close>, whose statements the source repeats. The address of the peer reaches only a parameter
  that is not stored and is left out.
\<close>

section \<open>The legacy directory\<close>

record legacy_key =
  lk_asset :: string
  lk_public_key :: string
  lk_public_spend_key :: "string option"

record legacy_identity =
  li_username :: "string option"
  li_keys :: "legacy_key list"

record legacy_user_row =
  lr_id :: uuid
  lr_username :: "string option"

record legacy_tables =
  lt_users :: "legacy_user_row list"
  lt_keys :: "(uuid \<times> legacy_key) list"
  lt_outage :: "string option"

record legacy_directory =
  ld_pool :: "legacy_tables option"

definition legacy_disabled :: legacy_directory where
  "legacy_disabled = \<lparr>ld_pool = None\<rparr>"

definition legacy_connect :: "(string \<Rightarrow> legacy_tables option) \<Rightarrow> string option \<Rightarrow> legacy_directory" where
  "legacy_connect connect database_url =
     (case option_filter (\<lambda>u. trim u \<noteq> []) database_url of
        None \<Rightarrow> legacy_disabled
      | Some url \<Rightarrow> (case connect url of Some pool \<Rightarrow> \<lparr>ld_pool = Some pool\<rparr> | None \<Rightarrow> legacy_disabled))"

definition legacy_enabled :: "legacy_directory \<Rightarrow> bool" where
  "legacy_enabled dir \<longleftrightarrow> ld_pool dir \<noteq> None"

definition legacy_key_for :: "legacy_identity \<Rightarrow> string \<Rightarrow> legacy_key option" where
  "legacy_key_for li a = find (\<lambda>k. lk_asset k = a) (li_keys li)"

definition legacy_owners :: "legacy_tables \<Rightarrow> string \<Rightarrow> string \<Rightarrow> legacy_user_row list" where
  "legacy_owners t a public_key =
     concat (map (\<lambda>(owner, k). filter (\<lambda>u. lr_id u = owner) (lt_users t))
       (filter (\<lambda>(owner, k). lk_asset k = a \<and> lk_public_key k = public_key) (lt_keys t)))"

definition find_by_proven_key :: "legacy_directory \<Rightarrow> string \<Rightarrow> string \<Rightarrow> legacy_identity option result" where
  "find_by_proven_key dir a public_key =
     (case ld_pool dir of
        None \<Rightarrow> Inr None
      | Some t \<Rightarrow>
          (case lt_outage t of
             Some err \<Rightarrow> Inl (DatabaseError err)
           | None \<Rightarrow>
               Inr (map_option (\<lambda>owner.
                   \<lparr>li_username = lr_username owner,
                    li_keys = map snd (filter (\<lambda>(u, k). u = lr_id owner) (lt_keys t))\<rparr>)
                 (fetch_optional (legacy_owners t a public_key)))))"

section \<open>Challenges\<close>

record web_challenge =
  wc_nonce :: string
  wc_created_at :: timestamp
  wc_origin :: string
  wc_expires_at :: timestamp

definition new_web_challenge :: "crates \<Rightarrow> timestamp \<Rightarrow> byte list \<Rightarrow> string \<Rightarrow> web_challenge" where
  "new_web_challenge lib now nonce_bytes origin =
     \<lparr>wc_nonce = hex_encode lib nonce_bytes, wc_created_at = now, wc_origin = origin,
      wc_expires_at = now + seconds (5 * 60)\<rparr>"

definition web_challenge_expired :: "timestamp \<Rightarrow> web_challenge \<Rightarrow> bool" where
  "web_challenge_expired now c \<longleftrightarrow> now > wc_expires_at c"

definition line_feed :: string where
  "line_feed = [CHR 0x0A]"

definition web_challenge_message :: "web_challenge \<Rightarrow> string" where
  "web_challenge_message c =
     ''Smirk Authentication Challenge'' @ line_feed @ ''Nonce: '' @ wc_nonce c @ line_feed @ ''Origin: '' @ wc_origin c @
     line_feed @ ''Timestamp: '' @ int_to_string (wc_created_at c div 1000000)"

record web_state =
  web_auth :: auth_state
  web_challenges :: "string \<rightharpoonup> web_challenge"

type_synonym 'a web_handler = "(web_state, 'a) action"

record website_challenge_response =
  cr_challenge :: string
  cr_challenge_id :: string
  cr_expires_at :: string

text \<open>\<open>POST /auth/website/challenge\<close>\<close>

definition website_challenge :: "auth_env \<Rightarrow> draws \<Rightarrow> string \<Rightarrow> website_challenge_response web_handler" where
  "website_challenge env d origin =
     stmt_bind (stmt_return (ensure (\<not> (origin = [] \<or> \<not> starts_with ''http'' origin))
         (ValidationError ''Invalid origin''))) (\<lambda>_ s.
     let ch = new_web_challenge (crates.truncate (env_proofs env)) (env_clock env) (dr_nonce d) origin in
       (Inr \<lparr>cr_challenge = web_challenge_message ch, cr_challenge_id = wc_nonce ch, cr_expires_at = rfc3339 (env_proofs env) (wc_expires_at ch)\<rparr>,
        s\<lparr>web_challenges := (web_challenges s)(wc_nonce ch \<mapsto> ch)\<rparr>))"

text \<open>The sweep every two minutes.\<close>

definition drop_expired_challenges :: "timestamp \<Rightarrow> web_state \<Rightarrow> web_state" where
  "drop_expired_challenges now s =
     s\<lparr>web_challenges := (\<lambda>k. option_filter (\<lambda>c. \<not> web_challenge_expired now c) (web_challenges s k))\<rparr>"

section \<open>Signing in\<close>

record asset_signature =
  as_asset :: string
  as_signature :: string
  as_public_key :: string

record website_verify_request =
  wv_challenge_id :: string
  wv_signature :: asset_signature

fun verify_asset_signature :: "proof_lib \<Rightarrow> asset_type \<Rightarrow> string \<Rightarrow> string \<Rightarrow> string \<Rightarrow> unit result" where
  "verify_asset_signature lib Btc message sg pk = verify_bitcoin_signature lib message sg pk"
| "verify_asset_signature lib Ltc message sg pk = verify_bitcoin_signature lib message sg pk"
| "verify_asset_signature lib Xmr message sg pk = verify_ed25519_signature lib message sg pk"
| "verify_asset_signature lib Wow message sg pk = verify_ed25519_signature lib message sg pk"
| "verify_asset_signature lib Grin message sg pk = verify_ed25519_signature lib message sg pk"

text \<open>Adopting a legacy identity. A new row is created; a handle or a key that is held here is left behind. The
  identifiers the inserted keys draw are those of \<open>draws\<close>.\<close>

definition free_username :: "string option \<Rightarrow> string option stmt" where
  "free_username username =
     (case map_option to_lowercase username of
        None \<Rightarrow> stmt_return (Inr None)
      | Some name \<Rightarrow>
          stmt_bind (get_user_by_username name) (\<lambda>held.
            stmt_return (Inr (case held of None \<Rightarrow> Some name | Some _ \<Rightarrow> None))))"

definition import_key :: "uuid \<Rightarrow> legacy_key \<times> uuid \<Rightarrow> unit stmt" where
  "import_key user_id = (\<lambda>(key, i).
     case parse_asset (lk_asset key) of
       Inl _ \<Rightarrow> stmt_return (Inr ())
     | Inr a \<Rightarrow>
         stmt_bind (get_user_by_asset_pubkey a (lk_public_key key)) (\<lambda>held.
           if held \<noteq> None then stmt_return (Inr ())
           else stmt_bind (upsert_user_key i
               \<lparr>nk_user_id = user_id, nk_asset = a, nk_public_key = lk_public_key key,
                nk_public_spend_key = lk_public_spend_key key, nk_key_type = key_type_for a (lk_public_key key)\<rparr>)
             (\<lambda>_. stmt_return (Inr ()))))"

definition import_legacy_identity :: "auth_env \<Rightarrow> draws \<Rightarrow> legacy_identity \<Rightarrow> user_row stmt" where
  "import_legacy_identity env d li =
     stmt_bind (free_username (li_username li)) (\<lambda>username.
     stmt_bind (create_user (env_db env) (dr_user d)
         \<lparr>nu_username = username, nu_pubkey_hash = None, nu_nostr_pubkey = None, nu_wallet_birthday = None,
          nu_seed_fingerprint = None, nu_xmr_start_height = None, nu_wow_start_height = None\<rparr>) (\<lambda>user.
     stmt_bind (for_all_do (import_key (u_id user)) (with_draws d (li_keys li))) (\<lambda>_.
       stmt_return (Inr user))))"

text \<open>The account of a proven key: here by the key itself, for BTC also by its hash, else by the legacy instance.\<close>

definition resolve_here :: "auth_env \<Rightarrow> asset_type \<Rightarrow> string \<Rightarrow> user_row option stmt" where
  "resolve_here env a public_key =
     stmt_bind (get_user_by_asset_pubkey a public_key) (\<lambda>found.
       case found of
         Some user \<Rightarrow> stmt_return (Inr (Some user))
       | None \<Rightarrow>
           if a = Btc then get_user_by_pubkey_hash (env_db env) (hash_public_key env public_key)
           else stmt_return (Inr None))"

definition resolve_signer ::
    "auth_env \<Rightarrow> draws \<Rightarrow> legacy_directory \<Rightarrow> asset_type \<Rightarrow> string \<Rightarrow> user_row option stmt" where
  "resolve_signer env d dir a public_key =
     stmt_bind (resolve_here env a public_key) (\<lambda>found.
       case found of
         Some user \<Rightarrow> stmt_return (Inr (Some user))
       | None \<Rightarrow>
           stmt_bind (stmt_return (find_by_proven_key dir (asset_as_str a) public_key)) (\<lambda>known.
             case known of
               None \<Rightarrow> stmt_return (Inr None)
             | Some li \<Rightarrow> stmt_bind (import_legacy_identity env d li) (\<lambda>user. stmt_return (Inr (Some user)))))"

definition no_account_for_key :: app_error where
  "no_account_for_key = AuthError (''We could not match this coin's key to a Smirk account on this server. '' @
     ''Unlock your Smirk wallet once so it publishes its keys here, then try again with this or another coin.'')"

definition invalid_challenge :: app_error where
  "invalid_challenge = AuthError ''Invalid or expired challenge''"

definition web_session :: "auth_env \<Rightarrow> auth_config \<Rightarrow> draws \<Rightarrow> user_row \<Rightarrow> asset_type \<Rightarrow> string \<Rightarrow> auth_response handler" where
  "web_session env cfg d user a origin =
     stmt_bind (issue_session env cfg d (u_id user) Web ''Web Browser'') (\<lambda>pair.
     stmt_bind (ignoring (on_db (record_login_event (dr_event d) (Some (u_id user)) (asset_as_str a)
         (platform_as_str Web) (Some origin)))) (\<lambda>_.
     stmt_bind (ignoring (on_db (update_user_last_seen (u_id user)))) (\<lambda>_.
       stmt_return (Inr (auth_response_of env pair user False)))))"

definition authenticate_signer ::
    "auth_env \<Rightarrow> auth_config \<Rightarrow> draws \<Rightarrow> legacy_directory \<Rightarrow> web_challenge \<Rightarrow> asset_signature \<Rightarrow> auth_response handler" where
  "authenticate_signer env cfg d dir ch sg =
     stmt_bind (stmt_return (ensure (\<not> web_challenge_expired (env_clock env) ch) invalid_challenge)) (\<lambda>_.
     stmt_bind (stmt_return (parse_asset (as_asset sg))) (\<lambda>a.
     stmt_bind (stmt_return (verify_asset_signature (env_proofs env) a (web_challenge_message ch) (as_signature sg)
         (as_public_key sg))) (\<lambda>_.
     stmt_bind (on_db (resolve_signer env d dir a (as_public_key sg))) (\<lambda>resolved.
     stmt_bind (require_some no_account_for_key resolved) (\<lambda>user.
       web_session env cfg d user a (wc_origin ch))))))"

text \<open>\<open>POST /auth/website/verify\<close>: the challenge is taken out of the map first.\<close>

definition website_verify ::
    "auth_env \<Rightarrow> auth_config \<Rightarrow> draws \<Rightarrow> legacy_directory \<Rightarrow> website_verify_request \<Rightarrow> auth_response web_handler" where
  "website_verify env cfg d dir req s =
     (case web_challenges s (wv_challenge_id req) of
        None \<Rightarrow> (Inl invalid_challenge, s)
      | Some ch \<Rightarrow>
          on_part web_auth (\<lambda>a s. s\<lparr>web_auth := a\<rparr>) (authenticate_signer env cfg d dir ch (wv_signature req))
            (s\<lparr>web_challenges := (web_challenges s)(wv_challenge_id req := None)\<rparr>))"

end
