(* ===== verification/Members.thy ===== *)
theory Members
  imports Website Auth_Properties
begin

text \<open>
  Accounts under all the requests that touch them: those of \<open>Auth_Safety\<close>, the handlers of \<open>User_Api\<close> and the
  website sign-in. \<open>member_reachable\<close> are the states of a service that serves them in any order; \<open>member_entitled\<close> says
  what a request has to prove before an existing account may change.
\<close>

section \<open>Requests\<close>

datatype member_request =
    Wallet auth_request
  | SetUsername "string option" string
  | RegisterKey "string option" register_key_request
  | WebsiteChallenge string
  | WebsiteVerify website_verify_request
  | SweepChallenges

definition web_db :: "web_state \<Rightarrow> database" where
  "web_db s = auth_db (web_auth s)"

definition with_web_db :: "web_state \<Rightarrow> database \<Rightarrow> web_state" where
  "with_web_db s db = s\<lparr>web_auth := (web_auth s)\<lparr>auth_db := db\<rparr>\<rparr>"

fun serve_member ::
    "auth_env \<Rightarrow> auth_config \<Rightarrow> legacy_directory \<Rightarrow> draws \<Rightarrow> member_request \<Rightarrow> web_state \<Rightarrow> web_state" where
  "serve_member env cfg dir d (Wallet req) s = s\<lparr>web_auth := serve env cfg d req (web_auth s)\<rparr>"
| "serve_member env cfg dir d (SetUsername header name) s =
     with_web_db s (snd (set_username (env_tokens env) header name (web_db s)))"
| "serve_member env cfg dir d (RegisterKey header req) s =
     with_web_db s (snd (register_key (env_tokens env) (dr_key d 0) header req (web_db s)))"
| "serve_member env cfg dir d (WebsiteChallenge origin) s = snd (website_challenge env d origin s)"
| "serve_member env cfg dir d (WebsiteVerify req) s = snd (website_verify env cfg d dir req s)"
| "serve_member env cfg dir d SweepChallenges s = drop_expired_challenges (env_clock env) s"

inductive member_reachable :: "web_state \<Rightarrow> bool" where
  start: "users (web_db s) = [] \<Longrightarrow> user_keys (web_db s) = [] \<Longrightarrow> sessions (web_db s) = [] \<Longrightarrow> member_reachable s"
| request: "member_reachable s \<Longrightarrow> member_reachable (serve_member env cfg dir d req s)"
| others: "member_reachable s \<Longrightarrow> same_accounts (web_db s) (web_db s') \<Longrightarrow> member_reachable s'"

lemma web_db_simps [simp]:
  "web_db (with_web_db s db) = db" "web_db (s\<lparr>web_challenges := c\<rparr>) = web_db s"
  "web_db (s\<lparr>web_auth := a\<rparr>) = auth_db a"
  by (simp_all add: web_db_def with_web_db_def)

lemma website_challenge_db [simp]: "web_db (snd (website_challenge env d origin s)) = web_db s"
  by (simp add: website_challenge_def stmt_bind_def ensure_def Let_def)

lemma drop_expired_db [simp]: "web_db (drop_expired_challenges now s) = web_db s"
  by (simp add: drop_expired_challenges_def)

section \<open>The invariant\<close>

lemma reads_get_user_by_asset_pubkey: "reads (get_user_by_asset_pubkey a pk)"
  by (simp add: get_user_by_asset_pubkey_def reads_query)

lemma within_db_set_username:
  "within keeps_accounts (db_set_username j n)" "j \<noteq> i \<Longrightarrow> within (untouched i) (db_set_username j n)"
  unfolding db_set_username_def update_username_def
  by (intro within_one_row within_update_user; simp)+

lemma set_username_keeps: "within keeps_accounts (set_username lib header n)"
  unfolding set_username_def Let_def
  by (intro accounts.within_rules reads_extract [THEN accounts.within_reads] within_db_set_username)

lemma register_key_keeps: "within keeps_accounts (register_key lib j header req)"
  unfolding register_key_def
  by (intro accounts.within_rules reads_extract [THEN accounts.within_reads] within_upsert_user_key)

lemma reads_resolve_here: "reads (resolve_here env a pk)"
  unfolding resolve_here_def
  by (intro within_intros unchanged.within_rules reads_lookups reads_get_user_by_asset_pubkey)

lemma reads_free_username: "reads (free_username n)"
  unfolding free_username_def by (intro within_intros unchanged.within_rules reads_lookups)

lemma within_import_key:
  "within keeps_accounts (import_key u kv)" "u \<noteq> i \<Longrightarrow> within (untouched i) (import_key u kv)"
  unfolding import_key_def
  by (intro within_intros accounts.within_rules untouched.within_rules within_upsert_user_key
      reads_get_user_by_asset_pubkey [THEN accounts.within_reads]
      reads_get_user_by_asset_pubkey [THEN untouched.within_reads]; simp)+

lemma import_keeps: "within keeps_accounts (import_legacy_identity env d li)"
  unfolding import_legacy_identity_def
  by (intro accounts.within_rules reads_free_username [THEN accounts.within_reads] within_create_user within_import_key)

lemma resolve_keeps: "within keeps_accounts (resolve_signer env d dir a pk)"
  unfolding resolve_signer_def
  by (intro within_intros accounts.within_rules reads_resolve_here [THEN accounts.within_reads] import_keeps)

lemma web_session_keeps: "within (on_state keeps_accounts) (web_session env cfg d user a origin)"
  unfolding web_session_def
  by (intro st_accounts.within_rules within_issue_session within_intros elsewhere_on_db within_on_db within_last_seen)

lemma authenticate_keeps: "within (on_state keeps_accounts) (authenticate_signer env cfg d dir ch sg)"
  unfolding authenticate_signer_def
  by (intro st_accounts.within_rules within_on_db resolve_keeps web_session_keeps)

lemma website_verify_db:
  "web_db (snd (website_verify env cfg d dir req s)) =
     (case web_challenges s (wv_challenge_id req) of
        None \<Rightarrow> web_db s
      | Some ch \<Rightarrow> auth_db (snd (authenticate_signer env cfg d dir ch (wv_signature req) (web_auth s))))"
  by (simp add: website_verify_def on_part_def split: option.split prod.split)

lemma serve_member_keeps: "keeps_accounts (web_db s) (web_db (serve_member env cfg dir d req s))"
proof (cases req)
  case (Wallet areq)
  then show ?thesis using serve_keeps [of "web_auth s" env cfg d areq] by (simp add: web_db_def)
next
  case (WebsiteVerify vreq)
  then show ?thesis
    using withinD [OF authenticate_keeps, of "web_auth s" env cfg d dir]
    by (auto simp: website_verify_db on_state_def web_db_def [of s] accounts.refl split: option.split)
qed (simp_all add: accounts.refl withinD [OF set_username_keeps] withinD [OF register_key_keeps])

lemma accounts_ok_member: "member_reachable s \<Longrightarrow> accounts_ok (web_db s)"
proof (induction rule: member_reachable.induct)
  case (start s)
  then show ?case by (simp add: accounts_ok_def users_ok_def col_unique_def list_all_iff)
next
  case (request s env cfg dir d req)
  then show ?case using serve_member_keeps [of s env cfg dir d req] by (simp add: keeps_accounts_def)
next
  case (others s s')
  then show ?case using same_accounts_bounds(1) by (auto simp: keeps_accounts_def)
qed

section \<open>Who may change an account\<close>

text \<open>The account a key resolves to: it holds the key in the row that signs, or, for BTC, has its hash.\<close>

definition holds_key :: "database \<Rightarrow> asset_type \<Rightarrow> string \<Rightarrow> user_row \<Rightarrow> bool" where
  "holds_key db a pk r \<longleftrightarrow>
     (\<exists>k \<in> set (user_keys db). k_user_id k = u_id r \<and> k_asset k = a \<and> k_public_key k = pk \<and> k_key_type k = ''primary'')"

definition signer_account :: "auth_env \<Rightarrow> database \<Rightarrow> asset_type \<Rightarrow> string \<Rightarrow> user_row \<Rightarrow> bool" where
  "signer_account env db a pk r \<longleftrightarrow>
     r \<in> set (users db) \<and>
     (holds_key db a pk r \<or>
      a = Btc \<and> u_pubkey_hash r = Some (pepper (env_db env) ''pubkey_hash'' (hash_public_key env pk)))"

text \<open>A request signs in with a key: a live challenge under the identifier it names, signed with the key it names.\<close>

definition proves_web_key :: "auth_env \<Rightarrow> web_state \<Rightarrow> website_verify_request \<Rightarrow> web_challenge \<Rightarrow> asset_type \<Rightarrow> bool" where
  "proves_web_key env s req ch a \<longleftrightarrow>
     web_challenges s (wv_challenge_id req) = Some ch \<and> env_clock env \<le> wc_expires_at ch \<and>
     parse_asset (as_asset (wv_signature req)) = Inr a \<and>
     verify_asset_signature (env_proofs env) a (web_challenge_message ch) (as_signature (wv_signature req))
       (as_public_key (wv_signature req)) = Inr ()"

definition bearer_of :: "auth_env \<Rightarrow> string option \<Rightarrow> database \<Rightarrow> user_row \<Rightarrow> bool" where
  "bearer_of env header db r \<longleftrightarrow> fst (extract_user_id_from_token (env_tokens env) header db) = Inr (u_id r)"

fun member_entitled :: "auth_env \<Rightarrow> auth_config \<Rightarrow> member_request \<Rightarrow> web_state \<Rightarrow> user_row \<Rightarrow> bool" where
  "member_entitled env cfg (Wallet req) s r = entitled env cfg req (web_db s) r"
| "member_entitled env cfg (SetUsername header name) s r = bearer_of env header (web_db s) r"
| "member_entitled env cfg (RegisterKey header req) s r = bearer_of env header (web_db s) r"
| "member_entitled env cfg (WebsiteVerify req) s r =
     (\<exists>ch a. proves_web_key env s req ch a \<and> signer_account env (web_db s) a (as_public_key (wv_signature req)) r)"
| "member_entitled env cfg _ s r = False"

lemma fetch_optional_in: "fetch_optional rows = Some r \<Longrightarrow> r \<in> set rows"
  by (cases rows) auto

lemma get_user_by_asset_pubkey_Inr:
  "fst (get_user_by_asset_pubkey a pk db) = Inr (Some r) \<Longrightarrow> r \<in> set (users db) \<and> holds_key db a pk r"
  by (auto simp: get_user_by_asset_pubkey_def owners_def holds_key_def dest!: fetch_optional_in [OF sym]) metis

lemma resolve_here_Inr: "fst (resolve_here env a pk db) = Inr (Some r) \<Longrightarrow> signer_account env db a pk r"
proof -
  assume run: "fst (resolve_here env a pk db) = Inr (Some r)"
  then obtain db' where run': "resolve_here env a pk db = (Inr (Some r), db')" by (metis prod.collapse)
  then obtain found where f: "get_user_by_asset_pubkey a pk db = (Inr found, db)"
    and rest: "(case found of Some user \<Rightarrow> stmt_return (Inr (Some user))
       | None \<Rightarrow> if a = Btc then get_user_by_pubkey_hash (env_db env) (hash_public_key env pk) else stmt_return (Inr None)) db =
       (Inr (Some r), db')"
    unfolding resolve_here_def stmt_bind_Inr using reads_at [OF reads_get_user_by_asset_pubkey] by blast
  show ?thesis
  proof (cases found)
    case None
    with rest have "a = Btc" "fst (get_user_by_pubkey_hash (env_db env) (hash_public_key env pk) db) = Inr (Some r)"
      by (auto split: if_splits)
    then show ?thesis using lookup_Inr(1) by (simp add: signer_account_def)
  next
    case (Some user)
    with rest f have "fst (get_user_by_asset_pubkey a pk db) = Inr (Some r)" by simp
    then show ?thesis using get_user_by_asset_pubkey_Inr by (simp add: signer_account_def)
  qed
qed

lemma import_untouched: "within (untouched i) (import_legacy_identity env d li)"
proof (rule withinI)
  fix db
  show "untouched i db (snd (import_legacy_identity env d li db))"
  proof (cases "i \<in> set (user_ids db)")
    case False
    then show ?thesis by (simp add: untouched_def)
  next
    case True
    show ?thesis
      unfolding import_legacy_identity_def
    proof (rule untouched.bind_at)
      fix name db1
      assume "free_username (li_username li) db = (Inr name, db1)"
      then have db1: "db1 = db" by (rule reads_at [OF reads_free_username])
      let ?input = "\<lparr>nu_username = name, nu_pubkey_hash = None, nu_nostr_pubkey = None, nu_wallet_birthday = None,
          nu_seed_fingerprint = None, nu_xmr_start_height = None, nu_wow_start_height = None\<rparr>"
      show "untouched i db1 (snd (stmt_bind (create_user (env_db env) (dr_user d) ?input)
          (\<lambda>user. stmt_bind (for_all_do (import_key (u_id user)) (with_draws d (li_keys li))) (\<lambda>_. stmt_return (Inr user))) db1))"
      proof (rule untouched.bind_at)
        fix user db2
        assume "create_user (env_db env) (dr_user d) ?input db1 = (Inr user, db2)"
        then have "insert_user (env_db env) (dr_user d) ?input db1 = (Inr user, db2)"
          by (auto simp: create_user_def map_err_def split: prod.splits sum.splits)
        then have "u_id user \<noteq> i" using insert_user_Inr(2,3) True db1 by metis
        then have "within (untouched i) (stmt_bind (for_all_do (import_key (u_id user)) (with_draws d (li_keys li)))
            (\<lambda>_. stmt_return (Inr user)))"
          by (intro untouched.within_rules within_import_key)
        then show "untouched i db2 (snd (stmt_bind (for_all_do (import_key (u_id user)) (with_draws d (li_keys li)))
            (\<lambda>_. stmt_return (Inr user)) db2))" by (rule withinD)
      qed (rule withinD [OF within_create_user(2)])
    qed (simp add: reads_free_username [THEN reads_snd] untouched.refl)
  qed
qed

lemma resolve_untouched: "within (untouched i) (resolve_signer env d dir a pk)"
  unfolding resolve_signer_def
  by (intro within_intros untouched.within_rules reads_resolve_here [THEN untouched.within_reads] import_untouched)

text \<open>The account a sign-in is for: one that holds the key, or a new one for a legacy identity that does.\<close>

definition legacy_knows :: "legacy_directory \<Rightarrow> asset_type \<Rightarrow> string \<Rightarrow> bool" where
  "legacy_knows dir a pk \<longleftrightarrow> (\<exists>t. ld_pool dir = Some t \<and> legacy_owners t (asset_as_str a) pk \<noteq> [])"

lemma import_user:
  assumes "import_legacy_identity env d li db = (Inr u, db')"
  shows "u_id u = dr_user d \<and> dr_user d \<notin> set (user_ids db) \<and> u_pubkey_hash u = None \<and> u_nostr_pubkey u = None"
proof -
  from assms obtain name db1 db2 where n: "free_username (li_username li) db = (Inr name, db1)"
    and c: "create_user (env_db env) (dr_user d)
         \<lparr>nu_username = name, nu_pubkey_hash = None, nu_nostr_pubkey = None, nu_wallet_birthday = None,
          nu_seed_fingerprint = None, nu_xmr_start_height = None, nu_wow_start_height = None\<rparr> db1 = (Inr u, db2)"
    unfolding import_legacy_identity_def stmt_bind_Inr by auto
  have "db1 = db" using n by (rule reads_at [OF reads_free_username])
  with c have "insert_user (env_db env) (dr_user d)
         \<lparr>nu_username = name, nu_pubkey_hash = None, nu_nostr_pubkey = None, nu_wallet_birthday = None,
          nu_seed_fingerprint = None, nu_xmr_start_height = None, nu_wow_start_height = None\<rparr> db = (Inr u, db2)"
    by (auto simp: create_user_def map_err_def split: prod.splits sum.splits)
  from insert_user_Inr [OF this] show ?thesis by (simp add: new_user_row_def)
qed

lemma resolve_signer_Inr:
  assumes "resolve_signer env d dir a pk db = (Inr (Some u), db')"
  shows "signer_account env db a pk u \<and> db' = db \<or>
    u_id u = dr_user d \<and> dr_user d \<notin> set (user_ids db) \<and> legacy_knows dir a pk"
proof -
  from assms obtain found where f: "resolve_here env a pk db = (Inr found, db)"
    and rest: "(case found of
         Some user \<Rightarrow> stmt_return (Inr (Some user))
       | None \<Rightarrow>
           stmt_bind (stmt_return (find_by_proven_key dir (asset_as_str a) pk)) (\<lambda>known.
             case known of
               None \<Rightarrow> stmt_return (Inr None)
             | Some li \<Rightarrow> stmt_bind (import_legacy_identity env d li) (\<lambda>user. stmt_return (Inr (Some user))))) db = (Inr (Some u), db')"
    unfolding resolve_signer_def stmt_bind_Inr using reads_at [OF reads_resolve_here] by blast
  show ?thesis
  proof (cases found)
    case None
    with rest obtain li where li: "find_by_proven_key dir (asset_as_str a) pk = Inr (Some li)"
      and imp: "import_legacy_identity env d li db = (Inr u, db')"
      by (auto simp: stmt_bind_Inr split: option.splits)
    have "legacy_knows dir a pk"
      using li by (auto simp: find_by_proven_key_def legacy_knows_def split: option.splits)
    with import_user [OF imp] show ?thesis by simp
  next
    case (Some user)
    with rest f show ?thesis using resolve_here_Inr [of env a pk db u] by simp
  qed
qed

section \<open>The website sign-in\<close>

lemma web_session_untouched:
  "u_id u \<noteq> i \<Longrightarrow> within (on_state (untouched i)) (web_session env cfg d u a origin)"
  unfolding web_session_def
  by (intro st_untouched.within_rules within_issue_session within_intros elsewhere_on_db within_on_db within_last_seen)

lemma authenticate_untouched:
  assumes rows: "distinct (map u_id (users (auth_db s)))" "r \<in> set (users (auth_db s))"
    and no: "\<And>a. env_clock env \<le> wc_expires_at ch \<Longrightarrow> parse_asset (as_asset sg) = Inr a \<Longrightarrow>
      verify_asset_signature (env_proofs env) a (web_challenge_message ch) (as_signature sg) (as_public_key sg) = Inr () \<Longrightarrow>
      \<not> signer_account env (auth_db s) a (as_public_key sg) r"
  shows "on_state (untouched (u_id r)) s (snd (authenticate_signer env cfg d dir ch sg s))"
  unfolding authenticate_signer_def
proof (rule check_then, rule check_then, rule check_then, rule st_untouched.bind_at)
  fix x a y resolved s1
  assume fresh: "ensure (\<not> web_challenge_expired (env_clock env) ch) invalid_challenge = Inr x"
    and a: "parse_asset (as_asset sg) = Inr a"
    and sg: "verify_asset_signature (env_proofs env) a (web_challenge_message ch) (as_signature sg) (as_public_key sg) = Inr y"
    and res: "on_db (resolve_signer env d dir a (as_public_key sg)) s = (Inr resolved, s1)"
  have no': "\<not> signer_account env (auth_db s) a (as_public_key sg) r"
    using no [of a] fresh a sg by (auto simp: ensure_def web_challenge_expired_def split: if_splits)
  show "on_state (untouched (u_id r)) s1 (snd (stmt_bind (require_some no_account_for_key resolved)
      (\<lambda>user. web_session env cfg d user a (wc_origin ch)) s1))"
  proof (rule require_then)
    fix u
    assume u: "resolved = Some u"
    have "u_id u \<noteq> u_id r"
      using resolve_signer_Inr [of env d dir a "as_public_key sg" "auth_db s" u "auth_db s1"] res u no' rows
      by (auto simp: on_db_Inr signer_account_def user_ids_def dest: same_row [OF rows(1)])
    from withinD [OF web_session_untouched [OF this]]
    show "on_state (untouched (u_id r)) s1 (snd (web_session env cfg d u a (wc_origin ch) s1))" .
  qed
qed (rule withinD [OF within_on_db [OF resolve_untouched]])

lemma token_untouched:
  assumes "\<And>u. within (untouched i) (f u) \<or> u = i" "fst (extract_user_id_from_token lib header db) \<noteq> Inr i"
  shows "untouched i db (snd (stmt_bind (extract_user_id_from_token lib header) f db))"
proof (rule untouched.bind_at)
  fix u db1
  assume "extract_user_id_from_token lib header db = (Inr u, db1)"
  with assms show "untouched i db1 (snd (f u db1))" by (metis fst_conv withinD)
qed (simp add: untouched.refl)

lemma set_username_untouched:
  assumes "fst (extract_user_id_from_token lib header db) \<noteq> Inr i"
  shows "untouched i db (snd (set_username lib header n db))"
  unfolding set_username_def Let_def
  by (rule token_untouched [OF _ assms]) (auto intro!: untouched.within_rules within_db_set_username)

lemma register_key_untouched:
  assumes "fst (extract_user_id_from_token lib header db) \<noteq> Inr i"
  shows "untouched i db (snd (register_key lib j header req db))"
  unfolding register_key_def
  by (rule token_untouched [OF _ assms]) (auto intro!: untouched.within_rules within_upsert_user_key)

lemma serve_member_untouched:
  assumes ok: "accounts_ok (web_db s)" and r: "r \<in> set (users (web_db s))" and no: "\<not> member_entitled env cfg req s r"
  shows "untouched (u_id r) (web_db s) (web_db (serve_member env cfg dir d req s))"
proof (cases req)
  case (Wallet areq)
  with serve_untouched [of "web_auth s" r env cfg areq d] ok r no show ?thesis
    by (simp add: web_db_def on_state_def)
next
  case (SetUsername header n)
  then show ?thesis using no set_username_untouched by (simp add: bearer_of_def)
next
  case (RegisterKey header kreq)
  then show ?thesis using no register_key_untouched by (simp add: bearer_of_def)
next
  case (WebsiteVerify vreq)
  show ?thesis
  proof (cases "web_challenges s (wv_challenge_id vreq)")
    case None
    with WebsiteVerify show ?thesis by (simp add: website_verify_db untouched.refl)
  next
    case (Some ch)
    have "distinct (map u_id (users (auth_db (web_auth s))))"
      using ok by (simp add: accounts_ok_def users_ok_def web_db_def)
    from authenticate_untouched [OF this, of r env ch "wv_signature vreq"] r no WebsiteVerify Some show ?thesis
      by (auto simp: website_verify_db web_db_def [of s] on_state_def proves_web_key_def)
  qed
qed (simp_all add: untouched.refl)

lemma web_session_tail:
  "sessions (snd (record_login_event j u a pl orig db)) = sessions db"
  "sessions (snd (update_user_last_seen k db)) = sessions db"
  using withinD [OF elsewhere_statements(4), of db j u a pl orig] update_user_last_seen_sessions [OF prod.collapse [symmetric]]
  by (simp_all add: same_accounts_def)

lemma web_session_Inr:
  assumes "web_session env cfg d u a origin s = (Inr resp, s')"
  shows "rs_user resp = to_user_info env u \<and> \<not> rs_is_new resp \<and>
    (\<exists>x. sessions (auth_db s') = sessions (auth_db s) @ [x] \<and> s_user_id x = u_id u \<and>
       s_refresh_token_hash x = refresh_hash env cfg (rs_refresh_token resp))"
proof -
  from assms obtain pair s1 where i: "issue_session env cfg d (u_id u) Web ''Web Browser'' s = (Inr pair, s1)"
    and resp: "resp = auth_response_of env pair u False"
    and s': "sessions (auth_db s') = sessions (auth_db s1)"
    unfolding web_session_def stmt_bind_Inr
    by (auto simp: ignoring_def auth_db_on_db web_session_tail)
  from issue_session_rows [OF i] s' show ?thesis by (auto simp: resp auth_response_of_def)
qed

definition same_sessions :: "database \<Rightarrow> database \<Rightarrow> bool" where
  "same_sessions db db' \<longleftrightarrow> sessions db' = sessions db"

interpretation session_rows: effect_bound same_sessions
  by unfold_locales (simp_all add: same_sessions_def)

lemma within_same_sessions_upsert: "within same_sessions (upsert_user_key j n)"
proof (rule withinI)
  fix db
  obtain r db' where r: "upsert_user_key j n db = (r, db')" by fastforce
  show "same_sessions db (snd (upsert_user_key j n db))"
    using r by (cases rule: upsert_user_key_cases) (auto simp: r same_sessions_def)
qed

lemma within_same_sessions_create: "within same_sessions (create_user h j input)"
proof (rule withinI)
  fix db
  show "same_sessions db (snd (create_user h j input db))"
    by (auto simp: create_user_def map_err_def insert_user_def run_sql_def Let_def same_sessions_def
        split: prod.splits sum.splits option.splits if_splits)
qed

lemma resolve_sessions: "sessions (snd (resolve_signer env d dir a pk db)) = sessions db"
proof -
  have key: "within same_sessions (import_key u kv)" for u kv
    unfolding import_key_def
    by (intro within_intros session_rows.within_rules within_same_sessions_upsert
        reads_get_user_by_asset_pubkey [THEN session_rows.within_reads])
  have "within same_sessions (import_legacy_identity env d li)" for li
    unfolding import_legacy_identity_def
    by (intro session_rows.within_rules within_same_sessions_create key reads_free_username [THEN session_rows.within_reads])
  then have "within same_sessions (resolve_signer env d dir a pk)"
    unfolding resolve_signer_def
    by (intro within_intros session_rows.within_rules reads_resolve_here [THEN session_rows.within_reads])
  from withinD [OF this] show ?thesis by (simp add: same_sessions_def)
qed

end
