(* ===== verification/Member_Properties.thy ===== *)
theory Member_Properties
  imports Members
begin

text \<open>
  Theorems on accounts under every request that touches them, on the website sign-in, on published keys and on the name
  service, each with a run of the sample deployment of \<open>Auth_Properties\<close>.
\<close>

section \<open>Properties\<close>


text \<open>C9. A website sign-in is for the owner of the proven key, once: an answer with a session means that the named challenge
  was live and its message was signed with the named key; the session is added for the account that holds the key, or for a
  new account when only the legacy instance knows the key, and never reported as a new registration; and however a sign-in
  ends, its challenge is used up.\<close>

theorem website_sign_in_exact:
  assumes "website_verify env cfg d dir req s = (res, s')"
  shows "(res = Inr resp \<longrightarrow>
      (\<exists>ch a u x. proves_web_key env s req ch a \<and>
         (signer_account env (web_db s) a (as_public_key (wv_signature req)) u \<or>
          u_id u = dr_user d \<and> dr_user d \<notin> set (user_ids (web_db s)) \<and> legacy_knows dir a (as_public_key (wv_signature req))) \<and>
         rs_user resp = to_user_info env u \<and> \<not> rs_is_new resp \<and>
         sessions (web_db s') = sessions (web_db s) @ [x] \<and> s_user_id x = u_id u \<and>
         s_refresh_token_hash x = refresh_hash env cfg (rs_refresh_token resp))) \<and>
    (wv_challenge_id req' = wv_challenge_id req \<longrightarrow>
       website_verify env' cfg' d' dir' req' s' = (Inl invalid_challenge, s'))"
proof (intro conjI impI)
  assume "wv_challenge_id req' = wv_challenge_id req"
  then show "website_verify env' cfg' d' dir' req' s' = (Inl invalid_challenge, s')"
    using assms by (auto simp: website_verify_def on_part_def split: option.splits prod.splits)
next
  let ?pk = "as_public_key (wv_signature req)"
  assume "res = Inr resp"
  then obtain ch s1 where ch: "web_challenges s (wv_challenge_id req) = Some ch"
    and run: "authenticate_signer env cfg d dir ch (wv_signature req) (web_auth s) = (Inr resp, s1)"
    and s': "web_db s' = auth_db s1"
    using assms by (auto simp: website_verify_def on_part_def web_db_def split: option.splits prod.splits)
  then obtain a u s2 where a: "\<not> web_challenge_expired (env_clock env) ch" "parse_asset (as_asset (wv_signature req)) = Inr a"
      "verify_asset_signature (env_proofs env) a (web_challenge_message ch) (as_signature (wv_signature req)) ?pk = Inr ()"
    and res: "resolve_signer env d dir a ?pk (auth_db (web_auth s)) = (Inr (Some u), auth_db s2)"
    and sess: "web_session env cfg d u a (wc_origin ch) s2 = (Inr resp, s1)"
    unfolding authenticate_signer_def stmt_bind_Inr require_some_def
    by (auto simp: ensure_def on_db_Inr ok_or_def split: if_splits option.splits)
  have "sessions (auth_db s2) = sessions (web_db s)"
    using resolve_sessions [of env d dir a ?pk "auth_db (web_auth s)"] res by (simp add: web_db_def)
  with resolve_signer_Inr [OF res] web_session_Inr [OF sess] ch a s'
  show "\<exists>ch a u x. proves_web_key env s req ch a \<and>
         (signer_account env (web_db s) a ?pk u \<or>
          u_id u = dr_user d \<and> dr_user d \<notin> set (user_ids (web_db s)) \<and> legacy_knows dir a ?pk) \<and>
         rs_user resp = to_user_info env u \<and> \<not> rs_is_new resp \<and>
         sessions (web_db s') = sessions (web_db s) @ [x] \<and> s_user_id x = u_id u \<and>
         s_refresh_token_hash x = refresh_hash env cfg (rs_refresh_token resp)"
    by (auto simp: proves_web_key_def web_challenge_expired_def web_db_def not_less) 
qed

section \<open>What is signed\<close>

lemma split_at_unique:
  assumes "x \<notin> set us" "x \<notin> set us'" "us @ x # vs = us' @ x # vs'"
  shows "us = us' \<and> vs = vs'"
proof -
  have "takeWhile (\<lambda>y. y \<noteq> x) (ws @ x # zs) = ws" if "x \<notin> set ws" for ws zs
    using that by (induction ws) auto
  with assms show ?thesis by (metis append_same_eq same_append_eq list.inject)
qed

lemma split_at_last:
  assumes "x \<notin> set vs" "x \<notin> set vs'" "us @ x # vs = us' @ x # vs'"
  shows "us = us' \<and> vs = vs'"
proof -
  have "rev vs @ x # rev us = rev vs' @ x # rev us'" using arg_cong [OF assms(3), of rev] by simp
  from split_at_unique [OF _ _ this] assms(1,2) show ?thesis by simp
qed

lemma int_to_string_no_feed: "CHR 0x0A \<notin> set (int_to_string i)"
proof -
  have "list_all (\<lambda>n. hex_digit n \<noteq> CHR 0x0A) [0..<10]" by code_simp
  then have "c \<noteq> CHR 0x0A" if "c \<in> hex_digit ` {..<10}" for c using that by (auto simp: list_all_iff)
  then have "CHR 0x0A \<notin> set (nat_to_string n)" for n using nat_to_string_digits by blast
  then show ?thesis by (simp add: int_to_string_def)
qed

lemma hex_no_feed:
  assumes "hex_laws lib"
  shows "CHR 0x0A \<notin> set (hex_encode lib bs)"
proof -
  have "hex_decode lib (hex_encode lib bs) \<noteq> None" using assms by (simp add: hex_laws_def)
  then have "list_all is_ascii_hexdigit (hex_encode lib bs)" using assms unfolding hex_laws_def by blast
  moreover have "\<not> is_ascii_hexdigit (CHR 0x0A)" by code_simp
  ultimately show ?thesis by (auto simp: list_all_iff)
qed

lemma web_message_inj:
  assumes "CHR 0x0A \<notin> set (wc_nonce c)" "CHR 0x0A \<notin> set (wc_nonce c')"
    and "web_challenge_message c = web_challenge_message c'"
  shows "wc_nonce c = wc_nonce c' \<and> wc_origin c = wc_origin c' \<and> wc_created_at c div 1000000 = wc_created_at c' div 1000000"
proof -
  have "wc_nonce c @ CHR 0x0A # ''Origin: '' @ wc_origin c @ CHR 0x0A # ''Timestamp: '' @ int_to_string (wc_created_at c div 1000000) =
    wc_nonce c' @ CHR 0x0A # ''Origin: '' @ wc_origin c' @ CHR 0x0A # ''Timestamp: '' @ int_to_string (wc_created_at c' div 1000000)"
    using assms(3) by (simp add: web_challenge_message_def line_feed_def)
  from split_at_unique [OF assms(1,2) this]
  have n: "wc_nonce c = wc_nonce c'"
    and rest: "wc_origin c @ CHR 0x0A # ''Timestamp: '' @ int_to_string (wc_created_at c div 1000000) =
      wc_origin c' @ CHR 0x0A # ''Timestamp: '' @ int_to_string (wc_created_at c' div 1000000)" by simp_all
  from split_at_last [OF _ _ rest] int_to_string_no_feed
  have "wc_origin c = wc_origin c'" "int_to_string (wc_created_at c div 1000000) = int_to_string (wc_created_at c' div 1000000)"
    by simp_all
  with n show ?thesis by (simp add: int_to_string_inj)
qed

text \<open>A signature for the website cannot be used elsewhere: two challenges with the same message have the same nonce,
  origin and second, and a challenge message is never the message of a wallet login or of a key rotation.\<close>

theorem web_signature_is_bound:
  assumes "hex_laws lib"
  shows "(web_challenge_message (new_web_challenge lib t bs orig) = web_challenge_message (new_web_challenge lib t' bs' orig') \<longrightarrow>
      bs = bs' \<and> orig = orig' \<and> t div 1000000 = t' div 1000000) \<and>
    web_challenge_message c \<noteq> login_message ts \<and> rotation_message cfg h ts \<noteq> Some (web_challenge_message c)"
proof -
  have "bs = bs'" if "hex_encode lib bs = hex_encode lib bs'"
    using assms that by (metis hex_laws_def option.inject)
  then show ?thesis
    using web_message_inj [of "new_web_challenge lib t bs orig" "new_web_challenge lib t' bs' orig'"] hex_no_feed [OF assms]
    by (auto simp: new_web_challenge_def login_message_def rotation_message_def web_challenge_message_def split: option.splits)
qed

section \<open>Published keys\<close>

definition slot_of :: "new_user_key \<Rightarrow> uuid \<times> asset_type \<times> string" where
  "slot_of n = (nk_user_id n, nk_asset n, nk_key_type n)"

lemma upsert_user_key_Inr:
  assumes "upsert_user_key i n db = (Inr k, db')"
  shows "users db' = users db" "db_outage db' = db_outage db" "\<not> db_outage db"
    "key_slot x = slot_of n \<Longrightarrow> x \<in> set (user_keys db') \<Longrightarrow> k_public_key x = nk_public_key n"
    "\<exists>x \<in> set (user_keys db'). key_slot x = slot_of n"
    "key_slot x \<noteq> slot_of n \<Longrightarrow> x \<in> set (user_keys db') \<longleftrightarrow> x \<in> set (user_keys db)"
proof -
  have slot: "same_key n y \<longleftrightarrow> key_slot y = slot_of n" for y by (simp add: same_key_slot slot_of_def)
  have up: "\<not> db_outage db" using assms by (auto simp: upsert_user_key_def sql_Inr)
  consider (old) "\<exists>y \<in> set (user_keys db). same_key n y"
      "db' = db\<lparr>user_keys := sql_update (same_key n) (replace_key (db_now db) n) (user_keys db)\<rparr>"
    | (new) "\<forall>y \<in> set (user_keys db). \<not> same_key n y" "db' = db\<lparr>user_keys := user_keys db @ [new_key_row (db_now db) i n]\<rparr>"
    using assms
    by (cases "fetch_optional (sql_returning (same_key n) (replace_key (db_now db) n) (user_keys db))")
       (auto simp: upsert_user_key_def sql_Inr Let_def fetch_optional_None sql_returning_Nil dest: fetch_returning_Some
         split: if_splits)
  then have all: "users db' = users db \<and> db_outage db' = db_outage db \<and>
    (\<forall>x \<in> set (user_keys db'). key_slot x = slot_of n \<longrightarrow> k_public_key x = nk_public_key n) \<and>
    (\<exists>x \<in> set (user_keys db'). key_slot x = slot_of n) \<and>
    (\<forall>x. key_slot x \<noteq> slot_of n \<longrightarrow> (x \<in> set (user_keys db') \<longleftrightarrow> x \<in> set (user_keys db)))"
  proof cases
    case old
    from old(1) obtain y where y: "y \<in> set (user_keys db)" "same_key n y" by blast
    have rows: "set (user_keys db') = (\<lambda>x. if same_key n x then replace_key (db_now db) n x else x) ` set (user_keys db)"
      using old(2) by (simp add: set_sql_update)
    have "\<exists>x \<in> set (user_keys db'). key_slot x = slot_of n"
      unfolding rows by (rule bexI [OF _ imageI [OF y(1)]]) (use y(2) in \<open>simp add: slot\<close>)
    moreover have "\<forall>x \<in> set (user_keys db'). key_slot x = slot_of n \<longrightarrow> k_public_key x = nk_public_key n"
      unfolding rows by (auto simp: slot replace_key_def)
    moreover have "x \<in> set (user_keys db') \<longleftrightarrow> x \<in> set (user_keys db)" if "key_slot x \<noteq> slot_of n" for x
    proof -
      have "key_slot (replace_key (db_now db) n z) = slot_of n" if "same_key n z" for z using that by (simp add: slot)
      with that show ?thesis unfolding rows by (auto simp: image_iff)
    qed
    ultimately show ?thesis using old(2) by simp
  next
    case new
    have "k_public_key (new_key_row t i n) = nk_public_key n" for t by (simp add: new_key_row_def)
    with new show ?thesis by (auto simp: slot slot_of_def)
  qed
  show "users db' = users db" "db_outage db' = db_outage db" "\<not> db_outage db"
    "key_slot x = slot_of n \<Longrightarrow> x \<in> set (user_keys db') \<Longrightarrow> k_public_key x = nk_public_key n"
    "\<exists>x \<in> set (user_keys db'). key_slot x = slot_of n"
    "key_slot x \<noteq> slot_of n \<Longrightarrow> x \<in> set (user_keys db') \<longleftrightarrow> x \<in> set (user_keys db)"
    using all up by auto
qed

lemma register_key_Inr:
  assumes "register_key lib i header req db = (Inr info, db')"
  obtains u a t k where "fst (extract_user_id_from_token lib header db) = Inr u" "parse_asset (rk_asset req) = Inr a"
    "resolve_key_type a (rk_public_key req) (rk_key_type req) = Inr t"
    "upsert_user_key i \<lparr>nk_user_id = u, nk_asset = a, nk_public_key = rk_public_key req,
       nk_public_spend_key = rk_public_spend_key req, nk_key_type = t\<rparr> db = (Inr k, db')"
  using assms
  by (auto simp: register_key_def stmt_bind_Inr) (metis fst_conv reads_at reads_extract)

lemma fetch_only: "\<forall>u \<in> set us. u = r \<Longrightarrow> r \<in> set us \<Longrightarrow> fetch_optional us = Some r"
  by (cases us) auto

text \<open>C10. A key is registered without a proof that its owner asked for it, and the website sign-in looks the account up by
  the key: whoever registers a key that no account holds yet receives the sign-ins of its owner, also when the owner's account
  is here under the hash of that key.\<close>

theorem unproven_key_takes_sign_in:
  assumes "accounts_ok db" "register_key lib i header req db = (Inr info, db')"
    and "fst (extract_user_id_from_token lib header db) = Inr (u_id r)" "r \<in> set (users db)"
    and "parse_asset (rk_asset req) = Inr a" "resolve_key_type a (rk_public_key req) (rk_key_type req) = Inr ''primary''"
    and "\<forall>u \<in> set (users db). \<not> holds_key db a (rk_public_key req) u"
    and "web_db s = db'" "proves_web_key env s wreq ch a" "as_public_key (wv_signature wreq) = rk_public_key req"
    and "website_verify env cfg d dir wreq s = (Inr resp, s')"
  shows "rs_user resp = to_user_info env r"
proof -
  let ?pk = "rk_public_key req"
  let ?n = "\<lparr>nk_user_id = u_id r, nk_asset = a, nk_public_key = ?pk, nk_public_spend_key = rk_public_spend_key req,
    nk_key_type = ''primary''\<rparr>"
  from assms(2) obtain k where up: "upsert_user_key i ?n db = (Inr k, db')"
    by (rule register_key_Inr) (use assms(3,5,6) in auto)
  note row = upsert_user_key_Inr [OF up]
  have owner: "k_user_id x = u_id r" if "x \<in> set (user_keys db')" "k_asset x = a" "k_public_key x = ?pk" "k_key_type x = ''primary''" for x
  proof (rule ccontr)
    assume ne: "k_user_id x \<noteq> u_id r"
    then have "key_slot x \<noteq> slot_of ?n" by (simp add: key_slot_def slot_of_def)
    with row(6) that(1) have "x \<in> set (user_keys db)" by blast
    moreover from this assms(1) obtain u where "u \<in> set (users db)" "u_id u = k_user_id x"
      by (auto simp: accounts_ok_def user_ids_def)
    ultimately show False using assms(7) that by (auto simp: holds_key_def)
  qed
  have rows: "distinct (map u_id (users db'))" "r \<in> set (users db')"
    using assms(1,4) row(1) by (simp_all add: accounts_ok_def users_ok_def)
  let ?owners = "owners (\<lambda>x. k_asset x = a \<and> k_public_key x = ?pk \<and> k_key_type x = ''primary'') db'"
  have "\<forall>u \<in> set ?owners. u = r"
    using owner same_row [OF rows(1)] rows(2) by (auto simp: owners_def split: if_splits)
  moreover have "r \<in> set ?owners"
    using row(4,5) rows(2) by (force simp: owners_def key_slot_def slot_of_def)
  ultimately have "fetch_optional ?owners = Some r" by (rule fetch_only)
  with row(2,3) have "get_user_by_asset_pubkey a ?pk db' = (Inr (Some r), db')"
    by (simp add: get_user_by_asset_pubkey_def query_def)
  then have res: "resolve_signer env d dir a ?pk db' = (Inr (Some r), db')"
    by (simp add: resolve_signer_def resolve_here_def stmt_bind_def)
  from assms(9,11) obtain s1 where run: "authenticate_signer env cfg d dir ch (wv_signature wreq) (web_auth s) = (Inr resp, s1)"
    by (auto simp: website_verify_def on_part_def proves_web_key_def split: option.splits prod.splits)
  then obtain u s2 where "resolve_signer env d dir a ?pk (auth_db (web_auth s)) = (Inr (Some u), auth_db s2)"
    "web_session env cfg d u a (wc_origin ch) s2 = (Inr resp, s1)"
    using assms(9,10) unfolding authenticate_signer_def stmt_bind_Inr require_some_def proves_web_key_def
    by (auto simp: ensure_def on_db_Inr ok_or_def split: if_splits option.splits)
  with res assms(8) web_session_Inr show ?thesis by (auto simp: web_db_def)
qed

text \<open>The rows of an account as a handle's lookup reads them.\<close>

definition rows_of :: "database \<Rightarrow> user_row \<Rightarrow> user_key_row list" where
  "rows_of db r = order_asc (\<lambda>k. asset_rank (k_asset k)) (filter (\<lambda>k. k_user_id k = u_id r) (user_keys db))"

lemma find_SomeD: "find p xs = Some x \<Longrightarrow> x \<in> set xs \<and> p x"
  by (induction xs) (auto split: if_splits)

lemma find_exists: "x \<in> set xs \<Longrightarrow> p x \<Longrightarrow> \<exists>y. find p xs = Some y"
  by (induction xs) auto

lemma pick_key_iff:
  assumes "distinct (map key_slot (user_keys db))"
  shows "pick_key (rows_of db r) b t = Some v \<longleftrightarrow>
    (\<exists>k \<in> set (user_keys db). key_slot k = (u_id r, b, t) \<and> k_public_key k = v)" (is "?l \<longleftrightarrow> ?r")
proof -
  let ?p = "\<lambda>k. k_asset k = b \<and> k_key_type k = t"
  have mem: "k \<in> set (rows_of db r) \<and> ?p k \<longleftrightarrow> k \<in> set (user_keys db) \<and> key_slot k = (u_id r, b, t)" for k
    by (auto simp: rows_of_def key_slot_def)
  have same: "y = k" if "y \<in> set (user_keys db)" "k \<in> set (user_keys db)" "key_slot y = key_slot k" for y k
    using that assms by (simp add: distinct_map inj_on_def)
  have "?r" if l: "?l"
  proof -
    from l obtain k where k: "find ?p (rows_of db r) = Some k" "k_public_key k = v" by (auto simp: pick_key_def)
    from find_SomeD [OF k(1)] mem [of k] k(2) show ?thesis by auto
  qed
  moreover have "?l" if r: "?r"
  proof -
    from r obtain k where k: "k \<in> set (user_keys db)" "key_slot k = (u_id r, b, t)" "k_public_key k = v" by blast
    then have k': "k \<in> set (rows_of db r)" "?p k" using mem by blast+
    then obtain y where y: "find ?p (rows_of db r) = Some y" using find_exists [OF k'(1), of ?p] by blast
    from find_SomeD [OF y] mem [of y] have "y \<in> set (user_keys db)" "key_slot y = key_slot k" using k(2) by simp_all
    then have "y = k" using same k(1) by blast
    with y k(3) show ?thesis by (simp add: pick_key_def)
  qed
  ultimately show ?thesis by blast
qed

lemma option_ext: "(\<And>v. x = Some v \<longleftrightarrow> y = Some v) \<Longrightarrow> x = y"
  by (cases x; cases y) auto

text \<open>C11. What a wallet publishes is what senders find: after a key was registered, looking the account's handle up (in any
  case) finds it; a key of the type tips of its asset are sealed to is the answer's tip key; a primary key is the answer's
  receiving key, except for Grin; a key of another type leaves every receiving key of the other assets, and the asset's own
  primary row, as it was; and no address is accepted as a Grin signing key.\<close>

theorem registered_key_is_found:
  assumes "accounts_ok db" "register_key lib i header req db = (Inr info, db')"
    and "fst (extract_user_id_from_token lib header db) = Inr (u_id r)" "r \<in> set (users db)"
    and "parse_asset (rk_asset req) = Inr a" "resolve_key_type a (rk_public_key req) (rk_key_type req) = Inr t"
    and "u_username r = Some (to_lowercase name)"
  shows "lookup_username lib name db' =
      (Inr \<lparr>lu_registered = True, lu_user_id = Some (uuid_to_string lib (u_id r)), lu_username = u_username r,
         lu_public_keys = Some (all_assets (key_for (rows_of db' r))),
         lu_tip_keys = Some (all_assets (tip_key_for (rows_of db' r)))\<rparr>, db') \<and>
    (t = key_type_for_tip a \<longrightarrow> tip_key_for (rows_of db' r) a = Some (rk_public_key req)) \<and>
    (t = KEY_TYPE_PRIMARY \<longrightarrow> a \<noteq> Grin \<longrightarrow> key_for (rows_of db' r) a = Some (rk_public_key req)) \<and>
    (\<forall>b. b \<noteq> a \<longrightarrow> key_for (rows_of db' r) b = key_for (rows_of db r) b \<and>
       tip_key_for (rows_of db' r) b = tip_key_for (rows_of db r) b) \<and>
    (t \<noteq> KEY_TYPE_PRIMARY \<longrightarrow> pick_key (rows_of db' r) a KEY_TYPE_PRIMARY = pick_key (rows_of db r) a KEY_TYPE_PRIMARY) \<and>
    \<not> (a = Grin \<and> t = KEY_TYPE_PRIMARY \<and> is_grin_slatepack_address (rk_public_key req))"
proof -
  let ?pk = "rk_public_key req"
  let ?n = "\<lparr>nk_user_id = u_id r, nk_asset = a, nk_public_key = ?pk, nk_public_spend_key = rk_public_spend_key req,
    nk_key_type = t\<rparr>"
  from assms(2) obtain k where up: "upsert_user_key i ?n db = (Inr k, db')"
    by (rule register_key_Inr) (use assms(3,5,6) in auto)
  note row = upsert_user_key_Inr [OF up]
  have "keeps_accounts db db'" using withinE [OF within_upsert_user_key(1) up] .
  then have ok: "accounts_ok db'" using assms(1) by (simp add: keeps_accounts_def)
  have d: "distinct (map key_slot (user_keys db))" "distinct (map key_slot (user_keys db'))"
    using assms(1) ok by (simp_all add: accounts_ok_def)
  have pick: "pick_key (rows_of db' r) b t' = (if (b, t') = (a, t) then Some ?pk else pick_key (rows_of db r) b t')" for b t'
  proof (cases "(b, t') = (a, t)")
    case True
    with row(4,5) have "\<exists>k \<in> set (user_keys db'). key_slot k = (u_id r, b, t') \<and> k_public_key k = ?pk"
      by (auto simp: slot_of_def)
    with pick_key_iff [OF d(2)] True show ?thesis by simp
  next
    case False
    then have "pick_key (rows_of db' r) b t' = pick_key (rows_of db r) b t'"
      by (intro option_ext) (auto simp: pick_key_iff [OF d(1)] pick_key_iff [OF d(2)] row(6) slot_of_def)
    with False show ?thesis by auto
  qed
  have user: "get_user_by_username (to_lowercase name) db' = (Inr (Some r), db')"
    using unique_lookup [of "users db'" u_username r "to_lowercase name"] ok assms(4,7) row(1-3)
    by (simp add: get_user_by_username_def select_user_def query_def accounts_ok_def users_ok_def identity_columns_def)
  have "lookup_username lib name db' =
      (Inr \<lparr>lu_registered = True, lu_user_id = Some (uuid_to_string lib (u_id r)), lu_username = u_username r,
         lu_public_keys = Some (all_assets (key_for (rows_of db' r))),
         lu_tip_keys = Some (all_assets (tip_key_for (rows_of db' r)))\<rparr>, db')"
    using user row(2,3) by (simp add: lookup_username_def stmt_bind_def get_user_keys_def query_def rows_of_def)
  moreover have "tip_key_for (rows_of db' r) a = Some ?pk" if "t = key_type_for_tip a"
    using that pick by (cases a) (simp_all add: tip_key_for_def key_for_def option_or_def KEY_TYPE_PRIMARY_def KEY_TYPE_ENC_def
      KEY_TYPE_SLATEPACK_def)
  moreover have "key_for (rows_of db' r) a = Some ?pk" if "t = KEY_TYPE_PRIMARY" "a \<noteq> Grin"
    using that pick by (cases a) (simp_all add: key_for_def)
  moreover have "key_for (rows_of db' r) b = key_for (rows_of db r) b \<and>
      tip_key_for (rows_of db' r) b = tip_key_for (rows_of db r) b" if "b \<noteq> a" for b
    using that pick by (cases b) (simp_all add: key_for_def tip_key_for_def)
  moreover have "pick_key (rows_of db' r) a KEY_TYPE_PRIMARY = pick_key (rows_of db r) a KEY_TYPE_PRIMARY" if "t \<noteq> KEY_TYPE_PRIMARY"
    using that pick by simp
  moreover have "\<not> (a = Grin \<and> t = KEY_TYPE_PRIMARY \<and> is_grin_slatepack_address ?pk)"
    using assms(6)
    by (auto simp: resolve_key_type_def key_type_for_def try_bind_def KEY_TYPE_PRIMARY_def KEY_TYPE_SLATEPACK_def
        split: option.splits sum.splits if_splits)
  ultimately show ?thesis by blast
qed

section \<open>The name service\<close>

lemma set_push_new: "set (push_new hs ns) = set hs \<union> set ns"
  by (induction ns arbitrary: hs) auto

lemma distinct_push_new: "distinct hs \<Longrightarrow> distinct (push_new hs ns)"
  by (induction ns arbitrary: hs) simp_all

lemma push_new_extends: "hs \<noteq> [] \<Longrightarrow> push_new hs ns \<noteq> [] \<and> hd (push_new hs ns) = hd hs"
  by (induction ns arbitrary: hs) simp_all

text \<open>The name service publishes links, nothing else: a handle is answered with the key its account linked, and an
  account without a link, an unknown name and no name get the same empty document; the hints have no duplicates, start with
  the instance's own relay when it has one, and name another relay only when the operator asked for it.\<close>

theorem name_service_publishes_links:
  assumes "accounts_ok db" "\<not> db_outage db"
  shows "well_known_nostr c None db = (Inr \<lparr>wk_names = Map.empty, wk_relays = Map.empty\<rparr>, db) \<and>
    (\<forall>r \<in> set (users db). u_username r = Some (to_lowercase raw) \<longrightarrow>
       well_known_nostr c (Some raw) db = (Inr (case u_nostr_pubkey r of
           None \<Rightarrow> \<lparr>wk_names = Map.empty, wk_relays = Map.empty\<rparr>
         | Some pk \<Rightarrow> \<lparr>wk_names = [to_lowercase raw \<mapsto> pk], wk_relays = [pk \<mapsto> relay_hints c]\<rparr>), db)) \<and>
    ((\<forall>r \<in> set (users db). u_username r \<noteq> Some (to_lowercase raw)) \<longrightarrow>
       well_known_nostr c (Some raw) db = (Inr \<lparr>wk_names = Map.empty, wk_relays = Map.empty\<rparr>, db)) \<and>
    distinct (relay_hints c) \<and>
    (rc_enabled (ms_relay (cf_messaging c)) \<and> trim (rc_advertised_url (ms_relay (cf_messaging c))) \<noteq> [] \<longrightarrow>
       hd (relay_hints c) = rc_advertised_url (ms_relay (cf_messaging c))) \<and>
    (\<not> ms_nip05_interop_hints (cf_messaging c) \<and> h \<in> set (relay_hints c) \<longrightarrow>
       h = rc_advertised_url (ms_relay (cf_messaging c)) \<or> h \<in> trim ` set (ms_nip05_extra_relay_hints (cf_messaging c)))"
proof (intro conjI ballI impI)
  show "well_known_nostr c None db = (Inr \<lparr>wk_names = Map.empty, wk_relays = Map.empty\<rparr>, db)"
    by (simp add: well_known_nostr_def)
next
  fix r assume "r \<in> set (users db)" "u_username r = Some (to_lowercase raw)"
  then have "fetch_optional (filter (\<lambda>x. u_username x = Some (to_lowercase raw)) (users db)) = Some r"
    using unique_lookup [of "users db" u_username r "to_lowercase raw"] assms(1)
    by (simp add: accounts_ok_def users_ok_def identity_columns_def)
  then show "well_known_nostr c (Some raw) db = (Inr (case u_nostr_pubkey r of
           None \<Rightarrow> \<lparr>wk_names = Map.empty, wk_relays = Map.empty\<rparr>
         | Some pk \<Rightarrow> \<lparr>wk_names = [to_lowercase raw \<mapsto> pk], wk_relays = [pk \<mapsto> relay_hints c]\<rparr>), db)"
    using assms(2) by (simp add: well_known_nostr_def Let_def get_user_by_username_def select_user_def query_def stmt_bind_def)
next
  assume "\<forall>r \<in> set (users db). u_username r \<noteq> Some (to_lowercase raw)"
  then have "filter (\<lambda>x. u_username x = Some (to_lowercase raw)) (users db) = []" by (simp add: filter_empty_conv)
  then show "well_known_nostr c (Some raw) db = (Inr \<lparr>wk_names = Map.empty, wk_relays = Map.empty\<rparr>, db)"
    using assms(2) by (simp add: well_known_nostr_def Let_def get_user_by_username_def select_user_def query_def stmt_bind_def)
next
  show "distinct (relay_hints c)" by (simp add: relay_hints_def Let_def distinct_push_new)
next
  assume "rc_enabled (ms_relay (cf_messaging c)) \<and> trim (rc_advertised_url (ms_relay (cf_messaging c))) \<noteq> []"
  then show "hd (relay_hints c) = rc_advertised_url (ms_relay (cf_messaging c))"
    by (simp add: relay_hints_def Let_def push_new_extends)
next
  assume "\<not> ms_nip05_interop_hints (cf_messaging c) \<and> h \<in> set (relay_hints c)"
  then show "h = rc_advertised_url (ms_relay (cf_messaging c)) \<or> h \<in> trim ` set (ms_nip05_extra_relay_hints (cf_messaging c))"
    by (auto simp: relay_hints_def Let_def set_push_new split: if_splits)
qed

section \<open>Runs of the sample deployment\<close>

definition demo_challenge :: web_challenge where
  "demo_challenge = new_web_challenge (crates.truncate demo_proofs) 0 [1] ''http://site''"

definition demo_no_members :: web_state where
  "demo_no_members = \<lparr>web_auth = demo_empty, web_challenges = Map.empty\<rparr>"

definition demo_challenged :: web_state where
  "demo_challenged = \<lparr>web_auth = demo_registered, web_challenges = [wc_nonce demo_challenge \<mapsto> demo_challenge]\<rparr>"

definition demo_sign_in :: website_verify_request where
  "demo_sign_in = \<lparr>wv_challenge_id = wc_nonce demo_challenge,
     wv_signature = \<lparr>as_asset = ''btc'', as_signature = ''s'', as_public_key = ''k''\<rparr>\<rparr>"

lemma demo_challenged_reachable: "member_reachable demo_challenged"
proof -
  have "member_reachable demo_no_members"
    by (rule member_reachable.start) (simp_all add: demo_no_members_def web_db_def demo_empty_def)
  from member_reachable.request [OF this, of demo_env demo_cfg legacy_disabled "demo_draws 1"
      "Wallet (ExtensionRegister (demo_register ''k'' None))"]
  have "member_reachable (demo_no_members\<lparr>web_auth := demo_registered\<rparr>)"
    by (simp add: demo_no_members_def demo_extension demo_run)
  from member_reachable.request [OF this, of demo_env demo_cfg legacy_disabled "demo_draws 1" "WebsiteChallenge ''http://site''"]
  show ?thesis
    by (simp add: website_challenge_def starts_with_def stmt_bind_def ensure_def demo_no_members_def Let_def demo_challenged_def
        demo_challenge_def demo_env_def demo_draws_def)
qed

lemma demo_resolve: "resolve_signer demo_env d dir Btc ''k'' (auth_db demo_registered) = (Inr (Some demo_alice), auth_db demo_registered)"
  by (simp add: resolve_signer_def resolve_here_def stmt_bind_def get_user_by_asset_pubkey_def query_def owners_def
      demo_registered_def demo_key_def demo_alice_def)

lemma demo_web_session:
  "\<exists>s'. web_session demo_env demo_cfg (demo_draws 2) demo_alice Btc origin demo_registered =
     (Inr \<lparr>rs_access_token = ''ax'', rs_refresh_token = ''rxx'', rs_expires_in = 3600,
        rs_user = to_user_info demo_env demo_alice, rs_is_new = False\<rparr>, s') \<and>
     length (sessions (auth_db s')) = 2"
  by (simp add: web_session_def issue_session_def demo_ops demo_token_pair create_session_def user_ids_def record_login_event_def
      user_ref_ok_def update_user_last_seen_def update_user_def lookup_key_def users_violation_def clashes_def sql_update_def
      demo_registered_def demo_alice_def demo_key_def demo_session_def demo_event_def demo_draws_def demo_clock demo_hashes
      auth_response_of_def Let_def)

lemma demo_website_verify:
  "\<exists>s'. website_verify demo_env demo_cfg (demo_draws 2) legacy_disabled demo_sign_in demo_challenged =
     (Inr \<lparr>rs_access_token = ''ax'', rs_refresh_token = ''rxx'', rs_expires_in = 3600,
        rs_user = to_user_info demo_env demo_alice, rs_is_new = False\<rparr>, s') \<and> length (sessions (web_db s')) = 2"
proof -
  have "\<not> web_challenge_expired (env_clock demo_env) demo_challenge"
    by (simp add: web_challenge_expired_def demo_challenge_def new_web_challenge_def demo_clock seconds_def)
  moreover have "parse_asset ''btc'' = Inr Btc" by code_simp
  moreover obtain s' where "web_session demo_env demo_cfg (demo_draws 2) demo_alice Btc (wc_origin demo_challenge) demo_registered =
     (Inr \<lparr>rs_access_token = ''ax'', rs_refresh_token = ''rxx'', rs_expires_in = 3600,
        rs_user = to_user_info demo_env demo_alice, rs_is_new = False\<rparr>, s')" "length (sessions (auth_db s')) = 2"
    using demo_web_session by blast
  ultimately show ?thesis
    by (simp add: website_verify_def demo_challenged_def demo_sign_in_def on_part_def authenticate_signer_def ensure_def
        stmt_bind_def demo_signature on_db_def demo_resolve web_db_def)
qed

theorem website_sign_in_exact_witness:
  "\<exists>resp s'. website_verify demo_env demo_cfg (demo_draws 2) legacy_disabled demo_sign_in demo_challenged = (Inr resp, s') \<and>
     website_verify demo_env demo_cfg (demo_draws 3) legacy_disabled demo_sign_in s' = (Inl invalid_challenge, s')"
proof -
  obtain resp s' where run: "website_verify demo_env demo_cfg (demo_draws 2) legacy_disabled demo_sign_in demo_challenged = (Inr resp, s')"
    using demo_website_verify by blast
  from website_sign_in_exact [OF run, of resp demo_sign_in demo_env demo_cfg "demo_draws 3" legacy_disabled] run show ?thesis
    by blast
qed


theorem web_signature_is_bound_witness:
  "web_challenge_message demo_challenge \<noteq> login_message 0"
proof -
  let ?lib = "\<lparr>hex_encode = hex_encode_ref, hex_decode = hex_decode_ref, uuid_to_string = (\<lambda>u. []), rfc3339 = (\<lambda>t. [])\<rparr>"
  have "hex_laws ?lib" by (rule hex_laws_ref) simp_all
  from web_signature_is_bound [OF this, of 0 "[]" "[]" 0 "[]" "[]" demo_challenge 0] show ?thesis by blast
qed

text \<open>The sample account with tokens that verify, and a handle.\<close>

definition demo_bearer :: token_lib where
  "demo_bearer = demo_tokens\<lparr>decode_access := (\<lambda>v t. Some \<lparr>ac_sub = ''x'', ac_aud = ACCESS_AUD, ac_iat = 0, ac_exp = 1,
     ac_platform = ''web'', ac_sid = None\<rparr>)\<rparr>"

definition demo_handle_owner :: user_row where
  "demo_handle_owner = demo_alice\<lparr>u_username := Some ''alice''\<rparr>"

definition demo_handles :: database where
  "demo_handles = (empty_database 0 (\<lambda>f. []))\<lparr>users := [demo_handle_owner]\<rparr>"

definition demo_key_request :: "string \<Rightarrow> register_key_request" where
  "demo_key_request a = \<lparr>rk_asset = a, rk_public_key = ''k'', rk_public_spend_key = None, rk_key_type = None\<rparr>"

lemma demo_handles_ok: "accounts_ok demo_handles"
  by (simp add: accounts_ok_def users_ok_def identity_columns_def col_unique_def demo_handles_def)

lemma demo_caller: "extract_user_id_from_token demo_bearer (Some ''Bearer t'') db = (Inr (u_id demo_handle_owner), db)"
proof -
  have "bearer_token (Some ''Bearer t'') = Inr ''t''" by code_simp
  then show ?thesis
    by (simp add: extract_user_id_from_token_def verify_access_token_def demo_bearer_def demo_tokens_def
        demo_handle_owner_def demo_alice_def)
qed

lemma demo_registered_key:
  "register_key demo_bearer 7 (Some ''Bearer t'') (demo_key_request ''btc'') demo_handles =
     (Inr \<lparr>ki_asset = ''btc'', ki_public_key = ''k'', ki_public_spend_key = None\<rparr>,
      demo_handles\<lparr>user_keys := [\<lparr>k_id = 7, k_user_id = 1, k_asset = Btc, k_public_key = ''k'', k_public_spend_key = None,
        k_key_type = ''primary'', k_created_at = 0, k_updated_at = 0\<rparr>]\<rparr>)"
proof -
  have "parse_asset ''btc'' = Inr Btc" "resolve_key_type Btc ''k'' None = Inr ''primary''" by code_simp+
  then show ?thesis
    by (simp add: register_key_def demo_ops demo_caller demo_key_request_def upsert_user_key_def sql_returning_def
        demo_handles_def user_ids_def demo_handle_owner_def demo_alice_def new_key_row_def key_info_def Let_def)
qed

theorem registered_key_is_found_witness:
  "\<exists>db'. lookup_username demo_bearer ''Alice'' db' =
     (Inr \<lparr>lu_registered = True, lu_user_id = Some ''x'', lu_username = Some ''alice'',
        lu_public_keys = Some (all_assets (key_for (rows_of db' demo_handle_owner))),
        lu_tip_keys = Some (all_assets (tip_key_for (rows_of db' demo_handle_owner)))\<rparr>, db') \<and>
     tip_key_for (rows_of db' demo_handle_owner) Btc = Some ''k''"
proof -
  have u: "fst (extract_user_id_from_token demo_bearer (Some ''Bearer t'') demo_handles) = Inr (u_id demo_handle_owner)"
    "demo_handle_owner \<in> set (users demo_handles)" by (simp_all add: demo_caller demo_handles_def)
  have r: "parse_asset (rk_asset (demo_key_request ''btc'')) = Inr Btc"
    "resolve_key_type Btc (rk_public_key (demo_key_request ''btc'')) (rk_key_type (demo_key_request ''btc'')) = Inr ''primary''"
    "u_username demo_handle_owner = Some (to_lowercase ''Alice'')" by code_simp+
  from registered_key_is_found [OF demo_handles_ok demo_registered_key u r] show ?thesis
    by (auto simp: demo_bearer_def demo_tokens_def demo_handle_owner_def demo_alice_def KEY_TYPE_PRIMARY_def demo_key_request_def)
qed

theorem unproven_key_takes_sign_in_witness:
  "\<exists>resp s s'. website_verify demo_env demo_cfg (demo_draws 2) legacy_disabled demo_sign_in s = (Inr resp, s') \<and>
     rs_user resp = to_user_info demo_env demo_handle_owner"
proof -
  have u: "fst (extract_user_id_from_token demo_bearer (Some ''Bearer t'') demo_handles) = Inr (u_id demo_handle_owner)"
    "demo_handle_owner \<in> set (users demo_handles)" by (simp_all add: demo_caller demo_handles_def)
  have r: "parse_asset (rk_asset (demo_key_request ''btc'')) = Inr Btc"
    "resolve_key_type Btc (rk_public_key (demo_key_request ''btc'')) (rk_key_type (demo_key_request ''btc'')) = Inr ''primary''"
    by code_simp+
  have none: "\<forall>u \<in> set (users demo_handles). \<not> holds_key demo_handles Btc (rk_public_key (demo_key_request ''btc'')) u"
    by (simp add: holds_key_def demo_handles_def)
  let ?db = "snd (register_key demo_bearer 7 (Some ''Bearer t'') (demo_key_request ''btc'') demo_handles)"
  let ?s = "\<lparr>web_auth = \<lparr>auth_db = ?db, pow_spent = []\<rparr>, web_challenges = [wc_nonce demo_challenge \<mapsto> demo_challenge]\<rparr>"
  have proves: "proves_web_key demo_env ?s demo_sign_in demo_challenge Btc"
  proof -
    have "parse_asset ''btc'' = Inr Btc" by code_simp
    then show ?thesis
      by (simp add: proves_web_key_def demo_sign_in_def demo_challenge_def new_web_challenge_def demo_clock seconds_def demo_signature)
  qed
  have "\<exists>resp s'. website_verify demo_env demo_cfg (demo_draws 2) legacy_disabled demo_sign_in ?s = (Inr resp, s')"
  proof -
    have "\<not> web_challenge_expired (env_clock demo_env) demo_challenge" "parse_asset ''btc'' = Inr Btc"
      using proves by (simp_all add: proves_web_key_def web_challenge_expired_def demo_sign_in_def)
    then show ?thesis
      unfolding demo_registered_key snd_conv
      by (simp add: website_verify_def demo_sign_in_def on_part_def authenticate_signer_def ensure_def demo_signature
          resolve_signer_def resolve_here_def get_user_by_asset_pubkey_def owners_def demo_handles_def
          demo_handle_owner_def demo_alice_def web_session_def issue_session_def demo_ops demo_token_pair create_session_def
          user_ids_def demo_draws_def demo_clock demo_hashes Let_def)
  qed
  then obtain resp s' where run: "website_verify demo_env demo_cfg (demo_draws 2) legacy_disabled demo_sign_in ?s = (Inr resp, s')"
    by blast
  have "web_db ?s = ?db" "as_public_key (wv_signature demo_sign_in) = rk_public_key (demo_key_request ''btc'')"
    by (simp_all add: web_db_def demo_sign_in_def demo_key_request_def)
  from unproven_key_takes_sign_in [OF demo_handles_ok _ u r none this(1) proves this(2) run] run demo_registered_key show ?thesis
    by auto
qed

theorem name_service_publishes_links_witness:
  "\<forall>c. well_known_nostr c (Some ''Bob'') demo_handles = (Inr \<lparr>wk_names = Map.empty, wk_relays = Map.empty\<rparr>, demo_handles)"
proof
  fix c
  have "to_lowercase ''Bob'' = ''bob''" by code_simp
  then have none: "\<forall>r \<in> set (users demo_handles). u_username r \<noteq> Some (to_lowercase ''Bob'')"
    by (simp add: demo_handles_def demo_handle_owner_def)
  have "\<not> db_outage demo_handles" by (simp add: demo_handles_def)
  from name_service_publishes_links [OF demo_handles_ok this, of c "''Bob''"] none
  show "well_known_nostr c (Some ''Bob'') demo_handles = (Inr \<lparr>wk_names = Map.empty, wk_relays = Map.empty\<rparr>, demo_handles)"
    by blast
qed

end
