(* ===== verification/Spec2Isabelle.thy ===== *)
theory Spec2Isabelle
  imports Tip_Scenario Auth_Properties Premium Admin_Properties Slatepack_Properties Erasure_Properties
    Config_Properties Capabilities Member_Properties
begin

text \<open>
  A verification development of the Smirk backend (\<open>src/src\<close>, Rust), a non-custodial wallet backend.

  \<^bold>\<open>The program.\<close> Handlers (\<open>src/src/api\<close>) authenticate a request, validate it and issue SQL statements
  (\<open>src/src/infra/db\<close>). Its money path is the social tip: a sender funds an address, shares a claim
  secret, somebody claims by sweeping the address, and the server only records what happens. Three
  background workers (\<open>src/src/tips\<close>) move a tip along: the funding worker counts confirmations and
  verifies the received amount, the sweep reconciler settles a claimed tip and reverts it after a chain
  reorganisation, the garbage collector cancels what was never funded. They ask chain services through
  the clients of \<open>src/src/infra\<close> (Electrum, light-wallet server, daemon, Grin node). Concurrency is in the
  database: every transition is one guarded \<open>UPDATE\<close>, and workers act on rows they selected earlier.

  \<^bold>\<open>Theories.\<close>
  \<^item> \<open>Prelude\<close>: machine integers (\<open>u64\<close> as \<open>64 word\<close>; \<open>i64\<close>, \<open>i32\<close> as \<open>int\<close> with ranges, saturation and casts
    written out), overflow-checked sums (a panic is \<open>None\<close>), option helpers. \<open>Rust_Text\<close>: the string
    functions of the standard library; the record \<open>crates\<close> of third-party formatting functions.
  \<^item> \<open>App_Error\<close>: \<open>src/src/error.rs\<close>, and Rust's \<open>?\<close>.
  \<^item> \<open>Sql_Table\<close>: single-table statements, with the interfaces \<open>guarded_update\<close> and \<open>one_shot_update\<close>.
    \<open>Tip_Status\<close>: \<open>src/src/models/tip_status.rs\<close>. \<open>Database\<close>: the rows, the schema's checks, widths,
    foreign keys and trigger on \<open>social_tips\<close>, and what a write can change.
  \<^item> \<open>Social_Tips\<close>: every query of \<open>src/src/infra/db/social_tips.rs\<close>; guard and assignment of each
    statement are separate definitions on which the interfaces are interpreted.
  \<^item> \<open>Tip_Lifecycle\<close>: the contract of a tip: the abstract automaton \<open>allowed\<close> (which actor may move a tip
    from which status to which), the terms nobody changes, the row invariant \<open>tip_inv\<close>, and the
    interface \<open>tip_transition\<close> with an interpretation for every statement (\<open>bookkeeping\<close> for those that
    leave what the invariant reads).
  \<^item> \<open>Float64\<close>, \<open>Electrum\<close>: binary64 rounding and \<open>src/src/infra/electrum.rs\<close>. \<open>Chain_Clients\<close>: what
    \<open>src/src/infra/lws\<close>, \<open>grin\<close> compute from the answers of the services.
  \<^item> \<open>Tip_Funding\<close>: \<open>src/src/tips/confirmation.rs\<close>, with the interface \<open>receipt_check\<close> between the verdict
    and the statement it triggers. \<open>Tip_Sweep\<close>: \<open>src/src/tips/sweep_reconciler.rs\<close> and \<open>gc.rs\<close>.
  \<^item> \<open>Auth_Session\<close>: sessions, challenges, tokens and the bearer extractor. \<open>Nip98\<close>: signed requests,
    \<open>src/src/core/crypto/nip98.rs\<close>. \<open>Wallet_Proofs\<close>: wallet signatures and both proofs of work.
  \<^item> \<open>Accounts_Db\<close>: the statements on users, keys, invites, invoices, login events and restore attempts.
    \<open>Auth_Api\<close>: the handlers of \<open>src/src/api/auth.rs\<close>. \<open>Account_Rules\<close>, \<open>Auth_Safety\<close>: what a statement and a
    request may do to accounts, by the interface \<open>effect_bound\<close> of \<open>Actions\<close>; \<open>Auth_Gates\<close>: the gates of a
    registration; \<open>Auth_Properties\<close>: the theorems and a sample deployment.
  \<^item> \<open>Relay_Policy\<close>: admission to the relay, \<open>src/src/infra/relay\<close>. \<open>Premium\<close>: \<open>src/src/api/premium.rs\<close>, its
    statements and the payment processors.
  \<^item> \<open>Json\<close>: JSON values with the interface to the serializer. \<open>Admin_Db\<close>: the statements on admin keys, sessions,
    audit log and bootstrap latch, the integrity codes of \<open>src/src/core/crypto/admin_mac.rs\<close> and the latch at process
    start. \<open>Admin_Audit\<close>: the hash chain. \<open>Admin_Api\<close>: the handlers of \<open>src/src/api/admin.rs\<close> for login, keys and
    invites. \<open>Admin_Safety\<close>, \<open>Admin_Auditing\<close>: what requests keep of the trust anchors and that changes are
    audited, again by \<open>effect_bound\<close>; \<open>Admin_Demo\<close>, \<open>Admin_Properties\<close>: a deployment and the theorems.
  \<^item> \<open>Slatepack_Relay\<close>, \<open>Slatepack_Properties\<close>: the Grin relay of \<open>src/src/api/wallet/grin_relay.rs\<close> and its contract
    \<open>relay_allowed\<close>. \<open>Account_Deletion\<close>: the deletion of a user row with its referential actions; \<open>Erasure\<close>,
    \<open>Erasure_Properties\<close>: \<open>src/src/api/erasure.rs\<close> and \<open>src/src/infra/db/erasure.rs\<close>.
  \<^item> \<open>Config\<close>, \<open>Config_Env\<close>: \<open>src/src/config.rs\<close>, the settings, the restore policy, the validation and their reading
    from the environment. \<open>Config_Overlay\<close>: \<open>src/src/config_overlay.rs\<close>; \<open>Settings_Json\<close>: the JSON form of its sections;
    \<open>Operator_Settings\<close>: \<open>src/src/infra/db/operator_settings.rs\<close>, the effective configuration at process start and the
    configuration editor of the admin plane. \<open>Config_Rules\<close>, \<open>Settings_Rules\<close> (with the interface \<open>section_codec\<close>, which
    each section's JSON form implements), \<open>Config_Console\<close>, \<open>Config_Properties\<close>: their lemmas and theorems.
    \<open>Capabilities\<close>: \<open>src/src/api/capabilities.rs\<close>, \<open>landing.rs\<close>, \<open>health.rs\<close> and the feature view.
  \<^item> \<open>User_Api\<close>: \<open>src/src/api/users.rs\<close> (handles, published keys) and \<open>nip05.rs\<close>. \<open>Website\<close>: the sign-in of
    \<open>src/src/api/website.rs\<close> with the challenge of \<open>src/src/core/session.rs\<close> and \<open>src/src/infra/legacy_directory.rs\<close>.
    \<open>Members\<close>: accounts under all the requests that touch them, with \<open>member_reachable\<close> and \<open>member_entitled\<close>.
  \<^item> \<open>Tips_Api\<close>: the handlers of \<open>src/src/api/tips.rs\<close>.
  \<^item> \<open>Tips_System\<close>: all of it interleaved statement by statement as the relation \<open>tip_step\<close>, the system
    invariant and its preservation; \<open>Tips_Runs\<close>: handlers and worker passes are sequences of steps;
    \<open>Tip_Requests\<close>: the outcome of each request on a row; \<open>Tip_Scenario\<close>: one concrete run, on which the
    general theorems are instantiated.

  \<^bold>\<open>State and operations.\<close> A row is a record with the columns of its table, a statement a function from
  the database to a \<open>Result\<close> and the database after it; \<open>NOW()\<close> is the field \<open>db_now\<close>, an outage the field
  \<open>db_outage\<close>. A handler is a statement of the caller's header and body. A worker function takes the row
  it holds apart from the database. Loops over rows are folds, loops over lists recursive functions;
  no fuel is used: every function here is total.

  \<^bold>\<open>What is shown.\<close> For tips, in every reachable state of every interleaving: claimable tips are covered by
  a verified receipt, statuses move only along the contract and only by the actor it names, terminal
  states are final, settlement is recorded consistently, targeted tips reach only their recipient; all
  handlers and passes stay within these states; and the workers' decisions, the outcomes of requests
  and of outages. For accounts, in every reachable state: identities are unique, an account changes
  only for whoever proves control of it, gate tokens are spent exactly for accounts; tokens, nonces,
  puzzle solutions and invoices work once; the restore oracle is throttled. For the relay and premium:
  who is admitted and what a payment buys. For the admin plane, in every reachable state: the audit chain,
  the integrity codes and the latch verify, changes of authority are audited, a revoked administrator is out,
  logins are proved once, the last key is not removed over the network; and which tampering the chain detects.
  For the slatepack relay: every step follows the contract, strangers learn nothing, an exchange completes. For
  erasure: only a due request its owner confirmed is executed and nothing of the account is left. For the
  Electrum client: amounts, failover and addresses. For the configuration: what starts is safe to serve, edits reach
  editable fields only, are merged field by field, never lost, sealed, and never desynchronise the running process;
  the restore policy is exact; an instance advertises only what it serves.
  The theorems on the wrapping depth test, on sweeps of targeted tips, on the deletion of a recipient, on
  blocked erasures, on cutting the audit log, on the last usable admin key and on a settings section that does not
  decode state behaviour that differs from what the code or its comments intend.

  \<^bold>\<open>Bounds.\<close> Strings are bytes; case mapping and trimming act on ASCII; a \<open>VARCHAR\<close> width counts bytes, as it
  does for the ASCII values the columns hold. The key \<open>gen_random_uuid()\<close> draws is an argument; the step
  relation takes it never to repeat.

  \<^bold>\<open>Not modelled.\<close> HTTP routing and serialisation, TLS and sockets, logging, metrics,
  and the contents of third-party crates (hashes, signatures, JWT, JSON, base64, address codecs), which
  are parameters. Not yet modelled: wallet endpoints, delegated verification and
  prices.
\<close>

section \<open>Money safety of the tips subsystem\<close>

text \<open>C1. In every reachable state, a tip that can be claimed, is being claimed or was claimed
  (pending, claiming, claimed) has a funding transaction and a verified receipt of at least
  the amount its sender declared, and the declared amount is positive.\<close>

theorem claimable_tips_are_funded:
  assumes "reachable s" "r \<in> set (social_tips (sys_db s))"
    and "status r \<in> {as_str Pending, as_str Claiming, as_str Claimed}"
  shows "0 < amount r \<and> funding_txid r \<noteq> None \<and> funding_amount_verified r \<and>
    (\<exists>obs. funding_amount_observed r = Some obs \<and> amount r \<le> obs)"
proof -
  from assms(3) tip_inv_state [OF reachable_tip(1) [OF assms(1,2)]] have "covered r" by auto
  with reachable_tip(4) [OF assms(1,2)] show ?thesis
    by (auto simp: covered_def party_inv_def split: option.splits)
qed

theorem claimable_tips_are_funded_witness:
  "0 < amount ex_row4 \<and> funding_txid ex_row4 \<noteq> None \<and> funding_amount_verified ex_row4 \<and>
    (\<exists>obs. funding_amount_observed ex_row4 = Some obs \<and> amount ex_row4 \<le> obs)"
proof (rule claimable_tips_are_funded [OF ex_reachable(4)])
  show "ex_row4 \<in> set (social_tips (sys_db (ex_at ex_row4)))" by simp
  show "status ex_row4 \<in> {as_str Pending, as_str Claiming, as_str Claimed}" by code_simp
qed

text \<open>C2. Refinement: whatever statement runs in a reachable state, on behalf of whom and on
  whatever stale row a worker acts, a tip present before and after keeps its terms (sender,
  asset, amount, addresses, keys, recipient) and its status moves only along the abstract
  automaton \<open>allowed\<close>, with the actor that edge requires.\<close>

theorem every_statement_follows_lifecycle:
  assumes "reachable s" "tip_step s a s'"
    and "r \<in> set (social_tips (sys_db s))" "r' \<in> set (social_tips (sys_db s'))"
    and "row_id r' = row_id r"
  shows "terms r' = terms r \<and> allowed r a (abs_status r) (abs_status r')"
  using reachable_move [OF assms] by blast

theorem every_statement_follows_lifecycle_witness:
  "terms ex_row4 = terms ex_row3 \<and> allowed ex_row3 (User bob) (abs_status ex_row3) (abs_status ex_row4)"
  by (rule every_statement_follows_lifecycle [OF ex_reachable(3) ex_step4]) simp_all

text \<open>Only the sender takes a tip back: when a statement turns a tip into clawed\_back, its
  actor is the tip's sender, and the tip was neither settled nor an unfunded draft.\<close>

theorem only_sender_claws_back:
  assumes "reachable s" "tip_step s a s'"
    and "r \<in> set (social_tips (sys_db s))" "r' \<in> set (social_tips (sys_db s'))"
    and "row_id r' = row_id r" "abs_status r' = ClawedBack" "abs_status r \<noteq> ClawedBack"
  shows "a = User (sender_user_id r) \<and> abs_status r \<noteq> Claimed \<and> abs_status r \<noteq> Draft"
proof -
  from reachable_move(2) [OF assms(1-5)] assms(6) have "allowed r a (abs_status r) ClawedBack" by simp
  then show ?thesis using assms(7) by (auto elim: allowed_to_ClawedBackE)
qed

theorem only_sender_claws_back_witness:
  "User alice = User (sender_user_id ex_row3) \<and> abs_status ex_row3 \<noteq> Claimed \<and> abs_status ex_row3 \<noteq> Draft"
  by (rule only_sender_claws_back [OF ex_reachable(3) ex_step_clawed, of _ ex_clawed])
     (simp_all add: ex_status)

text \<open>A clawed-back tip stays clawed back, whatever runs afterwards.\<close>

theorem clawed_back_is_final:
  assumes "reachable s" "tip_steps s s'"
    and "r \<in> set (social_tips (sys_db s))" "r' \<in> set (social_tips (sys_db s'))"
    and "row_id r' = row_id r" "abs_status r = ClawedBack"
  shows "abs_status r' = ClawedBack"
proof -
  from reachable_path [OF assms(1-5)] assms(6) have "lifecycle_path r ClawedBack (abs_status r')" by simp
  then have "abs_status r' \<in> {ClawedBack}"
    by (rule lifecycle_path_closed) (auto elim: allowed_from_ClawedBackE)
  then show ?thesis by simp
qed

theorem clawed_back_is_final_witness: "abs_status ex_clawed = ClawedBack"
  by (rule clawed_back_is_final [OF ex_reachable(7) tip_steps_same, of ex_clawed])
     (simp_all add: ex_status)

text \<open>A tip whose receipt fell short of the declared amount never becomes claimable: from
  funding\_mismatch the only way on is the sender's clawback.\<close>

theorem mismatch_never_claimable:
  assumes "reachable s" "tip_steps s s'"
    and "r \<in> set (social_tips (sys_db s))" "r' \<in> set (social_tips (sys_db s'))"
    and "row_id r' = row_id r" "abs_status r = FundingMismatch"
  shows "abs_status r' \<in> {FundingMismatch, ClawedBack}"
proof -
  from reachable_path [OF assms(1-5)] assms(6)
  have "lifecycle_path r FundingMismatch (abs_status r')" by simp
  then show ?thesis
    by (rule lifecycle_path_closed) (auto elim: allowed_from_ClawedBackE allowed_from_MismatchE)
qed

theorem mismatch_never_claimable_witness: "abs_status ex_short \<in> {FundingMismatch, ClawedBack}"
  by (rule mismatch_never_claimable [OF ex_reachable(8) tip_steps_same, of ex_short])
     (simp_all add: ex_status)

text \<open>C4. Settlement bookkeeping: in every reachable state a tip is claimed exactly when its
  sweep is confirmed, and then it records the sweep transaction, its height and the claim time;
  it is clawed back exactly when the clawback time is set, and never both.\<close>

theorem settled_iff_sweep_confirmed:
  assumes "reachable s" "r \<in> set (social_tips (sys_db s))"
  shows "(status r = as_str Claimed \<longleftrightarrow> sweep_confirmed_at r \<noteq> None) \<and>
    (sweep_confirmed_at r \<noteq> None \<longrightarrow>
       sweep_txid r \<noteq> None \<and> sweep_block_height r \<noteq> None \<and> claimed_at r \<noteq> None) \<and>
    (status r = as_str ClawedBack \<longleftrightarrow> clawed_back_at r \<noteq> None)"
  using reachable_tip(2,3) [OF assms]
  by (cases "abs_status r") (simp_all add: phase_defs)

theorem settled_iff_sweep_confirmed_witness:
  "status ex_row6 = as_str Claimed \<and> sweep_confirmed_at ex_row6 \<noteq> None \<and> sweep_txid ex_row6 \<noteq> None \<and>
    sweep_block_height ex_row6 \<noteq> None \<and> claimed_at ex_row6 \<noteq> None \<and> clawed_back_at ex_row6 = None"
proof -
  have "status ex_row6 = as_str Claimed" "status ex_row6 \<noteq> as_str ClawedBack" by code_simp+
  with settled_iff_sweep_confirmed [OF ex_reachable(6), of ex_row6] show ?thesis by simp
qed

text \<open>C5. A targeted tip is only ever attributed to the user it is addressed to: in every
  reachable state a tip is public exactly when it has no recipient, and the claimer recorded on
  a tip that is not public is its recipient.\<close>

theorem targeted_tip_claimer_is_recipient:
  assumes "reachable s" "r \<in> set (social_tips (sys_db s))"
  shows "(is_public r \<longleftrightarrow> recipient_user_id r = None) \<and>
    (\<not> is_public r \<longrightarrow> claimed_by_user_id r = None \<or> claimed_by_user_id r = recipient_user_id r)"
  using reachable_tip(4) [OF assms] by (auto simp: party_inv_def)

theorem targeted_tip_claimer_is_recipient_witness:
  "\<not> is_public ex_trow4 \<and> recipient_user_id ex_trow4 = Some bob \<and> claimed_by_user_id ex_trow4 = recipient_user_id ex_trow4"
proof -
  have "claimed_by_user_id ex_trow4 \<noteq> None" by code_simp
  with targeted_tip_claimer_is_recipient [OF ex_treachable(4), of ex_trow4] show ?thesis
    by (simp add: ex_trow_facts)
qed

section \<open>Handlers and workers stay inside the contract\<close>

text \<open>C6. Every request handler that changes a tip, run in a reachable state by whatever caller
  and with whatever arguments, ends in a reachable state, so all of the above holds after it.
  For creation, the key the database draws is one it never drew before.\<close>

theorem handlers_stay_reachable:
  assumes "reachable s" "in_i64 (q_amount req)" "k \<notin> set (drawn s)"
  shows "reachable (with_db s (snd (api_cancel_social_tip lib cfg header i (sys_db s)))) \<and>
    reachable (with_db s (snd (api_attach_funding lib cfg header i txid (sys_db s)))) \<and>
    reachable (with_db s (snd (api_claim_social_tip lib cfg header i (sys_db s)))) \<and>
    reachable (with_db s (snd (api_confirm_sweep lib cfg header i txid (sys_db s)))) \<and>
    reachable (with_db s (snd (api_clawback_social_tip lib cfg header i (sys_db s)))) \<and>
    (\<exists>ds. reachable (s\<lparr>sys_db := snd (api_create_social_tip lib cfg k header req (sys_db s)), drawn := ds\<rparr>))"
proof -
  from api_create_steps [OF assms(2,3), of lib cfg header] obtain ds where
    "tip_steps s (s\<lparr>sys_db := snd (api_create_social_tip lib cfg k header req (sys_db s)), drawn := ds\<rparr>)" ..
  from reachable_steps [OF this assms(1)] show ?thesis
    by (intro conjI exI reachable_steps [OF api_cancel_steps assms(1)]
        reachable_steps [OF api_attach_steps assms(1)] reachable_steps [OF api_claim_steps assms(1)]
        reachable_steps [OF api_confirm_sweep_steps assms(1)]
        reachable_steps [OF api_clawback_steps assms(1)])
qed

theorem handlers_stay_reachable_witness:
  "reachable (with_db (ex_at ex_row3)
     (snd (api_claim_social_tip ex_lib ex_cfg (Some ''Bearer bob'') ex_tip (sys_db (ex_at ex_row3)))))"
  by (rule handlers_stay_reachable [where req = ex_req and k = 9, OF ex_reachable(3),
        THEN conjunct2, THEN conjunct2, THEN conjunct1])
     (simp_all add: ex_req_def int_range_defs ex_tip_def)

text \<open>C7. Every background pass (money-in, sweep confirmation, reorg check, both garbage
  collections), on whatever the chain services answer, ends in a reachable state; the money-in
  pass also when it panics part way.\<close>

theorem worker_cycles_stay_reachable:
  assumes "reachable s"
  shows "(\<exists>hs. reachable (s\<lparr>sys_db := snd (run_tip_confirmation_cycle ch (sys_db s)), held := hs\<rparr>)) \<and>
    (\<exists>hs. reachable (s\<lparr>sys_db := run_confirm_cycle locked ch (sys_db s), held := hs\<rparr>)) \<and>
    (\<exists>hs. reachable (s\<lparr>sys_db := run_reorg_cycle locked ch (sys_db s), held := hs\<rparr>)) \<and>
    reachable (with_db s (run_tip_draft_gc_cycle (sys_db s))) \<and>
    reachable (with_db s (run_tip_lifecycle_gc_cycle (sys_db s)))"
proof (intro conjI)
  note go = reachable_steps [OF _ assms]
  show "\<exists>hs. reachable (s\<lparr>sys_db := snd (run_tip_confirmation_cycle ch (sys_db s)), held := hs\<rparr>)"
    using run_tip_confirmation_cycle_steps [of s ch] by (blast intro: go)
  show "\<exists>hs. reachable (s\<lparr>sys_db := run_confirm_cycle locked ch (sys_db s), held := hs\<rparr>)"
    using run_confirm_cycle_steps [of s locked ch] by (blast intro: go)
  show "\<exists>hs. reachable (s\<lparr>sys_db := run_reorg_cycle locked ch (sys_db s), held := hs\<rparr>)"
    using run_reorg_cycle_steps [of s locked ch] by (blast intro: go)
  show "reachable (with_db s (run_tip_draft_gc_cycle (sys_db s)))"
    by (rule go [OF gc_cycles_steps(1)])
  show "reachable (with_db s (run_tip_lifecycle_gc_cycle (sys_db s)))"
    by (rule go [OF gc_cycles_steps(2)])
qed

theorem worker_cycles_stay_reachable_witness:
  "\<exists>hs. reachable ((ex_at ex_row5)\<lparr>sys_db :=
     run_confirm_cycle False (ex_chain [ex_receipt, ex_sweep] 160) (sys_db (ex_at ex_row5)), held := hs\<rparr>)"
  by (rule worker_cycles_stay_reachable [OF ex_reachable(5), THEN conjunct2, THEN conjunct1])

section \<open>The workers\<close>

text \<open>The reconciler settles a tip only for a reason: if processing a held row turns some tip
  into claimed, that tip is the held one, it was in claiming, the chain probe succeeded, its earliest
  spend passed the depth test, and that spend's transaction is the one recorded.\<close>

theorem settles_only_deep_sweep:
  assumes "reachable s" "r \<in> set (social_tips (sys_db s))"
    and "r' \<in> set (social_tips (process_awaiting_tip ch tip (sys_db s)))" "row_id r' = row_id r"
    and "status r \<noteq> as_str Claimed" "status r' = as_str Claimed"
  shows "\<exists>spends h w. probe_confirmed_spends ch tip = Inr (spends, h) \<and> pick_winner spends = Some w \<and>
    deep_enough (to_lowercase (asset tip)) h (cs_block_height w) \<and>
    row_id r = row_id tip \<and> status r = as_str Claiming \<and> sweep_txid r' = Some (cs_txid w)"
proof -
  note d = reachable_unique(1) [OF assms(1)]
  show ?thesis
  proof (cases rule: process_awaiting_tip_cases [of ch tip "sys_db s"])
    case touched
    with rows_keptD [OF touch_kept [OF d] assms(2) _ assms(4)] assms(3) have "core r' = core r" by simp
    with core_fields(2) assms(5,6) show ?thesis by metis
  next
    case (deep spends h w)
    from settle_then_dm_row [OF d assms(2,4) assms(3) [unfolded deep(4)]] show ?thesis
    proof
      assume "core r' = core r"
      with core_fields(2) assms(5,6) show ?thesis by metis
    qed (use deep in \<open>auto simp: unsettled_def\<close>)
  qed
qed

theorem settles_only_deep_sweep_witness:
  "\<exists>spends h w. probe_confirmed_spends (ex_chain [ex_receipt, ex_sweep] 160) ex_row1 = Inr (spends, h) \<and>
    pick_winner spends = Some w \<and> deep_enough (to_lowercase (asset ex_row1)) h (cs_block_height w) \<and>
    row_id ex_row5 = row_id ex_row1 \<and> status ex_row5 = as_str Claiming \<and>
    sweep_txid ex_row6' = Some (cs_txid w)"
proof (rule settles_only_deep_sweep [OF ex_reachable(5)])
  show "ex_row6' \<in> set (social_tips (process_awaiting_tip (ex_chain [ex_receipt, ex_sweep] 160) ex_row1
      (sys_db (ex_at ex_row5))))"
    unfolding ex_process_awaiting by simp
qed (simp_all add: ex_status_strings ex_row6'_id)

text \<open>A chain service that cannot be reached never moves money: when the probe of a tip fails, or
  the receipt check answers that it could not tell, that nothing arrived or that the funds already
  left, no tip changes in any column the contract reads.\<close>

theorem chain_failure_changes_nothing:
  assumes "reachable s" "probe_confirmed_spends ch tip = Inl e"
    and "v \<in> {LwsError, Unfunded} \<or> (\<exists>net out. v = Drained net out)"
  shows "rows_kept (sys_db s) (process_awaiting_tip ch tip (sys_db s)) \<and>
    rows_kept (sys_db s) (process_settled_tip ch tip (sys_db s)) \<and>
    rows_kept (sys_db s) (apply_verification v i (sys_db s))"
  using touch_kept [OF reachable_unique(1) [OF assms(1)]] assms(2,3)
  by (auto simp: process_awaiting_tip_def process_settled_tip_def split: option.splits)

theorem chain_failure_changes_nothing_witness:
  "rows_kept (sys_db (ex_at ex_row5)) (process_awaiting_tip ex_down ex_row5 (sys_db (ex_at ex_row5))) \<and>
    rows_kept (sys_db (ex_at ex_row5)) (process_settled_tip ex_down ex_row5 (sys_db (ex_at ex_row5))) \<and>
    rows_kept (sys_db (ex_at ex_row5)) (apply_verification (Drained 1 4) ex_tip (sys_db (ex_at ex_row5)))"
  by (rule chain_failure_changes_nothing [OF ex_reachable(5) ex_down_probe]) simp

text \<open>A settled tip is reverted only on evidence: if the reorg check takes a tip out of claimed,
  the tip is the held one, the chain probe succeeded and the recorded sweep transaction is not among
  the confirmed spends; the tip then is back in claiming and keeps the recorded transaction.\<close>

theorem reorg_reverts_only_missing_sweep:
  assumes "reachable s" "r \<in> set (social_tips (sys_db s))"
    and "r' \<in> set (social_tips (process_settled_tip ch tip (sys_db s)))" "row_id r' = row_id r"
    and "status r = as_str Claimed" "status r' \<noteq> as_str Claimed"
  shows "\<exists>txid spends h. sweep_txid tip = Some txid \<and> probe_confirmed_spends ch tip = Inr (spends, h) \<and>
    txid \<notin> cs_txid ` set spends \<and> row_id r = row_id tip \<and>
    status r' = as_str Claiming \<and> sweep_txid r' = sweep_txid r"
proof -
  note d = reachable_unique(1) [OF assms(1)]
  show ?thesis
  proof (cases rule: process_settled_tip_cases [of ch tip "sys_db s"])
    case touched
    with rows_keptD [OF touch_kept [OF d] assms(2) _ assms(4)] assms(3) have "core r' = core r" by simp
    with core_fields(2) assms(5,6) show ?thesis by metis
  next
    case (missing txid spends h)
    from revert_then_dm_row [OF d assms(2,4) assms(3) [unfolded missing(4)]] show ?thesis
    proof
      assume "core r' = core r"
      with core_fields(2) assms(5,6) show ?thesis by metis
    qed (use missing in auto)
  qed
qed

theorem reorg_reverts_only_missing_sweep_witness:
  "\<exists>txid spends h. sweep_txid ex_row6 = Some txid \<and>
    probe_confirmed_spends (ex_chain [ex_receipt] 160) ex_row6 = Inr (spends, h) \<and>
    txid \<notin> cs_txid ` set spends \<and> row_id ex_row6 = row_id ex_row6 \<and>
    status ex_row7' = as_str Claiming \<and> sweep_txid ex_row7' = sweep_txid ex_row6"
proof (rule reorg_reverts_only_missing_sweep [OF ex_reachable(6)])
  show "ex_row7' \<in> set (social_tips (process_settled_tip (ex_chain [ex_receipt] 160) ex_row6
      (sys_db (ex_at ex_row6))))"
    unfolding ex_process_settled by simp
qed (simp_all add: ex_status_strings ex_row7_facts)

section \<open>Requests\<close>

text \<open>The inbox never offers a claim that is then refused: in a reachable state, for every tip the
  claimable listing returns to a user, that user's claim request succeeds and hands over the tip's
  encrypted key and address.\<close>

theorem claimable_listing_is_claimable:
  assumes "reachable s" "fst (get_claimable_social_tips u (sys_db s)) = Inr rows" "r \<in> set rows"
    and "tip_row_ok (sys_db s) r" "features_tips cfg"
    and "fst (extract_user_id_from_token lib header (sys_db s)) = Inr u"
  shows "fst (api_claim_social_tip lib cfg header (row_id r) (sys_db s)) =
    Inr \<lparr>ct_success = True, ct_encrypted_key = map_option (hex_encode lib) (encrypted_key r),
         ct_tip_address = tip_address r\<rparr>"
proof -
  from assms(2,3) have r: "\<not> db_outage (sys_db s)" "r \<in> set (social_tips (sys_db s))"
    "claimable_by_recipient u r"
    by (auto simp: get_claimable_social_tips_def)
  then have "claimable u r" by (auto simp: claimable_by_recipient_def claimable_def)
  moreover have "u \<in> set (user_ids (sys_db s))"
    using assms(4) r(3) by (auto simp: tip_row_ok_def tip_refs_ok_def user_ref_ok_def claimable_by_recipient_def)
  ultimately have "fst (mark_tip_claiming (row_id r) u (sys_db s)) =
      Inr (Some (tip_write (db_now (sys_db s)) (set_claiming (db_now (sys_db s)) u) r))"
    using mark_tip_claiming_outcome [OF reachable_row_at [OF assms(1) r(2,1) assms(4)]] by simp
  then show ?thesis
    by (cases "mark_tip_claiming (row_id r) u (sys_db s)")
       (simp add: api_claim_social_tip_def authed_user [OF assms(6,5)] stmt_bind_def
          tip_write_def set_claiming_def)
qed

theorem claimable_listing_is_claimable_witness:
  "fst (api_claim_social_tip ex_lib ex_cfg (Some ''Bearer bob'') (row_id ex_trow3) (sys_db (ex_tat ex_trow3))) =
    Inr \<lparr>ct_success = True, ct_encrypted_key = map_option (hex_encode ex_lib) (encrypted_key ex_trow3),
         ct_tip_address = tip_address ex_trow3\<rparr>"
proof (rule claimable_listing_is_claimable [OF ex_treachable(3)])
  show "fst (get_claimable_social_tips bob (sys_db (ex_tat ex_trow3))) = Inr [ex_trow3]"
    "fst (extract_user_id_from_token ex_lib (Some ''Bearer bob'') (sys_db (ex_tat ex_trow3))) = Inr bob"
    by code_simp+
qed (simp_all add: ex_trow_facts ex_cfg_def)

text \<open>The sender's recourse: in a reachable state the sender's clawback request succeeds exactly for
  a tip that is funding, pending, being claimed, short-funded or cancelled, and is refused with
  'tip not clawable' for an unfunded draft, a settled and a clawed-back tip, and for anybody else.\<close>

theorem clawback_available_until_settled:
  assumes "reachable s" "r \<in> set (social_tips (sys_db s))" "\<not> db_outage (sys_db s)"
    and "tip_row_ok (sys_db s) r" "features_tips cfg"
    and "fst (extract_user_id_from_token lib header (sys_db s)) = Inr u"
  shows "fst (api_clawback_social_tip lib cfg header (row_id r) (sys_db s)) =
    (if u = sender_user_id r \<and> abs_status r \<notin> {Draft, Claimed, ClawedBack} then Inr True
     else Inl (ValidationError ''tip not clawable''))"
proof -
  have c: "clawable u r \<longleftrightarrow> u = sender_user_id r \<and> abs_status r \<notin> {Draft, Claimed, ClawedBack}"
    using reachable_tip(2,3) [OF assms(1,2)]
    by (cases "abs_status r") (auto simp: clawable_def phase_defs)
  show ?thesis
    using clawback_outcome [OF reachable_row_at [OF assms(1-4)], of u]
    by (cases "clawback_social_tip (row_id r) u (sys_db s)")
       (simp add: api_clawback_social_tip_def authed_user [OF assms(6,5)] stmt_bind_def c ok_or_def)
qed

theorem clawback_available_until_settled_witness:
  "fst (api_clawback_social_tip ex_lib ex_cfg (Some ''Bearer alice'') (row_id ex_row4) (sys_db (ex_at ex_row4))) =
    (if alice = sender_user_id ex_row4 \<and> abs_status ex_row4 \<notin> {Draft, Claimed, ClawedBack} then Inr True
     else Inl (ValidationError ''tip not clawable''))"
proof (rule clawback_available_until_settled [OF ex_reachable(4)])
  show "fst (extract_user_id_from_token ex_lib (Some ''Bearer alice'') (sys_db (ex_at ex_row4))) = Inr alice"
    by code_simp
qed (simp_all add: ex_rows_ok ex_cfg_def)

text \<open>First recorder wins: once a sweep transaction is on a tip, a later request to record another
  one changes nothing and is answered with the one on record.\<close>

theorem first_recorded_sweep_wins:
  assumes "row_at db i r" "sweep_txid r = Some t" "t' \<noteq> t" "u \<in> set (user_ids db)" "length t' \<le> 128"
    and "status r \<in> {as_str Claiming, as_str Claimed}"
  shows "confirm_tip_sweep i u t' db = (Inr (Some r), db)"
  using confirm_tip_sweep_outcome [OF assms(1,4,5)] assms(2,3,6) by (simp add: sweep_recordable_def)

theorem first_recorded_sweep_wins_witness:
  "confirm_tip_sweep ex_tip alice ''other'' (sys_db (ex_at ex_row5)) = (Inr (Some ex_row5), sys_db (ex_at ex_row5))"
proof (rule first_recorded_sweep_wins)
  show "row_at (sys_db (ex_at ex_row5)) ex_tip ex_row5"
    by (simp add: row_at_def lookup_key_def ex_rows_ok)
  show "sweep_txid ex_row5 = Some ''sweep1''" "alice \<in> set (user_ids (sys_db (ex_at ex_row5)))"
    by code_simp+
qed (simp_all add: ex_status_strings)

text \<open>Attaching a funding transaction, on every branch: not the sender's tip is a 404; the sender's
  unfunded draft gets the transaction and enters pending\_confirmation; the same transaction again
  returns the tip with status and transaction unchanged; another transaction, or a tip past draft
  without one, is a validation error.\<close>

theorem attach_funding_outcomes:
  assumes "row_at db i r" "length txid \<le> 128"
  shows "case fst (attach_funding_to_tip lib i u txid db) of
      Inr r' \<Rightarrow> sender_user_id r = u \<and> funding_txid r' = Some txid \<and> terms r' = terms r \<and>
        (if funding_txid r = None then status r = as_str Draft \<and> status r' = as_str PendingConfirmation
         else funding_txid r = Some txid \<and> status r' = status r)
    | Inl e \<Rightarrow>
        (sender_user_id r \<noteq> u \<and>
           e = NotFound (''Tip '' @ uuid_to_string lib i @ '' not found or not yours'')) \<or>
        (sender_user_id r = u \<and> (\<exists>m. e = ValidationError m) \<and> funding_txid r \<noteq> Some txid \<and>
           (funding_txid r \<noteq> None \<or> status r \<noteq> as_str Draft))"
  unfolding attach_outcome [OF assms]
  by (auto simp: fundable_def tip_write_def set_funding_def Let_def terms_def split: option.splits)

theorem attach_funding_outcomes_witness:
  "case fst (attach_funding_to_tip ex_lib ex_tip alice ''fund1'' (sys_db (ex_at ex_row1))) of
      Inr r' \<Rightarrow> sender_user_id ex_row1 = alice \<and> funding_txid r' = Some ''fund1'' \<and> terms r' = terms ex_row1 \<and>
        (if funding_txid ex_row1 = None
         then status ex_row1 = as_str Draft \<and> status r' = as_str PendingConfirmation
         else funding_txid ex_row1 = Some ''fund1'' \<and> status r' = status ex_row1)
    | Inl e \<Rightarrow>
        (sender_user_id ex_row1 \<noteq> alice \<and>
           e = NotFound (''Tip '' @ uuid_to_string ex_lib ex_tip @ '' not found or not yours'')) \<or>
        (sender_user_id ex_row1 = alice \<and> (\<exists>m. e = ValidationError m) \<and> funding_txid ex_row1 \<noteq> Some ''fund1'' \<and>
           (funding_txid ex_row1 \<noteq> None \<or> status ex_row1 \<noteq> as_str Draft))"
  by (rule attach_funding_outcomes) (simp_all add: row_at_def lookup_key_def ex_rows_ok)

text \<open>What creating a tip stores: exactly one row is appended, under the key the database drew, sent by
  the authenticated caller, public exactly when the request is (a targeted request never becomes a
  public tip), with a positive amount, a lower-case asset enabled on this instance, a draft exactly
  when no funding transaction came with it, and reading that key back gives the row.\<close>

theorem create_stores_what_was_asked:
  assumes "api_create_social_tip lib cfg i header req db = (Inr resp, db')"
  shows "\<exists>u r. fst (extract_user_id_from_token lib header db) = Inr u \<and>
    social_tips db' = social_tips db @ [r] \<and> row_id r = i \<and> sender_user_id r = u \<and>
    (is_public r \<longleftrightarrow> q_is_public req) \<and> 0 < amount r \<and> amount r = q_amount req \<and>
    asset r = to_lowercase (q_asset req) \<and> supported_tip_asset cfg (asset r) \<and>
    status r = as_str (if non_empty (q_funding_txid req) = None then Draft else PendingConfirmation) \<and>
    p_status resp = status r \<and> fst (get_social_tip i db') = Inr (Some r)"
proof -
  from authed_Inr [OF assms [unfolded api_create_social_tip_def]] obtain u rcpt db1 new r where
    u: "fst (extract_user_id_from_token lib header db) = Inr u"
    and rcpt: "(if q_is_public req then stmt_return (Inr None)
      else stmt_bind (resolve_tip_recipient cfg req) (\<lambda>r. stmt_return (Inr (Some r)))) db = (Inr rcpt, db1)"
    and new: "new_tip_of_request lib cfg u rcpt req = Inr new"
    and ins: "(if n_funding_txid new = None then create_draft_social_tip i new
      else create_social_tip i new) db1 = (Inr r, db')"
    and resp: "resp = tip_response lib cfg r"
    by (auto simp only: stmt_bind_Inr stmt_return_simps prod.inject sum.inject)
  have "d = db" if "resolve_tip_recipient cfg req db = (Inr x, d)" for x d
    using snd_resolve_tip_recipient [of cfg req db] that by (metis snd_conv)
  with rcpt have db1: "db1 = db" by (auto simp: stmt_bind_Inr split: if_splits)
  from rcpt have pub: "rcpt = None \<longleftrightarrow> q_is_public req" by (auto simp: stmt_bind_Inr split: if_splits)
  note n = new_tip_of_request_Inr [OF new]
  from ins have ins': "insert_social_tip i new
      (if non_empty (q_funding_txid req) = None then Draft else PendingConfirmation) db = (Inr r, db')"
    by (auto simp: db1 create_draft_social_tip_def create_social_tip_def n(8) split: if_splits)
  with u n pub resp get_after_insert [OF ins'] show ?thesis
    by (auto simp: insert_social_tip_Inr new_tip_row_def tip_response_def)
qed

theorem create_stores_what_was_asked_witness:
  "\<exists>u r. fst (extract_user_id_from_token ex_lib (Some ''Bearer alice'') ex_db0) = Inr u \<and>
    social_tips (snd (api_create_social_tip ex_lib ex_cfg ex_tip (Some ''Bearer alice'') ex_req ex_db0)) =
      social_tips ex_db0 @ [r] \<and> row_id r = ex_tip \<and> sender_user_id r = u \<and>
    (is_public r \<longleftrightarrow> q_is_public ex_req) \<and> 0 < amount r \<and> amount r = q_amount ex_req \<and>
    asset r = to_lowercase (q_asset ex_req) \<and> supported_tip_asset ex_cfg (asset r) \<and>
    status r = as_str (if non_empty (q_funding_txid ex_req) = None then Draft else PendingConfirmation) \<and>
    p_status (ex_created) = status r \<and>
    fst (get_social_tip ex_tip (snd (api_create_social_tip ex_lib ex_cfg ex_tip (Some ''Bearer alice'') ex_req ex_db0)))
      = Inr (Some r)"
proof (rule create_stores_what_was_asked)
  have "fst (api_create_social_tip ex_lib ex_cfg ex_tip (Some ''Bearer alice'') ex_req ex_db0) = Inr ex_created"
    by code_simp
  then show "api_create_social_tip ex_lib ex_cfg ex_tip (Some ''Bearer alice'') ex_req ex_db0 =
      (Inr ex_created, snd (api_create_social_tip ex_lib ex_cfg ex_tip (Some ''Bearer alice'') ex_req ex_db0))"
    by (metis prod.collapse)
qed

text \<open>An instance that has not turned targeted tips on refuses every targeted request and creates
  nothing, whatever else the request says.\<close>

theorem targeted_off_creates_nothing:
  assumes "\<not> features_targeted_tips cfg" "\<not> q_is_public req"
  shows "\<exists>e. api_create_social_tip lib cfg i header req db = (Inl e, db)"
  unfolding api_create_social_tip_def
  by (cases rule: authed_cases [of lib cfg header _ db])
     (use assms in \<open>auto simp: stmt_bind_def resolve_tip_recipient_def\<close>)

theorem targeted_off_creates_nothing_witness:
  "\<exists>e. api_create_social_tip ex_lib (ex_cfg\<lparr>features_targeted_tips := False\<rparr>) ex_tip (Some ''Bearer alice'')
     ex_treq ex_db0 = (Inl e, ex_db0)"
  by (rule targeted_off_creates_nothing) (simp_all add: ex_treq_def)

text \<open>A targeted tip's sweep cannot be recorded: the recording statement only matches public tips, so
  although the recipient can claim, every attempt to record the sweep transaction of a tip that is not
  public leaves the database as it was, and a Grin tip without a recorded transaction is never seen as
  swept by the probe.\<close>

theorem targeted_sweep_never_recorded:
  assumes "row_at db i r" "\<not> is_public r"
  shows "snd (confirm_tip_sweep i u txid db) = db \<and>
    (sweep_txid tip = None \<longrightarrow> probe_grin_spends ch tip = Inr (spends, h) \<longrightarrow> spends = [])"
proof -
  have "fst (update_tip i (sweep_recordable txid) (record_sweep (db_now db) u txid) db) = Inr None"
    using assms update_tip_result [of db i r] by (simp add: row_at_def sweep_recordable_def)
  then have "snd (confirm_tip_sweep i u txid db) = db"
    unfolding write_of_record by (intro update_tip_refused) simp
  moreover have "spends = []" if "sweep_txid tip = None" "probe_grin_spends ch tip = Inr (spends, h)"
    using that by (auto simp: probe_grin_spends_def Let_def option_filter_def split: if_splits)
  ultimately show ?thesis by blast
qed

theorem targeted_sweep_never_recorded_witness:
  "snd (confirm_tip_sweep ex_tip bob ''sweep1'' (sys_db (ex_tat ex_trow4))) = sys_db (ex_tat ex_trow4)"
  by (rule targeted_sweep_never_recorded [THEN conjunct1, of _ _ ex_trow4])
     (simp_all add: row_at_def lookup_key_def ex_trow_facts)

text \<open>Deleting the account of a targeted tip's recipient fails: the schema's \<open>ON DELETE SET NULL\<close>
  would leave a targeted tip without recipient, which its own check forbids, so the delete is refused
  as a whole as long as the tip exists.\<close>

theorem recipient_of_targeted_tip_cannot_be_deleted:
  assumes "r \<in> set (social_tips db)" "\<not> is_public r" "recipient_user_id r = Some u" "sender_user_id r \<noteq> u"
  shows "\<exists>m. delete_user u db = (Inl (DatabaseError m), db)"
proof -
  have "forget_user (db_now db) u r \<in> set (map (forget_user (db_now db) u)
      (sql_delete (\<lambda>r. sender_user_id r = u) (social_tips db)))"
    using assms by (auto simp: sql_delete_def)
  moreover have "\<not> tip_checks_ok (forget_user (db_now db) u r)"
    using assms by (simp add: forget_user_def tip_checks_ok_def)
  ultimately show ?thesis
    by (auto simp: delete_user_def Let_def list_all_iff sql_error_def)
qed

theorem recipient_of_targeted_tip_cannot_be_deleted_witness:
  "\<exists>m. delete_user bob (sys_db (ex_tat ex_trow4)) = (Inl (DatabaseError m), sys_db (ex_tat ex_trow4))"
  by (rule recipient_of_targeted_tip_cannot_be_deleted [of ex_trow4])
     (simp_all add: ex_trow_facts alice_def bob_def)

text \<open>Garbage collection only cancels what it should: a tip that either pass changes was a draft, or
  waiting for its funding, for more than seven days; it becomes cancelled, which its sender can still
  claw back, and nothing else about it changes but the update time.\<close>

theorem gc_cancels_only_stale_tips:
  assumes "reachable s" "r \<in> set (social_tips (sys_db s))"
    and "r' \<in> set (social_tips (run_tip_draft_gc_cycle (sys_db s))) \<union>
      set (social_tips (run_tip_lifecycle_gc_cycle (sys_db s)))" "row_id r' = row_id r" "r' \<noteq> r"
  shows "abs_status r \<in> {Draft, PendingConfirmation} \<and>
    created_at r < db_now (sys_db s) - seconds (7 * 24 * 3600) \<and>
    r' = r\<lparr>status := as_str Cancelled, updated_at := db_now (sys_db s)\<rparr> \<and>
    clawable (sender_user_id r) r'"
proof -
  let ?db = "sys_db s"
  have a: "status r \<in> {as_str Draft, as_str PendingConfirmation} \<and> older_than_7_days (db_now ?db) r \<and>
      r' = tip_write (db_now ?db) (set_gc_cancelled (db_now ?db)) r"
    using row_after_update_tips [OF reachable_unique(1) [OF assms(1)] _ assms(2) _ assms(4),
        of "set_gc_cancelled (db_now ?db)"] assms(3,5)
    by (auto simp: run_tip_draft_gc_cycle_def run_tip_lifecycle_gc_cycle_def log_stuck_claiming_def
        stmt_defs set_gc_cancelled_def)
  then have st: "abs_status r \<in> {Draft, PendingConfirmation}" by (auto simp: abs_status_def)
  with reachable_tip(3) [OF assms(1,2)] have "sweep_confirmed_at r = None" by (auto simp: phase_defs)
  with a st show ?thesis
    by (simp add: older_than_7_days_def tip_write_def set_gc_cancelled_def clawable_def)
qed

theorem gc_cancels_only_stale_tips_witness:
  "abs_status ex_row1 \<in> {Draft, PendingConfirmation} \<and>
    created_at ex_row1 < db_now (sys_db ex_late) - seconds (7 * 24 * 3600) \<and>
    ex_gone = ex_row1\<lparr>status := as_str Cancelled, updated_at := db_now (sys_db ex_late)\<rparr> \<and>
    clawable (sender_user_id ex_row1) ex_gone"
proof (rule gc_cancels_only_stale_tips [OF ex_late_reachable])
  have "social_tips (run_tip_lifecycle_gc_cycle (sys_db ex_late)) = [ex_gone]" by code_simp
  then show "ex_gone \<in> set (social_tips (run_tip_draft_gc_cycle (sys_db ex_late))) \<union>
      set (social_tips (run_tip_lifecycle_gc_cycle (sys_db ex_late)))" by simp
  show "row_id ex_gone = row_id ex_row1" "ex_gone \<noteq> ex_row1" by code_simp+
qed (simp add: ex_late_def)

text \<open>A database outage leaves nothing half done: while it lasts no handler and no background pass
  changes anything, and every authenticated transition answers with an error.\<close>

theorem outage_changes_nothing:
  assumes "db_outage db"
  shows "snd (api_create_social_tip lib cfg k header req db) = db \<and>
    (\<exists>e. api_cancel_social_tip lib cfg header i db = (Inl e, db)) \<and>
    (\<exists>e. api_attach_funding lib cfg header i txid db = (Inl e, db)) \<and>
    (\<exists>e. api_claim_social_tip lib cfg header i db = (Inl e, db)) \<and>
    (\<exists>e. api_confirm_sweep lib cfg header i txid db = (Inl e, db)) \<and>
    (\<exists>e. api_clawback_social_tip lib cfg header i db = (Inl e, db)) \<and>
    run_tip_confirmation_cycle ch db = (False, db) \<and> run_confirm_cycle locked ch db = db \<and>
    run_reorg_cycle locked ch db = db \<and> run_tip_draft_gc_cycle db = db \<and>
    run_tip_lifecycle_gc_cycle db = db"
proof (intro conjI)
  show "snd (api_create_social_tip lib cfg k header req db) = db"
    unfolding api_create_social_tip_def by (rule authed_outage) (simp add: outage_create [OF assms])
  note refused = authed_refused [where lib = lib and cfg = cfg and header = header and db = db]
  show "\<exists>e. api_cancel_social_tip lib cfg header i db = (Inl e, db)"
    unfolding api_cancel_social_tip_def
    by (rule refused) (simp add: stmt_bind_def outage_statements [OF assms])
  show "\<exists>e. api_attach_funding lib cfg header i txid db = (Inl e, db)"
    unfolding api_attach_funding_def
    by (rule refused) (simp add: stmt_bind_def outage_statements [OF assms] split: sum.splits)
  show "\<exists>e. api_claim_social_tip lib cfg header i db = (Inl e, db)"
    unfolding api_claim_social_tip_def
    by (rule refused) (simp add: stmt_bind_def outage_statements [OF assms])
  show "\<exists>e. api_confirm_sweep lib cfg header i txid db = (Inl e, db)"
    unfolding api_confirm_sweep_def
    by (rule refused) (simp add: stmt_bind_def outage_statements [OF assms] split: sum.splits)
  show "\<exists>e. api_clawback_social_tip lib cfg header i db = (Inl e, db)"
    unfolding api_clawback_social_tip_def
    by (rule refused) (simp add: stmt_bind_def outage_statements [OF assms])
qed (use assms in \<open>simp_all add: outage_passes\<close>)

theorem outage_changes_nothing_witness:
  "\<exists>e. api_claim_social_tip ex_lib ex_cfg (Some ''Bearer bob'') ex_tip (ex_db0\<lparr>db_outage := True\<rparr>) =
     (Inl e, ex_db0\<lparr>db_outage := True\<rparr>)"
  by (rule outage_changes_nothing [THEN conjunct2, THEN conjunct2, THEN conjunct2, THEN conjunct1]) simp

end
